(* ===== verification/C_Prelude.thy ===== *)
theory C_Prelude
  imports Complex_Main "HOL-Library.Word" "HOL-Library.Sublist"
begin

text \<open>
  The prelude of the development: what the C sources use of the language and of its
  library, and the automation the component theories share.

  \<^item> Characters are bytes; \<open>ccode\<close> is the code of a byte, and the \<open>ctype.h\<close>
    predicates are those of the C locale.
  \<^item> A C string is a \<^typ>\<open>string\<close> with no NUL byte in it; a \<open>char *\<close> that may be
    NULL is a \<^typ>\<open>string option\<close>. A heap string whose allocated size matters is a
    \<open>cbuf\<close>, the text together with the number of bytes allocated for it.
  \<^item> \<open>int\<close> and \<open>long\<close> values are unbounded integers with every narrowing
    conversion written out (\<open>to_int32\<close>, \<open>to_uint32\<close>, \<open>to_uint16\<close>).
  \<^item> A function of the source that calls \<open>exit\<close> returns a sum whose left side is
    the end of the process: \<open>Exit code stdout\<close>, or \<open>Crash\<close> where the source
    reads or writes memory it does not own.
\<close>

named_theorems cstr_simps "equations of the C string functions"
named_theorems cnum_simps "equations of the C number conversions"
named_theorems buf_simps "allocated sizes of heap strings"

section \<open>Characters\<close>

definition ccode :: "char \<Rightarrow> int" where
  "ccode c = of_char c"

definition isdigit :: "char \<Rightarrow> bool" where
  "isdigit c \<longleftrightarrow> 48 \<le> ccode c \<and> ccode c \<le> 57"

definition isupper :: "char \<Rightarrow> bool" where
  "isupper c \<longleftrightarrow> 65 \<le> ccode c \<and> ccode c \<le> 90"

definition islower :: "char \<Rightarrow> bool" where
  "islower c \<longleftrightarrow> 97 \<le> ccode c \<and> ccode c \<le> 122"

definition isalpha :: "char \<Rightarrow> bool" where
  "isalpha c \<longleftrightarrow> isupper c \<or> islower c"

definition isalnum :: "char \<Rightarrow> bool" where
  "isalnum c \<longleftrightarrow> isalpha c \<or> isdigit c"

definition isxdigit :: "char \<Rightarrow> bool" where
  "isxdigit c \<longleftrightarrow> isdigit c \<or> (65 \<le> ccode c \<and> ccode c \<le> 70) \<or> (97 \<le> ccode c \<and> ccode c \<le> 102)"

definition isspace :: "char \<Rightarrow> bool" where
  "isspace c \<longleftrightarrow> ccode c = 32 \<or> (9 \<le> ccode c \<and> ccode c \<le> 13)"

text \<open>The numeric value of a digit in a base up to 36; 99 for every other byte.\<close>

definition digit_val :: "char \<Rightarrow> int" where
  "digit_val c =
     (if isdigit c then ccode c - 48
      else if islower c then ccode c - 87
      else if isupper c then ccode c - 55
      else 99)"

definition tolower_code :: "char \<Rightarrow> int" where
  "tolower_code c = (if isupper c then ccode c + 32 else ccode c)"

lemmas ctype_defs = isdigit_def isupper_def islower_def isalpha_def isalnum_def
  isxdigit_def isspace_def digit_val_def tolower_code_def

section \<open>Strings\<close>

definition newline :: char where "newline = CHR 0x0A"

definition strspn :: "string \<Rightarrow> string \<Rightarrow> nat" where
  "strspn s accept = length (takeWhile (\<lambda>c. c \<in> set accept) s)"

text \<open>
  \<open>strsep(&p, delim)\<close> on a pointer that is not NULL: the token returned, and the new
  value of \<open>p\<close>, which is NULL when no delimiter was found.
\<close>

definition strsep :: "string \<Rightarrow> string \<Rightarrow> string \<times> string option" where
  "strsep delim s =
     (takeWhile (\<lambda>c. c \<notin> set delim) s,
      case dropWhile (\<lambda>c. c \<notin> set delim) s of [] \<Rightarrow> None | _ # r \<Rightarrow> Some r)"

lemma strsep_Some_length:
  assumes "strsep delim s = (tok, Some r)"
  shows "length r < length s"
proof -
  from assms obtain c where c: "dropWhile (\<lambda>c. c \<notin> set delim) s = c # r"
    by (auto simp: strsep_def split: list.split_asm)
  have "length (dropWhile (\<lambda>c. c \<notin> set delim) s) \<le> length s"
    by (rule length_dropWhile_le)
  with c show ?thesis by simp
qed

text \<open>All the tokens of a loop that calls \<open>strsep\<close> until the pointer is NULL.\<close>

function strtoks :: "string \<Rightarrow> string \<Rightarrow> string list" where
  "strtoks delim s =
     fst (strsep delim s) #
     (if snd (strsep delim s) = None then []
      else strtoks delim (the (snd (strsep delim s))))"
  by pat_completeness auto
termination
proof (relation "measure (\<lambda>(delim, s). length s)")
  fix delim s
  assume "snd (strsep delim s) \<noteq> None"
  then obtain tok r where "strsep delim s = (tok, Some r)"
    by (cases "strsep delim s") auto
  then show "((delim, the (snd (strsep delim s))), delim, s) \<in> measure (\<lambda>(delim, s). length s)"
    by (simp add: strsep_Some_length)
qed simp

declare strtoks.simps [simp del]

definition strncmp_eq :: "string \<Rightarrow> string \<Rightarrow> nat \<Rightarrow> bool" where
  "strncmp_eq s t n \<longleftrightarrow> take n s = take n t"

definition strcasecmp_eq :: "string \<Rightarrow> string \<Rightarrow> bool" where
  "strcasecmp_eq s t \<longleftrightarrow> map tolower_code s = map tolower_code t"

fun strstr :: "string \<Rightarrow> string \<Rightarrow> bool" where
  "strstr [] t = (t = [])"
| "strstr (c # s) t = (take (length t) (c # s) = t \<or> strstr s t)"

definition strpbrk :: "string \<Rightarrow> string \<Rightarrow> bool" where
  "strpbrk s accept \<longleftrightarrow> (\<exists>c \<in> set s. c \<in> set accept)"

text \<open>Texts with a separator between them.\<close>

fun join_with :: "string \<Rightarrow> string list \<Rightarrow> string" where
  "join_with sep [] = []"
| "join_with sep [x] = x"
| "join_with sep (x # y # xs) = x @ sep @ join_with sep (y # xs)"

text \<open>
  \<open>fgets(buf, n, f)\<close> on the bytes left in a file: the line read (with its newline, at
  most \<open>n - 1\<close> bytes) and the bytes left after it. The caller stops at the end of
  the file, where \<open>fgets\<close> returns NULL.
\<close>

definition fgets :: "nat \<Rightarrow> string \<Rightarrow> string \<times> string" where
  "fgets n s =
     (let l = takeWhile (\<lambda>c. c \<noteq> newline) s;
          k = min (n - 1) (if length l < length s then Suc (length l) else length l)
      in (take k s, drop k s))"

function fgets_all :: "nat \<Rightarrow> string \<Rightarrow> string list" where
  "fgets_all n s =
     (if s = [] \<or> n < 2 then [] else fst (fgets n s) # fgets_all n (snd (fgets n s)))"
  by pat_completeness auto
termination
proof (relation "measure (\<lambda>(n, s). length s)")
  fix n :: nat and s :: string
  assume "\<not> (s = [] \<or> n < 2)"
  then show "((n, snd (fgets n s)), n, s) \<in> measure (\<lambda>(n, s). length s)"
    by (cases s) (auto simp: fgets_def Let_def min_def)
qed simp

declare fgets_all.simps [simp del]

section \<open>Numbers\<close>

definition to_int32 :: "int \<Rightarrow> int" where
  "to_int32 x = (x + 2 ^ 31) mod 2 ^ 32 - 2 ^ 31"

definition to_uint32 :: "int \<Rightarrow> int" where
  "to_uint32 x = x mod 2 ^ 32"

definition to_uint16 :: "int \<Rightarrow> int" where
  "to_uint16 x = x mod 2 ^ 16"

definition to_uint8 :: "int \<Rightarrow> int" where
  "to_uint8 x = x mod 2 ^ 8"

definition LONG_MAX :: int where "LONG_MAX = 9223372036854775807"
definition LONG_MIN :: int where "LONG_MIN = - 9223372036854775808"
definition INT_MAX :: int where "INT_MAX = 2147483647"
definition INT_MIN :: int where "INT_MIN = - 2147483648"

text \<open>Digits of a non-negative number, most significant first.\<close>

definition dig :: "int \<Rightarrow> char" where
  "dig d = ''0123456789ABCDEF'' ! nat d"

function base_str :: "int \<Rightarrow> int \<Rightarrow> string" where
  "base_str b n =
     (if n < b \<or> b < 2 then [dig n] else base_str b (n div b) @ [dig (n mod b)])"
  by pat_completeness auto
termination
proof (relation "measure (\<lambda>(b, n). nat n)")
  fix b n :: int
  assume "\<not> (n < b \<or> b < 2)"
  then have "n div b < n" and "0 < n"
    by (auto intro: int_div_less_self)
  then show "((b, n div b), b, n) \<in> measure (\<lambda>(b, n). nat n)"
    by simp
qed simp

declare base_str.simps [simp del]

abbreviation dec_str :: "int \<Rightarrow> string" where "dec_str \<equiv> base_str 10"

text \<open>\<open>%d\<close> and \<open>%ld\<close>; \<open>%02X\<close> of an unsigned 32 bit argument; \<open>%s\<close> of a pointer
  that may be NULL, as glibc prints it.\<close>

definition fmt_d :: "int \<Rightarrow> string" where
  "fmt_d x = (if x < 0 then CHR ''-'' # dec_str (- x) else dec_str x)"

definition fmt_02X :: "int \<Rightarrow> string" where
  "fmt_02X x = (let h = base_str 16 (to_uint32 x) in replicate (2 - length h) (CHR ''0'') @ h)"

definition fmt_s :: "string option \<Rightarrow> string" where
  "fmt_s p = (case p of None \<Rightarrow> ''(null)'' | Some s \<Rightarrow> s)"

text \<open>
  A string used as a format with no arguments: \<open>%%\<close> prints one percent sign, any other
  conversion reads an argument that was not passed (\<open>None\<close>).
\<close>

fun printf0 :: "string \<Rightarrow> string option" where
  "printf0 [] = Some []"
| "printf0 [c] = (if c = CHR ''%'' then None else Some [c])"
| "printf0 (c # d # s) =
     (if c = CHR ''%''
      then (if d = CHR ''%'' then map_option (Cons (CHR ''%'')) (printf0 s) else None)
      else map_option (Cons c) (printf0 (d # s)))"

text \<open>\<open>strtol(s, NULL, b)\<close>: white space, a sign, for base 16 an optional \<open>0x\<close>, then
  the longest run of digits; the value saturates and \<open>errno\<close> is \<open>ERANGE\<close> then.\<close>

definition digits_val :: "int \<Rightarrow> string \<Rightarrow> int" where
  "digits_val b ds = foldl (\<lambda>a c. a * b + digit_val c) 0 ds"

definition strtol_sign :: "string \<Rightarrow> bool \<times> string" where
  "strtol_sign s =
     (case dropWhile isspace s of
        c # r \<Rightarrow> (if c = CHR ''-'' then (True, r) else if c = CHR ''+'' then (False, r)
                  else (False, c # r))
      | [] \<Rightarrow> (False, []))"

fun strip_0x :: "int \<Rightarrow> string \<Rightarrow> string" where
  "strip_0x b (z # x # d # r) =
     (if b = 16 \<and> z = CHR ''0'' \<and> (x = CHR ''x'' \<or> x = CHR ''X'') \<and> isxdigit d
      then d # r else z # x # d # r)"
| "strip_0x b s = s"

definition strtol_exact :: "int \<Rightarrow> string \<Rightarrow> int" where
  "strtol_exact b s =
     (let (neg, r) = strtol_sign s;
          v = digits_val b (takeWhile (\<lambda>c. digit_val c < b) (strip_0x b r))
      in if neg then - v else v)"

definition strtol_erange :: "int \<Rightarrow> string \<Rightarrow> bool" where
  "strtol_erange b s \<longleftrightarrow> strtol_exact b s < LONG_MIN \<or> LONG_MAX < strtol_exact b s"

definition strtol :: "int \<Rightarrow> string \<Rightarrow> int" where
  "strtol b s = max LONG_MIN (min LONG_MAX (strtol_exact b s))"

text \<open>Where \<open>strtol\<close> stops: behind the digits, or at the start of the text without a number.\<close>

definition strtol_end :: "int \<Rightarrow> string \<Rightarrow> string" where
  "strtol_end b s =
     (let d = strip_0x b (snd (strtol_sign s)); ds = takeWhile (\<lambda>c. digit_val c < b) d
      in if ds = [] then s else drop (length ds) d)"

section \<open>Heap strings and the end of the process\<close>

record cbuf =
  cstr :: string
  cap :: nat

text \<open>The text and its terminating NUL lie within the allocation.\<close>

definition cbuf_ok :: "cbuf \<Rightarrow> bool" where
  "cbuf_ok b \<longleftrightarrow> length (cstr b) < cap b"

definition buf_ok :: "cbuf option \<Rightarrow> bool" where
  "buf_ok p \<longleftrightarrow> (case p of None \<Rightarrow> True | Some b \<Rightarrow> cbuf_ok b)"

definition buf_str :: "cbuf option \<Rightarrow> string option" where
  "buf_str p = map_option cstr p"

datatype mp_end = Exit int string | Crash

section \<open>Lemmas on characters and digits\<close>

lemma ccode_range: "0 \<le> ccode c" "ccode c < 256"
proof -
  have "ccode c = int (of_char c)" by (simp only: ccode_def of_nat_of_char)
  moreover have "of_char c < (256 :: nat)" by (rule nat_of_char_less_256)
  ultimately show "0 \<le> ccode c" "ccode c < 256" by simp_all
qed

lemma ccode_inject: "ccode c = ccode d \<longleftrightarrow> c = d"
  by (simp add: ccode_def)

lemma digit_cases:
  assumes "0 \<le> d" "d < (16 :: int)"
  obtains "d = 0" | "d = 1" | "d = 2" | "d = 3" | "d = 4" | "d = 5" | "d = 6" | "d = 7"
    | "d = 8" | "d = 9" | "d = 10" | "d = 11" | "d = 12" | "d = 13" | "d = 14" | "d = 15"
proof -
  have "d = 0 \<or> d = 1 \<or> d = 2 \<or> d = 3 \<or> d = 4 \<or> d = 5 \<or> d = 6 \<or> d = 7 \<or> d = 8 \<or> d = 9 \<or>
      d = 10 \<or> d = 11 \<or> d = 12 \<or> d = 13 \<or> d = 14 \<or> d = 15"
    using assms by presburger
  then show thesis using that by blast
qed

lemma ccode_dig:
  assumes "0 \<le> d" "d < 16"
  shows "ccode (dig d) = (if d < 10 then 48 + d else 55 + d)"
  using assms by (cases rule: digit_cases) (simp_all add: dig_def ccode_def)

lemma dig_facts:
  assumes "0 \<le> d" "d < 16"
  shows digit_val_dig: "digit_val (dig d) = d"
    and isspace_dig: "\<not> isspace (dig d)"
    and isxdigit_dig: "isxdigit (dig d)"
    and isalnum_dig: "isalnum (dig d)"
  using assms by (auto simp: ctype_defs ccode_dig)

lemma isdigit_dig: "0 \<le> d \<Longrightarrow> d < 10 \<Longrightarrow> isdigit (dig d)"
  by (simp add: isdigit_def ccode_dig)

lemma dig_neq:
  assumes "0 \<le> d" "d < 16"
  shows "dig d \<noteq> CHR ''-''" "dig d \<noteq> CHR ''+''" "dig d \<noteq> newline" "dig d \<noteq> CHR ''%''"
    "dig d \<noteq> CHR '':''" "dig d \<noteq> CHR '',''" "dig d \<noteq> CHR '';''" "dig d \<noteq> CHR ''.''"
    "dig d \<noteq> CHR '' ''"
  using assms by (cases rule: digit_cases; simp add: dig_def newline_def)+

lemma isdigit_digit_val: "isdigit c \<longleftrightarrow> digit_val c < 10"
  using ccode_range [of c] by (auto simp: ctype_defs)

lemma digit_val_nonneg: "0 \<le> digit_val c"
  using ccode_range [of c] by (auto simp: ctype_defs)

section \<open>Lemmas on numbers\<close>

lemma base_str_digits:
  assumes "0 \<le> n" "2 \<le> b" "b \<le> 16" "c \<in> set (base_str b n)"
  shows "\<exists>d. 0 \<le> d \<and> d < b \<and> c = dig d"
  using assms
proof (induction b n rule: base_str.induct)
  case (1 b n)
  show ?case
  proof (cases "n < b \<or> b < 2")
    case True
    with "1.prems" show ?thesis by (auto simp: base_str.simps [of b n])
  next
    case False
    with "1.prems" have mem: "c \<in> set (base_str b (n div b)) \<or> c = dig (n mod b)"
      by (auto simp add: base_str.simps [of b n])
    have "0 \<le> n div b" using "1.prems" by (simp add: pos_imp_zdiv_nonneg_iff)
    moreover have "0 \<le> n mod b \<and> n mod b < b"
      using "1.prems" by (simp add: pos_mod_bound)
    ultimately show ?thesis
      using mem False "1.IH" "1.prems" by blast
  qed
qed

lemma base_str_not_Nil [simp]: "base_str b n \<noteq> []"
  by (subst base_str.simps) simp

lemma digits_val_snoc: "digits_val b (ds @ [c]) = digits_val b ds * b + digit_val c"
  by (simp add: digits_val_def)

lemma digits_val_base_str [cnum_simps]:
  assumes "0 \<le> n" "2 \<le> b" "b \<le> 16"
  shows "digits_val b (base_str b n) = n"
  using assms
proof (induction b n rule: base_str.induct)
  case (1 b n)
  show ?case
  proof (cases "n < b \<or> b < 2")
    case True
    with "1.prems" show ?thesis
      by (auto simp: base_str.simps [of b n] digits_val_def digit_val_dig)
  next
    case False
    have "0 \<le> n div b" using "1.prems" by (simp add: pos_imp_zdiv_nonneg_iff)
    with False "1.IH" "1.prems" have IH: "digits_val b (base_str b (n div b)) = n div b"
      by simp
    have "digit_val (dig (n mod b)) = n mod b"
      using "1.prems" False by (intro digit_val_dig) (auto intro: less_le_trans [OF pos_mod_bound])
    with IH False show ?thesis
      by (simp add: base_str.simps [of b n] digits_val_snoc)
  qed
qed

lemma takeWhile_base_str:
  assumes "0 \<le> n" "2 \<le> b" "b \<le> 16"
  shows "takeWhile (\<lambda>c. digit_val c < b) (base_str b n) = base_str b n"
  using assms by (auto simp: takeWhile_eq_all_conv digit_val_dig dest: base_str_digits)

lemma hd_base_str:
  assumes "0 \<le> n" "2 \<le> b" "b \<le> 16"
  obtains d r where "base_str b n = dig d # r" "0 \<le> d" "d < b"
proof -
  obtain c r where cr: "base_str b n = c # r"
    by (cases "base_str b n") auto
  with base_str_digits [OF assms, of c] that show thesis by auto
qed

lemma strip_0x_base10 [simp]: "strip_0x 10 s = s"
  by (cases "(10 :: int, s)" rule: strip_0x.cases) auto

lemma strtol_sign_base_str:
  assumes "0 \<le> n" "2 \<le> b" "b \<le> 16"
  shows "strtol_sign (base_str b n) = (False, base_str b n)"
    and "strtol_sign (CHR ''-'' # base_str b n) = (True, base_str b n)"
proof -
  obtain d r where dr: "base_str b n = dig d # r" "0 \<le> d" "d < b"
    using hd_base_str [OF assms] by blast
  with assms show "strtol_sign (base_str b n) = (False, base_str b n)"
    by (simp add: strtol_sign_def isspace_dig dig_neq)
  show "strtol_sign (CHR ''-'' # base_str b n) = (True, base_str b n)"
    by (simp add: strtol_sign_def isspace_def ccode_def)
qed

lemma strtol_exact_fmt_d: "strtol_exact 10 (fmt_d x) = x"
  by (simp add: strtol_exact_def fmt_d_def strtol_sign_base_str takeWhile_base_str
      digits_val_base_str)

lemma strtol_fmt_d [cnum_simps]:
  "LONG_MIN \<le> x \<Longrightarrow> x \<le> LONG_MAX \<Longrightarrow> strtol 10 (fmt_d x) = x"
  by (simp add: strtol_def strtol_exact_fmt_d)

lemma strtol_range: "LONG_MIN \<le> strtol b s" "strtol b s \<le> LONG_MAX"
  by (auto simp: strtol_def LONG_MIN_def LONG_MAX_def)

lemma to_int32_id [cnum_simps]: "INT_MIN \<le> x \<Longrightarrow> x \<le> INT_MAX \<Longrightarrow> to_int32 x = x"
  by (simp add: to_int32_def INT_MIN_def INT_MAX_def)

lemma to_int32_range: "INT_MIN \<le> to_int32 x" "to_int32 x \<le> INT_MAX"
  using pos_mod_bound [of "2 ^ 32" "x + 2 ^ 31"]
  by (auto simp: to_int32_def INT_MIN_def INT_MAX_def)

lemma length_fmt_02X:
  assumes "0 \<le> x" "x < 256"
  shows "length (fmt_02X x) = 2"
proof -
  have "to_uint32 x = x" using assms by (simp add: to_uint32_def)
  moreover have "length (base_str 16 x) \<le> 2"
  proof (cases "x < 16")
    case True
    then show ?thesis by (simp add: base_str.simps [of 16 x])
  next
    case False
    then have "x div 16 < 16" using assms by simp
    with False show ?thesis
      by (simp add: base_str.simps [of 16 x] base_str.simps [of 16 "x div 16"])
  qed
  ultimately show ?thesis by (simp add: fmt_02X_def Let_def)
qed

section \<open>Lemmas on strings\<close>

lemma strsep_none [cstr_simps]:
  "set delim \<inter> set s = {} \<Longrightarrow> strsep delim s = (s, None)"
proof -
  assume d: "set delim \<inter> set s = {}"
  then have "takeWhile (\<lambda>c. c \<notin> set delim) s = s" by (auto simp: takeWhile_eq_all_conv)
  moreover from d have "dropWhile (\<lambda>c. c \<notin> set delim) s = []" by (auto simp: dropWhile_eq_Nil_conv)
  ultimately show ?thesis by (simp only: strsep_def list.case)
qed

lemma strsep_hit [cstr_simps]:
  assumes "set delim \<inter> set s = {}" "c \<in> set delim"
  shows "strsep delim (s @ c # r) = (s, Some r)"
proof -
  have "\<And>x. x \<in> set s \<Longrightarrow> x \<notin> set delim" using assms(1) by auto
  then show ?thesis
    using assms(2) by (simp add: strsep_def takeWhile_append dropWhile_append)
qed

lemma strsep_cases:
  obtains (none) "strsep delim s = (s, None)" "set delim \<inter> set s = {}"
  | (hit) a c r where "strsep delim s = (a, Some r)" "s = a @ c # r" "c \<in> set delim"
      "set delim \<inter> set a = {}"
proof (cases "dropWhile (\<lambda>c. c \<notin> set delim) s")
  case Nil
  then have "set delim \<inter> set s = {}" by (auto simp: dropWhile_eq_Nil_conv)
  then show thesis using none strsep_none by blast
next
  case (Cons c r)
  let ?a = "takeWhile (\<lambda>c. c \<notin> set delim) s"
  have s: "s = ?a @ c # r" using Cons takeWhile_dropWhile_id [of "\<lambda>c. c \<notin> set delim" s] by simp
  have c: "c \<in> set delim" using Cons hd_dropWhile [of "\<lambda>c. c \<notin> set delim" s] by simp
  have a: "set delim \<inter> set ?a = {}" by (auto dest: set_takeWhileD)
  have "strsep delim s = (?a, Some r)" by (simp add: strsep_def Cons)
  then show thesis using hit s c a by blast
qed

lemma strtoks_none [cstr_simps]: "set delim \<inter> set s = {} \<Longrightarrow> strtoks delim s = [s]"
  by (subst strtoks.simps) (simp add: strsep_none)

lemma strtoks_hit [cstr_simps]:
  assumes "set delim \<inter> set s = {}" "c \<in> set delim"
  shows "strtoks delim (s @ c # r) = s # strtoks delim r"
  by (subst strtoks.simps) (simp add: strsep_hit assms)

lemma strtoks_not_Nil [simp]: "strtoks delim s \<noteq> []"
  by (subst strtoks.simps) simp

lemma strtoks_no_delim: "t \<in> set (strtoks delim s) \<Longrightarrow> set delim \<inter> set t = {}"
proof (induction delim s rule: strtoks.induct)
  case (1 delim s)
  show ?case
  proof (cases rule: strsep_cases [of delim s])
    case none
    with "1.prems" show ?thesis by (simp add: strtoks_none)
  next
    case (hit a c r)
    with "1.prems" have "t = a \<or> t \<in> set (strtoks delim r)" by (simp add: strtoks_hit)
    with hit "1.IH" show ?thesis by auto
  qed
qed

lemma join_with_Cons: "xs \<noteq> [] \<Longrightarrow> join_with sep (x # xs) = x @ sep @ join_with sep xs"
  by (cases xs) simp_all

lemma join_with_append:
  "ys \<noteq> [] \<Longrightarrow> xs \<noteq> [] \<Longrightarrow> join_with sep (xs @ ys) = join_with sep xs @ sep @ join_with sep ys"
  by (induction sep xs rule: join_with.induct) (simp_all add: join_with_Cons)

text \<open>The tokens of a string and their separators make up the string again.\<close>

lemma join_strtoks: "join_with [c] (strtoks [c] s) = s"
proof (induction "[c]" s rule: strtoks.induct)
  case (1 s)
  show ?case
  proof (cases rule: strsep_cases [of "[c]" s])
    case none
    then show ?thesis by (simp add: strtoks_none)
  next
    case (hit a d r)
    then have "strtoks [c] s = a # strtoks [c] r" by (simp add: strtoks_hit)
    with hit 1 show ?thesis by (simp add: join_with_Cons)
  qed
qed

lemma strtoks_join:
  assumes "ts \<noteq> []" "\<And>t. t \<in> set ts \<Longrightarrow> c \<notin> set t"
  shows "strtoks [c] (join_with [c] ts) = ts"
  using assms by (induction "[c]" ts rule: join_with.induct) (simp_all add: strtoks_none strtoks_hit)

lemma printf0_plain: "CHR ''%'' \<notin> set s \<Longrightarrow> printf0 s = Some s"
  by (induction s rule: printf0.induct) auto

lemma strstr_sublist: "strstr s t \<longleftrightarrow> sublist t s"
proof (induction s)
  case Nil
  then show ?case by simp
next
  case (Cons c s)
  have "take (length t) (c # s) = t \<longleftrightarrow> prefix t (c # s)"
    by (metis append_eq_conv_conj prefix_def take_is_prefix)
  with Cons show ?case by (simp add: sublist_Cons_right)
qed

lemma fgets_split: "fst (fgets n s) @ snd (fgets n s) = s"
  by (simp add: fgets_def Let_def)

lemma concat_fgets_all: "2 \<le> n \<Longrightarrow> concat (fgets_all n s) = s"
proof (induction n s rule: fgets_all.induct)
  case (1 n s)
  show ?case
  proof (cases "s = []")
    case True
    then show ?thesis by (simp add: fgets_all.simps [of n "[]"])
  next
    case False
    with 1 fgets_split [of n s] show ?thesis by (simp add: fgets_all.simps [of n s])
  qed
qed

lemma buf_ok_simps [simp]: "buf_ok None" "buf_ok (Some b) = cbuf_ok b"
  by (simp_all add: buf_ok_def)

lemma buf_str_simps [simp]: "buf_str None = None" "buf_str (Some b) = Some (cstr b)"
  by (simp_all add: buf_str_def)

text \<open>Lines that fit the buffer are read back one by one.\<close>

lemma fgets_line:
  assumes "newline \<notin> set l" "length l + 1 < n"
  shows "fgets n (l @ newline # r) = (l @ [newline], r)"
proof -
  have "takeWhile (\<lambda>c. c \<noteq> newline) (l @ newline # r) = l"
    using assms(1) by (subst takeWhile_append2) auto
  then show ?thesis using assms(2) by (simp add: fgets_def Let_def)
qed

lemma fgets_all_printed:
  assumes "\<forall>l \<in> set ls. newline \<notin> set l \<and> length l + 1 < n"
  shows "fgets_all n (concat (map (\<lambda>l. l @ [newline]) ls)) = map (\<lambda>l. l @ [newline]) ls"
  using assms
proof (induction ls)
  case Nil
  then show ?case by (subst fgets_all.simps) simp
next
  case (Cons l ls)
  let ?r = "concat (map (\<lambda>l. l @ [newline]) ls)"
  have "fgets n (l @ newline # ?r) = (l @ [newline], ?r)" using Cons.prems by (intro fgets_line) auto
  moreover have "\<not> n < 2" using Cons.prems by auto
  ultimately show ?case using Cons by (subst fgets_all.simps) simp
qed

section \<open>Bytes\<close>

text \<open>A number as one byte, and a number from its digits to the base 256.\<close>

definition byte :: "int \<Rightarrow> char" where
  "byte x = char_of (x mod 256)"

lemma ccode_byte [simp]: "ccode (byte x) = x mod 256"
  by (simp add: ccode_def byte_def)

lemma base256:
  "n = 256 * a + r0 \<Longrightarrow> a = 256 * b + r1 \<Longrightarrow> b = 256 * c + r2 \<Longrightarrow> c * 2 ^ 24 + r2 * 2 ^ 16 + r1 * 2 ^ 8 + r0 = (n :: int)"
  by simp

text \<open>The bytes of a buffer as a C string, and a loop whose body may end the process.\<close>

definition c_string :: "string \<Rightarrow> string" where
  "c_string s = takeWhile (\<lambda>c. c \<noteq> CHR 0x00) s"

lemma c_string_nul [simp]: "CHR 0x00 \<notin> set s \<Longrightarrow> c_string (s @ [CHR 0x00]) = s"
  by (simp add: c_string_def takeWhile_append)

fun sum_fold :: "('a \<Rightarrow> 'b \<Rightarrow> 'e + 'b) \<Rightarrow> 'a list \<Rightarrow> 'b \<Rightarrow> 'e + 'b" where
  "sum_fold f [] b = Inr b"
| "sum_fold f (x # xs) b = (case f x b of Inl e \<Rightarrow> Inl e | Inr b \<Rightarrow> sum_fold f xs b)"

end
