(* ===== verification/MP_Common.thy ===== *)
theory MP_Common
  imports C_Prelude
begin

text \<open>
  \<^verbatim>\<open>lib/mp_common.c\<close>: the global state of a plugin, the functions that print a result
  and end the process, and the message stacks \<open>set_ok\<close>, \<open>set_okonly\<close>,
  \<open>set_warning\<close> and \<open>set_critical\<close> that \<open>mp_exit\<close> prints.

  A call such as \<open>ok(fmt, ...)\<close> is modelled on the text that \<open>fmt\<close> and its
  arguments print; the caller's model builds that text. Standard output is the field
  \<open>stdout\<close>, the text printed so far. The locale \<open>message_stack\<close> is the contract
  the three stacks share: what one call does to the plugin state and to its stack.
\<close>

named_theorems mp_defs "definitions of the plugin library, for evaluation"

section \<open>State\<close>

abbreviation STATE_OK :: int where "STATE_OK \<equiv> 0"
abbreviation STATE_WARNING :: int where "STATE_WARNING \<equiv> 1"
abbreviation STATE_CRITICAL :: int where "STATE_CRITICAL \<equiv> 2"
abbreviation STATE_UNKNOWN :: int where "STATE_UNKNOWN \<equiv> 3"
abbreviation STATE_DEPENDENT :: int where "STATE_DEPENDENT \<equiv> 4"

record mp_globals =
  progname :: string
  progusage :: string
  progvers :: string
  progauth :: string
  progcopy :: string
  mp_timeout :: int
  mp_verbose :: int
  mp_state :: int
  mp_out_ok :: "cbuf option"
  mp_out_okonly :: "cbuf option"
  mp_out_warning :: "cbuf option"
  mp_out_critical :: "cbuf option"
  mp_showperfdata :: bool
  mp_perfdata :: "cbuf option"
  stdout :: string

definition mp_init :: "string \<Rightarrow> string \<Rightarrow> string \<Rightarrow> string \<Rightarrow> string \<Rightarrow> mp_globals" where
  "mp_init name usg vers auth copy =
     \<lparr>progname = name, progusage = usg, progvers = vers, progauth = auth, progcopy = copy,
      mp_timeout = 10, mp_verbose = 0, mp_state = -1, mp_out_ok = None,
      mp_out_okonly = None, mp_out_warning = None, mp_out_critical = None,
      mp_showperfdata = False, mp_perfdata = None, stdout = []\<rparr>"

definition nl :: string where "nl = [newline]"

definition mp_print :: "string \<Rightarrow> mp_globals \<Rightarrow> mp_globals" where
  "mp_print s g = g\<lparr>stdout := stdout g @ s\<rparr>"

section \<open>Functions that end the plugin\<close>

text \<open>The performance data as \<open>sep\<close> and the text, where it is shown.\<close>

definition perf_out :: "string \<Rightarrow> mp_globals \<Rightarrow> string" where
  "perf_out sep g =
     (case mp_perfdata g of
        Some b \<Rightarrow> (if mp_showperfdata g then sep @ cstr b else [])
      | None \<Rightarrow> [])"

definition ok :: "string \<Rightarrow> mp_globals \<Rightarrow> mp_end" where
  "ok msg g = Exit STATE_OK (stdout g @ ''OK - '' @ msg @ perf_out ''| '' g @ nl)"

definition warning :: "string \<Rightarrow> mp_globals \<Rightarrow> mp_end" where
  "warning msg g =
     Exit STATE_WARNING (stdout g @ ''WARNING - '' @ msg @ perf_out '' | '' g @ nl)"

definition critical :: "string \<Rightarrow> mp_globals \<Rightarrow> mp_end" where
  "critical msg g =
     Exit STATE_CRITICAL (stdout g @ ''CRITICAL - '' @ msg @ perf_out '' | '' g @ nl)"

definition unknown :: "string \<Rightarrow> mp_globals \<Rightarrow> mp_end" where
  "unknown msg g =
     Exit STATE_UNKNOWN (stdout g @ ''UNKNOWN - '' @ msg @ perf_out '' | '' g @ nl)"

definition print_usage :: "mp_globals \<Rightarrow> string" where
  "print_usage g = ''Usage:'' @ nl @ '' '' @ progname g @ '' '' @ progusage g @ nl"

definition usage :: "string \<Rightarrow> mp_globals \<Rightarrow> mp_end" where
  "usage msg g = Exit STATE_UNKNOWN (stdout g @ msg @ nl @ print_usage g)"

definition print_revision :: "string \<Rightarrow> string \<Rightarrow> mp_globals \<Rightarrow> string" where
  "print_revision package package_version g =
     progname g @ '' v'' @ progvers g @ '' ('' @ package @ '' '' @ package_version @ '')'' @ nl"

definition print_copyright :: "mp_globals \<Rightarrow> string" where
  "print_copyright g =
     ''Copyright (c) '' @ progcopy g @ '' '' @ progauth g @ nl @
     ''Copyright (c) 2010-2014 Monitoring Plugins'' @ nl"

text \<open>A format string taken from data: the source passes the text itself as the format.\<close>

definition exit_fmt0 :: "(string \<Rightarrow> mp_globals \<Rightarrow> mp_end) \<Rightarrow> string \<Rightarrow> mp_globals \<Rightarrow> mp_end" where
  "exit_fmt0 f fmt g = (case printf0 fmt of None \<Rightarrow> Crash | Some s \<Rightarrow> f s g)"

definition SIGALRM :: int where "SIGALRM = 14"

definition timeout_alarm_handler :: "int \<Rightarrow> mp_globals \<Rightarrow> mp_end + mp_globals" where
  "timeout_alarm_handler signo g =
     (if signo = SIGALRM
      then Inl (critical (''Plugin timed out after '' @ fmt_d (to_int32 (mp_timeout g)) @
                 '' seconds'' @ nl) g)
      else Inr g)"

definition mp_noneroot_die :: "int \<Rightarrow> mp_globals \<Rightarrow> mp_end + mp_globals" where
  "mp_noneroot_die euid g =
     (if euid \<noteq> 0 then Inl (usage ''This plugin must be run as root.'' g) else Inr g)"

section \<open>Message stacks\<close>

text \<open>
  The buffer a \<open>set_\<close> function leaves: \<open>mp_realloc\<close> to the old text, the message and
  three more bytes; or \<open>mp_malloc(len)\<close>, \<open>len\<close> the length of the message, for the
  first one.
\<close>

definition push_msg :: "cbuf option \<Rightarrow> string \<Rightarrow> cbuf option" where
  "push_msg p msg =
     (case p of
        Some b \<Rightarrow> Some \<lparr>cstr = cstr b @ '', '' @ msg,
                          cap = length (cstr b) + length msg + 3\<rparr>
      | None \<Rightarrow> Some \<lparr>cstr = msg, cap = length msg\<rparr>)"

definition set_ok :: "string \<Rightarrow> mp_globals \<Rightarrow> mp_globals" where
  "set_ok msg g =
     (let g = (if mp_state g < STATE_OK then g\<lparr>mp_state := STATE_OK\<rparr> else g)
      in g\<lparr>mp_out_ok := push_msg (mp_out_ok g) msg\<rparr>)"

definition set_okonly :: "string \<Rightarrow> mp_globals \<Rightarrow> mp_globals" where
  "set_okonly msg g =
     (if mp_state g > STATE_OK then g
      else g\<lparr>mp_out_okonly := Some \<lparr>cstr = msg, cap = length msg\<rparr>\<rparr>)"

definition set_warning :: "string \<Rightarrow> mp_globals \<Rightarrow> mp_globals" where
  "set_warning msg g =
     (let g = (if mp_state g < STATE_WARNING then g\<lparr>mp_state := STATE_WARNING\<rparr> else g)
      in g\<lparr>mp_out_warning := push_msg (mp_out_warning g) msg\<rparr>)"

definition set_critical :: "string \<Rightarrow> mp_globals \<Rightarrow> mp_globals" where
  "set_critical msg g =
     (let g = (if mp_state g < STATE_CRITICAL then g\<lparr>mp_state := STATE_CRITICAL\<rparr> else g)
      in g\<lparr>mp_out_critical := push_msg (mp_out_critical g) msg\<rparr>)"

definition exit_prefix :: "int \<Rightarrow> string" where
  "exit_prefix st =
     (if st = STATE_OK then ''OK - ''
      else if st = STATE_WARNING then ''WARNING - ''
      else if st = STATE_CRITICAL then ''CRITICAL - ''
      else [])"

definition mp_exit :: "string \<Rightarrow> mp_globals \<Rightarrow> mp_end" where
  "mp_exit msg g =
     (let st = (if mp_state g = -1 then STATE_OK else mp_state g)
      in Exit st
          (stdout g @ exit_prefix st @ msg @
           (case mp_out_critical g of None \<Rightarrow> [] | Some b \<Rightarrow> '' '' @ cstr b) @
           (case mp_out_warning g of None \<Rightarrow> []
            | Some b \<Rightarrow> (if st > STATE_WARNING then '' Warning:'' else []) @ '' '' @ cstr b) @
           (case mp_out_ok g of None \<Rightarrow> []
            | Some b \<Rightarrow> (if st > STATE_OK then '' OK:'' else []) @ '' '' @ cstr b) @
           (case mp_out_okonly g of None \<Rightarrow> []
            | Some b \<Rightarrow> if st = STATE_OK then '' '' @ cstr b else []) @
           perf_out '' | '' g @ nl))"

lemmas exit_defs [mp_defs] = ok_def warning_def critical_def unknown_def usage_def mp_exit_def
  print_usage_def perf_out_def nl_def newline_def exit_fmt0_def mp_print_def

fun exit_code :: "mp_end \<Rightarrow> int option" where
  "exit_code (Exit c _) = Some c"
| "exit_code Crash = None"

fun exit_out :: "mp_end \<Rightarrow> string" where
  "exit_out (Exit _ s) = s"
| "exit_out Crash = []"

section \<open>A sequence of messages\<close>

datatype mp_call = SetOk string | SetOkonly string | SetWarning string | SetCritical string

fun mp_call_run :: "mp_call \<Rightarrow> mp_globals \<Rightarrow> mp_globals" where
  "mp_call_run (SetOk s) = set_ok s"
| "mp_call_run (SetOkonly s) = set_okonly s"
| "mp_call_run (SetWarning s) = set_warning s"
| "mp_call_run (SetCritical s) = set_critical s"

text \<open>The specification: the severity of a call, and the worst one of a sequence.\<close>

fun severity :: "mp_call \<Rightarrow> int" where
  "severity (SetOk s) = STATE_OK"
| "severity (SetOkonly s) = STATE_OK"
| "severity (SetWarning s) = STATE_WARNING"
| "severity (SetCritical s) = STATE_CRITICAL"

definition worst :: "mp_call list \<Rightarrow> int" where
  "worst cs = foldr (\<lambda>c st. max (severity c) st) cs STATE_OK"

abbreviation join_msgs :: "string list \<Rightarrow> string" where
  "join_msgs \<equiv> join_with '', ''"

section \<open>The contract of a message stack\<close>

locale message_stack =
  fixes add :: "string \<Rightarrow> 'g \<Rightarrow> 'g"
    and level :: int
    and state :: "'g \<Rightarrow> int"
    and stack :: "'g \<Rightarrow> cbuf option"
  assumes state_add: "state (add m g) = max level (state g)"
    and stack_add: "stack (add m g) = push_msg (stack g) m"
begin

lemma state_adds: "state (fold add ms g) = (if ms = [] then state g else max level (state g))"
  by (induction ms arbitrary: g) (auto simp: state_add)

lemma stack_adds_Some:
  assumes "stack g = Some b"
  shows "buf_str (stack (fold add ms g)) = Some (join_msgs (cstr b # ms))"
  using assms
proof (induction ms arbitrary: g b)
  case Nil
  then show ?case by simp
next
  case (Cons m ms)
  then have "stack (add m g) = Some \<lparr>cstr = cstr b @ '', '' @ m,
      cap = length (cstr b) + length m + 3\<rparr>"
    by (simp add: stack_add push_msg_def)
  from Cons.IH [OF this] show ?case
    by (cases ms) simp_all
qed

lemma stack_adds:
  assumes "stack g = None" "ms \<noteq> []"
  shows "buf_str (stack (fold add ms g)) = Some (join_msgs ms)"
proof -
  obtain m ms' where ms: "ms = m # ms'"
    using assms(2) by (cases ms) auto
  have "stack (add m g) = Some \<lparr>cstr = m, cap = length m\<rparr>"
    using assms(1) by (simp add: stack_add push_msg_def)
  from stack_adds_Some [OF this, of ms'] show ?thesis
    by (simp add: ms)
qed

text \<open>The allocation is one byte short after the first message, and exact after the next.\<close>

lemma first_add_overflows: "stack g = None \<Longrightarrow> \<not> buf_ok (stack (add m g))"
  by (simp add: stack_add push_msg_def cbuf_ok_def)

lemma next_add_fits: "stack g \<noteq> None \<Longrightarrow> buf_ok (stack (add m g))"
  by (auto simp: stack_add push_msg_def cbuf_ok_def)

end

interpretation ok_stack: message_stack set_ok STATE_OK mp_state mp_out_ok
  by unfold_locales (auto simp: set_ok_def)

interpretation warning_stack: message_stack set_warning STATE_WARNING mp_state mp_out_warning
  by unfold_locales (auto simp: set_warning_def)

interpretation critical_stack: message_stack set_critical STATE_CRITICAL mp_state mp_out_critical
  by unfold_locales (auto simp: set_critical_def)

section \<open>The result of a run of messages\<close>

text \<open>The messages of one kind, in the order of the calls.\<close>

fun crits :: "mp_call list \<Rightarrow> string list" where
  "crits [] = []"
| "crits (c # cs) = (case c of SetCritical s \<Rightarrow> s # crits cs | _ \<Rightarrow> crits cs)"

fun warns :: "mp_call list \<Rightarrow> string list" where
  "warns [] = []"
| "warns (c # cs) = (case c of SetWarning s \<Rightarrow> s # warns cs | _ \<Rightarrow> warns cs)"

fun oks :: "mp_call list \<Rightarrow> string list" where
  "oks [] = []"
| "oks (c # cs) = (case c of SetOk s \<Rightarrow> s # oks cs | _ \<Rightarrow> oks cs)"

fun okonlys :: "mp_call list \<Rightarrow> string list" where
  "okonlys [] = []"
| "okonlys (c # cs) = (case c of SetOkonly s \<Rightarrow> s # okonlys cs | _ \<Rightarrow> okonlys cs)"

definition report_part :: "string \<Rightarrow> string list \<Rightarrow> string" where
  "report_part label ms = (if ms = [] then [] else label @ '' '' @ join_msgs ms)"

definition report :: "string \<Rightarrow> mp_call list \<Rightarrow> string" where
  "report msg cs =
     exit_prefix (worst cs) @ msg @
     report_part [] (crits cs) @
     report_part (if worst cs > STATE_WARNING then '' Warning:'' else []) (warns cs) @
     report_part (if worst cs > STATE_OK then '' OK:'' else []) (oks cs) @
     (if worst cs = STATE_OK \<and> okonlys cs \<noteq> [] then '' '' @ last (okonlys cs) else []) @ nl"

lemma worst_simps [simp]:
  "worst [] = STATE_OK" "worst (c # cs) = max (severity c) (worst cs)"
  by (simp_all add: worst_def)

lemma worst_nonneg: "0 \<le> worst cs"
  by (induction cs) auto

lemma worst_range: "worst cs \<in> {STATE_OK, STATE_WARNING, STATE_CRITICAL}"
proof (induction cs)
  case (Cons c cs)
  then show ?case by (cases c) auto
qed simp

lemma push_msg_str:
  "buf_str (push_msg p m) = Some (case buf_str p of None \<Rightarrow> m | Some s \<Rightarrow> s @ '', '' @ m)"
  by (auto simp: push_msg_def split: option.splits)

text \<open>What a run leaves in the state: each stack on its own, by induction from the left.\<close>

lemma mp_call_frame [simp]:
  "stdout (mp_call_run c g) = stdout g" "mp_perfdata (mp_call_run c g) = mp_perfdata g"
  "mp_showperfdata (mp_call_run c g) = mp_showperfdata g"
  by (cases c; simp add: set_ok_def set_okonly_def set_warning_def set_critical_def Let_def)+

lemma mp_calls_frame [simp]:
  "stdout (fold mp_call_run cs g) = stdout g"
  "mp_perfdata (fold mp_call_run cs g) = mp_perfdata g"
  "mp_showperfdata (fold mp_call_run cs g) = mp_showperfdata g"
  by (induction cs arbitrary: g) simp_all

lemma mp_call_state:
  "mp_state (mp_call_run c g) =
     (case c of SetOkonly s \<Rightarrow> mp_state g | _ \<Rightarrow> max (severity c) (mp_state g))"
  by (cases c) (auto simp: ok_stack.state_add warning_stack.state_add critical_stack.state_add
      set_okonly_def)

lemma mp_call_level:
  "max 0 (mp_state (mp_call_run c g)) = max (severity c) (max 0 (mp_state g))"
  "-1 \<le> mp_state g \<Longrightarrow> -1 \<le> mp_state (mp_call_run c g)"
  by (auto simp: mp_call_state max_def split: mp_call.split)

lemma mp_calls_state:
  "max 0 (mp_state (fold mp_call_run cs g)) = max (worst cs) (max 0 (mp_state g))"
  "-1 \<le> mp_state g \<Longrightarrow> -1 \<le> mp_state (fold mp_call_run cs g)"
proof (induction cs arbitrary: g)
  case (Cons c cs)
  { case 1 show ?case
      by (simp only: fold_Cons comp_apply Cons(1) mp_call_level(1) worst_simps max.assoc
          max.left_commute) }
  { case 2 with Cons(2) show ?case by (simp add: mp_call_level(2)) }
qed simp_all

definition stacked :: "string option \<Rightarrow> string list \<Rightarrow> string option" where
  "stacked p ms = (case p of None \<Rightarrow> if ms = [] then None else Some (join_msgs ms)
                   | Some s \<Rightarrow> Some (join_msgs (s # ms)))"

lemma stacked_Nil [simp]: "stacked p [] = p"
  by (simp add: stacked_def split: option.split)

lemma stacked_push:
  "stacked (Some (case p of None \<Rightarrow> m | Some s \<Rightarrow> s @ '', '' @ m)) ms = stacked p (m # ms)"
  by (cases p; cases ms) (simp_all add: stacked_def)

lemma mp_call_stacks:
  "buf_str (mp_out_critical (mp_call_run c g)) =
     (case c of SetCritical m \<Rightarrow> buf_str (push_msg (mp_out_critical g) m)
      | _ \<Rightarrow> buf_str (mp_out_critical g))"
  "buf_str (mp_out_warning (mp_call_run c g)) =
     (case c of SetWarning m \<Rightarrow> buf_str (push_msg (mp_out_warning g) m)
      | _ \<Rightarrow> buf_str (mp_out_warning g))"
  "buf_str (mp_out_ok (mp_call_run c g)) =
     (case c of SetOk m \<Rightarrow> buf_str (push_msg (mp_out_ok g) m) | _ \<Rightarrow> buf_str (mp_out_ok g))"
  by (cases c; simp add: set_ok_def set_okonly_def set_warning_def set_critical_def Let_def)+

lemma mp_call_okonly:
  "mp_state g \<le> STATE_OK \<Longrightarrow> buf_str (mp_out_okonly (mp_call_run c g)) =
     (case c of SetOkonly m \<Rightarrow> Some m | _ \<Rightarrow> buf_str (mp_out_okonly g))"
  by (cases c; simp add: set_ok_def set_okonly_def set_warning_def set_critical_def Let_def)

declare mp_call_run.simps [simp del]

lemma mp_calls_stacks:
  "buf_str (mp_out_critical (fold mp_call_run cs g)) =
     stacked (buf_str (mp_out_critical g)) (crits cs)"
  "buf_str (mp_out_warning (fold mp_call_run cs g)) =
     stacked (buf_str (mp_out_warning g)) (warns cs)"
  "buf_str (mp_out_ok (fold mp_call_run cs g)) = stacked (buf_str (mp_out_ok g)) (oks cs)"
  by (induction cs arbitrary: g)
    (simp_all add: mp_call_stacks push_msg_str stacked_push split: mp_call.split)

text \<open>While no warning and no critical message has come, the last \<open>set_okonly\<close> counts.\<close>

lemma mp_calls_okonly:
  assumes "worst cs = STATE_OK" "mp_state g \<le> STATE_OK"
  shows "buf_str (mp_out_okonly (fold mp_call_run cs g)) =
      (if okonlys cs = [] then buf_str (mp_out_okonly g) else Some (last (okonlys cs)))"
  using assms
proof (induction cs arbitrary: g)
  case (Cons c cs)
  then have "worst cs = STATE_OK"
    using worst_nonneg [of cs] by (auto simp: max_def split: if_splits)
  moreover have "mp_state (mp_call_run c g) \<le> STATE_OK"
    using Cons.prems worst_nonneg [of cs]
    by (auto simp: mp_call_state max_def split: if_splits mp_call.splits)
  ultimately show ?case
    using Cons by (auto simp: mp_call_okonly split: mp_call.split)
qed simp

lemma exit_part:
  assumes "buf_str p = stacked None ms"
  shows "(case p of None \<Rightarrow> [] | Some b \<Rightarrow> l @ '' '' @ cstr b) = report_part l ms"
  using assms by (cases p) (auto simp: stacked_def report_part_def split: if_splits)

text \<open>C2: the worst message decides the exit code. Whatever sequence of \<open>set_ok\<close>,
  \<open>set_okonly\<close>, \<open>set_warning\<close> and \<open>set_critical\<close> calls a plugin makes, \<open>mp_exit\<close>
  ends it with the highest severity among them, and with OK when there was none.\<close>

theorem mp_exit_worst:
  "exit_code (mp_exit msg (fold mp_call_run cs (mp_init name usg vers auth copy))) =
     Some (worst cs)"
proof -
  let ?g = "mp_init name usg vers auth copy"
  have init: "mp_state ?g = -1" by (simp add: mp_init_def)
  have "max 0 (mp_state (fold mp_call_run cs ?g)) = worst cs"
    and "-1 \<le> mp_state (fold mp_call_run cs ?g)"
    using mp_calls_state(1) [of cs ?g] mp_calls_state(2) [of ?g cs] worst_nonneg [of cs] init by (simp_all add: max_def)
  then show ?thesis
    by (auto simp: mp_exit_def Let_def max_def split: if_splits)
qed

text \<open>C3: the text of a run of messages. \<open>mp_exit\<close> prints the state, the message, then
  the critical, warning and OK messages in this order, each kind in the order of the
  calls and separated by commas, the lower kinds labelled when a worse one decided the
  state; the last \<open>set_okonly\<close> text is printed only when the result is OK.\<close>

theorem mp_exit_report:
  "exit_out (mp_exit msg (fold mp_call_run cs (mp_init name usg vers auth copy))) =
     report msg cs"
proof -
  let ?g = "mp_init name usg vers auth copy"
  let ?h = "fold mp_call_run cs ?g"
  have init: "mp_state ?g = -1" "stdout ?g = []" "mp_perfdata ?g = None" "mp_out_ok ?g = None"
      "mp_out_warning ?g = None" "mp_out_critical ?g = None" "mp_out_okonly ?g = None"
    by (simp_all add: mp_init_def)
  have st: "(if mp_state ?h = -1 then STATE_OK else mp_state ?h) = worst cs"
    using mp_calls_state(1) [of cs ?g] mp_calls_state(2) [of ?g cs] worst_nonneg [of cs] init(1) by (auto simp: max_def split: if_splits)
  have okonly: "worst cs = STATE_OK \<Longrightarrow> buf_str (mp_out_okonly ?h) =
      (if okonlys cs = [] then None else Some (last (okonlys cs)))"
    using mp_calls_okonly [of cs ?g] init by simp
  have okonly': "(case mp_out_okonly ?h of None \<Rightarrow> []
        | Some b \<Rightarrow> if worst cs = STATE_OK then '' '' @ cstr b else []) =
      (if worst cs = STATE_OK \<and> okonlys cs \<noteq> [] then '' '' @ last (okonlys cs) else [])"
    using okonly by (cases "mp_out_okonly ?h") (auto split: if_splits)
  have parts: "(case mp_out_critical ?h of None \<Rightarrow> [] | Some b \<Rightarrow> '' '' @ cstr b) =
        report_part [] (crits cs)"
      "(case mp_out_warning ?h of None \<Rightarrow> [] | Some b \<Rightarrow> l @ '' '' @ cstr b) =
        report_part l (warns cs)"
      "(case mp_out_ok ?h of None \<Rightarrow> [] | Some b \<Rightarrow> l @ '' '' @ cstr b) =
        report_part l (oks cs)" for l
    using exit_part [of "mp_out_critical ?h" "crits cs" "[]", unfolded append_Nil]
      exit_part [of "mp_out_warning ?h" "warns cs" l] exit_part [of "mp_out_ok ?h" "oks cs" l]
    by (simp_all add: mp_calls_stacks init)
  show ?thesis
    by (simp only: mp_exit_def Let_def st parts okonly' exit_out.simps report_def init mp_calls_frame
        perf_out_def option.case append_Nil)
qed

text \<open>C11: the first message of each stack is written one byte past its allocation.
  \<open>set_ok\<close>, \<open>set_warning\<close> and \<open>set_critical\<close> allocate \<open>len\<close> bytes for the first
  message of length \<open>len\<close> and then write \<open>len + 1\<close>; so does \<open>set_okonly\<close> every time.
  From the second message on the buffer is large enough.\<close>

theorem set_message_buffers:
  "(mp_out_ok g = None \<longrightarrow> \<not> buf_ok (mp_out_ok (set_ok m g))) \<and>
   (mp_out_ok g \<noteq> None \<longrightarrow> buf_ok (mp_out_ok (set_ok m g))) \<and>
   (mp_out_warning g = None \<longrightarrow> \<not> buf_ok (mp_out_warning (set_warning m g))) \<and>
   (mp_out_warning g \<noteq> None \<longrightarrow> buf_ok (mp_out_warning (set_warning m g))) \<and>
   (mp_out_critical g = None \<longrightarrow> \<not> buf_ok (mp_out_critical (set_critical m g))) \<and>
   (mp_out_critical g \<noteq> None \<longrightarrow> buf_ok (mp_out_critical (set_critical m g))) \<and>
   (mp_state g \<le> STATE_OK \<longrightarrow> \<not> buf_ok (mp_out_okonly (set_okonly m g)))"
  using ok_stack.first_add_overflows ok_stack.next_add_fits
    warning_stack.first_add_overflows warning_stack.next_add_fits
    critical_stack.first_add_overflows critical_stack.next_add_fits
  by (simp add: set_okonly_def cbuf_ok_def)

theorem set_message_buffers_witness:
  "\<not> buf_ok (mp_out_ok (set_ok ''up'' (mp_init [] [] [] [] []))) \<and>
   buf_ok (mp_out_ok (set_ok ''up'' (set_ok ''eth0'' (mp_init [] [] [] [] []))))"
proof -
  let ?g = "mp_init [] [] [] [] []"
  have n: "mp_out_ok ?g = None" by (simp add: mp_init_def)
  have s: "mp_out_ok (set_ok ''eth0'' ?g) \<noteq> None"
    by (simp add: set_ok_def mp_init_def push_msg_def)
  show ?thesis
    using set_message_buffers [of ?g "''up''"] set_message_buffers [of "set_ok ''eth0'' ?g" "''up''"]
      n s by blast
qed

end
