(* ===== verification/C_Float.thy ===== *)
theory C_Float
  imports C_Prelude
begin

text \<open>
  The floating-point values of the C sources. A \<open>double\<close> or \<open>float\<close> is a sign and
  a magnitude (so that minus zero is a value of its own), an infinity or a NaN. The
  magnitude of a finite value is an exact rational; every operation rounds its exact
  result to the nearest value of the format, ties to even, with gradual underflow and
  overflow to infinity, as IEEE 754 prescribes (\<open>round_double\<close>: 53 bits,
  \<open>round_float\<close>: 24 bits). The theory also models \<open>strtod\<close> and \<open>%.Nf\<close>.
\<close>

named_theorems fp_simps "comparison and arithmetic on floating-point values"

section \<open>Values\<close>

datatype fp = Num bool rat | Inf bool | NaN

fun fp_val :: "bool \<Rightarrow> rat \<Rightarrow> rat" where
  "fp_val s m = (if s then - m else m)"

fun fp_lt :: "fp \<Rightarrow> fp \<Rightarrow> bool" where
  "fp_lt (Num s m) (Num t n) = (fp_val s m < fp_val t n)"
| "fp_lt (Num s m) (Inf t) = (\<not> t)"
| "fp_lt (Inf s) (Num t n) = s"
| "fp_lt (Inf s) (Inf t) = (s \<and> \<not> t)"
| "fp_lt _ _ = False"

fun fp_eq :: "fp \<Rightarrow> fp \<Rightarrow> bool" where
  "fp_eq (Num s m) (Num t n) = (fp_val s m = fp_val t n)"
| "fp_eq (Inf s) (Inf t) = (s = t)"
| "fp_eq _ _ = False"

definition fp_le :: "fp \<Rightarrow> fp \<Rightarrow> bool" where
  "fp_le x y \<longleftrightarrow> fp_lt x y \<or> fp_eq x y"

section \<open>Rounding\<close>

definition pow2 :: "int \<Rightarrow> rat" where
  "pow2 e = (if 0 \<le> e then 2 ^ nat e else 1 / 2 ^ nat (- e))"

function log2i :: "int \<Rightarrow> int" where
  "log2i n = (if n < 2 then 0 else 1 + log2i (n div 2))"
  by pat_completeness auto
termination by (relation "measure nat") auto

declare log2i.simps [simp del]

text \<open>The exponent \<open>k\<close> with \<open>2\<^sup>k \<le> m < 2\<^sup>k\<^sup>+\<^sup>1\<close>, for a positive \<open>m\<close>.\<close>

definition flog2 :: "rat \<Rightarrow> int" where
  "flog2 m =
     (let (a, b) = quotient_of m; k = log2i a - log2i b
      in if pow2 k \<le> m then k else k - 1)"

definition round_half_even :: "rat \<Rightarrow> int" where
  "round_half_even q =
     (let f = \<lfloor>q\<rfloor>; d = q - of_int f
      in if d < 1 / 2 then f else if 1 / 2 < d then f + 1
         else if even f then f else f + 1)"

definition round_fp :: "int \<Rightarrow> int \<Rightarrow> int \<Rightarrow> bool \<Rightarrow> rat \<Rightarrow> fp" where
  "round_fp p emin emax s m =
     (if m = 0 then Num s 0
      else let e = max (flog2 m - (p - 1)) emin;
               r = of_int (round_half_even (m / pow2 e)) * pow2 e
           in if pow2 emax \<le> r then Inf s else Num s r)"

abbreviation round_double :: "bool \<Rightarrow> rat \<Rightarrow> fp" where
  "round_double \<equiv> round_fp 53 (-1074) 1024"

abbreviation round_float :: "bool \<Rightarrow> rat \<Rightarrow> fp" where
  "round_float \<equiv> round_fp 24 (-149) 128"

section \<open>Arithmetic\<close>

definition fp_of_rat :: "(bool \<Rightarrow> rat \<Rightarrow> fp) \<Rightarrow> rat \<Rightarrow> fp" where
  "fp_of_rat rnd q = rnd (q < 0) \<bar>q\<bar>"

abbreviation dbl_of_int :: "int \<Rightarrow> fp" where
  "dbl_of_int i \<equiv> fp_of_rat round_double (of_int i)"

abbreviation flt_of_int :: "int \<Rightarrow> fp" where
  "flt_of_int i \<equiv> fp_of_rat round_float (of_int i)"

fun fp_mul :: "(bool \<Rightarrow> rat \<Rightarrow> fp) \<Rightarrow> fp \<Rightarrow> fp \<Rightarrow> fp" where
  "fp_mul rnd (Num s m) (Num t n) = rnd (s \<noteq> t) (m * n)"
| "fp_mul rnd (Num s m) (Inf t) = (if m = 0 then NaN else Inf (s \<noteq> t))"
| "fp_mul rnd (Inf s) (Num t n) = (if n = 0 then NaN else Inf (s \<noteq> t))"
| "fp_mul rnd (Inf s) (Inf t) = Inf (s \<noteq> t)"
| "fp_mul rnd _ _ = NaN"

fun fp_div :: "(bool \<Rightarrow> rat \<Rightarrow> fp) \<Rightarrow> fp \<Rightarrow> fp \<Rightarrow> fp" where
  "fp_div rnd (Num s m) (Num t n) =
     (if n = 0 then (if m = 0 then NaN else Inf (s \<noteq> t)) else rnd (s \<noteq> t) (m / n))"
| "fp_div rnd (Num s m) (Inf t) = Num (s \<noteq> t) 0"
| "fp_div rnd (Inf s) (Num t n) = Inf (s \<noteq> t)"
| "fp_div rnd _ _ = NaN"

fun fp_neg :: "fp \<Rightarrow> fp" where
  "fp_neg (Num s m) = Num (\<not> s) m"
| "fp_neg (Inf s) = Inf (\<not> s)"
| "fp_neg NaN = NaN"

text \<open>An exact zero sum is plus zero unless both operands are minus zero.\<close>

fun fp_add :: "(bool \<Rightarrow> rat \<Rightarrow> fp) \<Rightarrow> fp \<Rightarrow> fp \<Rightarrow> fp" where
  "fp_add rnd (Num s m) (Num t n) =
     (let q = fp_val s m + fp_val t n
      in if q = 0 then Num (s \<and> t \<and> m = 0 \<and> n = 0) 0 else rnd (q < 0) \<bar>q\<bar>)"
| "fp_add rnd (Num s m) (Inf t) = Inf t"
| "fp_add rnd (Inf s) (Num t n) = Inf s"
| "fp_add rnd (Inf s) (Inf t) = (if s = t then Inf s else NaN)"
| "fp_add rnd _ _ = NaN"

definition fp_sub :: "(bool \<Rightarrow> rat \<Rightarrow> fp) \<Rightarrow> fp \<Rightarrow> fp \<Rightarrow> fp" where
  "fp_sub rnd x y = fp_add rnd x (fp_neg y)"

text \<open>Conversion between the formats.\<close>

fun fp_cast :: "(bool \<Rightarrow> rat \<Rightarrow> fp) \<Rightarrow> fp \<Rightarrow> fp" where
  "fp_cast rnd (Num s m) = rnd s m"
| "fp_cast rnd x = x"

section \<open>Reading and printing\<close>

text \<open>
  \<open>strtod(s, &e)\<close> and \<open>strtof(s, &e)\<close>: the value and the text from \<open>e\<close> on. A string with no number
  in front gives plus zero and the whole string.
\<close>

definition digits_pow :: "int \<Rightarrow> nat \<Rightarrow> rat" where
  "digits_pow b n = of_int (b ^ n)"

definition read_exponent :: "char list \<Rightarrow> string \<Rightarrow> int \<times> string" where
  "read_exponent marks s =
     (case s of
        [] \<Rightarrow> (0, s)
      | c # r \<Rightarrow>
          if c \<in> set marks
          then (let (neg, t) = (case r of
                       d # u \<Rightarrow> (if d = CHR ''-'' then (True, u)
                                 else if d = CHR ''+'' then (False, u) else (False, r))
                     | [] \<Rightarrow> (False, r));
                    ds = takeWhile isdigit t
                in if ds = [] then (0, s)
                   else (if neg then - digits_val 10 ds else digits_val 10 ds,
                         drop (length ds) t))
          else (0, s))"

definition scale :: "int \<Rightarrow> int \<Rightarrow> rat" where
  "scale b e = (if 0 \<le> e then of_int (b ^ nat e) else 1 / of_int (b ^ nat (- e)))"

text \<open>Digits with an optional fraction in base \<open>b\<close>: the value, the rest, and whether
  there was a digit at all.\<close>

definition read_mantissa :: "int \<Rightarrow> (char \<Rightarrow> bool) \<Rightarrow> string \<Rightarrow> rat \<times> string \<times> bool" where
  "read_mantissa b dg s =
     (let ip = takeWhile dg s; r = dropWhile dg s
      in case r of
           c # t \<Rightarrow>
             if c = CHR ''.''
             then (let fr = takeWhile dg t
                   in if ip = [] \<and> fr = [] then (0, s, False)
                      else (of_int (digits_val b (ip @ fr)) / digits_pow b (length fr),
                            dropWhile dg t, True))
             else (of_int (digits_val b ip), r, ip \<noteq> [])
         | [] \<Rightarrow> (of_int (digits_val b ip), r, ip \<noteq> []))"

definition strto_fp :: "(bool \<Rightarrow> rat \<Rightarrow> fp) \<Rightarrow> string \<Rightarrow> fp \<times> string" where
  "strto_fp rnd s =
     (let (neg, r) = strtol_sign s
      in if strcasecmp_eq (take 8 r) ''infinity'' then (Inf neg, drop 8 r)
         else if strcasecmp_eq (take 3 r) ''inf'' then (Inf neg, drop 3 r)
         else if strcasecmp_eq (take 3 r) ''nan''
              then (NaN, case drop 3 r of
                      c # t \<Rightarrow> (let tag = takeWhile (\<lambda>x. isalnum x \<or> x = CHR ''_'') t
                                in if c = CHR ''('' \<and> take 1 (drop (length tag) t) = '')''
                                   then drop (Suc (length tag)) t else drop 3 r)
                    | [] \<Rightarrow> [])
         else if strcasecmp_eq (take 2 r) ''0x'' \<and> snd (snd (read_mantissa 16 isxdigit (drop 2 r)))
              then (let (m, t, _) = read_mantissa 16 isxdigit (drop 2 r);
                        (e, u) = read_exponent ''pP'' t
                    in (rnd neg (m * pow2 e), u))
         else (let (m, t, ok) = read_mantissa 10 isdigit r
               in if \<not> ok then (Num False 0, s)
                  else (let (e, u) = read_exponent ''eE'' t
                        in (rnd neg (m * scale 10 e), u))))"

definition strtod :: "string \<Rightarrow> fp \<times> string" where
  "strtod s = strto_fp round_double s"

definition strtof :: "string \<Rightarrow> fp \<times> string" where
  "strtof s = strto_fp round_float s"

text \<open>\<open>%.Nf\<close>: the exact value rounded to \<open>N\<close> decimals, ties to even.\<close>

definition pad_dec :: "nat \<Rightarrow> int \<Rightarrow> string" where
  "pad_dec n x = (let d = dec_str x in replicate (n - length d) (CHR ''0'') @ d)"

fun fmt_f :: "nat \<Rightarrow> fp \<Rightarrow> string" where
  "fmt_f prec (Num s m) =
     (let r = round_half_even (m * of_int (10 ^ prec));
          body = (if prec = 0 then dec_str r
                  else dec_str (r div 10 ^ prec) @ ''.'' @ pad_dec prec (r mod 10 ^ prec))
      in if s then CHR ''-'' # body else body)"
| "fmt_f prec (Inf s) = (if s then ''-inf'' else ''inf'')"
| "fmt_f prec NaN = ''nan''"

text \<open>\<open>%g\<close>: six significant digits without trailing zeros, with an exponent when it is
  below -4 or above 5.\<close>

definition flog10 :: "rat \<Rightarrow> int" where
  "flog10 m =
     (let (a, b) = quotient_of m; k = int (length (dec_str a)) - int (length (dec_str b))
      in if scale 10 k \<le> m then k else k - 1)"

definition with_frac :: "string \<Rightarrow> string \<Rightarrow> string" where
  "with_frac i f =
     (let f = rev (dropWhile (\<lambda>c. c = CHR ''0'') (rev f)) in if f = [] then i else i @ ''.'' @ f)"

fun fmt_g :: "fp \<Rightarrow> string" where
  "fmt_g (Num s m) =
     (let body =
        (if m = 0 then ''0''
         else let e0 = flog10 m;
                  d0 = round_half_even (m / scale 10 (e0 - 5));
                  e = (if d0 = 1000000 then e0 + 1 else e0);
                  ds = dec_str (if d0 = 1000000 then 100000 else d0)
              in if e < -4 \<or> 6 \<le> e
                 then with_frac (take 1 ds) (drop 1 ds) @ ''e'' @
                      (if e < 0 then ''-'' else ''+'') @ pad_dec 2 \<bar>e\<bar>
                 else if 0 \<le> e then with_frac (take (nat e + 1) ds) (drop (nat e + 1) ds)
                 else with_frac ''0'' (replicate (nat (- e - 1)) (CHR ''0'') @ ds))
      in if s then CHR ''-'' # body else body)"
| "fmt_g (Inf s) = (if s then ''-inf'' else ''inf'')"
| "fmt_g NaN = ''nan''"

section \<open>Comparisons\<close>

lemma fp_lt_irrefl [simp]: "\<not> fp_lt x x"
  by (cases x) auto

lemma fp_lt_asym: "fp_lt x y \<Longrightarrow> \<not> fp_lt y x"
  by (cases x; cases y) auto

lemma fp_lt_trans: "fp_lt x y \<Longrightarrow> fp_lt y z \<Longrightarrow> fp_lt x z"
  by (cases x; cases y; cases z) (auto split: if_splits)

lemma fp_eq_refl: "fp_eq x x \<longleftrightarrow> x \<noteq> NaN"
  by (cases x) auto

lemma fp_le_total: "x \<noteq> NaN \<Longrightarrow> y \<noteq> NaN \<Longrightarrow> fp_le x y \<or> fp_lt y x"
  by (cases x; cases y) (auto simp: fp_le_def)

lemma fp_le_not_lt: "fp_le x y \<Longrightarrow> \<not> fp_lt y x"
  by (cases x; cases y) (auto simp: fp_le_def split: if_splits)

lemma fp_le_lt_trans: "fp_le x y \<Longrightarrow> fp_lt y z \<Longrightarrow> fp_lt x z"
  by (cases x; cases y; cases z) (auto simp: fp_le_def split: if_splits)

lemma fp_NaN_simps [simp]:
  "\<not> fp_lt NaN x" "\<not> fp_lt x NaN" "\<not> fp_le NaN x" "\<not> fp_le x NaN"
  by (cases x; simp add: fp_le_def)+

section \<open>Rounding\<close>

lemma pow2_pos [simp]: "0 < pow2 e"
  by (simp add: pow2_def)

lemma pow2_nonzero [simp]: "pow2 e \<noteq> 0"
  by (metis less_irrefl pow2_pos)

lemma pow2_powi: "pow2 e = 2 powi e"
  by (simp add: pow2_def power_int_def inverse_eq_divide power_one_over)

lemma pow2_add: "pow2 (a + b) = pow2 a * pow2 b"
  by (simp add: pow2_powi power_int_add)

lemma pow2_diff_int:
  assumes "e \<le> k"
  shows "pow2 k / pow2 e = of_int (2 ^ nat (k - e))"
proof -
  have "pow2 k = pow2 (k - e) * pow2 e" by (simp flip: pow2_add)
  moreover have "pow2 (k - e) = of_int (2 ^ nat (k - e))" using assms by (simp add: pow2_def)
  ultimately show ?thesis by simp
qed

lemma pow2_mono: "a \<le> b \<Longrightarrow> pow2 a \<le> pow2 b"
  by (simp add: pow2_powi power_int_increasing)

lemma pow2_mono_strict: "a < b \<Longrightarrow> pow2 a < pow2 b"
  by (simp add: pow2_powi power_int_strict_increasing)

lemma round_half_even_cases: "round_half_even q = \<lfloor>q\<rfloor> \<or> round_half_even q = \<lfloor>q\<rfloor> + 1 \<and> q \<noteq> of_int \<lfloor>q\<rfloor>"
  by (simp add: round_half_even_def Let_def)

lemma round_half_even_of_int [simp]: "round_half_even (of_int z) = z"
  by (simp add: round_half_even_def Let_def)

lemma round_half_even_le: "q \<le> of_int z \<Longrightarrow> round_half_even q \<le> z"
proof -
  assume q: "q \<le> of_int z"
  then have f: "\<lfloor>q\<rfloor> \<le> z" by (simp add: floor_le_iff)
  show ?thesis
  proof (cases "\<lfloor>q\<rfloor> = z")
    case True
    with q have "q = of_int \<lfloor>q\<rfloor>" by (metis antisym of_int_floor_le)
    with round_half_even_cases [of q] f show ?thesis by auto
  next
    case False
    with round_half_even_cases [of q] f show ?thesis by auto
  qed
qed

lemma round_half_even_ge: "of_int z \<le> q \<Longrightarrow> z \<le> round_half_even q"
proof -
  assume "of_int z \<le> q"
  then have "z \<le> \<lfloor>q\<rfloor>" by (simp add: le_floor_iff)
  with round_half_even_cases [of q] show ?thesis by auto
qed

lemma round_half_even_nonneg: "0 \<le> q \<Longrightarrow> 0 \<le> round_half_even q"
  using round_half_even_ge [of 0 q] by simp

lemma log2i_bounds:
  assumes "1 \<le> n"
  shows "0 \<le> log2i n \<and> 2 ^ nat (log2i n) \<le> n \<and> n < 2 ^ (nat (log2i n) + 1)"
  using assms
proof (induction n rule: log2i.induct)
  case (1 n)
  show ?case
  proof (cases "n < 2")
    case True
    with 1 show ?thesis by (simp add: log2i.simps [of n])
  next
    case False
    with 1 have IH: "0 \<le> log2i (n div 2)" "2 ^ nat (log2i (n div 2)) \<le> n div 2"
        "n div 2 < 2 ^ (nat (log2i (n div 2)) + 1)"
      by auto
    have eq: "log2i n = 1 + log2i (n div 2)" using False by (simp add: log2i.simps [of n])
    then have n: "nat (log2i n) = Suc (nat (log2i (n div 2)))" using IH(1) by simp
    have "2 * 2 ^ nat (log2i (n div 2)) \<le> n" "n < 4 * 2 ^ nat (log2i (n div 2))"
      using IH(2,3) by (simp_all; arith)+
    with eq n IH(1) show ?thesis by simp
  qed
qed

lemma flog2_bounds:
  assumes "0 < m"
  shows "pow2 (flog2 m) \<le> m" "m < pow2 (flog2 m + 1)"
proof -
  obtain a b where q: "quotient_of m = (a, b)" by (cases "quotient_of m") auto
  then have b: "0 < b" and m: "m = of_int a / of_int b"
    using quotient_of_denom_pos quotient_of_div by blast+
  have a: "0 < a" using assms m b by (simp add: zero_less_divide_iff)
  let ?k = "log2i a - log2i b"
  from a b have la: "0 \<le> log2i a" "2 ^ nat (log2i a) \<le> a" "a < 2 ^ (nat (log2i a) + 1)"
    and lb: "0 \<le> log2i b" "2 ^ nat (log2i b) \<le> b" "b < 2 ^ (nat (log2i b) + 1)"
    using log2i_bounds by auto
  have pw: "pow2 x = of_int (2 ^ nat x)" if "0 \<le> x" for x using that by (simp add: pow2_def)
  have pa: "pow2 (log2i a) \<le> of_int a" "of_int a < pow2 (log2i a + 1)"
    using la by (simp_all only: pw of_int_le_iff of_int_less_iff add_nonneg_nonneg zero_le_one)
      (simp add: nat_add_distrib)
  have pb: "pow2 (log2i b) \<le> of_int b" "of_int b < pow2 (log2i b + 1)"
    using lb by (simp_all only: pw of_int_le_iff of_int_less_iff add_nonneg_nonneg zero_le_one)
      (simp add: nat_add_distrib)
  have hi: "m < pow2 (?k + 1)"
  proof -
    have "m \<le> of_int a / pow2 (log2i b)"
      using m pb(1) a by (simp add: frac_le)
    also have "\<dots> < pow2 (log2i a + 1) / pow2 (log2i b)"
      using pa(2) by (simp add: divide_strict_right_mono)
    also have "\<dots> = pow2 (?k + 1)"
      by (simp add: field_simps flip: pow2_add)
    finally show ?thesis .
  qed
  have lo: "pow2 (?k - 1) \<le> m"
  proof -
    have "pow2 (?k - 1) = pow2 (log2i a) / pow2 (log2i b + 1)"
      by (simp add: field_simps flip: pow2_add)
    also have "\<dots> \<le> of_int a / pow2 (log2i b + 1)"
      using pa(1) by (intro divide_right_mono) (simp_all add: less_imp_le)
    also have "\<dots> \<le> m"
      unfolding m using pb b a by (intro divide_left_mono) auto
    finally show ?thesis .
  qed
  show "pow2 (flog2 m) \<le> m" "m < pow2 (flog2 m + 1)"
    using hi lo by (auto simp: flog2_def q Let_def)
qed

lemma flog2_less:
  assumes "0 < m" "m < pow2 k"
  shows "flog2 m < k"
proof (rule ccontr)
  assume "\<not> flog2 m < k"
  then have "pow2 k \<le> pow2 (flog2 m)" by (simp add: pow2_mono)
  with flog2_bounds [OF assms(1)] assms(2) show False by simp
qed

text \<open>A value that is a multiple of the last place of its binade is kept exactly.\<close>

lemma round_fp_exact:
  assumes "0 < m" "m < pow2 emax" "m = of_int z * pow2 (max (flog2 m - (p - 1)) emin)"
  shows "round_fp p emin emax s m = Num s m"
proof -
  let ?e = "max (flog2 m - (p - 1)) emin"
  have "m / pow2 ?e = of_int z" using assms(3) by (simp add: field_simps)
  then have "of_int (round_half_even (m / pow2 ?e)) * pow2 ?e = m" using assms(3) by simp
  then show ?thesis using assms(1,2) by (simp add: round_fp_def Let_def)
qed

lemma round_fp_of_int:
  assumes "\<bar>z\<bar> < 2 ^ nat p" "0 < p" "p \<le> emax" "emin \<le> 0" "z \<noteq> 0"
  shows "round_fp p emin emax s (of_int \<bar>z\<bar>) = Num s (of_int \<bar>z\<bar>)"
proof -
  let ?m = "of_int \<bar>z\<bar> :: rat"
  have m: "0 < ?m" "?m < pow2 p"
  proof -
    show "0 < ?m" using assms(5) by simp
    have "?m < of_int (2 ^ nat p)" using assms(1) by (simp only: of_int_less_iff)
    then show "?m < pow2 p" using assms(2) by (simp add: pow2_def)
  qed
  have e: "max (flog2 ?m - (p - 1)) emin \<le> 0" (is "?e \<le> 0")
    using flog2_less [OF m] assms(4) by simp
  have "?m = of_int (\<bar>z\<bar> * 2 ^ nat (- ?e)) * pow2 ?e"
    using pow2_diff_int [OF e] by (simp add: pow2_def field_simps)
  moreover have "?m < pow2 emax"
    using m(2) pow2_mono [OF assms(3)] by simp
  ultimately show ?thesis
    using round_fp_exact m(1) by blast
qed

lemma round_double_int: "\<bar>z\<bar> < 2 ^ 53 \<Longrightarrow> fp_of_rat round_double (of_int z) = Num (z < 0) \<bar>of_int z\<bar>"
proof (cases "z = 0")
  case True
  then show ?thesis by (simp add: fp_of_rat_def round_fp_def)
next
  case False
  assume "\<bar>z\<bar> < 2 ^ 53"
  then have "round_fp 53 (-1074) 1024 (z < 0) (of_int \<bar>z\<bar>) = Num (z < 0) (of_int \<bar>z\<bar>)"
    using False by (intro round_fp_of_int) auto
  then show ?thesis by (simp add: fp_of_rat_def)
qed

lemma fp_val_int: "fp_val (z < 0) \<bar>of_int z\<bar> = of_int z"
  by simp

text \<open>Rounding does not step over a power of two.\<close>

lemma round_fp_le_pow2:
  assumes "0 \<le> m" "m \<le> pow2 k" "emin \<le> k" "k < emax" "1 \<le> p"
  shows "\<exists>r. round_fp p emin emax s m = Num s r \<and> 0 \<le> r \<and> r \<le> pow2 k"
proof (cases "m = 0")
  case True
  then show ?thesis by (simp add: round_fp_def less_imp_le [OF pow2_pos])
next
  case False
  with assms(1) have m: "0 < m" by simp
  let ?e = "max (flog2 m - (p - 1)) emin"
  let ?r = "of_int (round_half_even (m / pow2 ?e)) * pow2 ?e"
  have "flog2 m \<le> k"
    using flog2_less [OF m, of "k + 1"] assms(2) pow2_mono_strict [of k "k + 1"] by force
  then have e: "?e \<le> k" using assms(3,5) by simp
  have "m / pow2 ?e \<le> pow2 k / pow2 ?e" using assms(2) by (simp add: divide_right_mono less_imp_le)
  then have "round_half_even (m / pow2 ?e) \<le> 2 ^ nat (k - ?e)"
    unfolding pow2_diff_int [OF e] by (rule round_half_even_le)
  then have "?r \<le> of_int (2 ^ nat (k - ?e)) * pow2 ?e"
    by (intro mult_right_mono) (simp_all only: of_int_le_iff less_imp_le [OF pow2_pos])
  also have "\<dots> = pow2 k" using pow2_diff_int [OF e] by (simp add: field_simps)
  finally have hi: "?r \<le> pow2 k" .
  have "0 \<le> ?r"
    using m by (simp add: round_half_even_nonneg less_imp_le)
  moreover have "\<not> pow2 emax \<le> ?r"
    using hi pow2_mono_strict [OF assms(4)] by simp
  ultimately show ?thesis
    using hi False by (simp add: round_fp_def Let_def)
qed

text \<open>The same for a multiple of a power of two, and the relative error of a rounded number.\<close>

lemma round_fp_scaled:
  assumes "\<bar>z\<bar> < 2 ^ nat p" "0 < p" "p + k \<le> emax" "emin \<le> k" "z \<noteq> 0"
  shows "round_fp p emin emax s (of_int \<bar>z\<bar> * pow2 k) = Num s (of_int \<bar>z\<bar> * pow2 k)"
proof -
  let ?m = "of_int \<bar>z\<bar> * pow2 k"
  have "(of_int \<bar>z\<bar> :: rat) < of_int (2 ^ nat p)" using assms(1) by (simp only: of_int_less_iff)
  then have "(of_int \<bar>z\<bar> :: rat) < pow2 p" using assms(2) by (simp add: pow2_def)
  then have m: "0 < ?m" "?m < pow2 (p + k)" using assms(5) by (simp_all add: pow2_add)
  have e: "max (flog2 ?m - (p - 1)) emin \<le> k" (is "?e \<le> k")
    using flog2_less [OF m] assms(4) by simp
  have "?m = of_int (\<bar>z\<bar> * 2 ^ nat (k - ?e)) * pow2 ?e"
    using pow2_diff_int [OF e] by (simp add: field_simps)
  moreover have "?m < pow2 emax"
    using m(2) pow2_mono [OF assms(3)] by simp
  ultimately show ?thesis
    using round_fp_exact m(1) by blast
qed

lemma round_half_even_near: "\<bar>of_int (round_half_even q) - q\<bar> \<le> 1"
proof -
  have "of_int \<lfloor>q\<rfloor> \<le> q" "q < of_int \<lfloor>q\<rfloor> + 1" using floor_correct [of q] by simp_all
  moreover have "of_int (round_half_even q) = (of_int \<lfloor>q\<rfloor> :: rat) \<or> of_int (round_half_even q) = (of_int \<lfloor>q\<rfloor> + 1 :: rat)"
    using round_half_even_cases [of q] by auto
  ultimately show ?thesis by linarith
qed

lemma round_fp_near:
  assumes "pow2 (emin + p - 1) \<le> m" "m \<le> pow2 k" "k < emax" "emin \<le> k" "1 \<le> p"
  shows "\<exists>r. round_fp p emin emax s m = Num s r \<and> \<bar>r - m\<bar> \<le> m * pow2 (1 - p)"
proof -
  have m: "0 < m" using assms(1) pow2_pos [of "emin + p - 1"] by linarith
  then have "emin + p - 1 < flog2 m + 1"
    using flog2_bounds(2) [OF m] assms(1) pow2_mono [of "flog2 m + 1" "emin + p - 1"] by linarith
  then have e: "max (flog2 m - (p - 1)) emin = flog2 m - (p - 1)" (is "_ = ?e") by simp
  let ?r = "of_int (round_half_even (m / pow2 ?e)) * pow2 ?e"
  have "\<bar>?r - m\<bar> = \<bar>of_int (round_half_even (m / pow2 ?e)) - m / pow2 ?e\<bar> * pow2 ?e"
    using pow2_pos [of ?e] by (simp add: abs_mult field_simps abs_of_pos flip: abs_mult_pos)
  also have "\<dots> \<le> pow2 ?e"
    using mult_right_mono [OF round_half_even_near [of "m / pow2 ?e"], of "pow2 ?e"] by (simp add: less_imp_le)
  also have "pow2 ?e = pow2 (flog2 m) * pow2 (1 - p)" by (simp add: algebra_simps flip: pow2_add)
  also have "\<dots> \<le> m * pow2 (1 - p)"
    using flog2_bounds(1) [OF m] by (simp add: mult_right_mono less_imp_le)
  finally have "\<bar>?r - m\<bar> \<le> m * pow2 (1 - p)" .
  moreover obtain r where "round_fp p emin emax s m = Num s r"
    using round_fp_le_pow2 [of m k emin emax p s] m assms by auto
  ultimately show ?thesis
    using m e by (auto simp: round_fp_def Let_def split: if_splits)
qed

section \<open>Reading printed numbers\<close>

lemma isdigit_dec_str: "0 \<le> n \<Longrightarrow> c \<in> set (dec_str n) \<Longrightarrow> isdigit c"
  using base_str_digits [of n 10 c] isdigit_dig by auto

lemma dec_str_prefix:
  assumes "0 \<le> n" "s = [] \<or> \<not> isdigit (hd s)"
  shows "takeWhile isdigit (dec_str n @ s) = dec_str n" "dropWhile isdigit (dec_str n @ s) = s"
  using assms isdigit_dec_str [of n] by (cases s; auto simp: takeWhile_append dropWhile_append)+

lemma strtol_sign_fmt_d: "strtol_sign (fmt_d a @ s) = (a < 0, dec_str \<bar>a\<bar> @ s)"
proof -
  obtain d r where d: "dec_str \<bar>a\<bar> = dig d # r" "0 \<le> d" "d < 10"
    using hd_base_str [of "\<bar>a\<bar>" 10] by auto
  then have "\<not> isspace (dig d)" "dig d \<noteq> CHR ''-''" "dig d \<noteq> CHR ''+''"
    using isspace_dig dig_neq by simp_all
  then show ?thesis using d
    by (auto simp: strtol_sign_def fmt_d_def isspace_def ccode_def abs_if split: if_splits)
qed

lemma strto_fp_plain:
  assumes "strtol_sign s = (neg, c # r)" "isdigit c" "r = [] \<or> tolower_code (hd r) \<noteq> 120"
    "read_mantissa 10 isdigit (c # r) = (m, t, True)"
    "t = [] \<or> hd t \<noteq> CHR ''e'' \<and> hd t \<noteq> CHR ''E''"
  shows "strto_fp rnd s = (rnd neg m, t)"
proof -
  have c: "tolower_code c = ccode c" "ccode c \<le> 57"
    using assms(2) by (auto simp: tolower_code_def isupper_def isdigit_def)
  then have n: "\<not> strcasecmp_eq (take 8 (c # r)) ''infinity''" "\<not> strcasecmp_eq (take 3 (c # r)) ''inf''"
    "\<not> strcasecmp_eq (take 3 (c # r)) ''nan''"
    by (auto simp: strcasecmp_eq_def tolower_code_def isupper_def ccode_def take_Cons' split: if_splits)
  have x: "\<not> strcasecmp_eq (take 2 (c # r)) ''0x''"
    using assms(3) by (cases r) (auto simp: strcasecmp_eq_def tolower_code_def isupper_def ccode_def split: if_splits)
  have e: "read_exponent ''eE'' t = (0, t)"
    using assms(5) by (cases t) (auto simp: read_exponent_def)
  show ?thesis using assms(1, 4) n x e by (simp add: strto_fp_def scale_def)
qed

lemmas strtod_plain = strto_fp_plain [where rnd = round_double, folded strtod_def]

text \<open>A text that may follow a number without becoming part of it.\<close>

definition num_end :: "string \<Rightarrow> bool" where
  "num_end s \<longleftrightarrow> s = [] \<or> (\<not> isdigit (hd s) \<and> hd s \<notin> set ''.eExX'')"

lemma num_end_lower: "num_end s \<Longrightarrow> s = [] \<or> tolower_code (hd s) \<noteq> 120"
proof -
  have "c = CHR ''x'' \<or> c = CHR ''X''" if "tolower_code c = 120" for c
  proof -
    have "ccode c = ccode (CHR ''x'') \<or> ccode c = ccode (CHR ''X'')"
      using that by (auto simp: tolower_code_def isupper_def ccode_def split: if_splits)
    then show ?thesis by (simp add: ccode_inject)
  qed
  then show "num_end s \<Longrightarrow> s = [] \<or> tolower_code (hd s) \<noteq> 120" by (auto simp: num_end_def)
qed

lemma hd_dec_str_append:
  assumes "0 \<le> n" "s = [] \<or> tolower_code (hd s) \<noteq> 120"
  obtains c r where "dec_str n @ s = c # r" "isdigit c" "r = [] \<or> tolower_code (hd r) \<noteq> 120"
proof -
  obtain c u where u: "dec_str n = c # u" by (cases "dec_str n") auto
  have dg: "isdigit x" if "x \<in> set (c # u)" for x using isdigit_dec_str assms(1) that u by metis
  have "tolower_code x \<noteq> 120" if "isdigit x" for x
    using that by (auto simp: isdigit_def tolower_code_def isupper_def)
  then show thesis using that [of c "u @ s"] u dg assms(2) by (cases u) auto
qed

lemma strtod_fmt_d:
  assumes "num_end s"
  shows "strtod (fmt_d a @ s) = (round_double (a < 0) (of_int \<bar>a\<bar>), s)"
proof -
  obtain c r where cr: "dec_str \<bar>a\<bar> @ s = c # r" "isdigit c" "r = [] \<or> tolower_code (hd r) \<noteq> 120"
    using hd_dec_str_append [of "\<bar>a\<bar>" s] num_end_lower [OF assms] by auto
  have dp: "takeWhile isdigit (dec_str \<bar>a\<bar> @ s) = dec_str \<bar>a\<bar>" "dropWhile isdigit (dec_str \<bar>a\<bar> @ s) = s"
    using assms dec_str_prefix [of "\<bar>a\<bar>" s] by (auto simp: num_end_def)
  have "read_mantissa 10 isdigit (dec_str \<bar>a\<bar> @ s) = (of_int \<bar>a\<bar>, s, True)"
    unfolding read_mantissa_def dp Let_def using assms digits_val_base_str [of "\<bar>a\<bar>" 10]
    by (cases s) (auto simp: num_end_def)
  then show ?thesis
    using strtod_plain [of "fmt_d a @ s" "a < 0" c r "of_int \<bar>a\<bar>" s] strtol_sign_fmt_d [of a s] cr assms
    by (auto simp: num_end_def)
qed

lemma digits_val_zeros: "digits_val 10 (ds @ replicate k (CHR ''0'')) = digits_val 10 ds * 10 ^ k"
  by (induction k) (simp_all add: digits_val_snoc ctype_defs ccode_def flip: replicate_append_same append_assoc)

lemma strtod_fmt_d_frac:
  assumes "num_end s"
  shows "strtod (fmt_d a @ CHR ''.'' # replicate k (CHR ''0'') @ s) = (round_double (a < 0) (of_int \<bar>a\<bar>), s)"
proof -
  let ?z = "replicate k (CHR ''0'')"
  have z: "takeWhile isdigit (?z @ s) = ?z" "dropWhile isdigit (?z @ s) = s"
    using assms by (cases s; auto simp: num_end_def takeWhile_append dropWhile_append isdigit_def ccode_def)+
  obtain c r where cr: "dec_str \<bar>a\<bar> @ CHR ''.'' # ?z @ s = c # r" "isdigit c"
      "r = [] \<or> tolower_code (hd r) \<noteq> 120"
    using hd_dec_str_append [of "\<bar>a\<bar>" "CHR ''.'' # ?z @ s"]
    by (auto simp: tolower_code_def isupper_def ccode_def)
  have "read_mantissa 10 isdigit (dec_str \<bar>a\<bar> @ CHR ''.'' # ?z @ s) = (of_int \<bar>a\<bar>, s, True)"
    using z dec_str_prefix [of "\<bar>a\<bar>" "CHR ''.'' # ?z @ s"] digits_val_base_str [of "\<bar>a\<bar>" 10]
    by (simp add: read_mantissa_def digits_val_zeros digits_pow_def isdigit_def ccode_def)
  then show ?thesis
    using strtod_plain [of "fmt_d a @ CHR ''.'' # ?z @ s" "a < 0" c r "of_int \<bar>a\<bar>" s]
      strtol_sign_fmt_d [of a "CHR ''.'' # ?z @ s"] cr assms
    by (auto simp: num_end_def)
qed

lemma fmt_f_int: "0 < k \<Longrightarrow> fmt_f k (Num (a < 0) (of_int \<bar>a\<bar>)) = fmt_d a @ CHR ''.'' # replicate k (CHR ''0'')"
proof -
  assume k: "0 < k"
  have "round_half_even (of_int \<bar>a\<bar> * of_int (10 ^ k)) = \<bar>a\<bar> * 10 ^ k"
    using round_half_even_of_int [of "\<bar>a\<bar> * 10 ^ k"] by (simp del: round_half_even_of_int)
  moreover have "pad_dec k 0 = replicate k (CHR ''0'')"
    using k by (cases k) (simp_all add: pad_dec_def base_str.simps dig_def replicate_append_same)
  moreover have "- (a * 10 ^ k) div 10 ^ k = - a"
    using nonzero_mult_div_cancel_right [of "10 ^ k" "- a"] by simp
  ultimately show ?thesis using k by (simp add: fmt_d_def Let_def abs_if)
qed

end
