(* ===== verification/MP_Utils.thy ===== *)
theory MP_Utils
  imports MP_Common C_Float
begin

text \<open>
  \<^verbatim>\<open>lib/mp_utils.c\<close>: the checked \<open>printf\<close> wrappers, string building, comma separated
  arrays, matching, sizes for humans and reading a file. Allocation always succeeds in
  the model (\<open>mp_malloc\<close> and its kin end the plugin otherwise, see \<open>mp_malloc\<close>);
  the number of bytes asked for is kept, so that a text that does not fit is visible.
  The locale \<open>joiner\<close> is the contract of the three \<open>mp_strcat\<close> functions.
\<close>

section \<open>Formatted output and memory\<close>

text \<open>The length of the formatted text, \<open>None\<close> where \<open>vsprintf\<close> fails.\<close>

definition mp_sprintf :: "string option \<Rightarrow> mp_globals \<Rightarrow> mp_end + string" where
  "mp_sprintf text g =
     (case text of None \<Rightarrow> Inl (critical ''sprintf failed!'' g) | Some s \<Rightarrow> Inr s)"

definition mp_snprintf :: "nat \<Rightarrow> string option \<Rightarrow> mp_globals \<Rightarrow> mp_end + string" where
  "mp_snprintf n text g =
     (case text of
        None \<Rightarrow> Inl (critical ''snprintf failed!'' g)
      | Some s \<Rightarrow> if n \<le> length s then Inl (critical ''snprintf failed!'' g) else Inr s)"

definition mp_asprintf :: "string \<Rightarrow> cbuf" where
  "mp_asprintf text = \<lparr>cstr = text, cap = length text + 1\<rparr>"

text \<open>\<open>malloc\<close> is a parameter: whether a request of that many bytes succeeds.\<close>

definition mp_malloc :: "(nat \<Rightarrow> bool) \<Rightarrow> nat \<Rightarrow> mp_globals \<Rightarrow> mp_end + nat" where
  "mp_malloc malloc sz g =
     (if malloc sz then Inr sz else Inl (critical ''Out of memory!'' g))"

definition mp_calloc :: "(nat \<Rightarrow> bool) \<Rightarrow> nat \<Rightarrow> nat \<Rightarrow> mp_globals \<Rightarrow> mp_end + nat" where
  "mp_calloc malloc nmemb sz g =
     (if malloc (nmemb * sz) then Inr (nmemb * sz) else Inl (critical ''Out of memory!'' g))"

definition mp_realloc :: "(nat \<Rightarrow> bool) \<Rightarrow> cbuf option \<Rightarrow> nat \<Rightarrow> mp_globals \<Rightarrow> mp_end + cbuf" where
  "mp_realloc malloc ptr sz g =
     (if malloc sz
      then Inr \<lparr>cstr = (case ptr of None \<Rightarrow> [] | Some b \<Rightarrow> cstr b), cap = sz\<rparr>
      else Inl (critical ''Out of memory!'' g))"

section \<open>Strings\<close>

definition mp_strdup :: "string \<Rightarrow> cbuf" where
  "mp_strdup source = \<lparr>cstr = source, cap = length source + 2\<rparr>"

definition mp_strcat :: "cbuf option \<Rightarrow> string option \<Rightarrow> cbuf option" where
  "mp_strcat target source =
     (case source of
        None \<Rightarrow> target
      | Some s \<Rightarrow>
          (case target of
             None \<Rightarrow> Some (mp_strdup s)
           | Some t \<Rightarrow> Some \<lparr>cstr = cstr t @ s, cap = length (cstr t) + length s + 1\<rparr>))"

definition mp_strcat_space :: "cbuf option \<Rightarrow> string option \<Rightarrow> cbuf option" where
  "mp_strcat_space target source =
     (case source of
        None \<Rightarrow> target
      | Some s \<Rightarrow>
          (case target of
             None \<Rightarrow> Some (mp_strdup s)
           | Some t \<Rightarrow> Some \<lparr>cstr = cstr t @ '' '' @ s,
                               cap = length (cstr t) + length s + 2\<rparr>))"

definition mp_strcat_comma :: "cbuf option \<Rightarrow> string option \<Rightarrow> cbuf option" where
  "mp_strcat_comma target source =
     (case source of
        None \<Rightarrow> target
      | Some s \<Rightarrow>
          (case target of
             None \<Rightarrow> Some (mp_strdup s)
           | Some t \<Rightarrow> Some \<lparr>cstr = cstr t @ '', '' @ s,
                               cap = length (cstr t) + length s + 3\<rparr>))"

text \<open>The sign of \<open>strcmp\<close>, which compares bytes as unsigned.\<close>

fun strcmp :: "string \<Rightarrow> string \<Rightarrow> int" where
  "strcmp [] [] = 0"
| "strcmp [] (_ # _) = -1"
| "strcmp (_ # _) [] = 1"
| "strcmp (c # s) (d # t) =
     (if ccode c < ccode d then -1 else if ccode d < ccode c then 1 else strcmp s t)"

definition mp_strcmp :: "string \<Rightarrow> string \<Rightarrow> int" where
  "mp_strcmp s1 s2 =
     (case s1 of
        c # p \<Rightarrow> (if c = CHR ''!'' then (if strcmp p s2 = 0 then 1 else 0) else strcmp s1 s2)
      | [] \<Rightarrow> strcmp s1 s2)"

text \<open>\<open>match[len-1]\<close> is read before the empty pattern is excluded: \<open>None\<close> is that
  read in front of the string.\<close>

definition mp_strmatch :: "string \<Rightarrow> string \<Rightarrow> bool option" where
  "mp_strmatch s match =
     (if match = [] then None
      else if last match = CHR ''*''
           then Some (strncmp_eq s match (length match - 1))
           else Some (strcmp s match = 0))"

section \<open>Arrays\<close>

text \<open>
  A \<open>char **\<close> with its count: the entries written so far; \<open>None\<close> stands for an entry
  that \<open>realloc\<close> made room for and nothing wrote. \<open>arr_put\<close> is \<open>realloc\<close> to
  \<open>num + 1\<close> entries followed by the store at index \<open>num\<close>.
\<close>

definition arr_put :: "'a option list \<Rightarrow> nat \<Rightarrow> 'a \<Rightarrow> 'a option list" where
  "arr_put arr num x = take num arr @ replicate (num - length arr) None @ [Some x]"

fun arr_puts :: "'a option list \<Rightarrow> nat \<Rightarrow> 'a list \<Rightarrow> 'a option list \<times> nat" where
  "arr_puts arr num [] = (arr, num)"
| "arr_puts arr num (x # xs) = arr_puts (arr_put arr num x) (Suc num) xs"

definition mp_array_push ::
    "string option list \<Rightarrow> string option \<Rightarrow> nat \<Rightarrow> string option list \<times> nat" where
  "mp_array_push arr obj num =
     (case obj of None \<Rightarrow> (arr, num) | Some s \<Rightarrow> arr_puts arr num (strtoks '','' s))"

definition mp_array_push_int ::
    "int option list \<Rightarrow> string option \<Rightarrow> nat \<Rightarrow> int option list \<times> nat" where
  "mp_array_push_int arr obj num =
     (case obj of
        None \<Rightarrow> (arr, num)
      | Some s \<Rightarrow> arr_puts arr num (map (\<lambda>t. to_int32 (strtol 10 t)) (strtoks '','' s)))"

definition mp_array_free :: "string option list \<Rightarrow> nat \<Rightarrow> string option list \<times> nat" where
  "mp_array_free arr num = ([], 0)"

section \<open>Time, sizes and files\<close>

text \<open>The difference of two \<open>struct timeval\<close> in seconds.\<close>

definition mp_time_delta :: "int \<times> int \<Rightarrow> int \<times> int \<Rightarrow> fp" where
  "mp_time_delta time_end time_start =
     fp_add round_double (dbl_of_int (fst time_end - fst time_start))
       (fp_div round_double (dbl_of_int (snd time_end - snd time_start)) (dbl_of_int 1000000))"

fun human_loop :: "nat \<Rightarrow> nat \<Rightarrow> fp \<Rightarrow> nat \<times> fp" where
  "human_loop 0 k v = (k, v)"
| "human_loop (Suc n) k v =
     (if fp_lt (flt_of_int 1024) v
      then human_loop n (Suc k) (fp_div round_float v (flt_of_int 1024))
      else (k, v))"

definition human_unit :: "nat \<Rightarrow> string" where
  "human_unit k =
     (if k = 1 then ''KiB'' else if k = 2 then ''MiB'' else if k = 3 then ''GiB''
      else if k = 4 then ''TiB'' else [])"

definition mp_human_size :: "fp \<Rightarrow> cbuf" where
  "mp_human_size sz =
     (let (k, v) = human_loop 5 0 sz
      in \<lparr>cstr = fmt_f 2 v @ '' '' @ human_unit k, cap = 14\<rparr>)"

text \<open>\<open>files\<close> is the file system: the bytes of a file that can be opened.\<close>

definition mp_slurp :: "(string \<rightharpoonup> string) \<Rightarrow> string \<Rightarrow> int \<times> cbuf option" where
  "mp_slurp files filename =
     (case files filename of
        None \<Rightarrow> (-1, None)
      | Some s \<Rightarrow> (int (length s), Some \<lparr>cstr = s, cap = length s + 1\<rparr>))"

section \<open>The contract of the concatenations\<close>

definition str_append :: "string \<Rightarrow> string option \<Rightarrow> string \<Rightarrow> string" where
  "str_append sep t s = (case t of None \<Rightarrow> s | Some u \<Rightarrow> u @ sep @ s)"

locale joiner =
  fixes cat :: "cbuf option \<Rightarrow> string option \<Rightarrow> cbuf option"
    and sep :: string
  assumes cat_NULL: "cat t None = t"
    and cat_str: "buf_str (cat t (Some s)) = Some (str_append sep (buf_str t) s)"
    and cat_ok: "buf_ok t \<Longrightarrow> buf_ok (cat t p)"
begin

lemma cat_fold_Some:
  "buf_str t = Some u \<Longrightarrow>
   buf_str (fold (\<lambda>s t. cat t (Some s)) ss t) = Some (join_with sep (u # ss))"
proof (induction ss arbitrary: t u)
  case (Cons s ss)
  from Cons.IH [of "cat t (Some s)" "u @ sep @ s"] Cons.prems show ?case
    by (cases ss) (simp_all add: cat_str str_append_def)
qed simp

text \<open>Appending a list of texts to the NULL pointer joins them with the separator, and
  the result is within its allocation.\<close>

lemma cat_fold:
  "ss \<noteq> [] \<Longrightarrow> buf_str (fold (\<lambda>s t. cat t (Some s)) ss None) = Some (join_with sep ss)"
proof (cases ss)
  case (Cons s ss')
  then show ?thesis using cat_fold_Some [of "cat None (Some s)" s ss'] by (simp add: cat_str str_append_def)
qed simp

lemma cat_fold_ok: "buf_ok t \<Longrightarrow> buf_ok (fold (\<lambda>s t. cat t (Some s)) ss t)"
  by (induction ss arbitrary: t) (simp_all add: cat_ok)

end

interpretation plain: joiner mp_strcat "[]"
  by unfold_locales
    (auto simp: mp_strcat_def mp_strdup_def str_append_def cbuf_ok_def split: option.splits)

interpretation space: joiner mp_strcat_space "'' ''"
  by unfold_locales
    (auto simp: mp_strcat_space_def mp_strdup_def str_append_def cbuf_ok_def split: option.splits)

interpretation comma: joiner mp_strcat_comma "'', ''"
  by unfold_locales
    (auto simp: mp_strcat_comma_def mp_strdup_def str_append_def cbuf_ok_def split: option.splits)

section \<open>Arrays\<close>

lemma arr_put_end [simp]: "length arr = num \<Longrightarrow> arr_put arr num x = arr @ [Some x]"
  by (simp add: arr_put_def)

lemma arr_puts_end: "length arr = num \<Longrightarrow> arr_puts arr num xs = (arr @ map Some xs, num + length xs)"
proof (induction xs arbitrary: arr num)
  case (Cons x xs)
  then show ?case using Cons.IH [of "arr @ [Some x]" "Suc num"] by simp
qed simp

text \<open>\<open>mp_array_push\<close> splits at the commas. The entries appended to an array are the
  pieces of the argument, in order: joined with commas they are the argument again, no
  piece contains a comma, and the count grows by their number.\<close>

theorem mp_array_push_pieces:
  assumes "length arr = num"
  shows "\<exists>ts. mp_array_push arr (Some s) num = (arr @ map Some ts, num + length ts) \<and>
      ts \<noteq> [] \<and> join_with '','' ts = s \<and> (\<forall>t \<in> set ts. CHR '','' \<notin> set t)"
proof -
  have "mp_array_push arr (Some s) num =
      (arr @ map Some (strtoks '','' s), num + length (strtoks '','' s))"
    using assms by (simp add: mp_array_push_def arr_puts_end)
  moreover have "\<forall>t \<in> set (strtoks '','' s). CHR '','' \<notin> set t"
    by (auto dest: strtoks_no_delim)
  ultimately show ?thesis
    using join_strtoks [of "CHR '',''" s] strtoks_not_Nil by blast
qed

theorem mp_array_push_pieces_witness:
  "\<exists>ts. mp_array_push [Some ''a''] (Some ''b,c'') 1 = ([Some ''a''] @ map Some ts, 1 + length ts) \<and>
      ts \<noteq> [] \<and> join_with '','' ts = ''b,c'' \<and> (\<forall>t \<in> set ts. CHR '','' \<notin> set t)"
  by (rule mp_array_push_pieces) simp

text \<open>An array that only grew by pushing has no unwritten entry.\<close>

definition array_full :: "'a option list \<Rightarrow> nat \<Rightarrow> bool" where
  "array_full arr n \<longleftrightarrow> length arr = n \<and> None \<notin> set arr"

lemma arr_puts_full: "array_full arr n \<Longrightarrow> arr_puts arr n xs = (arr', n') \<Longrightarrow> array_full arr' n'"
  by (induction arr n xs rule: arr_puts.induct) (auto simp: array_full_def arr_put_def)

lemma mp_array_push_full: "array_full arr n \<Longrightarrow> mp_array_push arr (Some s) n = (arr', n') \<Longrightarrow> array_full arr' n'"
  by (simp add: mp_array_push_def arr_puts_full)

text \<open>The texts a loop collects behind each other.\<close>

definition add_texts :: "cbuf option \<Rightarrow> string list \<Rightarrow> cbuf option" where
  "add_texts t ss = fold (\<lambda>s t. mp_strcat_comma t (Some s)) ss t"

lemma add_texts_None: "buf_str (add_texts None ss) = (if ss = [] then None else Some (join_with '', '' ss))"
  using comma.cat_fold [of ss] by (auto simp: add_texts_def)

section \<open>Matching\<close>

lemma strcmp_eq_0: "strcmp s t = 0 \<longleftrightarrow> s = t"
  by (induction s t rule: strcmp.induct) (auto simp: less_le ccode_inject)

text \<open>\<open>mp_strmatch\<close> with a trailing star accepts exactly the strings that start with
  the text in front of the star, and with any other non-empty pattern exactly the pattern.
  The empty pattern makes it read the byte in front of the string.\<close>

theorem mp_strmatch_spec:
  "mp_strmatch s (p @ ''*'') = Some (take (length p) s = p) \<and>
   (\<forall>c. c \<noteq> CHR ''*'' \<longrightarrow> mp_strmatch s (p @ [c]) = Some (s = p @ [c])) \<and>
   mp_strmatch s [] = None"
  by (simp add: mp_strmatch_def strncmp_eq_def strcmp_eq_0)

theorem mp_strmatch_spec_witness:
  "mp_strmatch ''eth0'' ''eth1'' = Some False \<and> mp_strmatch ''eth0'' ''eth*'' = Some True"
proof -
  have "mp_strmatch ''eth0'' (''eth'' @ [CHR ''1'']) = Some (''eth0'' = ''eth'' @ [CHR ''1''])"
    using mp_strmatch_spec [of "''eth0''" "''eth''"] by blast
  moreover have "mp_strmatch ''eth0'' (''eth'' @ ''*'') = Some (take (length ''eth'') ''eth0'' = ''eth'')"
    using mp_strmatch_spec [of "''eth0''" "''eth''"] by blast
  ultimately show ?thesis by simp
qed

section \<open>Sizes\<close>

lemma flt_1024: "fp_of_rat round_float 1024 = Num False 1024"
proof -
  have "round_fp 24 (-149) 128 False (of_int \<bar>1024\<bar>) = Num False (of_int \<bar>1024\<bar>)"
    by (intro round_fp_of_int) simp_all
  then show ?thesis by (simp add: fp_of_rat_def)
qed

text \<open>Each round divides by 1024 and rounds; a power of two as a bound survives that.\<close>

lemma human_loop_bound:
  assumes "0 \<le> m" "m \<le> pow2 (10 * int n + 10)" "n \<le> 5"
  shows "\<exists>k r. human_loop n j (Num False m) = (k, Num False r) \<and> 0 \<le> r \<and> r \<le> 1024 \<and>
    k \<le> n + j"
  using assms
proof (induction n arbitrary: j m)
  case 0
  then show ?case by (simp add: pow2_def)
next
  case (Suc n)
  show ?case
  proof (cases "1024 < m")
    case True
    have p: "pow2 (10 * int (Suc n) + 10) = pow2 (10 * int n + 10) * 1024"
      using pow2_add [of "10 * int n + 10" 10] by (simp add: pow2_def algebra_simps)
    have "m / 1024 \<le> pow2 (10 * int n + 10)"
      using Suc.prems(2) unfolding p by simp
    then obtain r where r: "round_fp 24 (-149) 128 False (m / 1024) = Num False r"
        "0 \<le> r" "r \<le> pow2 (10 * int n + 10)"
      using round_fp_le_pow2 [of "m / 1024" "10 * int n + 10" "-149" 128 24 False] Suc.prems
      by auto
    from Suc.IH [OF r(2,3), of "Suc j"] Suc.prems(3) obtain k r' where
        "human_loop n (Suc j) (Num False r) = (k, Num False r')" "0 \<le> r'" "r' \<le> 1024"
        "k \<le> n + Suc j"
      by auto
    then show ?thesis using True r(1) by (simp add: flt_1024)
  next
    case False
    then show ?thesis using Suc.prems(1) by (simp add: flt_1024)
  qed
qed

lemma length_dec_str_le4:
  assumes "0 \<le> n" "n < 10000"
  shows "length (dec_str n) \<le> 4"
proof -
  have "n div 10 < 1000" "n div 100 < 100" "n div 1000 < 10" using assms by simp_all
  then show ?thesis
    by (simp add: base_str.simps [of 10 n] base_str.simps [of 10 "n div 10"]
        base_str.simps [of 10 "n div 100"] base_str.simps [of 10 "n div 1000"]
        zdiv_zmult2_eq [symmetric])
qed

lemma length_pad_dec2: "0 \<le> n \<Longrightarrow> n < 100 \<Longrightarrow> length (pad_dec 2 n) = 2"
proof -
  assume n: "0 \<le> n" "n < 100"
  then have "n div 10 < 10" by simp
  with n show ?thesis
    by (simp add: pad_dec_def Let_def base_str.simps [of 10 n] base_str.simps [of 10 "n div 10"])
qed

lemma length_fmt_f2:
  assumes "0 \<le> r" "r \<le> 1024"
  shows "length (fmt_f 2 (Num False r)) \<le> 7"
proof -
  let ?z = "round_half_even (r * of_int (10 ^ 2))"
  have z: "0 \<le> ?z" "?z \<le> 102400"
    using assms by (auto intro!: round_half_even_nonneg round_half_even_le)
  have "length (dec_str (?z div 10 ^ 2)) \<le> 4"
    using z by (intro length_dec_str_le4) auto
  moreover have "length (pad_dec 2 (?z mod 10 ^ 2)) = 2"
    by (intro length_pad_dec2) auto
  ultimately show ?thesis by (simp add: Let_def)
qed

lemma length_human_unit: "length (human_unit k) \<le> 3"
  by (simp add: human_unit_def)

text \<open>\<open>mp_human_size\<close> stays within its 14 byte buffer for every size from 0 to
  \<open>2 ^ 60\<close> (1 EiB): the scaled value prints in at most seven characters, the unit in three.\<close>

theorem mp_human_size_fits:
  assumes "0 \<le> m" "m \<le> 2 ^ 60"
  shows "cbuf_ok (mp_human_size (Num False m))"
proof -
  have "m \<le> pow2 (10 * int 5 + 10)" using assms(2) by (simp add: pow2_def)
  then obtain k r where kr: "human_loop 5 0 (Num False m) = (k, Num False r)" "0 \<le> r" "r \<le> 1024"
    using human_loop_bound [of m 5 0] assms(1) by auto
  then show ?thesis
    using length_fmt_f2 [of r] length_human_unit [of k]
    by (simp add: mp_human_size_def cbuf_ok_def del: fmt_f.simps)
qed

theorem mp_human_size_fits_witness:
  "cbuf_ok (mp_human_size (Num False 3145728)) \<and>
   cstr (mp_human_size (Num False 3145728)) = ''3.00 MiB''"
proof
  show "cbuf_ok (mp_human_size (Num False 3145728))"
    by (rule mp_human_size_fits) simp_all
  show "cstr (mp_human_size (Num False 3145728)) = ''3.00 MiB''"
    by code_simp
qed

end
