(* ===== verification/MP_Args.thy ===== *)
theory MP_Args
  imports MP_Check
begin

text \<open>
  \<^verbatim>\<open>lib/mp_args.c\<close>: ranges, thresholds and the option handlers the plugins share.

  \<open>range\<close> and \<open>thresholds\<close> are the structs of \<^verbatim>\<open>mp_args.h\<close>; a \<open>thresholds *\<close> that may
  be NULL is an \<open>option\<close>, and so are its two members. \<open>parse_range_string\<close> returns the range
  it leaves behind and its return code. The second half states what a threshold means
  (\<open>threshold_spec\<close>) and proves that parsing and checking implement it.
\<close>

section \<open>Ranges\<close>

datatype alert = OUTSIDE | INSIDE

record range =
  range_start :: fp
  start_infinity :: bool
  start_percent :: bool
  range_end :: fp
  end_infinity :: bool
  end_percent :: bool
  alert_on :: alert

record thresholds =
  th_warning :: "range option"
  th_critical :: "range option"

definition NOEXT :: int where "NOEXT = -1"
definition BISI :: int where "BISI = 0"
definition TIME :: int where "TIME = 1"

definition OK :: int where "OK = 0"
definition ERROR :: int where "ERROR = -1"

definition first_char :: "string \<Rightarrow> char option" where
  "first_char s = (case s of [] \<Rightarrow> None | c # _ \<Rightarrow> Some c)"

definition starts_with :: "string \<Rightarrow> char \<Rightarrow> bool" where
  "starts_with s c \<longleftrightarrow> first_char s = Some c"

definition parse_multiplier_string :: "string \<Rightarrow> int" where
  "parse_multiplier_string str =
     (if starts_with str (CHR ''k'') then 1000
      else if starts_with str (CHR ''K'') then 1024
      else if starts_with str (CHR ''m'') then 1000000
      else if starts_with str (CHR ''M'') then 1048578
      else if starts_with str (CHR ''g'') then 1000000000
      else if starts_with str (CHR ''G'') then 1073741824
      else if starts_with str (CHR ''t'') then 1000000000000
      else if starts_with str (CHR ''T'') then 1099511627776
      else if starts_with str (CHR ''p'') then 1000000000000000
      else if starts_with str (CHR ''P'') then 1125899906842624
      else if starts_with str (CHR ''e'') then 1000000000000000000
      else if starts_with str (CHR ''E'') then 1152921504606846976
      else 1)"

definition parse_time_multiplier_string :: "string \<Rightarrow> int" where
  "parse_time_multiplier_string str =
     (if starts_with str (CHR ''m'') then 60
      else if starts_with str (CHR ''h'') then 3600
      else if starts_with str (CHR ''d'') then 86400
      else if starts_with str (CHR ''w'') then 604800
      else 1)"

text \<open>The end of a bound: percent sign, then the multiplier of the suffix.\<close>

definition bound_value :: "int \<Rightarrow> fp \<Rightarrow> string \<Rightarrow> fp \<times> bool" where
  "bound_value multiplier x eptr =
     (let pc = starts_with eptr (CHR ''%'');
          x = (if pc then fp_div round_double x (dbl_of_int 100) else x)
      in (if multiplier = BISI then fp_mul round_double x (dbl_of_int (parse_multiplier_string eptr))
          else if multiplier = TIME
               then fp_mul round_double x (dbl_of_int (parse_time_multiplier_string eptr))
          else x, pc))"

definition range_default :: range where
  "range_default =
     \<lparr>range_start = Num False 0, start_infinity = False, start_percent = False,
      range_end = Num False 0, end_infinity = False, end_percent = False, alert_on = OUTSIDE\<rparr>"

text \<open>
  The test \<open>str == eptr\<close> after the start bound compares a pointer into the argument with one
  into its copy and is never true, so the start bound has no error branch.
\<close>

definition parse_start :: "int \<Rightarrow> string option \<Rightarrow> range \<Rightarrow> range" where
  "parse_start multiplier start_str r =
     (case start_str of
        None \<Rightarrow> r
      | Some s \<Rightarrow>
          if starts_with s (CHR ''~'') then r\<lparr>start_infinity := True\<rparr>
          else let (x, eptr) = strtod s; (v, pc) = bound_value multiplier x eptr
               in r\<lparr>range_start := v, start_percent := pc\<rparr>)"

definition parse_end :: "int \<Rightarrow> string \<Rightarrow> range \<Rightarrow> range \<times> int" where
  "parse_end multiplier end_str r =
     (if starts_with end_str (CHR ''~'') \<or> end_str = [] then (r\<lparr>end_infinity := True\<rparr>, OK)
      else let (x, eptr) = strtod end_str
           in if length eptr = length end_str then (r\<lparr>range_end := x\<rparr>, ERROR)
              else let (v, pc) = bound_value multiplier x eptr
                   in (r\<lparr>range_end := v, end_percent := pc\<rparr>, OK))"

definition parse_range_string :: "string \<Rightarrow> int \<Rightarrow> range \<times> int" where
  "parse_range_string str multiplier =
     (let inv = starts_with str (CHR ''@'');
          r = range_default\<lparr>alert_on := (if inv then INSIDE else OUTSIDE)\<rparr>;
          (a, b) = strsep '':'' (if inv then tl str else str);
          (start_str, end_str) = (case b of None \<Rightarrow> (None, a) | Some e \<Rightarrow> (Some a, e));
          (r, rc) = parse_end multiplier end_str (parse_start multiplier start_str r)
      in if rc = ERROR then (r, ERROR)
         else if start_infinity r \<or> end_infinity r \<or> fp_le (range_start r) (range_end r) then (r, OK)
         else (r\<lparr>range_start := range_end r, range_end := range_start r\<rparr>, OK))"

definition check_range :: "fp \<Rightarrow> range \<Rightarrow> bool" where
  "check_range v r =
     (if fp_lt v (range_start r) \<and> \<not> start_infinity r then alert_on r = OUTSIDE
      else if fp_lt (range_end r) v \<and> \<not> end_infinity r then alert_on r = OUTSIDE
      else alert_on r = INSIDE)"

definition str_range :: "range option \<Rightarrow> string" where
  "str_range rp =
     (case rp of
        None \<Rightarrow> []
      | Some r \<Rightarrow>
          if start_infinity r then
            (if end_infinity r then ''~:'' else ''~:'' @ fmt_f 3 (range_end r))
          else if fp_eq (range_start r) (Num False 0) then fmt_f 3 (range_end r)
          else if end_infinity r then fmt_f 3 (range_start r) @ '':''
          else fmt_f 3 (range_start r) @ '':'' @ fmt_f 3 (range_end r))"

section \<open>Thresholds\<close>

definition th_new :: "thresholds option \<Rightarrow> thresholds" where
  "th_new t = (case t of None \<Rightarrow> \<lparr>th_warning = None, th_critical = None\<rparr> | Some t \<Rightarrow> t)"

definition mp_threshold_set_warning ::
    "thresholds option \<Rightarrow> string \<Rightarrow> int \<Rightarrow> thresholds option \<times> int" where
  "mp_threshold_set_warning t str multiplier =
     (let (r, rc) = parse_range_string str multiplier
      in (Some ((th_new t)\<lparr>th_warning := Some r\<rparr>), rc))"

definition mp_threshold_set_critical ::
    "thresholds option \<Rightarrow> string \<Rightarrow> int \<Rightarrow> thresholds option \<times> int" where
  "mp_threshold_set_critical t str multiplier =
     (let (r, rc) = parse_range_string str multiplier
      in (Some ((th_new t)\<lparr>th_critical := Some r\<rparr>), rc))"

definition mp_threshold_set_warning_time ::
    "thresholds option \<Rightarrow> string \<Rightarrow> thresholds option \<times> int" where
  "mp_threshold_set_warning_time t str =
     (let (r, rc) = parse_range_string str TIME
      in (Some ((th_new t)\<lparr>th_warning := Some r\<rparr>), rc))"

definition mp_threshold_set_critical_time ::
    "thresholds option \<Rightarrow> string \<Rightarrow> thresholds option \<times> int" where
  "mp_threshold_set_critical_time t str =
     (let (r, rc) = parse_range_string str TIME
      in (Some ((th_new t)\<lparr>th_critical := Some r\<rparr>), rc))"

definition get_status :: "fp \<Rightarrow> thresholds option \<Rightarrow> int" where
  "get_status v t =
     (case t of
        None \<Rightarrow> STATE_OK
      | Some t \<Rightarrow>
          if (case th_critical t of None \<Rightarrow> False | Some r \<Rightarrow> check_range v r) then STATE_CRITICAL
          else if (case th_warning t of None \<Rightarrow> False | Some r \<Rightarrow> check_range v r) then STATE_WARNING
          else STATE_OK)"

definition fmt_bool :: "bool \<Rightarrow> string" where
  "fmt_bool b = (if b then ''1'' else ''0'')"

definition print_thresholds :: "string \<Rightarrow> thresholds option \<Rightarrow> string" where
  "print_thresholds name t =
     name @ '' - '' @
     (case t of
        None \<Rightarrow> ''Threshold not set''
      | Some t \<Rightarrow>
          (case th_warning t of
             Some r \<Rightarrow> ''Warning: start='' @ fmt_g (range_start r) @ '' end='' @ fmt_g (range_end r)
               @ ''; '' @ ''('' @ fmt_bool (start_infinity r) @ '':'' @ fmt_bool (end_infinity r) @ '') ''
           | None \<Rightarrow> ''Warning not set; '') @
          (case th_critical t of
             Some r \<Rightarrow> ''Critical: start='' @ fmt_g (range_start r) @ '' end='' @ fmt_g (range_end r)
               @ ''('' @ fmt_bool (start_infinity r) @ '':'' @ fmt_bool (end_infinity r) @ '') ''
           | None \<Rightarrow> ''Critical not set'')) @
     nl"

section \<open>Option handlers\<close>

definition quoted :: "string \<Rightarrow> string" where
  "quoted s = CHR 0x27 # s @ [CHR 0x27]"

definition getopt_host :: "bool \<Rightarrow> resolver \<Rightarrow> string \<Rightarrow> mp_globals \<Rightarrow> mp_end + string" where
  "getopt_host v6 gai optarg g =
     (if \<not> is_hostname optarg \<and> \<not> is_hostaddr v6 gai optarg
      then Inl (usage (''Illegal host argument '' @ quoted optarg @ ''.'') g)
      else Inr optarg)"

definition getopt_host_ip :: "bool \<Rightarrow> resolver \<Rightarrow> string \<Rightarrow> mp_globals \<Rightarrow> mp_end + string" where
  "getopt_host_ip v6 gai optarg g =
     (if \<not> is_hostaddr v6 gai optarg
      then Inl (usage (''Illegal Host-IP argument '' @ quoted optarg @ ''.'') g)
      else Inr optarg)"

definition getopt_port :: "string \<Rightarrow> mp_globals \<Rightarrow> mp_end + int" where
  "getopt_port optarg g =
     (if \<not> is_integer (Some optarg) then Inl (usage (''Illegal port number '' @ quoted optarg @ ''.'') g)
      else Inr (to_int32 (strtol 10 optarg)))"

definition getopt_url :: "bool \<Rightarrow> resolver \<Rightarrow> string \<Rightarrow> mp_globals \<Rightarrow> mp_end + string" where
  "getopt_url v6 gai optarg g =
     (if \<not> is_url v6 gai optarg then Inl (usage (''Illegal url '' @ quoted optarg @ ''.'') g)
      else Inr optarg)"

definition illegal_threshold :: "char \<Rightarrow> string \<Rightarrow> mp_globals \<Rightarrow> mp_end" where
  "illegal_threshold c optarg g =
     usage (''Illegal -'' @ [c] @ '' threshold '' @ quoted optarg @ ''.'') g"

definition getopt_wc ::
    "char \<Rightarrow> string \<Rightarrow> thresholds option \<Rightarrow> mp_globals \<Rightarrow> mp_end + thresholds option" where
  "getopt_wc c optarg t g =
     (if c = CHR ''w'' then
        (let (t, rc) = mp_threshold_set_warning t optarg BISI
         in if rc = ERROR then Inl (illegal_threshold c optarg g) else Inr t)
      else if c = CHR ''c'' then
        (let (t, rc) = mp_threshold_set_critical t optarg BISI
         in if rc = ERROR then Inl (illegal_threshold c optarg g) else Inr t)
      else Inr t)"

definition getopt_wc_time ::
    "char \<Rightarrow> string \<Rightarrow> thresholds option \<Rightarrow> mp_globals \<Rightarrow> mp_end + thresholds option" where
  "getopt_wc_time c optarg t g =
     (if c = CHR ''w'' then
        (let (t, rc) = mp_threshold_set_warning_time t optarg
         in if rc = ERROR then Inl (illegal_threshold c optarg g) else Inr t)
      else if c = CHR ''c'' then
        (let (t, rc) = mp_threshold_set_critical_time t optarg
         in if rc = ERROR then Inl (illegal_threshold c optarg g) else Inr t)
      else Inr t)"

text \<open>The \<open>_at\<close> variants: a text without a colon alerts inside.\<close>

definition warning_inside :: "string \<Rightarrow> thresholds option \<Rightarrow> thresholds option" where
  "warning_inside optarg t =
     (if CHR '':'' \<in> set optarg then t
      else map_option (\<lambda>t. t\<lparr>th_warning := map_option (\<lambda>r. r\<lparr>alert_on := INSIDE\<rparr>) (th_warning t)\<rparr>) t)"

definition critical_inside :: "string \<Rightarrow> thresholds option \<Rightarrow> thresholds option" where
  "critical_inside optarg t =
     (if CHR '':'' \<in> set optarg then t
      else map_option (\<lambda>t. t\<lparr>th_critical := map_option (\<lambda>r. r\<lparr>alert_on := INSIDE\<rparr>) (th_critical t)\<rparr>) t)"

definition getopt_wc_at ::
    "char \<Rightarrow> string \<Rightarrow> thresholds option \<Rightarrow> mp_globals \<Rightarrow> mp_end + thresholds option" where
  "getopt_wc_at c optarg t g =
     (if c = CHR ''w'' then
        (let (t, rc) = mp_threshold_set_warning t optarg BISI
         in if rc = ERROR then Inl (illegal_threshold c optarg g) else Inr (warning_inside optarg t))
      else if c = CHR ''c'' then
        (let (t, rc) = mp_threshold_set_critical t optarg BISI
         in if rc = ERROR then Inl (illegal_threshold c optarg g) else Inr (critical_inside optarg t))
      else Inr t)"

definition getopt_wc_time_at ::
    "char \<Rightarrow> string \<Rightarrow> thresholds option \<Rightarrow> mp_globals \<Rightarrow> mp_end + thresholds option" where
  "getopt_wc_time_at c optarg t g =
     (if c = CHR ''w'' then
        (let (t, rc) = mp_threshold_set_warning_time t optarg
         in if rc = ERROR then Inl (illegal_threshold c optarg g) else Inr (warning_inside optarg t))
      else if c = CHR ''c'' then
        (let (t, rc) = mp_threshold_set_critical_time t optarg
         in if rc = ERROR then Inl (illegal_threshold c optarg g) else Inr (critical_inside optarg t))
      else Inr t)"

definition AF_UNSPEC :: int where "AF_UNSPEC = 0"

definition getopt_46 :: "bool \<Rightarrow> char \<Rightarrow> int \<Rightarrow> int" where
  "getopt_46 use_ipv6 c family =
     (if use_ipv6 then
        (if c = CHR ''4'' then
           (if family = AF_UNSPEC then AF_INET else if family = AF_INET6 then AF_UNSPEC else family)
         else if c = CHR ''6'' then
           (if family = AF_UNSPEC then AF_INET6 else if family = AF_INET then AF_UNSPEC else family)
         else family)
      else AF_INET)"

section \<open>Help texts\<close>

definition help_lines :: "string list \<Rightarrow> string" where
  "help_lines ls = concat (map (\<lambda>l. l @ nl) ls)"

definition print_help_default :: string where
  "print_help_default = help_lines
     [[], ''Options:'',
      '' -h, --help'', ''      Print detailed help screen.'',
      '' -V, --version'', ''      Print version information.'',
      '' -v, --verbose'', ''      Show details for command-line debugging.'',
      '' -t, --timeout=INTEGER'', ''      Seconds before the check return with a timeout alert.'',
      ''     --eopt=[section][@file]'', ''      Read additional opts from section in ini-File.'',
      ''     --perfdata'', ''      Print performance data (if available).'']"

definition print_help_notify :: string where
  "print_help_notify = help_lines
     [[], ''Options:'',
      '' -h, --help'', ''      Print detailed help screen.'',
      '' -V, --version'', ''      Print version information.'',
      '' -v, --verbose'', ''      Show details for command-line debugging.'',
      '' -t, --timeout=INTEGER'', ''      Seconds before the check return with a timeout alert.'',
      ''     --eopt=[section][@file]'', ''      Read additional opts from section in ini-File.'',
      '' -F, --file=[filename]'', ''      Read notification template from file.'',
      '' -m, --message=[Message Template]'', ''      Use string as message template.'']"

definition print_help_host :: string where
  "print_help_host = help_lines ['' -H, --hostname=ADDRESS'', ''      Host name or IP Address.'']"

definition print_help_port :: "string \<Rightarrow> string" where
  "print_help_port def = help_lines
     ['' -P, --port=PORT'', ''      Port number to use. Defaults to '' @ def]"

definition print_help_warn_time :: "string \<Rightarrow> string" where
  "print_help_warn_time def = help_lines
     ['' -w, --warning=time[d|h|m|s]'',
      ''      Return warning if elapsed time exceeds value. Defaults to '' @ def]"

definition print_help_crit_time :: "string \<Rightarrow> string" where
  "print_help_crit_time def = help_lines
     ['' -c, --critical=time[d|h|m|s]'',
      ''      Return critical if elapsed time exceeds value. Defaults to '' @ def]"

definition print_help_warn :: "string \<Rightarrow> string \<Rightarrow> string" where
  "print_help_warn limit def = help_lines
     ['' -w, --warning=LIMIT'', ''      Return warning if '' @ limit @ '' exceeds limit. Defaults to '' @ def]"

definition print_help_crit :: "string \<Rightarrow> string \<Rightarrow> string" where
  "print_help_crit limit def = help_lines
     ['' -c, --critical=LIMIT'', ''      Return critical if '' @ limit @ '' exceeds limit. Defaults to '' @ def]"

definition print_help_46 :: "bool \<Rightarrow> string" where
  "print_help_46 use_ipv6 =
     (if use_ipv6 then help_lines
        ['' -4, --ipv4'', ''      Use IPv4 to check.'', '' -6, --ipv6'', ''      Use IPv6 to check.'']
      else [])"

section \<open>What a threshold text means\<close>

text \<open>
  A bound is a number and a unit suffix, a range is \<open>b\<close>, \<open>a:b\<close>, \<open>~:b\<close>, \<open>a:\<close> or \<open>~:\<close>, and a
  threshold text is a range, inverted when an \<open>@\<close> comes first. \<open>range_outside\<close> is the
  documented meaning: the value lies outside the closed interval.
\<close>

datatype bound_spec = Bound int string
datatype range_spec = Upto bound_spec | Between bound_spec bound_spec | Below bound_spec
  | Above bound_spec | Everything

definition unit_factor :: "int \<Rightarrow> string \<Rightarrow> int" where
  "unit_factor multiplier suf =
     (if multiplier = BISI then parse_multiplier_string suf
      else if multiplier = TIME then parse_time_multiplier_string suf else 1)"

fun bound_text :: "bound_spec \<Rightarrow> string" where
  "bound_text (Bound a suf) = fmt_d a @ suf"

fun bound_num :: "int \<Rightarrow> bound_spec \<Rightarrow> int" where
  "bound_num m (Bound a suf) = a * unit_factor m suf"

fun bound_ok :: "int \<Rightarrow> bound_spec \<Rightarrow> bool" where
  "bound_ok m (Bound a suf) \<longleftrightarrow>
     num_end suf \<and> CHR '':'' \<notin> set suf \<and> \<not> starts_with suf (CHR ''%'') \<and>
     \<bar>a\<bar> < 2 ^ 53 \<and> \<bar>a * unit_factor m suf\<bar> < 2 ^ 53"

fun range_text :: "range_spec \<Rightarrow> string" where
  "range_text (Upto b) = bound_text b"
| "range_text (Between a b) = bound_text a @ '':'' @ bound_text b"
| "range_text (Below b) = ''~:'' @ bound_text b"
| "range_text (Above a) = bound_text a @ '':''"
| "range_text Everything = ''~:''"

fun range_spec_ok :: "int \<Rightarrow> range_spec \<Rightarrow> bool" where
  "range_spec_ok m (Upto b) = bound_ok m b"
| "range_spec_ok m (Between a b) = (bound_ok m a \<and> bound_ok m b)"
| "range_spec_ok m (Below b) = bound_ok m b"
| "range_spec_ok m (Above a) = bound_ok m a"
| "range_spec_ok m Everything = True"

fun range_outside :: "int \<Rightarrow> range_spec \<Rightarrow> rat \<Rightarrow> bool" where
  "range_outside m (Upto b) x = (x < of_int (min 0 (bound_num m b)) \<or> of_int (max 0 (bound_num m b)) < x)"
| "range_outside m (Between a b) x =
     (x < of_int (min (bound_num m a) (bound_num m b)) \<or> of_int (max (bound_num m a) (bound_num m b)) < x)"
| "range_outside m (Below b) x = (of_int (bound_num m b) < x)"
| "range_outside m (Above a) x = (x < of_int (bound_num m a))"
| "range_outside m Everything x = False"

datatype threshold_spec = Thr bool range_spec

fun threshold_text :: "threshold_spec \<Rightarrow> string" where
  "threshold_text (Thr neg s) = (if neg then ''@'' else []) @ range_text s"

fun threshold_ok :: "int \<Rightarrow> threshold_spec \<Rightarrow> bool" where
  "threshold_ok m (Thr neg s) = range_spec_ok m s"

fun threshold_alerts :: "int \<Rightarrow> threshold_spec \<Rightarrow> rat \<Rightarrow> bool" where
  "threshold_alerts m (Thr neg s) x = (range_outside m s x \<noteq> neg)"

section \<open>Lemmas\<close>

lemma starts_with_simps [simp]:
  "\<not> starts_with [] c" "starts_with (d # s) c \<longleftrightarrow> d = c"
  by (simp_all add: starts_with_def first_char_def)

definition dnum :: "int \<Rightarrow> fp" where
  "dnum a = Num (a < 0) (of_int \<bar>a\<bar>)"

lemma round_double_dnum: "\<bar>a\<bar> < 2 ^ 53 \<Longrightarrow> round_double (a < 0) (of_int \<bar>a\<bar>) = dnum a"
  using round_double_int [of a] by (simp add: fp_of_rat_def dnum_def)

lemma unit_factor_pos: "0 < unit_factor m suf"
  by (simp add: unit_factor_def parse_multiplier_string_def parse_time_multiplier_string_def)

lemma unit_factor_small: "num_end suf \<Longrightarrow> unit_factor m suf < 2 ^ 53"
  by (cases suf) (auto simp: unit_factor_def parse_multiplier_string_def
      parse_time_multiplier_string_def num_end_def)

lemma bound_value_dnum:
  assumes "bound_ok m (Bound a suf)"
  shows "bound_value m (dnum a) suf = (dnum (a * unit_factor m suf), False)"
proof -
  let ?f = "unit_factor m suf"
  have f: "0 < ?f" "?f < 2 ^ 53" using assms unit_factor_pos unit_factor_small by auto
  have "dbl_of_int ?f = Num False (of_int ?f)" using round_double_int [of ?f] f by simp
  moreover have "round_double (a < 0) (\<bar>of_int a\<bar> * of_int ?f) = dnum (a * ?f)"
  proof -
    have "(a < 0) = (a * ?f < 0)" using f(1) by (simp add: mult_less_0_iff)
    moreover have "\<bar>of_int a\<bar> * of_int ?f = (of_int \<bar>a * ?f\<bar> :: rat)"
      using f(1) by (simp add: abs_mult)
    ultimately show ?thesis using round_double_dnum [of "a * ?f"] assms by simp
  qed
  ultimately show ?thesis using assms
    by (auto simp: bound_value_def unit_factor_def BISI_def TIME_def dnum_def split: if_splits)
qed

lemma strtod_bound:
  "bound_ok m (Bound a suf) \<Longrightarrow> strtod (fmt_d a @ suf) = (dnum a, suf)"
  using strtod_fmt_d [of suf a] round_double_dnum [of a] by simp

lemma fmt_d_hd: "fmt_d a \<noteq> []" "hd (fmt_d a) \<in> set ''-0123456789 ''"
proof -
  show n: "fmt_d a \<noteq> []" by (simp add: fmt_d_def)
  then show "hd (fmt_d a) \<in> set ''-0123456789 ''" using set_fmt_d [of a] hd_in_set by blast
qed

lemma bound_text_facts:
  assumes "bound_ok m b"
  shows "bound_text b \<noteq> []" "\<not> starts_with (bound_text b) (CHR ''~'')"
    "\<not> starts_with (bound_text b) (CHR ''@'')" "CHR '':'' \<notin> set (bound_text b)"
proof -
  obtain a suf where b: "b = Bound a suf" by (cases b)
  obtain c r where c: "fmt_d a = c # r" "c \<in> set ''-0123456789 ''"
    using fmt_d_hd [of a] by (cases "fmt_d a") auto
  show "bound_text b \<noteq> []" "\<not> starts_with (bound_text b) (CHR ''~'')"
    "\<not> starts_with (bound_text b) (CHR ''@'')"
    using c b by auto
  show "CHR '':'' \<notin> set (bound_text b)" using assms b set_fmt_d [of a] by auto
qed

lemma parse_start_bound:
  assumes "bound_ok m b"
  shows "parse_start m (Some (bound_text b)) r = r\<lparr>range_start := dnum (bound_num m b), start_percent := False\<rparr>"
proof -
  obtain a suf where b: "b = Bound a suf" by (cases b)
  show ?thesis
    using bound_text_facts [OF assms] assms strtod_bound bound_value_dnum
    by (simp add: parse_start_def b del: bound_ok.simps)
qed

lemma parse_end_bound:
  assumes "bound_ok m b"
  shows "parse_end m (bound_text b) r = (r\<lparr>range_end := dnum (bound_num m b), end_percent := False\<rparr>, OK)"
proof -
  obtain a suf where b: "b = Bound a suf" by (cases b)
  show ?thesis
    using bound_text_facts [OF assms] assms strtod_bound bound_value_dnum fmt_d_hd(1) [of a]
    by (simp add: parse_end_def b del: bound_ok.simps)
qed

lemma fp_le_dnum [simp]: "fp_le (dnum a) (dnum b) \<longleftrightarrow> a \<le> b"
  by (auto simp: fp_le_def dnum_def)

lemma dnum_0: "Num False 0 = dnum 0"
  by (simp add: dnum_def)

fun spec_range :: "int \<Rightarrow> range_spec \<Rightarrow> range" where
  "spec_range m (Upto b) = range_default\<lparr>range_start := dnum (min 0 (bound_num m b)),
     range_end := dnum (max 0 (bound_num m b))\<rparr>"
| "spec_range m (Between a b) = range_default\<lparr>range_start := dnum (min (bound_num m a) (bound_num m b)),
     range_end := dnum (max (bound_num m a) (bound_num m b))\<rparr>"
| "spec_range m (Below b) = range_default\<lparr>start_infinity := True, range_end := dnum (bound_num m b)\<rparr>"
| "spec_range m (Above a) = range_default\<lparr>range_start := dnum (bound_num m a), end_infinity := True\<rparr>"
| "spec_range m Everything = range_default\<lparr>start_infinity := True, end_infinity := True\<rparr>"

text \<open>The part of \<open>parse_range_string\<close> after the \<open>@\<close>.\<close>

definition parse_bounds :: "string \<Rightarrow> int \<Rightarrow> range \<Rightarrow> range \<times> int" where
  "parse_bounds str multiplier r =
     (let (a, b) = strsep '':'' str;
          (start_str, end_str) = (case b of None \<Rightarrow> (None, a) | Some e \<Rightarrow> (Some a, e));
          (r, rc) = parse_end multiplier end_str (parse_start multiplier start_str r)
      in if rc = ERROR then (r, ERROR)
         else if start_infinity r \<or> end_infinity r \<or> fp_le (range_start r) (range_end r) then (r, OK)
         else (r\<lparr>range_start := range_end r, range_end := range_start r\<rparr>, OK))"

lemma parse_range_string_bounds:
  "parse_range_string str m =
     (if starts_with str (CHR ''@'') then parse_bounds (tl str) m (range_default\<lparr>alert_on := INSIDE\<rparr>)
      else parse_bounds str m range_default)"
  by (simp add: parse_range_string_def parse_bounds_def Let_def range_default_def)

lemma parse_bounds_none:
  "CHR '':'' \<notin> set e \<Longrightarrow> parse_bounds e m r =
     (let (r, rc) = parse_end m e (parse_start m None r)
      in if rc = ERROR then (r, ERROR)
         else if start_infinity r \<or> end_infinity r \<or> fp_le (range_start r) (range_end r) then (r, OK)
         else (r\<lparr>range_start := range_end r, range_end := range_start r\<rparr>, OK))"
  by (simp add: parse_bounds_def strsep_none)

lemma parse_bounds_colon:
  "CHR '':'' \<notin> set s \<Longrightarrow> parse_bounds (s @ CHR '':'' # e) m r =
     (let (r, rc) = parse_end m e (parse_start m (Some s) r)
      in if rc = ERROR then (r, ERROR)
         else if start_infinity r \<or> end_infinity r \<or> fp_le (range_start r) (range_end r) then (r, OK)
         else (r\<lparr>range_start := range_end r, range_end := range_start r\<rparr>, OK))"
  by (simp add: parse_bounds_def strsep_hit)

lemma parse_end_open: "parse_end m [] r = (r\<lparr>end_infinity := True\<rparr>, OK)"
  by (simp add: parse_end_def)

lemma parse_start_open: "parse_start m (Some (CHR ''~'' # s)) r = r\<lparr>start_infinity := True\<rparr>"
  by (simp add: parse_start_def)

lemma OK_not_ERROR [simp]: "OK \<noteq> ERROR" "ERROR \<noteq> OK"
  by (simp_all add: OK_def ERROR_def)

lemma parse_bounds_spec:
  assumes "range_spec_ok m s"
  shows "parse_bounds (range_text s) m (range_default\<lparr>alert_on := al\<rparr>) = ((spec_range m s)\<lparr>alert_on := al\<rparr>, OK)"
proof (cases s)
  case (Upto b)
  then have "bound_ok m b" using assms by simp
  note f = bound_text_facts [OF this] parse_end_bound [OF this]
  show ?thesis using f(4)
    by (auto simp: Upto parse_bounds_none f(5) parse_start_def range_default_def dnum_0 min_def max_def)
next
  case (Between a b)
  then have "bound_ok m a" "bound_ok m b" using assms by simp_all
  note f = bound_text_facts [OF this(1)] parse_start_bound [OF this(1)] parse_end_bound [OF this(2)]
  show ?thesis using f(4)
    by (auto simp: Between parse_bounds_colon f(5, 6) range_default_def min_def max_def)
next
  case (Below b)
  then have "bound_ok m b" using assms by simp
  note f = parse_end_bound [OF this]
  show ?thesis using parse_bounds_colon [of "''~''" "bound_text b" m]
    by (simp add: Below f parse_start_open range_default_def)
next
  case (Above a)
  then have "bound_ok m a" using assms by simp
  note f = bound_text_facts [OF this] parse_start_bound [OF this]
  show ?thesis using f(4)
    by (simp add: Above parse_bounds_colon f(5) parse_end_open range_default_def)
next
  case Everything
  show ?thesis using parse_bounds_colon [of "''~''" "[]" m]
    by (simp add: Everything parse_start_open parse_end_open range_default_def)
qed

lemma range_text_not_at: "range_spec_ok m s \<Longrightarrow> \<not> starts_with (range_text s) (CHR ''@'')"
proof -
  have "\<not> starts_with (bound_text b @ r) (CHR ''@'')" if "bound_ok m b" for b r
    using bound_text_facts(1, 3) [OF that] by (cases "bound_text b") auto
  note this [of _ "[]"] this
  then show "range_spec_ok m s \<Longrightarrow> \<not> starts_with (range_text s) (CHR ''@'')"
    by (cases s) auto
qed

lemma parse_threshold_text:
  assumes "threshold_ok m (Thr neg s)"
  shows "parse_range_string (threshold_text (Thr neg s)) m =
    ((spec_range m s)\<lparr>alert_on := (if neg then INSIDE else OUTSIDE)\<rparr>, OK)"
  using assms parse_bounds_spec [of m s INSIDE] parse_bounds_spec [of m s OUTSIDE] range_text_not_at [of m s]
  by (simp add: parse_range_string_bounds range_default_def)

lemma fp_lt_dnum: "fp_lt (Num t q) (dnum a) \<longleftrightarrow> fp_val t q < of_int a"
  "fp_lt (dnum a) (Num t q) \<longleftrightarrow> of_int a < fp_val t q"
  by (auto simp: dnum_def)

lemma check_range_alert:
  "check_range v r \<longleftrightarrow> (alert_on r = OUTSIDE) =
     (fp_lt v (range_start r) \<and> \<not> start_infinity r \<or> fp_lt (range_end r) v \<and> \<not> end_infinity r)"
  by (cases "alert_on r") (auto simp: check_range_def)

lemma check_spec_range:
  "check_range (Num t q) ((spec_range m s)\<lparr>alert_on := (if neg then INSIDE else OUTSIDE)\<rparr>)
     = threshold_alerts m (Thr neg s) (fp_val t q)"
  by (cases s) (simp_all add: check_range_alert range_default_def fp_lt_dnum del: fp_lt.simps fp_val.simps of_int_min of_int_max)

lemma check_threshold_text:
  assumes "threshold_ok m th"
  obtains r where "parse_range_string (threshold_text th) m = (r, OK)"
    "\<And>t q. check_range (Num t q) r = threshold_alerts m th (fp_val t q)"
  using assms parse_threshold_text check_spec_range by (cases th) metis

lemma getopt_wc_text:
  assumes "threshold_ok BISI th"
  shows "\<exists>r. (\<forall>t q. check_range (Num t q) r = threshold_alerts BISI th (fp_val t q)) \<and>
    (\<forall>t. getopt_wc (CHR ''w'') (threshold_text th) t g = Inr (Some ((th_new t)\<lparr>th_warning := Some r\<rparr>))) \<and>
    (\<forall>t. getopt_wc (CHR ''c'') (threshold_text th) t g = Inr (Some ((th_new t)\<lparr>th_critical := Some r\<rparr>)))"
proof -
  obtain r where "parse_range_string (threshold_text th) BISI = (r, OK)"
    and "\<And>t q. check_range (Num t q) r = threshold_alerts BISI th (fp_val t q)"
    using check_threshold_text [OF assms] by blast
  then show ?thesis
    by (intro exI [of _ r]) (simp add: getopt_wc_def mp_threshold_set_warning_def
        mp_threshold_set_critical_def)
qed

lemma getopt_wc_time_text:
  assumes "threshold_ok TIME th"
  shows "\<exists>r. (\<forall>t q. check_range (Num t q) r = threshold_alerts TIME th (fp_val t q)) \<and>
    (\<forall>t. getopt_wc_time (CHR ''w'') (threshold_text th) t g = Inr (Some ((th_new t)\<lparr>th_warning := Some r\<rparr>))) \<and>
    (\<forall>t. getopt_wc_time (CHR ''c'') (threshold_text th) t g = Inr (Some ((th_new t)\<lparr>th_critical := Some r\<rparr>)))"
proof -
  obtain r where "parse_range_string (threshold_text th) TIME = (r, OK)"
    and "\<And>t q. check_range (Num t q) r = threshold_alerts TIME th (fp_val t q)"
    using check_threshold_text [OF assms] by blast
  then show ?thesis
    by (intro exI [of _ r]) (simp add: getopt_wc_time_def mp_threshold_set_warning_time_def
        mp_threshold_set_critical_time_def)
qed

lemma get_status_both:
  "get_status v (Some ((th_new (Some ((th_new None)\<lparr>th_warning := Some w\<rparr>)))\<lparr>th_critical := Some c\<rparr>)) =
     (if check_range v c then STATE_CRITICAL else if check_range v w then STATE_WARNING else STATE_OK)"
  by (simp add: get_status_def th_new_def)

lemma strtod_bound_frac:
  "\<bar>a\<bar> < 2 ^ 53 \<Longrightarrow> num_end s \<Longrightarrow> strtod (fmt_f 3 (dnum a) @ s) = (dnum a, s)"
  using strtod_fmt_d_frac [of s a 3] round_double_dnum [of a] fmt_f_int [of 3 a]
  by (simp add: dnum_def)

lemma bound_value_plain: "\<bar>a\<bar> < 2 ^ 53 \<Longrightarrow> bound_value m (dnum a) [] = (dnum a, False)"
  using bound_value_dnum [of m a "[]"]
  by (simp add: num_end_def unit_factor_def parse_multiplier_string_def parse_time_multiplier_string_def)

lemma fmt_f_facts:
  "fmt_f 3 (dnum a) \<noteq> []" "\<not> starts_with (fmt_f 3 (dnum a) @ s) (CHR ''~'')"
  "\<not> starts_with (fmt_f 3 (dnum a) @ s) (CHR ''@'')" "CHR '':'' \<notin> set (fmt_f 3 (dnum a))"
proof -
  have f: "fmt_f 3 (dnum a) = fmt_d a @ CHR ''.'' # replicate 3 (CHR ''0'')"
    using fmt_f_int [of 3 a] by (simp add: dnum_def)
  obtain c r where "fmt_d a = c # r" "c \<in> set ''-0123456789 ''"
    using fmt_d_hd [of a] by (cases "fmt_d a") auto
  then show "fmt_f 3 (dnum a) \<noteq> []" "\<not> starts_with (fmt_f 3 (dnum a) @ s) (CHR ''~'')"
    "\<not> starts_with (fmt_f 3 (dnum a) @ s) (CHR ''@'')"
    by (auto simp: f)
  show "CHR '':'' \<notin> set (fmt_f 3 (dnum a))" using set_fmt_d [of a] by (auto simp: f)
qed

lemma parse_end_printed:
  "\<bar>a\<bar> < 2 ^ 53 \<Longrightarrow> parse_end m (fmt_f 3 (dnum a)) r =
     (r\<lparr>range_end := dnum a, end_percent := False\<rparr>, OK)"
  using fmt_f_facts(1, 4) [of a] fmt_f_facts(2, 3) [of a "[]"] strtod_bound_frac [of a "[]"] bound_value_plain [of a m]
  by (simp add: parse_end_def num_end_def)

lemma parse_start_printed:
  "\<bar>a\<bar> < 2 ^ 53 \<Longrightarrow> parse_start m (Some (fmt_f 3 (dnum a))) r =
     r\<lparr>range_start := dnum a, start_percent := False\<rparr>"
  using fmt_f_facts(1, 4) [of a] fmt_f_facts(2, 3) [of a "[]"] strtod_bound_frac [of a "[]"] bound_value_plain [of a m]
  by (simp add: parse_start_def num_end_def)

lemma fp_eq_dnum_0: "fp_eq (dnum a) (Num False 0) \<longleftrightarrow> a = 0"
  by (auto simp: dnum_def)

lemma dbl_of_multiplier: "\<exists>x. dbl_of_int (parse_multiplier_string s) = Num False x"
proof -
  let ?m = "parse_multiplier_string s"
  have m: "0 < ?m" "?m \<le> 2 ^ 60" by (simp_all add: parse_multiplier_string_def)
  have "(of_int ?m :: rat) \<le> of_int (2 ^ 60)" using m(2) by (simp only: of_int_le_iff)
  then have "of_int ?m \<le> pow2 60" by (simp add: pow2_def)
  then show ?thesis
    using m(1) round_fp_le_pow2 [of "of_int ?m" 60 "-1074" 1024 53 False] by (auto simp: fp_of_rat_def)
qed

lemma zero_times_unit:
  "fp_mul round_double (Num False 0) (dbl_of_int (parse_multiplier_string s)) = Num False 0"
  "fp_mul round_double (Num False 0) (dbl_of_int (parse_time_multiplier_string s)) = Num False 0"
proof -
  show "fp_mul round_double (Num False 0) (dbl_of_int (parse_multiplier_string s)) = Num False 0"
    using dbl_of_multiplier [of s] by (auto simp: round_fp_def)
  have "0 < parse_time_multiplier_string s" "parse_time_multiplier_string s < 2 ^ 53"
    by (simp_all add: parse_time_multiplier_string_def)
  then show "fp_mul round_double (Num False 0) (dbl_of_int (parse_time_multiplier_string s)) = Num False 0"
    using round_double_int [of "parse_time_multiplier_string s"] by (simp add: round_fp_def)
qed

lemma fp_lt_imp_le: "fp_lt x y \<Longrightarrow> fp_le x y"
  by (simp add: fp_le_def)

section \<open>Properties\<close>

text \<open>C1: End to end meaning of \<open>-w\<close> and \<open>-c\<close>: for threshold texts in the documented format
  (\<open>[@]b\<close>, \<open>a:b\<close>, \<open>~:b\<close>, \<open>a:\<close>, with unit suffixes and magnitudes below 2 to the 53), both
  \<open>getopt_wc\<close> calls succeed and \<open>get_status\<close> then returns CRITICAL if the value is outside the
  critical interval (inside it for \<open>@\<close>), else WARNING by the warning interval, else OK.\<close>

theorem getopt_wc_status:
  assumes "threshold_ok BISI w" "threshold_ok BISI c"
  shows "\<exists>t1 t2. getopt_wc (CHR ''w'') (threshold_text w) None g = Inr t1 \<and>
    getopt_wc (CHR ''c'') (threshold_text c) t1 g = Inr t2 \<and>
    (\<forall>t q. get_status (Num t q) t2 =
       (if threshold_alerts BISI c (fp_val t q) then STATE_CRITICAL
        else if threshold_alerts BISI w (fp_val t q) then STATE_WARNING else STATE_OK))"
proof -
  obtain rw where w: "\<forall>t q. check_range (Num t q) rw = threshold_alerts BISI w (fp_val t q)"
    "\<forall>t. getopt_wc (CHR ''w'') (threshold_text w) t g = Inr (Some ((th_new t)\<lparr>th_warning := Some rw\<rparr>))"
    using getopt_wc_text [OF assms(1), of g] by blast
  obtain rc where c: "\<forall>t q. check_range (Num t q) rc = threshold_alerts BISI c (fp_val t q)"
    "\<forall>t. getopt_wc (CHR ''c'') (threshold_text c) t g = Inr (Some ((th_new t)\<lparr>th_critical := Some rc\<rparr>))"
    using getopt_wc_text [OF assms(2), of g] by blast
  show ?thesis
    by (intro exI conjI allI) (rule w(2) [rule_format], rule c(2) [rule_format],
        simp only: get_status_both w(1) [rule_format] c(1) [rule_format])
qed

definition w_spec :: threshold_spec where "w_spec = Thr False (Between (Bound 10 []) (Bound 2 ''k''))"
definition c_spec :: threshold_spec where "c_spec = Thr True (Above (Bound 5 ''G''))"

theorem getopt_wc_status_witness:
  "threshold_text w_spec = ''10:2k'' \<and> threshold_text c_spec = ''@5G:'' \<and>
   (\<exists>t1 t2. getopt_wc (CHR ''w'') (threshold_text w_spec) None (mp_init [] [] [] [] []) = Inr t1 \<and>
    getopt_wc (CHR ''c'') (threshold_text c_spec) t1 (mp_init [] [] [] [] []) = Inr t2 \<and>
    (\<forall>t q. get_status (Num t q) t2 =
       (if threshold_alerts BISI c_spec (fp_val t q) then STATE_CRITICAL
        else if threshold_alerts BISI w_spec (fp_val t q) then STATE_WARNING else STATE_OK)))"
proof -
  have "threshold_ok BISI w_spec" "threshold_ok BISI c_spec"
    by (simp_all add: w_spec_def c_spec_def num_end_def unit_factor_def parse_multiplier_string_def
        ctype_defs ccode_def)
  note getopt_wc_status [OF this, of "mp_init [] [] [] [] []"]
  moreover have "threshold_text w_spec = ''10:2k''" "threshold_text c_spec = ''@5G:''"
    by code_simp+
  ultimately show ?thesis by simp
qed

text \<open>The same for the time thresholds of \<open>getopt_wc_time\<close>, whose suffixes are
  \<open>m\<close>, \<open>h\<close>, \<open>d\<close> and \<open>w\<close>.\<close>

theorem getopt_wc_time_status:
  assumes "threshold_ok TIME w" "threshold_ok TIME c"
  shows "\<exists>t1 t2. getopt_wc_time (CHR ''w'') (threshold_text w) None g = Inr t1 \<and>
    getopt_wc_time (CHR ''c'') (threshold_text c) t1 g = Inr t2 \<and>
    (\<forall>t q. get_status (Num t q) t2 =
       (if threshold_alerts TIME c (fp_val t q) then STATE_CRITICAL
        else if threshold_alerts TIME w (fp_val t q) then STATE_WARNING else STATE_OK))"
proof -
  obtain rw where w: "\<forall>t q. check_range (Num t q) rw = threshold_alerts TIME w (fp_val t q)"
    "\<forall>t. getopt_wc_time (CHR ''w'') (threshold_text w) t g = Inr (Some ((th_new t)\<lparr>th_warning := Some rw\<rparr>))"
    using getopt_wc_time_text [OF assms(1), of g] by blast
  obtain rc where c: "\<forall>t q. check_range (Num t q) rc = threshold_alerts TIME c (fp_val t q)"
    "\<forall>t. getopt_wc_time (CHR ''c'') (threshold_text c) t g = Inr (Some ((th_new t)\<lparr>th_critical := Some rc\<rparr>))"
    using getopt_wc_time_text [OF assms(2), of g] by blast
  show ?thesis
    by (intro exI conjI allI) (rule w(2) [rule_format], rule c(2) [rule_format],
        simp only: get_status_both w(1) [rule_format] c(1) [rule_format])
qed

theorem getopt_wc_time_status_witness:
  "\<exists>t1 t2. getopt_wc_time (CHR ''w'') ''2h'' None (mp_init [] [] [] [] []) = Inr t1 \<and>
    getopt_wc_time (CHR ''c'') ''1d'' t1 (mp_init [] [] [] [] []) = Inr t2 \<and>
    get_status (dnum 7201) t2 = STATE_WARNING \<and> get_status (dnum 86401) t2 = STATE_CRITICAL"
proof -
  let ?w = "Thr False (Upto (Bound 2 ''h''))" and ?c = "Thr False (Upto (Bound 1 ''d''))"
  have "threshold_ok TIME ?w" "threshold_ok TIME ?c"
    by (simp_all add: num_end_def unit_factor_def TIME_def BISI_def parse_time_multiplier_string_def
        ctype_defs ccode_def)
  note getopt_wc_time_status [OF this, of "mp_init [] [] [] [] []"]
  moreover have "threshold_text ?w = ''2h''" "threshold_text ?c = ''1d''" by code_simp+
  ultimately obtain t1 t2 where t: "getopt_wc_time (CHR ''w'') ''2h'' None (mp_init [] [] [] [] []) = Inr t1"
    "getopt_wc_time (CHR ''c'') ''1d'' t1 (mp_init [] [] [] [] []) = Inr t2"
    "\<And>t q. get_status (Num t q) t2 =
       (if threshold_alerts TIME ?c (fp_val t q) then STATE_CRITICAL
        else if threshold_alerts TIME ?w (fp_val t q) then STATE_WARNING else STATE_OK)"
    by auto
  have "get_status (dnum 7201) t2 = STATE_WARNING" "get_status (dnum 86401) t2 = STATE_CRITICAL"
    by (simp_all add: dnum_def t(3) unit_factor_def TIME_def BISI_def parse_time_multiplier_string_def)
  then show ?thesis using t(1, 2) by blast
qed

text \<open>C10: A range accepted by \<open>parse_range_string\<close> with two finite bounds that are numbers has its
  bounds in order, whatever their order in the text.\<close>

theorem parse_range_string_ordered:
  assumes "parse_range_string str m = (r, OK)" "\<not> start_infinity r" "\<not> end_infinity r"
    "range_start r \<noteq> NaN" "range_end r \<noteq> NaN"
  shows "fp_le (range_start r) (range_end r)"
  using assms fp_le_total [of "range_start r" "range_end r"] fp_lt_imp_le
  by (auto simp: parse_range_string_def Let_def split: if_splits prod.splits)

theorem parse_range_string_ordered_witness:
  "\<exists>r. parse_range_string ''20:10'' BISI = (r, OK) \<and> fp_le (range_start r) (range_end r)"
proof -
  have "threshold_ok BISI (Thr False (Between (Bound 20 []) (Bound 10 [])))"
    by (simp add: num_end_def unit_factor_def parse_multiplier_string_def)
  note p = parse_threshold_text [OF this]
  have "threshold_text (Thr False (Between (Bound 20 []) (Bound 10 []))) = ''20:10''" by code_simp
  with p obtain r where r: "parse_range_string ''20:10'' BISI = (r, OK)" "\<not> start_infinity r"
      "\<not> end_infinity r" "range_start r \<noteq> NaN" "range_end r \<noteq> NaN"
    by (simp add: dnum_def range_default_def)
  with parse_range_string_ordered [OF r] show ?thesis by blast
qed

text \<open>\<open>parse_range_string\<close> reports an error exactly when the part after the first colon (the
  whole text, where there is none) is not empty, does not start with \<open>~\<close> and has no number
  in front; the part before the colon is never the reason.\<close>

theorem parse_range_string_error:
  "snd (parse_range_string str m) = ERROR \<longleftrightarrow>
     (let s = (if starts_with str (CHR ''@'') then tl str else str);
          e = (case snd (strsep '':'' s) of None \<Rightarrow> s | Some e \<Rightarrow> e)
      in e \<noteq> [] \<and> \<not> starts_with e (CHR ''~'') \<and> length (snd (strtod e)) = length e)"
proof -
  have "snd (parse_end m e r) = (if e \<noteq> [] \<and> \<not> starts_with e (CHR ''~'') \<and> length (snd (strtod e)) = length e
      then ERROR else OK)" for e r
    by (simp add: parse_end_def Let_def split: prod.splits)
  then have b: "snd (parse_bounds s m r) = ERROR \<longleftrightarrow>
      (let e = (case snd (strsep '':'' s) of None \<Rightarrow> s | Some e \<Rightarrow> e)
       in e \<noteq> [] \<and> \<not> starts_with e (CHR ''~'') \<and> length (snd (strtod e)) = length e)" for s r
    by (cases rule: strsep_cases [of "'':''" s])
      (simp_all add: parse_bounds_def Let_def split_beta snd_conv split: if_splits)
  show ?thesis by (simp add: parse_range_string_bounds b Let_def)
qed

text \<open>A start bound with no number in it is accepted as 0: the error test of that branch compares
  pointers into two different strings and never fires.\<close>

theorem parse_range_string_bad_start:
  assumes "CHR '':'' \<notin> set s" "\<not> starts_with s (CHR ''@'')" "\<not> starts_with s (CHR ''~'')"
    "\<not> starts_with s (CHR ''%'')" "strtod s = (Num False 0, s)" "bound_ok m b"
  shows "parse_range_string (s @ '':'' @ bound_text b) m = (spec_range m (Upto b), OK)"
proof -
  have "\<not> starts_with (s @ CHR '':'' # t) (CHR ''@'')" for t using assms(2) by (cases s) auto
  moreover have "parse_start m (Some s) r = r\<lparr>range_start := dnum 0, start_percent := False\<rparr>" for r
    using assms(3-5) by (simp add: parse_start_def bound_value_def zero_times_unit Let_def flip: dnum_0)
  ultimately show ?thesis
    using parse_bounds_colon [OF assms(1), of "bound_text b" m range_default] parse_end_bound [OF assms(6)]
    by (auto simp: parse_range_string_bounds range_default_def dnum_0 min_def max_def)
qed

theorem parse_range_string_bad_start_witness:
  "parse_range_string ''abc:10'' BISI = (spec_range BISI (Upto (Bound 10 [])), OK)"
proof -
  have "strtod ''abc'' = (Num False 0, ''abc'')" by code_simp
  moreover have "bound_ok BISI (Bound 10 [])"
    by (simp add: num_end_def unit_factor_def parse_multiplier_string_def)
  moreover have "bound_text (Bound 10 []) = ''10''" by code_simp
  ultimately show ?thesis using parse_range_string_bad_start [of "''abc''" BISI "Bound 10 []"] by simp
qed

text \<open>Round trip: the text \<open>str_range\<close> prints for a range with whole bounds parses back to
  that range (\<open>@\<close> is not printed), unless the range starts at 0 and has no end.\<close>

theorem str_range_roundtrip:
  assumes "range_spec_ok m s" "\<forall>a. s = Above a \<longrightarrow> bound_num m a \<noteq> 0"
  shows "parse_range_string (str_range (Some (spec_range m s))) m = (spec_range m s, OK)"
proof -
  have small: "bound_ok m b \<Longrightarrow> \<bar>bound_num m b\<bar> < 2 ^ 53" for b by (cases b) simp
  have at: "\<not> starts_with (fmt_f 3 (dnum a)) (CHR ''@'')" for a using fmt_f_facts(3) [of a "[]"] by simp
  have up: "parse_range_string (fmt_f 3 (dnum b)) m =
      (range_default\<lparr>range_start := dnum (min 0 b), range_end := dnum (max 0 b)\<rparr>, OK)"
    if "\<bar>b\<bar> < 2 ^ 53" for b
    using that at parse_end_printed [of b m] fmt_f_facts(4) [of b]
    by (simp add: parse_range_string_bounds parse_bounds_none parse_start_def)
      (auto simp: range_default_def dnum_0 min_def max_def)
  have bt: "parse_range_string (fmt_f 3 (dnum a) @ CHR '':'' # fmt_f 3 (dnum b)) m =
      (range_default\<lparr>range_start := dnum a, range_end := dnum b\<rparr>, OK)"
    if "\<bar>a\<bar> < 2 ^ 53" "\<bar>b\<bar> < 2 ^ 53" "a \<le> b" for a b
    using that fmt_f_facts(3) [of a "CHR '':'' # fmt_f 3 (dnum b)"] parse_end_printed [of b m]
      parse_start_printed [of a m] fmt_f_facts(4) [of a]
    by (simp add: parse_range_string_bounds parse_bounds_colon) (simp add: range_default_def)
  show ?thesis
  proof (cases s)
    case (Upto b)
    then have "\<bar>bound_num m b\<bar> < 2 ^ 53" using assms small by simp
    then show ?thesis using up [of "bound_num m b"] bt [of "bound_num m b" 0]
      by (auto simp: Upto str_range_def range_default_def fp_eq_dnum_0 min_def max_def)
  next
    case (Between a b)
    define l where "l = min (bound_num m a) (bound_num m b)"
    define h where "h = max (bound_num m a) (bound_num m b)"
    have "\<bar>l\<bar> < 2 ^ 53" "\<bar>h\<bar> < 2 ^ 53" "l \<le> h"
      using Between assms small [of a] small [of b] by (auto simp: l_def h_def min_def max_def)
    moreover have "spec_range m s = range_default\<lparr>range_start := dnum l, range_end := dnum h\<rparr>"
      by (simp add: Between l_def h_def)
    ultimately show ?thesis using up [of h] bt [of l h]
      by (cases "l = 0") (simp_all add: str_range_def range_default_def fp_eq_dnum_0 min_def max_def)
  next
    case (Below b)
    then have "\<bar>bound_num m b\<bar> < 2 ^ 53" using assms small by simp
    then show ?thesis
      using parse_bounds_colon [of "''~''" "fmt_f 3 (dnum (bound_num m b))" m range_default]
        parse_end_printed [of "bound_num m b" m]
      by (simp add: Below str_range_def parse_range_string_bounds parse_start_open range_default_def)
  next
    case (Above a)
    then have "\<bar>bound_num m a\<bar> < 2 ^ 53" using assms small by simp
    then show ?thesis
      using parse_start_printed [of "bound_num m a" m] fmt_f_facts(3) [of "bound_num m a" "'':''"]
        parse_bounds_colon [of "fmt_f 3 (dnum (bound_num m a))" "[]" m range_default]
        fmt_f_facts(4) [of "bound_num m a"] assms(2) Above
      by (simp add: str_range_def parse_range_string_bounds parse_end_open range_default_def fp_eq_dnum_0)
  next
    case Everything
    then show ?thesis
      using parse_bounds_colon [of "''~''" "[]" m range_default]
      by (simp add: str_range_def parse_range_string_bounds parse_start_open parse_end_open range_default_def)
  qed
qed

theorem str_range_roundtrip_witness:
  "parse_range_string (str_range (Some (spec_range BISI (Between (Bound (-5) []) (Bound 20 []))))) BISI
     = (spec_range BISI (Between (Bound (-5) []) (Bound 20 [])), OK)"
proof -
  have "range_spec_ok BISI (Between (Bound (-5) []) (Bound 20 []))"
    by (simp add: num_end_def unit_factor_def parse_multiplier_string_def)
  then show ?thesis using str_range_roundtrip by blast
qed

text \<open>\<open>str_range\<close> prints a range from 0 without end as if it ended at 0: the text parses to a
  range that alerts on every positive value, where the printed range never does.\<close>

theorem str_range_open_end:
  "str_range (Some (spec_range m (Above (Bound 0 [])))) = ''0.000'' \<and>
   parse_range_string ''0.000'' m = (spec_range m (Upto (Bound 0 [])), OK) \<and>
   \<not> check_range (dnum 1) (spec_range m (Above (Bound 0 []))) \<and>
   check_range (dnum 1) (spec_range m (Upto (Bound 0 [])))"
proof -
  have t: "fmt_f 3 (dnum 0) = ''0.000''" by code_simp
  have "parse_range_string (fmt_f 3 (dnum 0)) m = (spec_range m (Upto (Bound 0 [])), OK)"
    using parse_end_printed [of 0 m] fmt_f_facts(4) [of 0] fmt_f_facts(3) [of 0 "[]"]
    by (simp add: parse_range_string_bounds parse_bounds_none parse_start_def)
      (simp add: range_default_def dnum_0)
  moreover have "str_range (Some (spec_range m (Above (Bound 0 [])))) = fmt_f 3 (dnum 0)"
    by (simp add: str_range_def range_default_def dnum_0 fp_eq_dnum_0 [unfolded dnum_0])
  ultimately show ?thesis
    by (simp only: t) (simp add: range_default_def check_range_def dnum_def)
qed

text \<open>The unit suffixes: the SI suffixes are the powers of 1000 and the binary ones the powers
  of 1024, except \<open>M\<close>, which is two more than 1024 squared.\<close>

theorem parse_multiplier_units:
  "map (\<lambda>c. parse_multiplier_string [c]) ''kmgtpe'' = map (\<lambda>i. 1000 ^ i) [1, 2, 3, 4, 5, 6] \<and>
   map (\<lambda>c. parse_multiplier_string [c]) ''KMGTPE'' =
     [1024, 1024 ^ 2 + 2, 1024 ^ 3, 1024 ^ 4, 1024 ^ 5, 1024 ^ 6]"
  by (simp add: parse_multiplier_string_def)

text \<open>When \<open>parse_range_string\<close> swaps the bounds of a range it leaves the percent flags where
  they were: for \<open>N%:b\<close> with N hundred times \<open>k\<close> and \<open>k\<close> above \<open>b\<close>, the flag of the percent bound
  ends on the plain bound.\<close>

theorem parse_range_string_swap_percent:
  assumes "\<bar>100 * k\<bar> < 2 ^ 53" "\<bar>b\<bar> < 2 ^ 53" "b < k"
  shows "parse_range_string (fmt_d (100 * k) @ ''%:'' @ fmt_d b) m =
    (range_default\<lparr>range_start := dnum b, start_percent := True, range_end := dnum k\<rparr>, OK)"
proof -
  let ?s = "fmt_d (100 * k) @ ''%''"
  have f: "unit_factor m (CHR ''%'' # t) = 1" "unit_factor m [] = 1" for t
    by (simp_all add: unit_factor_def parse_multiplier_string_def parse_time_multiplier_string_def)
  have s1: "strtod ?s = (dnum (100 * k), ''%'')"
    using strtod_fmt_d [of "''%''" "100 * k"] round_double_dnum [of "100 * k"] assms(1)
    by (simp add: num_end_def isdigit_def ccode_def)
  have k: "\<bar>k\<bar> < 2 ^ 53" using assms(1) by (auto simp: abs_mult)
  have d: "fp_div round_double (dnum (100 * k)) (dbl_of_int 100) = dnum k"
    using round_double_dnum [OF k] round_double_int [of 100] by (simp add: dnum_def abs_mult)
  have "dbl_of_int 1 = Num False 1" using round_double_int [of 1] by simp
  then have m1: "fp_mul round_double (dnum k) (dbl_of_int 1) = dnum k"
    using round_double_dnum [OF k] by (simp add: dnum_def)
  have ps: "parse_start m (Some ?s) r = r\<lparr>range_start := dnum k, start_percent := True\<rparr>" for r
  proof -
    have "\<not> starts_with ?s (CHR ''~'')"
      using fmt_d_hd [of "100 * k"] by (cases "fmt_d (100 * k)") auto
    moreover have "bound_value m (dnum (100 * k)) ''%'' = (dnum k, True)"
      using m1 d by (simp add: bound_value_def Let_def parse_multiplier_string_def parse_time_multiplier_string_def)
    ultimately show ?thesis using s1 by (simp add: parse_start_def)
  qed
  have b: "bound_ok m (Bound b [])" using assms(2) f by (simp add: num_end_def)
  have c: "CHR '':'' \<notin> set ?s" using set_fmt_d [of "100 * k"] by auto
  have "\<not> starts_with (?s @ CHR '':'' # fmt_d b) (CHR ''@'')"
    using fmt_d_hd [of "100 * k"] by (cases "fmt_d (100 * k)") auto
  then show ?thesis
    using ps [of range_default] parse_bounds_colon [OF c, of "fmt_d b" m range_default]
      parse_end_bound [OF b] assms(3) f(2)
    by (simp add: parse_range_string_bounds range_default_def)
qed

theorem parse_range_string_swap_percent_witness:
  "parse_range_string ''5000%:10'' BISI =
    (range_default\<lparr>range_start := dnum 10, start_percent := True, range_end := dnum 50\<rparr>, OK)"
proof -
  have "fmt_d (100 * 50) @ ''%:'' @ fmt_d 10 = ''5000%:10''" by code_simp
  then show ?thesis using parse_range_string_swap_percent [of 50 10 BISI] by simp
qed

text \<open>\<open>getopt_port\<close> takes the printed form of every \<open>int\<close>, and stops with the usage text on the
  printed form of every other number; the port range 0 to 65535 is not checked.\<close>

theorem getopt_port_printed:
  "getopt_port (fmt_d p) g =
     (if INT_MIN \<le> p \<and> p \<le> INT_MAX then Inr p
      else Inl (usage (''Illegal port number '' @ quoted (fmt_d p) @ ''.'') g))"
proof -
  have "is_integer (Some (fmt_d p)) \<longleftrightarrow> INT_MIN \<le> p \<and> p \<le> INT_MAX" by (rule is_integer_fmt_d)
  moreover have "INT_MIN \<le> p \<Longrightarrow> p \<le> INT_MAX \<Longrightarrow> to_int32 (strtol 10 (fmt_d p)) = p"
    by (subst strtol_fmt_d) (simp_all add: to_int32_id, simp_all add: INT_MIN_def INT_MAX_def LONG_MIN_def LONG_MAX_def)
  ultimately show ?thesis by (simp add: getopt_port_def)
qed

end
