(* ===== verification/MP_Perfdata.thy ===== *)
theory MP_Perfdata
  imports MP_Args
begin

text \<open>
  \<^verbatim>\<open>lib/mp_perfdata.c\<close>: the performance data text \<open>label=value;warn;crit;min;max;\<close>.

  Each function returns the thresholds (a percentage in them is replaced by a value) and the
  plugin state. The \<open>have_min\<close> and \<open>have_max\<close> flags are booleans.
\<close>

section \<open>Definitions\<close>

definition resolve_range :: "fp \<Rightarrow> range \<Rightarrow> range" where
  "resolve_range mx r =
     (let r = (if start_percent r
               then r\<lparr>range_start := fp_mul round_double (range_start r) mx, start_percent := False\<rparr> else r)
      in if end_percent r
         then r\<lparr>range_end := fp_mul round_double (range_end r) mx, end_percent := False\<rparr> else r)"

definition mp_perfdata_percent_resolv :: "thresholds option \<Rightarrow> fp \<Rightarrow> thresholds option" where
  "mp_perfdata_percent_resolv threshold mx =
     map_option (\<lambda>t. t\<lparr>th_warning := map_option (resolve_range mx) (th_warning t),
                        th_critical := map_option (resolve_range mx) (th_critical t)\<rparr>) threshold"

text \<open>The loop at the end: while the byte before the last is a semicolon, the last is cut off.\<close>

fun trim_rev :: "string \<Rightarrow> string" where
  "trim_rev (a # b # s) = (if b = CHR '';'' then trim_rev (b # s) else a # b # s)"
| "trim_rev s = s"

definition perf_trim :: "string \<Rightarrow> string" where
  "perf_trim s = rev (trim_rev (rev s))"

definition perf_label :: "string \<Rightarrow> string" where
  "perf_label label =
     (if strpbrk label (CHR 0x27 # ''= +'') then CHR 0x27 # label @ [CHR 0x27] else label)"

definition th_text :: "(thresholds \<Rightarrow> range option) \<Rightarrow> thresholds option \<Rightarrow> string" where
  "th_text sel t = (case t of None \<Rightarrow> [] | Some t \<Rightarrow> str_range (sel t))"

definition th_set :: "(thresholds \<Rightarrow> range option) \<Rightarrow> thresholds option \<Rightarrow> bool" where
  "th_set sel t = (case t of None \<Rightarrow> False | Some t \<Rightarrow> sel t \<noteq> None)"

definition cat_if :: "bool \<Rightarrow> string \<Rightarrow> cbuf option \<Rightarrow> cbuf option" where
  "cat_if b s p = (if b then mp_strcat p (Some s) else p)"

text \<open>The part \<open>mp_perfdata_int2\<close> and \<open>mp_perfdata_float2\<close> share: the head, the fields and the
  loop at the end; the texts of the numbers differ.\<close>

definition perf_append ::
    "string \<Rightarrow> thresholds option \<Rightarrow> bool \<Rightarrow> string \<Rightarrow> bool \<Rightarrow> string \<Rightarrow> mp_globals \<Rightarrow> mp_globals" where
  "perf_append head t have_min mn have_max mx g =
     (let p = mp_strcat_space (mp_perfdata g) (Some head);
          p = cat_if (th_set th_warning t) (th_text th_warning t) p;
          p = mp_strcat p (Some '';'');
          p = cat_if (th_set th_critical t) (th_text th_critical t) p;
          p = mp_strcat p (Some '';'');
          p = cat_if have_min mn p;
          p = mp_strcat p (Some '';'');
          p = cat_if have_max (mx @ '';'') p
      in g\<lparr>mp_perfdata := map_option (\<lambda>b. b\<lparr>cstr := perf_trim (cstr b)\<rparr>) p\<rparr>)"

definition mp_perfdata_int2 ::
    "string \<Rightarrow> int \<Rightarrow> string \<Rightarrow> thresholds option \<Rightarrow> bool \<Rightarrow> int \<Rightarrow> bool \<Rightarrow> int \<Rightarrow> mp_globals
     \<Rightarrow> thresholds option \<times> mp_globals" where
  "mp_perfdata_int2 label v u threshold have_min mn have_max mx g =
     (let t = mp_perfdata_percent_resolv threshold (flt_of_int (if have_max then mx else 0))
      in if \<not> mp_showperfdata g then (t, g)
         else (t, perf_append (perf_label label @ ''='' @ fmt_d v @ u @ '';'') t
                    have_min (fmt_d mn) have_max (fmt_d mx) g))"

definition mp_perfdata_int ::
    "string \<Rightarrow> int \<Rightarrow> string \<Rightarrow> thresholds option \<Rightarrow> mp_globals \<Rightarrow> thresholds option \<times> mp_globals" where
  "mp_perfdata_int label v u threshold g = mp_perfdata_int2 label v u threshold False 0 False 0 g"

text \<open>A range made by \<open>memset\<close> to 0 with only an upper bound.\<close>

definition below_range :: "fp \<Rightarrow> range" where
  "below_range e = range_default\<lparr>start_infinity := True, range_end := e\<rparr>"

definition below_thresholds :: "bool \<Rightarrow> fp \<Rightarrow> bool \<Rightarrow> fp \<Rightarrow> thresholds option" where
  "below_thresholds have_warn w have_crit c =
     (if have_warn \<or> have_crit
      then Some \<lparr>th_warning = (if have_warn then Some (below_range w) else None),
                 th_critical = (if have_crit then Some (below_range c) else None)\<rparr>
      else None)"

definition mp_perfdata_int3 ::
    "string \<Rightarrow> int \<Rightarrow> string \<Rightarrow> bool \<Rightarrow> int \<Rightarrow> bool \<Rightarrow> int \<Rightarrow> bool \<Rightarrow> int \<Rightarrow> bool \<Rightarrow> int
     \<Rightarrow> mp_globals \<Rightarrow> mp_globals" where
  "mp_perfdata_int3 label v u have_warn w have_crit c have_min mn have_max mx g =
     snd (mp_perfdata_int2 label v u
            (below_thresholds have_warn (dbl_of_int w) have_crit (dbl_of_int c))
            have_min mn have_max mx g)"

definition float_precision :: "fp \<Rightarrow> nat" where
  "float_precision v =
     (if fp_le (flt_of_int 9999) v then 0 else if fp_eq v (Num False 0) then 0 else 3)"

definition mp_perfdata_float2 ::
    "string \<Rightarrow> fp \<Rightarrow> string \<Rightarrow> thresholds option \<Rightarrow> bool \<Rightarrow> fp \<Rightarrow> bool \<Rightarrow> fp \<Rightarrow> mp_globals
     \<Rightarrow> thresholds option \<times> mp_globals" where
  "mp_perfdata_float2 label v u threshold have_min mn have_max mx g =
     (let t = mp_perfdata_percent_resolv threshold (if have_max then mx else Num False 0);
          precision = float_precision v
      in if \<not> mp_showperfdata g then (t, g)
         else (t, perf_append (perf_label label @ ''='' @ fmt_f precision v @ u @ '';'') t
                    have_min (fmt_f precision mn) have_max (fmt_f precision mx) g))"

definition mp_perfdata_float ::
    "string \<Rightarrow> fp \<Rightarrow> string \<Rightarrow> thresholds option \<Rightarrow> mp_globals \<Rightarrow> thresholds option \<times> mp_globals" where
  "mp_perfdata_float label v u threshold g =
     mp_perfdata_float2 label v u threshold False (Num False 0) False (Num False 0) g"

definition mp_perfdata_float3 ::
    "string \<Rightarrow> fp \<Rightarrow> string \<Rightarrow> bool \<Rightarrow> fp \<Rightarrow> bool \<Rightarrow> fp \<Rightarrow> bool \<Rightarrow> fp \<Rightarrow> bool \<Rightarrow> fp
     \<Rightarrow> mp_globals \<Rightarrow> mp_globals" where
  "mp_perfdata_float3 label v u have_warn w have_crit c have_min mn have_max mx g =
     snd (mp_perfdata_float2 label v u (below_thresholds have_warn w have_crit c)
            have_min mn have_max mx g)"

section \<open>Lemmas\<close>

text \<open>The fields of an entry, and the list without its trailing empty fields.\<close>

definition strip_empty :: "string list \<Rightarrow> string list" where
  "strip_empty fs = rev (dropWhile (\<lambda>f. f = []) (rev fs))"

definition perf_fields :: "string list \<Rightarrow> string" where
  "perf_fields fs = concat (map (\<lambda>f. f @ '';'') fs)"

lemma perf_trim_semis: "perf_trim (s @ '';;'') = perf_trim (s @ '';'')"
  by (simp add: perf_trim_def)

lemma perf_trim_done: "s \<noteq> [] \<Longrightarrow> last s \<noteq> CHR '';'' \<Longrightarrow> perf_trim (s @ '';'') = s @ '';''"
  by (cases s rule: rev_cases) (simp_all add: perf_trim_def)

lemma perf_trim_fields:
  assumes "fs \<noteq> []" "hd fs \<noteq> []" "\<forall>f \<in> set fs. CHR '';'' \<notin> set f"
  shows "perf_trim (pre @ perf_fields fs) = pre @ perf_fields (strip_empty fs)"
  using assms
proof (induction fs rule: rev_induct)
  case (snoc f fs)
  show ?case
  proof (cases "f = []")
    case True
    then have ne: "fs \<noteq> []" using snoc.prems by auto
    then obtain gs g where fs: "fs = gs @ [g]" by (cases fs rule: rev_cases) auto
    have "perf_trim (pre @ perf_fields (fs @ [f])) = perf_trim (pre @ perf_fields fs)"
      using perf_trim_semis [of "pre @ perf_fields gs @ g"] by (simp add: True fs perf_fields_def)
    also have "\<dots> = pre @ perf_fields (strip_empty fs)"
      using snoc ne by (auto simp: hd_append)
    finally show ?thesis by (simp add: True strip_empty_def)
  next
    case False
    then have "last f \<in> set f" "CHR '';'' \<notin> set f" using snoc.prems(3) by auto
    then have "last f \<noteq> CHR '';''" by metis
    then have "last (pre @ perf_fields fs @ f) \<noteq> CHR '';''" using False by simp
    then show ?thesis
      using perf_trim_done [of "pre @ perf_fields fs @ f"] False
      by (simp add: perf_fields_def strip_empty_def)
  qed
qed simp

lemma strtoks_fields:
  "\<forall>f \<in> set fs. CHR '';'' \<notin> set f \<Longrightarrow> strtoks '';'' (perf_fields fs) = fs @ [[]]"
proof (induction fs)
  case Nil
  then show ?case by (simp add: perf_fields_def strtoks_none)
next
  case (Cons f fs)
  then show ?case
    using strtoks_hit [of "'';''" f "CHR '';''" "perf_fields fs"] by (simp add: perf_fields_def)
qed

lemma set_strip_empty: "set (strip_empty fs) \<subseteq> set fs"
  unfolding strip_empty_def using set_dropWhileD by fastforce

text \<open>Concatenation on the text, when there is one.\<close>

lemma mp_strcat_str: "buf_str p = Some u \<Longrightarrow> buf_str (mp_strcat p (Some s)) = Some (u @ s)"
  using plain.cat_str [of p s] by (simp add: str_append_def)

lemma cat_if_str: "buf_str p = Some u \<Longrightarrow> buf_str (cat_if b s p) = Some (u @ (if b then s else []))"
  by (simp add: cat_if_def mp_strcat_str)

lemma cat_if_ok: "buf_ok p \<Longrightarrow> buf_ok (cat_if b s p)"
  by (simp add: cat_if_def plain.cat_ok)

lemma th_text_unset: "\<not> th_set sel t \<Longrightarrow> th_text sel t = []"
  by (auto simp: th_set_def th_text_def str_range_def split: option.splits)

lemma length_trim_rev: "length (trim_rev s) \<le> length s"
  by (induction s rule: trim_rev.induct) auto

text \<open>The buffer before the loop at the end.\<close>

definition perf_raw ::
    "string \<Rightarrow> thresholds option \<Rightarrow> bool \<Rightarrow> string \<Rightarrow> bool \<Rightarrow> string \<Rightarrow> cbuf option \<Rightarrow> cbuf option" where
  "perf_raw head t have_min mn have_max mx p =
     cat_if have_max (mx @ '';'') (mp_strcat (cat_if have_min mn (mp_strcat (cat_if (th_set th_critical t)
       (th_text th_critical t) (mp_strcat (cat_if (th_set th_warning t) (th_text th_warning t)
         (mp_strcat_space p (Some head))) (Some '';''))) (Some '';''))) (Some '';''))"

lemma perf_append_raw:
  "perf_append head t have_min mn have_max mx g =
     g\<lparr>mp_perfdata := map_option (\<lambda>b. b\<lparr>cstr := perf_trim (cstr b)\<rparr>)
        (perf_raw head t have_min mn have_max mx (mp_perfdata g))\<rparr>"
  by (simp add: perf_append_def perf_raw_def Let_def)

lemma perf_raw_str:
  "buf_str (perf_raw (h @ '';'') t have_min mn have_max mx p) =
     Some (str_append '' '' (buf_str p) (perf_fields ([h, th_text th_warning t, th_text th_critical t,
       if have_min then mn else []] @ (if have_max then [mx] else []))))"
proof -
  have "buf_str (mp_strcat_space p (Some (h @ '';''))) = Some (str_append '' '' (buf_str p) (h @ '';''))"
    by (rule space.cat_str)
  then show ?thesis
    unfolding perf_raw_def
    by (simp add: mp_strcat_str cat_if_str th_text_unset perf_fields_def)
      (auto simp: str_append_def th_text_unset split: option.splits)
qed

lemma perf_raw_ok: "buf_ok p \<Longrightarrow> buf_ok (perf_raw head t have_min mn have_max mx p)"
  by (simp add: perf_raw_def cat_if_ok plain.cat_ok space.cat_ok)

lemma perf_append_ok:
  assumes "buf_ok (mp_perfdata g)"
  shows "buf_ok (mp_perfdata (perf_append head t have_min mn have_max mx g))"
  using perf_raw_ok [OF assms, of head t have_min mn have_max mx]
  by (cases "perf_raw head t have_min mn have_max mx (mp_perfdata g)")
    (auto simp: perf_append_raw cbuf_ok_def perf_trim_def intro: le_less_trans [OF length_trim_rev])

lemma perf_append_fields:
  assumes "h \<noteq> []" "CHR '';'' \<notin> set h" "CHR '';'' \<notin> set mn" "CHR '';'' \<notin> set mx"
    "CHR '';'' \<notin> set (th_text th_warning t)" "CHR '';'' \<notin> set (th_text th_critical t)"
  shows "\<exists>e. buf_str (mp_perfdata (perf_append (h @ '';'') t have_min mn have_max mx g)) =
      Some (str_append '' '' (buf_str (mp_perfdata g)) e) \<and>
    strtoks '';'' e = strip_empty [h, th_text th_warning t, th_text th_critical t,
      if have_min then mn else [], if have_max then mx else []] @ [[]]"
proof -
  let ?fs = "[h, th_text th_warning t, th_text th_critical t, if have_min then mn else []] @
    (if have_max then [mx] else [])"
  let ?e = "perf_fields (strip_empty ?fs)"
  have semi: "\<forall>f \<in> set ?fs. CHR '';'' \<notin> set f" using assms by auto
  have tr: "perf_trim (pre @ perf_fields ?fs) = pre @ ?e" for pre
    using assms(1) semi by (intro perf_trim_fields) auto
  have "perf_trim (str_append '' '' q (perf_fields ?fs)) = str_append '' '' q ?e" for q
    using tr [of "[]"] tr [of "the q @ '' ''"] by (cases q) (simp_all add: str_append_def)
  moreover obtain b where "perf_raw (h @ '';'') t have_min mn have_max mx (mp_perfdata g) = Some b"
    "cstr b = str_append '' '' (buf_str (mp_perfdata g)) (perf_fields ?fs)"
    using perf_raw_str [of h t have_min mn have_max mx "mp_perfdata g"]
    by (cases "perf_raw (h @ '';'') t have_min mn have_max mx (mp_perfdata g)") auto
  ultimately have "buf_str (mp_perfdata (perf_append (h @ '';'') t have_min mn have_max mx g)) =
      Some (str_append '' '' (buf_str (mp_perfdata g)) ?e)"
    by (simp add: perf_append_raw)
  moreover have "strtoks '';'' ?e = strip_empty ?fs @ [[]]"
    using semi set_strip_empty [of ?fs] by (intro strtoks_fields) blast
  moreover have "strip_empty ?fs = strip_empty [h, th_text th_warning t, th_text th_critical t,
      if have_min then mn else [], if have_max then mx else []]"
    by (simp add: strip_empty_def)
  ultimately show ?thesis by auto
qed

text \<open>Printed numbers and ranges contain no semicolon.\<close>

lemma fmt_d_no_semi: "CHR '';'' \<notin> set (fmt_d x)"
  using set_fmt_d [of x] by auto

lemma dec_str_no_semi: "0 \<le> x \<Longrightarrow> CHR '';'' \<notin> set (dec_str x)"
  using fmt_d_no_semi [of x] by (simp add: fmt_d_def)

fun fp_nonneg :: "fp \<Rightarrow> bool" where
  "fp_nonneg (Num s m) = (0 \<le> m)"
| "fp_nonneg _ = True"

lemma fmt_f_no_semi: "fp_nonneg x \<Longrightarrow> CHR '';'' \<notin> set (fmt_f k x)"
proof (cases x)
  case (Num s m)
  assume "fp_nonneg x"
  then have "0 \<le> round_half_even (m * of_int (10 ^ k))"
    using Num by (intro round_half_even_nonneg) simp
  then show ?thesis
    using Num by (auto simp: Let_def dec_str_no_semi pad_dec_def pos_imp_zdiv_nonneg_iff)
qed auto

lemma th_text_no_semi:
  assumes "\<And>r. r \<in> set_option (sel (the t)) \<Longrightarrow> fp_nonneg (range_start r) \<and> fp_nonneg (range_end r)"
  shows "CHR '';'' \<notin> set (th_text sel t)"
  using assms by (cases t; cases "sel (the t)") (auto simp: th_text_def str_range_def fmt_f_no_semi)

text \<open>The magnitudes of the bounds of a threshold are not negative: \<open>Num s m\<close> carries its sign apart.\<close>

definition range_wf :: "range \<Rightarrow> bool" where
  "range_wf r \<longleftrightarrow> fp_nonneg (range_start r) \<and> fp_nonneg (range_end r)"

definition thresholds_wf :: "thresholds option \<Rightarrow> bool" where
  "thresholds_wf t \<longleftrightarrow> (\<forall>t' \<in> set_option t. \<forall>r \<in> set_option (th_warning t') \<union> set_option (th_critical t'). range_wf r)"

lemma round_fp_nonneg: "0 \<le> m \<Longrightarrow> fp_nonneg (round_fp p emin emax s m)"
  by (auto simp: round_fp_def Let_def intro!: mult_nonneg_nonneg round_half_even_nonneg divide_nonneg_nonneg less_imp_le [OF pow2_pos])

lemma fp_mul_nonneg: "fp_nonneg x \<Longrightarrow> fp_nonneg y \<Longrightarrow> fp_nonneg (fp_mul (round_fp p emin emax) x y)"
  by (cases x; cases y) (auto intro!: round_fp_nonneg)

lemma resolv_wf:
  assumes "thresholds_wf t" "fp_nonneg mx"
  shows "thresholds_wf (mp_perfdata_percent_resolv t mx)"
proof -
  have "range_wf (resolve_range mx r)" if "range_wf r" for r
    using that assms(2) by (simp add: range_wf_def resolve_range_def Let_def fp_mul_nonneg)
  then show ?thesis using assms(1) by (auto simp: thresholds_wf_def mp_perfdata_percent_resolv_def)
qed

lemma thresholds_wf_text:
  assumes "thresholds_wf t"
  shows "CHR '';'' \<notin> set (th_text th_warning t)" "CHR '';'' \<notin> set (th_text th_critical t)"
  using assms by (cases t; auto intro!: th_text_no_semi simp: thresholds_wf_def range_wf_def th_text_def str_range_def fmt_f_no_semi split: option.splits)+

lemma flt_of_int_nonneg: "fp_nonneg (flt_of_int z)"
  by (simp add: fp_of_rat_def round_fp_nonneg)

lemma perf_label_no_semi: "CHR '';'' \<notin> set label \<Longrightarrow> CHR '';'' \<notin> set (perf_label label)"
  by (simp add: perf_label_def)

section \<open>Properties\<close>

text \<open>\<open>mp_perfdata_int2\<close> appends one entry to the performance data, separated by a space, and
  the entry reads back: split at the semicolons it gives \<open>label=value+unit\<close>, the warning and the
  critical range, minimum and maximum, without the empty fields at the end; the buffer stays within
  its allocation.\<close>

theorem mp_perfdata_int2_fields:
  assumes "mp_showperfdata g" "buf_ok (mp_perfdata g)" "CHR '';'' \<notin> set label" "CHR '';'' \<notin> set u"
    "thresholds_wf t"
  shows "\<exists>t' g' e. mp_perfdata_int2 label v u t have_min mn have_max mx g = (t', g') \<and>
    buf_ok (mp_perfdata g') \<and>
    buf_str (mp_perfdata g') = Some (str_append '' '' (buf_str (mp_perfdata g)) e) \<and>
    strtoks '';'' e = strip_empty [perf_label label @ ''='' @ fmt_d v @ u, th_text th_warning t',
      th_text th_critical t', if have_min then fmt_d mn else [], if have_max then fmt_d mx else []] @ [[]]"
proof -
  let ?t = "mp_perfdata_percent_resolv t (flt_of_int (if have_max then mx else 0))"
  let ?h = "perf_label label @ ''='' @ fmt_d v @ u"
  have w: "thresholds_wf ?t" using assms(5) flt_of_int_nonneg by (rule resolv_wf)
  note f = perf_append_fields [of ?h "fmt_d mn" "fmt_d mx" ?t have_min have_max g]
  have "CHR '';'' \<notin> set ?h" using assms(3, 4) perf_label_no_semi fmt_d_no_semi by simp
  then obtain e where
    "buf_str (mp_perfdata (perf_append (?h @ '';'') ?t have_min (fmt_d mn) have_max (fmt_d mx) g)) =
      Some (str_append '' '' (buf_str (mp_perfdata g)) e)"
    "strtoks '';'' e = strip_empty [?h, th_text th_warning ?t, th_text th_critical ?t,
      if have_min then fmt_d mn else [], if have_max then fmt_d mx else []] @ [[]]"
    using f fmt_d_no_semi thresholds_wf_text [OF w] by auto
  then show ?thesis
    using assms(1) perf_append_ok [OF assms(2)]
    by (intro exI [of _ ?t] exI [of _ "perf_append (?h @ '';'') ?t have_min (fmt_d mn) have_max (fmt_d mx) g"]
        exI [of _ e]) (simp add: mp_perfdata_int2_def Let_def)
qed

theorem mp_perfdata_int2_fields_witness:
  "\<exists>t' g' e. mp_perfdata_int2 ''l 1'' 42 ''B'' None False 0 True 99
      ((mp_init [] [] [] [] [])\<lparr>mp_showperfdata := True\<rparr>) = (t', g') \<and>
    buf_ok (mp_perfdata g') \<and>
    buf_str (mp_perfdata g') = Some (str_append '' '' None e) \<and>
    strtoks '';'' e = strip_empty [perf_label ''l 1'' @ ''='' @ fmt_d 42 @ ''B'', th_text th_warning t',
      th_text th_critical t', [], fmt_d 99] @ [[]]"
  using mp_perfdata_int2_fields [of "(mp_init [] [] [] [] [])\<lparr>mp_showperfdata := True\<rparr>" "''l 1''" "''B''" None 42 False 0 True 99]
  by (simp add: mp_init_def thresholds_wf_def)

text \<open>Percent thresholds without a maximum: the call resolves every percentage of a finite bound
  to zero, also when no performance data is shown, and the plugin's later checks use that zero.\<close>

theorem mp_perfdata_percent_no_max:
  assumes "range_end r = Num s m" "end_percent r"
  shows "\<exists>r'. th_warning (the (fst (mp_perfdata_int label v u (Some \<lparr>th_warning = Some r, th_critical = c\<rparr>) g))) = Some r' \<and>
    range_end r' = Num s 0 \<and> \<not> end_percent r'"
proof -
  have z: "flt_of_int 0 = Num False 0" by (simp add: fp_of_rat_def round_fp_def)
  have "range_end (resolve_range (Num False 0) r) = Num s 0 \<and> \<not> end_percent (resolve_range (Num False 0) r)"
    using assms by (simp add: resolve_range_def Let_def round_fp_def)
  then show ?thesis
    using z by (simp add: mp_perfdata_int_def mp_perfdata_int2_def mp_perfdata_percent_resolv_def Let_def)
qed

theorem mp_perfdata_percent_no_max_witness:
  "\<exists>r'. th_warning (the (fst (mp_perfdata_int ''l'' 1 [] (Some \<lparr>th_warning =
      Some (range_default\<lparr>range_end := Num False (1/10), end_percent := True\<rparr>), th_critical = None\<rparr>)
      (mp_init [] [] [] [] [])))) = Some r' \<and> range_end r' = Num False 0 \<and> \<not> end_percent r'"
  by (rule mp_perfdata_percent_no_max [of _ False "1/10"]) simp_all

text \<open>The vectors of \<^verbatim>\<open>tests/check_perfdata.c\<close>.\<close>

lemma mp_perfdata_vectors:
  "buf_str (mp_perfdata (snd (mp_perfdata_int ''label'' 42 ''unit'' None
     ((mp_init [] [] [] [] [])\<lparr>mp_showperfdata := True\<rparr>)))) = Some ''label=42unit;''"
  "buf_str (mp_perfdata (snd (mp_perfdata_int2 ''label'' 23 ''unit'' None True 21 True 42
     ((mp_init [] [] [] [] [])\<lparr>mp_showperfdata := True\<rparr>)))) = Some ''label=23unit;;;21;42;''"
  by code_simp+

end
