(* ===== verification/MP_Template.thy ===== *)
theory MP_Template
  imports MP_Args
begin

text \<open>
  \<^verbatim>\<open>lib/mp_template.c\<close>: the output buffer, the conditionals and the URL encoding of the
  notification templates.

  The state \<open>tmpl\<close> holds the global variables: the tpl_output text and its allocated and used length,
  the flag that disables output, and the linked list of open conditionals, innermost first. The
  scanner and the parser are generated; what the parser does with a template is the sequence of
  calls of these functions (\<open>acts\<close>). The semantics \<open>sem\<close> of a nested template is the specification.
\<close>

section \<open>State and output\<close>

record cond =
  deep :: int
  ival :: int

record tmpl =
  output_disable :: bool
  tpl_output :: string
  output_len :: int
  output_pos :: int
  conditionals :: "cond list"

definition memblock :: int where "memblock = 64"

definition tmpl_init :: tmpl where
  "tmpl_init = \<lparr>output_disable = False, tpl_output = [], output_len = memblock, output_pos = 0,
     conditionals = []\<rparr>"

function grow :: "int \<Rightarrow> int \<Rightarrow> int" where
  "grow len need = (if len < need then grow (len + 64) need else len)"
  by pat_completeness auto
termination by (relation "measure (\<lambda>(len, need). nat (need - len))") auto

declare grow.simps [simp del]

definition mp_template_append :: "string option \<Rightarrow> tmpl \<Rightarrow> tmpl" where
  "mp_template_append s t =
     (case s of
        None \<Rightarrow> t
      | Some s \<Rightarrow>
          if output_disable t then t
          else
            let len = int (length s);
                need = output_pos t + len + 1;
                t = (if output_len t < need
                     then t\<lparr>output_len := grow (output_len t) need + memblock\<rparr> else t)
            in t\<lparr>tpl_output := take (nat (output_pos t)) (tpl_output t) @ s, output_pos := output_pos t + len\<rparr>)"

section \<open>Conditionals\<close>

text \<open>\<open>None\<close> is a read through the NULL list of conditionals.\<close>

definition deeper :: "int \<Rightarrow> tmpl \<Rightarrow> tmpl option" where
  "deeper d t =
     (case conditionals t of
        [] \<Rightarrow> None
      | c # cs \<Rightarrow> Some (t\<lparr>conditionals := c\<lparr>deep := deep c + d\<rparr> # cs\<rparr>))"

definition mp_template_if :: "int \<Rightarrow> tmpl \<Rightarrow> tmpl option" where
  "mp_template_if expr t =
     (if output_disable t then deeper 1 t
      else Some (t\<lparr>conditionals := \<lparr>deep = 0, ival = expr\<rparr> # conditionals t,
                   output_disable := (expr = 0)\<rparr>))"

definition mp_template_else :: "tmpl \<Rightarrow> tmpl option" where
  "mp_template_else t =
     (case conditionals t of
        [] \<Rightarrow> None
      | c # cs \<Rightarrow> Some (if 0 < deep c then t else t\<lparr>output_disable := (ival c \<noteq> 0)\<rparr>))"

definition mp_template_switch_int :: "int \<Rightarrow> tmpl \<Rightarrow> tmpl option" where
  "mp_template_switch_int i t =
     (if output_disable t then deeper 1 t
      else Some (t\<lparr>conditionals := \<lparr>deep = 0, ival = i\<rparr> # conditionals t, output_disable := True\<rparr>))"

definition mp_template_case_int :: "int \<Rightarrow> tmpl \<Rightarrow> tmpl option" where
  "mp_template_case_int i t =
     (case conditionals t of
        [] \<Rightarrow> None
      | c # cs \<Rightarrow> Some (if 0 < deep c then t else t\<lparr>output_disable := (ival c \<noteq> i)\<rparr>))"

definition mp_template_end :: "tmpl \<Rightarrow> tmpl option" where
  "mp_template_end t =
     (case conditionals t of
        [] \<Rightarrow> None
      | c # cs \<Rightarrow>
          if 0 < deep c then deeper (-1) t
          else Some (t\<lparr>conditionals := cs, output_disable := False\<rparr>))"

section \<open>URL encoding\<close>

definition url_plain :: "char \<Rightarrow> bool" where
  "url_plain c \<longleftrightarrow> isalnum c \<or> c \<in> set ''-_.~''"

definition NUL :: char where "NUL = CHR 0x00"

text \<open>A \<open>char\<close> as an \<open>int\<close>: the type is signed.\<close>

definition schar :: "char \<Rightarrow> int" where
  "schar c = (if ccode c < 128 then ccode c else ccode c - 256)"

text \<open>A write into memory, which extends the list when it passes the allocation.\<close>

definition poke :: "string \<Rightarrow> nat \<Rightarrow> string \<Rightarrow> string" where
  "poke m i s = take i m @ s @ drop (i + length s) m"

fun urlencode_loop :: "string \<Rightarrow> nat \<Rightarrow> string \<Rightarrow> string" where
  "urlencode_loop m optr [] = m"
| "urlencode_loop m optr (c # s) =
     (if url_plain c then urlencode_loop (poke m optr [c]) (optr + 1) s
      else urlencode_loop (poke m optr (CHR ''%'' # fmt_02X (schar c) @ [NUL])) (optr + 3) s)"

definition urlencode_delta :: "string \<Rightarrow> nat" where
  "urlencode_delta s = sum_list (map (\<lambda>c. if url_plain c then 0 else 2) s)"

text \<open>The result: the memory written and the size allocated.\<close>

definition mp_template_urlencode :: "string option \<Rightarrow> (string \<times> nat) option" where
  "mp_template_urlencode inp =
     (case inp of
        None \<Rightarrow> None
      | Some s \<Rightarrow>
          if urlencode_delta s = 0 then Some (s @ [NUL], length s + 1)
          else let len = urlencode_delta s + length s
               in Some (urlencode_loop (replicate (len + 1) NUL) 0 s, len + 1))"

definition mem_text :: "string \<Rightarrow> string" where
  "mem_text m = takeWhile (\<lambda>c. c \<noteq> NUL) m"

definition mp_template_error :: "string \<Rightarrow> string \<Rightarrow> int \<Rightarrow> mp_globals \<Rightarrow> mp_end" where
  "mp_template_error s yytext yylineno g =
     unknown (''Error: '' @ s @ '' at symbol '' @ quoted yytext @ '' on line '' @ fmt_d yylineno @ nl) g"

section \<open>Templates\<close>

text \<open>The calls of the parser's actions, a nested template with evaluated expressions, the calls it
  makes, and what it should print.\<close>

datatype tact = AText "string option" | AIf int | AElse | ASwitch int | ACase int | AEnd

fun act :: "tact \<Rightarrow> tmpl \<Rightarrow> tmpl option" where
  "act (AText s) t = Some (mp_template_append s t)"
| "act (AIf e) t = mp_template_if e t"
| "act AElse t = mp_template_else t"
| "act (ASwitch i) t = mp_template_switch_int i t"
| "act (ACase i) t = mp_template_case_int i t"
| "act AEnd t = mp_template_end t"

fun run_acts :: "tact list \<Rightarrow> tmpl \<Rightarrow> tmpl option" where
  "run_acts [] t = Some t"
| "run_acts (a # as) t = (case act a t of None \<Rightarrow> None | Some t \<Rightarrow> run_acts as t)"

datatype block = BText "string option" | BIf int "block list" "block list option"
  | BSwitch int "(int \<times> block list) list"

fun acts :: "block \<Rightarrow> tact list"
  and actss :: "block list \<Rightarrow> tact list"
  and acases :: "(int \<times> block list) list \<Rightarrow> tact list" where
  "acts (BText s) = [AText s]"
| "acts (BIf e bs None) = AIf e # actss bs @ [AEnd]"
| "acts (BIf e bs (Some es)) = AIf e # actss bs @ AElse # actss es @ [AEnd]"
| "acts (BSwitch i cs) = ASwitch i # acases cs @ [AEnd]"
| "actss [] = []"
| "actss (b # bs) = acts b @ actss bs"
| "acases [] = []"
| "acases ((i, bs) # cs) = ACase i # actss bs @ acases cs"

fun sem :: "block \<Rightarrow> string"
  and sems :: "block list \<Rightarrow> string"
  and sem_cases :: "int \<Rightarrow> (int \<times> block list) list \<Rightarrow> string" where
  "sem (BText s) = (case s of None \<Rightarrow> [] | Some s \<Rightarrow> s)"
| "sem (BIf e bs None) = (if e \<noteq> 0 then sems bs else [])"
| "sem (BIf e bs (Some es)) = (if e \<noteq> 0 then sems bs else sems es)"
| "sem (BSwitch i cs) = sem_cases i cs"
| "sems [] = []"
| "sems (b # bs) = sem b @ sems bs"
| "sem_cases v [] = []"
| "sem_cases v ((i, bs) # cs) = (if v = i then sems bs else []) @ sem_cases v cs"

section \<open>Lemmas\<close>

definition tmpl_inv :: "tmpl \<Rightarrow> bool" where
  "tmpl_inv t \<longleftrightarrow> output_pos t = int (length (tpl_output t)) \<and> output_pos t < output_len t"

lemma grow_ge: "need \<le> grow len need"
  by (induction len need rule: grow.induct) (subst grow.simps, auto)

text \<open>What a run does: it adds a text to the output, keeps the open conditionals, and leaves output
  enabled or not.\<close>

definition emits :: "tact list \<Rightarrow> string \<Rightarrow> bool \<Rightarrow> tmpl \<Rightarrow> bool" where
  "emits as s d t \<longleftrightarrow> (\<exists>t'. run_acts as t = Some t' \<and> tmpl_inv t' \<and>
     tpl_output t' = tpl_output t @ s \<and> output_disable t' = d \<and> conditionals t' = conditionals t)"

text \<open>A state the parser can be in between two blocks.\<close>

definition good :: "tmpl \<Rightarrow> bool" where
  "good t \<longleftrightarrow> tmpl_inv t \<and> (output_disable t \<longrightarrow> (\<exists>c cs. conditionals t = c # cs \<and> 0 \<le> deep c))"

abbreviation shown :: "string \<Rightarrow> tmpl \<Rightarrow> string" where
  "shown s t \<equiv> (if output_disable t then [] else s)"

lemma run_acts_append: "run_acts (as @ bs) t = (case run_acts as t of None \<Rightarrow> None | Some t \<Rightarrow> run_acts bs t)"
  by (induction as t rule: run_acts.induct) (auto split: option.splits)

lemma append_emits:
  assumes "tmpl_inv t"
  shows "emits [AText s] (shown (sem (BText s)) t) (output_disable t) t"
  using assms grow_ge [of "output_pos t + int (length (the s)) + 1" "output_len t"]
  by (cases s) (auto simp: emits_def mp_template_append_def Let_def tmpl_inv_def memblock_def)

lemma emits_append:
  assumes "emits as s d t" "\<And>t'. tmpl_inv t' \<Longrightarrow> output_disable t' = d \<Longrightarrow>
      conditionals t' = conditionals t \<Longrightarrow> emits bs r d' t'"
  shows "emits (as @ bs) (s @ r) d' t"
proof -
  obtain t1 where t1: "run_acts as t = Some t1" "tmpl_inv t1" "tpl_output t1 = tpl_output t @ s"
    "output_disable t1 = d" "conditionals t1 = conditionals t"
    using assms(1) by (auto simp: emits_def)
  with assms(2) [of t1] show ?thesis by (auto simp: emits_def run_acts_append)
qed

lemmas emits_Cons = emits_append [of "[a]" for a, simplified]

lemma emits_nil: "tmpl_inv t \<Longrightarrow> emits [] [] (output_disable t) t"
  by (simp add: emits_def)

text \<open>Inside a conditional that is skipped.\<close>

lemma skip_inner:
  assumes "output_disable t" "tmpl_inv t" "conditionals t = c # cs" "0 < deep c"
  shows "emits [AElse] [] True t" "emits [ACase i] [] True t"
  using assms by (simp_all add: emits_def mp_template_else_def mp_template_case_int_def)

lemma skip_block:
  assumes t: "output_disable t" "tmpl_inv t" "conditionals t = c # cs" "0 \<le> deep c"
    and a: "a = AIf e \<or> a = ASwitch e"
    and inner: "\<And>t'. output_disable t' \<Longrightarrow> tmpl_inv t' \<Longrightarrow>
      conditionals t' = c\<lparr>deep := deep c + 1\<rparr> # cs \<Longrightarrow> emits as [] True t'"
  shows "emits (a # as @ [AEnd]) [] True t"
proof -
  let ?t = "t\<lparr>conditionals := c\<lparr>deep := deep c + 1\<rparr> # cs\<rparr>"
  have "act a t = Some ?t"
    using t a by (auto simp: mp_template_if_def mp_template_switch_int_def deeper_def)
  moreover obtain t1 where "run_acts as ?t = Some t1" "tmpl_inv t1" "tpl_output t1 = tpl_output t"
    "output_disable t1" "conditionals t1 = c\<lparr>deep := deep c + 1\<rparr> # cs"
    using inner [of ?t] t by (auto simp: emits_def tmpl_inv_def)
  ultimately show ?thesis using t
    by (simp add: emits_def run_acts_append mp_template_end_def deeper_def) (auto simp: tmpl_inv_def)
qed

text \<open>Inside a conditional that is entered.\<close>

lemma enter_else:
  assumes "tmpl_inv t" "conditionals t = \<lparr>deep = 0, ival = e\<rparr> # cs"
  shows "emits [AElse] [] (e \<noteq> 0) t" "emits [ACase i] [] (e \<noteq> i) t"
  using assms by (auto simp: emits_def mp_template_else_def mp_template_case_int_def tmpl_inv_def)

text \<open>The run of a template, by induction on it.\<close>

definition runs_like :: "tact list \<Rightarrow> string \<Rightarrow> bool" where
  "runs_like as s \<longleftrightarrow> (\<forall>t. good t \<longrightarrow> emits as (shown s t) (output_disable t) t)"

definition cases_like :: "tact list \<Rightarrow> (int \<Rightarrow> string) \<Rightarrow> bool" where
  "cases_like as s \<longleftrightarrow>
     (\<forall>t c cs. output_disable t \<and> tmpl_inv t \<and> conditionals t = c # cs \<and> 0 < deep c
        \<longrightarrow> emits as [] True t) \<and>
     (\<forall>t v cs. tmpl_inv t \<and> conditionals t = \<lparr>deep = 0, ival = v\<rparr> # cs \<longrightarrow> (\<exists>d. emits as (s v) d t))"

lemma runs_like_skipped:
  assumes "runs_like as s" "output_disable t" "tmpl_inv t" "conditionals t = c # cs" "0 \<le> deep c"
  shows "emits as [] True t"
  using assms by (auto simp: runs_like_def good_def dest!: spec [of _ t])

lemma else_skipped:
  assumes b: "runs_like bs s" and e: "runs_like es r"
    and t: "output_disable t" "tmpl_inv t" "conditionals t = c # cs" "0 < deep c"
  shows "emits (bs @ AElse # es) [] True t"
proof -
  have "emits (AElse # es) [] True u" if "output_disable u" "tmpl_inv u" "conditionals u = c # cs" for u
    using emits_append [OF skip_inner(1) [OF that t(4)], of es "[]" True]
      runs_like_skipped [OF e] that t(4) by simp
  then show ?thesis
    using emits_append [OF runs_like_skipped [OF b t(1-3)], of "AElse # es" "[]" True] t by simp
qed

lemma else_entered:
  assumes b: "runs_like bs s" and e: "runs_like es r"
    and t: "output_disable t = (v = 0)" "tmpl_inv t" "conditionals t = \<lparr>deep = 0, ival = v\<rparr> # cs"
  shows "emits (bs @ AElse # es) (if v \<noteq> 0 then s else r) (v \<noteq> 0) t"
proof -
  have 1: "emits bs (if v \<noteq> 0 then s else []) (v = 0) t"
    using b t by (auto simp: runs_like_def good_def dest!: spec [of _ t])
  have 2: "emits es (if v \<noteq> 0 then [] else r) (v \<noteq> 0) u"
    if "output_disable u = (v \<noteq> 0)" "tmpl_inv u" "conditionals u = \<lparr>deep = 0, ival = v\<rparr> # cs" for u
    using e that by (auto simp: runs_like_def good_def dest!: spec [of _ u])
  have "emits (AElse # es) (if v \<noteq> 0 then [] else r) (v \<noteq> 0) u"
    if "tmpl_inv u" "conditionals u = \<lparr>deep = 0, ival = v\<rparr> # cs" for u
    using emits_append [OF enter_else(1) [OF that], of es "if v \<noteq> 0 then [] else r" "v \<noteq> 0"] 2 that
    by simp
  then show ?thesis
    using emits_append [OF 1, of "AElse # es" "if v \<noteq> 0 then [] else r" "v \<noteq> 0"] t(3)
    by (auto split: if_splits)
qed

text \<open>A conditional whose inside behaves, both skipped and entered.\<close>

lemma runs_like_cond:
  assumes a: "a = AIf e \<and> d = (e = 0) \<or> a = ASwitch e \<and> d"
    and skip: "\<And>t c cs. output_disable t \<Longrightarrow> tmpl_inv t \<Longrightarrow> conditionals t = c # cs \<Longrightarrow> 0 < deep c
      \<Longrightarrow> emits as [] True t"
    and enter: "\<And>t cs. output_disable t = d \<Longrightarrow> tmpl_inv t \<Longrightarrow>
      conditionals t = \<lparr>deep = 0, ival = e\<rparr> # cs \<Longrightarrow> \<exists>d'. emits as s d' t"
  shows "runs_like (a # as @ [AEnd]) s"
  unfolding runs_like_def
proof (intro allI impI)
  fix t assume g: "good t"
  show "emits (a # as @ [AEnd]) (shown s t) (output_disable t) t"
  proof (cases "output_disable t")
    case True
    then obtain c cs where c: "conditionals t = c # cs" "0 \<le> deep c" "tmpl_inv t"
      using g by (auto simp: good_def)
    have "a = AIf e \<or> a = ASwitch e" using a by auto
    then show ?thesis using skip_block [OF True c(3, 1, 2), of a e as] skip c(2) True by simp
  next
    case False
    have "tmpl_inv t" using g by (simp add: good_def)
    let ?t = "t\<lparr>conditionals := \<lparr>deep = 0, ival = e\<rparr> # conditionals t, output_disable := d\<rparr>"
    have "tmpl_inv ?t" using \<open>tmpl_inv t\<close> by (simp add: tmpl_inv_def)
    then obtain d' t1 where "run_acts as ?t = Some t1" "tmpl_inv t1" "tpl_output t1 = tpl_output t @ s"
      "conditionals t1 = \<lparr>deep = 0, ival = e\<rparr> # conditionals t"
      using enter [of ?t] by (auto simp: emits_def)
    moreover have "act a t = Some ?t"
      using False a by (auto simp: mp_template_if_def mp_template_switch_int_def)
    ultimately show ?thesis using False
      by (simp add: emits_def run_acts_append mp_template_end_def) (auto simp: tmpl_inv_def)
  qed
qed

lemma runs_like_if_else:
  assumes "runs_like bs s" "runs_like es r"
  shows "runs_like (AIf e # bs @ AElse # es @ [AEnd]) (if e \<noteq> 0 then s else r)"
proof -
  have "runs_like (AIf e # (bs @ AElse # es) @ [AEnd]) (if e \<noteq> 0 then s else r)"
    by (rule runs_like_cond [of _ e "e = 0"])
      (use else_skipped [OF assms] else_entered [OF assms] in \<open>blast+\<close>)
  then show ?thesis by simp
qed

lemma runs_like_if:
  assumes "runs_like bs s"
  shows "runs_like (AIf e # bs @ [AEnd]) (if e \<noteq> 0 then s else [])"
proof (rule runs_like_cond [of _ e "e = 0"])
  fix t cs
  assume "output_disable t = (e = 0)" "tmpl_inv t" "conditionals t = \<lparr>deep = 0, ival = e\<rparr> # cs"
  then have "emits bs (if e \<noteq> 0 then s else []) (e = 0) t"
    using assms by (auto simp: runs_like_def good_def dest!: spec [of _ t])
  then show "\<exists>d'. emits bs (if e \<noteq> 0 then s else []) d' t" by blast
qed (use runs_like_skipped [OF assms] in auto)

lemma runs_like_switch: "cases_like as s \<Longrightarrow> runs_like (ASwitch i # as @ [AEnd]) (s i)"
  by (rule runs_like_cond [of _ i True]) (auto simp: cases_like_def)

lemma runs_like_append:
  assumes "runs_like as s" "runs_like bs r"
  shows "runs_like (as @ bs) (s @ r)"
  unfolding runs_like_def
proof (intro allI impI)
  fix t assume g: "good t"
  then have 1: "emits as (shown s t) (output_disable t) t" using assms(1) by (simp add: runs_like_def)
  have "emits bs (shown r t) (output_disable t) u"
    if "tmpl_inv u" "output_disable u = output_disable t" "conditionals u = conditionals t" for u
    using assms(2) g that by (auto simp: runs_like_def good_def dest!: spec [of _ u])
  then show "emits (as @ bs) (shown (s @ r) t) (output_disable t) t"
    using emits_append [OF 1, of bs "shown r t" "output_disable t"] by (auto split: if_splits)
qed

lemma cases_like_Cons:
  assumes b: "runs_like bs s" and c: "cases_like as r"
  shows "cases_like (ACase i # bs @ as) (\<lambda>v. (if v = i then s else []) @ r v)"
  unfolding cases_like_def
proof (intro conjI allI impI)
  fix t c cs assume t: "output_disable t \<and> tmpl_inv t \<and> conditionals t = c # cs \<and> 0 < deep c"
  have 1: "emits as [] True u" if "tmpl_inv u" "output_disable u" "conditionals u = c # cs" for u
    using c that t by (auto simp: cases_like_def)
  have 2: "emits (bs @ as) [] True u" if "tmpl_inv u" "output_disable u" "conditionals u = c # cs" for u
    using emits_append [OF runs_like_skipped [OF b, of u c cs], of as "[]" True] 1 that t by simp
  show "emits (ACase i # bs @ as) [] True t"
    using emits_append [OF skip_inner(2) [of t c cs i], of "bs @ as" "[]" True] 2 t by simp
next
  fix t v cs assume t: "tmpl_inv t \<and> conditionals t = \<lparr>deep = 0, ival = v\<rparr> # cs"
  define d where "d = (v \<noteq> i)"
  have run: "\<exists>u. run_acts (ACase i # bs) t = Some u \<and> tmpl_inv u \<and>
      tpl_output u = tpl_output t @ (if v = i then s else []) \<and> conditionals u = conditionals t"
  proof -
    have "emits bs (if v = i then s else []) d u"
      if "output_disable u = d" "tmpl_inv u" "conditionals u = conditionals t" for u
      using b that t by (auto simp: runs_like_def good_def d_def dest!: spec [of _ u])
    then have "emits (ACase i # bs) (if v = i then s else []) d t"
      using emits_append [OF enter_else(2) [of t v cs i], of bs "if v = i then s else []" d] t
      by (simp add: d_def)
    then show ?thesis by (auto simp: emits_def)
  qed
  then obtain u where u: "run_acts (ACase i # bs) t = Some u" "tmpl_inv u"
      "tpl_output u = tpl_output t @ (if v = i then s else [])" "conditionals u = conditionals t"
    by blast
  moreover have "\<exists>d'. emits as (r v) d' u"
    using c [unfolded cases_like_def, THEN conjunct2, rule_format, of u v cs] u t by simp
  ultimately show "\<exists>d. emits (ACase i # bs @ as) ((if v = i then s else []) @ r v) d t"
    using run_acts_append [of "ACase i # bs" as t] by (auto simp: emits_def simp del: run_acts.simps)
qed

lemma template_runs:
  "runs_like (acts b) (sem b)" "runs_like (actss bs) (sems bs)" "cases_like (acases cs) (\<lambda>v. sem_cases v cs)"
proof (induction b and bs and cs rule: acts_actss_acases.induct)
  case (1 s)
  have "emits (acts (BText s)) (shown (sem (BText s)) t) (output_disable t) t" if "good t" for t
    using append_emits [of t s] that by (simp only: acts.simps good_def)
  then show ?case unfolding runs_like_def by blast
next
  case 5
  then show ?case using emits_nil by (simp add: runs_like_def good_def)
next
  case 7
  have "emits [] [] (output_disable t) t" if "tmpl_inv t" for t using that by (rule emits_nil)
  then show ?case by (auto simp: cases_like_def) metis+
next
  case (4 i cs)
  then show ?case using runs_like_switch [of "acases cs" "\<lambda>v. sem_cases v cs" i] by simp
qed (simp_all add: runs_like_if runs_like_if_else [simplified] runs_like_append cases_like_Cons)

section \<open>Properties\<close>

text \<open>C4: Running the parser's calls on a nested template from the initial state never reads through the
  NULL list of conditionals, prints exactly what the template means (\<open>IF\<close> one of its branches,
  \<open>SWITCH\<close> the matching cases, at every depth), closes every conditional it opened and keeps the text
  within its buffer.\<close>

theorem template_correct:
  "\<exists>t. run_acts (actss bs) tmpl_init = Some t \<and> tpl_output t = sems bs \<and> tmpl_inv t \<and>
     conditionals t = [] \<and> \<not> output_disable t"
proof -
  have "good tmpl_init" by (simp add: good_def tmpl_inv_def tmpl_init_def memblock_def)
  then have "emits (actss bs) (sems bs) False tmpl_init"
    using template_runs(2) [of bs] by (auto simp: runs_like_def tmpl_init_def dest!: spec [of _ tmpl_init])
  then show ?thesis by (auto simp: emits_def tmpl_init_def)
qed

text \<open>The encoded text and the reader of an encoded text.\<close>

definition url_enc :: "char \<Rightarrow> string" where
  "url_enc c = (if url_plain c then [c] else CHR ''%'' # fmt_02X (ccode c))"

fun urldecode :: "string \<Rightarrow> string" where
  "urldecode [] = []"
| "urldecode (c # s) =
     (if c = CHR ''%'' then
        (case s of
           a # b # r \<Rightarrow> char_of (digit_val a * 16 + digit_val b) # urldecode r
         | _ \<Rightarrow> [])
      else c # urldecode s)"

lemma length_url_enc: "length (url_enc c) = (if url_plain c then 1 else 3)"
  using ccode_range [of c] by (simp add: url_enc_def length_fmt_02X)

lemma length_concat_enc: "length (concat (map url_enc s)) = length s + urlencode_delta s"
  by (induction s) (simp_all add: length_url_enc urlencode_delta_def)

lemma urlencode_ascii:
  assumes "\<forall>c \<in> set s. ccode c < 128" "k = length (concat (map url_enc s)) + 1"
  shows "urlencode_loop (pre @ replicate k NUL) (length pre) s = pre @ concat (map url_enc s) @ [NUL]"
  using assms
proof (induction s arbitrary: pre k)
  case (Cons c s)
  let ?k = "length (concat (map url_enc s)) + 1"
  have c: "schar c = ccode c" using Cons.prems(1) by (simp add: schar_def)
  have k: "k = length (url_enc c) + ?k" using Cons.prems(2) by simp
  note ih = Cons.IH [of ?k "pre @ url_enc c"]
  show ?case
  proof (cases "url_plain c")
    case True
    then have "poke (pre @ replicate k NUL) (length pre) [c] = (pre @ url_enc c) @ replicate ?k NUL"
      by (simp add: poke_def k url_enc_def)
    then show ?thesis using ih Cons.prems(1) True by (simp add: length_url_enc)
  next
    case False
    have "replicate k NUL = replicate 3 NUL @ NUL # replicate (?k - 1) NUL"
      using k False length_url_enc [of c] by (simp add: replicate_add [symmetric] flip: replicate_Suc)
    then have "poke (pre @ replicate k NUL) (length pre) (CHR ''%'' # fmt_02X (schar c) @ [NUL]) =
        (pre @ url_enc c) @ replicate ?k NUL"
      using ccode_range [of c] False k
      by (simp add: poke_def url_enc_def c length_fmt_02X)
    then show ?thesis using ih Cons.prems(1) False by (simp add: length_url_enc)
  qed
qed simp

lemma url_plain_not_percent: "\<not> url_plain (CHR ''%'')" "\<not> url_plain NUL"
  by (simp_all add: url_plain_def NUL_def ctype_defs ccode_def)

lemma fmt_02X_digits:
  assumes "0 \<le> x" "x < 256"
  shows "fmt_02X x = [dig (x div 16), dig (x mod 16)]"
proof (cases "x < 16")
  case True
  then show ?thesis using assms by (simp add: fmt_02X_def to_uint32_def base_str.simps dig_def)
next
  case False
  then have "x div 16 < 16" "1 \<le> x div 16" using assms by auto
  then show ?thesis using assms False
    by (simp add: fmt_02X_def to_uint32_def base_str.simps [of 16 x] base_str.simps [of 16 "x div 16"])
qed

lemma char_of_ccode: "char_of (ccode c) = c"
  by (simp add: ccode_def)

lemma urldecode_enc: "urldecode (url_enc c @ s) = c # urldecode s"
proof (cases "url_plain c")
  case True
  then show ?thesis using url_plain_not_percent(1) by (auto simp: url_enc_def)
next
  case False
  have r: "0 \<le> ccode c" "ccode c < 256" using ccode_range by auto
  then have "digit_val (dig (ccode c div 16)) * 16 + digit_val (dig (ccode c mod 16)) = ccode c"
    by (simp add: digit_val_dig)
  then show ?thesis using False r by (simp add: url_enc_def fmt_02X_digits char_of_ccode)
qed

lemma urldecode_concat: "urldecode (concat (map url_enc s)) = s"
  by (induction s) (simp_all add: urldecode_enc)

lemma enc_no_NUL: "\<forall>c \<in> set s. c \<noteq> NUL \<Longrightarrow> NUL \<notin> set (concat (map url_enc s))"
proof (induction s)
  case (Cons c s)
  have "NUL \<noteq> dig d" if "0 \<le> d" "d < 16" for d
  proof
    assume "NUL = dig d"
    moreover have "ccode NUL = 0" by (simp add: NUL_def ccode_def)
    ultimately show False using that ccode_dig [of d] by (auto split: if_splits)
  qed
  then have "NUL \<notin> set (url_enc c)"
    using Cons.prems ccode_range [of c] by (auto simp: url_enc_def fmt_02X_digits NUL_def)
  then show ?case using Cons by simp
qed simp

lemma delta_zero: "urlencode_delta s = 0 \<Longrightarrow> concat (map url_enc s) = s"
  by (induction s) (auto simp: urlencode_delta_def url_enc_def split: if_splits)

text \<open>C12: On a text of ASCII bytes \<open>mp_template_urlencode\<close> fills its buffer exactly and decoding the
  result gives the text back.\<close>

theorem mp_template_urlencode_ascii:
  assumes "\<forall>c \<in> set s. ccode c < 128 \<and> c \<noteq> NUL"
  shows "\<exists>m n. mp_template_urlencode (Some s) = Some (m, n) \<and> length m = n \<and> urldecode (mem_text m) = s"
proof -
  let ?e = "concat (map url_enc s)"
  have m: "mp_template_urlencode (Some s) = Some (?e @ [NUL], length ?e + 1)"
    using urlencode_ascii [of s "length ?e + 1" "[]"] assms length_concat_enc [of s] delta_zero [of s]
    by (auto simp: mp_template_urlencode_def Let_def ac_simps)
  have "mem_text (?e @ [NUL]) = ?e"
    using enc_no_NUL [of s] assms unfolding mem_text_def by (subst takeWhile_append2) auto
  then show ?thesis using m urldecode_concat [of s] by simp
qed

theorem mp_template_urlencode_ascii_witness:
  "\<exists>m n. mp_template_urlencode (Some ''a b/c'') = Some (m, n) \<and> length m = n \<and> urldecode (mem_text m) = ''a b/c''"
  by (rule mp_template_urlencode_ascii) (simp add: ccode_def NUL_def)

lemma length_poke: "i \<le> length m \<Longrightarrow> length (poke m i s) = max (length m) (i + length s)"
  by (simp add: poke_def)

lemma fmt_02X_negative:
  assumes "128 \<le> ccode c"
  shows "length (fmt_02X (schar c)) = 8"
proof -
  let ?x = "to_uint32 (schar c)"
  have "(ccode c - 256 + 2 ^ 32) mod 2 ^ 32 = ccode c - 256 + 2 ^ 32"
    using assms ccode_range [of c] by (intro mod_pos_pos_trivial) simp_all
  moreover have "(ccode c - 256 + 2 ^ 32) mod 2 ^ 32 = (ccode c - 256) mod 2 ^ 32"
    by (rule mod_add_self2)
  ultimately have "?x = ccode c - 256 + 2 ^ 32"
    using assms by (simp only: schar_def to_uint32_def) simp
  then have x: "2 ^ 28 \<le> ?x" "?x < 2 ^ 32"
    using assms ccode_range [of c] by simp_all
  have l: "length (base_str 16 n) = Suc (length (base_str 16 (n div 16)))" if "16 \<le> n" for n
    using that by (subst base_str.simps) simp
  have one: "length (base_str 16 n) = 1" if "n < 16" for n using that by (subst base_str.simps) simp
  have "length (base_str 16 ?x) = 8"
    using x by (simp add: l one div_mult2_eq [symmetric] zdiv_zmult2_eq [symmetric])
  then show ?thesis by (simp add: fmt_02X_def Let_def)
qed

lemma urlencode_loop_append:
  "urlencode_loop m optr (s @ r) =
     urlencode_loop (urlencode_loop m optr s) (optr + length s + urlencode_delta s) r"
  by (induction m optr s rule: urlencode_loop.induct) (simp_all add: urlencode_delta_def numeral_3_eq_3 ac_simps)

lemma urlencode_loop_length:
  "optr \<le> length m \<Longrightarrow> length m \<le> length (urlencode_loop m optr s) \<and>
     optr + length s + urlencode_delta s \<le> length (urlencode_loop m optr s)"
proof (induction m optr s rule: urlencode_loop.induct)
  case (2 m optr c s)
  have "2 \<le> length (fmt_02X (schar c))" by (simp add: fmt_02X_def Let_def)
  then have "optr + 3 \<le> max (length m) (Suc (Suc (optr + length (fmt_02X (schar c)))))"
    by (simp add: le_max_iff_disj)
  then show ?case using 2 by (auto simp: length_poke urlencode_delta_def)
qed (simp add: urlencode_delta_def)

text \<open>A text that ends in a byte of 128 or more overruns the buffer of \<open>mp_template_urlencode\<close> by six
  bytes: the signed \<open>char\<close> is printed with eight hexadecimal digits where two are counted.\<close>

theorem mp_template_urlencode_overflow:
  assumes "128 \<le> ccode c"
  shows "\<exists>m n. mp_template_urlencode (Some (s @ [c])) = Some (m, n) \<and> n + 6 \<le> length m"
proof -
  have np: "\<not> url_plain c"
    using assms by (auto simp: url_plain_def ctype_defs ccode_def)
  let ?n = "urlencode_delta (s @ [c]) + length (s @ [c])"
  let ?m = "urlencode_loop (replicate (?n + 1) NUL) 0 s" and ?p = "length s + urlencode_delta s"
  have n: "?n = ?p + 3" using np by (simp add: urlencode_delta_def)
  have "?p \<le> length ?m" "?n + 1 \<le> length ?m"
    using urlencode_loop_length [of 0 "replicate (?n + 1) NUL" s] by simp_all
  then have "?n + 1 + 6 \<le> length (urlencode_loop (replicate (?n + 1) NUL) 0 (s @ [c]))"
    using np n fmt_02X_negative [OF assms] by (simp add: urlencode_loop_append length_poke)
  then show ?thesis using n by (simp add: mp_template_urlencode_def Let_def)
qed

theorem mp_template_urlencode_overflow_witness:
  "\<exists>m n. mp_template_urlencode (Some (''na'' @ [CHR 0xEF])) = Some (m, n) \<and> n + 6 \<le> length m"
  by (rule mp_template_urlencode_overflow) (simp add: ccode_def)

end
