(* ===== verification/SMS_Utils.thy ===== *)
theory SMS_Utils
  imports MP_Args
begin

text \<open>
  \<^verbatim>\<open>lib/sms_utils.c\<close>: AT commands on a modem, and the encoding of telephone numbers, texts and
  PDUs for short messages.

  Wide characters are code points. \<open>mbstowcs\<close> depends on the locale and is a parameter; \<open>None\<close> is
  its error. The device is the list of chunks that the successive \<open>read\<close> calls deliver; when it is used
  up \<open>select\<close> times out. The buffer of \<open>mobile_at_command_input\<close> is kept as memory, since the source
  reads stale bytes of it.
\<close>

section \<open>AT commands\<close>

definition cr :: char where "cr = CHR 0x0D"
definition nul :: char where "nul = CHR 0x00"

text \<open>The first byte from \<open>p\<close> on that ends a C string or is one of the delimiters.\<close>

definition tok_end :: "string \<Rightarrow> string \<Rightarrow> nat \<Rightarrow> nat" where
  "tok_end delim mem p = p + length (takeWhile (\<lambda>c. c \<noteq> nul \<and> c \<notin> set delim) (drop p mem))"

definition mem_str :: "string \<Rightarrow> nat \<Rightarrow> string option" where
  "mem_str mem p =
     (let e = tok_end [] mem p in if e < length mem then Some (take (e - p) (drop p mem)) else None)"

datatype at_result = AtReturn int "string list" | AtOverrun

datatype at_lines = AtDone int "string list" | AtLast string nat "string list" | AtBad

text \<open>One line: \<open>Inl\<close> returns, \<open>Inr\<close> goes on with the answers so far.\<close>

definition at_line ::
    "string \<Rightarrow> bool \<Rightarrow> string \<Rightarrow> nat \<Rightarrow> string \<Rightarrow> string list \<Rightarrow> (int + string list) option" where
  "at_line cmd want mem p line ans =
     (if line = [] then Some (Inr ans)
      else if line = ''OK'' then Some (Inl 0)
      else if line = ''ERROR'' then Some (Inl 1)
      else if strncmp_eq line ''+CME ERROR: '' 12 then Some (Inl 1)
      else if strncmp_eq line cmd (length cmd) then
        (if \<not> want then Some (Inr ans)
         else map_option (\<lambda>a. Inr (ans @ [a])) (mem_str mem (p + length cmd + 2)))
      else Some (Inr ans))"

text \<open>The loop over the lines in the buffer from \<open>p\<close> on; the first argument bounds the steps by
  the size of the buffer.\<close>

fun at_lines_loop :: "nat \<Rightarrow> string \<Rightarrow> bool \<Rightarrow> string \<Rightarrow> nat \<Rightarrow> string list \<Rightarrow> at_lines" where
  "at_lines_loop 0 cmd want mem p ans = AtBad"
| "at_lines_loop (Suc n) cmd want mem p ans =
     (if length mem \<le> tok_end [cr, newline] mem p then AtBad
      else if mem ! tok_end [cr, newline] mem p = nul then AtLast mem p ans
      else
        let e = tok_end [cr, newline] mem p; mem' = mem[e := nul]
        in if at_line cmd want mem' p (take (e - p) (drop p mem')) ans = None then AtBad
           else if isl (the (at_line cmd want mem' p (take (e - p) (drop p mem')) ans))
             then AtDone (projl (the (at_line cmd want mem' p (take (e - p) (drop p mem')) ans))) ans
           else at_lines_loop n cmd want mem' (Suc e)
                  (projr (the (at_line cmd want mem' p (take (e - p) (drop p mem')) ans))))"

definition mem_put :: "string \<Rightarrow> string \<Rightarrow> string" where
  "mem_put mem s = s @ drop (length s) mem"

text \<open>The reads: every one stores at the start of the buffer, although a partial line of \<open>len\<close> bytes
  is there.\<close>

fun at_reads :: "string \<Rightarrow> bool \<Rightarrow> string \<Rightarrow> nat \<Rightarrow> string list \<Rightarrow> string list \<Rightarrow> at_result" where
  "at_reads cmd want mem len ans [] = AtReturn (-1) ans"
| "at_reads cmd want mem len ans (c # cs) =
     (if take (64 - len) c = [] then AtReturn (-1) ans
      else
        (case at_lines_loop 65 cmd want (mem_put mem (take (64 - len) c)) 0 ans of
           AtBad \<Rightarrow> AtOverrun
         | AtDone r ans \<Rightarrow> AtReturn r ans
         | AtLast mem p ans \<Rightarrow>
             let line = take (tok_end [] mem p - p) (drop p mem)
             in at_reads cmd want (mem_put mem (line @ [nul])) (length line) ans cs))"

text \<open>The writes: the number of bytes \<open>write\<close> takes of a text is a parameter. \<open>junk\<close> is the contents of
  the allocated buffer.\<close>

definition mobile_at_command_input ::
    "(string \<Rightarrow> nat) \<Rightarrow> string \<Rightarrow> string \<Rightarrow> string option \<Rightarrow> string option \<Rightarrow> bool \<Rightarrow> string list \<Rightarrow> mp_globals
     \<Rightarrow> mp_end + at_result" where
  "mobile_at_command_input wr junk cmd opt inp want chunks g =
     (case mp_snprintf 64 (Some (''AT'' @ cmd @ (case opt of None \<Rightarrow> [] | Some s \<Rightarrow> s) @ [cr])) g of
        Inl e \<Rightarrow> Inl e
      | Inr buf \<Rightarrow>
          if wr buf \<noteq> length buf then Inr (AtReturn (-1) [])
          else if (case inp of None \<Rightarrow> False
                   | Some s \<Rightarrow> wr s \<noteq> length s \<or> wr [cr, CHR 0x1A] \<noteq> 2) then Inr (AtReturn (-1) [])
          else Inr (at_reads cmd want (mem_put (take 64 junk) (buf @ [nul])) 0 [] chunks))"

definition mobile_at_command ::
    "(string \<Rightarrow> nat) \<Rightarrow> string \<Rightarrow> string \<Rightarrow> string option \<Rightarrow> bool \<Rightarrow> string list \<Rightarrow> mp_globals
     \<Rightarrow> mp_end + at_result" where
  "mobile_at_command wr junk cmd opt want chunks g =
     mobile_at_command_input wr junk cmd opt None want chunks g"

section \<open>Numbers\<close>

text \<open>The pairs of a number with their digits exchanged; a missing last digit is \<open>F\<close>.\<close>

fun swap_pairs :: "string \<Rightarrow> string" where
  "swap_pairs [] = []"
| "swap_pairs [a] = [CHR ''F'', a]"
| "swap_pairs (a # b # s) = b # a # swap_pairs s"

definition sms_encode_number :: "string \<Rightarrow> cbuf" where
  "sms_encode_number number =
     (let plus = starts_with number (CHR ''+'');
          n = (if plus then tl number else number);
          len = length n + length n mod 2
      in \<lparr>cstr = (if plus then ''91'' else ''81'') @ swap_pairs n, cap = len + 3\<rparr>)"

section \<open>Texts\<close>

definition sms_gsm7 :: "int list" where
  "sms_gsm7 =
     [0x40, 0xA3, 0x24, 0xA5, 0xE8, 0xE9, 0xF9, 0xEC, 0xF2, 0xC7, 0x0A, 0xD8, 0xF8, 0x0D, 0xC5, 0xE5] @
     [0x394, 0x5F, 0x3A6, 0x393, 0x39B, 0x3A9, 0x3A0, 0x3A8, 0x3A3, 0x398, 0x39E, 0x40, 0xC6, 0xE6, 0xDF, 0xC9] @
     [0x20, 0x21, 0x22, 0x23, 0x20, 0x25, 0x26, 0x27, 0x28, 0x29, 0x2A, 0x2B, 0x2C, 0x2D, 0x2E, 0x2F] @
     [0x30, 0x31, 0x32, 0x33, 0x34, 0x35, 0x36, 0x37, 0x38, 0x39, 0x3A, 0x3B, 0x3C, 0x3D, 0x3E, 0x3F] @
     [0xA1, 0x41, 0x42, 0x43, 0x44, 0x45, 0x46, 0x48, 0x47, 0x49, 0x4A, 0x4B, 0x4C, 0x4D, 0x4E, 0x4F] @
     [0x50, 0x51, 0x52, 0x53, 0x54, 0x55, 0x56, 0x57, 0x58, 0x59, 0x69, 0xC4, 0xD6, 0xD1, 0xDC, 0xA7] @
     [0xBF, 0x61, 0x62, 0x63, 0x64, 0x65, 0x66, 0x67, 0x68, 0x69, 0x6A, 0x6B, 0x6C, 0x6D, 0x6E, 0x6F] @
     [0x70, 0x71, 0x72, 0x73, 0x74, 0x75, 0x76, 0x77, 0x78, 0x79, 0x7A, 0xE4, 0xFC, 0xF1, 0xFC, 0xE0]"

definition sms_gsm7_ext :: "int list" where
  "sms_gsm7_ext =
     replicate 10 0x20 @ [0x0A] @ replicate 5 0x20 @
     replicate 4 0x20 @ [0x5E] @ replicate 11 0x20 @
     replicate 8 0x20 @ [0x7B, 0x7D] @ replicate 5 0x20 @ [0x5C] @
     replicate 12 0x20 @ [0x5B, 0x7E, 0x5D, 0x20] @
     [0x7C] @ replicate 15 0x20 @
     replicate 16 0x20 @
     replicate 5 0x20 @ [0x20AC] @ replicate 10 0x20 @
     replicate 16 0x20"

fun wcschr :: "int list \<Rightarrow> int \<Rightarrow> int option" where
  "wcschr [] c = None"
| "wcschr (x # xs) c = (if x = c then Some 0 else map_option (\<lambda>i. i + 1) (wcschr xs c))"

text \<open>The septets of one character: none, one, or the escape and one of the extension table.\<close>

definition septets :: "int \<Rightarrow> int list" where
  "septets c =
     (case wcschr sms_gsm7 c of
        Some i \<Rightarrow> [i]
      | None \<Rightarrow> (case wcschr sms_gsm7_ext c of None \<Rightarrow> [] | Some i \<Rightarrow> [0x1B, i]))"

unbundle bit_operations_syntax

record sms_st =
  sms_bit :: int
  sms_bits :: nat
  sms_len :: int
  sms_out :: "int list"

definition add_septet :: "int \<Rightarrow> sms_st \<Rightarrow> sms_st" where
  "add_septet v st =
     st\<lparr>sms_bit := to_uint32 (sms_bit st OR push_bit (sms_bits st) v), sms_len := sms_len st + 1,
        sms_bits := sms_bits st + 7\<rparr>"

function drain :: "sms_st \<Rightarrow> sms_st" where
  "drain st =
     (if 8 \<le> sms_bits st
      then drain (st\<lparr>sms_out := sms_out st @ [sms_bit st AND 0xFF], sms_bit := drop_bit 8 (sms_bit st),
             sms_bits := sms_bits st - 8\<rparr>)
      else st)"
  by pat_completeness auto
termination by (relation "measure sms_bits") auto

declare drain.simps [simp del]

text \<open>A character without septets is skipped before the loop over the bits.\<close>

definition sms_char :: "int \<Rightarrow> sms_st \<Rightarrow> sms_st" where
  "sms_char c st = (if septets c = [] then st else drain (fold add_septet (septets c) st))"

definition sms_wide :: "int list \<Rightarrow> cbuf" where
  "sms_wide t =
     (let st = fold sms_char t \<lparr>sms_bit = 0, sms_bits = 0, sms_len = 0, sms_out = []\<rparr>;
          out = sms_out st @ (if 0 < sms_bits st then [sms_bit st AND 0xFF] else [])
      in \<lparr>cstr = take 2 (fmt_02X (sms_len st)) @ concat (map fmt_02X out),
          cap = length t * 7 div 4 + 3\<rparr>)"

definition sms_encode_text :: "(string \<Rightarrow> int list option) \<Rightarrow> string \<Rightarrow> cbuf option" where
  "sms_encode_text mbstowcs text = map_option sms_wide (mbstowcs text)"

section \<open>PDUs\<close>

definition sms_encode_pdu ::
    "(string \<Rightarrow> int list option) \<Rightarrow> string option \<Rightarrow> string \<Rightarrow> string \<Rightarrow> cbuf option" where
  "sms_encode_pdu mbstowcs smsc number text =
     (case sms_encode_text mbstowcs text of
        None \<Rightarrow> None
      | Some encText \<Rightarrow>
          let encNumber = cstr (sms_encode_number number);
              nlen = fmt_02X (int (length encNumber) - 2)
          in Some (mp_asprintf
               (case smsc of
                  Some s \<Rightarrow>
                    let encSmsc = cstr (sms_encode_number s)
                    in fmt_02X (int (length encSmsc) div 2) @ encSmsc @ ''0500'' @ nlen @ encNumber @
                       ''0000'' @ cstr encText
                | None \<Rightarrow> ''000500'' @ nlen @ encNumber @ ''0000'' @ cstr encText)))"

section \<open>Lemmas\<close>

lemma length_swap_pairs: "length (swap_pairs n) = length n + length n mod 2"
  by (induction n rule: swap_pairs.induct) auto

text \<open>Reading an encoded number back.\<close>

fun unswap :: "string \<Rightarrow> string" where
  "unswap (b # a # s) = a # (if b = CHR ''F'' then [] else [b]) @ unswap s"
| "unswap s = []"

lemma unswap_swap: "CHR ''F'' \<notin> set n \<Longrightarrow> unswap (swap_pairs n) = n"
  by (induction n rule: swap_pairs.induct) auto

definition decode_number :: "string \<Rightarrow> string" where
  "decode_number s = (if take 2 s = ''91'' then ''+'' else []) @ unswap (drop 2 s)"

text \<open>The value of a list of digits, least significant first.\<close>

fun le_val :: "int \<Rightarrow> int list \<Rightarrow> int" where
  "le_val b [] = 0"
| "le_val b (x # xs) = x + b * le_val b xs"

lemma le_val_append: "le_val b (xs @ ys) = le_val b xs + b ^ length xs * le_val b ys"
  by (induction xs) (simp_all add: algebra_simps)

lemma or_push_bit:
  assumes "0 \<le> x" "x < 2 ^ n"
  shows "x OR push_bit n v = x + push_bit n (v :: int)"
proof -
  have t: "take_bit n x = x" using assms by (simp add: take_bit_int_eq_self)
  have "\<not> bit x k \<or> \<not> bit (push_bit n v) k" for k
  proof (cases "k < n")
    case True
    then show ?thesis by (simp add: bit_push_bit_iff)
  next
    case False
    then have "\<not> bit (take_bit n x) k" by (simp add: bit_take_bit_iff)
    then show ?thesis by (simp add: t)
  qed
  then show ?thesis by (simp add: disjunctive_add)
qed

text \<open>The state after the septets \<open>ss\<close>: the bytes written and the bits left are their value.\<close>

definition sms_inv :: "int list \<Rightarrow> sms_st \<Rightarrow> bool" where
  "sms_inv ss st \<longleftrightarrow>
     0 \<le> sms_bit st \<and> sms_bit st < 2 ^ sms_bits st \<and> sms_len st = int (length ss) \<and>
     7 * length ss = 8 * length (sms_out st) + sms_bits st \<and>
     (\<forall>b \<in> set (sms_out st). 0 \<le> b \<and> b < 256) \<and>
     le_val 256 (sms_out st) + 256 ^ length (sms_out st) * sms_bit st = le_val 128 ss"

lemma add_septet_inv:
  assumes "sms_inv ss st" "0 \<le> v" "v < 128" "sms_bits st \<le> 24"
  shows "sms_inv (ss @ [v]) (add_septet v st)" "sms_bits (add_septet v st) = sms_bits st + 7"
proof -
  let ?n = "sms_bits st" and ?o = "length (sms_out st)"
  have b: "0 \<le> sms_bit st" "sms_bit st < 2 ^ ?n" using assms(1) by (simp_all add: sms_inv_def)
  define w where "w = sms_bit st + v * 2 ^ ?n"
  have w: "sms_bit st OR push_bit ?n v = w" using or_push_bit [OF b] by (simp add: w_def push_bit_eq_mult)
  have "v * 2 ^ ?n \<le> 127 * 2 ^ ?n" using assms(3) by (intro mult_right_mono) simp_all
  then have "w < 2 ^ ?n + 127 * 2 ^ ?n" unfolding w_def using b(2) by linarith
  then have lt: "0 \<le> w" "w < 2 ^ (?n + 7)" using b(1) assms(2) by (simp_all add: w_def power_add)
  have "(2 :: int) ^ (?n + 7) \<le> 2 ^ 31" using assms(4) by (intro power_increasing) simp_all
  then have "to_uint32 w = w" using lt by (simp add: to_uint32_def)
  moreover have "(128 :: int) ^ length ss = 256 ^ ?o * 2 ^ ?n"
  proof -
    have "(128 :: int) ^ length ss = 2 ^ (7 * length ss)" by (simp add: power_mult)
    also have "7 * length ss = 8 * ?o + ?n" using assms(1) by (simp add: sms_inv_def)
    finally show ?thesis by (simp add: power_add power_mult)
  qed
  moreover have "le_val 256 (sms_out st) + 256 ^ ?o * sms_bit st = le_val 128 ss"
    using assms(1) by (simp add: sms_inv_def)
  ultimately have "le_val 256 (sms_out st) + 256 ^ ?o * w = le_val 128 (ss @ [v])"
    by (simp add: le_val_append w_def algebra_simps)
  then show "sms_inv (ss @ [v]) (add_septet v st)"
    using assms(1) lt w \<open>to_uint32 w = w\<close> by (simp add: sms_inv_def add_septet_def)
  show "sms_bits (add_septet v st) = ?n + 7" by (simp add: add_septet_def)
qed

lemma drain_inv: "sms_inv ss st \<Longrightarrow> sms_inv ss (drain st) \<and> sms_bits (drain st) < 8"
proof (induction st rule: drain.induct)
  case (1 st)
  show ?case
  proof (cases "8 \<le> sms_bits st")
    case True
    let ?b = "sms_bit st"
    let ?st = "st\<lparr>sms_out := sms_out st @ [?b AND 0xFF], sms_bit := drop_bit 8 ?b, sms_bits := sms_bits st - 8\<rparr>"
    have a: "?b AND 0xFF = ?b mod 256" using take_bit_eq_mask [of 8 ?b] by (simp add: take_bit_eq_mod mask_eq_exp_minus_1)
    have d: "drop_bit 8 ?b = ?b div 256" by (simp add: drop_bit_eq_div)
    have b: "0 \<le> ?b" "?b < 2 ^ sms_bits st" using "1.prems" by (simp_all add: sms_inv_def)
    have "(2 :: int) ^ sms_bits st = 256 * 2 ^ (sms_bits st - 8)"
      using True power_add [of "2 :: int" 8 "sms_bits st - 8"] by simp
    then have lt: "0 \<le> ?b div 256" "?b div 256 < 2 ^ (sms_bits st - 8)"
      using b by (simp_all add: div_less_iff_less_mult pos_imp_zdiv_nonneg_iff)
    have v: "le_val 256 (sms_out st @ [?b mod 256]) + 256 ^ length (sms_out st @ [?b mod 256]) * (?b div 256) =
        le_val 256 (sms_out st) + 256 ^ length (sms_out st) * ?b"
    proof -
      define m q where "m = ?b mod 256" and "q = ?b div 256"
      have "?b = m + 256 * q" by (simp add: m_def q_def)
      then show ?thesis
        unfolding m_def [symmetric] q_def [symmetric] by (simp add: le_val_append algebra_simps)
    qed
    have "sms_inv ss ?st"
      using "1.prems" lt True v unfolding sms_inv_def a d by simp
    then show ?thesis using "1.IH" [OF True] True by (simp add: drain.simps [of st])
  qed (use "1.prems" in \<open>simp add: drain.simps [of st]\<close>)
qed

lemma wcschr_range: "wcschr xs c = Some i \<Longrightarrow> 0 \<le> i \<and> i < int (length xs)"
  by (induction xs arbitrary: i) (auto split: if_splits)

lemma gsm7_length: "length sms_gsm7 = 128" "length sms_gsm7_ext = 128"
  by (simp_all add: sms_gsm7_def sms_gsm7_ext_def)

lemma septets_cases:
  obtains (none) "septets c = []" | (one) i where "septets c = [i]" "0 \<le> i" "i < 128"
  | (two) i where "septets c = [0x1B, i]" "0 \<le> i" "i < 128" "wcschr sms_gsm7 c = None"
  using wcschr_range [of sms_gsm7 c] wcschr_range [of sms_gsm7_ext c]
  by (cases "wcschr sms_gsm7 c"; cases "wcschr sms_gsm7_ext c") (auto simp: septets_def gsm7_length)

lemma sms_char_inv:
  assumes "sms_inv ss st" "sms_bits st < 8"
  shows "sms_inv (ss @ septets c) (sms_char c st) \<and> sms_bits (sms_char c st) < 8"
proof (cases c rule: septets_cases)
  case none
  then show ?thesis using assms by (simp add: sms_char_def)
next
  case (one i)
  then show ?thesis
    using drain_inv [OF add_septet_inv(1) [OF assms(1) one(2, 3)]] assms(2) by (simp add: sms_char_def)
next
  case (two i)
  have 1: "sms_inv (ss @ [0x1B]) (add_septet 0x1B st)" "sms_bits (add_septet 0x1B st) = sms_bits st + 7"
    using add_septet_inv [OF assms(1), of "0x1B"] assms(2) by simp_all
  then have "sms_inv ((ss @ [0x1B]) @ [i]) (add_septet i (add_septet 0x1B st))"
    using add_septet_inv(1) [OF 1(1) two(2, 3)] 1(2) assms(2) by simp
  then show ?thesis using drain_inv two(1) by (simp add: sms_char_def)
qed

definition text_septets :: "int list \<Rightarrow> int list" where
  "text_septets t = concat (map septets t)"

lemma sms_fold_inv:
  "sms_inv ss st \<Longrightarrow> sms_bits st < 8 \<Longrightarrow>
   sms_inv (ss @ text_septets t) (fold sms_char t st) \<and> sms_bits (fold sms_char t st) < 8"
proof (induction t arbitrary: ss st)
  case (Cons c t)
  have "sms_inv (ss @ septets c) (sms_char c st)" "sms_bits (sms_char c st) < 8"
    using sms_char_inv [OF Cons.prems] by auto
  from Cons.IH [OF this] show ?case by (simp add: text_septets_def)
qed (simp add: text_septets_def)

lemma sms_wide_bytes:
  obtains bs where "cstr (sms_wide t) = take 2 (fmt_02X (int (length (text_septets t)))) @ concat (map fmt_02X bs)"
    "le_val 256 bs = le_val 128 (text_septets t)" "list_all (\<lambda>b. 0 \<le> b \<and> b < 256) bs"
    "7 * length (text_septets t) \<le> 8 * length bs" "8 * length bs < 7 * length (text_septets t) + 8"
proof -
  let ?i = "\<lparr>sms_bit = 0, sms_bits = 0, sms_len = 0, sms_out = []\<rparr>"
  let ?st = "fold sms_char t ?i"
  have i: "sms_inv (text_septets t) ?st" "sms_bits ?st < 8"
    using sms_fold_inv [of "[]" ?i t] by (simp_all add: sms_inv_def)
  let ?bs = "sms_out ?st @ (if 0 < sms_bits ?st then [sms_bit ?st AND 0xFF] else [])"
  have b: "0 \<le> sms_bit ?st" "sms_bit ?st < 2 ^ sms_bits ?st" using i(1) by (simp_all add: sms_inv_def)
  have "(2 :: int) ^ sms_bits ?st \<le> 2 ^ 8" using i(2) by (intro power_increasing) simp_all
  then have "sms_bit ?st AND 0xFF = sms_bit ?st"
    using b take_bit_eq_mask [of 8 "sms_bit ?st"]
    by (simp add: take_bit_int_eq_self mask_eq_exp_minus_1)
  moreover have "sms_bits ?st = 0 \<Longrightarrow> sms_bit ?st = 0" using b by simp
  ultimately show thesis
    using i b \<open>2 ^ sms_bits ?st \<le> 2 ^ 8\<close>
    by (intro that [of ?bs])
      (auto simp: sms_wide_def Let_def sms_inv_def le_val_append list_all_iff)
qed

section \<open>Properties\<close>

text \<open>C9: The text of a short message is the packing of its septets: the hexadecimal bytes after the length
  have, least significant first, the same value as the 7 bit codes of the characters, as many bytes
  as their bits need, and the length field is the number of codes.\<close>

theorem sms_encode_text_packs:
  "\<exists>bs. cstr (sms_wide t) = take 2 (fmt_02X (int (length (text_septets t)))) @ concat (map fmt_02X bs) \<and>
     le_val 256 bs = le_val 128 (text_septets t) \<and> list_all (\<lambda>b. 0 \<le> b \<and> b < 256) bs \<and>
     7 * length (text_septets t) \<le> 8 * length bs \<and> 8 * length bs < 7 * length (text_septets t) + 8"
  by (rule sms_wide_bytes [of t]) blast

lemma length_take_fmt_02X: "length (take 2 (fmt_02X x)) = 2"
  by (simp add: fmt_02X_def Let_def)

lemma length_hex_bytes: "list_all (\<lambda>b. 0 \<le> b \<and> b < 256) bs \<Longrightarrow> length (concat (map fmt_02X bs)) = 2 * length bs"
  by (induction bs) (simp_all add: length_fmt_02X)

lemma length_text_septets: "\<forall>c \<in> set t. wcschr sms_gsm7 c \<noteq> None \<Longrightarrow> length (text_septets t) = length t"
  by (induction t) (auto simp: text_septets_def septets_def)

lemma octets_exact:
  assumes "7 * n \<le> 8 * m" "8 * m < 7 * n + (8 :: nat)"
  shows "8 * m \<le> 7 * n \<longleftrightarrow> 8 dvd n"
proof
  assume "8 * m \<le> 7 * n"
  then have "8 * m = 7 * n" using assms(1) by simp
  then have "8 dvd 7 * n" by (metis dvd_triv_left)
  moreover have "coprime 8 (7 :: nat)" by (simp add: coprime_iff_gcd_eq_1 gcd_non_0_nat)
  ultimately show "8 dvd n" by (simp add: coprime_dvd_mult_right_iff)
next
  assume "8 dvd n"
  then obtain k where "n = 8 * k" by (rule dvdE)
  then show "8 * m \<le> 7 * n" using assms(2) by simp
qed

text \<open>The buffer of \<open>sms_encode_text\<close> holds a text of plain characters only when its length is a
  multiple of eight; otherwise at least the terminating NUL is written past it.\<close>

theorem sms_encode_text_buffer:
  assumes "\<forall>c \<in> set t. wcschr sms_gsm7 c \<noteq> None"
  shows "cbuf_ok (sms_wide t) \<longleftrightarrow> 8 dvd length t"
proof -
  obtain bs where b: "cstr (sms_wide t) = take 2 (fmt_02X (int (length (text_septets t)))) @ concat (map fmt_02X bs)"
    "list_all (\<lambda>b. 0 \<le> b \<and> b < 256) bs" "7 * length (text_septets t) \<le> 8 * length bs"
    "8 * length bs < 7 * length (text_septets t) + 8"
    by (rule sms_wide_bytes)
  have n: "length (text_septets t) = length t" using assms by (rule length_text_septets)
  have "length (cstr (sms_wide t)) = 2 + 2 * length bs"
    by (simp only: b(1) length_append length_take_fmt_02X length_hex_bytes [OF b(2)])
  then have "cbuf_ok (sms_wide t) \<longleftrightarrow> 2 + 2 * length bs < length t * 7 div 4 + 3"
    by (simp add: cbuf_ok_def) (simp add: sms_wide_def Let_def)
  also have "\<dots> \<longleftrightarrow> 8 * length bs \<le> 7 * length t"
    by (simp add: less_Suc_eq_le less_eq_div_iff_mult_less_eq mult.commute)
  also have "\<dots> \<longleftrightarrow> 8 dvd length t" using b(3, 4) unfolding n by (rule octets_exact)
  finally show ?thesis .
qed

theorem sms_encode_text_buffer_witness: "\<not> cbuf_ok (sms_wide [0x54, 0x65, 0x73])"
  using sms_encode_text_buffer [of "[0x54, 0x65, 0x73]"] by (auto simp: sms_gsm7_def dest: dvd_imp_le)

text \<open>Numbers: the encoding of a telephone number without the letter F reads back as the number,
  international ones with their plus sign, and fits its buffer.\<close>

theorem sms_encode_number_roundtrip:
  assumes "CHR ''F'' \<notin> set number"
  shows "decode_number (cstr (sms_encode_number number)) = number \<and> cbuf_ok (sms_encode_number number)"
proof (cases "starts_with number (CHR ''+'')")
  case True
  then obtain n where "number = CHR ''+'' # n" by (cases number) auto
  then show ?thesis using assms
    by (simp add: sms_encode_number_def decode_number_def unswap_swap cbuf_ok_def length_swap_pairs Let_def)
next
  case False
  then show ?thesis using assms
    by (simp add: sms_encode_number_def decode_number_def unswap_swap cbuf_ok_def length_swap_pairs Let_def)
qed

theorem sms_encode_number_roundtrip_witness:
  "decode_number (cstr (sms_encode_number ''+49172123456'')) = ''+49172123456'' \<and>
   cbuf_ok (sms_encode_number ''+49172123456'')"
  by (rule sms_encode_number_roundtrip) simp

text \<open>The character table differs from the GSM 7 bit alphabet: \<open>i\<close> is sent as the code of
  \<open>Z\<close>, \<open>Z\<close> is dropped, \<open>G\<close> and \<open>H\<close> are exchanged, u with diaeresis is sent as the code of o with
  diaeresis and that letter is dropped.\<close>

theorem sms_table_errors:
  "map septets [0x69, 0x5A, 0x47, 0x48, 0xFC, 0xF6] = [[0x5A], [], [0x48], [0x47], [0x7C], []]"
  by code_simp

text \<open>The vectors of \<^verbatim>\<open>tests/check_sms.c\<close>.\<close>

lemma sms_vectors:
  "cstr (sms_encode_number ''+49172123456'') = ''919471123254F6''"
  "cstr (sms_encode_number ''1212'') = ''812121''"
  by (simp_all add: sms_encode_number_def Let_def)

lemma sms_text_vector:
  "cstr (sms_wide (map ccode ''Re test'')) = ''07D232885E9ED301''"
  by code_simp

end
