(* ===== verification/MP_Net.thy ===== *)
theory MP_Net
  imports MP_Args
begin

text \<open>
  \<^verbatim>\<open>lib/mp_net.c\<close>: name resolution, connecting, the Internet checksum and reading lines from a
  socket.

  The resolver and the socket calls are parameters. The data a socket delivers is a list of chunks,
  the results of the successive \<open>recv\<close> calls; when it is used up \<open>recv\<close> returns 0 for ever.
\<close>

section \<open>Connecting\<close>

text \<open>\<open>getnameinfo\<close> gives the name or an error text.\<close>

definition mp_ip2str :: "('a \<Rightarrow> string + string) \<Rightarrow> 'a \<Rightarrow> string" where
  "mp_ip2str getnameinfo sa = (case getnameinfo sa of Inl err \<Rightarrow> err | Inr hostname \<Rightarrow> hostname)"

definition mp_getaddrinfo ::
    "bool \<Rightarrow> (string \<Rightarrow> string \<Rightarrow> int \<Rightarrow> int \<Rightarrow> 'a list option) \<Rightarrow> string \<Rightarrow> int \<Rightarrow> int \<Rightarrow> int \<Rightarrow> mp_globals
     \<Rightarrow> mp_end + 'a list" where
  "mp_getaddrinfo use_ipv6 getaddrinfo hostname port family typ g =
     (case getaddrinfo hostname (take 5 (fmt_d port)) (if use_ipv6 then family else AF_INET) typ of
        None \<Rightarrow> Inl (unknown (''Can'' @ [CHR 0x27] @ ''t resolv '' @ hostname) g)
      | Some result \<Rightarrow> Inr result)"

text \<open>The loop over the addresses: the descriptor that is connected, with the descriptors closed on
  the way and the state after the verbose output.\<close>

fun connect_loop ::
    "('a \<Rightarrow> string) \<Rightarrow> ('a \<Rightarrow> int) \<Rightarrow> (int \<Rightarrow> 'a \<Rightarrow> int) \<Rightarrow> 'a list \<Rightarrow> int list \<Rightarrow> mp_globals
     \<Rightarrow> int option \<times> int list \<times> mp_globals" where
  "connect_loop name socket connect [] cls g = (None, cls, g)"
| "connect_loop name socket connect (rp # rps) cls g =
     (let g = (if 1 \<le> mp_verbose g then mp_print (''Connect to '' @ name rp @ nl) g else g);
          sd = socket rp
      in if sd = -1 then connect_loop name socket connect rps cls g
         else if connect sd rp \<noteq> -1 then (Some sd, cls, g)
         else connect_loop name socket connect rps (cls @ [sd]) g)"

definition mp_connect ::
    "bool \<Rightarrow> (string \<Rightarrow> string \<Rightarrow> int \<Rightarrow> int \<Rightarrow> 'a list option) \<Rightarrow> ('a \<Rightarrow> string + string) \<Rightarrow> ('a \<Rightarrow> int) \<Rightarrow>
     (int \<Rightarrow> 'a \<Rightarrow> int) \<Rightarrow> string \<Rightarrow> int \<Rightarrow> int \<Rightarrow> int \<Rightarrow> mp_globals \<Rightarrow> mp_end + int \<times> int list \<times> mp_globals" where
  "mp_connect use_ipv6 getaddrinfo getnameinfo socket connect hostname port family typ g =
     (case mp_getaddrinfo use_ipv6 getaddrinfo hostname port family typ g of
        Inl e \<Rightarrow> Inl e
      | Inr result \<Rightarrow>
          (case connect_loop (mp_ip2str getnameinfo) socket connect result [] g of
             (None, cls, g) \<Rightarrow>
               Inl (critical (''Can'' @ [CHR 0x27] @ ''t connect to '' @ hostname @ '':'' @ fmt_d port) g)
           | (Some sd, cls, g) \<Rightarrow> Inr (sd, cls, g)))"

section \<open>Checksum\<close>

text \<open>
  The sum is a signed 32 bit integer; \<open>>> 16\<close> on it is division rounding down and \<open>& 0xFFFF\<close> the
  remainder, also for negative values. The loop reads one 16 bit word for every two bytes.
\<close>

definition mp_ip_csum :: "16 word list \<Rightarrow> int \<Rightarrow> 16 word" where
  "mp_ip_csum ws len =
     (let sum = fold (\<lambda>w s. to_int32 (s + uint w)) (take (nat ((len + 1) div 2)) ws) 0;
          sum = to_int32 (sum div 2 ^ 16 + sum mod 2 ^ 16);
          sum = to_int32 (sum + sum div 2 ^ 16)
      in word_of_int (- sum - 1))"

section \<open>Reading lines\<close>

definition opt_str :: "string option \<Rightarrow> string" where
  "opt_str p = (case p of None \<Rightarrow> [] | Some s \<Rightarrow> s)"

fun recv_fill :: "string \<Rightarrow> string option \<Rightarrow> string list \<Rightarrow> (string option \<times> string \<times> string list) option" where
  "recv_fill buf line [] = (if newline \<in> set buf then Some (line, buf, []) else None)"
| "recv_fill buf line (c # cs) =
     (if newline \<in> set buf then Some (line, buf, c # cs)
      else recv_fill c (if buf \<noteq> [] then Some (opt_str line @ buf) else line) cs)"

datatype recv_result =
    NoLine
  | Underrun string "string list"
  | Line string string "string list"

text \<open>
  \<open>NoLine\<close>: the loop does not end. \<open>Underrun\<close>: the line is empty and \<open>line[len-1]\<close> is the byte in
  front of it. Otherwise the line, the new buffer and the chunks not received yet.
\<close>

definition mp_recv_line :: "string option \<Rightarrow> string list \<Rightarrow> recv_result" where
  "mp_recv_line buffer chunks =
     (case recv_fill (opt_str buffer) None chunks of
        None \<Rightarrow> NoLine
      | Some (line, buf, chunks) \<Rightarrow>
          let (part, rest) = strsep [newline] buf;
              line = opt_str line @ part;
              buf = the rest
          in if line = [] then Underrun buf chunks
             else if last line = CHR 0x0D then Line (butlast line) buf chunks
             else Line line buf chunks)"

section \<open>Lemmas\<close>

lemma opt_str_simps [simp]: "opt_str None = []" "opt_str (Some s) = s"
  by (simp_all add: opt_str_def)

lemma recv_fill_split:
  "recv_fill buf line chunks = Some (line', buf', chunks') \<Longrightarrow>
   opt_str line' @ buf' @ concat chunks' = opt_str line @ buf @ concat chunks \<and> newline \<in> set buf' \<and>
   (newline \<notin> set (opt_str line) \<longrightarrow> newline \<notin> set (opt_str line'))"
proof (induction buf line chunks rule: recv_fill.induct)
  case (2 buf line c cs)
  show ?case
  proof (cases "newline \<in> set buf")
    case True
    then show ?thesis using "2.prems" by auto
  next
    case False
    then show ?thesis using 2 by (cases "buf = []") simp_all
  qed
qed (auto split: if_splits)

lemma recv_fill_total:
  "newline \<in> set (buf @ concat chunks) \<Longrightarrow> recv_fill buf line chunks \<noteq> None"
proof (induction buf line chunks rule: recv_fill.induct)
  case (2 buf line c cs)
  then show ?case by (cases "newline \<in> set buf") (simp_all del: bex_simps)
qed (auto split: if_splits)

lemma first_newline_unique:
  assumes "a @ newline # r = b @ newline # s" "newline \<notin> set a" "newline \<notin> set b"
  shows "a = b \<and> r = s"
  using assms by (induction a arbitrary: b) (case_tac b; auto)+

definition chomp :: "string \<Rightarrow> string" where
  "chomp l = (if last l = CHR 0x0D then butlast l else l)"

section \<open>Properties\<close>

text \<open>A connection as a source of lines: what a client may rely on.\<close>

locale line_source =
  fixes read :: "'s \<Rightarrow> (string \<times> 's) option"
    and pending :: "'s \<Rightarrow> string"
  assumes read_next: "pending s = l @ newline # rest \<Longrightarrow> newline \<notin> set l \<Longrightarrow> l \<noteq> [] \<Longrightarrow>
      \<exists>s'. read s = Some (chomp l, s') \<and> pending s' = rest"
begin

fun read_lines :: "nat \<Rightarrow> 's \<Rightarrow> (string list \<times> 's) option" where
  "read_lines 0 s = Some ([], s)"
| "read_lines (Suc n) s =
     (case read s of
        None \<Rightarrow> None
      | Some (l, s) \<Rightarrow> map_option (\<lambda>(ls, s). (l # ls, s)) (read_lines n s))"

lemma read_all:
  assumes "pending s = concat (map (\<lambda>l. l @ [newline]) ls) @ rest" "\<forall>l \<in> set ls. newline \<notin> set l \<and> l \<noteq> []"
  shows "\<exists>s'. read_lines (length ls) s = Some (map chomp ls, s') \<and> pending s' = rest"
  using assms
proof (induction ls arbitrary: s)
  case (Cons l ls)
  then obtain s1 where "read s = Some (chomp l, s1)" "pending s1 = concat (map (\<lambda>l. l @ [newline]) ls) @ rest"
    using read_next [of s l "concat (map (\<lambda>l. l @ [newline]) ls) @ rest"] by auto
  with Cons.IH [of s1] Cons.prems(2) show ?case by auto
qed simp

end

lemma recv_line_next:
  assumes "opt_str buffer @ concat chunks = l @ newline # rest"
    "newline \<notin> set l" "l \<noteq> []"
  shows "\<exists>buf chunks'. mp_recv_line buffer chunks = Line (chomp l) buf chunks' \<and> buf @ concat chunks' = rest"
proof -
  let ?b = "opt_str buffer"
  obtain line buf cs where f: "recv_fill ?b None chunks = Some (line, buf, cs)"
    using recv_fill_total [of ?b chunks None] assms(1) by fastforce
  let ?l = "opt_str line"
  have s: "?l @ buf @ concat cs = ?b @ concat chunks" "newline \<in> set buf" "newline \<notin> set ?l"
    using recv_fill_split [OF f] by simp_all
  show ?thesis
  proof (cases rule: strsep_cases [of "[newline]" buf])
    case none
    then show ?thesis using s(2) by auto
  next
    case (hit a c r)
    have "(?l @ a) @ newline # (r @ concat cs) = l @ newline # rest"
      using s(1) assms(1) hit(2, 3) by simp
    moreover have "newline \<notin> set (?l @ a)" using s(3) hit(4) by auto
    ultimately have "?l @ a = l" "r @ concat cs = rest"
      using first_newline_unique [of "?l @ a" "r @ concat cs" l rest] assms(2) by auto
    then show ?thesis using f hit(1) assms(3) by (auto simp: mp_recv_line_def chomp_def Let_def)
  qed
qed

definition conn_read :: "string option \<times> string list \<Rightarrow> (string \<times> string option \<times> string list) option" where
  "conn_read c =
     (case mp_recv_line (fst c) (snd c) of Line l buf chunks \<Rightarrow> Some (l, Some buf, chunks) | _ \<Rightarrow> None)"

definition conn_pending :: "string option \<times> string list \<Rightarrow> string" where
  "conn_pending c = opt_str (fst c) @ concat (snd c)"

interpretation conn: line_source conn_read conn_pending
proof
  fix s l rest
  assume "conn_pending s = l @ newline # rest" "newline \<notin> set l" "l \<noteq> []"
  from recv_line_next [OF this [unfolded conn_pending_def]]
  show "\<exists>s'. conn_read s = Some (chomp l, s') \<and> conn_pending s' = rest"
    by (auto simp: conn_read_def conn_pending_def)
qed

text \<open>C6: \<open>mp_recv_line\<close> does not depend on how the data is cut into packets: if the buffered data
  and the data to come start with a line that is not empty, the call returns it without a carriage
  return at its end, and what is buffered and to come afterwards is exactly what follows the line.\<close>

theorem mp_recv_line_stream:
  assumes "opt_str buffer @ concat chunks = l @ newline # rest"
    "newline \<notin> set l" "l \<noteq> []"
  shows "\<exists>buf chunks'. mp_recv_line buffer chunks = Line (chomp l) buf chunks' \<and> buf @ concat chunks' = rest"
  using assms by (rule recv_line_next)

theorem mp_recv_line_stream_witness:
  "\<exists>buf chunks'. mp_recv_line None [''+PO'', ''NG'' @ [CHR 0x0D], [newline] @ ''x''] =
      Line (chomp (''+PONG'' @ [CHR 0x0D])) buf chunks' \<and> buf @ concat chunks' = ''x''"
  by (rule mp_recv_line_stream) (simp_all add: newline_def)

text \<open>A connection that ends before the end of a line leaves \<open>mp_recv_line\<close> in its loop: \<open>recv\<close>
  returns 0, which is not tested.\<close>

theorem mp_recv_line_eof:
  assumes "newline \<notin> set (opt_str buffer @ concat chunks)"
  shows "mp_recv_line buffer chunks = NoLine"
proof -
  have "recv_fill b line chunks = None" if "newline \<notin> set (b @ concat chunks)" for b line
    using that by (induction b line chunks rule: recv_fill.induct) auto
  then show ?thesis using assms by (simp add: mp_recv_line_def)
qed

theorem mp_recv_line_eof_witness: "mp_recv_line (Some ''+PO'') [''NG''] = NoLine"
  by (rule mp_recv_line_eof) (simp add: newline_def)

text \<open>The sum of the words and its folding to 16 bits.\<close>

lemma uint16_range: "0 \<le> uint (w :: 16 word)" "uint (w :: 16 word) \<le> 65535"
  using uint_bounded [of w] by simp_all

lemma csum_sum:
  fixes ws :: "16 word list"
  assumes "length ws \<le> 32768" "0 \<le> s" "s + 65535 * int (length ws) < 2 ^ 31"
  shows "fold (\<lambda>w s. to_int32 (s + uint w)) ws s = s + sum_list (map uint ws)"
  using assms
proof (induction ws arbitrary: s)
  case (Cons w ws)
  have w: "0 \<le> uint w" "uint w \<le> 65535" by (rule uint16_range)+
  have "s + 65535 + 65535 * int (length ws) < 2147483648" using Cons.prems(3) by simp
  then have "INT_MIN \<le> s + uint w" "s + uint w \<le> INT_MAX"
    using Cons.prems(2) w unfolding INT_MIN_def INT_MAX_def by linarith+
  then have "to_int32 (s + uint w) = s + uint w" by (rule to_int32_id)
  moreover have "fold (\<lambda>w s. to_int32 (s + uint w)) ws (s + uint w) = s + uint w + sum_list (map uint ws)"
    using Cons.prems w by (intro Cons.IH) simp_all
  ultimately show ?case by simp
qed simp

definition fold16 :: "int \<Rightarrow> int" where
  "fold16 s = (let t = s div 2 ^ 16 + s mod 2 ^ 16 in (t + t div 2 ^ 16) mod 2 ^ 16)"

lemma fold16_facts:
  assumes "0 \<le> s" "s < 2 ^ 31"
  shows "0 \<le> fold16 s" "fold16 s \<le> 65535" "fold16 s mod 65535 = s mod 65535" "fold16 s = 0 \<longleftrightarrow> s = 0"
proof -
  define h where "h = s div 65536"
  define l where "l = s mod 65536"
  have s: "s = h * 65536 + l" by (simp add: h_def l_def)
  have h: "0 \<le> h" "h < 32768" "0 \<le> l" "l < 65536" using assms by (auto simp: h_def l_def)
  have f: "fold16 s = (if h + l < 65536 then h + l else h + l - 65535)"
  proof (cases "h + l < 65536")
    case True
    then show ?thesis using h by (simp add: fold16_def Let_def h_def [symmetric] l_def [symmetric])
  next
    case False
    then have "(h + l) div 65536 = 1" using h by simp
    moreover have "(h + l + 1) mod 65536 = h + l + 1 - 65536"
      using False h minus_mod_self2 [of "h + l + 1" 65536] mod_pos_pos_trivial [of "h + l + 1 - 65536" 65536]
      by linarith
    ultimately show ?thesis
      using False by (simp add: fold16_def Let_def h_def [symmetric] l_def [symmetric])
  qed
  show "0 \<le> fold16 s" "fold16 s \<le> 65535" "fold16 s = 0 \<longleftrightarrow> s = 0"
    using h s f by (auto split: if_splits)
  have "s = (h + l) + h * 65535" using s by simp
  then have "s mod 65535 = (h + l) mod 65535" by (metis mod_mult_self1)
  moreover have "(h + l - 65535) mod 65535 = (h + l) mod 65535" by simp
  ultimately show "fold16 s mod 65535 = s mod 65535" using f by simp
qed

lemma sum_uint_range:
  "0 \<le> sum_list (map uint (ws :: 16 word list))"
  "sum_list (map uint (ws :: 16 word list)) \<le> 65535 * int (length ws)"
proof (induction ws)
  case (Cons w ws)
  case 1 then show ?case using Cons uint16_range(1) [of w] by simp
  case 2 then show ?case using Cons uint16_range(2) [of w] by simp
qed simp_all

lemma csum_fold16:
  assumes "length ws \<le> 32768" "len = 2 * int (length ws)"
  shows "mp_ip_csum ws len = word_of_int (65535 - fold16 (sum_list (map uint ws)))"
proof -
  define S where "S = sum_list (map uint ws)"
  have S: "0 \<le> S" "S < 2 ^ 31"
    using sum_uint_range [of ws] assms(1) by (simp_all add: S_def)
  have f: "fold (\<lambda>w s. to_int32 (s + uint w)) ws 0 = S"
    using csum_sum [OF assms(1), of 0] assms(1) by (simp add: S_def)
  define t where "t = S div 65536 + S mod 65536"
  have t: "0 \<le> t" "t < 2 ^ 18" using S by (auto simp: t_def)
  have r: "to_int32 t = t" "to_int32 (t + t div 65536) = t + t div 65536"
    using t by (auto intro!: to_int32_id simp: INT_MIN_def INT_MAX_def)
  define u where "u = t + t div 65536"
  have "nat ((len + 1) div 2) = length ws" using assms(2) by simp
  then have c: "mp_ip_csum ws len = word_of_int (- u - 1)"
    using f r by (simp add: mp_ip_csum_def Let_def t_def [symmetric] u_def [symmetric])
  have "(- u - 1) mod 2 ^ 16 = (65535 - u mod 2 ^ 16) mod 2 ^ 16"
  proof -
    have "65535 - u mod 65536 = (- u - 1) + (1 + u div 65536) * 65536"
      using div_mult_mod_eq [of u 65536] by (simp add: algebra_simps)
    then have "(65535 - u mod 65536) mod 65536 = (- u - 1) mod 65536" by (simp only: mod_mult_self1)
    then show ?thesis by simp
  qed
  then have "word_of_int (- u - 1) = (word_of_int (65535 - u mod 2 ^ 16) :: 16 word)"
    unfolding word_of_int_eq_iff take_bit_eq_mod by simp
  moreover have "u mod 2 ^ 16 = fold16 S" by (simp add: fold16_def Let_def t_def u_def)
  ultimately show ?thesis using c by (simp add: S_def)
qed

lemma fold16_complement:
  assumes "0 \<le> S" "S + 65535 < 2 ^ 31"
  shows "fold16 (S + (65535 - fold16 S)) = 65535"
proof -
  have S: "0 \<le> S" "S < 2 ^ 31" using assms by simp_all
  note f = fold16_facts [OF S]
  define T where "T = S + (65535 - fold16 S)"
  have T: "0 \<le> T" "T < 2 ^ 31" "0 < T"
    using assms f by (auto simp: T_def)
  note g = fold16_facts [OF T(1, 2)]
  have "65535 dvd S - fold16 S" using f(3) by (metis mod_eq_dvd_iff)
  then have "65535 dvd (S - fold16 S) + 65535" by (intro dvd_add) simp_all
  moreover have "T = (S - fold16 S) + 65535" by (simp add: T_def)
  ultimately have "fold16 T mod 65535 = 0" "fold16 T \<noteq> 0" using g T(3) by auto
  then have "fold16 T = 65535"
    using g(1, 2) by (metis antisym_conv2 less_irrefl mod_pos_pos_trivial)
  then show ?thesis by (simp add: T_def)
qed

lemma csum_in_place:
  assumes "length us + length vs < 32767" "len = 2 * int (length us + length vs + 1)"
  shows "mp_ip_csum (us @ mp_ip_csum (us @ 0 # vs) len # vs) len = 0"
proof -
  define S where "S = sum_list (map uint (us @ 0 # vs))"
  let ?c = "mp_ip_csum (us @ 0 # vs) len"
  have "S \<le> 65535 * int (length us + length vs)"
    using sum_uint_range(2) [of us] sum_uint_range(2) [of vs] by (simp add: S_def algebra_simps)
  then have S: "0 \<le> S" "S + 65535 < 2 ^ 31"
    using sum_uint_range(1) [of "us @ 0 # vs"] assms(1) by (simp_all add: S_def)
  have S2: "S < 2 ^ 31" using S by simp
  note f = fold16_facts [OF S(1) S2]
  have "?c = word_of_int (65535 - fold16 S)"
    using csum_fold16 [of "us @ 0 # vs" len] assms by (simp add: S_def)
  then have "uint ?c = (65535 - fold16 S) mod 2 ^ 16" by (simp only: uint_word_of_int) simp
  then have c: "uint ?c = 65535 - fold16 S" using f(1, 2) by simp
  have "mp_ip_csum (us @ ?c # vs) len = word_of_int (65535 - fold16 (sum_list (map uint (us @ ?c # vs))))"
    using assms by (intro csum_fold16) simp_all
  moreover have "sum_list (map uint (us @ ?c # vs)) = S + (65535 - fold16 S)"
    using c by (simp add: S_def)
  ultimately show ?thesis using fold16_complement [OF S] by simp
qed

text \<open>C8: The Internet checksum verifies: when the checksum of a packet is computed with its checksum field
  zero, wherever that field is, and then stored in the field, the checksum of the packet is 0, for
  every packet of up to 65534 bytes.\<close>

theorem mp_ip_csum_verifies:
  assumes "length us + length vs < 32767" "len = 2 * int (length us + length vs + 1)"
  shows "mp_ip_csum (us @ mp_ip_csum (us @ 0 # vs) len # vs) len = 0"
  using assms by (rule csum_in_place)

theorem mp_ip_csum_verifies_witness:
  "mp_ip_csum ([0x4500, 0x003c] @ mp_ip_csum ([0x4500, 0x003c] @ 0 # [0xFFFF]) 8 # [0xFFFF]) 8 = 0"
  by (rule mp_ip_csum_verifies) simp_all

definition tries :: "('a \<Rightarrow> int) \<Rightarrow> (int \<Rightarrow> 'a \<Rightarrow> int) \<Rightarrow> 'a \<Rightarrow> bool" where
  "tries socket connect a \<longleftrightarrow> socket a \<noteq> -1 \<and> connect (socket a) a \<noteq> -1"

lemma connect_loop_spec:
  "fst (connect_loop name socket connect rps cls g) =
     map_option socket (List.find (tries socket connect) rps) \<and>
   fst (snd (connect_loop name socket connect rps cls g)) =
     cls @ filter (\<lambda>sd. sd \<noteq> -1) (map socket (takeWhile (\<lambda>a. \<not> tries socket connect a) rps))"
  by (induction name socket connect rps cls g rule: connect_loop.induct) (auto simp: Let_def tries_def)

text \<open>\<open>mp_connect\<close> returns the descriptor of the first address whose socket and connection succeed,
  after closing the descriptor of every address it tried without success; when there is none it ends
  with CRITICAL.\<close>

theorem mp_connect_first:
  assumes "getaddrinfo hostname (fmt_d port) (if v6 then family else AF_INET) typ = Some as"
    "length (fmt_d port) < 6" "List.find (tries socket connect) as = Some a"
  shows "\<exists>g'. mp_connect v6 getaddrinfo getnameinfo socket connect hostname port family typ g =
    Inr (socket a, filter (\<lambda>sd. sd \<noteq> -1) (map socket (takeWhile (\<lambda>a. \<not> tries socket connect a) as)), g')"
proof -
  obtain r cls g' where l: "connect_loop (mp_ip2str getnameinfo) socket connect as [] g = (r, cls, g')"
    by (cases "connect_loop (mp_ip2str getnameinfo) socket connect as [] g") auto
  then show ?thesis
    using connect_loop_spec [of "mp_ip2str getnameinfo" socket connect as "[]" g] assms
    by (simp add: mp_connect_def mp_getaddrinfo_def mp_snprintf_def)
qed

theorem mp_connect_first_witness:
  "\<exists>g'. mp_connect True (\<lambda>h s f t. Some [1, 2, 3]) (\<lambda>_. Inl []) (\<lambda>a. if a = 1 then -1 else a + 10)
      (\<lambda>sd a. if a = (2 :: int) then -1 else 0) ''host'' 80 0 1 (mp_init [] [] [] [] []) =
    Inr (13, [12], g')"
proof -
  have "length (fmt_d 80) < 6" by code_simp
  then show ?thesis
    using mp_connect_first [of "\<lambda>h s f t. Some [1, 2, 3]" "''host''" 80 True 0 1 "[1, 2, 3]" "\<lambda>a. if a = 1 then -1 else a + 10"
        "\<lambda>sd a. if a = (2 :: int) then -1 else 0" 3 "\<lambda>_. Inl []" "mp_init [] [] [] [] []"]
    by (simp add: tries_def)
qed

end
