(* ===== verification/DHCP_Utils.thy ===== *)
theory DHCP_Utils
  imports MP_Net
begin

text \<open>
  \<^verbatim>\<open>lib/dhcp_utils.c\<close>: building, sending, receiving and reading DHCP packets.

  Bytes are integers from 0 to 255, IPv4 addresses lists of four bytes in network order. The
  options are the memory \<open>opts\<close> points to, with its size the length of the list, and \<open>optlen\<close> the number
  of bytes in use; a read or write outside the memory is a value of its own. Words are stored with the
  low byte first. The traces printed at verbosity 3 and above are not modelled, apart from
  \<open>mp_dhcp_pkt_dump\<close>.
\<close>

section \<open>Packets\<close>

record dhcp_pkt =
  op :: int
  htype :: int
  hlen :: int
  hops :: int
  xid :: int
  secs :: int
  flags :: int
  ciaddr :: "int list"
  yiaddr :: "int list"
  siaddr :: "int list"
  giaddr :: "int list"
  chaddr :: "int list"
  sname :: string
  bootfile :: string
  opts :: "int list"
  optlen :: int

definition BOOTREQUEST :: int where "BOOTREQUEST = 1"
definition BOOTREPLY :: int where "BOOTREPLY = 2"
definition DHCPOPT_Pad :: int where "DHCPOPT_Pad = 0"
definition DHCPOPT_Subnetmask :: int where "DHCPOPT_Subnetmask = 1"
definition DHCPOPT_Router :: int where "DHCPOPT_Router = 3"
definition DHCPOPT_DNS :: int where "DHCPOPT_DNS = 6"
definition DHCPOPT_Hostname :: int where "DHCPOPT_Hostname = 12"
definition DHCPOPT_Broadcast :: int where "DHCPOPT_Broadcast = 28"
definition DHCPOPT_RequestIP :: int where "DHCPOPT_RequestIP = 50"
definition DHCPOPT_MessageType :: int where "DHCPOPT_MessageType = 53"
definition DHCPOPT_ServerId :: int where "DHCPOPT_ServerId = 54"
definition DHCPOPT_Class :: int where "DHCPOPT_Class = 60"
definition DHCPOPT_End :: int where "DHCPOPT_End = 255"
definition DHCPDISCOVER :: int where "DHCPDISCOVER = 1"
definition DHCPOFFER :: int where "DHCPOFFER = 2"
definition DHCPREQUEST :: int where "DHCPREQUEST = 3"
definition DHCPACK :: int where "DHCPACK = 5"
definition DHCPNAK :: int where "DHCPNAK = 6"
definition DHCPMINOPTLEN :: int where "DHCPMINOPTLEN = 312"

lemmas dhcpopt_defs = DHCPOPT_Pad_def DHCPOPT_Subnetmask_def DHCPOPT_Router_def DHCPOPT_DNS_def
  DHCPOPT_Hostname_def DHCPOPT_Broadcast_def DHCPOPT_RequestIP_def DHCPOPT_MessageType_def
  DHCPOPT_ServerId_def DHCPOPT_Class_def DHCPOPT_End_def

definition magickcookie :: "int list" where "magickcookie = [0x63, 0x82, 0x53, 0x63]"

definition mp_dhcp_message_types :: "string list" where
  "mp_dhcp_message_types =
     [[], ''Discover'', ''Offer'', ''Request'', ''Decline'', ''Ack'', ''Nak'', ''Release'', ''Inform'']"

definition inet_ntoa :: "int list \<Rightarrow> string" where
  "inet_ntoa a = join_with ''.'' (map fmt_d a)"

section \<open>Options\<close>

text \<open>A store of several bytes; the source's sizes make room for it.\<close>

definition put_bytes :: "int list \<Rightarrow> int \<Rightarrow> int list \<Rightarrow> int list" where
  "put_bytes m i bs = take (nat i) m @ bs @ drop (nat i + length bs) m"

definition mp_dhcp_pkt_opt :: "int \<Rightarrow> int \<Rightarrow> int list \<Rightarrow> dhcp_pkt \<Rightarrow> dhcp_pkt" where
  "mp_dhcp_pkt_opt code len data pkt =
     (let pkt = (if optlen pkt = 0
                 then pkt\<lparr>opts := replicate (nat (len + 3)) 0, optlen := 1\<rparr>
                 else pkt\<lparr>opts := take (nat (optlen pkt + len + 2)) (opts pkt) @
                        replicate (nat (optlen pkt + len + 2) - length (opts pkt)) 0\<rparr>);
          pkt = pkt\<lparr>opts := put_bytes (opts pkt) (optlen pkt - 1) [code]\<rparr>;
          pkt = (if len \<noteq> 0
                 then pkt\<lparr>opts := put_bytes (put_bytes (opts pkt) (optlen pkt) [len]) (optlen pkt + 1) data,
                          optlen := optlen pkt + 2 + len\<rparr>
                 else pkt)
      in pkt\<lparr>opts := put_bytes (opts pkt) (optlen pkt - 1) [DHCPOPT_End]\<rparr>)"

datatype opt_result = Found nat | NotFound | OutOfBounds

text \<open>The search: the position of the option. The loop ends because the position grows.\<close>

function getopt_loop :: "int list \<Rightarrow> int \<Rightarrow> int \<Rightarrow> nat \<Rightarrow> opt_result" where
  "getopt_loop m n code i =
     (if n \<le> int i then NotFound
      else if length m \<le> i then OutOfBounds
      else if m ! i = code then Found i
      else if m ! i = DHCPOPT_Pad then getopt_loop m n code (Suc i)
      else if m ! i = DHCPOPT_End then NotFound
      else if length m \<le> Suc i then OutOfBounds
      else getopt_loop m n code (i + 2 + nat (m ! Suc i)))"
  by pat_completeness auto
termination by (relation "measure (\<lambda>(m, n, code, i). length m - i)") auto

declare getopt_loop.simps [simp del]

definition mp_dhcp_pkt_getopt :: "dhcp_pkt \<Rightarrow> int \<Rightarrow> opt_result" where
  "mp_dhcp_pkt_getopt pkt code =
     (if optlen pkt = 0 then NotFound else getopt_loop (opts pkt) (optlen pkt) code 0)"

section \<open>Sending\<close>

definition le16 :: "int \<Rightarrow> int list" where "le16 x = [x mod 256, x div 256 mod 256]"
definition be16 :: "int \<Rightarrow> int list" where "be16 x = [x div 256 mod 256, x mod 256]"
definition le32 :: "int \<Rightarrow> int list" where
  "le32 x = [x mod 256, x div 2 ^ 8 mod 256, x div 2 ^ 16 mod 256, x div 2 ^ 24 mod 256]"

definition pad_bytes :: "nat \<Rightarrow> string \<Rightarrow> int list" where
  "pad_bytes n s = take n (map ccode s @ replicate n 0)"

text \<open>The first 236 bytes of the struct.\<close>

definition pkt_bytes :: "dhcp_pkt \<Rightarrow> int list" where
  "pkt_bytes p = [op p, htype p, hlen p, hops p] @ le32 (xid p) @ le16 (secs p) @ le16 (flags p) @
     ciaddr p @ yiaddr p @ siaddr p @ giaddr p @ chaddr p @ pad_bytes 64 (sname p) @ pad_bytes 128 (bootfile p)"

definition words :: "int list \<Rightarrow> 16 word list" where
  "words bs = map (\<lambda>i. word_of_int (bs ! (2 * i) + 256 * bs ! (2 * i + 1))) [0..<length bs div 2]"

text \<open>
  The headers of a broadcast packet. \<open>bzero(buf, sizeof( *buf))\<close> clears a single byte, so the identification
  of the IP header and the checksum of the UDP header keep what the allocation held (\<open>junk\<close>).
\<close>

definition ip_header :: "int list \<Rightarrow> int list \<Rightarrow> int list \<Rightarrow> int \<Rightarrow> int list \<Rightarrow> int list" where
  "ip_header ident src dst len csum =
     [0x45, 0] @ be16 len @ ident @ [0, 0, 20, 17] @ csum @ src @ dst"

definition dhcp_ip_len :: "dhcp_pkt \<Rightarrow> int" where
  "dhcp_ip_len p = to_uint16 (20 + 8 + 236 + (if 0 < optlen p then optlen p + 4 else 0))"

definition dhcp_headers ::
    "int list \<Rightarrow> dhcp_pkt \<Rightarrow> int list \<times> int list \<Rightarrow> int list \<times> int list \<Rightarrow> int list" where
  "dhcp_headers junk p from to =
     (let len = dhcp_ip_len p;
          ident = take 2 (drop 18 junk);
          csum = le16 (uint (mp_ip_csum (words (ip_header ident (fst from) (fst to) len [0, 0])) 20))
      in replicate 6 0xFF @ take 6 (chaddr p) @ [8, 0] @
         ip_header ident (fst from) (fst to) len csum @
         snd from @ snd to @ be16 (len - 20) @ take 2 (drop 40 junk))"

text \<open>The bytes handed to \<open>sendmsg\<close>, whose result is a parameter.\<close>

definition mp_dhcp_send ::
    "(int list \<Rightarrow> int) \<Rightarrow> int \<Rightarrow> int list \<Rightarrow> dhcp_pkt \<Rightarrow> int list \<times> int list \<Rightarrow> int list \<times> int list \<Rightarrow> bool
     \<Rightarrow> int" where
  "mp_dhcp_send sendmsg raw_socket junk pkt from to unicast =
     (if \<not> unicast \<and> raw_socket < 0 then -1
      else sendmsg ((if unicast then [] else dhcp_headers junk pkt from to) @ pkt_bytes pkt @
             (if 0 < optlen pkt then magickcookie @ take (nat (optlen pkt)) (opts pkt) else [])))"

section \<open>Receiving\<close>

text \<open>The options of a received packet: \<open>None\<close> is a read outside the buffer, otherwise whether an end
  option is reached.\<close>

function opts_end :: "int list \<Rightarrow> int \<Rightarrow> nat \<Rightarrow> bool option" where
  "opts_end m n i =
     (if n \<le> int i then Some False
      else if length m \<le> i then None
      else if m ! i = DHCPOPT_Pad then opts_end m n (Suc i)
      else if m ! i = DHCPOPT_End then Some True
      else if length m \<le> Suc i then None
      else opts_end m n (i + 2 + nat (m ! Suc i)))"
  by pat_completeness auto
termination by (relation "measure (\<lambda>(m, n, i). length m - i)") auto

declare opts_end.simps [simp del]

datatype dhcp_recv = RecvError | Recv dhcp_pkt "int list" int

datatype recv_verdict = Accept dhcp_pkt | Drop | BadRead

text \<open>What is done with one datagram: the packet, the cookie and the length \<open>recvmsg\<close> returned.\<close>

definition recv_check :: "int \<Rightarrow> dhcp_pkt \<Rightarrow> int list \<Rightarrow> int \<Rightarrow> recv_verdict" where
  "recv_check tid pkt cookie len =
     (let pkt = pkt\<lparr>optlen := len - 240\<rparr>
      in if op pkt \<noteq> BOOTREPLY then Drop
         else if xid pkt \<noteq> tid then Drop
         else if 0 < optlen pkt \<and> cookie \<noteq> magickcookie then Drop
         else if 0 < optlen pkt then
           (case opts_end (opts pkt) (optlen pkt) 0 of
              None \<Rightarrow> BadRead | Some b \<Rightarrow> if b then Accept pkt else Drop)
         else Accept pkt)"

text \<open>The loop over the datagrams; without any more the \<open>select\<close> times out and NULL is returned.\<close>

datatype recv_outcome = RNull "dhcp_recv list" | RPkt dhcp_pkt "dhcp_recv list" | RBad

fun mp_dhcp_recv :: "int \<Rightarrow> dhcp_recv list \<Rightarrow> recv_outcome" where
  "mp_dhcp_recv tid [] = RNull []"
| "mp_dhcp_recv tid (RecvError # rs) = RNull rs"
| "mp_dhcp_recv tid (Recv pkt cookie len # rs) =
     (case recv_check tid pkt cookie len of
        Accept p \<Rightarrow> RPkt p rs
      | Drop \<Rightarrow> mp_dhcp_recv tid rs
      | BadRead \<Rightarrow> RBad)"

section \<open>Dumping\<close>

definition msg_type :: "int \<Rightarrow> string option" where
  "msg_type i = (if 0 \<le> i \<and> i < 9 then Some (mp_dhcp_message_types ! nat i) else None)"

definition opt_addr :: "int list \<Rightarrow> nat \<Rightarrow> string" where
  "opt_addr m i = inet_ntoa (take 4 (drop (i + 2) m))"

definition opt_text :: "int list \<Rightarrow> nat \<Rightarrow> string" where
  "opt_text m i = takeWhile (\<lambda>c. c \<noteq> CHR 0x00) (map char_of (take (nat (m ! Suc i)) (drop (i + 2) m)))"

definition pad3 :: "int \<Rightarrow> string" where
  "pad3 x = replicate (3 - length (fmt_d x)) (CHR '' '') @ fmt_d x"

text \<open>The line printed for the option at a position; \<open>None\<close> where the type table is left.\<close>

definition dump_opt :: "int list \<Rightarrow> nat \<Rightarrow> string option" where
  "dump_opt m i =
     (let c = m ! i
      in if c = DHCPOPT_Subnetmask then Some (''  [Subnetmask] '' @ opt_addr m i)
         else if c = DHCPOPT_Router then Some (''  [Router] '' @ opt_addr m i)
         else if c = DHCPOPT_DNS then Some (''  [Name Server] '' @ opt_addr m i)
         else if c = DHCPOPT_Broadcast then Some (''  [Broadcast] '' @ opt_addr m i)
         else if c = DHCPOPT_Hostname then Some (''  [Host Name] '' @ opt_text m i)
         else if c = DHCPOPT_MessageType
           then map_option (\<lambda>t. ''  [DHCP Type] '' @ t) (msg_type (m ! (i + 2)))
         else if c = DHCPOPT_ServerId then Some (''  [DHCPD ID] '' @ opt_addr m i)
         else if c = DHCPOPT_Class then Some (''  [Client Class] '' @ opt_text m i)
         else Some (''  ['' @ pad3 c @ '':'' @ pad3 (m ! Suc i) @ '']''))"

text \<open>The loop over the options. Its counter is a \<open>uint8_t\<close>: it wraps, and the loop need not end, so
  it takes fuel. \<open>Inl False\<close> is out of fuel, \<open>Inl True\<close> a read outside a table.\<close>

fun dump_loop :: "nat \<Rightarrow> int list \<Rightarrow> int \<Rightarrow> int \<Rightarrow> string list \<Rightarrow> bool + string list" where
  "dump_loop 0 m n i out = Inl False"
| "dump_loop (Suc k) m n i out =
     (if n \<le> i then Inr out
      else if m ! nat i = DHCPOPT_Pad then dump_loop k m n (to_uint8 (i + 1)) (out @ [''  [PAD]''])
      else if m ! nat i = DHCPOPT_End then dump_loop k m n (to_uint8 (n + 1)) (out @ [''  [END]''])
      else case dump_opt m (nat i) of
             None \<Rightarrow> Inl True
           | Some l \<Rightarrow> dump_loop k m n (to_uint8 (i + m ! nat (i + 1) + 2)) (out @ [l]))"

definition fmt_mac :: "int list \<Rightarrow> string" where
  "fmt_mac a = join_with '':'' (map fmt_02X a)"

definition mp_dhcp_pkt_dump :: "nat \<Rightarrow> dhcp_pkt \<Rightarrow> bool + string" where
  "mp_dhcp_pkt_dump fuel pkt =
     (let title = (case mp_dhcp_pkt_getopt pkt DHCPOPT_MessageType of
            Found i \<Rightarrow> map_option (\<lambda>t. ''[DHCP '' @ t @ '']'') (msg_type (opts pkt ! (i + 2)))
          | NotFound \<Rightarrow> Some (if op pkt = BOOTREQUEST then ''[BOOTP Request]'' else ''[BOOTP Reply]'')
          | OutOfBounds \<Rightarrow> None)
      in case title of
           None \<Rightarrow> Inl True
         | Some t \<Rightarrow>
             let head = [t, '' Client Addr: '' @ inet_ntoa (ciaddr pkt),
                   '' Your Addr:   '' @ inet_ntoa (yiaddr pkt),
                   '' Next Server: '' @ inet_ntoa (siaddr pkt),
                   '' Gateway:     '' @ inet_ntoa (giaddr pkt),
                   '' Client MAC:  '' @ fmt_mac (take 6 (chaddr pkt)),
                   '' Servername:  '' @ sname pkt, '' Bootfile:    '' @ bootfile pkt]
             in if 0 < optlen pkt
                then (case dump_loop fuel (opts pkt) (optlen pkt) 0 [] of
                        Inl b \<Rightarrow> Inl b
                      | Inr ls \<Rightarrow> Inr (help_lines (head @ ['' Options:''] @ ls)))
                else Inr (help_lines head))"

section \<open>Lemmas\<close>

text \<open>A list of options and its bytes.\<close>

definition enc_opt :: "int \<times> int list \<Rightarrow> int list" where
  "enc_opt cd = fst cd # int (length (snd cd)) # snd cd"

definition enc_opts :: "(int \<times> int list) list \<Rightarrow> int list" where
  "enc_opts os = concat (map enc_opt os) @ [DHCPOPT_End]"

definition opt_ok :: "int \<times> int list \<Rightarrow> bool" where
  "opt_ok cd \<longleftrightarrow> fst cd \<noteq> DHCPOPT_Pad \<and> fst cd \<noteq> DHCPOPT_End \<and> snd cd \<noteq> [] \<and> length (snd cd) < 256"

definition add_opt :: "int \<times> int list \<Rightarrow> dhcp_pkt \<Rightarrow> dhcp_pkt" where
  "add_opt cd pkt = mp_dhcp_pkt_opt (fst cd) (int (length (snd cd))) (snd cd) pkt"

definition pkt_has :: "dhcp_pkt \<Rightarrow> (int \<times> int list) list \<Rightarrow> bool" where
  "pkt_has pkt os \<longleftrightarrow>
     (if os = [] then optlen pkt = 0
      else opts pkt = enc_opts os \<and> optlen pkt = int (length (opts pkt)))"

lemma put_bytes_at:
  "i = int (length a) \<Longrightarrow> length b = length bs \<Longrightarrow> put_bytes (a @ b @ r) i bs = a @ bs @ r"
  by (simp add: put_bytes_def)

text \<open>The stores of \<open>mp_dhcp_pkt_opt\<close> after the memory is there.\<close>

lemma pkt_opt_stores:
  assumes "d \<noteq> []" "n = int (length m) + 1"
  shows "put_bytes (put_bytes (put_bytes (put_bytes (m @ [x] @ replicate (length d + 2) 0) (n - 1) [c])
      n [int (length d)]) (n + 1) d) (n + 2 + int (length d) - 1) [DHCPOPT_End] =
    m @ enc_opt (c, d) @ [DHCPOPT_End]"
proof -
  have 1: "put_bytes (m @ [x] @ replicate (length d + 2) 0) (n - 1) [c] = (m @ [c]) @ [0] @ replicate (length d + 1) 0"
    using put_bytes_at [of "n - 1" m "[x]" "[c]"] assms(2) by simp
  have 2: "put_bytes ((m @ [c]) @ [0] @ replicate (length d + 1) 0) n [int (length d)] =
      (m @ [c, int (length d)]) @ replicate (length d) 0 @ [0]"
    using put_bytes_at [of n "m @ [c]" "[0]" "[int (length d)]" "replicate (length d + 1) 0"] assms(2)
    by (simp add: replicate_append_same)
  have 3: "put_bytes ((m @ [c, int (length d)]) @ replicate (length d) 0 @ [0]) (n + 1) d =
      (m @ c # int (length d) # d) @ [0] @ []"
    using put_bytes_at [of "n + 1" "m @ [c, int (length d)]" "replicate (length d) 0" d "[0]"] assms(2) by simp
  have 4: "put_bytes ((m @ c # int (length d) # d) @ [0] @ []) (n + 2 + int (length d) - 1) [DHCPOPT_End] =
      m @ enc_opt (c, d) @ [DHCPOPT_End]"
    using put_bytes_at [of "n + 2 + int (length d) - 1" "m @ c # int (length d) # d" "[0]" "[DHCPOPT_End]" "[]"] assms(2)
    by (simp add: enc_opt_def)
  show ?thesis by (simp only: 1 2 3 4)
qed

lemma pkt_opt_empty:
  assumes "d \<noteq> []" "optlen pkt = 0"
  shows "opts (add_opt (c, d) pkt) = enc_opt (c, d) @ [DHCPOPT_End]"
    "optlen (add_opt (c, d) pkt) = 3 + int (length d)"
proof -
  have r: "replicate (nat (int (length d) + 3)) 0 = [0] @ replicate (length d + 2) (0 :: int)"
    by (simp add: nat_add_distrib numeral_3_eq_3)
  show "opts (add_opt (c, d) pkt) = enc_opt (c, d) @ [DHCPOPT_End]"
    using pkt_opt_stores [OF assms(1), of 1 "[]" 0 c] assms r
    by (simp add: add_opt_def mp_dhcp_pkt_opt_def Let_def ac_simps del: replicate_add)
  show "optlen (add_opt (c, d) pkt) = 3 + int (length d)"
    using assms by (simp add: add_opt_def mp_dhcp_pkt_opt_def)
qed

lemma pkt_opt_more:
  assumes "d \<noteq> []" "opts pkt = m @ [DHCPOPT_End]" "optlen pkt = int (length m) + 1"
  shows "opts (add_opt (c, d) pkt) = m @ enc_opt (c, d) @ [DHCPOPT_End]"
    "optlen (add_opt (c, d) pkt) = int (length m) + 3 + int (length d)"
proof -
  have n: "nat (optlen pkt + int (length d) + 2) = length (m @ [DHCPOPT_End]) + (length d + 2)"
    using assms(3) by simp
  have t: "take (nat (optlen pkt + int (length d) + 2)) (opts pkt) @
      replicate (nat (optlen pkt + int (length d) + 2) - length (opts pkt)) 0 =
      m @ [DHCPOPT_End] @ replicate (length d + 2) 0"
    unfolding n assms(2) by simp
  have "optlen pkt \<noteq> 0" using assms(3) by simp
  then show "opts (add_opt (c, d) pkt) = m @ enc_opt (c, d) @ [DHCPOPT_End]"
    using pkt_opt_stores [OF assms(1, 3), of DHCPOPT_End c] assms(1)
    by (simp add: add_opt_def mp_dhcp_pkt_opt_def Let_def t del: append.simps)
  show "optlen (add_opt (c, d) pkt) = int (length m) + 3 + int (length d)"
    using assms \<open>optlen pkt \<noteq> 0\<close> by (simp add: add_opt_def mp_dhcp_pkt_opt_def Let_def)
qed

lemma pkt_opt_has:
  assumes "pkt_has pkt os" "opt_ok cd"
  shows "pkt_has (add_opt cd pkt) (os @ [cd])"
proof -
  obtain c d where cd: "cd = (c, d)" by (cases cd)
  have d: "d \<noteq> []" using assms(2) cd by (simp add: opt_ok_def)
  show ?thesis
  proof (cases "os = []")
    case True
    then show ?thesis using assms(1) pkt_opt_empty [OF d, of pkt c] by (simp add: pkt_has_def cd enc_opts_def enc_opt_def)
  next
    case False
    then have "opts pkt = concat (map enc_opt os) @ [DHCPOPT_End]"
      "optlen pkt = int (length (concat (map enc_opt os))) + 1"
      using assms(1) by (simp_all add: pkt_has_def enc_opts_def)
    from pkt_opt_more [OF d this, of c] show ?thesis
      by (simp add: pkt_has_def cd enc_opts_def enc_opt_def)
  qed
qed

lemma fold_pkt_has: "list_all opt_ok qs \<Longrightarrow> pkt_has pkt os \<Longrightarrow> pkt_has (fold add_opt qs pkt) (os @ qs)"
proof (induction qs arbitrary: pkt os)
  case (Cons q qs)
  then have "pkt_has (add_opt q pkt) (os @ [q])" by (simp add: pkt_opt_has)
  from Cons.IH [OF _ this] Cons.prems(1) show ?case by simp
qed simp

lemma getopt_loop_enc:
  assumes "list_all opt_ok os" "code \<noteq> DHCPOPT_Pad" "code \<noteq> DHCPOPT_End" "m = pre @ enc_opts os"
  shows "case map_of os code of
      None \<Rightarrow> getopt_loop m (int (length m)) code (length pre) = NotFound
    | Some d \<Rightarrow> \<exists>p. getopt_loop m (int (length m)) code (length pre) = Found p \<and>
        m ! Suc p = int (length d) \<and> take (length d) (drop (p + 2) m) = d"
  using assms
proof (induction os arbitrary: pre)
  case Nil
  then show ?case by (subst getopt_loop.simps) (simp add: enc_opts_def nth_append dhcpopt_defs)
next
  case (Cons cd os)
  obtain c d where cd: "cd = (c, d)" by (cases cd)
  have "opt_ok cd" "list_all opt_ok os" using Cons.prems(1) by simp_all
  then have ok: "c \<noteq> DHCPOPT_Pad" "c \<noteq> DHCPOPT_End" "list_all opt_ok os"
    unfolding cd opt_ok_def by simp_all
  have m: "m = pre @ c # int (length d) # d @ enc_opts os"
    using Cons.prems(4) cd by (simp add: enc_opts_def enc_opt_def)
  have at: "m ! length pre = c" "m ! Suc (length pre) = int (length d)"
    by (simp_all add: m nth_append)
  show ?case
  proof (cases "c = code")
    case True
    then show ?thesis using at by (subst getopt_loop.simps) (simp add: cd m)
  next
    case False
    have e: "getopt_loop m (int (length m)) code (length pre) =
        getopt_loop m (int (length m)) code (length (pre @ c # int (length d) # d))"
      using False ok at by (subst getopt_loop.simps) (simp add: m)
    have mo: "map_of (cd # os) code = map_of os code" using False cd by simp
    have "m = (pre @ c # int (length d) # d) @ enc_opts os" using m by simp
    then show ?thesis unfolding mo e by (rule Cons.IH [OF ok(3) Cons.prems(2, 3)])
  qed
qed

section \<open>Properties\<close>

text \<open>C13: Options read back: a packet built by any sequence of \<open>mp_dhcp_pkt_opt\<close> calls holds exactly their
  encoding and the end mark in its allocation, and \<open>mp_dhcp_pkt_getopt\<close> finds for every code the
  first option with it, with its length and data, and NULL for the other codes.\<close>

theorem dhcp_getopt_after_opt:
  assumes "list_all opt_ok os" "os \<noteq> []" "optlen pkt = 0" "code \<noteq> DHCPOPT_Pad" "code \<noteq> DHCPOPT_End"
  shows "opts (fold add_opt os pkt) = enc_opts os \<and>
    (case map_of os code of
       None \<Rightarrow> mp_dhcp_pkt_getopt (fold add_opt os pkt) code = NotFound
     | Some d \<Rightarrow> \<exists>p. mp_dhcp_pkt_getopt (fold add_opt os pkt) code = Found p \<and>
         opts (fold add_opt os pkt) ! Suc p = int (length d) \<and>
         take (length d) (drop (p + 2) (opts (fold add_opt os pkt))) = d)"
proof -
  have "pkt_has (fold add_opt os pkt) os"
    using fold_pkt_has [OF assms(1), of pkt "[]"] assms(3) by (simp add: pkt_has_def)
  then have h: "opts (fold add_opt os pkt) = enc_opts os"
    "optlen (fold add_opt os pkt) = int (length (enc_opts os))"
    using assms(2) by (auto simp: pkt_has_def)
  moreover have "enc_opts os \<noteq> []" by (simp add: enc_opts_def)
  ultimately show ?thesis
    using getopt_loop_enc [OF assms(1, 4, 5), of "enc_opts os" "[]"]
    by (simp add: mp_dhcp_pkt_getopt_def split: option.splits)
qed

definition pkt0 :: dhcp_pkt where
  "pkt0 = \<lparr>op = 1, htype = 1, hlen = 6, hops = 1, xid = 7, secs = 0, flags = 128, ciaddr = [0, 0, 0, 0],
     yiaddr = [0, 0, 0, 0], siaddr = [0, 0, 0, 0], giaddr = [0, 0, 0, 0], chaddr = replicate 16 0,
     sname = [], bootfile = [], opts = [], optlen = 0\<rparr>"

lemma pkt0_optlen: "optlen pkt0 = 0"
  by (simp add: pkt0_def)

theorem dhcp_getopt_after_opt_witness:
  "opts (fold add_opt [(53, [1]), (60, [65, 66])] pkt0) = enc_opts [(53, [1]), (60, [65, 66])] \<and>
   (\<exists>p. mp_dhcp_pkt_getopt (fold add_opt [(53, [1]), (60, [65, 66])] pkt0) 60 = Found p \<and>
      opts (fold add_opt [(53, [1]), (60, [65, 66])] pkt0) ! Suc p = int (length [65 :: int, 66]) \<and>
      take (length [65 :: int, 66]) (drop (p + 2) (opts (fold add_opt [(53, [1]), (60, [65, 66])] pkt0))) = [65, 66])"
proof -
  let ?os = "[(53, [1]), (60, [65, 66])] :: (int \<times> int list) list"
  have "list_all opt_ok ?os" "?os \<noteq> []" "(60 :: int) \<noteq> DHCPOPT_Pad" "(60 :: int) \<noteq> DHCPOPT_End"
    by (simp_all add: opt_ok_def dhcpopt_defs)
  note r = dhcp_getopt_after_opt [OF this(1, 2) pkt0_optlen this(3, 4)]
  have m: "map_of ?os 60 = Some [65, 66]" by simp
  from r [unfolded m option.case] show ?thesis .
qed

lemma opts_end_safe:
  assumes "opts_end m n i = Some True" "n \<le> int (length m)" "\<forall>b \<in> set m. 0 \<le> b"
  shows "getopt_loop m n code i \<noteq> OutOfBounds \<and>
    (\<forall>p. getopt_loop m n code i = Found p \<and> code \<noteq> DHCPOPT_Pad \<and> code \<noteq> DHCPOPT_End \<longrightarrow>
       int p + 2 + m ! Suc p < n)"
  using assms
proof (induction m n i rule: opts_end.induct)
  case (1 m n i)
  note e = opts_end.simps [of m n i] and g = getopt_loop.simps [of m n code i]
  have i: "\<not> n \<le> int i" "\<not> length m \<le> i" using "1.prems"(1, 2) by (auto simp: e split: if_splits)
  consider (pad) "m ! i = DHCPOPT_Pad" | (fin) "m ! i = DHCPOPT_End" "m ! i \<noteq> DHCPOPT_Pad"
    | (opt) "m ! i \<noteq> DHCPOPT_Pad" "m ! i \<noteq> DHCPOPT_End" by blast
  then show ?case
  proof cases
    case pad
    then have "opts_end m n (Suc i) = Some True" using "1.prems"(1) i by (simp add: e)
    from "1.IH"(1) [OF i pad this "1.prems"(2, 3)] show ?thesis using i pad by (auto simp: g)
  next
    case fin
    then show ?thesis using i by (auto simp: g)
  next
    case opt
    let ?j = "i + 2 + nat (m ! Suc i)"
    have s: "\<not> length m \<le> Suc i" "opts_end m n ?j = Some True"
      using "1.prems"(1) i opt by (auto simp: e split: if_splits)
    then have j: "int ?j < n" using opts_end.simps [of m n ?j] by (auto split: if_splits)
    have "m ! Suc i \<in> set m" using s(1) by (intro nth_mem) simp
    then have "0 \<le> m ! Suc i" using "1.prems"(3) by blast
    then show ?thesis
      using "1.IH"(2) [OF i opt s "1.prems"(2, 3)] i opt s(1) j by (auto simp: g)
  qed
qed

text \<open>C14: A packet that \<open>mp_dhcp_recv\<close> accepts can be searched safely: \<open>mp_dhcp_pkt_getopt\<close> never leaves the
  option buffer, and an option it finds lies with its length and data inside the received options.\<close>

theorem dhcp_accepted_safe:
  assumes "recv_check tid pkt cookie len = Accept p" "len \<le> 240 + int (length (opts pkt))"
    "\<forall>b \<in> set (opts pkt). 0 \<le> b" "code \<noteq> DHCPOPT_Pad" "code \<noteq> DHCPOPT_End"
  shows "mp_dhcp_pkt_getopt p code = NotFound \<or>
    (\<exists>i. mp_dhcp_pkt_getopt p code = Found i \<and> int i + 2 + opts p ! Suc i < optlen p)"
proof (cases "0 < optlen p")
  case True
  have p: "p = pkt\<lparr>optlen := len - 240\<rparr>" "opts_end (opts p) (optlen p) 0 = Some True"
    using assms(1) True by (auto simp: recv_check_def Let_def split: if_splits option.splits)
  have "optlen p \<le> int (length (opts p))" "\<forall>b \<in> set (opts p). 0 \<le> b" using assms(2, 3) p(1) by simp_all
  from opts_end_safe [OF p(2) this, of code] show ?thesis
    using assms(4, 5) by (cases "getopt_loop (opts p) (optlen p) code 0") (auto simp: mp_dhcp_pkt_getopt_def)
next
  case False
  then show ?thesis by (auto simp: mp_dhcp_pkt_getopt_def getopt_loop.simps)
qed

theorem dhcp_accepted_safe_witness:
  "mp_dhcp_pkt_getopt (pkt0\<lparr>op := 2, opts := [53, 1, 2, 255], optlen := 4\<rparr>) 53 = NotFound \<or>
   (\<exists>i. mp_dhcp_pkt_getopt (pkt0\<lparr>op := 2, opts := [53, 1, 2, 255], optlen := 4\<rparr>) 53 = Found i \<and>
      int i + 2 + opts (pkt0\<lparr>op := 2, opts := [53, 1, 2, 255], optlen := 4\<rparr>) ! Suc i <
      optlen (pkt0\<lparr>op := 2, opts := [53, 1, 2, 255], optlen := 4\<rparr>))"
proof (rule dhcp_accepted_safe [where len = 244 and tid = 7 and cookie = magickcookie])
  show "recv_check 7 (pkt0\<lparr>op := 2, opts := [53, 1, 2, 255], optlen := 4\<rparr>) magickcookie 244 =
      Accept (pkt0\<lparr>op := 2, opts := [53, 1, 2, 255], optlen := 4\<rparr>)"
    by (simp add: recv_check_def pkt0_def BOOTREPLY_def opts_end.simps dhcpopt_defs)
qed (simp_all add: dhcpopt_defs)

text \<open>The end test itself may read one byte behind the options.\<close>

lemma opts_end_reads_behind:
  "opts_end (replicate 311 0 @ [1]) 312 0 = None"
proof -
  have z: "opts_end (replicate 311 0 @ [1]) 312 i = opts_end (replicate 311 0 @ [1]) 312 311" if "i \<le> 311" for i
    using that
  proof (induction rule: inc_induct)
    case (step k)
    then show ?case by (subst opts_end.simps) (simp add: nth_append dhcpopt_defs)
  qed simp
  show ?thesis
    using z [of 0] by (simp add: opts_end.simps [of _ _ 311] nth_append dhcpopt_defs)
qed

text \<open>The dump of a packet with 256 or more bytes of options does not end: its counter is 8 bits wide.\<close>

lemma dump_loop_endless:
  assumes "256 \<le> n" "0 \<le> i" "i < 256"
  shows "\<exists>b. dump_loop k m n i out = Inl b"
  using assms(2, 3)
proof (induction k arbitrary: i out)
  case (Suc k)
  have u: "0 \<le> to_uint8 x" "to_uint8 x < 256" for x by (simp_all add: to_uint8_def)
  show ?case using Suc.prems assms(1) Suc.IH [OF u] by (auto split: option.splits)
qed (auto intro: exI [of _ False])

text \<open>The words of the header, with the checksum field as the sixth.\<close>

lemma length4: "length xs = 4 \<longleftrightarrow> (\<exists>a b c d. xs = [a, b, c, d])"
  by (cases xs; cases "tl xs"; cases "tl (tl xs)"; cases "tl (tl (tl xs))") auto

lemma length2: "length xs = 2 \<longleftrightarrow> (\<exists>a b. xs = [a, b])"
  by (cases xs; cases "tl xs") auto

lemma words_Cons2: "words (a # b # bs) = word_of_int (a + 256 * b) # words bs"
  by (simp add: words_def map_Suc_upt [symmetric] upt_conv_Cons del: upt_Suc)

lemma words_header:
  assumes "length ident = 2" "length src = 4" "length dst = 4" "csum = [u, v]"
  shows "\<exists>us vs. length us = 5 \<and> length vs = 4 \<and>
    (\<forall>u v. words (ip_header ident src dst len [u, v]) = us @ word_of_int (u + 256 * v) # vs)"
proof -
  obtain x y where i: "ident = [x, y]" using assms(1) by (auto simp: length2)
  obtain a b c d where s: "src = [a, b, c, d]" using assms(2) by (auto simp: length4)
  obtain e f g h where t: "dst = [e, f, g, h]" using assms(3) by (auto simp: length4)
  have n: "words [] = []" by (simp add: words_def)
  show ?thesis
    by (rule exI [of _ "words ([0x45, 0] @ be16 len @ [x, y] @ [0, 0, 20, 17])"],
        rule exI [of _ "words (src @ dst)"])
      (simp add: i s t ip_header_def be16_def words_Cons2 n)
qed

lemma le16_word: "word_of_int (x mod 256 + 256 * (x div 256 mod 256)) = (word_of_int x :: 16 word)"
proof -
  have "x mod 256 + 256 * (x div 256 mod 256) = x mod 65536"
    using zmod_zmult2_eq [of 256 x 256] by simp
  then show ?thesis unfolding word_of_int_eq_iff take_bit_eq_mod by simp
qed

text \<open>The IP header of a broadcast DHCP packet carries a correct checksum, whatever its identification
  field holds, and its length is that of the headers and everything that follows them.\<close>

theorem dhcp_header_checksum:
  assumes "length junk = 42" "length src = 4" "length dst = 4" "length (chaddr p) = 16"
    "0 \<le> optlen p" "optlen p < 65000"
  shows "mp_ip_csum (words (take 20 (drop 14 (dhcp_headers junk p (src, sp) (dst, dp))))) 20 = 0 \<and>
    dhcp_ip_len p = 28 + 236 + (if 0 < optlen p then 4 + optlen p else 0)"
proof -
  let ?id = "take 2 (drop 18 junk)"
  have "length ?id = 2" using assms(1) by simp
  then obtain us vs where w: "length us = 5" "length vs = 4"
    "\<And>u v. words (ip_header ?id src dst (dhcp_ip_len p) [u, v]) = us @ word_of_int (u + 256 * v) # vs"
    using words_header [OF _ assms(2, 3) refl] by blast
  let ?c = "mp_ip_csum (words (ip_header ?id src dst (dhcp_ip_len p) [0, 0])) 20"
  let ?h = "ip_header ?id src dst (dhcp_ip_len p) (le16 (uint ?c))"
  have "length ?h = 20" using assms(1-3) by (simp add: ip_header_def be16_def le16_def)
  then have t: "take 20 (drop 14 (dhcp_headers junk p (src, sp) (dst, dp))) = ?h"
    using assms(4) by (simp add: dhcp_headers_def Let_def)
  have c: "?c = mp_ip_csum (us @ 0 # vs) 20" using w(3) [of 0 0] by simp
  have "words ?h = us @ mp_ip_csum (us @ 0 # vs) 20 # vs"
    by (simp only: le16_def w(3) le16_word) (simp add: c)
  then have "mp_ip_csum (words ?h) 20 = 0" using csum_in_place [of us vs 20] w(1, 2) by simp
  moreover have "dhcp_ip_len p = 28 + 236 + (if 0 < optlen p then 4 + optlen p else 0)"
    using assms(5, 6) by (simp add: dhcp_ip_len_def to_uint16_def)
  ultimately show ?thesis by (simp add: t)
qed

theorem dhcp_header_checksum_witness:
  "mp_ip_csum (words (take 20 (drop 14 (dhcp_headers (replicate 42 9) pkt0 ([0, 0, 0, 0], [0, 68])
      ([255, 255, 255, 255], [0, 67]))))) 20 = 0 \<and>
   dhcp_ip_len pkt0 = 28 + 236 + (if 0 < optlen pkt0 then 4 + optlen pkt0 else 0)"
  by (rule dhcp_header_checksum) (simp_all add: pkt0_def)

end
