(* ===== verification/MP_Options.thy ===== *)
theory MP_Options
  imports MP_Args
begin

text \<open>
  The option loop: \<^verbatim>\<open>lib/mp_eopt.c\<close> (extra options from an ini file), \<^verbatim>\<open>lib/mp_getopt.c\<close> (the options
  every plugin has), \<^verbatim>\<open>lib/mp_notify.c\<close>, \<^verbatim>\<open>lib/mp_serial.c\<close> and the status of \<^verbatim>\<open>lib/mp_subprocess.c\<close>.

  The file system is a map from file names to contents. \<open>getopt_long\<close> is the C library's option
  scanner and a parameter on the state \<open>gopt\<close>: the argument vector, \<open>optind\<close> and whatever it
  keeps to itself. A loop around it takes fuel: the options an ini file adds may name the same
  file again, so the loop of the source need not end.
\<close>

section \<open>Options from an ini file\<close>

definition rtrim :: "string \<Rightarrow> string" where
  "rtrim s = rev (dropWhile isspace (rev s))"

definition eopt_key :: "string \<Rightarrow> string" where
  "eopt_key key = (if 1 < length key then ''--'' @ key else ''-'' @ key)"

definition eopt_pair :: "string \<Rightarrow> string \<Rightarrow> string list" where
  "eopt_pair key val = eopt_key key # (if val \<noteq> [] then [val] else [])"

datatype eopt_result = EArgs "string list" | ETooLong nat | ECrash

text \<open>The loop over the lines of \<open>fgets\<close>. A line without \<open>=\<close> leaves \<open>val\<close> NULL, which is read.\<close>

fun eopt_lines :: "string \<Rightarrow> nat \<Rightarrow> bool \<Rightarrow> string list \<Rightarrow> string list \<Rightarrow> eopt_result" where
  "eopt_lines esection lineno current_section new_argv [] = EArgs new_argv"
| "eopt_lines esection lineno current_section new_argv (line # ls) =
     (if last line \<noteq> newline then ETooLong (Suc lineno)
      else
        let b = rtrim line
        in if length b < 2 then eopt_lines esection (Suc lineno) current_section new_argv ls
           else if hd b = CHR ''#'' \<or> hd b = CHR '';''
             then eopt_lines esection (Suc lineno) current_section new_argv ls
           else if hd b = CHR ''['' \<and> last b = CHR '']''
             then eopt_lines esection (Suc lineno) (esection = butlast (tl b)) new_argv ls
           else if \<not> current_section then eopt_lines esection (Suc lineno) current_section new_argv ls
           else if snd (strsep ''='' b) = None then ECrash
           else eopt_lines esection (Suc lineno) current_section
                  (new_argv @ eopt_pair (fst (strsep ''='' b)) (the (snd (strsep ''='' b)))) ls)"

definition eopt_default_file :: string where
  "eopt_default_file = ''/etc/nagios/monitoringplug.ini''"

text \<open>The section and the file that \<open>[section][@file]\<close> names.\<close>

definition eopt_where :: "string \<Rightarrow> string option \<Rightarrow> string \<times> string" where
  "eopt_where prog optarg =
     (case optarg of
        None \<Rightarrow> (prog, eopt_default_file)
      | Some a \<Rightarrow>
          if starts_with a (CHR ''@'') then (prog, tl a)
          else (let (s, f) = strsep ''@'' a
                in (s, case f of None \<Rightarrow> eopt_default_file | Some f \<Rightarrow> f)))"

text \<open>An option value as the next argument: \<open>None\<close> is the read behind the last argument.\<close>

definition eopt_optarg :: "string list \<Rightarrow> nat \<Rightarrow> string option \<Rightarrow> (string option \<times> nat) option" where
  "eopt_optarg argv optind optarg =
     (case optarg of
        Some a \<Rightarrow> Some (Some a, optind)
      | None \<Rightarrow>
          if length argv \<le> optind then None
          else if \<not> starts_with (argv ! optind) (CHR ''-'') then Some (Some (argv ! optind), Suc optind)
          else Some (None, optind))"

definition mp_eopt ::
    "(string \<rightharpoonup> string) \<Rightarrow> string list \<Rightarrow> nat \<Rightarrow> string option \<Rightarrow> mp_globals
     \<Rightarrow> mp_end + string list \<times> nat \<times> mp_globals" where
  "mp_eopt fs orig_argv optind optarg g =
     (case eopt_optarg orig_argv optind optarg of
        None \<Rightarrow> Inl Crash
      | Some (optarg, optind) \<Rightarrow>
          let (esection, efile) = eopt_where (progname g) optarg
          in case fs efile of
               None \<Rightarrow> Inr (orig_argv, optind, mp_print (''Can'' @ [CHR 0x27] @ ''t open: '' @ efile @ nl) g)
             | Some content \<Rightarrow>
                 (case eopt_lines esection 0 False [] (fgets_all 256 content) of
                    ECrash \<Rightarrow> Inl Crash
                  | ETooLong n \<Rightarrow>
                      Inr (orig_argv, optind, mp_print (''Line '' @ fmt_d (int n) @ '' in file '' @ efile @
                        '' too long.'' @ nl) g)
                  | EArgs new_argv \<Rightarrow>
                      Inr (take optind orig_argv @ new_argv @ drop optind orig_argv, optind, g)))"

definition print_help_eopt :: string where
  "print_help_eopt = help_lines
     ['' -E, --eopt=[section][@file]'', ''      Read additional opts from section in ini-File.'']"

section \<open>The option loop\<close>

record 'h gopt =
  go_argv :: "string list"
  go_optind :: nat
  go_hidden :: 'h

type_synonym 'h getopt_long = "'h gopt \<Rightarrow> int \<times> string option \<times> 'h gopt"

definition MP_LONGOPT_EOPT :: int where "MP_LONGOPT_EOPT = 0x80"

fun mp_getopt ::
    "nat \<Rightarrow> 'h getopt_long \<Rightarrow> (string \<rightharpoonup> string) \<Rightarrow> string \<Rightarrow> string \<Rightarrow> 'h gopt \<Rightarrow> mp_globals
     \<Rightarrow> (mp_end + int \<times> string option \<times> 'h gopt \<times> mp_globals) option" where
  "mp_getopt 0 getopt_long fs help revision st g = None"
| "mp_getopt (Suc n) getopt_long fs help revision st g =
     (let (c, optarg, st) = getopt_long st
      in if c = -1 then Some (Inr (c, optarg, st, g))
         else if c = ccode (CHR ''?'') then Some (Inl (usage [] g))
         else if c = ccode (CHR ''h'') then Some (Inl (Exit 0 (stdout g @ help)))
         else if c = ccode (CHR ''V'') then Some (Inl (Exit 0 (stdout g @ revision)))
         else if c = ccode (CHR ''v'') then
           mp_getopt n getopt_long fs help revision st (g\<lparr>mp_verbose := to_uint32 (mp_verbose g + 1)\<rparr>)
         else if c = MP_LONGOPT_EOPT then
           (case mp_eopt fs (go_argv st) (go_optind st) optarg g of
              Inl e \<Rightarrow> Some (Inl e)
            | Inr (argv, optind, g) \<Rightarrow>
                mp_getopt n getopt_long fs help revision (st\<lparr>go_argv := argv, go_optind := optind\<rparr>) g)
         else if c = ccode (CHR ''t'') then
           mp_getopt n getopt_long fs help revision st
             (g\<lparr>mp_timeout := to_uint32 (to_int32 (strtol 10 (the optarg)))\<rparr>)
         else Some (Inr (c, optarg, st, g)))"

section \<open>Notification, serial port and subprocess\<close>

record notify_vars =
  mp_notify_file :: "string option"
  mp_notify_msg :: "string option"

definition getopt_notify :: "char \<Rightarrow> string \<Rightarrow> notify_vars \<Rightarrow> mp_globals \<Rightarrow> mp_end + notify_vars" where
  "getopt_notify c optarg n g =
     (if c = CHR ''F'' then
        (if mp_notify_msg n \<noteq> None then Inl (usage ''--file and --message are exclusive options.'' g)
         else Inr (n\<lparr>mp_notify_file := Some optarg\<rparr>))
      else if c = CHR ''m'' then
        (if mp_notify_file n \<noteq> None then Inl (usage ''--file and --message are exclusive options.'' g)
         else Inr (n\<lparr>mp_notify_msg := Some optarg\<rparr>))
      else Inr n)"

record serial_vars =
  mp_serial_device :: "string option"
  mp_serial_speed :: int

text \<open>The speed constants of \<open>termios.h\<close> as Linux defines them.\<close>

definition speeds :: "(string \<times> int) list" where
  "speeds = [(''1200'', 9), (''2400'', 11), (''4800'', 12), (''9600'', 13), (''19200'', 14),
     (''38400'', 15), (''57600'', 4097), (''115200'', 4098)]"

definition serial_init :: serial_vars where
  "serial_init = \<lparr>mp_serial_device = None, mp_serial_speed = 13\<rparr>"

definition getopt_serial :: "char \<Rightarrow> string \<Rightarrow> serial_vars \<Rightarrow> mp_globals \<Rightarrow> mp_end + serial_vars" where
  "getopt_serial c optarg v g =
     (if c = CHR ''S'' then Inr (v\<lparr>mp_serial_device := Some optarg\<rparr>)
      else if c = CHR ''s'' then
        (case map_of speeds optarg of
           Some f \<Rightarrow> Inr (v\<lparr>mp_serial_speed := f\<rparr>)
         | None \<Rightarrow> Inl (usage (''Unknow speed value '' @ quoted optarg) g))
      else Inr v)"

definition print_help_serial :: string where
  "print_help_serial = help_lines
     ['' -S, --serial=DEV'', ''      Servial device to use.'', '' -s, --speed=SPEED'',
      ''      Connection speed. (Default to 9600)'']"

text \<open>
  \<open>mp_serial_open\<close>: \<open>open\<close> and the terminal's settings are parameters. The result is the
  descriptor, the saved settings and the settings written: the control flags hold the global speed,
  not the argument.
\<close>

record termios =
  c_cflag :: int
  c_iflag :: int
  c_oflag :: int
  c_lflag :: int
  c_vmin :: int
  c_vtime :: int

definition CS8_CLOCAL_CREAD :: int where "CS8_CLOCAL_CREAD = 0x30 + 0x800 + 0x80"

unbundle bit_operations_syntax

definition mp_serial_open ::
    "(string \<Rightarrow> int) \<Rightarrow> (int \<Rightarrow> termios) \<Rightarrow> string \<Rightarrow> int \<Rightarrow> serial_vars \<Rightarrow> mp_globals
     \<Rightarrow> mp_end + int \<times> termios \<times> termios" where
  "mp_serial_open open_dev tcgetattr device speed v g =
     (let fd = open_dev device
      in if fd < 0 then Inl (critical (''Can'' @ [CHR 0x27] @ ''t open Serial Port '' @ quoted device) g)
         else Inr (fd, tcgetattr fd,
                   \<lparr>c_cflag = or (mp_serial_speed v) CS8_CLOCAL_CREAD, c_iflag = 4, c_oflag = 0,
                    c_lflag = 2, c_vmin = 1, c_vtime = 0\<rparr>))"

text \<open>
  \<open>mp_subprocess\<close> before the fork: the checks that make it return NULL. \<open>waitpid\<close> gives
  an error code or a status; the answers are a list, one per call.
\<close>

datatype sp_check = NoAccess | NoStat | NoRegular | NoPipe | NoFork | Started int

definition mp_subprocess ::
    "(string \<Rightarrow> bool) \<Rightarrow> (string \<Rightarrow> bool option) \<Rightarrow> bool \<Rightarrow> int \<Rightarrow> string \<Rightarrow> sp_check" where
  "mp_subprocess access_x stat_isreg pipe_ok fork_pid command =
     (if \<not> access_x command then NoAccess
      else if stat_isreg command = None then NoStat
      else if stat_isreg command = Some False then NoRegular
      else if \<not> pipe_ok then NoPipe
      else if fork_pid = -1 then NoFork
      else Started fork_pid)"

datatype wait_result = WaitError int | WaitStatus int

definition EINTR :: int where "EINTR = 4"

fun mp_subprocess_close :: "wait_result list \<Rightarrow> int option" where
  "mp_subprocess_close [] = None"
| "mp_subprocess_close (WaitError e # ws) = (if e \<noteq> EINTR then Some 1 else mp_subprocess_close ws)"
| "mp_subprocess_close (WaitStatus st # ws) =
     (if st AND 0x7F = 0 then Some (drop_bit 8 st AND 0xFF) else Some (-1))"

definition subprocess_timeout_alarm_handler :: "int \<Rightarrow> mp_globals \<Rightarrow> mp_end + mp_globals" where
  "subprocess_timeout_alarm_handler signo g =
     (if signo = SIGALRM
      then Inl (critical (''Plugin timed out in subprocess after '' @ fmt_d (to_int32 (mp_timeout g)) @
                 '' seconds'' @ nl) g)
      else Inr g)"

section \<open>Ini files\<close>

text \<open>An ini file as data, its text, and the options a section stands for.\<close>

type_synonym ini = "(string \<times> (string \<times> string) list) list"

definition ini_entry :: "string \<times> string \<Rightarrow> string" where
  "ini_entry kv = fst kv @ ''='' @ snd kv"

definition ini_lines :: "ini \<Rightarrow> string list" where
  "ini_lines secs = concat (map (\<lambda>(n, kvs). (''['' @ n @ '']'') # map ini_entry kvs) secs)"

definition ini_text :: "ini \<Rightarrow> string" where
  "ini_text secs = concat (map (\<lambda>l. l @ [newline]) (ini_lines secs))"

definition entry_ok :: "string \<times> string \<Rightarrow> bool" where
  "entry_ok kv \<longleftrightarrow>
     (let (k, v) = kv in k \<noteq> [] \<and> CHR ''='' \<notin> set k \<and> newline \<notin> set k \<and> newline \<notin> set v \<and>
        hd k \<notin> set ''#;['' \<and> (v = [] \<or> \<not> isspace (last v)) \<and> length k + length v < 254)"

definition ini_ok :: "ini \<Rightarrow> bool" where
  "ini_ok secs \<longleftrightarrow>
     list_all (\<lambda>(n, kvs). newline \<notin> set n \<and> length n < 253 \<and> list_all entry_ok kvs) secs"

definition ini_options :: "string \<Rightarrow> ini \<Rightarrow> string list" where
  "ini_options s secs =
     concat (map (\<lambda>(n, kvs). if n = s then concat (map (\<lambda>(k, v). eopt_pair k v) kvs) else []) secs)"

lemma fgets_all_lines:
  assumes "\<forall>l \<in> set ls. newline \<notin> set l \<and> length l < 255"
  shows "fgets_all 256 (concat (map (\<lambda>l. l @ [newline]) ls)) = map (\<lambda>l. l @ [newline]) ls"
  using assms by (intro fgets_all_printed) auto

lemma rtrim_line: "l \<noteq> [] \<Longrightarrow> \<not> isspace (last l) \<Longrightarrow> rtrim (l @ [newline]) = l"
proof -
  have "isspace newline" by (simp add: isspace_def newline_def ccode_def)
  then show "l \<noteq> [] \<Longrightarrow> \<not> isspace (last l) \<Longrightarrow> rtrim (l @ [newline]) = l"
    by (cases l rule: rev_cases) (simp_all add: rtrim_def)
qed

lemma ini_entry_facts:
  assumes "entry_ok kv"
  shows "rtrim (ini_entry kv @ [newline]) = ini_entry kv" "\<not> length (ini_entry kv) < 2"
    "hd (ini_entry kv) \<notin> set ''#;[''" "strsep ''='' (ini_entry kv) = (fst kv, Some (snd kv))"
    "newline \<notin> set (ini_entry kv)" "length (ini_entry kv) < 255"
proof -
  obtain k v where kv: "kv = (k, v)" by (cases kv)
  note ok = assms [unfolded kv entry_ok_def, simplified]
  have "\<not> isspace (last (k @ ''='' @ v))"
    using ok by (cases "v = []") (simp_all add: isspace_def ccode_def)
  then show "rtrim (ini_entry kv @ [newline]) = ini_entry kv"
    using rtrim_line [of "k @ ''='' @ v"] by (simp add: ini_entry_def kv)
  show "strsep ''='' (ini_entry kv) = (fst kv, Some (snd kv))"
    using strsep_hit [of "''=''" k "CHR ''=''" v] ok by (simp add: ini_entry_def kv)
  show "\<not> length (ini_entry kv) < 2" "hd (ini_entry kv) \<notin> set ''#;[''" "newline \<notin> set (ini_entry kv)"
    "length (ini_entry kv) < 255"
    using ok by (cases k; simp add: ini_entry_def kv newline_def)+
qed

lemma eopt_lines_entries:
  "list_all entry_ok kvs \<Longrightarrow>
   eopt_lines s lno cur acc (map (\<lambda>l. l @ [newline]) (map ini_entry kvs) @ rest) =
     eopt_lines s (lno + length kvs) cur
       (acc @ (if cur then concat (map (\<lambda>(k, v). eopt_pair k v) kvs) else [])) rest"
proof (induction kvs arbitrary: lno acc)
  case (Cons kv kvs)
  then have f: "entry_ok kv" "list_all entry_ok kvs" by simp_all
  note i = ini_entry_facts [OF f(1)]
  show ?case using Cons.IH [OF f(2)] i(1-4)
    by (cases kv; cases cur) (simp_all add: Let_def)
qed simp

lemma eopt_lines_header:
  "eopt_lines s lno cur acc ((''['' @ n @ '']'' @ [newline]) # ls) = eopt_lines s (Suc lno) (s = n) acc ls"
proof -
  have "rtrim ((''['' @ n @ '']'') @ [newline]) = ''['' @ n @ '']''"
    by (rule rtrim_line) (simp_all add: isspace_def ccode_def)
  then show ?thesis by (simp add: Let_def newline_def)
qed

lemma eopt_lines_ini:
  "ini_ok secs \<Longrightarrow>
   eopt_lines s lno cur acc (map (\<lambda>l. l @ [newline]) (ini_lines secs)) = EArgs (acc @ ini_options s secs)"
proof (induction secs arbitrary: lno cur acc)
  case Nil
  then show ?case by (simp add: ini_lines_def ini_options_def)
next
  case (Cons sec secs)
  obtain n kvs where sec: "sec = (n, kvs)" by (cases sec)
  have k: "list_all entry_ok kvs" "ini_ok secs" using Cons.prems sec by (simp_all add: ini_ok_def)
  show ?case
    using Cons.IH [OF k(2)] eopt_lines_entries [OF k(1)] eopt_lines_header
    by (simp add: sec ini_lines_def ini_options_def)
qed

lemma eopt_lines_text:
  assumes "ini_ok secs"
  shows "eopt_lines s 0 False [] (fgets_all 256 (ini_text secs)) = EArgs (ini_options s secs)"
proof -
  have "newline \<notin> set l \<and> length l < 255" if "l \<in> set (ini_lines secs)" for l
    using that assms ini_entry_facts(5, 6)
    by (fastforce simp: ini_lines_def ini_ok_def list_all_iff newline_def)
  then show ?thesis
    using fgets_all_lines [of "ini_lines secs"] eopt_lines_ini [OF assms] by (simp add: ini_text_def)
qed

lemma eopt_where_both:
  assumes "s \<noteq> []" "CHR ''@'' \<notin> set s"
  shows "eopt_where prog (Some (s @ ''@'' @ f)) = (s, f)"
proof -
  have "strsep ''@'' (s @ CHR ''@'' # f) = (s, Some f)" using assms by (intro strsep_hit) auto
  then show ?thesis using assms by (cases s) (auto simp: eopt_where_def)
qed

section \<open>Properties\<close>

text \<open>C7: Round trip through an ini file: \<open>--eopt=section@file\<close> inserts at the current position of
  the argument vector exactly the options that the named section of the file lists, in order
  (\<open>-k\<close> for keys of one letter, \<open>--key\<close> for longer ones, followed by the value unless it is empty), and
  nothing of the other sections.\<close>

theorem mp_eopt_inserts:
  assumes "ini_ok secs" "fs f = Some (ini_text secs)" "s \<noteq> []" "CHR ''@'' \<notin> set s"
  shows "mp_eopt fs argv optind (Some (s @ ''@'' @ f)) g =
    Inr (take optind argv @ ini_options s secs @ drop optind argv, optind, g)"
  using assms(2) eopt_lines_text [OF assms(1)] eopt_where_both [OF assms(3, 4), of "progname g" f]
  by (simp add: mp_eopt_def eopt_optarg_def)

definition ini_example :: ini where
  "ini_example = [(''dns'', [(''H'', ''ns1''), (''warning'', ''10'')]), (''web'', [(''v'', [])])]"

theorem mp_eopt_inserts_witness:
  "mp_eopt (\<lambda>f. if f = ''x.ini'' then Some (ini_text ini_example) else None)
     [''check_dns'', ''--eopt=dns@x.ini'', ''-4''] 2 (Some ''dns@x.ini'') (mp_init [] [] [] [] []) =
   Inr ([''check_dns'', ''--eopt=dns@x.ini'', ''-H'', ''ns1'', ''--warning'', ''10'', ''-4''], 2, mp_init [] [] [] [] [])"
proof -
  have "ini_ok ini_example"
    by (simp add: ini_example_def ini_ok_def entry_ok_def newline_def isspace_def ccode_def)
  moreover have "ini_options ''dns'' ini_example = [''-H'', ''ns1'', ''--warning'', ''10'']"
    by (simp add: ini_options_def ini_example_def eopt_pair_def eopt_key_def)
  ultimately show ?thesis
    using mp_eopt_inserts [of ini_example "\<lambda>f. if f = ''x.ini'' then Some (ini_text ini_example) else None"
        "''x.ini''" "''dns''" "[''check_dns'', ''--eopt=dns@x.ini'', ''-4'']" 2 "mp_init [] [] [] [] []"]
    by simp
qed

text \<open>A line of the chosen section without an equals sign ends the plugin with a read through the
  NULL pointer that \<open>strsep\<close> leaves.\<close>

theorem mp_eopt_no_equals:
  assumes "fs f = Some (''['' @ s @ '']'' @ nl @ l @ nl)" "s \<noteq> []" "CHR ''@'' \<notin> set s" "newline \<notin> set s"
    "length s < 253" "1 < length l" "length l < 255" "newline \<notin> set l" "CHR ''='' \<notin> set l"
    "hd l \<notin> set ''#;[''" "\<not> isspace (last l)"
  shows "mp_eopt fs argv optind (Some (s @ ''@'' @ f)) g = Inl Crash"
proof -
  have ne: "l \<noteq> []" using assms(6) by auto
  have r: "rtrim (l @ [newline]) = l" using assms(11) ne by (intro rtrim_line)
  have "fgets_all 256 (concat (map (\<lambda>l. l @ [newline]) [''['' @ s @ '']'', l])) = [''['' @ s @ '']'' @ [newline], l @ [newline]]"
    using fgets_all_lines [of "[''['' @ s @ '']'', l]"] assms(4, 5, 7, 8) by (simp add: newline_def)
  moreover have "eopt_lines s 0 False [] [''['' @ s @ '']'' @ [newline], l @ [newline]] = ECrash"
    using eopt_lines_header [of s 0 False "[]" s "[l @ [newline]]"] r assms(6, 9, 10)
    by (simp add: Let_def strsep_none)
  ultimately show ?thesis
    using assms(1) eopt_where_both [OF assms(2, 3), of "progname g" f]
    by (simp add: mp_eopt_def eopt_optarg_def nl_def)
qed

theorem mp_eopt_no_equals_witness:
  "mp_eopt (\<lambda>_. Some (''[a]'' @ nl @ ''perfdata'' @ nl)) [''p''] 1 (Some ''a@f'') (mp_init [] [] [] [] []) = Inl Crash"
  using mp_eopt_no_equals [of "\<lambda>_. Some (''[a]'' @ nl @ ''perfdata'' @ nl)" "''f''" "''a''" "''perfdata''"
      "[''p'']" 1 "mp_init [] [] [] [] []"]
  by (simp add: newline_def isspace_def ccode_def)

text \<open>A scanner that plays a list of options, for the loop around \<open>getopt_long\<close>.\<close>

definition play :: "(int \<times> string option) list getopt_long" where
  "play st = (case go_hidden st of
       [] \<Rightarrow> (-1, None, st)
     | (c, a) # evs \<Rightarrow> (c, a, st\<lparr>go_hidden := evs\<rparr>))"

fun default_opt :: "int \<times> string option \<Rightarrow> mp_globals \<Rightarrow> mp_globals" where
  "default_opt (c, a) g =
     (if c = ccode (CHR ''v'') then g\<lparr>mp_verbose := to_uint32 (mp_verbose g + 1)\<rparr>
      else g\<lparr>mp_timeout := to_uint32 (to_int32 (strtol 10 (the a)))\<rparr>)"

lemma mp_getopt_defaults:
  assumes "\<forall>ev \<in> set evs. fst ev = ccode (CHR ''v'') \<or> fst ev = ccode (CHR ''t'')"
    "length evs < n" "c \<notin> ccode ` set ''?hVvt''" "c \<noteq> MP_LONGOPT_EOPT"
    "go_hidden st = evs @ (c, a) # rest"
  shows "mp_getopt n play fs help revision st g =
    Some (Inr (c, a, st\<lparr>go_hidden := rest\<rparr>, fold default_opt evs g))"
  using assms
proof (induction evs arbitrary: n st g)
  case Nil
  then obtain k where n: "n = Suc k" by (cases n) auto
  show ?case using Nil by (auto simp: n play_def ccode_def)
next
  case (Cons ev evs)
  obtain k where n: "n = Suc k" "length evs < k" using Cons.prems(2) by (cases n) auto
  have h: "fst ev = ccode (CHR ''v'') \<or> fst ev = ccode (CHR ''t'')" using Cons.prems(1) by simp
  let ?st = "st\<lparr>go_hidden := evs @ (c, a) # rest\<rparr>"
  have "mp_getopt n play fs help revision st g = mp_getopt k play fs help revision ?st (default_opt ev g)"
    using h Cons.prems(5) by (cases ev) (auto simp: n play_def ccode_def MP_LONGOPT_EOPT_def)
  then show ?case using Cons.IH [of k ?st "default_opt ev g"] Cons.prems n(2) by simp
qed

text \<open>The option loop with enough fuel handles the default options itself, counting \<open>-v\<close> and
  storing \<open>-t\<close>, in any number and order, and hands the first other option to the plugin.\<close>

theorem mp_getopt_returns:
  assumes "\<forall>ev \<in> set evs. fst ev = ccode (CHR ''v'') \<or> fst ev = ccode (CHR ''t'')"
    "length evs < n" "c \<notin> ccode ` set ''?hVvt''" "c \<noteq> MP_LONGOPT_EOPT"
    "go_hidden st = evs @ (c, a) # rest"
  shows "mp_getopt n play fs help revision st g =
    Some (Inr (c, a, st\<lparr>go_hidden := rest\<rparr>, fold default_opt evs g))"
  using assms by (rule mp_getopt_defaults)

theorem mp_getopt_returns_witness:
  "mp_getopt 3 play (\<lambda>_. None) [] [] \<lparr>go_argv = [], go_optind = 1,
      go_hidden = [(118, None), (116, Some ''30''), (72, Some ''ns1'')]\<rparr> (mp_init [] [] [] [] []) =
   Some (Inr (72, Some ''ns1'', \<lparr>go_argv = [], go_optind = 1, go_hidden = []\<rparr>,
     (mp_init [] [] [] [] [])\<lparr>mp_verbose := 1, mp_timeout := 30\<rparr>))"
proof -
  have "strtol 10 ''30'' = 30" by code_simp
  then show ?thesis
    using mp_getopt_returns [of "[(118, None), (116, Some ''30'')]" 3 72
        "\<lparr>go_argv = [], go_optind = 1, go_hidden = [(118, None), (116, Some ''30''), (72, Some ''ns1'')]\<rparr>"
        "Some ''ns1''" "[]" "\<lambda>_. None" "[]" "[]" "mp_init [] [] [] [] []"]
    by (simp add: ccode_def MP_LONGOPT_EOPT_def mp_init_def to_uint32_def to_int32_def)
qed

text \<open>\<open>--file\<close> and \<open>--message\<close> are exclusive: after any sequence of notification options that is
  not stopped with the usage text, at most one of the two is set.\<close>

fun run_notify :: "(char \<times> string) list \<Rightarrow> notify_vars \<Rightarrow> mp_globals \<Rightarrow> mp_end + notify_vars" where
  "run_notify [] n g = Inr n"
| "run_notify ((c, a) # os) n g =
     (case getopt_notify c a n g of Inl e \<Rightarrow> Inl e | Inr n' \<Rightarrow> run_notify os n' g)"

lemma run_notify_exclusive:
  assumes "run_notify os n g = Inr n'" "mp_notify_file n = None \<or> mp_notify_msg n = None"
  shows "mp_notify_file n' = None \<or> mp_notify_msg n' = None"
  using assms
  by (induction os n g rule: run_notify.induct) (auto simp: getopt_notify_def split: sum.splits if_splits)

end
