(* ===== verification/Plugin.thy ===== *)
theory Plugin
  imports MP_Perfdata MP_Options
begin

text \<open>
  What the plugins share. Every plugin has a loop over the letters and arguments that \<open>mp_getopt\<close>
  hands over (\<open>run_opts\<close>); its \<open>process_arguments\<close> runs the loop on the plugin's handler and then checks
  the requirements. The letters and arguments are a list; an option without an argument has the empty
  text. Files are a map from names to contents.

  The locale \<open>plugin_options\<close> is the contract of a handler: it keeps an invariant of the plugin's
  arguments, and when it refuses an argument the plugin ends with UNKNOWN. Each plugin interprets it.
  The locale \<open>status_report\<close> is the contract of the functions that end a plugin with a state.
\<close>

section \<open>Option loop\<close>

type_synonym 'a opt_handler = "char \<Rightarrow> string \<Rightarrow> 'a \<Rightarrow> mp_globals \<Rightarrow> mp_end + 'a"

type_synonym files = "string \<rightharpoonup> string"

fun run_opts :: "'a opt_handler \<Rightarrow> (char \<times> string) list \<Rightarrow> 'a \<Rightarrow> mp_globals \<Rightarrow> mp_end + 'a" where
  "run_opts h [] a g = Inr a"
| "run_opts h ((c, optarg) # os) a g =
     (case h c optarg a g of Inl e \<Rightarrow> Inl e | Inr a \<Rightarrow> run_opts h os a g)"

lemma run_opts_append:
  "run_opts h (os @ os') a g = (case run_opts h os a g of Inl e \<Rightarrow> Inl e | Inr a \<Rightarrow> run_opts h os' a g)"
  by (induction h os a g rule: run_opts.induct) (simp_all split: sum.split)

locale plugin_options =
  fixes handler :: "'a opt_handler"
    and args_inv :: "'a \<Rightarrow> bool"
  assumes keeps: "args_inv a \<Longrightarrow> handler c optarg a g = Inr a' \<Longrightarrow> args_inv a'"
    and refuses: "handler c optarg a g = Inl e \<Longrightarrow> exit_code e = Some STATE_UNKNOWN"
begin

lemma run_keeps: "args_inv a \<Longrightarrow> run_opts handler os a g = Inr a' \<Longrightarrow> args_inv a'"
  by (induction os arbitrary: a) (auto split: sum.splits, blast intro: keeps)

lemma run_refuses: "run_opts handler os a g = Inl e \<Longrightarrow> exit_code e = Some STATE_UNKNOWN"
  by (induction os arbitrary: a) (auto dest: refuses split: sum.splits)

end

text \<open>The shared handlers refuse with \<open>usage\<close> only.\<close>

lemma usage_code [simp]: "exit_code (usage m g) = Some STATE_UNKNOWN"
  by (simp add: usage_def)

named_theorems refuse_simps "a handler that refuses ends the plugin with UNKNOWN"

lemma getopt_host_refuses [refuse_simps]: "getopt_host v6 gai s g = Inl e \<Longrightarrow> exit_code e = Some STATE_UNKNOWN"
  by (auto simp: getopt_host_def split: if_splits)

lemma getopt_host_ip_refuses [refuse_simps]: "getopt_host_ip v6 gai s g = Inl e \<Longrightarrow> exit_code e = Some STATE_UNKNOWN"
  by (auto simp: getopt_host_ip_def split: if_splits)

lemma getopt_port_refuses [refuse_simps]: "getopt_port s g = Inl e \<Longrightarrow> exit_code e = Some STATE_UNKNOWN"
  by (auto simp: getopt_port_def split: if_splits)

lemma getopt_url_refuses [refuse_simps]: "getopt_url v6 gai s g = Inl e \<Longrightarrow> exit_code e = Some STATE_UNKNOWN"
  by (auto simp: getopt_url_def split: if_splits)

lemma getopt_wc_refuses [refuse_simps]: "getopt_wc c s t g = Inl e \<Longrightarrow> exit_code e = Some STATE_UNKNOWN"
  by (auto simp: getopt_wc_def illegal_threshold_def Let_def split: if_splits prod.splits)

lemma getopt_wc_time_refuses [refuse_simps]: "getopt_wc_time c s t g = Inl e \<Longrightarrow> exit_code e = Some STATE_UNKNOWN"
  by (auto simp: getopt_wc_time_def illegal_threshold_def Let_def split: if_splits prod.splits)

lemma getopt_wc_at_refuses [refuse_simps]: "getopt_wc_at c s t g = Inl e \<Longrightarrow> exit_code e = Some STATE_UNKNOWN"
  by (auto simp: getopt_wc_at_def illegal_threshold_def Let_def split: if_splits prod.splits)

lemma getopt_wc_time_at_refuses [refuse_simps]:
  "getopt_wc_time_at c s t g = Inl e \<Longrightarrow> exit_code e = Some STATE_UNKNOWN"
  by (auto simp: getopt_wc_time_at_def illegal_threshold_def Let_def split: if_splits prod.splits)

text \<open>Thresholds that are there hold a range, and thresholds with both ranges keep them.\<close>

definition thresholds_set :: "thresholds option \<Rightarrow> bool" where
  "thresholds_set t \<longleftrightarrow> (\<forall>x. t = Some x \<longrightarrow> th_warning x \<noteq> None \<or> th_critical x \<noteq> None)"

definition thresholds_both :: "thresholds option \<Rightarrow> bool" where
  "thresholds_both t \<longleftrightarrow> (\<exists>x. t = Some x \<and> th_warning x \<noteq> None \<and> th_critical x \<noteq> None)"

lemmas set_threshold_defs = mp_threshold_set_warning_def mp_threshold_set_critical_def
  mp_threshold_set_warning_time_def mp_threshold_set_critical_time_def th_new_def Let_def

lemmas getopt_wc_defs = getopt_wc_def getopt_wc_time_def getopt_wc_at_def getopt_wc_time_at_def
  warning_inside_def critical_inside_def

lemma thresholds_keep:
  "thresholds_set t \<Longrightarrow> getopt_wc c s t g = Inr t' \<Longrightarrow> thresholds_set t'"
  "thresholds_set t \<Longrightarrow> getopt_wc_time c s t g = Inr t' \<Longrightarrow> thresholds_set t'"
  "mp_threshold_set_warning t s m = (t', rc) \<Longrightarrow> thresholds_set t'"
  "mp_threshold_set_critical t s m = (t', rc) \<Longrightarrow> thresholds_set t'"
  by (auto simp: thresholds_set_def getopt_wc_defs set_threshold_defs
      split: if_splits prod.splits option.splits)

lemma thresholds_both_keep:
  "thresholds_both t \<Longrightarrow> getopt_wc c s t g = Inr t' \<Longrightarrow> thresholds_both t'"
  "thresholds_both t \<Longrightarrow> getopt_wc_time c s t g = Inr t' \<Longrightarrow> thresholds_both t'"
  "thresholds_both t \<Longrightarrow> getopt_wc_at c s t g = Inr t' \<Longrightarrow> thresholds_both t'"
  by (auto simp: thresholds_both_def getopt_wc_defs set_threshold_defs
      split: if_splits prod.splits option.splits)

text \<open>The first result of a loop that may end at any element.\<close>

fun first_some :: "('a \<Rightarrow> 'b option) \<Rightarrow> 'a list \<Rightarrow> 'b option" where
  "first_some f [] = None"
| "first_some f (x # xs) = (case f x of Some y \<Rightarrow> Some y | None \<Rightarrow> first_some f xs)"

lemma first_some_None: "first_some f xs = None \<longleftrightarrow> (\<forall>x \<in> set xs. f x = None)"
  by (induction xs) (auto split: option.split)

lemma first_some_SomeD: "first_some f xs = Some y \<Longrightarrow> \<exists>x \<in> set xs. f x = Some y"
  by (induction xs) (auto split: option.splits)

section \<open>Reports\<close>

text \<open>A function that ends the plugin: its state, whatever was printed and recorded before.\<close>

locale status_report =
  fixes report :: "string \<Rightarrow> mp_globals \<Rightarrow> mp_end"
    and level :: int
    and label :: string
    and sep :: string
  assumes report_text: "report msg g = Exit level (stdout g @ label @ msg @ perf_out sep g @ nl)"
begin

lemma report_code: "exit_code (report msg g) = Some level"
  by (simp add: report_text)

lemma fmt0_code: "exit_fmt0 report fmt g = Crash \<or> exit_code (exit_fmt0 report fmt g) = Some level"
  by (simp add: exit_fmt0_def report_code split: option.split)

lemma fmt0_plain: "CHR ''%'' \<notin> set fmt \<Longrightarrow> exit_fmt0 report fmt g = report fmt g"
proof -
  assume "CHR ''%'' \<notin> set fmt"
  then have "printf0 fmt = Some fmt"
    by (induction fmt rule: printf0.induct) auto
  then show ?thesis by (simp add: exit_fmt0_def)
qed

end

interpretation ok_report: status_report ok STATE_OK "''OK - ''" "''| ''"
  by unfold_locales (simp add: ok_def)

interpretation warning_report: status_report warning STATE_WARNING "''WARNING - ''" "'' | ''"
  by unfold_locales (simp add: warning_def)

interpretation critical_report: status_report critical STATE_CRITICAL "''CRITICAL - ''" "'' | ''"
  by unfold_locales (simp add: critical_def)

interpretation unknown_report: status_report unknown STATE_UNKNOWN "''UNKNOWN - ''" "'' | ''"
  by unfold_locales (simp add: unknown_def)

lemmas report_codes [simp] = ok_report.report_code warning_report.report_code
  critical_report.report_code unknown_report.report_code

lemma mp_state_simps [simp]:
  "mp_state (set_warning m g) = max STATE_WARNING (mp_state g)"
  "mp_state (set_critical m g) = max STATE_CRITICAL (mp_state g)"
  "mp_state (set_okonly m g) = mp_state g" "mp_state (mp_print s g) = mp_state g"
  by (simp_all add: warning_stack.state_add critical_stack.state_add set_okonly_def mp_print_def)

lemma mp_exit_code: "exit_code (mp_exit m g) = Some (if mp_state g = -1 then STATE_OK else mp_state g)"
  by (simp add: mp_exit_def Let_def)

lemma get_status_cases: "get_status v t \<in> {STATE_OK, STATE_WARNING, STATE_CRITICAL}"
  by (auto simp: get_status_def split: option.splits)

text \<open>Thresholds without percentages are left alone by the performance data.\<close>

definition plain_range :: "range \<Rightarrow> bool" where
  "plain_range r \<longleftrightarrow> \<not> start_percent r \<and> \<not> end_percent r"

definition no_percent :: "thresholds option \<Rightarrow> bool" where
  "no_percent t =
     (case t of
        None \<Rightarrow> True
      | Some x \<Rightarrow> pred_option plain_range (th_warning x) \<and> pred_option plain_range (th_critical x))"

lemma resolv_no_percent: "no_percent t \<Longrightarrow> mp_perfdata_percent_resolv t mx = t"
  by (auto simp: no_percent_def plain_range_def mp_perfdata_percent_resolv_def resolve_range_def Let_def pred_option_def
      split: option.splits intro!: thresholds.equality option.map_ident_strong)

lemma perfdata_thresholds:
  "no_percent t \<Longrightarrow> fst (mp_perfdata_int2 l v u t hmin mn hmax mx g) = t"
  "no_percent t \<Longrightarrow> fst (mp_perfdata_int l v u t g) = t"
  "no_percent t \<Longrightarrow> fst (mp_perfdata_float2 l f u t hmin fmn hmax fmx g) = t"
  "no_percent t \<Longrightarrow> fst (mp_perfdata_float l f u t g) = t"
  by (simp_all add: mp_perfdata_int_def mp_perfdata_int2_def mp_perfdata_float_def mp_perfdata_float2_def
      Let_def resolv_no_percent)

text \<open>What the performance data does not change.\<close>

lemma perfdata_frame [simp]:
  "mp_state (snd (mp_perfdata_int2 l v u t hmin mn hmax mx g)) = mp_state g"
  "mp_showperfdata (snd (mp_perfdata_int2 l v u t hmin mn hmax mx g)) = mp_showperfdata g"
  "mp_state (snd (mp_perfdata_int l v u t g)) = mp_state g"
  "mp_showperfdata (snd (mp_perfdata_int l v u t g)) = mp_showperfdata g"
  "mp_state (snd (mp_perfdata_float2 l f u t hmin fmn hmax fmx g)) = mp_state g"
  "mp_state (snd (mp_perfdata_float l f u t g)) = mp_state g"
  by (simp_all add: mp_perfdata_int_def mp_perfdata_int2_def mp_perfdata_float_def mp_perfdata_float2_def
      perf_append_def Let_def)

text \<open>The ranges of the default thresholds, which the plugins set from texts of the form \<open>90\<close>, \<open>3s\<close> or \<open>-90:\<close>.\<close>

lemma parse_upto:
  assumes "bound_ok m (Bound a suf)"
  shows "parse_range_string (fmt_d a @ suf) m = (spec_range m (Upto (Bound a suf)), OK)"
  using parse_threshold_text [of m False "Upto (Bound a suf)"] assms by (simp add: range_default_def)

lemma parse_above:
  assumes "bound_ok m (Bound a suf)"
  shows "parse_range_string (fmt_d a @ suf @ '':'') m = (spec_range m (Above (Bound a suf)), OK)"
  using parse_threshold_text [of m False "Above (Bound a suf)"] assms by (simp add: range_default_def)

lemma spec_range_plain [simp]: "plain_range (spec_range m s)"
  by (cases s) (simp_all add: plain_range_def range_default_def)

lemma check_upto:
  "check_range (Num s q) (spec_range m (Upto b)) \<longleftrightarrow>
    fp_val s q < of_int (min 0 (bound_num m b)) \<or> of_int (max 0 (bound_num m b)) < fp_val s q"
  by (simp add: check_range_alert range_default_def fp_lt_dnum del: fp_lt.simps fp_val.simps of_int_min of_int_max)

lemma check_above:
  "check_range (Num s q) (spec_range m (Above b)) \<longleftrightarrow> fp_val s q < of_int (bound_num m b)"
  by (simp add: check_range_alert range_default_def fp_lt_dnum del: fp_lt.simps fp_val.simps)

end
