(* ===== verification/Check_DHCP.thy ===== *)
theory Check_DHCP
  imports DHCP_Utils Plugin
begin

text \<open>
  \<^verbatim>\<open>base/check_dhcp.c\<close>: the plugin that asks for a DHCP lease.

  The options are the list of letters and arguments that \<open>mp_getopt\<close> hands over. Name resolution, the
  service data base, the socket calls and the interface are the fields of \<open>dhcp_env\<close>; the datagrams
  received are a list.
\<close>

section \<open>Program\<close>

definition check_dhcp_globals :: mp_globals where
  "check_dhcp_globals = mp_init ''check_dhcp''
     (''[-i <DEV>] [-H <HOSTNAME> [--unicast]] [--mac <MAC>]'')
     ''0.1'' ''Marius Rieder <marius.rieder@durchmesser.ch>'' ''2012''"

definition check_dhcp_print_help :: "string \<Rightarrow> string \<Rightarrow> string" where
  "check_dhcp_print_help package version =
     print_revision package version check_dhcp_globals @
     print_copyright check_dhcp_globals @
     help_lines
       [[],
        ''Check description: Check dhcp server.'',
        [],
        '' Mode 1:'',
        ''  Run without hostname to ask broadcast and accept first answer.'',
        [],
        '' Mode 2:'',
        ''  Run with hostname to ask broadcast and accept only answers from given host.'',
        [],
        '' Mode 3:'',
        ''  Run with hostname and unicast flag. Act as forwarder/redirector and ask'',
        ''  the server directly in the name of a client.'',
        []] @
     print_usage check_dhcp_globals @
     print_help_default @
     print_help_host @
     help_lines
       ['' -i, --interface=DEV'',
        ''      Network interface to use. (Default: eth0)'',
        '' -m, --mac=MAC'',
        ''      MAC Address to use. (Default: from interface)'',
        '' -u, --unicast'',
        ''      Run in unicast mode.'',
        '' -b, --broadcast'',
        ''      Run in broadcast mode.'']"

section \<open>Arguments\<close>

record dhcp_args =
  da_hostname :: "string option"
  da_mac :: "int list"
  da_maclen :: int
  da_interface :: string
  da_unicast :: bool
  da_request :: "int list"
  da_type :: int

definition dhcp_args0 :: dhcp_args where
  "dhcp_args0 = \<lparr>da_hostname = None, da_mac = replicate 16 0, da_maclen = 0, da_interface = ''eth0'',
     da_unicast = False, da_request = [0, 0, 0, 0], da_type = 0\<rparr>"

text \<open>One \<open>%hhx\<close> of \<open>sscanf\<close>: the byte and the rest, \<open>None\<close> when there is no number.\<close>

definition scan_hex8 :: "string \<Rightarrow> (int \<times> string) option" where
  "scan_hex8 s =
     (let (neg, r) = strtol_sign s;
          t = strip_0x 16 r;
          ds = takeWhile isxdigit t
      in if ds = [] \<or> strcasecmp_eq (take 2 r) ''0x'' \<and> length t = length r then None
         else Some (to_uint8 (if neg then - digits_val 16 ds else digits_val 16 ds), dropWhile isxdigit t))"

text \<open>\<open>sscanf\<close> with up to sixteen bytes between colons: the bytes converted.\<close>

fun scan_mac :: "nat \<Rightarrow> string \<Rightarrow> int list" where
  "scan_mac 0 s = []"
| "scan_mac (Suc n) s =
     (case scan_hex8 s of
        None \<Rightarrow> []
      | Some (b, r) \<Rightarrow> b # (case r of c # t \<Rightarrow> (if c = CHR '':'' then scan_mac n t else []) | [] \<Rightarrow> []))"

definition mac_count :: "string \<Rightarrow> int list \<Rightarrow> int" where
  "mac_count s bs = (if bs = [] \<and> dropWhile isspace s = [] then -1 else int (length bs))"

text \<open>\<open>inet_addr\<close> is a parameter that gives the four bytes.\<close>

definition dhcp_opt ::
    "bool \<Rightarrow> resolver \<Rightarrow> (string \<Rightarrow> int list) \<Rightarrow> char \<Rightarrow> string \<Rightarrow> dhcp_args \<Rightarrow> mp_globals \<Rightarrow> mp_end + dhcp_args" where
  "dhcp_opt v6 gai inet_addr c optarg a g =
     (if c = CHR ''H'' then
        (case getopt_host v6 gai optarg g of Inl e \<Rightarrow> Inl e | Inr h \<Rightarrow> Inr (a\<lparr>da_hostname := Some h\<rparr>))
      else if c = CHR ''i'' then Inr (a\<lparr>da_interface := optarg\<rparr>)
      else if c = CHR ''m'' then
        (let bs = scan_mac 16 optarg
         in Inr (a\<lparr>da_mac := bs @ replicate (16 - length bs) 0, da_maclen := mac_count optarg bs\<rparr>))
      else if c = CHR ''u'' then Inr (a\<lparr>da_unicast := True\<rparr>)
      else if c = CHR ''b'' then Inr (a\<lparr>da_unicast := False\<rparr>)
      else if c = CHR ''r'' then
        (if is_hostaddr v6 gai optarg then Inr (a\<lparr>da_request := inet_addr optarg\<rparr>)
         else Inl (usage ''Request option must be a ip address'' g))
      else if c = CHR ''T'' then
        (if strcasecmp_eq optarg ''offer'' then Inr (a\<lparr>da_type := DHCPOFFER\<rparr>)
         else if strcasecmp_eq optarg ''ack'' then Inr (a\<lparr>da_type := DHCPACK\<rparr>)
         else if strcasecmp_eq optarg ''nak'' then Inr (a\<lparr>da_type := DHCPNAK\<rparr>)
         else Inl (usage (''Unknown type '' @ quoted optarg) g))
      else Inr a)"

definition has_request :: "dhcp_args \<Rightarrow> bool" where
  "has_request a \<longleftrightarrow> da_request a \<noteq> [0, 0, 0, 0]"

definition dhcp_process_arguments ::
    "bool \<Rightarrow> resolver \<Rightarrow> (string \<Rightarrow> int list) \<Rightarrow> (char \<times> string) list \<Rightarrow> mp_globals \<Rightarrow> mp_end + dhcp_args" where
  "dhcp_process_arguments v6 gai inet_addr os g =
     (case run_opts (dhcp_opt v6 gai inet_addr) os dhcp_args0 g of
        Inl e \<Rightarrow> Inl e
      | Inr a \<Rightarrow>
          if da_unicast a \<and> da_hostname a = None then Inl (usage ''Unicast require hostname'' g)
          else if da_type a = 0
            then Inr (a\<lparr>da_type := (if has_request a then DHCPACK else DHCPOFFER)\<rparr>)
          else Inr a)"

section \<open>Socket\<close>

record dhcp_env =
  gethostbyname :: "string \<Rightarrow> int list option"
  bootps_port :: "int list"
  bootpc_port :: "int list"
  udp_socket :: int
  reuseaddr_ok :: bool
  broadcast_ok :: bool
  bindtodevice_ok :: bool
  bind_ok :: bool
  hwaddr :: "int list"
  ifaddr :: "int list"
  raw_sock :: int
  sendmsg_ret :: "int list \<Rightarrow> int"
  send_junk :: "int list"
  random_xid :: int
  euid :: int

text \<open>The socket, the address and port of the server and those of the client; \<open>None\<close> is the return
  of -1.\<close>

definition dhcp_setup ::
    "dhcp_env \<Rightarrow> dhcp_args \<Rightarrow> mp_globals \<Rightarrow> mp_end + (int \<times> (int list \<times> int list) \<times> (int list \<times> int list)) option" where
  "dhcp_setup env a g =
     (case (if da_unicast a then gethostbyname env (the (da_hostname a)) else Some [255, 255, 255, 255]) of
        None \<Rightarrow> Inr None
      | Some server \<Rightarrow>
          let cport = (if da_unicast a then bootps_port env else bootpc_port env)
          in if udp_socket env = -1 then Inl (critical (''Can'' @ [CHR 0x27] @ ''t open udp/ip socket'') g)
             else if \<not> reuseaddr_ok env then Inl (critical ''Set socket option failed'' g)
             else if \<not> broadcast_ok env then Inl (critical ''Set socket to broadcast mode failed'' g)
             else if \<not> bindtodevice_ok env then Inl (critical (''Bind socket to '' @ quoted (da_interface a) @ '' failed'') g)
             else if \<not> bind_ok env then Inl (critical ''Socket bind failed.'' g)
             else Inr (Some (udp_socket env, (server, bootps_port env), ([0, 0, 0, 0], cport))))"

section \<open>Request\<close>

definition dhcp_request :: "dhcp_env \<Rightarrow> dhcp_args \<Rightarrow> mp_globals \<Rightarrow> dhcp_pkt" where
  "dhcp_request env a g =
     (let mac = (if da_maclen a = 0 then take 6 (hwaddr env) @ replicate 10 0 else da_mac a);
          maclen = (if da_maclen a = 0 then 6 else da_maclen a);
          pkt = \<lparr>op = BOOTREQUEST, htype = 1, hlen = to_uint8 maclen, hops = 1, xid = random_xid env,
                 secs = 0, flags = (if da_unicast a then 0 else 0x80), ciaddr = [0, 0, 0, 0],
                 yiaddr = [0, 0, 0, 0], siaddr = [0, 0, 0, 0], giaddr = [0, 0, 0, 0], chaddr = mac,
                 sname = [], bootfile = [], opts = [], optlen = 0\<rparr>;
          pkt = (if has_request a then mp_dhcp_pkt_opt DHCPOPT_RequestIP 4 (da_request a) pkt else pkt);
          pkt = mp_dhcp_pkt_opt DHCPOPT_MessageType 1
                  [if has_request a then DHCPREQUEST else DHCPDISCOVER] pkt;
          pkt = mp_dhcp_pkt_opt DHCPOPT_Class (to_uint8 (int (length (progname g)))) (map ccode (progname g)) pkt
      in if da_unicast a then pkt\<lparr>giaddr := ifaddr env\<rparr> else pkt)"

section \<open>Answers\<close>

definition answer_ok :: "int \<Rightarrow> dhcp_pkt \<Rightarrow> mp_globals \<Rightarrow> mp_end option" where
  "answer_ok t pkt g =
     (if t = DHCPOFFER then Some (ok (''Got offer for '' @ inet_ntoa (yiaddr pkt) @ '' from '' @ sname pkt) g)
      else if t = DHCPACK then Some (ok (''Got ACK from '' @ sname pkt) g)
      else if t = DHCPNAK then Some (ok (''Got NAK from '' @ sname pkt) g)
      else None)"

definition from_host :: "string \<Rightarrow> int list \<Rightarrow> dhcp_pkt \<Rightarrow> bool" where
  "from_host hostname addr pkt =
     (case mp_dhcp_pkt_getopt pkt DHCPOPT_ServerId of
        Found i \<Rightarrow> take 4 (drop (i + 2) (opts pkt)) = addr
      | _ \<Rightarrow> hostname = sname pkt)"

text \<open>One packet: the end of the plugin, or nothing.\<close>

definition dhcp_answer :: "dhcp_args \<Rightarrow> int list option \<Rightarrow> dhcp_pkt \<Rightarrow> mp_globals \<Rightarrow> mp_end option" where
  "dhcp_answer a hostent pkt g =
     (case mp_dhcp_pkt_getopt pkt DHCPOPT_MessageType of
        Found i \<Rightarrow>
          (let t = opts pkt ! (i + 2)
           in case (da_hostname a, hostent) of
                (Some h, Some addr) \<Rightarrow> if from_host h addr pkt then answer_ok t pkt g else None
              | _ \<Rightarrow> if t = da_type a then answer_ok t pkt g else None)
      | _ \<Rightarrow> None)"

lemma recv_rest_shorter: "mp_dhcp_recv tid rs = RPkt p rs' \<Longrightarrow> length rs' < length rs"
  by (induction tid rs rule: mp_dhcp_recv.induct) (auto split: recv_verdict.splits)

function dhcp_answers ::
    "dhcp_args \<Rightarrow> int list option \<Rightarrow> int \<Rightarrow> dhcp_recv list \<Rightarrow> mp_globals \<Rightarrow> mp_end option" where
  "dhcp_answers a hostent tid rs g =
     (case mp_dhcp_recv tid rs of
        RBad \<Rightarrow> Some Crash
      | RNull _ \<Rightarrow> None
      | RPkt pkt rs' \<Rightarrow>
          (case dhcp_answer a hostent pkt g of
             Some e \<Rightarrow> Some e
           | None \<Rightarrow> dhcp_answers a hostent tid rs' g))"
  by pat_completeness auto
termination
  by (relation "measure (\<lambda>(a, h, t, rs, g). length rs)") (auto simp: recv_rest_shorter)

declare dhcp_answers.simps [simp del]

definition dhcp_no_answer :: "dhcp_args \<Rightarrow> mp_globals \<Rightarrow> mp_end" where
  "dhcp_no_answer a g =
     (case da_hostname a of
        Some h \<Rightarrow> critical (''Got no DHCP reply from '' @ h) g
      | None \<Rightarrow>
          if da_type a = DHCPOFFER then ok ''No DHCP Offer received.'' g
          else if da_type a = DHCPACK then ok ''No DHCP Ack received.'' g
          else if da_type a = DHCPNAK then ok ''No DHCP Nak received.'' g
          else critical ''You should never reach this point.'' g)"

definition check_dhcp_main ::
    "bool \<Rightarrow> resolver \<Rightarrow> (string \<Rightarrow> int list) \<Rightarrow> dhcp_env \<Rightarrow> (char \<times> string) list \<Rightarrow> dhcp_recv list \<Rightarrow> mp_globals \<Rightarrow> mp_end" where
  "check_dhcp_main v6 gai inet_addr env os rs g =
     (case dhcp_process_arguments v6 gai inet_addr os g of
        Inl e \<Rightarrow> e
      | Inr a \<Rightarrow>
          (case mp_noneroot_die (euid env) g of
             Inl e \<Rightarrow> e
           | Inr g \<Rightarrow>
               let hostent = (case da_hostname a of None \<Rightarrow> None | Some h \<Rightarrow> gethostbyname env h)
               in if da_hostname a \<noteq> None \<and> hostent = None
                  then unknown (''Host '' @ the (da_hostname a) @ '' not found'') g
                  else
                    (case dhcp_setup env a g of
                       Inl e \<Rightarrow> e
                     | Inr None \<Rightarrow> warning ''socket setup failed'' g
                     | Inr (Some (sock, server, client)) \<Rightarrow>
                         if mp_dhcp_send (sendmsg_ret env) (raw_sock env) (send_junk env) (dhcp_request env a g)
                              client server (da_unicast a) < 0
                         then warning ''DHCP packet not sent'' g
                         else (case dhcp_answers a hostent (random_xid env) rs g of
                                 Some e \<Rightarrow> e
                               | None \<Rightarrow> dhcp_no_answer a g))))"

section \<open>What the plugin reports\<close>

text \<open>The packets the answer loop sees: those \<open>mp_dhcp_recv\<close> accepts before the first failing call.\<close>

fun accepted :: "int \<Rightarrow> dhcp_recv list \<Rightarrow> dhcp_pkt list" where
  "accepted tid [] = []"
| "accepted tid (RecvError # rs) = []"
| "accepted tid (Recv pkt cookie len # rs) =
     (case recv_check tid pkt cookie len of
        Accept p \<Rightarrow> p # accepted tid rs
      | Drop \<Rightarrow> accepted tid rs
      | BadRead \<Rightarrow> [])"

fun no_bad_read :: "int \<Rightarrow> dhcp_recv list \<Rightarrow> bool" where
  "no_bad_read tid [] = True"
| "no_bad_read tid (RecvError # rs) = True"
| "no_bad_read tid (Recv pkt cookie len # rs) =
     (recv_check tid pkt cookie len \<noteq> BadRead \<and> no_bad_read tid rs)"

lemma dhcp_answers_first:
  "no_bad_read tid rs \<Longrightarrow>
   dhcp_answers a h tid rs g = first_some (\<lambda>p. dhcp_answer a h p g) (accepted tid rs)"
proof (induction tid rs rule: accepted.induct)
  case (1 tid)
  show ?case by (subst dhcp_answers.simps) simp
next
  case (2 tid rs)
  show ?case by (subst dhcp_answers.simps) simp
next
  case (3 tid pkt cookie len rs)
  show ?case
  proof (cases "recv_check tid pkt cookie len")
    case (Accept p)
    then show ?thesis
      using 3 by (subst dhcp_answers.simps) (simp split: option.split)
  next
    case Drop
    then show ?thesis
      using 3 dhcp_answers.simps [of a h tid rs g]
      by (subst dhcp_answers.simps) simp
  qed (use 3 in simp)
qed

text \<open>The message type of a packet, and whether it is one of the three the plugin reports.\<close>

definition answer_type :: "dhcp_pkt \<Rightarrow> int option" where
  "answer_type pkt =
     (case mp_dhcp_pkt_getopt pkt DHCPOPT_MessageType of Found i \<Rightarrow> Some (opts pkt ! (i + 2)) | _ \<Rightarrow> None)"

definition is_answer :: "dhcp_args \<Rightarrow> int list \<Rightarrow> dhcp_pkt \<Rightarrow> bool" where
  "is_answer a addr pkt =
     (case da_hostname a of
        Some h \<Rightarrow> from_host h addr pkt \<and> answer_type pkt \<in> {Some DHCPOFFER, Some DHCPACK, Some DHCPNAK}
      | None \<Rightarrow> answer_type pkt = Some (da_type a))"

lemma answer_ok_code:
  "(answer_ok t p g = None) = (t \<notin> {DHCPOFFER, DHCPACK, DHCPNAK})"
  "answer_ok t p g = Some e \<Longrightarrow> exit_code e = Some STATE_OK"
  by (auto simp: answer_ok_def ok_def split: if_splits)

lemma dhcp_answer_cases:
  assumes "da_type a \<in> {DHCPOFFER, DHCPACK, DHCPNAK}" "da_hostname a \<noteq> None \<longrightarrow> h = Some addr"
  shows "(dhcp_answer a h p g = None) = (\<not> is_answer a addr p)"
    "dhcp_answer a h p g = Some e \<Longrightarrow> exit_code e = Some STATE_OK"
proof -
  show "(dhcp_answer a h p g = None) = (\<not> is_answer a addr p)"
    using assms
    by (cases "da_hostname a"; cases "mp_dhcp_pkt_getopt p DHCPOPT_MessageType")
      (auto simp: dhcp_answer_def is_answer_def answer_type_def Let_def answer_ok_code(1) simp del: not_None_eq)
  show "dhcp_answer a h p g = Some e \<Longrightarrow> exit_code e = Some STATE_OK"
    using answer_ok_code(2)
    by (auto simp: dhcp_answer_def Let_def split: option.splits opt_result.splits if_splits)
qed

text \<open>The handler keeps the type one of the three answers, once it is set.\<close>

definition dhcp_args_ok :: "dhcp_args \<Rightarrow> bool" where
  "dhcp_args_ok a \<longleftrightarrow> da_type a \<in> {0, DHCPOFFER, DHCPACK, DHCPNAK} \<and> length (da_mac a) = 16"

lemma scan_mac_length: "length (scan_mac n s) \<le> n"
  by (induction n s rule: scan_mac.induct) (auto split: option.splits list.splits)

interpretation dhcp_options: plugin_options "dhcp_opt v6 gai inet_addr" dhcp_args_ok
  for v6 gai inet_addr
proof
  fix a a' :: dhcp_args and c s g
  assume "dhcp_args_ok a" "dhcp_opt v6 gai inet_addr c s a g = Inr a'"
  then show "dhcp_args_ok a'"
    using scan_mac_length [of 16 s]
    by (auto simp: dhcp_args_ok_def dhcp_opt_def Let_def split: if_splits sum.splits)
next
  fix a c s g e
  assume "dhcp_opt v6 gai inet_addr c s a g = Inl e"
  then show "exit_code e = Some STATE_UNKNOWN"
    by (auto simp: dhcp_opt_def Let_def refuse_simps split: if_splits sum.splits)
qed

lemma dhcp_process_type:
  assumes "dhcp_process_arguments v6 gai inet_addr os g = Inr a"
  shows "da_type a \<in> {DHCPOFFER, DHCPACK, DHCPNAK}"
proof -
  obtain b where b: "run_opts (dhcp_opt v6 gai inet_addr) os dhcp_args0 g = Inr b"
    using assms by (auto simp: dhcp_process_arguments_def split: sum.splits)
  have "dhcp_args_ok b"
    using dhcp_options.run_keeps [OF _ b] by (simp add: dhcp_args_ok_def dhcp_args0_def)
  then show ?thesis
    using assms b by (auto simp: dhcp_process_arguments_def dhcp_args_ok_def split: if_splits)
qed


definition env0 :: dhcp_env where
  "env0 = \<lparr>gethostbyname = (\<lambda>h. Some [10, 0, 0, 1]), bootps_port = [0, 67], bootpc_port = [0, 68], udp_socket = 3,
     reuseaddr_ok = True, broadcast_ok = True, bindtodevice_ok = True, bind_ok = True, hwaddr = [2, 0, 0, 0, 0, 1],
     ifaddr = [10, 0, 0, 2], raw_sock = 4, sendmsg_ret = (\<lambda>_. 300), send_junk = replicate 42 0, random_xid = 7,
     euid = 0\<rparr>"


end
