(* ===== verification/Check_File.thy ===== *)
theory Check_File
  imports Plugin
begin

unbundle bit_operations_syntax

text \<open>
  \<^verbatim>\<open>base/check_file.c\<close>: age, size, owner, group and permissions of a file.

  \<open>lstat\<close>, the user and group data bases and the clock are parameters. \<open>check_access\<close> is a state machine
  over the characters of the access string, \<open>acc_step\<close> its step.
\<close>

section \<open>Program\<close>

definition check_file_globals :: mp_globals where
  "check_file_globals = mp_init ''check_file''
     (''-f <FILE> [-w <warning age>] [-c <critical age>]'')
     ''0.1'' ''Marius Rieder <marius.rieder@durchmesser.ch>'' ''2010''"

definition check_file_print_help :: "string \<Rightarrow> string \<Rightarrow> string" where
  "check_file_print_help package version =
     print_revision package version check_file_globals @
     print_copyright check_file_globals @
     help_lines
       [[],
        ''Check description: Check age, size, owner, group and permission property of a file.'',
        []] @
     print_usage check_file_globals @
     print_help_default @
     help_lines
       ['' -f, --file=filename'',
        ''      The file to test.'',
        '' -w, --warning=time[d|h|m|s]'',
        ''      Return warning if the file age exceed this range.'',
        '' -c, --critical=time[d|h|m|s]'',
        ''      Return critical if the file age exceed this range.'',
        '' -W=size'',
        ''      Return warning if the file size exceed this range.'',
        '' -C=size'',
        ''      Return critical if the file size exceed this range.'',
        '' -o, --owner=uanme|uid'',
        ''      Return critical if the file don'' @ [CHR 0x27] @ ''t belong to the user.'',
        '' -g, --group=gname|gid'',
        ''      Return critical if the file don'' @ [CHR 0x27] @ ''t belong to the group.'',
        '' -a, --access=accessstring'',
        ''      Return critical if the file permission don'' @ [CHR 0x27] @ ''t match the accessstring.'',
        [],
        ''Access String Example:'',
        '' u+r  => Check if file owner can read the file.'',
        '' g=rx => Check if group can read, execute but write.'',
        '' o-rw => Check if others can'' @ [CHR 0x27] @ ''t read nor write.'']"

section \<open>Arguments\<close>

record file_args =
  fa_filename :: "string option"
  fa_ownername :: "string option"
  fa_groupname :: "string option"
  fa_accessstring :: "string option"
  fa_age_thresholds :: "thresholds option"
  fa_size_thresholds :: "thresholds option"

definition file_args0 :: file_args where
  "file_args0 = \<lparr>fa_filename = None, fa_ownername = None, fa_groupname = None, fa_accessstring = None,
     fa_age_thresholds = None, fa_size_thresholds = None\<rparr>"

definition file_opt :: "file_args opt_handler" where
  "file_opt c optarg a g =
     (case getopt_wc_time c optarg (fa_age_thresholds a) g of
        Inl e \<Rightarrow> Inl e
      | Inr t \<Rightarrow>
          let a = a\<lparr>fa_age_thresholds := t\<rparr>
          in if c = CHR ''f'' then Inr (a\<lparr>fa_filename := Some optarg\<rparr>)
             else if c = CHR ''o'' then Inr (a\<lparr>fa_ownername := Some optarg\<rparr>)
             else if c = CHR ''g'' then Inr (a\<lparr>fa_groupname := Some optarg\<rparr>)
             else if c = CHR ''a'' then Inr (a\<lparr>fa_accessstring := Some optarg\<rparr>)
             else if c = CHR ''W'' then
               (case mp_threshold_set_warning (fa_size_thresholds a) optarg BISI of
                  (s, rc) \<Rightarrow> if rc = ERROR then Inl (usage (''Illegal -W argument '' @ quoted optarg @ ''.'') g)
                             else Inr (a\<lparr>fa_size_thresholds := s\<rparr>))
             else if c = CHR ''C'' then
               (case mp_threshold_set_critical (fa_size_thresholds a) optarg BISI of
                  (s, rc) \<Rightarrow> if rc = ERROR then Inl (usage (''Illegal -C argument '' @ quoted optarg @ ''.'') g)
                             else Inr (a\<lparr>fa_size_thresholds := s\<rparr>))
             else Inr a)"

definition file_process_arguments :: "(char \<times> string) list \<Rightarrow> mp_globals \<Rightarrow> mp_end + file_args" where
  "file_process_arguments os g =
     (case run_opts file_opt os file_args0 g of
        Inl e \<Rightarrow> Inl e
      | Inr a \<Rightarrow> if fa_filename a = None then Inl (usage ''Filename is mandatory.'' g) else Inr a)"

section \<open>Access strings\<close>

definition S_IRWXU :: int where "S_IRWXU = 448"
definition S_IRWXG :: int where "S_IRWXG = 56"
definition S_IRWXO :: int where "S_IRWXO = 7"
definition S_IRALL :: int where "S_IRALL = 292"
definition S_IWALL :: int where "S_IWALL = 146"
definition S_IXALL :: int where "S_IXALL = 73"

lemmas mode_defs = S_IRWXU_def S_IRWXG_def S_IRWXO_def S_IRALL_def S_IWALL_def S_IXALL_def

record access_st =
  acc_state :: int
  subject_mask :: int
  mask_function :: int
  access_mask :: int

definition access0 :: access_st where
  "access0 = \<lparr>acc_state = 0, subject_mask = 0, mask_function = 0, access_mask = 0\<rparr>"

text \<open>The test of one clause; the three branches of \<open>mask_function\<close>.\<close>

definition mask_ok :: "int \<Rightarrow> access_st \<Rightarrow> bool" where
  "mask_ok fmode s =
     (let m = access_mask s AND subject_mask s
      in if mask_function s = -1 then fmode AND m = 0
         else if mask_function s = 0 then fmode AND subject_mask s = m
         else if mask_function s = 1 then fmode AND m = m
         else True)"

datatype access_result = AccReturn int | AccIllegal

definition is_rwx :: "char \<Rightarrow> bool" where
  "is_rwx c \<longleftrightarrow> c = CHR ''r'' \<or> c = CHR ''w'' \<or> c = CHR ''x''"

text \<open>The state 0: subjects and the operator. \<open>None\<close> is the call of \<open>unknown\<close>.\<close>

definition acc_subject :: "char \<Rightarrow> access_st \<Rightarrow> access_st option" where
  "acc_subject c s =
     (if c = CHR ''u'' then Some (s\<lparr>subject_mask := subject_mask s OR S_IRWXU\<rparr>)
      else if c = CHR ''g'' then Some (s\<lparr>subject_mask := subject_mask s OR S_IRWXG\<rparr>)
      else if c = CHR ''o'' then Some (s\<lparr>subject_mask := subject_mask s OR S_IRWXO\<rparr>)
      else if c = CHR ''-'' then Some (s\<lparr>mask_function := -1, acc_state := acc_state s + 1\<rparr>)
      else if c = CHR ''+'' then Some (s\<lparr>mask_function := 1, acc_state := acc_state s + 1\<rparr>)
      else if c = CHR ''='' then Some (s\<lparr>mask_function := 0, acc_state := acc_state s + 1\<rparr>)
      else None)"

definition acc_perm :: "char \<Rightarrow> access_st \<Rightarrow> access_st" where
  "acc_perm c s =
     (if c = CHR ''r'' then s\<lparr>access_mask := access_mask s OR S_IRALL\<rparr>
      else if c = CHR ''w'' then s\<lparr>access_mask := access_mask s OR S_IWALL\<rparr>
      else if c = CHR ''x'' then s\<lparr>access_mask := access_mask s OR S_IXALL\<rparr>
      else s)"

definition acc_step :: "int \<Rightarrow> char \<Rightarrow> access_st \<Rightarrow> access_result + access_st" where
  "acc_step fmode c s =
     (let ends = (acc_state s = 1 \<and> \<not> is_rwx c)
      in if ends \<and> \<not> mask_ok fmode s then Inl (AccReturn (-1))
         else let s = (if ends then access0 else s)
              in case (if acc_state s = 0 then acc_subject c s else Some s) of
                   None \<Rightarrow> Inl AccIllegal
                 | Some s \<Rightarrow> Inr (if acc_state s = 1 then acc_perm c s else s))"

fun acc_loop :: "int \<Rightarrow> string \<Rightarrow> access_st \<Rightarrow> access_result" where
  "acc_loop fmode [] s = AccReturn (if mask_ok fmode s then 0 else -1)"
| "acc_loop fmode (c # cs) s = (case acc_step fmode c s of Inl r \<Rightarrow> r | Inr s \<Rightarrow> acc_loop fmode cs s)"

definition check_access :: "string \<Rightarrow> int \<Rightarrow> access_result" where
  "check_access accessstring fmode = acc_loop fmode accessstring access0"

section \<open>Main\<close>

record file_stat =
  st_uid :: int
  st_gid :: int
  st_mtime :: int
  st_size :: int
  st_mode :: int

definition fmt_u :: "int \<Rightarrow> string" where
  "fmt_u x = fmt_d (to_uint32 x)"

definition file_trace :: "string \<Rightarrow> file_stat \<Rightarrow> mp_globals \<Rightarrow> mp_globals" where
  "file_trace filename st g =
     (if 0 < mp_verbose g
      then mp_print (help_lines
             [''Stat for '' @ filename, '' UID:    '' @ fmt_d (to_int32 (st_uid st)),
              '' GID:    '' @ fmt_d (to_int32 (st_gid st)), '' MTIME:  '' @ fmt_u (st_mtime st),
              '' Size:   '' @ fmt_u (st_size st)]) g
      else g)"

definition file_threshold :: "string \<Rightarrow> thresholds option \<Rightarrow> int \<Rightarrow> mp_globals \<Rightarrow> mp_globals" where
  "file_threshold what t v g =
     (if t = None then g
      else let status = get_status (dbl_of_int v) t
           in if status = STATE_WARNING then set_warning (what @ '' warning'') g
              else if status = STATE_CRITICAL then set_critical (what @ '' critical'') g
              else g)"

text \<open>Owner and group: the number or the entry of the data base; \<open>msg_num\<close> is the message of the numeric
  branch, \<open>msg\<close> that of the other one.\<close>

definition file_id ::
    "string \<Rightarrow> string \<Rightarrow> string \<Rightarrow> (string \<rightharpoonup> int) \<Rightarrow> string option \<Rightarrow> int \<Rightarrow> mp_globals \<Rightarrow> mp_globals" where
  "file_id msg_num msg label db name actual g =
     (case name of
        None \<Rightarrow> g
      | Some n \<Rightarrow>
          if is_integer (Some n)
          then (if actual \<noteq> to_uint32 (strtol 10 n) then set_critical msg_num g else g)
          else
            (let g = (case db n of
                        Some u \<Rightarrow> (if mp_verbose g \<noteq> 0
                                   then mp_print (''Resolv '' @ label @ '': '' @ n @ '' => '' @ fmt_u u @ nl) g else g)
                      | None \<Rightarrow> g)
             in if db n \<noteq> Some actual then set_critical msg g else g))"

definition check_file_main ::
    "(string \<rightharpoonup> file_stat) \<Rightarrow> (string \<rightharpoonup> int) \<Rightarrow> (string \<rightharpoonup> int) \<Rightarrow> int \<Rightarrow> (char \<times> string) list \<Rightarrow> mp_globals
     \<Rightarrow> mp_end" where
  "check_file_main lstat getpwnam getgrnam now os g =
     (case file_process_arguments os g of
        Inl e \<Rightarrow> e
      | Inr a \<Rightarrow>
          let filename = the (fa_filename a)
          in case lstat filename of
               None \<Rightarrow> critical (''Stat '' @ quoted filename @ '' failed.'') g
             | Some st \<Rightarrow>
                 let g = file_trace filename st g;
                     g = file_threshold ''age'' (fa_age_thresholds a) (now - st_mtime st) g;
                     g = file_threshold ''size'' (fa_size_thresholds a) (st_size st) g;
                     g = file_id ''owner critcal'' ''owner critical'' ''UID'' getpwnam (fa_ownername a) (st_uid st) g;
                     g = file_id ''group critical'' ''group critical'' ''GID'' getgrnam (fa_groupname a) (st_gid st) g
                 in case (case fa_accessstring a of
                            None \<Rightarrow> AccReturn 0 | Some s \<Rightarrow> check_access s (st_mode st)) of
                      AccIllegal \<Rightarrow> unknown (''Illegal access string: '' @ the (fa_accessstring a)) g
                    | AccReturn r \<Rightarrow>
                        let g = (if r \<noteq> 0 then set_critical ''access critical'' g else g)
                        in mp_exit (filename @ '': '') (set_okonly ''Everithing ok.'' g))"

section \<open>What an access string means\<close>

datatype who = User | Group | Other
datatype perm = Read | Write | Exec
datatype acc_op = Grant | Deny | Exactly
datatype clause = Clause "who list" acc_op "perm list"

fun who_char :: "who \<Rightarrow> char" where
  "who_char User = CHR ''u''" | "who_char Group = CHR ''g''" | "who_char Other = CHR ''o''"

fun op_char :: "acc_op \<Rightarrow> char" where
  "op_char Grant = CHR ''+''" | "op_char Deny = CHR ''-''" | "op_char Exactly = CHR ''=''"

fun perm_char :: "perm \<Rightarrow> char" where
  "perm_char Read = CHR ''r''" | "perm_char Write = CHR ''w''" | "perm_char Exec = CHR ''x''"

fun clause_text :: "clause \<Rightarrow> string" where
  "clause_text (Clause ws opr ps) = map who_char ws @ op_char opr # map perm_char ps"

text \<open>The mode bit of a permission.\<close>

fun perm_bit :: "who \<Rightarrow> perm \<Rightarrow> nat" where
  "perm_bit w p = (case w of User \<Rightarrow> 6 | Group \<Rightarrow> 3 | Other \<Rightarrow> 0) + (case p of Read \<Rightarrow> 2 | Write \<Rightarrow> 1 | Exec \<Rightarrow> 0)"

definition granted :: "int \<Rightarrow> who \<Rightarrow> perm \<Rightarrow> bool" where
  "granted fmode w p \<longleftrightarrow> bit fmode (perm_bit w p)"

fun clause_holds :: "int \<Rightarrow> clause \<Rightarrow> bool" where
  "clause_holds fmode (Clause ws Grant ps) = (\<forall>w \<in> set ws. \<forall>p \<in> set ps. granted fmode w p)"
| "clause_holds fmode (Clause ws Deny ps) = (\<forall>w \<in> set ws. \<forall>p \<in> set ps. \<not> granted fmode w p)"
| "clause_holds fmode (Clause ws Exactly ps) = (\<forall>w \<in> set ws. \<forall>p. granted fmode w p \<longleftrightarrow> p \<in> set ps)"

subsection \<open>Masks and bits\<close>

fun who_mask :: "who \<Rightarrow> int" where
  "who_mask User = S_IRWXU" | "who_mask Group = S_IRWXG" | "who_mask Other = S_IRWXO"

fun perm_mask :: "perm \<Rightarrow> int" where
  "perm_mask Read = S_IRALL" | "perm_mask Write = S_IWALL" | "perm_mask Exec = S_IXALL"

fun op_fun :: "acc_op \<Rightarrow> int" where
  "op_fun Grant = 1" | "op_fun Deny = -1" | "op_fun Exactly = 0"

lemma mode_bits:
  "S_IRWXU = 2 ^ 8 OR 2 ^ 7 OR 2 ^ 6" "S_IRWXG = 2 ^ 5 OR 2 ^ 4 OR 2 ^ 3" "S_IRWXO = 2 ^ 2 OR 2 ^ 1 OR 2 ^ 0"
  "S_IRALL = 2 ^ 8 OR 2 ^ 5 OR 2 ^ 2" "S_IWALL = 2 ^ 7 OR 2 ^ 4 OR 2 ^ 1" "S_IXALL = 2 ^ 6 OR 2 ^ 3 OR 2 ^ 0"
  by (simp_all add: mode_defs)

lemma perm_bit_inj: "perm_bit w p = perm_bit w' p' \<longleftrightarrow> w = w' \<and> p = p'"
  by (cases w; cases w'; cases p; cases p') simp_all

lemma ex_perm: "(\<exists>p. P p) \<longleftrightarrow> P Read \<or> P Write \<or> P Exec"
  by (metis perm.exhaust)

lemma ex_who: "(\<exists>w. P w) \<longleftrightarrow> P User \<or> P Group \<or> P Other"
  by (metis who.exhaust)

lemma mode_bit_iff:
  "bit S_IRWXU n \<longleftrightarrow> n \<in> {6, 7, 8}" "bit S_IRWXG n \<longleftrightarrow> n \<in> {3, 4, 5}" "bit S_IRWXO n \<longleftrightarrow> n \<in> {0, 1, 2}"
  "bit S_IRALL n \<longleftrightarrow> n \<in> {2, 5, 8}" "bit S_IWALL n \<longleftrightarrow> n \<in> {1, 4, 7}" "bit S_IXALL n \<longleftrightarrow> n \<in> {0, 3, 6}"
  by (simp_all only: mode_bits bit_or_iff bit_exp_iff) auto

lemma bit_who_mask: "bit (who_mask w) n \<longleftrightarrow> (\<exists>p. n = perm_bit w p)"
  by (cases w) (auto simp: ex_perm mode_bit_iff)

lemma bit_perm_mask: "bit (perm_mask p) n \<longleftrightarrow> (\<exists>w. n = perm_bit w p)"
  by (cases p) (auto simp: ex_who mode_bit_iff)

definition or_all :: "int \<Rightarrow> int list \<Rightarrow> int" where
  "or_all m ms = fold (\<lambda>x a. a OR x) ms m"

lemma bit_or_all: "bit (or_all m ms) n \<longleftrightarrow> bit m n \<or> (\<exists>x \<in> set ms. bit x n)"
  by (induction ms arbitrary: m) (auto simp: or_all_def bit_or_iff)

abbreviation whos :: "who list \<Rightarrow> int" where "whos ws \<equiv> or_all 0 (map who_mask ws)"
abbreviation perms :: "perm list \<Rightarrow> int" where "perms ps \<equiv> or_all 0 (map perm_mask ps)"

lemma bit_whos: "bit (whos ws) (perm_bit w p) \<longleftrightarrow> w \<in> set ws"
  by (auto simp: bit_or_all bit_who_mask perm_bit_inj simp del: perm_bit.simps)

lemma bit_perms: "bit (perms ps) (perm_bit w p) \<longleftrightarrow> p \<in> set ps"
  by (auto simp: bit_or_all bit_perm_mask perm_bit_inj simp del: perm_bit.simps)

text \<open>Below the subject mask a comparison of masks is a comparison at the nine mode bits.\<close>

lemma mode_eq_iff:
  assumes "\<And>n. bit a n \<or> bit b n \<Longrightarrow> bit (whos ws) n"
  shows "a = b \<longleftrightarrow> (\<forall>w \<in> set ws. \<forall>p. bit a (perm_bit w p) \<longleftrightarrow> bit b (perm_bit w p))" (is "_ \<longleftrightarrow> ?R")
proof
  assume R: ?R
  have "bit a n = bit b n" for n
  proof (cases "bit (whos ws) n")
    case True
    then obtain w p where "n = perm_bit w p" "w \<in> set ws"
      by (auto simp: bit_or_all bit_who_mask simp del: perm_bit.simps)
    then show ?thesis using R by blast
  qed (use assms in blast)
  then show "a = b" by (simp add: bit_eq_iff)
qed simp

definition clause_st :: "who list \<Rightarrow> acc_op \<Rightarrow> perm list \<Rightarrow> access_st" where
  "clause_st ws opr ps = \<lparr>acc_state = 1, subject_mask = whos ws, mask_function = op_fun opr, access_mask = perms ps\<rparr>"

lemma mask_ok_clause: "mask_ok fmode (clause_st ws opr ps) = clause_holds fmode (Clause ws opr ps)"
proof -
  note bits = bit_and_iff bit_whos bit_perms granted_def
  have 1: "(fmode AND (perms ps AND whos ws) = 0) = (\<forall>w \<in> set ws. \<forall>p. \<not> (granted fmode w p \<and> p \<in> set ps))"
    by (rule trans [OF mode_eq_iff [of _ _ ws]]) (simp_all add: bits del: perm_bit.simps)
  have 2: "(fmode AND whos ws = perms ps AND whos ws) = (\<forall>w \<in> set ws. \<forall>p. granted fmode w p = (p \<in> set ps))"
    by (rule trans [OF mode_eq_iff [of _ _ ws]]) (auto simp add: bits simp del: perm_bit.simps)
  have 3: "(fmode AND (perms ps AND whos ws) = perms ps AND whos ws) =
      (\<forall>w \<in> set ws. \<forall>p. p \<in> set ps \<longrightarrow> granted fmode w p)"
    by (rule trans [OF mode_eq_iff [of _ _ ws]]) (auto simp add: bits simp del: perm_bit.simps)
  show ?thesis
    by (cases opr) (auto simp: clause_st_def mask_ok_def Let_def 1 2 3)
qed

subsection \<open>Runs of the machine\<close>

lemma acc_loop_whos:
  "acc_state s = 0 \<Longrightarrow>
   acc_loop fmode (map who_char ws @ r) s =
     acc_loop fmode r (s\<lparr>subject_mask := or_all (subject_mask s) (map who_mask ws)\<rparr>)"
proof (induction ws arbitrary: s)
  case (Cons w ws)
  have "acc_step fmode (who_char w) s = Inr (s\<lparr>subject_mask := subject_mask s OR who_mask w\<rparr>)"
    using Cons.prems by (cases w) (simp_all add: acc_step_def acc_subject_def)
  with Cons show ?case by (simp add: or_all_def)
qed (simp add: or_all_def)

lemma acc_loop_perms:
  "acc_state s = 1 \<Longrightarrow>
   acc_loop fmode (map perm_char ps @ r) s =
     acc_loop fmode r (s\<lparr>access_mask := or_all (access_mask s) (map perm_mask ps)\<rparr>)"
proof (induction ps arbitrary: s)
  case (Cons p ps)
  have "acc_step fmode (perm_char p) s = Inr (s\<lparr>access_mask := access_mask s OR perm_mask p\<rparr>)"
    using Cons.prems by (cases p) (simp_all add: acc_step_def acc_perm_def is_rwx_def)
  with Cons show ?case by (simp add: or_all_def)
qed (simp add: or_all_def)

lemma acc_step_op:
  "acc_state s = 0 \<Longrightarrow> acc_step fmode (op_char opr) s = Inr (s\<lparr>mask_function := op_fun opr, acc_state := 1\<rparr>)"
  by (cases opr) (simp_all add: acc_step_def acc_subject_def acc_perm_def)

lemma acc_loop_clause:
  "acc_loop fmode (clause_text (Clause ws opr ps) @ r) access0 = acc_loop fmode r (clause_st ws opr ps)"
  by (simp add: acc_loop_whos acc_loop_perms acc_step_op access0_def clause_st_def)

lemma acc_loop_next:
  assumes "\<not> is_rwx c"
  shows "acc_loop fmode (c # r) (clause_st ws opr ps) =
    (if clause_holds fmode (Clause ws opr ps) then acc_loop fmode (c # r) access0 else AccReturn (-1))"
proof -
  have "acc_state (clause_st ws opr ps) = 1" "acc_state access0 = 0"
    by (simp_all add: clause_st_def access0_def)
  with assms show ?thesis
    by (simp add: acc_step_def mask_ok_clause flip: mask_ok_clause)
qed

definition access_text :: "clause list \<Rightarrow> string" where
  "access_text cs = concat (map clause_text cs)"

lemma clause_text_head: "\<exists>c r. clause_text x = c # r \<and> \<not> is_rwx c"
proof (cases x)
  case (Clause ws opr ps)
  show ?thesis
  proof (cases ws)
    case Nil
    then show ?thesis using Clause by (cases opr) (simp_all add: is_rwx_def)
  next
    case (Cons w ws')
    then show ?thesis using Clause by (cases w) (simp_all add: is_rwx_def)
  qed
qed

lemma acc_loop_clauses:
  "acc_loop fmode (access_text cs @ r) (clause_st ws opr ps) =
    (if cs = [] then acc_loop fmode r (clause_st ws opr ps)
     else if clause_holds fmode (Clause ws opr ps)
       then acc_loop fmode (access_text cs @ r) access0 else AccReturn (-1))"
proof (cases cs)
  case (Cons x xs)
  obtain c t where "clause_text x = c # t" "\<not> is_rwx c"
    using clause_text_head by blast
  then show ?thesis by (simp add: Cons access_text_def acc_loop_next del: acc_loop.simps)
qed (simp add: access_text_def)

definition illegal_rest :: "string \<Rightarrow> bool" where
  "illegal_rest r \<longleftrightarrow> r \<noteq> [] \<and> hd r \<notin> set ''ugo+-=rwx''"

lemma illegal_access0:
  "illegal_rest r \<Longrightarrow> acc_loop fmode r access0 = AccIllegal"
  by (cases r) (auto simp: illegal_rest_def acc_step_def acc_subject_def access0_def)

lemma acc_loop_text:
  "r = [] \<or> illegal_rest r \<Longrightarrow>
   acc_loop fmode (access_text cs @ r) access0 =
     (if list_all (clause_holds fmode) cs then (if r = [] then AccReturn 0 else AccIllegal) else AccReturn (-1))"
proof (induction cs)
  case Nil
  then show ?case
    using illegal_access0 [of r fmode] by (auto simp: access_text_def mask_ok_def access0_def)
next
  case (Cons x xs)
  obtain ws opr ps where x: "x = Clause ws opr ps" by (cases x)
  have last: "acc_loop fmode r (clause_st ws opr ps) =
      (if clause_holds fmode x then (if r = [] then AccReturn 0 else AccIllegal) else AccReturn (-1))"
  proof (cases r)
    case Nil
    then show ?thesis by (simp add: mask_ok_clause x)
  next
    case (Cons c t)
    moreover from this have "\<not> is_rwx c" "illegal_rest r"
      using \<open>r = [] \<or> illegal_rest r\<close> by (auto simp: illegal_rest_def is_rwx_def)
    ultimately show ?thesis
      using acc_loop_next [of c fmode t ws opr ps] illegal_access0 [of r fmode] by (simp add: x del: acc_loop.simps)
  qed
  have "acc_loop fmode (access_text (x # xs) @ r) access0 = acc_loop fmode (access_text xs @ r) (clause_st ws opr ps)"
    using acc_loop_clause [of fmode ws opr ps "access_text xs @ r"] by (simp add: x access_text_def del: clause_text.simps)
  also have "\<dots> = (if list_all (clause_holds fmode) (x # xs) then (if r = [] then AccReturn 0 else AccIllegal)
      else AccReturn (-1))"
    using Cons last by (subst acc_loop_clauses) (auto simp: x access_text_def)
  finally show ?case .
qed

text \<open>C16: An access string means what its clauses say. For a sequence of clauses, each a list of subjects, an
  operator and a list of permissions, \<open>check_access\<close> returns 0 exactly when the mode satisfies every clause:
  \<open>+\<close> all the permissions are granted to all the subjects, \<open>-\<close> none of them, \<open>=\<close> these and no others. A character
  outside the alphabet after the clauses is an error, unless a clause before it already failed.\<close>

theorem check_access_meaning:
  assumes "r = [] \<or> illegal_rest r"
  shows "check_access (access_text cs @ r) fmode =
    (if list_all (clause_holds fmode) cs then (if r = [] then AccReturn 0 else AccIllegal) else AccReturn (-1))"
  using acc_loop_text [OF assms] by (simp add: check_access_def)

theorem check_access_meaning_witness:
  "check_access (''u+rg-w,o=x'') 0x1E4 = AccIllegal \<and> check_access ''g=rx'' 0x1E8 = AccReturn 0"
proof -
  have "check_access (access_text [Clause [User] Grant [Read], Clause [Group] Deny [Write]] @ '',o=x'') 0x1E4 = AccIllegal"
    by (subst check_access_meaning) (simp_all add: illegal_rest_def granted_def)
  moreover have "check_access (access_text [Clause [Group] Exactly [Read, Exec]] @ []) 0x1E8 = AccReturn 0"
    by (subst check_access_meaning) (auto simp: illegal_rest_def granted_def split: perm.splits)
  ultimately show ?thesis by (simp add: access_text_def)
qed

section \<open>The report\<close>

text \<open>The states of the single tests; \<open>-1\<close> where nothing is reported.\<close>

definition threshold_state :: "thresholds option \<Rightarrow> int \<Rightarrow> int" where
  "threshold_state t v =
     (let st = get_status (dbl_of_int v) t in if t = None \<or> st = STATE_OK then -1 else st)"

definition id_state :: "(string \<rightharpoonup> int) \<Rightarrow> string option \<Rightarrow> int \<Rightarrow> int" where
  "id_state db name actual =
     (case name of
        None \<Rightarrow> -1
      | Some n \<Rightarrow>
          if (if is_integer (Some n) then Some (to_uint32 (strtol 10 n)) else db n) = Some actual then -1
          else STATE_CRITICAL)"

definition access_state :: "string option \<Rightarrow> int \<Rightarrow> int" where
  "access_state acc fmode =
     (case acc of
        None \<Rightarrow> -1
      | Some s \<Rightarrow> if check_access s fmode = AccReturn 0 then -1 else STATE_CRITICAL)"

lemma file_threshold_state: "mp_state (file_threshold what t v g) = max (threshold_state t v) (max (-1) (mp_state g))"
  if "-1 \<le> mp_state g"
  using get_status_cases [of "dbl_of_int v" t] that
  by (auto simp: file_threshold_def threshold_state_def Let_def)

lemma file_id_state: "mp_state (file_id n m l db name v g) = max (id_state db name v) (max (-1) (mp_state g))"
  if "-1 \<le> mp_state g"
  using that by (auto simp: file_id_def id_state_def Let_def split: option.splits)

lemma file_trace_state: "mp_state (file_trace f st g) = mp_state g"
  by (simp add: file_trace_def)

lemma check_access_cases: "check_access s m \<in> {AccReturn 0, AccReturn (-1), AccIllegal}"
proof -
  have "acc_loop m s st \<in> {AccReturn 0, AccReturn (-1), AccIllegal}" for st
    by (induction m s st rule: acc_loop.induct)
      (auto simp: acc_step_def Let_def split: sum.splits option.splits if_splits)
  then show ?thesis by (simp add: check_access_def)
qed

interpretation file_options: plugin_options file_opt "\<lambda>a. thresholds_set (fa_age_thresholds a) \<and> thresholds_set (fa_size_thresholds a)"
proof
  fix a a' :: file_args and c s g
  assume "thresholds_set (fa_age_thresholds a) \<and> thresholds_set (fa_size_thresholds a)" "file_opt c s a g = Inr a'"
  then show "thresholds_set (fa_age_thresholds a') \<and> thresholds_set (fa_size_thresholds a')"
    by (auto simp: file_opt_def Let_def split: if_splits sum.splits prod.splits dest: thresholds_keep)
next
  fix a c s g e
  assume "file_opt c s a g = Inl e"
  then show "exit_code e = Some STATE_UNKNOWN"
    by (auto simp: file_opt_def Let_def refuse_simps split: if_splits sum.splits prod.splits)
qed

text \<open>C17: The state of \<open>check_file\<close> is the worst of its tests. When the arguments are accepted, the file exists
  and the access string is legal, the plugin ends with the highest state of the age, the size, the owner, the
  group and the permissions, and with OK when no test fails.\<close>

theorem check_file_worst:
  assumes "file_process_arguments os g = Inr a" "lstat (the (fa_filename a)) = Some st" "mp_state g = -1"
    "\<forall>s. fa_accessstring a = Some s \<longrightarrow> check_access s (st_mode st) \<noteq> AccIllegal"
  shows "exit_code (check_file_main lstat getpwnam getgrnam now os g) =
    Some (Max {STATE_OK, threshold_state (fa_age_thresholds a) (now - st_mtime st),
      threshold_state (fa_size_thresholds a) (st_size st), id_state getpwnam (fa_ownername a) (st_uid st),
      id_state getgrnam (fa_groupname a) (st_gid st), access_state (fa_accessstring a) (st_mode st)})"
proof -
  define g5 where "g5 = file_id ''group critical'' ''group critical'' ''GID'' getgrnam (fa_groupname a) (st_gid st)
     (file_id ''owner critcal'' ''owner critical'' ''UID'' getpwnam (fa_ownername a) (st_uid st)
       (file_threshold ''size'' (fa_size_thresholds a) (st_size st)
         (file_threshold ''age'' (fa_age_thresholds a) (now - st_mtime st) (file_trace (the (fa_filename a)) st g))))"
  define m where "m = Max {-1, threshold_state (fa_age_thresholds a) (now - st_mtime st),
      threshold_state (fa_size_thresholds a) (st_size st), id_state getpwnam (fa_ownername a) (st_uid st),
      id_state getgrnam (fa_groupname a) (st_gid st)}"
  have s: "mp_state g5 = m"
    by (simp add: g5_def m_def file_id_state file_threshold_state file_trace_state assms(3) ac_simps)
  obtain r where r: "(case fa_accessstring a of None \<Rightarrow> AccReturn 0 | Some s \<Rightarrow> check_access s (st_mode st)) = AccReturn r"
      "access_state (fa_accessstring a) (st_mode st) = (if r = 0 then -1 else STATE_CRITICAL)"
    using assms(4) check_access_cases [of "the (fa_accessstring a)" "st_mode st"]
    by (cases "fa_accessstring a") (auto simp: access_state_def)
  have "check_file_main lstat getpwnam getgrnam now os g =
      mp_exit (the (fa_filename a) @ '': '')
        (set_okonly ''Everithing ok.'' (if r \<noteq> 0 then set_critical ''access critical'' g5 else g5))"
    using assms(1,2) r(1) by (simp add: check_file_main_def Let_def g5_def)
  moreover have "-1 \<le> m" by (simp add: m_def)
  ultimately have "exit_code (check_file_main lstat getpwnam getgrnam now os g) =
      Some (max STATE_OK (max (access_state (fa_accessstring a) (st_mode st)) m))"
    by (auto simp: mp_exit_code s r(2))
  moreover have "max STATE_OK (max (-1) x) = max STATE_OK x" for x by simp
  ultimately show ?thesis
    by (simp add: m_def ac_simps)
qed

theorem check_file_worst_witness:
  "exit_code (check_file_main (\<lambda>f. Some \<lparr>st_uid = 0, st_gid = 5, st_mtime = 100, st_size = 7, st_mode = 0x1A4\<rparr>)
     (\<lambda>n. None) (\<lambda>n. Some 6) 200 [(CHR ''f'', ''x''), (CHR ''g'', ''wheel'')] check_file_globals) = Some STATE_CRITICAL"
proof -
  have p: "file_process_arguments [(CHR ''f'', ''x''), (CHR ''g'', ''wheel'')] check_file_globals =
      Inr (file_args0\<lparr>fa_filename := Some ''x'', fa_groupname := Some ''wheel''\<rparr>)"
    by (simp add: file_process_arguments_def file_args0_def file_opt_def getopt_wc_time_def)
  show ?thesis
    by (subst check_file_worst [OF p,
        where st = "\<lparr>st_uid = 0, st_gid = 5, st_mtime = 100, st_size = 7, st_mode = 0x1A4\<rparr>"])
      (simp_all add: file_args0_def check_file_globals_def mp_init_def threshold_state_def id_state_def
        access_state_def is_integer_def strspn_def)
qed

end
