(* ===== verification/Check_Sockets.thy ===== *)
theory Check_Sockets
  imports Plugin
begin

text \<open>
  \<^verbatim>\<open>base/check_sockets.c\<close>: the number of open sockets in the tables under /proc/net.

  The six blocks of \<open>main\<close> are one definition, \<open>sock_block\<close>, with what differs between them as arguments.
  The thresholds are part of the state because \<open>mp_perfdata_int\<close> resolves percentages in place.
\<close>

section \<open>Program\<close>

definition check_sockets_globals :: mp_globals where
  "check_sockets_globals = mp_init ''check_sockets''
     (''--tcp <PORT> [-w <warning count>] [-c <critical count>]'')
     ''0.1'' ''Marius Rieder <marius.rieder@durchmesser.ch>'' ''2010''"

definition check_sockets_print_help :: "string \<Rightarrow> string \<Rightarrow> bool \<Rightarrow> string" where
  "check_sockets_print_help package version use_ipv6 =
     print_revision package version check_sockets_globals @
     print_copyright check_sockets_globals @
     help_lines
       [[],
        ''Check description: Check number of open Sockets.'',
        []] @
     print_usage check_sockets_globals @
     print_help_default @
     print_help_46 use_ipv6 @
     help_lines
       ['' -T, --tcp=PORT'',
        ''      Count TCP sockets on port PORT. Port 0 for all sockets.'',
        '' -U, --udp=PORT'',
        ''      Count UDP sockets on port PORT. Port 0 for all sockets.'',
        '' -R, --raw=PORT'',
        ''      Count RAW sockets on port PORT. Port 0 for all sockets.''] @
     print_help_warn ''socket count'' ''1000'' @
     print_help_crit ''socket count'' ''1024''"

section \<open>Arguments\<close>

record sock_args =
  sa_tcpport :: int
  sa_udpport :: int
  sa_rawport :: int
  sa_ipv :: int
  sa_thresholds :: "thresholds option"

definition sock_args0 :: sock_args where
  "sock_args0 = \<lparr>sa_tcpport = -1, sa_udpport = -1, sa_rawport = -1, sa_ipv = AF_UNSPEC,
     sa_thresholds = fst (mp_threshold_set_critical_time (fst (mp_threshold_set_warning_time None ''1000'')) ''1024'')\<rparr>"

definition sock_opt :: "bool \<Rightarrow> sock_args opt_handler" where
  "sock_opt use_ipv6 c optarg a g =
     (let a = a\<lparr>sa_ipv := getopt_46 use_ipv6 c (sa_ipv a)\<rparr>
      in case getopt_wc c optarg (sa_thresholds a) g of
           Inl e \<Rightarrow> Inl e
         | Inr t \<Rightarrow>
             let a = a\<lparr>sa_thresholds := t\<rparr>; p = to_int32 (strtol 10 optarg)
             in Inr (if c = CHR ''T'' then a\<lparr>sa_tcpport := p\<rparr>
                     else if c = CHR ''U'' then a\<lparr>sa_udpport := p\<rparr>
                     else if c = CHR ''R'' then a\<lparr>sa_rawport := p\<rparr>
                     else a))"

definition sock_process_arguments :: "bool \<Rightarrow> (char \<times> string) list \<Rightarrow> mp_globals \<Rightarrow> mp_end + sock_args" where
  "sock_process_arguments use_ipv6 os g =
     (case run_opts (sock_opt use_ipv6) os sock_args0 g of
        Inl e \<Rightarrow> Inl e
      | Inr a \<Rightarrow>
          if sa_tcpport a < 0 \<and> sa_udpport a < 0 \<and> sa_rawport a < 0
          then Inl (usage ''--tcp, --udp or --raw mandatory.'' g)
          else Inr a)"

section \<open>Counting\<close>

text \<open>The text between the second colon and the next space; \<open>None\<close> where the line has no two colons and
  \<open>strtol\<close> gets a NULL pointer.\<close>

definition line_port :: "string \<Rightarrow> string option" where
  "line_port buffer =
     (case snd (strsep '':'' buffer) of
        None \<Rightarrow> None
      | Some next \<Rightarrow>
          (case snd (strsep '':'' next) of
             None \<Rightarrow> None
           | Some next \<Rightarrow> Some (fst (strsep '' '' next))))"

fun count_lines :: "int \<Rightarrow> string list \<Rightarrow> int \<Rightarrow> int option" where
  "count_lines port [] count = Some count"
| "count_lines port (l # ls) count =
     (if 0 < port
      then (case line_port l of
              None \<Rightarrow> None
            | Some c \<Rightarrow> count_lines port ls (if port = strtol 16 c then count + 1 else count))
      else count_lines port ls (count + 1))"

definition countSocket :: "files \<Rightarrow> string \<Rightarrow> int \<Rightarrow> mp_globals \<Rightarrow> mp_end + int" where
  "countSocket files filename port g =
     (case files filename of
        None \<Rightarrow> Inr (-1)
      | Some text \<Rightarrow>
          (case fgets_all 256 text of
             [] \<Rightarrow> Inl (warning (''Can'' @ [CHR 0x27] @ ''t read '' @ filename @ ''.'') g)
           | _ # ls \<Rightarrow> (case count_lines port ls 0 of None \<Rightarrow> Inl Crash | Some n \<Rightarrow> Inr n)))"

section \<open>Main\<close>

record sock_st =
  ss_status :: int
  ss_output :: "cbuf option"
  ss_thresholds :: "thresholds option"
  ss_globals :: mp_globals

definition sock_perf :: "string \<Rightarrow> int \<Rightarrow> sock_st \<Rightarrow> sock_st" where
  "sock_perf perf count s =
     (if mp_showperfdata (ss_globals s)
      then let (t, g) = mp_perfdata_int perf count [] (ss_thresholds s) (ss_globals s)
           in s\<lparr>ss_thresholds := t, ss_globals := g\<rparr>
      else s)"

definition sock_switch :: "string \<Rightarrow> bool \<Rightarrow> int \<Rightarrow> sock_st \<Rightarrow> sock_st" where
  "sock_switch name sets lstatus s =
     (let status = ss_status s
      in if lstatus = STATE_WARNING
         then s\<lparr>ss_output := mp_strcat_comma (ss_output s) (Some (name @ '' warning'')),
                ss_status := (if STATE_CRITICAL \<noteq> status then lstatus else status)\<rparr>
         else if lstatus = STATE_CRITICAL
         then s\<lparr>ss_output := mp_strcat_comma (ss_output s) (Some (name @ '' critical'')),
                ss_status := (if sets then lstatus else status)\<rparr>
         else if lstatus = STATE_UNKNOWN
         then s\<lparr>ss_output := mp_strcat_comma (ss_output s) (Some (''Can'' @ [CHR 0x27] @ ''t read '' @ name @ ''!'')),
                ss_status := (if STATE_OK = status then lstatus else status)\<rparr>
         else s)"

definition proc_net :: "string \<Rightarrow> string" where
  "proc_net name = ''/proc/net/'' @ name"

definition sock_block ::
    "files \<Rightarrow> string \<Rightarrow> string \<Rightarrow> bool \<Rightarrow> int \<Rightarrow> sock_st \<Rightarrow> mp_end + sock_st" where
  "sock_block files name perf sets port s =
     (case countSocket files (proc_net name) port (ss_globals s) of
        Inl e \<Rightarrow> Inl e
      | Inr count \<Rightarrow>
          Inr (if 0 \<le> count
               then sock_switch name sets (get_status (dbl_of_int count) (ss_thresholds s)) (sock_perf perf count s)
               else sock_switch name sets STATE_UNKNOWN s))"

text \<open>The tables in the order of \<open>main\<close>: the name, the label of the performance data, and whether the
  CRITICAL case of the block sets the status.\<close>

definition sock_tables :: "sock_args \<Rightarrow> (string \<times> string \<times> bool \<times> int) list" where
  "sock_tables a =
     (let v4 = (sa_ipv a = AF_UNSPEC \<or> sa_ipv a = AF_INET); v6 = (sa_ipv a = AF_UNSPEC \<or> sa_ipv a = AF_INET6)
      in (if 0 \<le> sa_tcpport a
          then (if v4 then [(''tcp'', ''tcp'', True, sa_tcpport a)] else []) @
               (if v6 then [(''tcp6'', ''tcp6'', False, sa_tcpport a)] else []) else []) @
         (if 0 \<le> sa_udpport a
          then (if v4 then [(''udp'', ''udp'', True, sa_udpport a)] else []) @
               (if v6 then [(''udp6'', ''udp'', True, sa_udpport a)] else []) else []) @
         (if 0 \<le> sa_rawport a
          then (if v4 then [(''raw'', ''raw'', True, sa_rawport a)] else []) @
               (if v6 then [(''raw6'', ''raw6'', True, sa_rawport a)] else []) else []))"

fun sock_blocks :: "files \<Rightarrow> (string \<times> string \<times> bool \<times> int) list \<Rightarrow> sock_st \<Rightarrow> mp_end + sock_st" where
  "sock_blocks files [] s = Inr s"
| "sock_blocks files ((name, perf, sets, port) # ts) s =
     (case sock_block files name perf sets port s of
        Inl e \<Rightarrow> Inl e
      | Inr s \<Rightarrow> sock_blocks files ts s)"

definition sock_trace :: "sock_args \<Rightarrow> mp_globals \<Rightarrow> mp_globals" where
  "sock_trace a g =
     (if mp_verbose g \<noteq> 0
      then mp_print (help_lines
        ((if sa_ipv a = AF_INET then [''IPv: 4''] else if sa_ipv a = AF_INET6 then [''IPv: 6'']
          else if sa_ipv a = AF_UNSPEC then [''IPv: 4 and 6''] else []) @
         [''TCP: '' @ fmt_d (sa_tcpport a), ''UDP: '' @ fmt_d (sa_udpport a), ''RAW: '' @ fmt_d (sa_rawport a)])) g
      else g)"

definition sock_report :: "sock_st \<Rightarrow> mp_end" where
  "sock_report s =
     (let out = (case ss_output s of None \<Rightarrow> [] | Some b \<Rightarrow> cstr b); g = ss_globals s
      in if ss_status s = STATE_OK then ok ''Everithing ok.'' g
         else if ss_status s = STATE_WARNING then exit_fmt0 warning out g
         else if ss_status s = STATE_CRITICAL then exit_fmt0 critical out g
         else if ss_status s = STATE_UNKNOWN then exit_fmt0 unknown out g
         else critical ''You should never reach this point.'' g)"

definition check_sockets_main :: "bool \<Rightarrow> files \<Rightarrow> (char \<times> string) list \<Rightarrow> mp_globals \<Rightarrow> mp_end" where
  "check_sockets_main use_ipv6 files os g =
     (case sock_process_arguments use_ipv6 os g of
        Inl e \<Rightarrow> e
      | Inr a \<Rightarrow>
          (case sock_blocks files (sock_tables a)
                  \<lparr>ss_status = STATE_OK, ss_output = None, ss_thresholds = sa_thresholds a,
                   ss_globals = sock_trace a g\<rparr> of
             Inl e \<Rightarrow> e
           | Inr s \<Rightarrow> sock_report s))"

section \<open>The count\<close>

text \<open>A line of a table: a number, the local address and port, and the rest.\<close>

record sock_entry =
  se_sl :: string
  se_addr :: string
  se_port :: int
  se_rest :: string

definition hex_port :: "int \<Rightarrow> string" where
  "hex_port p = (let h = base_str 16 p in replicate (4 - length h) (CHR ''0'') @ h)"

definition entry_line :: "sock_entry \<Rightarrow> string" where
  "entry_line e = se_sl e @ '':'' @ se_addr e @ '':'' @ hex_port (se_port e) @ '' '' @ se_rest e"

definition sock_entry_ok :: "sock_entry \<Rightarrow> bool" where
  "sock_entry_ok e \<longleftrightarrow>
     CHR '':'' \<notin> set (se_sl e) \<and> CHR '':'' \<notin> set (se_addr e) \<and> 0 \<le> se_port e \<and> se_port e < 65536 \<and>
     newline \<notin> set (entry_line e) \<and> length (entry_line e) < 255"

definition table_text :: "string \<Rightarrow> sock_entry list \<Rightarrow> string" where
  "table_text header es = concat (map (\<lambda>l. l @ [newline]) (header # map entry_line es))"

lemma hex_port_digits: "0 \<le> p \<Longrightarrow> c \<in> set (hex_port p) \<Longrightarrow> \<exists>d. 0 \<le> d \<and> d < 16 \<and> c = dig d"
proof -
  have "\<exists>d. 0 \<le> d \<and> d < 16 \<and> CHR ''0'' = dig d"
    by (rule exI [of _ 0]) (simp add: dig_def)
  then show "0 \<le> p \<Longrightarrow> c \<in> set (hex_port p) \<Longrightarrow> \<exists>d. 0 \<le> d \<and> d < 16 \<and> c = dig d"
    using base_str_digits [of p 16 c] by (auto simp: hex_port_def Let_def split: if_splits)
qed

lemma isxdigit_dig: "0 \<le> d \<Longrightarrow> d < 16 \<Longrightarrow> isxdigit (dig d)"
  by (auto simp: isxdigit_def isdigit_def ccode_dig)

lemma strip_0x_hex:
  assumes "\<And>c. c \<in> set s \<Longrightarrow> isxdigit c"
  shows "strip_0x 16 s = s"
proof -
  have "\<not> isxdigit (CHR ''x'')" "\<not> isxdigit (CHR ''X'')"
    by (simp_all add: ctype_defs ccode_def)
  then have "CHR ''x'' \<notin> set s" "CHR ''X'' \<notin> set s"
    using assms by blast+
  then show ?thesis by (cases "(16 :: int, s)" rule: strip_0x.cases) auto
qed

lemma digits_val_leading: "digits_val b (replicate k (CHR ''0'') @ ds) = digits_val b ds"
  by (induction k) (simp_all add: digits_val_def ctype_defs ccode_def)

lemma strtol_hex_port:
  assumes "0 \<le> p" "p < 65536"
  shows "strtol 16 (hex_port p) = p"
proof -
  note ds = hex_port_digits [OF assms(1)]
  obtain c r where cr: "hex_port p = c # r"
    by (cases "hex_port p") (simp_all add: hex_port_def Let_def)
  obtain d where d: "0 \<le> d" "d < 16" "c = dig d"
    using ds [of c] by (auto simp: cr)
  have tw: "takeWhile (\<lambda>c. digit_val c < 16) (hex_port p) = hex_port p"
    using ds digit_val_dig by (fastforce simp: takeWhile_eq_all_conv)
  have "strtol_sign (hex_port p) = (False, hex_port p)"
    using isspace_dig [OF d(1,2)] dig_neq [OF d(1,2)] by (simp add: strtol_sign_def cr d(3))
  moreover have "digits_val 16 (takeWhile (\<lambda>c. digit_val c < 16) (hex_port p)) = p"
    using assms(1) by (simp only: tw) (simp add: hex_port_def Let_def digits_val_leading digits_val_base_str)
  moreover have "strip_0x 16 (hex_port p) = hex_port p"
    using ds isxdigit_dig by (intro strip_0x_hex) blast
  ultimately have "strtol_exact 16 (hex_port p) = p"
    by (simp add: strtol_exact_def)
  then show ?thesis using assms by (simp add: strtol_def LONG_MIN_def LONG_MAX_def)
qed

lemma line_port_entry:
  assumes "sock_entry_ok e"
  shows "line_port (entry_line e @ [newline]) = Some (hex_port (se_port e))"
proof -
  have sp: "CHR '' '' \<notin> set (hex_port (se_port e))"
  proof
    assume "CHR '' '' \<in> set (hex_port (se_port e))"
    then obtain d where "0 \<le> d" "d < 16" "CHR '' '' = dig d"
      using hex_port_digits assms by (auto simp: sock_entry_ok_def)
    moreover have "isspace (CHR '' '')" by (simp add: isspace_def ccode_def)
    ultimately show False using isspace_dig [of d] by simp
  qed
  show ?thesis
    using assms sp strsep_hit [of "'':''" "se_sl e" "CHR '':''"] strsep_hit [of "'':''" "se_addr e" "CHR '':''"]
      strsep_hit [of "'' ''" "hex_port (se_port e)" "CHR '' ''"]
    by (simp add: line_port_def entry_line_def sock_entry_ok_def)
qed

lemma count_lines_entries:
  assumes "list_all sock_entry_ok es"
  shows "count_lines port (map (\<lambda>e. entry_line e @ [newline]) es) n =
    Some (n + int (length (filter (\<lambda>e. port \<le> 0 \<or> se_port e = port) es)))"
  using assms
proof (induction es arbitrary: n)
  case (Cons e es)
  then have "strtol 16 (hex_port (se_port e)) = se_port e" "line_port (entry_line e @ [newline]) = Some (hex_port (se_port e))"
    using line_port_entry strtol_hex_port [of "se_port e"] by (auto simp: sock_entry_ok_def)
  with Cons show ?case by auto
qed simp

text \<open>C18: The count of a table. For a table of well-formed lines \<open>countSocket\<close> returns the number of entries
  whose local port is the given one, and the number of all entries for the port 0.\<close>

theorem countSocket_entries:
  assumes "files name = Some (table_text header es)" "list_all sock_entry_ok es" "newline \<notin> set header" "length header < 255"
  shows "countSocket files name port g =
    Inr (int (length (filter (\<lambda>e. port \<le> 0 \<or> se_port e = port) es)))"
proof -
  have "\<forall>l \<in> set (header # map entry_line es). newline \<notin> set l \<and> length l < 255"
    using assms(2-4) by (auto simp: list_all_iff sock_entry_ok_def)
  then have "fgets_all 256 (table_text header es) = map (\<lambda>l. l @ [newline]) (header # map entry_line es)"
    using fgets_all_lines [of "header # map entry_line es"] by (simp add: table_text_def)
  then show ?thesis
    using assms(1) count_lines_entries [OF assms(2), of port 0] by (simp add: countSocket_def comp_def)
qed

theorem countSocket_entries_witness:
  "countSocket [''t'' \<mapsto> table_text ''sl''
       [\<lparr>se_sl = ''0'', se_addr = ''0100007F'', se_port = 22, se_rest = ''x''\<rparr>,
        \<lparr>se_sl = ''1'', se_addr = ''00000000'', se_port = 80, se_rest = ''y''\<rparr>]] ''t'' 80 check_sockets_globals = Inr 1"
  by (rule trans [OF countSocket_entries [where header = "''sl''" and
        es = "[\<lparr>se_sl = ''0'', se_addr = ''0100007F'', se_port = 22, se_rest = ''x''\<rparr>,
          \<lparr>se_sl = ''1'', se_addr = ''00000000'', se_port = 80, se_rest = ''y''\<rparr>]"]])
    (simp_all add: sock_entry_ok_def entry_line_def hex_port_def Let_def newline_def base_str.simps dig_def)

section \<open>The status\<close>

text \<open>The order in which the blocks let one state override another.\<close>

definition sev :: "int \<Rightarrow> nat" where
  "sev st = (if st = STATE_CRITICAL then 3 else if st = STATE_WARNING then 2 else if st = STATE_UNKNOWN then 1 else 0)"

text \<open>The state a table asks for. The CRITICAL case of tcp6 asks for nothing.\<close>

definition count_state :: "thresholds option \<Rightarrow> int \<Rightarrow> int" where
  "count_state t n = (if n < 0 then STATE_UNKNOWN else get_status (dbl_of_int n) t)"

definition asked :: "bool \<Rightarrow> int \<Rightarrow> int" where
  "asked sets st = (if st = STATE_CRITICAL \<and> \<not> sets then STATE_OK else st)"

definition worse :: "int \<Rightarrow> int \<Rightarrow> int" where
  "worse a b = (if sev a < sev b then b else a)"

definition sock_st_ok :: "thresholds option \<Rightarrow> sock_st \<Rightarrow> bool" where
  "sock_st_ok t s \<longleftrightarrow>
     ss_thresholds s = t \<and> ss_status s \<in> {STATE_OK, STATE_WARNING, STATE_CRITICAL, STATE_UNKNOWN} \<and>
     (\<forall>b. ss_output s = Some b \<longrightarrow> CHR ''%'' \<notin> set (cstr b))"

lemma strcat_comma_plain:
  assumes "mp_strcat_comma t (Some m) = Some b" "\<forall>b. t = Some b \<longrightarrow> x \<notin> set (cstr b)" "x \<notin> set m" "x \<notin> set '', ''"
  shows "x \<notin> set (cstr b)"
  using assms by (auto simp: mp_strcat_comma_def mp_strdup_def split: option.splits)

lemma sock_perf_keeps:
  assumes "no_percent (ss_thresholds s)"
  shows "ss_status (sock_perf perf n s) = ss_status s" "ss_output (sock_perf perf n s) = ss_output s"
    "ss_thresholds (sock_perf perf n s) = ss_thresholds s"
  using perfdata_thresholds(2) [OF assms, of perf n "[]" "ss_globals s"]
  by (auto simp: sock_perf_def split: prod.splits)

lemma sock_switch_status:
  assumes "sock_st_ok t s" "CHR ''%'' \<notin> set name"
    "st \<in> {STATE_OK, STATE_WARNING, STATE_CRITICAL, STATE_UNKNOWN}"
  shows "sock_st_ok t (sock_switch name sets st s)"
    "ss_status (sock_switch name sets st s) = worse (ss_status s) (asked sets st)"
proof -
  show "ss_status (sock_switch name sets st s) = worse (ss_status s) (asked sets st)"
    using assms by (auto simp: sock_st_ok_def sock_switch_def worse_def asked_def sev_def)
  show "sock_st_ok t (sock_switch name sets st s)"
    using assms strcat_comma_plain [of "ss_output s" _ _ "CHR ''%''"]
    by (auto simp: sock_st_ok_def sock_switch_def Let_def)
qed

lemma sock_block_status:
  assumes "sock_st_ok t s" "no_percent t" "CHR ''%'' \<notin> set name"
    "countSocket files (proc_net name) port (ss_globals s) = Inr n"
  obtains s' where "sock_block files name perf sets port s = Inr s'" "sock_st_ok t s'"
    "ss_status s' = worse (ss_status s) (asked sets (count_state t n))"
proof -
  have t: "ss_thresholds s = t" using assms(1) by (simp add: sock_st_ok_def)
  have p: "sock_st_ok t (sock_perf perf n s)" "ss_status (sock_perf perf n s) = ss_status s"
    using assms(1,2) sock_perf_keeps [of s perf n] by (simp_all add: sock_st_ok_def)
  show ?thesis
  proof (cases "0 \<le> n")
    case True
    then show ?thesis
      using that [of "sock_switch name sets (get_status (dbl_of_int n) t) (sock_perf perf n s)"] p
        sock_switch_status [OF p(1) assms(3), of "get_status (dbl_of_int n) t"] get_status_cases [of "dbl_of_int n" t]
      unfolding sock_block_def assms(4) by (auto simp: t count_state_def)
  next
    case False
    then show ?thesis
      using that [of "sock_switch name sets STATE_UNKNOWN s"] sock_switch_status [OF assms(1,3), of STATE_UNKNOWN]
      unfolding sock_block_def assms(4) by (auto simp: count_state_def)
  qed
qed

definition table_state :: "files \<Rightarrow> thresholds option \<Rightarrow> string \<times> string \<times> bool \<times> int \<Rightarrow> int" where
  "table_state files t x =
     (case x of (name, perf, sets, port) \<Rightarrow>
        (case countSocket files (proc_net name) port check_sockets_globals of
           Inr n \<Rightarrow> asked sets (count_state t n)
         | Inl e \<Rightarrow> STATE_OK))"

definition table_counts :: "files \<Rightarrow> string \<times> string \<times> bool \<times> int \<Rightarrow> bool" where
  "table_counts files x =
     (case x of (name, perf, sets, port) \<Rightarrow>
        \<not> isl (countSocket files (proc_net name) port check_sockets_globals))"

lemma countSocket_globals: "countSocket files f p g = Inr n \<Longrightarrow> countSocket files f p g' = Inr n"
  by (auto simp: countSocket_def split: option.splits list.splits)

lemma sock_blocks_status:
  assumes "sock_st_ok t s" "no_percent t" "\<forall>x \<in> set ts. CHR ''%'' \<notin> set (fst x) \<and> table_counts files x"
  shows "\<exists>s'. sock_blocks files ts s = Inr s' \<and> sock_st_ok t s' \<and>
    ss_status s' = fold (\<lambda>x st. worse st (table_state files t x)) ts (ss_status s)"
  using assms(1,3)
proof (induction files ts s rule: sock_blocks.induct)
  case (2 files name perf sets port ts s)
  obtain n where n: "countSocket files (proc_net name) port check_sockets_globals = Inr n"
    using "2.prems"(2) by (cases "countSocket files (proc_net name) port check_sockets_globals") (auto simp: table_counts_def)
  obtain s' where s': "sock_block files name perf sets port s = Inr s'" "sock_st_ok t s'"
      "ss_status s' = worse (ss_status s) (asked sets (count_state t n))"
    using sock_block_status [OF "2.prems"(1) assms(2) _ countSocket_globals [OF n]] "2.prems"(2) by auto
  have "table_state files t (name, perf, sets, port) = asked sets (count_state t n)"
    unfolding table_state_def prod.case n sum.case ..
  with "2.IH" [OF s'(1,2)] "2.prems"(2) s' show ?case by simp
qed simp

lemma fold_worse:
  "fold (\<lambda>x st. worse st (f x)) xs st \<in> insert st (f ` set xs) \<and>
   sev st \<le> sev (fold (\<lambda>x st. worse st (f x)) xs st) \<and>
   (\<forall>x \<in> set xs. sev (f x) \<le> sev (fold (\<lambda>x st. worse st (f x)) xs st))"
proof (induction xs arbitrary: st)
  case (Cons x xs)
  let ?w = "worse st (f x)"
  have "?w \<in> {st, f x}" "sev st \<le> sev ?w" "sev (f x) \<le> sev ?w" by (auto simp: worse_def)
  with Cons.IH [of ?w] show ?case by auto
qed simp

lemma sock_tables_names: "x \<in> set (sock_tables a) \<Longrightarrow> CHR ''%'' \<notin> set (fst x)"
  by (auto simp: sock_tables_def Let_def split: if_splits)

lemma sock_report_code: "sock_st_ok t s \<Longrightarrow> exit_code (sock_report s) = Some (ss_status s)"
  by (cases "ss_output s")
    (auto simp: sock_st_ok_def sock_report_def Let_def warning_report.fmt0_plain critical_report.fmt0_plain
      unknown_report.fmt0_plain)

lemma check_sockets_fold:
  assumes "sock_process_arguments v6 os g = Inr a" "no_percent (sa_thresholds a)"
    "list_all (table_counts files) (sock_tables a)"
  shows "exit_code (check_sockets_main v6 files os g) =
    Some (fold (\<lambda>x st. worse st (table_state files (sa_thresholds a) x)) (sock_tables a) STATE_OK)"
proof -
  define s where "s = \<lparr>ss_status = STATE_OK, ss_output = None, ss_thresholds = sa_thresholds a,
      ss_globals = sock_trace a g\<rparr>"
  have "sock_st_ok (sa_thresholds a) s" by (simp add: s_def sock_st_ok_def)
  from sock_blocks_status [OF this assms(2), of "sock_tables a" files] assms(3) sock_tables_names
  obtain s' where "sock_blocks files (sock_tables a) s = Inr s'" "sock_st_ok (sa_thresholds a) s'"
      "ss_status s' = fold (\<lambda>x st. worse st (table_state files (sa_thresholds a) x)) (sock_tables a) STATE_OK"
    by (auto simp: list_all_iff s_def)
  then show ?thesis
    using assms(1) by (simp add: check_sockets_main_def sock_report_code flip: s_def)
qed

text \<open>C19: The state of \<open>check_sockets\<close> is the most severe one among the tables that are read, in the order
  OK, UNKNOWN, WARNING, CRITICAL; the CRITICAL of the tcp6 table counts as OK.\<close>

theorem check_sockets_status:
  assumes "sock_process_arguments v6 os g = Inr a" "no_percent (sa_thresholds a)"
    "list_all (table_counts files) (sock_tables a)"
  shows "\<exists>r. exit_code (check_sockets_main v6 files os g) = Some r \<and>
    r \<in> insert STATE_OK (table_state files (sa_thresholds a) ` set (sock_tables a)) \<and>
    (\<forall>x \<in> set (sock_tables a). sev (table_state files (sa_thresholds a) x) \<le> sev r)"
  unfolding check_sockets_fold [OF assms] using fold_worse by blast

text \<open>Too many TCP sockets over IPv6 alone are reported as OK, whatever their number.\<close>

theorem check_sockets_tcp6_critical:
  assumes "sock_process_arguments v6 os g = Inr a" "no_percent (sa_thresholds a)"
    "sa_ipv a = AF_INET6" "0 \<le> sa_tcpport a" "sa_udpport a < 0" "sa_rawport a < 0"
    "countSocket files (proc_net ''tcp6'') (sa_tcpport a) check_sockets_globals = Inr n" "0 \<le> n"
    "get_status (dbl_of_int n) (sa_thresholds a) = STATE_CRITICAL"
  shows "exit_code (check_sockets_main v6 files os g) = Some STATE_OK"
proof -
  have t: "sock_tables a = [(''tcp6'', ''tcp6'', False, sa_tcpport a)]"
    using assms(3-6) by (simp add: sock_tables_def AF_UNSPEC_def AF_INET_def AF_INET6_def)
  show ?thesis
    using assms(7-9) check_sockets_fold [OF assms(1,2), of files]
    by (simp add: t table_counts_def table_state_def count_state_def asked_def worse_def)
qed

interpretation sock_options: plugin_options "sock_opt v6" "\<lambda>a. thresholds_both (sa_thresholds a)" for v6
proof
  fix a a' :: sock_args and c s g
  assume "thresholds_both (sa_thresholds a)" "sock_opt v6 c s a g = Inr a'"
  then show "thresholds_both (sa_thresholds a')"
    using thresholds_both_keep(1) by (auto simp: sock_opt_def Let_def split: if_splits sum.splits)
next
  fix a c s g e
  assume "sock_opt v6 c s a g = Inl e"
  then show "exit_code e = Some STATE_UNKNOWN"
    by (auto simp: sock_opt_def Let_def refuse_simps split: if_splits sum.splits)
qed

lemma sock_args0_thresholds:
  "sa_thresholds sock_args0 =
    Some \<lparr>th_warning = Some (spec_range TIME (Upto (Bound 1000 []))), th_critical = Some (spec_range TIME (Upto (Bound 1024 [])))\<rparr>"
proof -
  have "fmt_d 1000 @ [] = ''1000''" "fmt_d 1024 @ [] = ''1024''" by code_simp+
  then show ?thesis
    using parse_upto [of TIME 1000 "[]"] parse_upto [of TIME 1024 "[]"]
    by (simp add: sock_args0_def set_threshold_defs num_end_def unit_factor_def BISI_def TIME_def
        parse_time_multiplier_string_def del: spec_range.simps)
qed

lemma sock_args0_plain: "no_percent (sa_thresholds sock_args0)"
  by (simp add: sock_args0_thresholds no_percent_def del: spec_range.simps)

theorem check_sockets_status_witness:
  "\<exists>r. exit_code (check_sockets_main True [''/proc/net/tcp'' \<mapsto> ''sl'' @ [newline]] [(CHR ''T'', ''0'')] check_sockets_globals) = Some r \<and>
    r \<in> insert STATE_OK (table_state [''/proc/net/tcp'' \<mapsto> ''sl'' @ [newline]] (sa_thresholds sock_args0) `
      set (sock_tables (sock_args0\<lparr>sa_tcpport := 0\<rparr>))) \<and>
    (\<forall>x \<in> set (sock_tables (sock_args0\<lparr>sa_tcpport := 0\<rparr>)).
      sev (table_state [''/proc/net/tcp'' \<mapsto> ''sl'' @ [newline]] (sa_thresholds sock_args0) x) \<le> sev r)"
proof -
  have z: "strtol 10 ''0'' = 0" by code_simp
  have p: "sock_process_arguments True [(CHR ''T'', ''0'')] check_sockets_globals = Inr (sock_args0\<lparr>sa_tcpport := 0\<rparr>)"
    by (simp add: sock_process_arguments_def sock_opt_def getopt_46_def getopt_wc_def z to_int32_def Let_def)
  have t: "sock_tables (sock_args0\<lparr>sa_tcpport := 0\<rparr>) = [(''tcp'', ''tcp'', True, 0), (''tcp6'', ''tcp6'', False, 0)]"
    by (simp add: sock_tables_def sock_args0_def)
  have "fgets_all 256 (''sl'' @ [newline]) = [''sl'' @ [newline]]" by code_simp
  then have "list_all (table_counts [''/proc/net/tcp'' \<mapsto> ''sl'' @ [newline]]) (sock_tables (sock_args0\<lparr>sa_tcpport := 0\<rparr>))"
    by (simp add: t table_counts_def countSocket_def proc_net_def)
  with check_sockets_status [OF p] sock_args0_plain show ?thesis by simp
qed

end
