(* ===== verification/Check_Bonding.thy ===== *)
theory Check_Bonding
  imports Plugin
begin

text \<open>
  \<^verbatim>\<open>base/check_bonding.c\<close>: the state of network bonds and their slaves.

  \<open>mp_malloc\<close> does not clear memory: the fields of \<open>bonding_info\<close> that no line of the file sets keep what
  was there before. The initial record is a parameter, and a pointer never set is \<open>None\<close>. \<open>Crash\<close> is a read
  through such a pointer or behind the slave array.
\<close>

section \<open>Program\<close>

definition check_bonding_globals :: mp_globals where
  "check_bonding_globals = mp_init ''check_bonding''
     (''[--bond=BOND]'')
     ''0.1'' ''Marius Rieder <marius.rieder@durchmesser.ch>'' ''2010''"

definition check_bonding_print_help :: "string \<Rightarrow> string \<Rightarrow> string" where
  "check_bonding_print_help package version =
     print_revision package version check_bonding_globals @
     print_copyright check_bonding_globals @
     help_lines
       [[],
        ''Check description: Check bonding status.'',
        []] @
     print_usage check_bonding_globals @
     print_help_default @
     help_lines
       ['' -b, --bond=BOND'',
        ''      Check bond named BOND.'']"

section \<open>Parsing\<close>

record bonding_slave_info =
  bs_interface :: string
  bs_mii_status :: int

record bonding_info =
  bi_version :: "string option"
  bi_mode :: "string option"
  bi_mii_status :: int
  bi_slave :: "bonding_slave_info list"
  bi_slaves :: int

text \<open>The value of a line: behind the colon, without the first character and the last one. The value of a
  line that ends with its colon starts behind the terminating NUL.\<close>

definition line_value :: "string \<Rightarrow> string option" where
  "line_value r = (case r of [] \<Rightarrow> None | [c] \<Rightarrow> Some [] | c # v \<Rightarrow> Some (butlast v))"

definition bond_mii :: "int \<Rightarrow> bonding_info \<Rightarrow> bonding_info" where
  "bond_mii st info =
     (if bi_slave info \<noteq> []
      then info\<lparr>bi_slave := butlast (bi_slave info) @ [(last (bi_slave info))\<lparr>bs_mii_status := st\<rparr>]\<rparr>
      else info\<lparr>bi_mii_status := st\<rparr>)"

definition bond_key :: "int \<Rightarrow> string \<Rightarrow> string \<Rightarrow> bonding_info \<Rightarrow> bonding_info" where
  "bond_key junk key v info =
     (if key = ''Ethernet Channel Bonding Driver'' then info\<lparr>bi_version := Some v\<rparr>
      else if key = ''Bonding Mode'' then info\<lparr>bi_mode := Some v\<rparr>
      else if key = ''MII Status'' then bond_mii (if v = ''up'' then 1 else 0) info
      else if key = ''Slave Interface''
      then info\<lparr>bi_slave := bi_slave info @ [\<lparr>bs_interface = v, bs_mii_status = junk\<rparr>],
                bi_slaves := to_uint16 (int (length (bi_slave info)) + 1)\<rparr>
      else info)"

fun bond_lines :: "int \<Rightarrow> string list \<Rightarrow> bonding_info \<Rightarrow> bonding_info option" where
  "bond_lines junk [] info = Some info"
| "bond_lines junk (buffer # ls) info =
     (case strsep '':'' buffer of
        (key, None) \<Rightarrow> bond_lines junk ls info
      | (key, Some r) \<Rightarrow>
          (case line_value r of
             None \<Rightarrow> None
           | Some v \<Rightarrow> bond_lines junk ls (bond_key junk key v info)))"

datatype bond_result = BondNull | BondBad | BondInfo bonding_info

definition parseBond :: "files \<Rightarrow> bonding_info \<Rightarrow> int \<Rightarrow> string \<Rightarrow> bond_result" where
  "parseBond files fresh junk filename =
     (case files filename of
        None \<Rightarrow> BondNull
      | Some text \<Rightarrow>
          (case bond_lines junk (fgets_all 256 text) (fresh\<lparr>bi_slave := []\<rparr>) of
             None \<Rightarrow> BondBad
           | Some info \<Rightarrow> BondInfo info))"

section \<open>Main\<close>

text \<open>The loop over the slaves: the interfaces that are up and those that are down.\<close>

fun bond_slaves :: "bonding_slave_info list \<Rightarrow> cbuf option \<Rightarrow> cbuf option \<Rightarrow> cbuf option \<times> cbuf option" where
  "bond_slaves [] up down = (up, down)"
| "bond_slaves (s # ss) up down =
     (if bs_mii_status s \<noteq> 0
      then bond_slaves ss (mp_strcat_comma up (Some (bs_interface s))) down
      else bond_slaves ss up (mp_strcat_comma down (Some (bs_interface s))))"

text \<open>One bond: the new status and the text, \<open>None\<close> for an invalid read.\<close>

definition bond_one :: "string \<Rightarrow> bond_result \<Rightarrow> int \<Rightarrow> (int \<times> string) option" where
  "bond_one name res status =
     (case res of
        BondBad \<Rightarrow> None
      | BondNull \<Rightarrow> Some (STATE_CRITICAL, name @ '' not found'')
      | BondInfo info \<Rightarrow>
          if bi_mii_status info \<noteq> 0
          then (if int (length (bi_slave info)) < bi_slaves info then None
                else case bond_slaves (take (nat (bi_slaves info)) (bi_slave info)) None None of
                       (up, Some d) \<Rightarrow>
                         Some (if status = STATE_OK then STATE_WARNING else status,
                               name @ '' up ('' @ fmt_s (buf_str up) @ '', down: '' @ cstr d @ '')'')
                     | (up, None) \<Rightarrow> Some (status, name @ '' up ('' @ fmt_s (buf_str up) @ '')''))
          else (case bi_mode info of
                  None \<Rightarrow> None
                | Some m \<Rightarrow> Some (STATE_CRITICAL, name @ '' down ('' @ m @ '')'')))"

fun bond_loop ::
    "(string \<Rightarrow> bond_result) \<Rightarrow> string list \<Rightarrow> int \<Rightarrow> cbuf option \<Rightarrow> mp_globals \<Rightarrow> mp_end + int \<times> cbuf option" where
  "bond_loop parse [] status out g = Inr (status, out)"
| "bond_loop parse (name # ns) status out g =
     (case bond_one name (parse name) status of
        None \<Rightarrow> Inl Crash
      | Some (st, text) \<Rightarrow>
          (case mp_snprintf 64 (Some text) g of
             Inl e \<Rightarrow> Inl e
           | Inr buf \<Rightarrow> bond_loop parse ns st (mp_strcat_comma out (Some buf)) g))"

text \<open>\<open>printf\<close> with a NULL format prints nothing.\<close>

definition bond_report :: "int \<Rightarrow> cbuf option \<Rightarrow> mp_globals \<Rightarrow> mp_end" where
  "bond_report status out g =
     (let fmt = (case out of None \<Rightarrow> [] | Some b \<Rightarrow> cstr b)
      in if status = STATE_OK then exit_fmt0 ok fmt g
         else if status = STATE_WARNING then exit_fmt0 warning fmt g
         else if status = STATE_CRITICAL then exit_fmt0 critical fmt g
         else if status = STATE_UNKNOWN then exit_fmt0 unknown fmt g
         else critical ''You should never reach this point.'' g)"

text \<open>The option \<open>-b\<close> and the entries of the directory are pushed on the same array.\<close>

definition bond_push :: "string \<Rightarrow> string option list \<Rightarrow> string option list" where
  "bond_push s bond = fst (mp_array_push bond (Some s) (length bond))"

definition bond_opt :: "string option list opt_handler" where
  "bond_opt c optarg bond g = Inr (if c = CHR ''b'' then bond_push optarg bond else bond)"

definition bond_process_arguments :: "(char \<times> string) list \<Rightarrow> mp_globals \<Rightarrow> mp_end + string option list" where
  "bond_process_arguments os g = run_opts bond_opt os [] g"

definition bond_names ::
    "(string \<rightharpoonup> string list) \<Rightarrow> string \<Rightarrow> string option list \<Rightarrow> mp_globals \<Rightarrow> mp_end + string option list" where
  "bond_names readdir bonding_dir bond g =
     (if bond \<noteq> [] then Inr bond
      else case readdir bonding_dir of
             None \<Rightarrow> Inl (critical (''Can'' @ [CHR 0x27] @ ''t open '' @ quoted bonding_dir) g)
           | Some entries \<Rightarrow> Inr (fold bond_push (filter (\<lambda>e. strncmp_eq e ''bond'' 4) entries) bond))"

definition check_bonding_main ::
    "(string \<rightharpoonup> string) \<Rightarrow> (string \<rightharpoonup> string list) \<Rightarrow> files \<Rightarrow> bonding_info \<Rightarrow> int \<Rightarrow> (char \<times> string) list \<Rightarrow> mp_globals \<Rightarrow> mp_end" where
  "check_bonding_main getenv readdir files fresh junk os g =
     (case bond_process_arguments os g of
        Inl e \<Rightarrow> e
      | Inr bond \<Rightarrow>
          let bonding_dir = (case getenv ''PROC_BONDING_DIR'' of Some d \<Rightarrow> d | None \<Rightarrow> ''/proc/net/bonding'')
          in case bond_names readdir bonding_dir bond g of
               Inl e \<Rightarrow> e
             | Inr bond \<Rightarrow>
                 (case bond_loop (\<lambda>name. parseBond files fresh junk (bonding_dir @ ''/'' @ name))
                         (map the bond) STATE_OK None g of
                    Inl e \<Rightarrow> e
                  | Inr (status, out) \<Rightarrow> bond_report status out g))"

section \<open>Printed bonds\<close>

text \<open>A bond as the kernel prints it: lines in front, the mode, the status, and for every slave its name and
  status; other lines may follow every status.\<close>

record bond_desc =
  bd_head :: "string list"
  bd_mode :: string
  bd_up :: bool
  bd_slaves :: "(string \<times> bool) list"
  bd_noise :: "string list"

definition updown :: "bool \<Rightarrow> string" where
  "updown b = (if b then ''up'' else ''down'')"

definition field_line :: "string \<Rightarrow> string \<Rightarrow> string" where
  "field_line key v = key @ '': '' @ v"

definition slave_lines :: "string list \<Rightarrow> string \<times> bool \<Rightarrow> string list" where
  "slave_lines noise s = [field_line ''Slave Interface'' (fst s), field_line ''MII Status'' (updown (snd s))] @ noise"

definition desc_lines :: "bond_desc \<Rightarrow> string list" where
  "desc_lines d = bd_head d @ [field_line ''Bonding Mode'' (bd_mode d), field_line ''MII Status'' (updown (bd_up d))] @ bd_noise d @
     concat (map (slave_lines (bd_noise d)) (bd_slaves d))"

definition bond_text :: "bond_desc \<Rightarrow> string" where
  "bond_text d = concat (map (\<lambda>l. l @ [newline]) (desc_lines d))"

definition noise_line :: "string \<Rightarrow> bool" where
  "noise_line l \<longleftrightarrow>
     fst (strsep '':'' l) \<notin> {''Ethernet Channel Bonding Driver'', ''Bonding Mode'', ''MII Status'', ''Slave Interface''}"

definition desc_ok :: "bond_desc \<Rightarrow> bool" where
  "desc_ok d \<longleftrightarrow>
     bd_slaves d \<noteq> [] \<and> length (bd_slaves d) < 65536 \<and> list_all noise_line (bd_head d @ bd_noise d) \<and>
     list_all (\<lambda>l. newline \<notin> set l \<and> length l < 255) (desc_lines d)"

lemma bond_lines_append:
  "bond_lines j (a @ b) i = (case bond_lines j a i of None \<Rightarrow> None | Some i \<Rightarrow> bond_lines j b i)"
  by (induction j a i rule: bond_lines.induct) (simp_all split: option.split prod.split)

lemma strsep_colon: "CHR '':'' \<notin> set k \<Longrightarrow> strsep '':'' (k @ CHR '':'' # r) = (k, Some r)"
  by (rule strsep_hit) simp_all

lemma line_value_line: "line_value (c # v @ [x]) = Some v"
  by (cases v) (simp_all add: line_value_def)

lemma bond_line_key:
  "CHR '':'' \<notin> set k \<Longrightarrow>
   bond_lines j ((field_line k v @ [newline]) # ls) i = bond_lines j ls (bond_key j k v i)"
  using strsep_colon [of k "CHR '' '' # v @ [newline]"] by (simp add: line_value_line field_line_def)

lemma bond_line_noise:
  assumes "noise_line l"
  shows "bond_lines j ((l @ [newline]) # ls) i = bond_lines j ls i"
proof (cases "CHR '':'' \<in> set l")
  case False
  then have "strsep '':'' (l @ [newline]) = (l @ [newline], None)"
    by (intro strsep_none) (simp add: newline_def)
  then show ?thesis by simp
next
  case True
  then obtain k r where l: "l = k @ CHR '':'' # r" "CHR '':'' \<notin> set k"
    by (meson split_list_first)
  have k: "k \<notin> {''Ethernet Channel Bonding Driver'', ''Bonding Mode'', ''MII Status'', ''Slave Interface''}"
    using assms by (simp add: noise_line_def l strsep_colon)
  obtain v where "line_value (r @ [newline]) = Some v"
    using line_value_line by (cases r) (auto simp: line_value_def)
  then show ?thesis
    using k strsep_colon [OF l(2), of "r @ [newline]"] by (simp add: l(1) bond_key_def)
qed

lemma bond_lines_noise:
  "list_all noise_line ls \<Longrightarrow> bond_lines j (map (\<lambda>l. l @ [newline]) ls) i = Some i"
  by (induction ls) (simp_all add: bond_line_noise del: bond_lines.simps(2))

definition slave_info :: "string \<times> bool \<Rightarrow> bonding_slave_info" where
  "slave_info s = \<lparr>bs_interface = fst s, bs_mii_status = of_bool (snd s)\<rparr>"

lemma bond_lines_slave:
  assumes "list_all noise_line noise"
  shows "bond_lines j (map (\<lambda>l. l @ [newline]) (slave_lines noise s)) i =
    Some (i\<lparr>bi_slave := bi_slave i @ [slave_info s], bi_slaves := to_uint16 (int (length (bi_slave i)) + 1)\<rparr>)"
  using bond_lines_noise [OF assms]
  by (simp add: slave_lines_def bond_line_key bond_key_def bond_mii_def updown_def slave_info_def del: bond_lines.simps(2))

lemma bond_lines_slaves:
  assumes "list_all noise_line noise" "ss \<noteq> []"
  shows "bond_lines j (map (\<lambda>l. l @ [newline]) (concat (map (slave_lines noise) ss))) i =
    Some (i\<lparr>bi_slave := bi_slave i @ map slave_info ss, bi_slaves := to_uint16 (int (length (bi_slave i) + length ss))\<rparr>)"
  using assms(2)
proof (induction ss arbitrary: i)
  case (Cons s ss)
  then show ?case
    by (cases "ss = []") (simp_all add: bond_lines_append bond_lines_slave [OF assms(1)] ac_simps)
qed simp

lemma parseBond_desc:
  assumes "desc_ok d" "files f = Some (bond_text d)"
  shows "parseBond files fresh j f = BondInfo (fresh\<lparr>bi_mode := Some (bd_mode d), bi_mii_status := of_bool (bd_up d),
    bi_slave := map slave_info (bd_slaves d), bi_slaves := int (length (bd_slaves d))\<rparr>)"
proof -
  have "fgets_all 256 (bond_text d) = map (\<lambda>l. l @ [newline]) (desc_lines d)"
    using assms(1) fgets_all_lines [of "desc_lines d"] by (simp add: bond_text_def desc_ok_def list_all_iff)
  moreover have "bond_lines j (map (\<lambda>l. l @ [newline]) (desc_lines d)) (fresh\<lparr>bi_slave := []\<rparr>) =
      Some (fresh\<lparr>bi_mode := Some (bd_mode d), bi_mii_status := of_bool (bd_up d),
        bi_slave := map slave_info (bd_slaves d), bi_slaves := int (length (bd_slaves d))\<rparr>)"
    using assms(1)
    by (simp add: desc_lines_def desc_ok_def bond_lines_append bond_lines_noise bond_lines_slaves bond_line_key bond_key_def
        bond_mii_def updown_def to_uint16_def del: bond_lines.simps(2))
  ultimately show ?thesis using assms(2) by (simp add: parseBond_def)
qed

section \<open>The report\<close>

definition names_of :: "bool \<Rightarrow> (string \<times> bool) list \<Rightarrow> string list" where
  "names_of b ss = map fst (filter (\<lambda>s. snd s = b) ss)"

text \<open>The level of a bond, \<open>None\<close> for a file that is not there, and the text reported for it.\<close>

fun bond_level :: "bond_desc option \<Rightarrow> int" where
  "bond_level None = STATE_CRITICAL"
| "bond_level (Some d) =
     (if \<not> bd_up d then STATE_CRITICAL else if names_of False (bd_slaves d) \<noteq> [] then STATE_WARNING else STATE_OK)"

fun bond_msg :: "string \<Rightarrow> bond_desc option \<Rightarrow> string" where
  "bond_msg name None = name @ '' not found''"
| "bond_msg name (Some d) =
     (let ups = names_of True (bd_slaves d); downs = names_of False (bd_slaves d);
          up = (if ups = [] then ''(null)'' else join_msgs ups)
      in if \<not> bd_up d then name @ '' down ('' @ bd_mode d @ '')''
         else if downs \<noteq> [] then name @ '' up ('' @ up @ '', down: '' @ join_msgs downs @ '')''
         else name @ '' up ('' @ up @ '')'')"

definition report_level :: "int \<Rightarrow> string \<Rightarrow> mp_globals \<Rightarrow> mp_end" where
  "report_level st = (if st = STATE_CRITICAL then critical else if st = STATE_WARNING then warning else ok)"

lemma bond_slaves_fold:
  "bond_slaves (map slave_info ss) up down =
    (fold (\<lambda>s t. mp_strcat_comma t (Some s)) (names_of True ss) up,
     fold (\<lambda>s t. mp_strcat_comma t (Some s)) (names_of False ss) down)"
  by (induction ss arbitrary: up down) (simp_all add: names_of_def slave_info_def)

lemma cat_names:
  "buf_str (fold (\<lambda>s t. mp_strcat_comma t (Some s)) ss None) = (if ss = [] then None else Some (join_msgs ss))"
  using comma.cat_fold [of ss] by simp

lemma bond_one_desc:
  assumes "case d of None \<Rightarrow> files f = None | Some d \<Rightarrow> desc_ok d \<and> files f = Some (bond_text d)" "0 \<le> status" "status \<le> 2"
  shows "bond_one name (parseBond files fresh j f) status = Some (max status (bond_level d), bond_msg name d)"
proof (cases d)
  case None
  then show ?thesis using assms by (simp add: parseBond_def bond_one_def)
next
  case (Some b)
  then have b: "desc_ok b" "files f = Some (bond_text b)" using assms(1) by simp_all
  define up where "up = fold (\<lambda>s t. mp_strcat_comma t (Some s)) (names_of True (bd_slaves b)) None"
  define down where "down = fold (\<lambda>s t. mp_strcat_comma t (Some s)) (names_of False (bd_slaves b)) None"
  have up: "fmt_s (buf_str up) = (if names_of True (bd_slaves b) = [] then ''(null)'' else join_msgs (names_of True (bd_slaves b)))"
    by (simp add: up_def cat_names fmt_s_def)
  have down: "down = None \<longleftrightarrow> names_of False (bd_slaves b) = []" "down = Some x \<Longrightarrow> cstr x = join_msgs (names_of False (bd_slaves b))" for x
    using cat_names [of "names_of False (bd_slaves b)"] by (auto simp: buf_str_def down_def split: if_splits)
  have "bond_slaves (map slave_info (bd_slaves b)) None None = (up, down)"
    by (simp add: bond_slaves_fold up_def down_def)
  then show ?thesis
    using assms(2,3) up down
    by (cases down) (auto simp: Some parseBond_desc [of b files f fresh j, OF b] bond_one_def Let_def)
qed

lemma bond_loop_descs:
  assumes "\<forall>n \<in> set ns. case desc n of None \<Rightarrow> files (dir @ ''/'' @ n) = None
      | Some d \<Rightarrow> desc_ok d \<and> files (dir @ ''/'' @ n) = Some (bond_text d)"
    "\<forall>n \<in> set ns. length (bond_msg n (desc n)) < 64" "0 \<le> status" "status \<le> 2"
  shows "bond_loop (\<lambda>n. parseBond files fresh j (dir @ ''/'' @ n)) ns status out g =
    Inr (fold (\<lambda>n. max (bond_level (desc n))) ns status,
         fold (\<lambda>s t. mp_strcat_comma t (Some s)) (map (\<lambda>n. bond_msg n (desc n)) ns) out)"
  using assms
proof (induction ns arbitrary: status out)
  case (Cons n ns)
  have lev: "0 \<le> bond_level (desc n)" "bond_level (desc n) \<le> 2"
    by (cases "desc n"; simp)+
  have "bond_one n (parseBond files fresh j (dir @ ''/'' @ n)) status = Some (max status (bond_level (desc n)), bond_msg n (desc n))"
    using Cons.prems by (intro bond_one_desc) auto
  with Cons lev show ?case by (simp add: mp_snprintf_def max.commute)
qed simp

lemma bond_opts_names:
  "\<forall>n \<in> set names. CHR '','' \<notin> set n \<Longrightarrow>
   run_opts bond_opt (map (\<lambda>n. (CHR ''b'', n)) names) bond g = Inr (bond @ map Some names)"
proof (induction names arbitrary: bond)
  case (Cons n names)
  have "bond_push n bond = bond @ [Some n]"
    using Cons.prems strtoks_none [of "'',''" n] by (simp add: bond_push_def mp_array_push_def arr_puts_end)
  with Cons show ?case by (simp add: bond_opt_def)
qed simp

lemma fold_max_level: "fold (\<lambda>n. max (f n)) ns (st :: int) = Max (insert st (f ` set ns))"
  using Max.set_eq_fold [of st "map f ns"] by (simp add: fold_map comp_def)


definition bond_ex :: bond_desc where
  "bond_ex = \<lparr>bd_head = [''Ethernet: v1''], bd_mode = ''ad'', bd_up = True, bd_slaves = [(''eth0'', True), (''eth1'', False)],
     bd_noise = [[], ''Speed: 1000'']\<rparr>"


text \<open>A bond whose text has 64 or more characters ends the plugin with CRITICAL, although all its slaves are up.\<close>

theorem check_bonding_long_text:
  assumes "getenv ''PROC_BONDING_DIR'' = Some dir" "CHR '','' \<notin> set n"
    "desc_ok d" "files (dir @ ''/'' @ n) = Some (bond_text d)" "64 \<le> length (bond_msg n (Some d))"
  shows "check_bonding_main getenv readdir files fresh junk [(CHR ''b'', n)] g = critical ''snprintf failed!'' g"
  using assms bond_opts_names [of "[n]" "[]" g] bond_one_desc [where d = "Some d" and files = files and f = "dir @ ''/'' @ n" and status = STATE_OK]
  by (simp add: check_bonding_main_def bond_process_arguments_def bond_names_def mp_snprintf_def del: bond_msg.simps)

text \<open>The number of slaves of a bond without slaves is never set: if the memory held a number, the loop reads
  through the NULL pointer.\<close>

theorem parseBond_no_slaves:
  assumes "files f = Some (bond_text \<lparr>bd_head = [], bd_mode = m, bd_up = True, bd_slaves = [], bd_noise = []\<rparr>)"
    "newline \<notin> set m" "length m < 200" "0 < bi_slaves fresh"
  shows "bond_one name (parseBond files fresh junk f) status = None"
proof -
  define d where "d = \<lparr>bd_head = [], bd_mode = m, bd_up = True, bd_slaves = [], bd_noise = []\<rparr>"
  have "fgets_all 256 (bond_text d) = map (\<lambda>l. l @ [newline]) (desc_lines d)"
    using assms(2,3) fgets_all_lines [of "desc_lines d"]
    by (simp add: bond_text_def d_def desc_lines_def field_line_def updown_def newline_def)
  then have "parseBond files fresh junk f = BondInfo (fresh\<lparr>bi_mode := Some m, bi_mii_status := 1, bi_slave := []\<rparr>)"
    using assms(1)
    by (simp add: parseBond_def d_def [symmetric])
      (simp add: d_def desc_lines_def bond_line_key bond_key_def bond_mii_def updown_def del: bond_lines.simps(2))
  then show ?thesis using assms(4) by (simp add: bond_one_def)
qed

interpretation bond_options: plugin_options bond_opt "\<lambda>bond. list_all (\<lambda>x. x \<noteq> None) bond"
proof
  fix a a' :: "string option list" and c s g
  assume "list_all (\<lambda>x. x \<noteq> None) a" "bond_opt c s a g = Inr a'"
  then show "list_all (\<lambda>x. x \<noteq> None) a'"
    by (auto simp: bond_opt_def bond_push_def mp_array_push_def arr_puts_end list_all_iff split: if_splits)
qed (simp add: bond_opt_def)

end
