(* ===== verification/Check_Mem.thy ===== *)
theory Check_Mem
  imports Plugin
begin

text \<open>
  \<^verbatim>\<open>base/check_mem.c\<close>: memory usage from /proc/meminfo.

  All the quantities are C floats: every operation rounds to single precision. \<open>stale\<close> is the byte behind the
  end of the line in the buffer, which \<open>readValue\<close> looks at when a number ends the line.
\<close>

section \<open>Program\<close>

definition check_mem_globals :: mp_globals where
  "check_mem_globals = mp_init ''check_mem''
     (''[-w <warning usage>] [-c <critical usage>]'')
     ''0.1'' ''Marius Rieder <marius.rieder@durchmesser.ch>'' ''2010''"

definition check_mem_print_help :: "string \<Rightarrow> string \<Rightarrow> string" where
  "check_mem_print_help package version =
     print_revision package version check_mem_globals @
     print_copyright check_mem_globals @
     help_lines
       [[],
        ''Check description: Check memory usaged.'',
        []] @
     print_usage check_mem_globals @
     print_help_default @
     print_help_warn ''Memory Usage'' ''90%'' @
     print_help_crit ''Memory Usage'' ''95%''"

section \<open>Values\<close>

abbreviation flt_mul :: "fp \<Rightarrow> fp \<Rightarrow> fp" where "flt_mul \<equiv> fp_mul round_float"
abbreviation flt_sub :: "fp \<Rightarrow> fp \<Rightarrow> fp" where "flt_sub \<equiv> fp_sub round_float"

definition mem_unit :: "char \<Rightarrow> fp \<Rightarrow> fp" where
  "mem_unit u v =
     (let k = flt_of_int 1024
      in if u = CHR ''g'' then flt_mul (flt_mul (flt_mul v k) k) k
         else if u = CHR ''m'' then flt_mul (flt_mul v k) k
         else if u = CHR ''k'' then flt_mul v k
         else v)"

definition readValue :: "char \<Rightarrow> string \<Rightarrow> fp" where
  "readValue stale str =
     (let (d, rest) = strtod (dropWhile isspace str);
          v = fp_cast round_float d;
          u = (case rest of [] \<Rightarrow> stale | [c] \<Rightarrow> CHR 0x00 | c # e # _ \<Rightarrow> e)
      in if isspace u then v else mem_unit u v)"

record mem_info =
  mem_total :: fp
  mem_free :: fp
  mem_slab :: fp
  swap_cached :: fp
  swap_total :: fp
  swap_free :: fp
  page_tables :: fp
  mem_buffers :: fp
  mem_cached :: fp

definition mem_info0 :: mem_info where
  "mem_info0 = (let z = Num False 0 in
     \<lparr>mem_total = z, mem_free = z, mem_slab = z, swap_cached = z, swap_total = z, swap_free = z,
      page_tables = z, mem_buffers = z, mem_cached = z\<rparr>)"

definition mem_key :: "string \<Rightarrow> fp \<Rightarrow> mem_info \<Rightarrow> mem_info option" where
  "mem_key key v m =
     (if key = ''MemTotal:'' then Some (m\<lparr>mem_total := v\<rparr>)
      else if key = ''MemFree:'' then Some (m\<lparr>mem_free := v\<rparr>)
      else if key = ''Slab:'' then Some (m\<lparr>mem_slab := v\<rparr>)
      else if key = ''SwapCached:'' then Some (m\<lparr>swap_cached := v\<rparr>)
      else if key = ''SwapTotal:'' then Some (m\<lparr>swap_total := v\<rparr>)
      else if key = ''SwapFree:'' then Some (m\<lparr>swap_free := v\<rparr>)
      else if key = ''PageTables:'' then Some (m\<lparr>page_tables := v\<rparr>)
      else if key = ''Buffers:'' then Some (m\<lparr>mem_buffers := v\<rparr>)
      else if key = ''Cached:'' then Some (m\<lparr>mem_cached := v\<rparr>)
      else None)"

text \<open>A line: only a known key reads its value, and a known key without a value is a NULL pointer.\<close>

definition mem_line :: "char \<Rightarrow> string \<Rightarrow> mem_info \<Rightarrow> mem_info option" where
  "mem_line stale line m =
     (case strsep '' '' line of
        (key, rest) \<Rightarrow>
          (case mem_key key (case rest of Some r \<Rightarrow> readValue stale r | None \<Rightarrow> NaN) m of
             None \<Rightarrow> Some m
           | Some m' \<Rightarrow> if rest = None then None else Some m'))"

fun mem_lines :: "char \<Rightarrow> string list \<Rightarrow> mem_info \<Rightarrow> mem_info option" where
  "mem_lines stale [] m = Some m"
| "mem_lines stale (l # ls) m =
     (case mem_line stale l m of None \<Rightarrow> None | Some m \<Rightarrow> mem_lines stale ls m)"

section \<open>Arguments\<close>

definition mem_thresholds0 :: "thresholds option" where
  "mem_thresholds0 = fst (mp_threshold_set_critical (fst (mp_threshold_set_warning None ''90'' 0)) ''95'' 0)"

definition mem_opt :: "thresholds option opt_handler" where
  "mem_opt c optarg t g = getopt_wc c optarg t g"

definition mem_process_arguments :: "(char \<times> string) list \<Rightarrow> mp_globals \<Rightarrow> mp_end + thresholds option" where
  "mem_process_arguments os g = run_opts mem_opt os mem_thresholds0 g"

section \<open>Main\<close>

definition mem_apps :: "mem_info \<Rightarrow> fp" where
  "mem_apps m = flt_sub (flt_sub (flt_sub (flt_sub (flt_sub (flt_sub (mem_total m) (mem_free m)) (mem_buffers m))
     (mem_cached m)) (mem_slab m)) (page_tables m)) (swap_cached m)"

definition mem_swap :: "mem_info \<Rightarrow> fp" where
  "mem_swap m = flt_sub (swap_total m) (swap_free m)"

definition mem_used :: "mem_info \<Rightarrow> fp" where
  "mem_used m = flt_sub (flt_sub (flt_sub (mem_total m) (mem_free m)) (mem_buffers m)) (mem_cached m)"

definition mem_usedp :: "mem_info \<Rightarrow> fp" where
  "mem_usedp m = fp_div round_float (flt_mul (mem_used m) (flt_of_int 100)) (mem_total m)"

definition mem_perf :: "mem_info \<Rightarrow> mp_globals \<Rightarrow> mp_globals" where
  "mem_perf m g =
     (let p = (\<lambda>label v g. snd (mp_perfdata_float2 label v [] None True (Num False 0) True (mem_total m) g));
          g = snd (mp_perfdata_float ''memtotal'' (mem_total m) [] None g);
          g = p ''slab'' (mem_slab m) g;
          g = p ''swapcached'' (swap_cached m) g;
          g = p ''pagetables'' (page_tables m) g;
          g = p ''apps'' (mem_apps m) g;
          g = p ''memfree'' (mem_free m) g;
          g = p ''buffers'' (mem_buffers m) g;
          g = p ''cached'' (mem_cached m) g
      in p ''swap'' (mem_swap m) g)"

definition mem_message :: "mem_info \<Rightarrow> string" where
  "mem_message m = ''Memory - '' @ fmt_f 2 (mem_usedp m) @ ''% ('' @ cstr (mp_human_size (mem_used m)) @ '' of '' @
     cstr (mp_human_size (mem_total m)) @ '') used''"

definition check_mem_main :: "char \<Rightarrow> files \<Rightarrow> (char \<times> string) list \<Rightarrow> mp_globals \<Rightarrow> mp_end" where
  "check_mem_main stale files os g =
     (case mem_process_arguments os g of
        Inl e \<Rightarrow> e
      | Inr t \<Rightarrow>
          (case files ''/proc/meminfo'' of
             None \<Rightarrow> unknown (''Can'' @ [CHR 0x27] @ ''t read /proc/meminfo'') g
           | Some text \<Rightarrow>
               (case mem_lines stale (fgets_all 64 text) mem_info0 of
                  None \<Rightarrow> Crash
                | Some m \<Rightarrow>
                    let g = mem_perf m g; st = get_status (mem_usedp m) t
                    in if st = STATE_OK then ok (mem_message m) g
                       else if st = STATE_WARNING then warning (mem_message m) g
                       else if st = STATE_CRITICAL then critical (mem_message m) g
                       else unknown (mem_message m) g)))"

section \<open>The meaning of a meminfo file\<close>

text \<open>A line of the file: a name, at least one space and a number of KiB.\<close>

definition mem_text :: "string \<times> nat \<times> int \<Rightarrow> string" where
  "mem_text e = (case e of (name, pad, n) \<Rightarrow> name @ '':'' @ replicate (Suc pad) (CHR '' '') @ fmt_d n @ '' kB'')"

definition meminfo_text :: "(string \<times> nat \<times> int) list \<Rightarrow> string" where
  "meminfo_text es = concat (map (\<lambda>l. l @ [newline]) (map mem_text es))"

definition mem_entry_ok :: "string \<times> nat \<times> int \<Rightarrow> bool" where
  "mem_entry_ok e \<longleftrightarrow>
     (case e of (name, pad, n) \<Rightarrow>
        CHR '' '' \<notin> set name \<and> newline \<notin> set name \<and> 0 \<le> n \<and> n < 2 ^ 53 \<and> length (mem_text e) < 63)"

definition kib :: "int \<Rightarrow> fp" where
  "kib n = flt_mul (flt_of_int n) (flt_of_int 1024)"

text \<open>The value of a name: that of its last line, 0 without one.\<close>

definition mem_field :: "(string \<times> nat \<times> int) list \<Rightarrow> string \<Rightarrow> fp" where
  "mem_field es name = (case map_of (rev es) name of Some (pad, n) \<Rightarrow> kib n | None \<Rightarrow> Num False 0)"

definition mem_of :: "(string \<times> nat \<times> int) list \<Rightarrow> mem_info" where
  "mem_of es = \<lparr>mem_total = mem_field es ''MemTotal'', mem_free = mem_field es ''MemFree'',
     mem_slab = mem_field es ''Slab'', swap_cached = mem_field es ''SwapCached'', swap_total = mem_field es ''SwapTotal'',
     swap_free = mem_field es ''SwapFree'', page_tables = mem_field es ''PageTables'', mem_buffers = mem_field es ''Buffers'',
     mem_cached = mem_field es ''Cached''\<rparr>"

lemma readValue_kib:
  assumes "0 \<le> n" "n < 2 ^ 53"
  shows "readValue stale (replicate k (CHR '' '') @ fmt_d n @ '' kB'' @ [newline]) = kib n"
proof -
  have sp: "isspace (CHR '' '')" by (simp add: isspace_def ccode_def)
  obtain d r where "base_str 10 n = dig d # r" "0 \<le> d" "d < 10"
    using hd_base_str [of n 10] assms(1) by auto
  then have c: "fmt_d n = dig d # r" "\<not> isspace (dig d)"
    using isspace_dig [of d] assms(1) by (simp_all add: fmt_d_def)
  have "dropWhile isspace (replicate k (CHR '' '') @ fmt_d n @ '' kB'' @ [newline]) = fmt_d n @ '' kB'' @ [newline]"
    using sp by (induction k) (simp_all add: c)
  moreover have "strtod (fmt_d n @ '' kB'' @ [newline]) = (dnum n, '' kB'' @ [newline])"
    using strtod_fmt_d [of "'' kB'' @ [newline]" n] round_double_dnum [of n] assms by (simp add: num_end_def isdigit_def ccode_def)
  ultimately show ?thesis
    using assms(1) by (simp add: readValue_def isspace_def ccode_def mem_unit_def dnum_def kib_def fp_of_rat_def)
qed

lemma mem_line_entry:
  assumes "mem_entry_ok (name, pad, n)"
  shows "mem_line stale (mem_text (name, pad, n) @ [newline]) m =
    Some (case mem_key (name @ '':'') (kib n) m of None \<Rightarrow> m | Some m' \<Rightarrow> m')"
proof -
  have "strsep '' '' ((name @ '':'') @ CHR '' '' # replicate pad (CHR '' '') @ fmt_d n @ '' kB'' @ [newline]) =
      (name @ '':'', Some (replicate pad (CHR '' '') @ fmt_d n @ '' kB'' @ [newline]))"
    using assms by (intro strsep_hit) (auto simp: mem_entry_ok_def)
  then show ?thesis
    using assms readValue_kib [of n stale pad] by (simp add: mem_line_def mem_text_def mem_entry_ok_def split: option.split)
qed

text \<open>Reading a line is an update of the entries.\<close>

lemma mem_field_snoc:
  "mem_field (es @ [(name, pad, n)]) k = (if k = name then kib n else mem_field es k)"
  by (simp add: mem_field_def)

lemma append_colon_eq: "name @ '':'' = k @ '':'' \<longleftrightarrow> name = k"
  by simp

lemma mem_of_snoc:
  "mem_of (es @ [(name, pad, n)]) = (case mem_key (name @ '':'') (kib n) (mem_of es) of None \<Rightarrow> mem_of es | Some m \<Rightarrow> m)"
proof -
  have keys: "''MemTotal:'' = ''MemTotal'' @ '':''" "''MemFree:'' = ''MemFree'' @ '':''" "''Slab:'' = ''Slab'' @ '':''"
    "''SwapCached:'' = ''SwapCached'' @ '':''" "''SwapTotal:'' = ''SwapTotal'' @ '':''" "''SwapFree:'' = ''SwapFree'' @ '':''"
    "''PageTables:'' = ''PageTables'' @ '':''" "''Buffers:'' = ''Buffers'' @ '':''" "''Cached:'' = ''Cached'' @ '':''"
    by simp_all
  show ?thesis
    unfolding mem_key_def keys append_colon_eq by (simp add: mem_of_def mem_field_snoc)
qed

lemma mem_lines_append:
  "mem_lines s (a @ b) m = (case mem_lines s a m of None \<Rightarrow> None | Some m \<Rightarrow> mem_lines s b m)"
  by (induction s a m rule: mem_lines.induct) (simp_all split: option.split)

lemma mem_lines_entries:
  "list_all mem_entry_ok es \<Longrightarrow> mem_lines stale (map (\<lambda>e. mem_text e @ [newline]) es) mem_info0 = Some (mem_of es)"
proof (induction es rule: rev_induct)
  case Nil
  then show ?case by (simp add: mem_info0_def mem_of_def mem_field_def Let_def)
next
  case (snoc e es)
  obtain name pad n where e: "e = (name, pad, n)" by (cases e)
  then have "mem_entry_ok (name, pad, n)" using snoc.prems by simp
  with snoc show ?case
    by (simp add: e mem_lines_append mem_line_entry mem_of_snoc)
qed

lemma newline_mem_text: "mem_entry_ok e \<Longrightarrow> newline \<notin> set (mem_text e)"
  using set_fmt_d by (cases e) (fastforce simp: mem_entry_ok_def mem_text_def newline_def)

text \<open>The state of \<open>check_mem\<close>. For a printed meminfo file the plugin ends with the state of the used
  percentage, which is computed from the last line of every name, in KiB and single precision.\<close>

lemma check_mem_usage:
  assumes "files ''/proc/meminfo'' = Some (meminfo_text es)" "list_all mem_entry_ok es"
    "mem_process_arguments os g = Inr t"
  shows "exit_code (check_mem_main stale files os g) = Some (get_status (mem_usedp (mem_of es)) t)"
proof -
  have "fgets_all 64 (meminfo_text es) = map (\<lambda>e. mem_text e @ [newline]) es"
    using fgets_all_printed [of "map mem_text es" 64] assms(2) newline_mem_text
    by (auto simp: meminfo_text_def list_all_iff mem_entry_ok_def comp_def)
  then show ?thesis
    using assms(1,3) mem_lines_entries [OF assms(2), of stale] get_status_cases [of "mem_usedp (mem_of es)" t]
    by (auto simp: check_mem_main_def Let_def)
qed

lemma mem_thresholds0_ranges:
  "mem_thresholds0 = Some \<lparr>th_warning = Some (spec_range BISI (Upto (Bound 90 []))), th_critical = Some (spec_range BISI (Upto (Bound 95 [])))\<rparr>"
proof -
  have "fmt_d 90 @ [] = ''90''" "fmt_d 95 @ [] = ''95''" by code_simp+
  then show ?thesis
    using parse_upto [of BISI 90 "[]"] parse_upto [of BISI 95 "[]"]
    by (simp add: mem_thresholds0_def set_threshold_defs num_end_def unit_factor_def BISI_def parse_multiplier_string_def
        del: spec_range.simps)
qed

section \<open>The used percentage\<close>

text \<open>Numbers of KiB below \<open>2^24\<close> and their differences are exact in single precision; the product and the quotient
  of the percentage are each off by at most one part in \<open>2^23\<close>.\<close>

definition mem_kb :: "(string \<times> nat \<times> int) list \<Rightarrow> string \<Rightarrow> int" where
  "mem_kb es name = (case map_of (rev es) name of Some (pad, n) \<Rightarrow> n | None \<Rightarrow> 0)"

definition used_kb :: "(string \<times> nat \<times> int) list \<Rightarrow> int" where
  "used_kb es = mem_kb es ''MemTotal'' - mem_kb es ''MemFree'' - mem_kb es ''Buffers'' - mem_kb es ''Cached''"

definition used_percent :: "(string \<times> nat \<times> int) list \<Rightarrow> rat" where
  "used_percent es = 100 * of_int (used_kb es) / of_int (mem_kb es ''MemTotal'')"

lemma round_float_kib:
  assumes "0 \<le> n" "n < 2 ^ 24"
  shows "round_float s (of_int n * 1024) = Num s (of_int n * 1024)"
proof (cases "n = 0")
  case False
  have "pow2 10 = 1024" by (simp add: pow2_def)
  then show ?thesis using round_fp_scaled [of n 24 10 128 "-149" s] assms False by simp
qed (simp add: round_fp_def)

lemma kib_exact: "0 \<le> n \<Longrightarrow> n < 2 ^ 24 \<Longrightarrow> kib n = Num False (of_int n * 1024)"
  using round_fp_of_int [of n 24 128 "-149" False] round_float_kib [of n False] flt_1024
  by (cases "n = 0") (simp_all add: kib_def fp_of_rat_def round_fp_def)

lemma mem_field_kb: "0 \<le> mem_kb es name \<Longrightarrow> mem_kb es name < 2 ^ 24 \<Longrightarrow> mem_field es name = Num False (of_int (mem_kb es name) * 1024)"
  using kib_exact by (auto simp: mem_field_def mem_kb_def split: option.splits)

lemma flt_sub_kib:
  assumes "0 \<le> b" "b \<le> a" "a < 2 ^ 24"
  shows "flt_sub (Num False (of_int a * 1024)) (Num False (of_int b * 1024)) = Num False (of_int (a - b) * 1024)"
proof -
  have "of_int a * 1024 - of_int b * 1024 = (of_int (a - b) * 1024 :: rat)" by (simp add: algebra_simps)
  then show ?thesis
    using round_float_kib [of "a - b" False] assms by (simp add: fp_sub_def Let_def)
qed

lemma mem_kb_nonneg: "list_all mem_entry_ok es \<Longrightarrow> 0 \<le> mem_kb es name"
  by (fastforce simp: mem_kb_def mem_entry_ok_def list_all_iff split: option.split dest: map_of_SomeD)

lemma mem_used_exact:
  assumes "list_all mem_entry_ok es" "mem_kb es ''MemTotal'' < 2 ^ 24" "0 \<le> used_kb es"
  shows "mem_used (mem_of es) = Num False (of_int (used_kb es) * 1024)"
proof -
  note nn = mem_kb_nonneg [OF assms(1)]
  have "mem_kb es ''MemFree'' \<le> mem_kb es ''MemTotal''"
    "mem_kb es ''Buffers'' \<le> mem_kb es ''MemTotal'' - mem_kb es ''MemFree''"
    "mem_kb es ''Cached'' \<le> mem_kb es ''MemTotal'' - mem_kb es ''MemFree'' - mem_kb es ''Buffers''"
    using assms(3) nn [of "''Buffers''"] nn [of "''Cached''"] by (simp_all add: used_kb_def)
  then show ?thesis
    using assms(2) nn [of "''Buffers''"] nn [of "''Cached''"] nn [of "''MemFree''"] nn [of "''MemTotal''"]
    by (simp add: mem_used_def mem_of_def mem_field_kb flt_sub_kib used_kb_def del: of_int_diff)
qed

lemma round_float_near:
  assumes "1 / 2 ^ 64 \<le> m" "m \<le> 2 ^ 64"
  shows "\<exists>r. round_float s m = Num s r \<and> \<bar>r - m\<bar> \<le> m / 2 ^ 23"
proof -
  have "pow2 (-126) \<le> m" using assms(1) pow2_mono [of "-126" "-64"] by (simp add: pow2_def)
  then show ?thesis
    using round_fp_near [of "-149" 24 m 64 128 s] assms(2) by (simp add: pow2_def)
qed

lemma percent_near:
  fixes x y P :: rat
  assumes "0 \<le> x" "x \<le> 1" "\<bar>y - 100 * x\<bar> \<le> 100 * x / 2 ^ 23" "\<bar>P - y\<bar> \<le> y / 2 ^ 23"
  shows "0 \<le> P \<and> \<bar>P - 100 * x\<bar> \<le> 1 / 10000"
proof -
  have e: "y - 100 * x \<le> 100 * x / 8388608" "100 * x - y \<le> 100 * x / 8388608"
    "P - y \<le> y / 8388608" "y - P \<le> y / 8388608"
    using assms(3,4) unfolding abs_le_iff by simp_all
  then have "y \<le> 101" using assms(2) by linarith
  then have "P - 100 * x \<le> 1 / 10000" "100 * x - P \<le> 1 / 10000" "0 \<le> P" using e assms(1,2) by linarith+
  then show ?thesis unfolding abs_le_iff by linarith
qed

lemma mem_usedp_near:
  assumes "list_all mem_entry_ok es" "mem_kb es ''MemTotal'' < 2 ^ 24" "0 \<le> used_kb es" "0 < mem_kb es ''MemTotal''"
  shows "\<exists>P. mem_usedp (mem_of es) = Num False P \<and> 0 \<le> P \<and> \<bar>P - used_percent es\<bar> \<le> 1 / 10000"
proof -
  let ?u = "of_int (used_kb es) :: rat" and ?t = "of_int (mem_kb es ''MemTotal'') :: rat"
  note nn = mem_kb_nonneg [OF assms(1)]
  have h: "fp_of_rat round_float 100 = Num False 100"
    using round_fp_of_int [of 100 24 128 "-149" False] by (simp add: fp_of_rat_def)
  have m: "mem_total (mem_of es) = Num False (?t * 1024)"
    using assms(2,4) by (simp add: mem_of_def mem_field_kb)
  have ut: "used_kb es \<le> mem_kb es ''MemTotal''"
    using nn [of "''Buffers''"] nn [of "''Cached''"] nn [of "''MemFree''"] by (simp add: used_kb_def)
  have rat: "0 \<le> ?u" "?u \<le> ?t" "1 \<le> ?t" "?t \<le> 2 ^ 24"
    using assms(2-4) ut by simp_all
  show ?thesis
  proof (cases "used_kb es = 0")
    case True
    then show ?thesis
      using mem_used_exact [OF assms(1-3)] assms(4)
      by (simp add: mem_usedp_def h m used_percent_def round_fp_def)
  next
    case False
    then have u1: "1 \<le> ?u" using assms(3) by simp
    obtain r where r: "flt_mul (mem_used (mem_of es)) (flt_of_int 100) = Num False r"
      "\<bar>r - ?u * 102400\<bar> \<le> ?u * 102400 / 2 ^ 23"
      using round_float_near [of "?u * 102400" False] mem_used_exact [OF assms(1-3)] rat u1 by (auto simp: h mult.assoc)
    have "r - ?u * 102400 \<le> ?u * 102400 / 8388608" "?u * 102400 - r \<le> ?u * 102400 / 8388608"
      using r(2) unfolding abs_le_iff by simp_all
    then have r1: "1 \<le> r" "r \<le> 2 ^ 42" using u1 rat by simp_all
    let ?y = "r / (?t * 1024)"
    have "1 / 2 ^ 64 \<le> ?y" "?y \<le> 2 ^ 64"
      using r1 rat by (simp_all add: field_simps)
    from round_float_near [OF this, of False] obtain P where P: "mem_usedp (mem_of es) = Num False P" "\<bar>P - ?y\<bar> \<le> ?y / 2 ^ 23"
      using assms(4) unfolding mem_usedp_def r(1) m by auto
    have "?y - 100 * (?u / ?t) = (r - ?u * 102400) / (?t * 1024)" using rat(3) by (simp add: field_simps)
    then have "\<bar>?y - 100 * (?u / ?t)\<bar> = \<bar>r - ?u * 102400\<bar> / (?t * 1024)"
      using rat(3) by (simp add: abs_divide)
    also have "\<dots> \<le> ?u * 102400 / 2 ^ 23 / (?t * 1024)" using r(2) rat(3) by (intro divide_right_mono) auto
    also have "\<dots> = 100 * (?u / ?t) / 2 ^ 23" using rat(3) by (simp add: field_simps)
    finally have "\<bar>?y - 100 * (?u / ?t)\<bar> \<le> 100 * (?u / ?t) / 2 ^ 23" .
    then have "0 \<le> P \<and> \<bar>P - 100 * (?u / ?t)\<bar> \<le> 1 / 10000"
      using rat(1-3) by (intro percent_near [OF _ _ _ P(2)]) (simp_all del: of_int_le_iff of_int_0_le_iff)
    then show ?thesis using P(1) by (simp add: used_percent_def)
  qed
qed

lemma check_mem_default_cases:
  assumes "files ''/proc/meminfo'' = Some (meminfo_text es)" "list_all mem_entry_ok es"
    "0 < mem_kb es ''MemTotal''" "mem_kb es ''MemTotal'' < 2 ^ 24" "0 \<le> used_kb es"
  shows "used_percent es \<le> 90 - 1 / 10000 \<Longrightarrow> exit_code (check_mem_main stale files [] g) = Some STATE_OK"
    and "90 + 1 / 9999 \<le> used_percent es \<Longrightarrow> used_percent es \<le> 95 - 1 / 10000 \<Longrightarrow>
      exit_code (check_mem_main stale files [] g) = Some STATE_WARNING"
    and "95 + 1 / 9999 \<le> used_percent es \<Longrightarrow> exit_code (check_mem_main stale files [] g) = Some STATE_CRITICAL"
proof -
  obtain P where P: "mem_usedp (mem_of es) = Num False P" "0 \<le> P" "\<bar>P - used_percent es\<bar> \<le> 1 / 10000"
    using mem_usedp_near assms by blast
  have "exit_code (check_mem_main stale files [] g) = Some (get_status (Num False P) mem_thresholds0)"
    using check_mem_usage [where files = files and es = es and os = "[]" and t = mem_thresholds0] assms(1,2) P(1)
    by (simp add: mem_process_arguments_def)
  moreover have "get_status (Num False P) mem_thresholds0 =
      (if 95 < P then STATE_CRITICAL else if 90 < P then STATE_WARNING else STATE_OK)"
    using P(2) by (simp add: mem_thresholds0_ranges get_status_def check_upto unit_factor_def BISI_def
        parse_multiplier_string_def del: spec_range.simps)
  ultimately show "used_percent es \<le> 90 - 1 / 10000 \<Longrightarrow> exit_code (check_mem_main stale files [] g) = Some STATE_OK"
    "90 + 1 / 9999 \<le> used_percent es \<Longrightarrow> used_percent es \<le> 95 - 1 / 10000 \<Longrightarrow>
      exit_code (check_mem_main stale files [] g) = Some STATE_WARNING"
    "95 + 1 / 9999 \<le> used_percent es \<Longrightarrow> exit_code (check_mem_main stale files [] g) = Some STATE_CRITICAL"
    using P(3) unfolding abs_le_iff by auto
qed



text \<open>The default printed by the help text, \<open>90%\<close>, is not what the option means: given as \<open>-w 90%\<close> it is 0.9, and a
  usage of one percent is already a WARNING.\<close>

theorem check_mem_percent:
  "\<exists>t. mem_process_arguments [(CHR ''w'', ''90%'')] g = Inr t \<and>
     (\<forall>q. 1 \<le> q \<and> q \<le> 95 \<longrightarrow> get_status (Num False q) t = STATE_WARNING)"
proof -
  define r where "r = range_default\<lparr>range_end := Num False (8106479329266893 / 9007199254740992), end_percent := True\<rparr>"
  have s: "strtod ''90%'' = (dnum 90, ''%'')"
  proof -
    have "fmt_d 90 @ ''%'' = ''90%''" by code_simp
    then show ?thesis
      using strtod_fmt_d [of "''%''" 90] round_double_dnum [of 90] by (simp add: num_end_def isdigit_def ccode_def)
  qed
  have v: "bound_value 0 (dnum 90) ''%'' = (Num False (8106479329266893 / 9007199254740992), True)"
  proof -
    have "round_double False (9 / 10) = Num False (8106479329266893 / 9007199254740992)"
      "round_double False (8106479329266893 / 9007199254740992) = Num False (8106479329266893 / 9007199254740992)"
      by code_simp+
    then show ?thesis
      using round_double_int [of 100] round_double_int [of 1]
      by (simp add: bound_value_def dnum_def parse_multiplier_string_def BISI_def)
  qed
  have "parse_end 0 ''90%'' range_default = (r, OK)"
    using v by (simp add: parse_end_def s r_def)
  then have "parse_range_string ''90%'' 0 = (r, OK)"
    using parse_bounds_none [of "''90%''" 0 range_default]
    by (simp add: parse_range_string_bounds parse_start_def r_def range_default_def fp_le_def)
  then have "mem_process_arguments [(CHR ''w'', ''90%'')] g =
      Inr (Some \<lparr>th_warning = Some r, th_critical = Some (spec_range BISI (Upto (Bound 95 [])))\<rparr>)"
    by (simp add: mem_process_arguments_def mem_opt_def getopt_wc_def set_threshold_defs mem_thresholds0_ranges BISI_def del: spec_range.simps)
  moreover have "check_range (Num False q) r" if "1 \<le> q" for q
    using that by (simp add: check_range_def r_def range_default_def)
  ultimately show ?thesis
    by (auto simp: get_status_def check_upto unit_factor_def BISI_def parse_multiplier_string_def simp del: spec_range.simps)
qed

interpretation mem_options: plugin_options mem_opt thresholds_both
  by unfold_locales (use thresholds_both_keep(1) getopt_wc_refuses in \<open>unfold mem_opt_def, blast+\<close>)

end
