(* ===== verification/Check_Memcached.thy ===== *)
theory Check_Memcached
  imports Plugin MP_Net
begin

text \<open>
  \<^verbatim>\<open>base/check_memcached.c\<close>: the statistics of a memcached server.

  The connection is an environment: the calls of \<open>mp_connect\<close>, the data the server sends as a list of packets,
  and the two readings of the clock. A \<open>recv\<close> that never completes a line leaves the plugin in its loop until
  the alarm, whose handler ends it.
\<close>

section \<open>Program\<close>

definition check_memcached_globals :: mp_globals where
  "check_memcached_globals = mp_init ''check_memcached''
     (''[--host <HOSTNAME>] [--port <PORT>]'')
     ''0.1'' ''Marius Rieder <marius.rieder@durchmesser.ch>'' ''2012''"

definition check_memcached_print_help :: "string \<Rightarrow> string \<Rightarrow> bool \<Rightarrow> string" where
  "check_memcached_print_help package version use_ipv6 =
     print_revision package version check_memcached_globals @
     print_copyright check_memcached_globals @
     help_lines
       [[],
        ''Check description: Check memcached status.'',
        []] @
     print_usage check_memcached_globals @
     print_help_default @
     print_help_host @
     print_help_port ''none'' @
     print_help_46 use_ipv6 @
     print_help_warn_time ''3s'' @
     print_help_crit_time ''4s''"

section \<open>Arguments\<close>

record memc_args =
  mc_hostname :: string
  mc_port :: int
  mc_ipv :: int
  mc_thresholds :: "thresholds option"

definition memc_args0 :: memc_args where
  "memc_args0 = \<lparr>mc_hostname = ''localhost'', mc_port = 11211, mc_ipv = AF_UNSPEC,
     mc_thresholds = fst (mp_threshold_set_critical_time (fst (mp_threshold_set_warning_time None ''3s'')) ''4s'')\<rparr>"

definition memc_opt :: "bool \<Rightarrow> bool \<Rightarrow> resolver \<Rightarrow> memc_args opt_handler" where
  "memc_opt use_ipv6 v6 gai c optarg a g =
     (let a = a\<lparr>mc_ipv := getopt_46 use_ipv6 c (mc_ipv a)\<rparr>
      in case getopt_wc_time c optarg (mc_thresholds a) g of
           Inl e \<Rightarrow> Inl e
         | Inr t \<Rightarrow>
             let a = a\<lparr>mc_thresholds := t\<rparr>
             in if c = CHR ''H'' then map_sum (\<lambda>e. e) (\<lambda>h. a\<lparr>mc_hostname := h\<rparr>) (getopt_host v6 gai optarg g)
                else if c = CHR ''P'' then map_sum (\<lambda>e. e) (\<lambda>p. a\<lparr>mc_port := p\<rparr>) (getopt_port optarg g)
                else Inr a)"

definition memc_process_arguments ::
    "bool \<Rightarrow> bool \<Rightarrow> resolver \<Rightarrow> (char \<times> string) list \<Rightarrow> mp_globals \<Rightarrow> mp_end + memc_args" where
  "memc_process_arguments use_ipv6 v6 gai os g =
     (case run_opts (memc_opt use_ipv6 v6 gai) os memc_args0 g of
        Inl e \<Rightarrow> Inl e
      | Inr a \<Rightarrow> if mc_port a = 0 then Inl (usage ''Hostname and port mandatory.'' g) else Inr a)"

section \<open>Statistics\<close>

record memc_st =
  mc_version :: "string option"
  mc_bytes :: int
  mc_limit_maxbytes :: int
  mc_globals :: mp_globals

definition memc_counter :: "string \<Rightarrow> string \<Rightarrow> memc_st \<Rightarrow> memc_st" where
  "memc_counter label v st =
     st\<lparr>mc_globals := snd (mp_perfdata_int label (strtol 10 v) ''c'' None (mc_globals st))\<rparr>"

text \<open>A STAT line; \<open>None\<close> where a known key has no value and the value pointer is NULL.\<close>

definition memc_stat :: "string \<Rightarrow> string option \<Rightarrow> memc_st \<Rightarrow> memc_st option" where
  "memc_stat key v st =
     (if key = ''version'' then map_option (\<lambda>v. st\<lparr>mc_version := Some v\<rparr>) v
      else if \<not> mp_showperfdata (mc_globals st) then Some st
      else if key = ''limit_maxbytes'' then map_option (\<lambda>v. st\<lparr>mc_limit_maxbytes := to_int32 (strtol 10 v)\<rparr>) v
      else if key = ''bytes'' then map_option (\<lambda>v. st\<lparr>mc_bytes := to_int32 (strtol 10 v)\<rparr>) v
      else if key = ''total_connections'' then map_option (\<lambda>v. memc_counter ''connections'' v st) v
      else if key = ''total_items'' then map_option (\<lambda>v. memc_counter ''total_items'' v st) v
      else if key = ''curr_items'' then map_option (\<lambda>v. memc_counter ''items'' v st) v
      else if key = ''evictions'' then map_option (\<lambda>v. memc_counter ''evictions'' v st) v
      else if strncmp_eq key ''cmd_'' 4 then map_option (\<lambda>v. memc_counter (drop 4 key) v st) v
      else Some st)"

datatype memc_step = MEnd mp_end | MBreak | MNext memc_st

definition memc_line :: "string \<Rightarrow> memc_st \<Rightarrow> memc_step" where
  "memc_line line st =
     (if strncmp_eq line ''STAT '' 5
      then (case strsep '' '' (drop 5 line) of
              (key, v) \<Rightarrow> (case memc_stat key v st of None \<Rightarrow> MEnd Crash | Some st \<Rightarrow> MNext st))
      else if strncmp_eq line ''END'' 3 then MBreak
      else MEnd (critical (''Memcached don'' @ [CHR 0x27] @ ''t handle stats command.'') (mc_globals st)))"

text \<open>The reading of a line takes data out of the stream, so the loop ends.\<close>

lemma recv_line_shorter:
  assumes "mp_recv_line buffer chunks = Line l buf chunks'"
  shows "length buf + length (concat chunks') < length (opt_str buffer) + length (concat chunks)"
proof -
  obtain line b cs where f: "recv_fill (opt_str buffer) None chunks = Some (line, b, cs)"
    using assms by (auto simp: mp_recv_line_def split: option.splits)
  have s: "opt_str line @ b @ concat cs = opt_str buffer @ concat chunks" "newline \<in> set b"
    using recv_fill_split [OF f] by simp_all
  obtain tok rest where t: "strsep [newline] b = (tok, Some rest)"
    using s(2) by (cases rule: strsep_cases [of "[newline]" b]) auto
  then have "buf = rest" "chunks' = cs"
    using assms f by (auto simp: mp_recv_line_def Let_def split: if_splits)
  then show ?thesis
    using strsep_Some_length [OF t] arg_cong [OF s(1), of length] by simp
qed

function memc_loop ::
    "string option \<Rightarrow> string list \<Rightarrow> memc_st \<Rightarrow> mp_end + memc_st" where
  "memc_loop buffer chunks st =
     (case mp_recv_line buffer chunks of
        NoLine \<Rightarrow> (case timeout_alarm_handler SIGALRM (mc_globals st) of Inl e \<Rightarrow> Inl e | Inr _ \<Rightarrow> Inl Crash)
      | Underrun _ _ \<Rightarrow> Inl Crash
      | Line line buf chunks' \<Rightarrow>
          (case memc_line line st of
             MEnd e \<Rightarrow> Inl e
           | MBreak \<Rightarrow> Inr st
           | MNext st \<Rightarrow> memc_loop (Some buf) chunks' st))"
  by pat_completeness auto
termination
  by (relation "measure (\<lambda>(b, cs, st). length (opt_str b) + length (concat cs))") (auto dest: recv_line_shorter)

declare memc_loop.simps [simp del]

section \<open>Main\<close>

record 'a memc_env =
  me_getaddrinfo :: "string \<Rightarrow> string \<Rightarrow> int \<Rightarrow> int \<Rightarrow> 'a list option"
  me_getnameinfo :: "'a \<Rightarrow> string + string"
  me_socket :: "'a \<Rightarrow> int"
  me_connect :: "int \<Rightarrow> 'a \<Rightarrow> int"
  me_chunks :: "string list"
  me_start :: "int \<times> int"
  me_stop :: "int \<times> int"

definition SOCK_STREAM :: int where "SOCK_STREAM = 1"

definition memc_report :: "fp \<Rightarrow> memc_args \<Rightarrow> memc_st \<Rightarrow> mp_end" where
  "memc_report time_delta a st =
     (let g = mc_globals st; t = mc_thresholds a;
          (t, g) = (if mp_showperfdata g
             then mp_perfdata_float ''time'' (fp_cast round_float time_delta) ''s'' t
                    (mp_perfdata_int3 ''bytes'' (mc_bytes st) [] False 0 False 0 True 0 True (mc_limit_maxbytes st) g)
             else (t, g));
          status = get_status time_delta t; v = fmt_s (mc_version st)
      in if status = STATE_OK then ok (''Memcached '' @ v) g
         else if status = STATE_WARNING then ok (''Memcached '' @ v @ '' is slow.'') g
         else if status = STATE_CRITICAL then ok (''Memcached '' @ v @ '' is real slow.'') g
         else critical ''You should never reach this point.'' g)"

definition check_memcached_main ::
    "bool \<Rightarrow> bool \<Rightarrow> resolver \<Rightarrow> 'a memc_env \<Rightarrow> (char \<times> string) list \<Rightarrow> mp_globals \<Rightarrow> mp_end" where
  "check_memcached_main use_ipv6 v6 gai env os g =
     (case memc_process_arguments use_ipv6 v6 gai os g of
        Inl e \<Rightarrow> e
      | Inr a \<Rightarrow>
          (case mp_connect use_ipv6 (me_getaddrinfo env) (me_getnameinfo env) (me_socket env) (me_connect env)
                  (mc_hostname a) (mc_port a) (mc_ipv a) SOCK_STREAM g of
             Inl e \<Rightarrow> e
           | Inr (sd, _, g) \<Rightarrow>
               let g = (if 3 < mp_verbose g then mp_print (''> '' @ quoted ''stats'' @ nl) g else g)
               in case memc_loop None (me_chunks env)
                         \<lparr>mc_version = None, mc_bytes = -1, mc_limit_maxbytes = -1, mc_globals = g\<rparr> of
                    Inl e \<Rightarrow> e
                  | Inr st \<Rightarrow> memc_report (mp_time_delta (me_stop env) (me_start env)) a st))"

section \<open>The report\<close>

definition crlf :: string where "crlf = [CHR 0x0D, newline]"

definition stat_line :: "string \<times> string \<Rightarrow> string" where
  "stat_line kv = ''STAT '' @ fst kv @ '' '' @ snd kv @ [CHR 0x0D]"

definition stat_ok :: "string \<times> string \<Rightarrow> bool" where
  "stat_ok kv \<longleftrightarrow> CHR '' '' \<notin> set (fst kv) \<and> newline \<notin> set (fst kv) \<and> newline \<notin> set (snd kv)"

definition stats_reply :: "(string \<times> string) list \<Rightarrow> string" where
  "stats_reply kvs = concat (map (\<lambda>kv. stat_line kv @ [newline]) kvs) @ ''END'' @ crlf"

lemma memc_stat_some: "\<exists>st'. memc_stat k (Some v) st = Some st' \<and> mc_version st' = (if k = ''version'' then Some v else mc_version st)"
  by (simp add: memc_stat_def memc_counter_def)

lemma memc_line_stat:
  assumes "stat_ok kv"
  shows "memc_line (chomp (stat_line kv)) st =
    (case memc_stat (fst kv) (Some (snd kv)) st of None \<Rightarrow> MEnd Crash | Some st \<Rightarrow> MNext st)"
proof -
  have "chomp (stat_line kv) = ''STAT '' @ fst kv @ CHR '' '' # snd kv"
    by (simp add: chomp_def stat_line_def butlast_append)
  moreover have "strsep '' '' (fst kv @ CHR '' '' # snd kv) = (fst kv, Some (snd kv))"
    using assms by (intro strsep_hit) (simp_all add: stat_ok_def)
  ultimately show ?thesis by (simp add: memc_line_def strncmp_eq_def)
qed

lemma memc_loop_line:
  assumes "conn_pending (b, cs) = l @ newline # rest" "newline \<notin> set l" "l \<noteq> []"
  obtains b' cs' where "conn_pending (b', cs') = rest"
    "memc_loop b cs st = (case memc_line (chomp l) st of MEnd e \<Rightarrow> Inl e | MBreak \<Rightarrow> Inr st | MNext st \<Rightarrow> memc_loop b' cs' st)"
proof -
  obtain b' cs' where r: "conn_read (b, cs) = Some (chomp l, b', cs')" "conn_pending (b', cs') = rest"
    using conn.read_next [OF assms] by auto
  then obtain buf where "mp_recv_line b cs = Line (chomp l) buf cs'" "b' = Some buf"
    by (auto simp: conn_read_def split: recv_result.splits)
  then have "memc_loop b cs st = (case memc_line (chomp l) st of MEnd e \<Rightarrow> Inl e | MBreak \<Rightarrow> Inr st
      | MNext st \<Rightarrow> memc_loop b' cs' st)"
    by (simp add: memc_loop.simps [of b cs st] split: memc_step.split)
  then show ?thesis by (rule that [OF r(2)])
qed

lemma memc_loop_reply:
  assumes "conn_pending (b, cs) = stats_reply kvs @ rest" "list_all stat_ok kvs"
  shows "\<exists>st'. memc_loop b cs st = Inr st' \<and>
    mc_version st' = (case map_of (rev kvs) ''version'' of Some v \<Rightarrow> Some v | None \<Rightarrow> mc_version st)"
  using assms
proof (induction kvs arbitrary: b cs st)
  case Nil
  then have "conn_pending (b, cs) = (''END'' @ [CHR 0x0D]) @ newline # rest"
    by (simp add: stats_reply_def crlf_def)
  then obtain b' cs' where "memc_loop b cs st =
      (case memc_line (chomp (''END'' @ [CHR 0x0D])) st of MEnd e \<Rightarrow> Inl e | MBreak \<Rightarrow> Inr st | MNext st \<Rightarrow> memc_loop b' cs' st)"
    by (rule memc_loop_line) (simp_all add: newline_def)
  then show ?case by (simp add: memc_line_def chomp_def strncmp_eq_def)
next
  case (Cons kv kvs)
  have p: "conn_pending (b, cs) = stat_line kv @ newline # (stats_reply kvs @ rest)"
    using Cons.prems(1) by (simp add: stats_reply_def)
  have l: "newline \<notin> set (stat_line kv)" "stat_line kv \<noteq> []"
    using Cons.prems(2) by (auto simp: stat_line_def stat_ok_def newline_def)
  obtain b' cs' where n: "conn_pending (b', cs') = stats_reply kvs @ rest"
      "memc_loop b cs st = (case memc_line (chomp (stat_line kv)) st of MEnd e \<Rightarrow> Inl e | MBreak \<Rightarrow> Inr st
        | MNext st \<Rightarrow> memc_loop b' cs' st)"
    by (rule memc_loop_line [OF p l])
  obtain st1 where "memc_stat (fst kv) (Some (snd kv)) st = Some st1"
      "mc_version st1 = (if fst kv = ''version'' then Some (snd kv) else mc_version st)"
    using memc_stat_some by blast
  moreover have "memc_line (chomp (stat_line kv)) st =
      (case memc_stat (fst kv) (Some (snd kv)) st of None \<Rightarrow> MEnd Crash | Some st \<Rightarrow> MNext st)"
    using Cons.prems(2) by (intro memc_line_stat) simp
  ultimately show ?case
    using Cons.IH [OF n(1), of st1] Cons.prems(2) by (cases kv) (auto simp: n(2) map_add_def split: option.split)
qed

definition speed_text :: "int \<Rightarrow> string" where
  "speed_text st = (if st = STATE_WARNING then '' is slow.'' else if st = STATE_CRITICAL then '' is real slow.'' else [])"


definition memc_env0 :: "nat memc_env" where
  "memc_env0 = \<lparr>me_getaddrinfo = (\<lambda>h p f t. Some [0]), me_getnameinfo = (\<lambda>_. Inr ''h''), me_socket = (\<lambda>_. 3),
     me_connect = (\<lambda>_ _. 0), me_chunks = [''STAT vers'', ''ion 1.6'' @ crlf @ ''EN'', ''D'' @ crlf], me_start = (0, 0), me_stop = (9, 0)\<rparr>"

lemma memc_args0_thresholds:
  "mc_thresholds memc_args0 =
    Some \<lparr>th_warning = Some (spec_range TIME (Upto (Bound 3 ''s''))), th_critical = Some (spec_range TIME (Upto (Bound 4 ''s'')))\<rparr>"
proof -
  have "fmt_d 3 @ ''s'' = ''3s''" "fmt_d 4 @ ''s'' = ''4s''" by code_simp+
  then show ?thesis
    using parse_upto [of TIME 3 "''s''"] parse_upto [of TIME 4 "''s''"]
    by (simp add: memc_args0_def set_threshold_defs num_end_def unit_factor_def BISI_def TIME_def isdigit_def ccode_def
        parse_time_multiplier_string_def del: spec_range.simps)
qed


interpretation memc_options: plugin_options "memc_opt use_ipv6 v6 gai" "\<lambda>a. thresholds_both (mc_thresholds a)"
  for use_ipv6 v6 gai
proof
  fix a a' :: memc_args and c s g
  assume "thresholds_both (mc_thresholds a)" "memc_opt use_ipv6 v6 gai c s a g = Inr a'"
  then show "thresholds_both (mc_thresholds a')"
    using thresholds_both_keep(2)
    by (cases "getopt_host v6 gai s g"; cases "getopt_port s g") (auto simp: memc_opt_def Let_def split: if_splits sum.splits)
next
  fix a c s g e
  assume "memc_opt use_ipv6 v6 gai c s a g = Inl e"
  then show "exit_code e = Some STATE_UNKNOWN"
    by (cases "getopt_host v6 gai s g"; cases "getopt_port s g")
      (auto simp: memc_opt_def Let_def refuse_simps split: if_splits sum.splits)
qed

end
