(* ===== verification/RHCS_Utils.thy ===== *)
theory RHCS_Utils
  imports MP_Utils
begin

text \<open>
  \<^verbatim>\<open>lib/rhcs_utils.c\<close>: the cluster status and the cluster configuration of the RedHat Cluster Suite.

  The XML parser expat is a parameter: from its state and a block of the file it gives the element events of the
  block, in order, and whether the block was accepted. The handlers are steps on the structure that is built;
  \<open>None\<close> is the dereference of a NULL pointer. A pointer to a node or a domain is its index in the array of the
  structure. An array that is NULL is the empty list, since the first element allocates the array.
\<close>

section \<open>Events\<close>

datatype xml_event = StartElement string "(string \<times> string) list" | EndElement string

fun fold_opt :: "('b \<Rightarrow> 'a \<Rightarrow> 'a option) \<Rightarrow> 'b list \<Rightarrow> 'a \<Rightarrow> 'a option" where
  "fold_opt f [] s = Some s"
| "fold_opt f (x # xs) s = (case f x s of None \<Rightarrow> None | Some s \<Rightarrow> fold_opt f xs s)"

lemma fold_opt_append [simp]:
  "fold_opt f (xs @ ys) s = (case fold_opt f xs s of None \<Rightarrow> None | Some s \<Rightarrow> fold_opt f ys s)"
  by (induction f xs s rule: fold_opt.induct) (simp_all split: option.split)

lemma fold_opt_Some [simp]: "fold_opt (\<lambda>x s. Some (f x s)) xs s = Some (fold f xs s)"
  by (induction xs arbitrary: s) simp_all

type_synonym 'p xml_parser = "'p \<Rightarrow> string \<Rightarrow> 'p \<times> xml_event list \<times> bool"

datatype 'a parsed = Parsed 'a | ParseError | ParseCrash

definition BUFFERSIZE :: nat where "BUFFERSIZE = 1024"

text \<open>The loop over the blocks of the file, which ends at the first short block.\<close>

function xml_feed :: "'p xml_parser \<Rightarrow> (xml_event \<Rightarrow> 's \<Rightarrow> 's option) \<Rightarrow> 'p \<Rightarrow> string \<Rightarrow> 's \<Rightarrow> 's parsed" where
  "xml_feed XML_Parse h p text s =
     (case XML_Parse p (take BUFFERSIZE text) of
        (p, evs, accepted) \<Rightarrow>
          (case fold_opt h evs s of
             None \<Rightarrow> ParseCrash
           | Some s \<Rightarrow>
               if \<not> accepted then ParseError
               else if BUFFERSIZE \<le> length text then xml_feed XML_Parse h p (drop BUFFERSIZE text) s
               else Parsed s))"
  by pat_completeness auto
termination by (relation "measure (\<lambda>(x, h, p, text, s). length text)") (auto simp: BUFFERSIZE_def)

declare xml_feed.simps [simp del]

section \<open>Cluster status\<close>

record rhcs_clustat_node =
  cn_name :: "string option"
  cn_state :: int
  cn_rgmanager :: int
  cn_id :: int

record rhcs_clustat_group =
  cg_name :: "string option"
  cg_state :: int
  cg_owner :: "nat option"
  cg_last :: "nat option"

record rhcs_clustat =
  cs_name :: "string option"
  cs_id :: int
  cs_local :: "nat option"
  cs_node :: "rhcs_clustat_node list"
  cs_group :: "rhcs_clustat_group list"

definition clustat_node0 :: rhcs_clustat_node where
  "clustat_node0 = \<lparr>cn_name = None, cn_state = 0, cn_rgmanager = 0, cn_id = 0\<rparr>"

definition clustat_group0 :: rhcs_clustat_group where
  "clustat_group0 = \<lparr>cg_name = None, cg_state = 0, cg_owner = None, cg_last = None\<rparr>"

definition clustat0 :: rhcs_clustat where
  "clustat0 = \<lparr>cs_name = None, cs_id = 0, cs_local = None, cs_node = [], cs_group = []\<rparr>"

text \<open>The search of a name among the named elements before the index: the last match wins.\<close>

fun find_name :: "string \<Rightarrow> string option list \<Rightarrow> nat \<Rightarrow> nat option \<Rightarrow> nat option option" where
  "find_name v [] i r = Some r"
| "find_name v (None # ns) i r = None"
| "find_name v (Some n # ns) i r = find_name v ns (Suc i) (if v = n then Some i else r)"

definition clustat_cluster_att :: "string \<times> string \<Rightarrow> rhcs_clustat \<Rightarrow> rhcs_clustat" where
  "clustat_cluster_att kv c =
     (case kv of (k, v) \<Rightarrow>
        if k = ''name'' then c\<lparr>cs_name := Some v\<rparr>
        else if k = ''id'' then c\<lparr>cs_id := to_int32 (strtol 10 v)\<rparr> else c)"

definition clustat_node_att :: "string \<times> string \<Rightarrow> rhcs_clustat_node \<times> bool \<Rightarrow> rhcs_clustat_node \<times> bool" where
  "clustat_node_att kv st =
     (case kv of (k, v) \<Rightarrow>
        let (n, is_local) = st;
            n = (if k = ''name'' then n\<lparr>cn_name := Some v\<rparr>
                 else if k = ''state'' then n\<lparr>cn_state := to_uint16 (strtol 10 v)\<rparr>
                 else if k = ''rgmanager'' then n\<lparr>cn_rgmanager := to_uint16 (strtol 10 v)\<rparr>
                 else if k = ''nodeid'' then n\<lparr>cn_id := to_uint16 (strtol 16 v)\<rparr> else n)
        in (n, is_local \<or> k = ''local'' \<and> v = ''1''))"

definition clustat_group_att ::
    "string option list \<Rightarrow> string \<times> string \<Rightarrow> rhcs_clustat_group \<Rightarrow> rhcs_clustat_group option" where
  "clustat_group_att names kv gr =
     (case kv of (k, v) \<Rightarrow>
        if k = ''name'' then Some (gr\<lparr>cg_name := snd (strsep '':'' v)\<rparr>)
        else if k = ''state'' then Some (gr\<lparr>cg_state := to_int32 (strtol 10 v)\<rparr>)
        else if k = ''owner'' then map_option (\<lambda>r. gr\<lparr>cg_owner := r\<rparr>) (find_name v names 0 None)
        else if k = ''last_owner'' then map_option (\<lambda>r. gr\<lparr>cg_last := r\<rparr>) (find_name v names 0 (cg_last gr))
        else Some gr)"

definition rhcs_clustat_startElement :: "string \<Rightarrow> (string \<times> string) list \<Rightarrow> rhcs_clustat \<Rightarrow> rhcs_clustat option" where
  "rhcs_clustat_startElement name atts c =
     (if name = ''cluster'' then Some (fold clustat_cluster_att atts c)
      else if name = ''node'' then
        (case fold clustat_node_att atts (clustat_node0, False) of
           (n, is_local) \<Rightarrow>
             Some (c\<lparr>cs_node := cs_node c @ [n],
                     cs_local := (if is_local then Some (length (cs_node c)) else cs_local c)\<rparr>))
      else if name = ''group'' then
        map_option (\<lambda>gr. c\<lparr>cs_group := cs_group c @ [gr]\<rparr>)
          (fold_opt (clustat_group_att (map cn_name (cs_node c))) atts clustat_group0)
      else Some c)"

fun clustat_handler :: "xml_event \<Rightarrow> rhcs_clustat \<Rightarrow> rhcs_clustat option" where
  "clustat_handler (StartElement name atts) c = rhcs_clustat_startElement name atts c"
| "clustat_handler (EndElement name) c = Some c"

definition parse_rhcs_clustat :: "'p xml_parser \<Rightarrow> 'p \<Rightarrow> string \<Rightarrow> rhcs_clustat parsed" where
  "parse_rhcs_clustat XML_Parse p text = xml_feed XML_Parse clustat_handler p text clustat0"

section \<open>Cluster configuration\<close>

record rhcs_conf_node =
  nd_name :: "string option"
  nd_id :: int
  nd_votes :: int

record rhcs_conf_fodom_node =
  fn_node :: "nat option"
  fn_priority :: int

record rhcs_conf_fodom =
  fd_name :: "string option"
  fd_failback :: bool
  fd_ordered :: bool
  fd_restricted :: bool
  fd_node :: "rhcs_conf_fodom_node list"

datatype recovery = RESTART | RELOCATE

record rhcs_conf_service =
  sv_name :: "string option"
  sv_fodomain :: "nat option"
  sv_recovery :: recovery
  sv_autostart :: bool
  sv_exclusive :: bool

text \<open>The structure with the counter \<open>fodomains\<close>, a global that the end of a domain increments. The number of
  nodes of the current domain is the length of its array.\<close>

record rhcs_conf =
  cf_name :: "string option"
  cf_alias :: "string option"
  cf_version :: int
  cf_node :: "rhcs_conf_node list"
  cf_fodomain :: "rhcs_conf_fodom option list"
  cf_service :: "rhcs_conf_service list"
  fodomains :: nat

definition conf0 :: "nat \<Rightarrow> rhcs_conf" where
  "conf0 n = \<lparr>cf_name = None, cf_alias = None, cf_version = 0, cf_node = [], cf_fodomain = [], cf_service = [],
     fodomains = n\<rparr>"

definition conf_cluster_att :: "string \<times> string \<Rightarrow> rhcs_conf \<Rightarrow> rhcs_conf" where
  "conf_cluster_att kv c =
     (case kv of (k, v) \<Rightarrow>
        if k = ''name'' then c\<lparr>cf_name := Some v\<rparr>
        else if k = ''alias'' then c\<lparr>cf_alias := Some v\<rparr>
        else if k = ''config_version'' then c\<lparr>cf_version := to_uint32 (strtol 10 v)\<rparr> else c)"

definition conf_node_att :: "string \<times> string \<Rightarrow> rhcs_conf_node \<Rightarrow> rhcs_conf_node" where
  "conf_node_att kv n =
     (case kv of (k, v) \<Rightarrow>
        if k = ''name'' then n\<lparr>nd_name := Some v\<rparr>
        else if k = ''nodeid'' then n\<lparr>nd_id := to_uint32 (strtol 10 v)\<rparr>
        else if k = ''votes'' then n\<lparr>nd_votes := to_uint32 (strtol 10 v)\<rparr> else n)"

definition conf_fodom_att :: "string \<times> string \<Rightarrow> rhcs_conf_fodom \<Rightarrow> rhcs_conf_fodom" where
  "conf_fodom_att kv d =
     (case kv of (k, v) \<Rightarrow>
        if k = ''name'' then d\<lparr>fd_name := Some v\<rparr>
        else if k = ''nofailback'' then d\<lparr>fd_failback := (v = ''0'')\<rparr>
        else if k = ''ordered'' then d\<lparr>fd_ordered := (v = ''1'')\<rparr>
        else if k = ''restricted'' then d\<lparr>fd_restricted := (v = ''1'')\<rparr> else d)"

definition conf_fodom_node_att ::
    "string option list \<Rightarrow> string \<times> string \<Rightarrow> rhcs_conf_fodom_node \<Rightarrow> rhcs_conf_fodom_node option" where
  "conf_fodom_node_att names kv n =
     (case kv of (k, v) \<Rightarrow>
        if k = ''name'' then map_option (\<lambda>r. n\<lparr>fn_node := r\<rparr>) (find_name v names 0 (fn_node n))
        else if k = ''priority'' then Some (n\<lparr>fn_priority := to_uint32 (strtol 10 v)\<rparr>) else Some n)"

definition conf_service_att ::
    "string option list option \<Rightarrow> string \<times> string \<Rightarrow> rhcs_conf_service \<Rightarrow> rhcs_conf_service option" where
  "conf_service_att domains kv s =
     (case kv of (k, v) \<Rightarrow>
        if k = ''name'' then Some (s\<lparr>sv_name := Some v\<rparr>)
        else if k = ''domain'' then
          (case domains of
             None \<Rightarrow> None
           | Some ns \<Rightarrow> map_option (\<lambda>r. s\<lparr>sv_fodomain := r\<rparr>) (find_name v ns 0 (sv_fodomain s)))
        else if k = ''autostart'' then Some (s\<lparr>sv_autostart := (v = ''1'')\<rparr>)
        else if k = ''exclusive'' then Some (s\<lparr>sv_exclusive := (v = ''1'')\<rparr>)
        else if k = ''recovery'' then
          Some (if v = ''relocate'' then s\<lparr>sv_recovery := RELOCATE\<rparr>
                else if v = ''restart'' then s\<lparr>sv_recovery := RESTART\<rparr> else s)
        else Some s)"

text \<open>The names of the domains below the counter; \<open>None\<close> where one of them was never written.\<close>

definition domain_names :: "rhcs_conf \<Rightarrow> string option list option" where
  "domain_names c =
     (let ds = take (fodomains c) (cf_fodomain c)
      in if length ds < fodomains c \<or> None \<in> set ds then None else Some (map (\<lambda>d. fd_name (the d)) ds))"

definition rhcs_conf_startElement :: "string \<Rightarrow> (string \<times> string) list \<Rightarrow> rhcs_conf \<Rightarrow> rhcs_conf option" where
  "rhcs_conf_startElement name atts c =
     (if name = ''cluster'' then Some (fold conf_cluster_att atts c)
      else if name = ''clusternode'' then
        Some (c\<lparr>cf_node := cf_node c @ [fold conf_node_att atts \<lparr>nd_name = None, nd_id = 0, nd_votes = 0\<rparr>]\<rparr>)
      else if name = ''failoverdomain'' then
        Some (c\<lparr>cf_fodomain := arr_put (cf_fodomain c) (fodomains c)
          (fold conf_fodom_att atts
             \<lparr>fd_name = None, fd_failback = False, fd_ordered = False, fd_restricted = False, fd_node = []\<rparr>)\<rparr>)
      else if name = ''failoverdomainnode'' then
        (if fodomains c < length (cf_fodomain c) then
           (case cf_fodomain c ! fodomains c of
              None \<Rightarrow> None
            | Some d \<Rightarrow>
                map_option (\<lambda>n. c\<lparr>cf_fodomain := (cf_fodomain c)[fodomains c := Some (d\<lparr>fd_node := fd_node d @ [n]\<rparr>)]\<rparr>)
                  (fold_opt (conf_fodom_node_att (map nd_name (cf_node c))) atts \<lparr>fn_node = None, fn_priority = 0\<rparr>))
         else None)
      else if name = ''service'' then
        map_option (\<lambda>s. c\<lparr>cf_service := cf_service c @ [s]\<rparr>)
          (fold_opt (conf_service_att (domain_names c)) atts
             \<lparr>sv_name = None, sv_fodomain = None, sv_recovery = RESTART, sv_autostart = False, sv_exclusive = False\<rparr>)
      else Some c)"

definition rhcs_conf_stopElement :: "string \<Rightarrow> rhcs_conf \<Rightarrow> rhcs_conf" where
  "rhcs_conf_stopElement name c =
     (if name = ''failoverdomain'' then c\<lparr>fodomains := Suc (fodomains c)\<rparr> else c)"

fun conf_handler :: "xml_event \<Rightarrow> rhcs_conf \<Rightarrow> rhcs_conf option" where
  "conf_handler (StartElement name atts) c = rhcs_conf_startElement name atts c"
| "conf_handler (EndElement name) c = Some (rhcs_conf_stopElement name c)"

text \<open>The counter of the domains keeps its value from an earlier call.\<close>

definition parse_rhcs_conf :: "'p xml_parser \<Rightarrow> 'p \<Rightarrow> nat \<Rightarrow> string \<Rightarrow> rhcs_conf parsed" where
  "parse_rhcs_conf XML_Parse p fodoms text = xml_feed XML_Parse conf_handler p text (conf0 fodoms)"

section \<open>Reading a document\<close>

text \<open>The events of a file, and the result of feeding it: the blocks do not matter.\<close>

function xml_events :: "'p xml_parser \<Rightarrow> 'p \<Rightarrow> string \<Rightarrow> xml_event list \<times> bool" where
  "xml_events XML_Parse p text =
     (case XML_Parse p (take BUFFERSIZE text) of
        (p, evs, accepted) \<Rightarrow>
          if \<not> accepted then (evs, False)
          else if BUFFERSIZE \<le> length text
          then (case xml_events XML_Parse p (drop BUFFERSIZE text) of (evs', a) \<Rightarrow> (evs @ evs', a))
          else (evs, True))"
  by pat_completeness auto
termination by (relation "measure (\<lambda>(x, p, text). length text)") (auto simp: BUFFERSIZE_def)

declare xml_events.simps [simp del]

lemma xml_feed_events:
  "xml_feed xp h p doc s =
     (case xml_events xp p doc of
        (evs, accepted) \<Rightarrow>
          (case fold_opt h evs s of None \<Rightarrow> ParseCrash | Some s \<Rightarrow> if accepted then Parsed s else ParseError))"
proof (induction xp h p doc s rule: xml_feed.induct)
  case (1 xp h p doc s)
  obtain p' evs a where x: "xp p (take BUFFERSIZE doc) = (p', evs, a)" by (cases "xp p (take BUFFERSIZE doc)") auto
  show ?case
  proof (cases "fold_opt h evs s")
    case None
    then show ?thesis
      by (simp add: xml_feed.simps [of xp h p] xml_events.simps [of xp p] x split: prod.split)
  next
    case (Some s')
    then show ?thesis
      using "1.IH" [OF x [symmetric] refl Some]
      by (auto simp: xml_feed.simps [of xp h p] xml_events.simps [of xp p] x split: prod.split)
  qed
qed

text \<open>A name that is there once is found at its place.\<close>

lemma find_name_index:
  "distinct ns \<Longrightarrow> i < length ns \<Longrightarrow> find_name (ns ! i) (map Some ns) j r = Some (Some (j + i))"
proof (induction ns arbitrary: i j r)
  case (Cons n ns)
  have skip: "v \<notin> set ns \<Longrightarrow> find_name v (map Some ns) j r = Some r" for v j r
    by (induction ns arbitrary: j r) auto
  show ?case
  proof (cases i)
    case 0
    then show ?thesis using Cons.prems skip by simp
  next
    case (Suc k)
    then have "ns ! k \<noteq> n" using Cons.prems by auto
    then show ?thesis using Suc Cons.prems Cons.IH [of k "Suc j" r] by simp
  qed
qed simp

lemma find_name_none: "v \<notin> set ns \<Longrightarrow> find_name v (map Some ns) j r = Some r"
  by (induction ns arbitrary: j r) auto

section \<open>The status round trip\<close>

text \<open>The events of the status \<open>clustat -x\<close> prints for a cluster.\<close>

definition node_ref :: "string list \<Rightarrow> nat option \<Rightarrow> string" where
  "node_ref names r = (case r of None \<Rightarrow> ''none'' | Some i \<Rightarrow> names ! i)"

definition hex_id :: "int \<Rightarrow> string" where
  "hex_id n = ''0x'' @ base_str 16 n"

definition node_atts :: "nat option \<Rightarrow> nat \<Rightarrow> rhcs_clustat_node \<Rightarrow> (string \<times> string) list" where
  "node_atts l i n =
     [(''name'', the (cn_name n)), (''state'', fmt_d (cn_state n)), (''local'', if l = Some i then ''1'' else ''0''),
      (''estranged'', ''0''), (''rgmanager'', fmt_d (cn_rgmanager n)), (''nodeid'', hex_id (cn_id n))]"

definition group_atts :: "string list \<Rightarrow> rhcs_clustat_group \<Rightarrow> (string \<times> string) list" where
  "group_atts names gr =
     [(''name'', ''service:'' @ the (cg_name gr)), (''state'', fmt_d (cg_state gr)), (''flags'', ''0''),
      (''owner'', node_ref names (cg_owner gr)), (''last_owner'', node_ref names (cg_last gr)), (''restarts'', ''0'')]"

definition element :: "string \<Rightarrow> (string \<times> string) list \<Rightarrow> xml_event list" where
  "element name atts = [StartElement name atts, EndElement name]"

fun node_events :: "nat option \<Rightarrow> nat \<Rightarrow> rhcs_clustat_node list \<Rightarrow> xml_event list" where
  "node_events l i [] = []"
| "node_events l i (n # ns) = element ''node'' (node_atts l i n) @ node_events l (Suc i) ns"

definition node_names :: "rhcs_clustat \<Rightarrow> string list" where
  "node_names c = map (\<lambda>n. the (cn_name n)) (cs_node c)"

definition clustat_events :: "rhcs_clustat \<Rightarrow> xml_event list" where
  "clustat_events c =
     [StartElement ''clustat'' [(''version'', ''4.1.1'')]] @
     element ''cluster'' [(''name'', the (cs_name c)), (''id'', fmt_d (cs_id c)), (''generation'', ''1'')] @
     element ''quorum'' [(''quorate'', ''1'')] @
     [StartElement ''nodes'' []] @ node_events (cs_local c) 0 (cs_node c) @ [EndElement ''nodes''] @
     [StartElement ''groups'' []] @ concat (map (\<lambda>gr. element ''group'' (group_atts (node_names c) gr)) (cs_group c)) @
     [EndElement ''groups'', EndElement ''clustat'']"

definition uint16_range :: "int \<Rightarrow> bool" where "uint16_range x \<longleftrightarrow> 0 \<le> x \<and> x < 65536"
definition int32_range :: "int \<Rightarrow> bool" where "int32_range x \<longleftrightarrow> INT_MIN \<le> x \<and> x \<le> INT_MAX"
definition ref_ok :: "nat \<Rightarrow> nat option \<Rightarrow> bool" where "ref_ok k r \<longleftrightarrow> (case r of None \<Rightarrow> True | Some i \<Rightarrow> i < k)"

definition clustat_wf :: "rhcs_clustat \<Rightarrow> bool" where
  "clustat_wf c \<longleftrightarrow>
     cs_name c \<noteq> None \<and> int32_range (cs_id c) \<and> ref_ok (length (cs_node c)) (cs_local c) \<and>
     list_all (\<lambda>n. cn_name n \<noteq> None \<and> uint16_range (cn_state n) \<and> uint16_range (cn_rgmanager n) \<and> uint16_range (cn_id n)) (cs_node c) \<and>
     distinct (node_names c) \<and> ''none'' \<notin> set (node_names c) \<and>
     list_all (\<lambda>gr. cg_name gr \<noteq> None \<and> int32_range (cg_state gr) \<and>
       ref_ok (length (cs_node c)) (cg_owner gr) \<and> ref_ok (length (cs_node c)) (cg_last gr)) (cs_group c)"

lemma to_uint16_id [cnum_simps]: "uint16_range x \<Longrightarrow> to_uint16 x = x"
  by (simp add: uint16_range_def to_uint16_def)

lemma strtol_int32 [cnum_simps]: "int32_range x \<Longrightarrow> to_int32 (strtol 10 (fmt_d x)) = x"
  by (simp add: int32_range_def cnum_simps INT_MIN_def INT_MAX_def LONG_MIN_def LONG_MAX_def)

lemma strtol_uint16 [cnum_simps]: "uint16_range x \<Longrightarrow> to_uint16 (strtol 10 (fmt_d x)) = x"
  by (simp add: cnum_simps strtol_fmt_d [unfolded LONG_MIN_def LONG_MAX_def] uint16_range_def)

lemma strtol_hex_id [cnum_simps]:
  assumes "uint16_range x"
  shows "strtol 16 (hex_id x) = x"
proof -
  obtain d r where dr: "base_str 16 x = dig d # r" "0 \<le> d" "d < 16"
    using hd_base_str [of x 16] assms by (auto simp: uint16_range_def)
  then have "strip_0x 16 (hex_id x) = base_str 16 x"
    using isxdigit_dig [of d] by (simp add: hex_id_def)
  moreover have "strtol_sign (hex_id x) = (False, hex_id x)"
    by (simp add: strtol_sign_def hex_id_def isspace_def ccode_def)
  ultimately have "strtol_exact 16 (hex_id x) = x"
    using assms by (simp add: strtol_exact_def takeWhile_base_str digits_val_base_str uint16_range_def)
  then show ?thesis using assms by (simp add: strtol_def LONG_MIN_def LONG_MAX_def uint16_range_def)
qed

lemma find_node_ref:
  assumes "distinct names" "''none'' \<notin> set names" "ref_ok (length names) r"
  shows "find_name (node_ref names r) (map Some names) 0 None = Some r"
  using assms find_name_index [of names "the r" 0 None] find_name_none [of "''none''" names 0 None]
  by (auto simp: node_ref_def ref_ok_def split: option.splits)

lemma fold_node_atts:
  assumes "cn_name n \<noteq> None" "uint16_range (cn_state n)" "uint16_range (cn_rgmanager n)" "uint16_range (cn_id n)"
  shows "fold clustat_node_att (node_atts l i n) (clustat_node0, False) = (n, l = Some i)"
  using assms by (auto simp: node_atts_def clustat_node_att_def clustat_node0_def cnum_simps Let_def)

lemma fold_group_atts:
  assumes "cg_name gr \<noteq> None" "int32_range (cg_state gr)" "ref_ok (length names) (cg_owner gr)"
    "ref_ok (length names) (cg_last gr)" "distinct names" "''none'' \<notin> set names"
  shows "fold_opt (clustat_group_att (map Some names)) (group_atts names gr) clustat_group0 = Some gr"
proof -
  obtain n where n: "cg_name gr = Some n" using assms(1) by auto
  have "strsep '':'' (''service'' @ CHR '':'' # n) = (''service'', Some n)" by (rule strsep_hit) simp_all
  then show ?thesis
    using n assms by (simp add: group_atts_def clustat_group_att_def clustat_group0_def find_node_ref cnum_simps)
qed

lemma fold_node_events:
  assumes "list_all (\<lambda>n. cn_name n \<noteq> None \<and> uint16_range (cn_state n) \<and> uint16_range (cn_rgmanager n) \<and> uint16_range (cn_id n)) ns"
  shows "fold_opt clustat_handler (node_events l (length (cs_node c)) ns) c =
    Some (c\<lparr>cs_node := cs_node c @ ns,
            cs_local := (case l of Some i \<Rightarrow> if length (cs_node c) \<le> i \<and> i < length (cs_node c) + length ns then Some i else cs_local c
                                 | None \<Rightarrow> cs_local c)\<rparr>)"
  using assms
proof (induction ns arbitrary: c)
  case Nil
  then show ?case by (auto split: option.split)
next
  case (Cons n ns)
  let ?c = "c\<lparr>cs_node := cs_node c @ [n], cs_local := (if l = Some (length (cs_node c)) then Some (length (cs_node c)) else cs_local c)\<rparr>"
  have "fold_opt clustat_handler (element ''node'' (node_atts l (length (cs_node c)) n)) c = Some ?c"
    using Cons.prems fold_node_atts [of n l "length (cs_node c)"] by (simp add: element_def rhcs_clustat_startElement_def)
  then show ?case
    using Cons.IH [of ?c] Cons.prems by (auto split: option.split)
qed

lemma fold_group_events:
  assumes "list_all (\<lambda>gr. fold_opt (clustat_group_att (map cn_name (cs_node c))) (group_atts names gr) clustat_group0 = Some gr) grs"
  shows "fold_opt clustat_handler (concat (map (\<lambda>gr. element ''group'' (group_atts names gr)) grs)) c =
    Some (c\<lparr>cs_group := cs_group c @ grs\<rparr>)"
  using assms
  by (induction grs arbitrary: c) (simp_all add: element_def rhcs_clustat_startElement_def)

lemma fold_clustat_events:
  assumes "clustat_wf c"
  shows "fold_opt clustat_handler (clustat_events c) clustat0 = Some c"
proof -
  let ?c1 = "clustat0\<lparr>cs_name := cs_name c, cs_id := cs_id c\<rparr>"
  let ?c2 = "?c1\<lparr>cs_node := cs_node c, cs_local := cs_local c\<rparr>"
  have names: "map cn_name (cs_node c) = map Some (node_names c)" "length (node_names c) = length (cs_node c)"
    using assms by (auto simp: clustat_wf_def node_names_def list_all_iff)
  have "fold_opt clustat_handler (node_events (cs_local c) 0 (cs_node c)) ?c1 = Some ?c2"
    using fold_node_events [of "cs_node c" "cs_local c" ?c1] assms
    by (auto simp: clustat_wf_def clustat0_def ref_ok_def split: option.splits)
  moreover have "fold_opt clustat_handler (concat (map (\<lambda>gr. element ''group'' (group_atts (node_names c) gr)) (cs_group c))) ?c2 =
      Some (?c2\<lparr>cs_group := cs_group c\<rparr>)"
    using fold_group_events [of ?c2 "node_names c" "cs_group c"] fold_group_atts [of _ "node_names c"] assms names
    by (simp add: clustat_wf_def clustat0_def list_all_iff)
  moreover have "fold_opt clustat_handler (element ''cluster'' [(''name'', the (cs_name c)), (''id'', fmt_d (cs_id c)), (''generation'', ''1'')]) clustat0 = Some ?c1"
    using assms by (auto simp: element_def rhcs_clustat_startElement_def clustat_cluster_att_def clustat_wf_def cnum_simps)
  ultimately show ?thesis
    by (simp add: clustat_events_def element_def rhcs_clustat_startElement_def)
qed


definition clustat_ex :: rhcs_clustat where
  "clustat_ex = \<lparr>cs_name = Some ''web'', cs_id = 3296, cs_local = Some 0,
     cs_node = [\<lparr>cn_name = Some ''n1'', cn_state = 1, cn_rgmanager = 1, cn_id = 1\<rparr>,
                \<lparr>cn_name = Some ''n2'', cn_state = 1, cn_rgmanager = 1, cn_id = 2\<rparr>],
     cs_group = [\<lparr>cg_name = Some ''www'', cg_state = 112, cg_owner = Some 1, cg_last = Some 0\<rparr>,
                 \<lparr>cg_name = Some ''db'', cg_state = 119, cg_owner = None, cg_last = Some 0\<rparr>]\<rparr>"

lemma clustat_ex_wf: "clustat_wf clustat_ex"
  by (simp add: clustat_wf_def clustat_ex_def node_names_def uint16_range_def int32_range_def ref_ok_def INT_MIN_def INT_MAX_def)


section \<open>The configuration round trip\<close>

text \<open>The events of a configuration file.\<close>

definition flag :: "bool \<Rightarrow> string" where "flag b = (if b then ''1'' else ''0'')"

definition conf_node_events :: "rhcs_conf_node \<Rightarrow> xml_event list" where
  "conf_node_events n = element ''clusternode'' [(''name'', the (nd_name n)), (''nodeid'', fmt_d (nd_id n)), (''votes'', fmt_d (nd_votes n))]"

definition member_events :: "string list \<Rightarrow> rhcs_conf_fodom_node \<Rightarrow> xml_event list" where
  "member_events names m = element ''failoverdomainnode'' [(''name'', node_ref names (fn_node m)), (''priority'', fmt_d (fn_priority m))]"

definition fodom_atts :: "rhcs_conf_fodom \<Rightarrow> (string \<times> string) list" where
  "fodom_atts d = [(''name'', the (fd_name d)), (''nofailback'', flag (\<not> fd_failback d)),
     (''ordered'', flag (fd_ordered d)), (''restricted'', flag (fd_restricted d))]"

definition fodom_events :: "string list \<Rightarrow> rhcs_conf_fodom \<Rightarrow> xml_event list" where
  "fodom_events names d =
     StartElement ''failoverdomain'' (fodom_atts d) #
     concat (map (member_events names) (fd_node d)) @ [EndElement ''failoverdomain'']"

definition service_events :: "string list \<Rightarrow> rhcs_conf_service \<Rightarrow> xml_event list" where
  "service_events domains s =
     StartElement ''service'' ((''autostart'', flag (sv_autostart s)) #
       (case sv_fodomain s of None \<Rightarrow> [] | Some i \<Rightarrow> [(''domain'', domains ! i)]) @
       [(''exclusive'', flag (sv_exclusive s)), (''name'', the (sv_name s)),
        (''recovery'', if sv_recovery s = RELOCATE then ''relocate'' else ''restart'')]) #
     element ''ip'' [(''ref'', ''10.0.0.1'')] @ [EndElement ''service'']"

definition conf_names :: "rhcs_conf \<Rightarrow> string list" where
  "conf_names c = map (\<lambda>n. the (nd_name n)) (cf_node c)"

definition fodom_names :: "rhcs_conf \<Rightarrow> string list" where
  "fodom_names c = map (\<lambda>d. the (fd_name (the d))) (cf_fodomain c)"

definition conf_events :: "rhcs_conf \<Rightarrow> xml_event list" where
  "conf_events c =
     [StartElement ''cluster'' [(''alias'', the (cf_alias c)), (''config_version'', fmt_d (cf_version c)), (''name'', the (cf_name c))],
      StartElement ''clusternodes'' []] @ concat (map conf_node_events (cf_node c)) @ [EndElement ''clusternodes''] @
     [StartElement ''rm'' [], StartElement ''failoverdomains'' []] @
     concat (map (\<lambda>d. fodom_events (conf_names c) (the d)) (cf_fodomain c)) @ [EndElement ''failoverdomains''] @
     concat (map (service_events (fodom_names c)) (cf_service c)) @ [EndElement ''rm'', EndElement ''cluster'']"

definition uint32_range :: "int \<Rightarrow> bool" where "uint32_range x \<longleftrightarrow> 0 \<le> x \<and> x < 2 ^ 32"

definition conf_wf :: "rhcs_conf \<Rightarrow> bool" where
  "conf_wf c \<longleftrightarrow>
     cf_name c \<noteq> None \<and> cf_alias c \<noteq> None \<and> uint32_range (cf_version c) \<and> fodomains c = length (cf_fodomain c) \<and>
     list_all (\<lambda>n. nd_name n \<noteq> None \<and> uint32_range (nd_id n) \<and> uint32_range (nd_votes n)) (cf_node c) \<and>
     distinct (conf_names c) \<and> distinct (fodom_names c) \<and>
     list_all (\<lambda>d. d \<noteq> None \<and> fd_name (the d) \<noteq> None \<and>
       list_all (\<lambda>m. fn_node m \<noteq> None \<and> ref_ok (length (cf_node c)) (fn_node m) \<and> uint32_range (fn_priority m)) (fd_node (the d))) (cf_fodomain c) \<and>
     list_all (\<lambda>s. sv_name s \<noteq> None \<and> ref_ok (length (cf_fodomain c)) (sv_fodomain s)) (cf_service c)"

lemma strtol_uint32 [cnum_simps]: "uint32_range x \<Longrightarrow> to_uint32 (strtol 10 (fmt_d x)) = x"
  by (simp add: strtol_fmt_d [unfolded LONG_MIN_def LONG_MAX_def] uint32_range_def to_uint32_def)

lemmas conf_start_defs = element_def rhcs_conf_startElement_def rhcs_conf_stopElement_def

lemma fold_conf_nodes:
  assumes "list_all (\<lambda>n. nd_name n \<noteq> None \<and> uint32_range (nd_id n) \<and> uint32_range (nd_votes n)) ns"
  shows "fold_opt conf_handler (concat (map conf_node_events ns)) c = Some (c\<lparr>cf_node := cf_node c @ ns\<rparr>)"
  using assms
proof (induction ns arbitrary: c)
  case (Cons n ns)
  then have "fold_opt conf_handler (conf_node_events n) c = Some (c\<lparr>cf_node := cf_node c @ [n]\<rparr>)"
    by (auto simp: conf_node_events_def conf_start_defs conf_node_att_def cnum_simps)
  then show ?case using Cons by simp
qed simp

lemma fold_members:
  assumes "map nd_name (cf_node c) = map Some names" "distinct names"
    "list_all (\<lambda>m. fn_node m \<noteq> None \<and> ref_ok (length names) (fn_node m) \<and> uint32_range (fn_priority m)) ms"
    "cf_fodomain c = ds @ [Some d]" "fodomains c = length ds"
  shows "fold_opt conf_handler (concat (map (member_events names) ms)) c =
    Some (c\<lparr>cf_fodomain := ds @ [Some (d\<lparr>fd_node := fd_node d @ ms\<rparr>)]\<rparr>)"
  using assms
proof (induction ms arbitrary: c d)
  case (Cons m ms)
  let ?d = "d\<lparr>fd_node := fd_node d @ [m]\<rparr>"
  obtain i where i: "fn_node m = Some i" "i < length names" using Cons.prems(3) by (auto simp: ref_ok_def)
  then have "fold_opt (conf_fodom_node_att (map Some names)) [(''name'', node_ref names (fn_node m)), (''priority'', fmt_d (fn_priority m))]
      \<lparr>fn_node = None, fn_priority = 0\<rparr> = Some m"
    using Cons.prems(2,3) find_name_index [of names i 0 None]
    by (simp add: conf_fodom_node_att_def node_ref_def cnum_simps)
  then have "fold_opt conf_handler (member_events names m) c = Some (c\<lparr>cf_fodomain := ds @ [Some ?d]\<rparr>)"
    using Cons.prems by (simp add: member_events_def conf_start_defs)
  then show ?case
    using Cons.IH [of "c\<lparr>cf_fodomain := ds @ [Some ?d]\<rparr>" ?d] Cons.prems by simp
qed simp

lemma fold_fodom_atts:
  assumes "fd_name d \<noteq> None"
  shows "fold conf_fodom_att (fodom_atts d)
      \<lparr>fd_name = None, fd_failback = False, fd_ordered = False, fd_restricted = False, fd_node = []\<rparr> = d\<lparr>fd_node := []\<rparr>"
proof -
  have "flag b = ''1'' \<longleftrightarrow> b" "flag b = ''0'' \<longleftrightarrow> \<not> b" for b by (simp_all add: flag_def)
  then show ?thesis using assms by (auto simp: fodom_atts_def conf_fodom_att_def)
qed

lemma fold_fodoms:
  assumes "map nd_name (cf_node c) = map Some names" "distinct names"
    "list_all (\<lambda>d. d \<noteq> None \<and> fd_name (the d) \<noteq> None \<and>
       list_all (\<lambda>m. fn_node m \<noteq> None \<and> ref_ok (length names) (fn_node m) \<and> uint32_range (fn_priority m)) (fd_node (the d))) ds"
    "fodomains c = length (cf_fodomain c)"
  shows "fold_opt conf_handler (concat (map (\<lambda>d. fodom_events names (the d)) ds)) c =
    Some (c\<lparr>cf_fodomain := cf_fodomain c @ ds, fodomains := fodomains c + length ds\<rparr>)"
  using assms
proof (induction ds arbitrary: c)
  case (Cons d ds)
  obtain d' where d: "d = Some d'" using Cons.prems(3) by auto
  let ?c = "c\<lparr>cf_fodomain := cf_fodomain c @ [Some (d'\<lparr>fd_node := []\<rparr>)]\<rparr>"
  have "fold_opt conf_handler (fodom_events names d') c =
      (case fold_opt conf_handler (concat (map (member_events names) (fd_node d'))) ?c of
         None \<Rightarrow> None | Some s \<Rightarrow> Some (s\<lparr>fodomains := Suc (fodomains s)\<rparr>))"
    using Cons.prems(4) fold_fodom_atts [of d'] Cons.prems(3) by (simp add: fodom_events_def conf_start_defs d arr_put_def split: option.split)
  also have "\<dots> = Some (c\<lparr>cf_fodomain := cf_fodomain c @ [d], fodomains := Suc (fodomains c)\<rparr>)"
    using fold_members [of ?c names "fd_node d'" "cf_fodomain c" "d'\<lparr>fd_node := []\<rparr>"] Cons.prems by (simp add: d)
  finally show ?case
    using Cons.IH [of "c\<lparr>cf_fodomain := cf_fodomain c @ [d], fodomains := Suc (fodomains c)\<rparr>"] Cons.prems by (simp add: d)
qed simp

lemma fold_services:
  assumes "domain_names c = Some (map Some domains)" "distinct domains"
    "list_all (\<lambda>s. sv_name s \<noteq> None \<and> ref_ok (length domains) (sv_fodomain s)) ss"
  shows "fold_opt conf_handler (concat (map (service_events domains) ss)) c = Some (c\<lparr>cf_service := cf_service c @ ss\<rparr>)"
  using assms
proof (induction ss arbitrary: c)
  case (Cons s ss)
  have f: "flag b = ''1'' \<longleftrightarrow> b" for b by (simp add: flag_def)
  have dom: "conf_service_att (Some (map Some domains)) (''domain'', domains ! i) t = Some (t\<lparr>sv_fodomain := Some i\<rparr>)"
    if "i < length domains" for i t
    using find_name_index [OF Cons.prems(2) that, of 0 "sv_fodomain t"] by (simp add: conf_service_att_def)
  have atts: "fold_opt (conf_service_att (Some (map Some domains)))
      ((''autostart'', flag (sv_autostart s)) #
       (case sv_fodomain s of None \<Rightarrow> [] | Some i \<Rightarrow> [(''domain'', domains ! i)]) @
       [(''exclusive'', flag (sv_exclusive s)), (''name'', the (sv_name s)),
        (''recovery'', if sv_recovery s = RELOCATE then ''relocate'' else ''restart'')])
      \<lparr>sv_name = None, sv_fodomain = None, sv_recovery = RESTART, sv_autostart = False, sv_exclusive = False\<rparr> = Some s"
    using Cons.prems(3) dom
    by (cases "sv_fodomain s"; cases "sv_recovery s") (auto simp: conf_service_att_def [of _ "(''autostart'', _)"]
        conf_service_att_def [of _ "(''exclusive'', _)"] conf_service_att_def [of _ "(''name'', _)"]
        conf_service_att_def [of _ "(''recovery'', _)"] f ref_ok_def)
  have "fold_opt conf_handler (service_events domains s) c = Some (c\<lparr>cf_service := cf_service c @ [s]\<rparr>)"
    using atts Cons.prems(1) by (simp add: service_events_def conf_start_defs)
  moreover have "domain_names (c\<lparr>cf_service := cf_service c @ [s]\<rparr>) = Some (map Some domains)"
    using Cons.prems(1) by (simp add: domain_names_def)
  ultimately show ?case
    using Cons.IH [of "c\<lparr>cf_service := cf_service c @ [s]\<rparr>"] Cons.prems by simp
qed simp

lemma fold_conf_events:
  assumes "conf_wf c"
  shows "fold_opt conf_handler (conf_events c) (conf0 0) = Some c"
proof -
  let ?c1 = "(conf0 0)\<lparr>cf_name := cf_name c, cf_alias := cf_alias c, cf_version := cf_version c\<rparr>"
  let ?c2 = "?c1\<lparr>cf_node := cf_node c\<rparr>"
  let ?c3 = "?c2\<lparr>cf_fodomain := cf_fodomain c, fodomains := length (cf_fodomain c)\<rparr>"
  note defs = conf_wf_def conf_names_def fodom_names_def list_all_iff conf0_def
  have names: "map nd_name (cf_node c) = map Some (conf_names c)" "length (conf_names c) = length (cf_node c)"
      "length (fodom_names c) = length (cf_fodomain c)"
    using assms by (auto simp: defs)
  have "fold_opt conf_handler (concat (map conf_node_events (cf_node c))) ?c1 = Some ?c2"
    using fold_conf_nodes [of "cf_node c" ?c1] assms by (simp add: conf_wf_def conf0_def)
  moreover have "fold_opt conf_handler (concat (map (\<lambda>d. fodom_events (conf_names c) (the d)) (cf_fodomain c))) ?c2 = Some ?c3"
    using fold_fodoms [of ?c2 "conf_names c" "cf_fodomain c"] assms names by (simp add: conf_wf_def conf0_def)
  moreover have "domain_names ?c3 = Some (map Some (fodom_names c))"
    using assms by (auto simp: domain_names_def Let_def defs)
  then have "fold_opt conf_handler (concat (map (service_events (fodom_names c)) (cf_service c))) ?c3 = Some c"
    using fold_services [of ?c3 "fodom_names c" "cf_service c"] assms names by (simp add: conf_wf_def conf0_def)
  moreover have "fold conf_cluster_att
      [(''alias'', the (cf_alias c)), (''config_version'', fmt_d (cf_version c)), (''name'', the (cf_name c))] (conf0 0) = ?c1"
    using assms by (auto simp: conf_cluster_att_def conf_wf_def cnum_simps)
  ultimately show ?thesis
    by (simp add: conf_events_def conf_start_defs)
qed

text \<open>Reading the configuration back. For every configuration with unique node and domain names and numbers that
  fit their fields, \<open>parse_rhcs_conf\<close> builds exactly that configuration from the events of its file, with the
  members of the failover domains and the domains of the services resolved; the counter of the domains starts at 0.\<close>

theorem parse_rhcs_conf_roundtrip:
  assumes "xml_events xp p doc = (conf_events c, True)" "conf_wf c"
  shows "parse_rhcs_conf xp p 0 doc = Parsed c"
  using assms by (simp add: parse_rhcs_conf_def xml_feed_events fold_conf_events)

definition conf_ex :: rhcs_conf where
  "conf_ex = \<lparr>cf_name = Some ''web'', cf_alias = Some ''w'', cf_version = 7,
     cf_node = [\<lparr>nd_name = Some ''n1'', nd_id = 1, nd_votes = 1\<rparr>, \<lparr>nd_name = Some ''n2'', nd_id = 2, nd_votes = 1\<rparr>],
     cf_fodomain = [Some \<lparr>fd_name = Some ''fo1'', fd_failback = True, fd_ordered = True, fd_restricted = False,
       fd_node = [\<lparr>fn_node = Some 0, fn_priority = 1\<rparr>, \<lparr>fn_node = Some 1, fn_priority = 2\<rparr>]\<rparr>],
     cf_service = [\<lparr>sv_name = Some ''www'', sv_fodomain = Some 0, sv_recovery = RELOCATE, sv_autostart = True, sv_exclusive = False\<rparr>],
     fodomains = 1\<rparr>"

lemma conf_ex_wf: "conf_wf conf_ex"
  by (simp add: conf_wf_def conf_ex_def conf_names_def fodom_names_def uint32_range_def ref_ok_def)

theorem parse_rhcs_conf_roundtrip_witness:
  "parse_rhcs_conf (\<lambda>p block. ((), conf_events conf_ex, True)) () 0 ''<cluster/>'' = Parsed conf_ex"
  using parse_rhcs_conf_roundtrip [where xp = "\<lambda>p block. ((), conf_events conf_ex, True)" and doc = "''<cluster/>''"] conf_ex_wf
  by (simp add: xml_events.simps BUFFERSIZE_def)

end
