(* ===== verification/Check_Clustat.thy ===== *)
theory Check_Clustat
  imports Plugin RHCS_Utils
begin

text \<open>
  \<^verbatim>\<open>rhcs/check_clustat.c\<close>: the placement of the services of a cluster.

  The environment holds the user, the results of the system calls, the output of \<open>clustat -x\<close>, the files and the
  XML parser. \<open>None\<close> and \<open>Crash\<close> are the dereference of a NULL pointer.
\<close>

section \<open>Program\<close>

definition check_clustat_globals :: mp_globals where
  "check_clustat_globals = mp_init ''check_clustat''
     ([])
     ''0.1'' ''Marius Rieder <marius.rieder@durchmesser.ch>'' ''2010''"

definition check_clustat_print_help :: "string \<Rightarrow> string \<Rightarrow> string" where
  "check_clustat_print_help package version =
     print_revision package version check_clustat_globals @
     print_copyright check_clustat_globals @
     help_lines
       [[],
        ''Check description: Check RedHat Cluster status with clustat.'',
        []] @
     print_usage check_clustat_globals @
     print_help_default"

definition clustat_opt :: "bool opt_handler" where
  "clustat_opt c optarg nonroot g = Inr (if c = CHR ''n'' then True else nonroot)"

definition clustat_process_arguments :: "(char \<times> string) list \<Rightarrow> mp_globals \<Rightarrow> mp_end + bool" where
  "clustat_process_arguments os g = run_opts clustat_opt os False g"

section \<open>Services\<close>

record clustat_counts =
  services_total :: int
  services_local :: int
  services_stopped :: int
  services_failed :: int
  services_started :: int
  foreign_list :: "cbuf option"
  missing_list :: "cbuf option"

definition counts0 :: clustat_counts where
  "counts0 = \<lparr>services_total = 0, services_local = 0, services_stopped = 0, services_failed = 0, services_started = 0,
     foreign_list = None, missing_list = None\<rparr>"

definition count_group :: "nat option \<Rightarrow> rhcs_clustat_group \<Rightarrow> clustat_counts \<Rightarrow> clustat_counts" where
  "count_group l gr k =
     (let k = k\<lparr>services_total := services_total k + 1\<rparr>;
          k = (if cg_owner gr = l then k\<lparr>services_local := services_local k + 1\<rparr> else k)
      in if cg_state gr \<in> {110, 111, 113, 119} then k\<lparr>services_stopped := services_stopped k + 1\<rparr>
         else if cg_state gr = 112 then k\<lparr>services_started := services_started k + 1\<rparr>
         else k\<lparr>services_failed := services_failed k + 1\<rparr>)"

fun find_service :: "string option \<Rightarrow> rhcs_conf_service list \<Rightarrow> rhcs_conf_service option option" where
  "find_service gname [] = Some None"
| "find_service gname (s # ss) =
     (case (sv_name s, gname) of
        (Some a, Some b) \<Rightarrow> if a = b then Some (Some s) else find_service gname ss
      | _ \<Rightarrow> None)"

text \<open>The members of the domain of the service; the empty list where the array is NULL or there is no service.\<close>

definition group_domain :: "rhcs_conf \<Rightarrow> rhcs_clustat_group \<Rightarrow> (rhcs_conf_fodom_node list \<times> bool) option" where
  "group_domain cf gr =
     (if cf_service cf = [] then None
      else case find_service (cg_name gr) (cf_service cf) of
             None \<Rightarrow> None
           | Some None \<Rightarrow> Some ([], True)
           | Some (Some s) \<Rightarrow>
               (case sv_fodomain s of
                  None \<Rightarrow> None
                | Some i \<Rightarrow> (case cf_fodomain cf ! i of None \<Rightarrow> None | Some d \<Rightarrow> Some (fd_node d, sv_autostart s))))"

record prios =
  localprio :: int
  ownerprio :: int
  bestprio :: int

definition prio_step ::
    "rhcs_conf \<Rightarrow> string option \<Rightarrow> string option option \<Rightarrow> rhcs_conf_fodom_node \<Rightarrow> prios \<Rightarrow> prios option" where
  "prio_step cf localname owner m p =
     (case fn_node m of
        None \<Rightarrow> None
      | Some i \<Rightarrow>
          (case (nd_name (cf_node cf ! i), localname) of
             (Some n, Some lname) \<Rightarrow>
               (let p = (if n = lname then p\<lparr>localprio := to_int32 (fn_priority m)\<rparr> else p)
                in case (case owner of
                           None \<Rightarrow> Some p
                         | Some None \<Rightarrow> None
                         | Some (Some owner_name) \<Rightarrow> Some (if n = owner_name then p\<lparr>ownerprio := to_int32 (fn_priority m)\<rparr> else p)) of
                     None \<Rightarrow> None
                   | Some p \<Rightarrow>
                       Some (p\<lparr>bestprio := (if fn_priority m < to_uint32 (bestprio p)
                                           then to_int32 (fn_priority m) else bestprio p)\<rparr>))
           | _ \<Rightarrow> None))"

definition clustat_group_step :: "rhcs_clustat \<Rightarrow> rhcs_conf \<Rightarrow> nat \<Rightarrow> rhcs_clustat_group \<Rightarrow> clustat_counts \<Rightarrow> clustat_counts option" where
  "clustat_group_step c cf l gr k =
     (let k = count_group (Some l) gr k
      in case group_domain cf gr of
           None \<Rightarrow> None
         | Some (members, autostart) \<Rightarrow>
             if members = [] then Some k
             else
               (case fold_opt (prio_step cf (cn_name (cs_node c ! l)) (map_option (\<lambda>w. cn_name (cs_node c ! w)) (cg_owner gr)))
                       members \<lparr>localprio = INT_MAX, ownerprio = INT_MAX, bestprio = INT_MAX\<rparr> of
                  None \<Rightarrow> None
                | Some p \<Rightarrow>
                    let k = (if cg_owner gr = Some l \<and> bestprio p < localprio p
                             then k\<lparr>foreign_list := mp_strcat_comma (foreign_list k) (cg_name gr)\<rparr> else k)
                    in Some (if cg_owner gr \<noteq> Some l \<and> localprio p < ownerprio p
                             then k\<lparr>missing_list := mp_strcat_comma (missing_list k) (cg_name gr)\<rparr>
                             else if cg_owner gr = None \<and> localprio p = bestprio p \<and> autostart
                             then k\<lparr>missing_list := mp_strcat_comma (missing_list k) (cg_name gr)\<rparr> else k)))"

section \<open>Report\<close>

definition clustat_perf :: "rhcs_clustat \<Rightarrow> clustat_counts \<Rightarrow> mp_globals \<Rightarrow> mp_globals" where
  "clustat_perf c k g =
     (if mp_showperfdata g
      then let p = (\<lambda>label v g. snd (mp_perfdata_int label v [] None g));
               g = p ''services_total'' (services_total k) g;
               g = p ''services_local'' (services_local k) g;
               g = p ''services_stopped'' (services_stopped k) g;
               g = p ''services_started'' (services_started k) g;
               g = p ''services_failed'' (services_failed k) g;
               g = p ''nodes_total'' (int (length (cs_node c))) g
           in p ''nodes_online'' (int (length (filter (\<lambda>n. cn_rgmanager n = 1) (cs_node c)))) g
      else g)"

definition clustat_title :: "rhcs_clustat \<Rightarrow> nat \<Rightarrow> string" where
  "clustat_title c l = fmt_s (cs_name c) @ ''('' @ fmt_d (cs_id c) @ '') on '' @ fmt_s (cn_name (cs_node c ! l))"

definition clustat_report :: "rhcs_clustat \<Rightarrow> nat \<Rightarrow> clustat_counts \<Rightarrow> mp_globals \<Rightarrow> mp_end" where
  "clustat_report c l k g =
     (let g = clustat_perf c k g; t = clustat_title c l
      in case (foreign_list k, missing_list k) of
           (None, None) \<Rightarrow> ok t g
         | (None, Some m) \<Rightarrow> warning (t @ '': Missing '' @ cstr m) g
         | (Some f, None) \<Rightarrow> warning (t @ '': Foreign '' @ cstr f) g
         | (Some f, Some m) \<Rightarrow> warning (t @ '': Missing '' @ cstr m @ ''  Foreign '' @ cstr f) g)"

section \<open>Main\<close>

record 'p clustat_env =
  ce_euid :: int
  ce_setuid_ok :: bool
  ce_spawn :: "string \<Rightarrow> sp_check"
  ce_fdopen_ok :: bool
  ce_output :: string
  ce_waits :: "wait_result list"
  ce_files :: files
  ce_xml :: "'p xml_parser"
  ce_parser :: 'p

text \<open>The text of the status: the output of the command or a file; \<open>Inl\<close> ends the plugin.\<close>

definition clustat_source :: "bool \<Rightarrow> 'p clustat_env \<Rightarrow> mp_globals \<Rightarrow> mp_end + string" where
  "clustat_source nonroot env g =
     (if nonroot
      then (case ce_files env ''clustat.xml'' of
              None \<Rightarrow> Inl (unknown (''Can'' @ [CHR 0x27] @ ''t exec clustat'') g)
            | Some t \<Rightarrow> Inr t)
      else (case mp_noneroot_die (ce_euid env) g of
              Inl e \<Rightarrow> Inl e
            | Inr g \<Rightarrow>
                if \<not> ce_setuid_ok env then Inl (unknown ''setuid failed'' g)
                else (case ce_spawn env ''/usr/sbin/clustat'' of
                        Started pid \<Rightarrow>
                          if \<not> ce_fdopen_ok env then Inl (unknown (''Can'' @ [CHR 0x27] @ ''t exec clustat'') g)
                          else Inr (ce_output env)
                      | _ \<Rightarrow> Inl Crash)))"

definition clustat_close :: "bool \<Rightarrow> 'p clustat_env \<Rightarrow> mp_globals \<Rightarrow> mp_end option" where
  "clustat_close nonroot env g =
     (if nonroot then None
      else case mp_subprocess_close (ce_waits env) of
             None \<Rightarrow> (case timeout_alarm_handler SIGALRM g of Inl e \<Rightarrow> Some e | Inr _ \<Rightarrow> Some Crash)
           | Some r \<Rightarrow> if r \<noteq> 0 then Some (critical ''Clustat failed!'' g) else None)"

text \<open>The structure \<open>parse_rhcs_clustat\<close> returns is used without a test: NULL after a parse error, a NULL
  \<open>local\<close> when no node is the local one.\<close>

definition check_clustat_main :: "'p clustat_env \<Rightarrow> (char \<times> string) list \<Rightarrow> mp_globals \<Rightarrow> mp_end" where
  "check_clustat_main env os g =
     (case clustat_process_arguments os g of
        Inl e \<Rightarrow> e
      | Inr nonroot \<Rightarrow>
          (case clustat_source nonroot env g of
             Inl e \<Rightarrow> e
           | Inr t \<Rightarrow>
               (case parse_rhcs_clustat (ce_xml env) (ce_parser env) t of
                  ParseCrash \<Rightarrow> Crash
                | r \<Rightarrow>
                    (case clustat_close nonroot env g of
                       Some e \<Rightarrow> e
                     | None \<Rightarrow>
                         (case r of
                            Parsed c \<Rightarrow>
                              (case cs_local c of
                                 None \<Rightarrow> Crash
                               | Some l \<Rightarrow>
                                   if cn_rgmanager (cs_node c ! l) \<noteq> 1
                                   then critical (fmt_s (cs_name c) @ '' ['' @ fmt_s (cn_name (cs_node c ! l)) @ ''] rgmanager not running!'') g
                                   else (case ce_files env (if nonroot then ''cluster.conf'' else ''/etc/cluster/cluster.conf'') of
                                           None \<Rightarrow> unknown (''Can'' @ [CHR 0x27] @ ''t read cluster.conf.'') g
                                         | Some t \<Rightarrow>
                                             (case parse_rhcs_conf (ce_xml env) (ce_parser env) 0 t of
                                                Parsed cf \<Rightarrow>
                                                  if cs_group c = [] then Crash
                                                  else (case fold_opt (clustat_group_step c cf l) (cs_group c) counts0 of
                                                          None \<Rightarrow> Crash
                                                        | Some k \<Rightarrow> clustat_report c l k g)
                                              | _ \<Rightarrow> Crash)))
                          | _ \<Rightarrow> Crash)))))"

section \<open>Placement\<close>

text \<open>The specification: the names and priorities of a domain, the priority of a node in it, and what it means that
  the local node runs a service it should not run, or does not run one it should run.\<close>

definition member_prios :: "rhcs_conf \<Rightarrow> rhcs_conf_fodom_node list \<Rightarrow> (string \<times> int) list" where
  "member_prios cf ms = map (\<lambda>m. (the (nd_name (cf_node cf ! the (fn_node m))), fn_priority m)) ms"

definition prio_of :: "(string \<times> int) list \<Rightarrow> string \<Rightarrow> int" where
  "prio_of ps n = (case map_of (rev ps) n of Some q \<Rightarrow> q | None \<Rightarrow> INT_MAX)"

definition group_prios :: "rhcs_conf \<Rightarrow> rhcs_clustat_group \<Rightarrow> (string \<times> int) list" where
  "group_prios cf gr =
     (case find (\<lambda>s. sv_name s = cg_name gr) (cf_service cf) of
        None \<Rightarrow> []
      | Some s \<Rightarrow> member_prios cf (fd_node (the (cf_fodomain cf ! the (sv_fodomain s)))))"

definition is_foreign :: "rhcs_clustat \<Rightarrow> rhcs_conf \<Rightarrow> nat \<Rightarrow> rhcs_clustat_group \<Rightarrow> bool" where
  "is_foreign c cf l gr \<longleftrightarrow> cg_owner gr = Some l \<and>
     (\<exists>q \<in> snd ` set (group_prios cf gr). q < prio_of (group_prios cf gr) (node_names c ! l))"

definition is_missing :: "rhcs_clustat \<Rightarrow> rhcs_conf \<Rightarrow> nat \<Rightarrow> rhcs_clustat_group \<Rightarrow> bool" where
  "is_missing c cf l gr \<longleftrightarrow> cg_owner gr \<noteq> Some l \<and>
     prio_of (group_prios cf gr) (node_names c ! l) <
       (case cg_owner gr of None \<Rightarrow> INT_MAX | Some w \<Rightarrow> prio_of (group_prios cf gr) (node_names c ! w))"

definition members_ok :: "rhcs_conf \<Rightarrow> rhcs_conf_fodom_node list \<Rightarrow> bool" where
  "members_ok cf ms \<longleftrightarrow> (\<forall>m \<in> set ms. fn_node m \<noteq> None \<and> nd_name (cf_node cf ! the (fn_node m)) \<noteq> None \<and>
     0 \<le> fn_priority m \<and> fn_priority m < INT_MAX)"

lemma fold_prio:
  assumes "members_ok cf ms" "0 \<le> bestprio p" "bestprio p \<le> INT_MAX"
  shows "fold_opt (prio_step cf (Some n) (map_option Some owner)) ms p =
    Some \<lparr>localprio = (case map_of (rev (member_prios cf ms)) n of Some q \<Rightarrow> q | None \<Rightarrow> localprio p),
          ownerprio = (case owner of None \<Rightarrow> ownerprio p
            | Some w \<Rightarrow> (case map_of (rev (member_prios cf ms)) w of Some q \<Rightarrow> q | None \<Rightarrow> ownerprio p)),
          bestprio = fold min (map snd (member_prios cf ms)) (bestprio p)\<rparr>"
  using assms
proof (induction ms arbitrary: p)
  case Nil
  then show ?case by (simp add: member_prios_def split: option.split)
next
  case (Cons m ms)
  let ?q = "fn_priority m" and ?n = "the (nd_name (cf_node cf ! the (fn_node m)))"
  let ?p = "\<lparr>localprio = (if ?n = n then ?q else localprio p), ownerprio = (if owner = Some ?n then ?q else ownerprio p),
    bestprio = min ?q (bestprio p)\<rparr>"
  have q: "to_int32 ?q = ?q" "0 \<le> ?q" "?q < INT_MAX"
    using Cons.prems(1) by (auto simp: members_ok_def INT_MIN_def INT_MAX_def to_int32_def)
  have b: "to_uint32 (bestprio p) = bestprio p"
    using Cons.prems(2,3) by (simp add: to_uint32_def INT_MAX_def)
  have "prio_step cf (Some n) (map_option Some owner) m p = Some ?p"
    using Cons.prems(1) q b by (cases owner) (auto simp: prio_step_def members_ok_def Let_def min_def)
  moreover have "fold_opt (prio_step cf (Some n) (map_option Some owner)) ms ?p =
    Some \<lparr>localprio = (case map_of (rev (member_prios cf ms)) n of Some q \<Rightarrow> q | None \<Rightarrow> localprio ?p),
          ownerprio = (case owner of None \<Rightarrow> ownerprio ?p
            | Some w \<Rightarrow> (case map_of (rev (member_prios cf ms)) w of Some q \<Rightarrow> q | None \<Rightarrow> ownerprio ?p)),
          bestprio = fold min (map snd (member_prios cf ms)) (bestprio ?p)\<rparr>"
    using Cons.prems q by (intro Cons.IH) (auto simp: members_ok_def)
  ultimately show ?case
    by (cases owner) (auto simp: member_prios_def map_add_def split: option.split)
qed

lemma fold_min: "fold min xs (b :: int) < x \<longleftrightarrow> b < x \<or> (\<exists>y \<in> set xs. y < x)"
  by (induction xs arbitrary: b) (auto simp: min_less_iff_disj)

lemma find_service_find:
  "list_all (\<lambda>s. sv_name s \<noteq> None) ss \<Longrightarrow> gname \<noteq> None \<Longrightarrow> find_service gname ss = Some (find (\<lambda>s. sv_name s = gname) ss)"
  by (induction ss) auto

text \<open>The configurations the plugin can handle: every service has a domain and the priorities are below \<open>INT_MAX\<close>.\<close>

definition conf_placed :: "rhcs_conf \<Rightarrow> bool" where
  "conf_placed cf \<longleftrightarrow> conf_wf cf \<and> cf_service cf \<noteq> [] \<and> list_all (\<lambda>s. sv_fodomain s \<noteq> None) (cf_service cf) \<and>
     list_all (\<lambda>d. list_all (\<lambda>m. fn_priority m < INT_MAX) (fd_node (the d))) (cf_fodomain cf)"

lemma group_domain_members:
  assumes "conf_placed cf" "cg_name gr \<noteq> None"
  obtains ms autostart where "group_domain cf gr = Some (ms, autostart)" "members_ok cf ms" "group_prios cf gr = member_prios cf ms"
proof (cases "find (\<lambda>s. sv_name s = cg_name gr) (cf_service cf)")
  case None
  then have "group_domain cf gr = Some ([], True)" "group_prios cf gr = member_prios cf []"
    using assms find_service_find [of "cf_service cf" "cg_name gr"]
    by (auto simp: group_domain_def group_prios_def member_prios_def conf_placed_def conf_wf_def list_all_iff)
  then show ?thesis using that [of "[]" True] by (simp add: members_ok_def)
next
  case (Some s)
  then have "s \<in> set (cf_service cf)" by (auto simp: find_Some_iff)
  then obtain i where i: "sv_fodomain s = Some i" "i < length (cf_fodomain cf)"
    using assms by (fastforce simp: conf_placed_def conf_wf_def list_all_iff ref_ok_def)
  then have "cf_fodomain cf ! i \<in> set (cf_fodomain cf)" by simp
  then obtain d where d: "cf_fodomain cf ! i = Some d" "Some d \<in> set (cf_fodomain cf)"
    using assms(1) by (fastforce simp: conf_placed_def conf_wf_def list_all_iff)
  have "members_ok cf (fd_node d)"
    unfolding members_ok_def
  proof
    fix m assume m: "m \<in> set (fd_node d)"
    then obtain j where "fn_node m = Some j" "j < length (cf_node cf)" "uint32_range (fn_priority m)" "fn_priority m < INT_MAX"
      using assms(1) d(2) by (fastforce simp: conf_placed_def conf_wf_def list_all_iff ref_ok_def)
    moreover from this have "nd_name (cf_node cf ! j) \<noteq> None"
      using assms(1) nth_mem [of j "cf_node cf"] by (auto simp: conf_placed_def conf_wf_def list_all_iff)
    ultimately show "fn_node m \<noteq> None \<and> nd_name (cf_node cf ! the (fn_node m)) \<noteq> None \<and> 0 \<le> fn_priority m \<and> fn_priority m < INT_MAX"
      by (simp add: uint32_range_def)
  qed
  moreover have "group_domain cf gr = Some (fd_node d, sv_autostart s)" "group_prios cf gr = member_prios cf (fd_node d)"
    using Some i d assms find_service_find [of "cf_service cf" "cg_name gr"]
    by (auto simp: group_domain_def group_prios_def conf_placed_def conf_wf_def list_all_iff)
  ultimately show ?thesis using that by blast
qed

lemma count_group_lists [simp]:
  "foreign_list (count_group l gr k) = foreign_list k" "missing_list (count_group l gr k) = missing_list k"
  by (simp_all add: count_group_def Let_def)

lemma group_step_effect:
  assumes "conf_placed cf" "clustat_wf c" "gr \<in> set (cs_group c)" "l < length (cs_node c)"
  shows "\<exists>k'. clustat_group_step c cf l gr k = Some k' \<and>
    foreign_list k' = (if is_foreign c cf l gr then mp_strcat_comma (foreign_list k) (cg_name gr) else foreign_list k) \<and>
    missing_list k' = (if is_missing c cf l gr then mp_strcat_comma (missing_list k) (cg_name gr) else missing_list k)"
proof -
  have gr: "cg_name gr \<noteq> None" "ref_ok (length (cs_node c)) (cg_owner gr)"
    using assms(2,3) by (auto simp: clustat_wf_def list_all_iff)
  obtain ms au where ms: "group_domain cf gr = Some (ms, au)" "members_ok cf ms" "group_prios cf gr = member_prios cf ms"
    using group_domain_members [OF assms(1) gr(1)] .
  have names: "i < length (cs_node c) \<Longrightarrow> cn_name (cs_node c ! i) = Some (node_names c ! i)" for i
    using assms(2) nth_mem [of i "cs_node c"] by (auto simp: node_names_def clustat_wf_def list_all_iff)
  let ?ps = "member_prios cf ms" and ?ow = "map_option (\<lambda>w. node_names c ! w) (cg_owner gr)"
  let ?lp = "prio_of ?ps (node_names c ! l)" and ?op = "case ?ow of None \<Rightarrow> INT_MAX | Some w \<Rightarrow> prio_of ?ps w"
    and ?best = "fold min (map snd ?ps) INT_MAX"
  have ow: "map_option (\<lambda>w. cn_name (cs_node c ! w)) (cg_owner gr) = map_option Some ?ow"
    using gr(2) names by (auto simp: ref_ok_def option.map_comp split: option.splits)
  have p: "fold_opt (prio_step cf (cn_name (cs_node c ! l)) (map_option (\<lambda>w. cn_name (cs_node c ! w)) (cg_owner gr))) ms
      \<lparr>localprio = INT_MAX, ownerprio = INT_MAX, bestprio = INT_MAX\<rparr> =
      Some \<lparr>localprio = ?lp, ownerprio = ?op, bestprio = ?best\<rparr>"
    unfolding ow names [OF assms(4)] using fold_prio [OF ms(2), of "\<lparr>localprio = INT_MAX, ownerprio = INT_MAX, bestprio = INT_MAX\<rparr>"]
    by (simp add: prio_of_def INT_MAX_def split: option.split)
  have lp: "prio_of ?ps n \<le> INT_MAX" for n
    using ms(2) by (auto simp: prio_of_def member_prios_def members_ok_def less_imp_le split: option.split dest!: map_of_SomeD)
  have foreign: "is_foreign c cf l gr \<longleftrightarrow> cg_owner gr = Some l \<and> ?best < ?lp"
    using lp [of "node_names c ! l"] by (auto simp: is_foreign_def ms(3) fold_min)
  have missing: "is_missing c cf l gr \<longleftrightarrow> cg_owner gr \<noteq> Some l \<and> ?lp < ?op"
    by (auto simp: is_missing_def ms(3) split: option.splits)
  have dead: "ms \<noteq> [] \<Longrightarrow> cg_owner gr = None \<Longrightarrow> ?lp = ?best \<Longrightarrow> ?lp < ?op"
    using ms(2) fold_min [of "map snd ?ps" INT_MAX INT_MAX] lp [of "node_names c ! l"]
    by (cases ms) (auto simp: members_ok_def member_prios_def)
  show ?thesis
  proof (cases "ms = []")
    case True
    then show ?thesis using foreign missing
      by (simp add: clustat_group_step_def ms(1) member_prios_def prio_of_def Let_def split: option.split)
  next
    case False
    then show ?thesis
      using dead by (simp add: clustat_group_step_def ms(1) p foreign missing Let_def)
  qed
qed

definition listed :: "string list \<Rightarrow> string option" where
  "listed xs = (if xs = [] then None else Some (join_with '', '' xs))"

lemma listed_snoc:
  assumes "buf_str b = listed xs"
  shows "buf_str (mp_strcat_comma b (Some x)) = listed (xs @ [x])"
  using assms by (auto simp: comma.cat_str listed_def str_append_def join_with_append)

lemma listed_buf: "buf_str b = listed xs \<Longrightarrow> \<exists>x. b = (if xs = [] then None else Some x) \<and> cstr x = join_with '', '' xs"
  by (cases b) (auto simp: listed_def buf_str_def split: if_splits intro: exI [of _ "\<lparr>cstr = [], cap = 0\<rparr>"])

text \<open>The services of one kind, by name and in the order of the status.\<close>

definition group_names :: "(rhcs_clustat_group \<Rightarrow> bool) \<Rightarrow> rhcs_clustat_group list \<Rightarrow> string list" where
  "group_names P grs = map (\<lambda>gr. the (cg_name gr)) (filter P grs)"

lemma fold_groups:
  assumes "conf_placed cf" "clustat_wf c" "set grs \<subseteq> set (cs_group c)" "l < length (cs_node c)"
  shows "\<exists>k. fold_opt (clustat_group_step c cf l) grs counts0 = Some k \<and>
    buf_str (foreign_list k) = listed (group_names (is_foreign c cf l) grs) \<and>
    buf_str (missing_list k) = listed (group_names (is_missing c cf l) grs)"
  using assms(3)
proof (induction grs rule: rev_induct)
  case Nil
  then show ?case by (simp add: counts0_def listed_def group_names_def)
next
  case (snoc gr grs)
  then obtain k where k: "fold_opt (clustat_group_step c cf l) grs counts0 = Some k"
    "buf_str (foreign_list k) = listed (group_names (is_foreign c cf l) grs)"
    "buf_str (missing_list k) = listed (group_names (is_missing c cf l) grs)"
    by auto
  have "gr \<in> set (cs_group c)" using snoc.prems by simp
  then obtain n where n: "cg_name gr = Some n" using assms(2) by (auto simp: clustat_wf_def list_all_iff)
  show ?case
    using group_step_effect [OF assms(1,2) \<open>gr \<in> set (cs_group c)\<close> assms(4), of k] k listed_snoc [OF k(2), of n] listed_snoc [OF k(3), of n]
    by (auto simp: group_names_def n)
qed

lemma clustat_perf_stdout [simp]: "stdout (clustat_perf c k g) = stdout g"
  by (simp add: clustat_perf_def Let_def mp_perfdata_int_def mp_perfdata_int2_def perf_append_def)

lemma check_clustat_placement_cases:
  assumes "clustat_process_arguments os g = Inr nonroot" "clustat_source nonroot env g = Inr t" "clustat_close nonroot env g = None"
    "ce_files env (if nonroot then ''cluster.conf'' else ''/etc/cluster/cluster.conf'') = Some t'"
    "xml_events (ce_xml env) (ce_parser env) t = (clustat_events c, True)" "clustat_wf c"
    "xml_events (ce_xml env) (ce_parser env) t' = (conf_events cf, True)" "conf_placed cf"
    "cs_local c = Some l" "cn_rgmanager (cs_node c ! l) = 1" "cs_group c \<noteq> []"
    "F = group_names (is_foreign c cf l) (cs_group c)" "M = group_names (is_missing c cf l) (cs_group c)"
  shows "exit_code (check_clustat_main env os g) = Some (if F = [] \<and> M = [] then STATE_OK else STATE_WARNING)"
    and "\<exists>perf. exit_out (check_clustat_main env os g) =
      stdout g @ (if F = [] \<and> M = [] then ''OK - '' else ''WARNING - '') @ clustat_title c l @
      (if F = [] \<and> M = [] then [] else '':'') @ (if M = [] then [] else '' Missing '' @ join_with '', '' M) @
      (if F \<noteq> [] \<and> M \<noteq> [] then '' '' else []) @ (if F = [] then [] else '' Foreign '' @ join_with '', '' F) @ perf @ nl"
proof -
  have l: "l < length (cs_node c)" using assms(6,9) by (simp add: clustat_wf_def ref_ok_def)
  obtain k where k: "fold_opt (clustat_group_step c cf l) (cs_group c) counts0 = Some k"
    "buf_str (foreign_list k) = listed F" "buf_str (missing_list k) = listed M"
    using fold_groups [OF assms(8,6) subset_refl l] assms(12,13) by auto
  have "parse_rhcs_clustat (ce_xml env) (ce_parser env) t = Parsed c"
    "parse_rhcs_conf (ce_xml env) (ce_parser env) 0 t' = Parsed cf"
    using assms(5-8) by (simp_all add: parse_rhcs_clustat_def parse_rhcs_conf_def xml_feed_events fold_clustat_events fold_conf_events conf_placed_def)
  then have m: "check_clustat_main env os g = clustat_report c l k g"
    using assms k(1) by (simp add: check_clustat_main_def)
  obtain bf bm where b: "foreign_list k = (if F = [] then None else Some bf)" "cstr bf = join_with '', '' F"
    "missing_list k = (if M = [] then None else Some bm)" "cstr bm = join_with '', '' M"
    using listed_buf [OF k(2)] listed_buf [OF k(3)] by metis
  show "exit_code (check_clustat_main env os g) = Some (if F = [] \<and> M = [] then STATE_OK else STATE_WARNING)"
    by (simp add: m clustat_report_def Let_def b)
  show "\<exists>perf. exit_out (check_clustat_main env os g) =
      stdout g @ (if F = [] \<and> M = [] then ''OK - '' else ''WARNING - '') @ clustat_title c l @
      (if F = [] \<and> M = [] then [] else '':'') @ (if M = [] then [] else '' Missing '' @ join_with '', '' M) @
      (if F \<noteq> [] \<and> M \<noteq> [] then '' '' else []) @ (if F = [] then [] else '' Foreign '' @ join_with '', '' F) @ perf @ nl"
    by (rule exI [of _ "perf_out (if F = [] \<and> M = [] then ''| '' else '' | '') (clustat_perf c k g)"])
      (simp add: m clustat_report_def Let_def ok_report.report_text warning_report.report_text b)
qed


definition clustat_env_ex :: "bool clustat_env" where
  "clustat_env_ex = \<lparr>ce_euid = 1000, ce_setuid_ok = False, ce_spawn = (\<lambda>_. NoAccess), ce_fdopen_ok = False, ce_output = [],
     ce_waits = [], ce_files = [''clustat.xml'' \<mapsto> ''S'', ''cluster.conf'' \<mapsto> ''C''],
     ce_xml = (\<lambda>p block. (p, if block = ''S'' then clustat_events clustat_ex else conf_events conf_ex, True)), ce_parser = True\<rparr>"


interpretation clustat_options: plugin_options clustat_opt "\<lambda>_. True"
  by unfold_locales (simp_all add: clustat_opt_def)

end
