(* ===== verification/JSON_Utils.thy ===== *)
theory JSON_Utils
  imports Plugin
begin

text \<open>
  \<^verbatim>\<open>lib/json_utils.c\<close>: the wrappers around json-c, whose functions are parameters. The pointer to an object is an option.
  The source is compiled against the functions of the version of the library, which is a parameter too.
\<close>

datatype 'j json_result = JsonObject "'j option" | JsonError string | JsonCrash

text \<open>A member of an object: whether there is one of the name, and its value, where \<open>None\<close> is also the JSON null.\<close>

record 'j json_lib =
  json_version_num :: int
  json_tokener_parse :: "string option \<Rightarrow> 'j json_result"
  json_member :: "'j option \<Rightarrow> string \<Rightarrow> bool \<times> 'j option"
  json_members :: "'j option \<Rightarrow> (string \<times> 'j option) list"
  json_object_get_string :: "'j option \<Rightarrow> string option"
  json_object_get_int :: "'j option \<Rightarrow> int"
  json_object_get_boolean :: "'j option \<Rightarrow> bool"
  json_object_to_json_string :: "bool \<Rightarrow> 'j option \<Rightarrow> string"
  json_c_version :: string

definition verbose_api :: "'j json_lib \<Rightarrow> bool" where
  "verbose_api lib \<longleftrightarrow> \<not> json_version_num lib < 10 * 256"

definition mp_json_tokener_parse :: "'j json_lib \<Rightarrow> string option \<Rightarrow> mp_globals \<Rightarrow> mp_end + 'j option" where
  "mp_json_tokener_parse lib str g =
     (case json_tokener_parse lib str of
        JsonCrash \<Rightarrow> Inl Crash
      | JsonError d \<Rightarrow>
          Inl (if verbose_api lib then critical (''JSON Parsing failed: '' @ d) g else critical ''JSON Parsing failed!'' g)
      | JsonObject obj \<Rightarrow>
          if obj = None \<and> \<not> verbose_api lib then Inl (critical ''JSON Parsing failed!'' g) else Inr obj)"

text \<open>The old function cannot tell a missing member from a null one.\<close>

definition mp_json_object_object_get :: "'j json_lib \<Rightarrow> 'j option \<Rightarrow> string \<Rightarrow> bool \<times> 'j option" where
  "mp_json_object_object_get lib obj key =
     (case json_member lib obj key of
        (found, v) \<Rightarrow> if found then (verbose_api lib \<or> v \<noteq> None, v) else (False, None))"

definition mp_json_object_to_json_string :: "'j json_lib \<Rightarrow> 'j option \<Rightarrow> string" where
  "mp_json_object_to_json_string lib obj = json_object_to_json_string lib (verbose_api lib) obj"

definition print_revision_json :: "'j json_lib \<Rightarrow> string" where
  "print_revision_json lib = (if 10 * 256 < json_version_num lib then '' json-c v'' @ json_c_version lib @ nl else [])"

text \<open>A member that is found and not null is found with its value by every version; where no member is null the versions agree.\<close>

lemma json_get_some: "json_member lib obj key = (True, Some v) \<Longrightarrow> mp_json_object_object_get lib obj key = (True, Some v)"
  by (simp add: mp_json_object_object_get_def)

lemma json_get_missing: "json_member lib obj key = (False, v) \<Longrightarrow> mp_json_object_object_get lib obj key = (False, None)"
  by (simp add: mp_json_object_object_get_def)

lemma json_get_false: "mp_json_object_object_get lib obj key = (False, v) \<Longrightarrow> v = None"
  by (auto simp: mp_json_object_object_get_def split: prod.splits if_splits)

text \<open>A small instance of the library, for the examples: the parser returns a given document.\<close>

datatype json_value = JText string | JInt int | JObj "(string \<times> json_value) list"

definition json_ex :: "json_value \<Rightarrow> json_value json_lib" where
  "json_ex doc = \<lparr>json_version_num = 0x0d00, json_tokener_parse = (\<lambda>_. JsonObject (Some doc)),
     json_member = (\<lambda>obj key. case obj of Some (JObj ms) \<Rightarrow> (case map_of ms key of Some v \<Rightarrow> (True, Some v) | None \<Rightarrow> (False, None)) | _ \<Rightarrow> (False, None)),
     json_members = (\<lambda>obj. case obj of Some (JObj ms) \<Rightarrow> map (map_prod (\<lambda>k. k) Some) ms | _ \<Rightarrow> []),
     json_object_get_string = (\<lambda>obj. case obj of Some (JText t) \<Rightarrow> Some t | _ \<Rightarrow> None),
     json_object_get_int = (\<lambda>obj. case obj of Some (JInt n) \<Rightarrow> n | _ \<Rightarrow> 0),
     json_object_get_boolean = (\<lambda>obj. case obj of Some (JInt n) \<Rightarrow> n \<noteq> 0 | _ \<Rightarrow> False),
     json_object_to_json_string = (\<lambda>_ _. []), json_c_version = ''0.13''\<rparr>"

end
