(* ===== verification/FCGI_Utils.thy ===== *)
theory FCGI_Utils
  imports JSON_Utils
begin

unbundle bit_operations_syntax

text \<open>
  \<^verbatim>\<open>lib/fcgi_utils.c\<close>: connecting to a FastCGI server, parameters, records.

  The functions of libfcgi are parameters, the fields of \<open>fcgi_os\<close>. A connection is the text the server has sent
  and that is not read yet, and the text written to it. The number of bytes a read brings is at most what is
  there; the end of the text is the end of the connection.
\<close>

section \<open>Connection\<close>

record fcgi_os =
  os_connect :: "string option \<Rightarrow> int"
  os_write :: "string \<Rightarrow> int"
  os_read :: "string \<Rightarrow> int \<Rightarrow> int"
  fcgx_putstr :: "string \<Rightarrow> int"

record fcgi_conn =
  fc_in :: string
  fc_out :: string

definition FCGI_VERSION_1 :: int where "FCGI_VERSION_1 = 1"
definition FCGI_BEGIN_REQUEST :: int where "FCGI_BEGIN_REQUEST = 1"
definition FCGI_END_REQUEST :: int where "FCGI_END_REQUEST = 3"
definition FCGI_STDIN :: int where "FCGI_STDIN = 5"
definition FCGI_STDOUT :: int where "FCGI_STDOUT = 6"
definition FCGI_GET_VALUES :: int where "FCGI_GET_VALUES = 9"
definition FCGI_GET_VALUES_RESULT :: int where "FCGI_GET_VALUES_RESULT = 10"

definition mp_fcgi_connect :: "fcgi_os \<Rightarrow> string option \<Rightarrow> mp_globals \<Rightarrow> mp_end + int" where
  "mp_fcgi_connect os sname g =
     (let sock = os_connect os sname
      in if sock < 0 then Inl (critical (''FcgiConnect to '' @ [CHR 0x27] @ fmt_s sname @ [CHR 0x27] @ '' failed.'') g)
         else Inr sock)"

text \<open>\<open>OS_Write\<close> and \<open>OS_Read\<close>: the count and the connection afterwards; a read also gives the bytes.\<close>

definition conn_write :: "fcgi_os \<Rightarrow> string \<Rightarrow> fcgi_conn \<Rightarrow> int \<times> fcgi_conn" where
  "conn_write os buf s = (let n = os_write os buf in (n, s\<lparr>fc_out := fc_out s @ take (nat n) buf\<rparr>))"

definition conn_get :: "fcgi_os \<Rightarrow> int \<Rightarrow> fcgi_conn \<Rightarrow> int \<times> string \<times> fcgi_conn" where
  "conn_get os n s =
     (let k = os_read os (fc_in s) n; b = take (nat (min k n)) (fc_in s)
      in (if k < 0 then -1 else int (length b), b, s\<lparr>fc_in := drop (nat (min k n)) (fc_in s)\<rparr>))"

section \<open>Parameters\<close>

text \<open>The length of a name or a value: one byte below 128, else four bytes with the highest bit set.\<close>

definition kv_length :: "int \<Rightarrow> string" where
  "kv_length n =
     (if n < 0x80 then [byte n]
      else [byte (drop_bit 24 n OR 0x80), byte (drop_bit 16 n), byte (drop_bit 8 n), byte n])"

definition put_str :: "fcgi_os \<Rightarrow> string \<Rightarrow> string \<Rightarrow> string \<Rightarrow> string \<Rightarrow> string \<Rightarrow> mp_globals \<Rightarrow> mp_end + string" where
  "put_str os what key val str stream g =
     (if fcgx_putstr os str \<noteq> int (length str)
      then (let g = (if 0 < mp_verbose g
                     then mp_print (''Put '' @ what @ '' for '' @ [CHR 0x27] @ key @ [CHR 0x27] @ '' => '' @
                                    [CHR 0x27] @ val @ [CHR 0x27] @ nl) g else g)
            in Inl (critical ''FCGX_PutStr failed.'' g))
      else Inr (stream @ str))"

definition mp_fcgi_putkv :: "fcgi_os \<Rightarrow> string \<Rightarrow> string \<Rightarrow> string \<Rightarrow> mp_globals \<Rightarrow> mp_end + string" where
  "mp_fcgi_putkv os key val stream g =
     (case put_str os ''header'' key val
             (kv_length (to_int32 (int (length key))) @ kv_length (to_int32 (int (length val)))) stream g of
        Inl e \<Rightarrow> Inl e
      | Inr stream \<Rightarrow>
          (case put_str os ''key'' key val key stream g of
             Inl e \<Rightarrow> Inl e
           | Inr stream \<Rightarrow> put_str os ''value'' key val val stream g))"

section \<open>Records\<close>

definition fcgi_header :: "int \<Rightarrow> int \<Rightarrow> int \<Rightarrow> string" where
  "fcgi_header reqid rtype len =
     [byte FCGI_VERSION_1, byte rtype, byte (drop_bit 8 reqid), byte reqid, byte (drop_bit 8 len), byte len, byte 0, byte 0]"

definition mp_fcgi_write ::
    "fcgi_os \<Rightarrow> int \<Rightarrow> int \<Rightarrow> string \<Rightarrow> fcgi_conn \<Rightarrow> mp_globals \<Rightarrow> mp_end + (int \<times> fcgi_conn)" where
  "mp_fcgi_write os reqid rtype content s g =
     (case conn_write os (fcgi_header reqid rtype (int (length content))) s of
        (count, s) \<Rightarrow>
          if count \<noteq> 8 then Inl (unknown ''libfcgi OS_Write failed writing header.'' g)
          else (case conn_write os content s of
                  (count, s) \<Rightarrow>
                    if count \<noteq> int (length content) then Inl (unknown ''libfcgi OS_Write failed writing content.'' g)
                    else Inr (8 + int (length content), s)))"

text \<open>A buffer that is not terminated: the text up to the first NUL, none if the buffer has no NUL.\<close>

definition buffer_text :: "string \<Rightarrow> string option" where
  "buffer_text b = (if CHR 0x00 \<in> set b then Some (takeWhile (\<lambda>c. c \<noteq> CHR 0x00) b) else None)"

text \<open>
  Reading a record: its type, the length of the content and the buffer, which is NULL for an empty content. The
  header is read with the size of a pointer. The buffer holds the content, the padding and one byte that nothing
  writes (\<open>stale\<close>); the trace prints it as a string.
\<close>

definition fcgi_trace :: "string \<Rightarrow> int \<Rightarrow> string option \<Rightarrow> mp_globals \<Rightarrow> mp_end + mp_globals" where
  "fcgi_trace h len content g =
     (if 3 < mp_verbose g
      then (case (case content of None \<Rightarrow> Some [] | Some b \<Rightarrow> map_option (\<lambda>t. t @ nl) (buffer_text b)) of
              None \<Rightarrow> Inl Crash
            | Some t \<Rightarrow>
                Inr (mp_print
                  (help_lines [''-[ FCGI IN ]--------------------------------'', ''Version: '' @ fmt_d (ccode (h ! 0)),
                     ''Type:    '' @ fmt_d (ccode (h ! 1)), ''Length:  '' @ fmt_d len, ''Padding: '' @ fmt_d (ccode (h ! 6))] @
                   t @ help_lines [''--------------------------------------------'']) g))
      else Inr g)"

definition mp_fcgi_read ::
    "nat \<Rightarrow> char \<Rightarrow> fcgi_os \<Rightarrow> fcgi_conn \<Rightarrow> mp_globals \<Rightarrow> mp_end + (int \<times> string option \<times> fcgi_conn \<times> mp_globals)" where
  "mp_fcgi_read pointer_size stale os s g =
     (case conn_get os (int pointer_size) s of
        (count, h, s) \<Rightarrow>
          if count \<noteq> 8 then Inl (critical ''mp_fcgi_read failed reading fcgi header.'' g)
          else
            (let len = push_bit 8 (ccode (h ! 4)) + ccode (h ! 5); pad = ccode (h ! 6)
             in if 0 < len
                then (case conn_get os (len + pad) s of
                        (count, b, s) \<Rightarrow>
                          if count \<noteq> len + pad then Inl (critical ''mp_fcgi_read failed reading fcgi content.'' g)
                          else map_sum (\<lambda>e. e) (\<lambda>g. (ccode (h ! 1), Some (b @ [stale]), s, g)) (fcgi_trace h len (Some (b @ [stale])) g))
                else map_sum (\<lambda>e. e) (\<lambda>g. (ccode (h ! 1), None, s, g)) (fcgi_trace h len None g)))"

section \<open>check\_fcgi\_ping\<close>

definition check_fcgi_ping_globals :: mp_globals where
  "check_fcgi_ping_globals = mp_init ''check_fcgi_ping''
     (''[-t <timeout>]'')
     ''0.1'' ''Marius Rieder <marius.rieder@durchmesser.ch>'' ''2010''"

definition check_fcgi_ping_print_help :: "string \<Rightarrow> string \<Rightarrow> string" where
  "check_fcgi_ping_print_help package version =
     print_revision package version check_fcgi_ping_globals @
     print_copyright check_fcgi_ping_globals @
     help_lines
       [[],
        ''Check description: This plugin ping a fcgid.'',
        []] @
     print_usage check_fcgi_ping_globals @
     print_help_default @
     help_lines
       ['' -s, --socket=<SOCKET>'',
        ''      FastCGID socket to connect to.'']"

definition ping_opt :: "string option opt_handler" where
  "ping_opt c optarg fcgisocket g = Inr (if c = CHR ''s'' then Some optarg else fcgisocket)"

definition ping_process_arguments :: "(char \<times> string) list \<Rightarrow> mp_globals \<Rightarrow> mp_end + string option" where
  "ping_process_arguments opts g = run_opts ping_opt opts None g"

text \<open>A record is taken off the connection, so the loops end.\<close>

lemma conn_get_length: "conn_get os n s = (count, b, s') \<Longrightarrow> length (fc_in s') + length b = length (fc_in s)"
  by (auto simp: conn_get_def Let_def)

lemma fcgi_read_shorter:
  assumes "mp_fcgi_read ps stale os s g = Inr (t, b, s', g')"
  shows "length (fc_in s') < length (fc_in s)"
proof -
  obtain n h s1 where h: "conn_get os (int ps) s = (n, h, s1)" by (cases "conn_get os (int ps) s") auto
  with assms have "n = 8" by (auto simp: mp_fcgi_read_def split: if_splits)
  then have "length h = 8" using h by (auto simp: conn_get_def Let_def split: if_splits)
  moreover have "length (fc_in s') \<le> length (fc_in s1)"
    using assms conn_get_length [of os _ s1]
    by (fastforce simp: mp_fcgi_read_def h Let_def map_sum_def split: if_splits prod.splits sum.splits)
  ultimately show ?thesis using conn_get_length [OF h] by simp
qed

text \<open>The answer: \<open>content\<close> is freed after every record, and an empty record leaves the pointer as it is. The flag says
  that the pointer was freed before; freeing it again is undefined.\<close>

function ping_loop :: "nat \<Rightarrow> char \<Rightarrow> fcgi_os \<Rightarrow> bool \<Rightarrow> fcgi_conn \<Rightarrow> mp_globals \<Rightarrow> mp_end + mp_globals" where
  "ping_loop pointer_size stale os dangling s g =
     (case mp_fcgi_read pointer_size stale os s g of
        Inl e \<Rightarrow> Inl e
      | Inr (rtype, content, s', g') \<Rightarrow>
          if content = None \<and> dangling then Inl Crash
          else if rtype = FCGI_GET_VALUES_RESULT then Inr g'
          else ping_loop pointer_size stale os (content \<noteq> None) s' g')"
  by pat_completeness auto
termination
  by (relation "measure (\<lambda>(ps, st, os, d, s, g). length (fc_in s))") (auto dest: fcgi_read_shorter)

declare ping_loop.simps [simp del]

definition check_fcgi_ping_main ::
    "nat \<Rightarrow> char \<Rightarrow> fcgi_os \<Rightarrow> string \<Rightarrow> int \<times> int \<Rightarrow> int \<times> int \<Rightarrow> (char \<times> string) list \<Rightarrow> mp_globals \<Rightarrow> mp_end" where
  "check_fcgi_ping_main pointer_size stale os answer start stop opts g =
     (case ping_process_arguments opts g of
        Inl e \<Rightarrow> e
      | Inr fcgisocket \<Rightarrow>
          (case mp_fcgi_connect os fcgisocket g of
             Inl e \<Rightarrow> e
           | Inr sock \<Rightarrow>
               (case mp_fcgi_write os 0 FCGI_GET_VALUES [] \<lparr>fc_in = answer, fc_out = []\<rparr> g of
                  Inl e \<Rightarrow> e
                | Inr (n, s) \<Rightarrow>
                    (case ping_loop pointer_size stale os False s g of
                       Inl e \<Rightarrow> e
                     | Inr g \<Rightarrow>
                         let time_delta = mp_time_delta stop start;
                             g = snd (mp_perfdata_float ''time'' (fp_cast round_float time_delta) ''s'' None g)
                         in ok (''FCGI-Pong: '' @ fmt_s fcgisocket) g))))"

section \<open>check\_fcgi\_phpfpm\<close>

definition check_fcgi_phpfpm_globals :: mp_globals where
  "check_fcgi_phpfpm_globals = mp_init ''check_fcgi_phpfpm''
     (''[-t <timeout>]'')
     ''0.1'' ''Marius Rieder <marius.rieder@durchmesser.ch>'' ''2010''"

definition check_fcgi_phpfpm_print_help :: "'j json_lib \<Rightarrow> string \<Rightarrow> string \<Rightarrow> string" where
  "check_fcgi_phpfpm_print_help lib package version =
     print_revision package version check_fcgi_phpfpm_globals @
     print_revision_json lib @
     print_copyright check_fcgi_phpfpm_globals @
     help_lines
       [[],
        ''Check description: This plugin simulate a plugin timeout.'',
        []] @
     print_usage check_fcgi_phpfpm_globals @
     print_help_default @
     help_lines
       ['' -s, --socket=<SOCKET>'',
        ''      FastCGID socket to connect to.'',
        '' -q, --query=<QUERY>'',
        ''      Query string for the PHP-FPM status. (Default to: /status)'']"

record phpfpm_args =
  fcgisocket :: "string option"
  query :: string

definition phpfpm_opt :: "phpfpm_args opt_handler" where
  "phpfpm_opt c optarg a g =
     Inr (if c = CHR ''s'' then a\<lparr>fcgisocket := Some optarg\<rparr>
          else if c = CHR ''q'' then a\<lparr>query := optarg\<rparr> else a)"

text \<open>Without arguments the plugin prints its help and ends with OK.\<close>

definition phpfpm_process_arguments ::
    "nat \<Rightarrow> string \<Rightarrow> (char \<times> string) list \<Rightarrow> mp_globals \<Rightarrow> mp_end + phpfpm_args" where
  "phpfpm_process_arguments argc help opts g =
     (if argc < 2 then Inl (Exit STATE_OK (stdout g @ help))
      else run_opts phpfpm_opt opts \<lparr>fcgisocket = None, query = ''/status''\<rparr> g)"

definition phpfpm_params :: "fcgi_os \<Rightarrow> string \<Rightarrow> mp_globals \<Rightarrow> mp_end + string" where
  "phpfpm_params os q g =
     (case mp_fcgi_putkv os ''REQUEST_METHOD'' ''GET'' [] g of Inl e \<Rightarrow> Inl e | Inr st \<Rightarrow>
     (case mp_fcgi_putkv os ''SCRIPT_NAME'' q st g of Inl e \<Rightarrow> Inl e | Inr st \<Rightarrow>
     (case mp_fcgi_putkv os ''SCRIPT_FILENAME'' q st g of Inl e \<Rightarrow> Inl e | Inr st \<Rightarrow>
      mp_fcgi_putkv os ''QUERY_STRING'' ''json&'' st g)))"

definition begin_request :: string where
  "begin_request = [byte 0, byte 1, byte 0, byte 0, byte 0, byte 0, byte 0, byte 0]"

text \<open>The records up to the end of the request: \<open>data\<close> is the buffer of the last output record.\<close>

function phpfpm_loop ::
    "nat \<Rightarrow> char \<Rightarrow> fcgi_os \<Rightarrow> string option \<Rightarrow> fcgi_conn \<Rightarrow> mp_globals \<Rightarrow> mp_end + (string option \<times> mp_globals)" where
  "phpfpm_loop pointer_size stale os data s g =
     (case mp_fcgi_read pointer_size stale os s g of
        Inl e \<Rightarrow> Inl e
      | Inr (rtype, content, s', g') \<Rightarrow>
          (let data = (if rtype = FCGI_STDOUT then content else data)
           in if rtype = FCGI_END_REQUEST then Inr (data, g') else phpfpm_loop pointer_size stale os data s' g'))"
  by pat_completeness auto
termination
  by (relation "measure (\<lambda>(ps, st, os, d, s, g). length (fc_in s))") (auto dest: fcgi_read_shorter)

declare phpfpm_loop.simps [simp del]

text \<open>The lines of the header are skipped up to one that begins with a carriage return, or to the end.\<close>

function skip_headers :: "string \<Rightarrow> string option" where
  "skip_headers data =
     (case snd (strsep [newline] data) of
        None \<Rightarrow> None
      | Some rest \<Rightarrow> if rest \<noteq> [] \<and> hd rest = CHR 0x0D then Some rest else skip_headers rest)"
  by pat_completeness auto
termination
proof (relation "measure length")
  fix d rest :: string
  assume "snd (strsep [newline] d) = Some rest"
  then show "(rest, d) \<in> measure length"
    using strsep_Some_length [of "[newline]" d "fst (strsep [newline] d)" rest] by (simp add: prod_eq_iff)
qed simp

declare skip_headers.simps [simp del]

definition phpfpm_perf :: "'j json_lib \<Rightarrow> 'j option \<Rightarrow> mp_globals \<Rightarrow> mp_globals" where
  "phpfpm_perf lib obj g =
     (let p = (\<lambda>label key unit g. snd (mp_perfdata_int label
                 (json_object_get_int lib (snd (mp_json_object_object_get lib obj key))) unit None g));
          g = p ''accepted_conn'' ''accepted conn'' ''c'' g;
          g = p ''listen_queue'' ''listen queue'' [] g;
          g = p ''idle_processes'' ''idle processes'' [] g
      in p ''active_processes'' ''active processes'' [] g)"

text \<open>The answer as JSON: a buffer without a NUL is read past its end, and a missing pool name is a NULL pointer that
  \<open>mp_strdup\<close> reads.\<close>

definition phpfpm_report :: "'j json_lib \<Rightarrow> string option \<Rightarrow> mp_globals \<Rightarrow> mp_end" where
  "phpfpm_report lib data g =
     (case (case data of None \<Rightarrow> Some None | Some b \<Rightarrow> map_option skip_headers (buffer_text b)) of
        None \<Rightarrow> Crash
      | Some str \<Rightarrow>
          (case mp_json_tokener_parse lib str g of
             Inl e \<Rightarrow> e
           | Inr obj \<Rightarrow>
               (case json_object_get_string lib (snd (mp_json_object_object_get lib obj ''pool'')) of
                  None \<Rightarrow> Crash
                | Some pool \<Rightarrow> ok (''PHP-FPM: '' @ pool) (phpfpm_perf lib obj g))))"

definition check_fcgi_phpfpm_main ::
    "nat \<Rightarrow> char \<Rightarrow> fcgi_os \<Rightarrow> 'j json_lib \<Rightarrow> string \<Rightarrow> nat \<Rightarrow> string \<Rightarrow> (char \<times> string) list \<Rightarrow> mp_globals \<Rightarrow> mp_end" where
  "check_fcgi_phpfpm_main pointer_size stale os lib answer argc help opts g =
     (case phpfpm_process_arguments argc help opts g of Inl e \<Rightarrow> e | Inr a \<Rightarrow>
     (case mp_fcgi_connect os (fcgisocket a) g of Inl e \<Rightarrow> e | Inr sock \<Rightarrow>
     (case mp_fcgi_write os 42 FCGI_BEGIN_REQUEST begin_request \<lparr>fc_in = answer, fc_out = []\<rparr> g of Inl e \<Rightarrow> e | Inr (n, s) \<Rightarrow>
     (case phpfpm_params os (query a) g of Inl e \<Rightarrow> e | Inr params \<Rightarrow>
     (case mp_fcgi_write os 42 FCGI_STDIN [] s g of Inl e \<Rightarrow> e | Inr (n, s) \<Rightarrow>
     (case phpfpm_loop pointer_size stale os None s g of Inl e \<Rightarrow> e | Inr (data, g) \<Rightarrow> phpfpm_report lib data g))))))"

section \<open>Reading what was written\<close>

text \<open>The decoding of the FastCGI specification.\<close>

definition kv_length_decode :: "string \<Rightarrow> (int \<times> string) option" where
  "kv_length_decode s =
     (case s of
        [] \<Rightarrow> None
      | c # r \<Rightarrow>
          if ccode c < 128 then Some (ccode c, r)
          else (case r of
                  b2 # b1 # b0 # r \<Rightarrow> Some ((ccode c - 128) * 2 ^ 24 + ccode b2 * 2 ^ 16 + ccode b1 * 2 ^ 8 + ccode b0, r)
                | _ \<Rightarrow> None))"

definition kv_decode :: "string \<Rightarrow> ((string \<times> string) \<times> string) option" where
  "kv_decode s =
     (case kv_length_decode s of
        None \<Rightarrow> None
      | Some (k, s) \<Rightarrow>
          (case kv_length_decode s of
             None \<Rightarrow> None
           | Some (v, s) \<Rightarrow>
               if int (length s) < k + v then None
               else Some ((take (nat k) s, take (nat v) (drop (nat k) s)), drop (nat (k + v)) s)))"

text \<open>The calls of libfcgi do their work completely, as documented for a connection without errors.\<close>

definition fcgi_os_ok :: "fcgi_os \<Rightarrow> bool" where
  "fcgi_os_ok os \<longleftrightarrow> (\<forall>b. os_write os b = int (length b) \<and> fcgx_putstr os b = int (length b)) \<and>
     (\<forall>b n. os_read os b n = min n (int (length b)))"

lemma or_128: "0 \<le> n \<Longrightarrow> n < 128 \<Longrightarrow> n OR 128 = n + (128 :: int)"
proof -
  assume n: "0 \<le> n" "n < 128"
  have "n AND 128 = 0"
  proof (rule bit_eqI)
    fix i
    have "take_bit 7 n = n" using n by (simp add: take_bit_int_eq_self)
    then have "bit n i \<Longrightarrow> i < 7" by (metis bit_take_bit_iff)
    moreover have "bit (128 :: int) i \<Longrightarrow> i = 7" using bit_exp_iff [of 7 i] by auto
    ultimately show "bit (n AND 128) i = bit (0 :: int) i" by (auto simp: bit_and_iff)
  qed
  then show ?thesis using plus_and_or [of n 128] by simp
qed

lemma kv_length_roundtrip:
  assumes "0 \<le> n" "n < 2 ^ 31"
  shows "kv_length_decode (kv_length n @ rest) = Some (n, rest)"
proof (cases "n < 128")
  case True
  then show ?thesis using assms(1) by (simp add: kv_length_def kv_length_decode_def)
next
  case False
  have d: "drop_bit 24 n = n div 2 ^ 24" "drop_bit 16 n = n div 2 ^ 16" "drop_bit 8 n = n div 2 ^ 8"
    by (simp_all add: drop_bit_eq_div)
  have h: "0 \<le> n div 2 ^ 24" "n div 2 ^ 24 < 128" using assms by (simp_all add: div_less_iff_less_mult)
  then have "drop_bit 24 n OR 128 = n div 2 ^ 24 + 128" using or_128 d(1) by simp
  moreover have "(n div 2 ^ 24) * 2 ^ 24 + (n div 2 ^ 16) mod 256 * 2 ^ 16 + (n div 2 ^ 8) mod 256 * 2 ^ 8 + n mod 256 = n"
  proof -
    define a b where "a = n div 256" and "b = a div 256"
    have q: "n div 2 ^ 8 = a" "n div 2 ^ 16 = b" "n div 2 ^ 24 = b div 256"
      by (simp_all add: a_def b_def flip: zdiv_zmult2_eq)
    have "n = 256 * a + n mod 256" "a = 256 * b + a mod 256" "b = 256 * (b div 256) + b mod 256"
      by (simp_all add: a_def b_def)
    then show ?thesis unfolding q by (rule base256)
  qed
  ultimately show ?thesis
    using False h d by (simp add: kv_length_def kv_length_decode_def)
qed

text \<open>The parameters of a request. What \<open>mp_fcgi_putkv\<close> writes for a name and a value decodes to them again, by the
  decoding of the FastCGI specification, whatever follows in the stream.\<close>

theorem mp_fcgi_putkv_roundtrip:
  assumes "fcgi_os_ok os" "int (length key) < 2 ^ 31" "int (length val) < 2 ^ 31"
  shows "\<exists>e. mp_fcgi_putkv os key val stream g = Inr (stream @ e) \<and> kv_decode (e @ rest) = Some ((key, val), rest)"
proof -
  have l: "to_int32 (int (length key)) = int (length key)" "to_int32 (int (length val)) = int (length val)"
    using assms(2,3) by (simp_all add: to_int32_def)
  let ?e = "kv_length (int (length key)) @ kv_length (int (length val)) @ key @ val"
  have "mp_fcgi_putkv os key val stream g = Inr (stream @ ?e)"
    using assms(1) by (simp add: mp_fcgi_putkv_def put_str_def l fcgi_os_ok_def)
  moreover have "kv_decode (?e @ rest) = Some ((key, val), rest)"
    using assms(2,3) by (simp add: kv_decode_def kv_length_roundtrip nat_add_distrib)
  ultimately show ?thesis by blast
qed

definition fcgi_os_ex :: fcgi_os where
  "fcgi_os_ex = \<lparr>os_connect = (\<lambda>_. 3), os_write = (\<lambda>b. int (length b)), os_read = (\<lambda>b n. min n (int (length b))),
     fcgx_putstr = (\<lambda>b. int (length b))\<rparr>"

lemma fcgi_os_ex_ok: "fcgi_os_ok fcgi_os_ex"
  by (simp add: fcgi_os_ok_def fcgi_os_ex_def)

theorem mp_fcgi_putkv_roundtrip_witness:
  "\<exists>e. mp_fcgi_putkv fcgi_os_ex ''QUERY_STRING'' ''json&'' [] check_fcgi_ping_globals = Inr e \<and>
     kv_decode (e @ ''x'') = Some ((''QUERY_STRING'', ''json&''), ''x'')"
  using mp_fcgi_putkv_roundtrip [OF fcgi_os_ex_ok, of "''QUERY_STRING''" "''json&''" "[]" check_fcgi_ping_globals "''x''"] by simp

text \<open>A record on the wire, and the reading of it.\<close>

definition wire :: "int \<Rightarrow> int \<times> string \<Rightarrow> string" where
  "wire reqid rec = fcgi_header reqid (fst rec) (int (length (snd rec))) @ snd rec"

definition record_ok :: "int \<times> string \<Rightarrow> bool" where
  "record_ok rec \<longleftrightarrow> 0 \<le> fst rec \<and> fst rec < 256 \<and> length (snd rec) < 65536"

definition content_buf :: "char \<Rightarrow> string \<Rightarrow> string option" where
  "content_buf stale c = (if c = [] then None else Some (c @ [stale]))"

lemma fcgi_header_bytes:
  "length (fcgi_header i t n) = 8" "ccode (fcgi_header i t n ! 1) = t mod 256" "ccode (fcgi_header i t n ! 6) = 0"
  "0 \<le> n \<Longrightarrow> n < 65536 \<Longrightarrow> push_bit 8 (ccode (fcgi_header i t n ! 4)) + ccode (fcgi_header i t n ! 5) = n"
proof -
  show "0 \<le> n \<Longrightarrow> n < 65536 \<Longrightarrow> push_bit 8 (ccode (fcgi_header i t n ! 4)) + ccode (fcgi_header i t n ! 5) = n"
    by (simp add: fcgi_header_def drop_bit_eq_div push_bit_eq_mult)
qed (simp_all add: fcgi_header_def)

lemma conn_get_prefix:
  assumes "fcgi_os_ok os"
  shows "conn_get os (int (length b)) (s\<lparr>fc_in := b @ rest\<rparr>) = (int (length b), b, s\<lparr>fc_in := rest\<rparr>)"
  using assms by (simp add: conn_get_def fcgi_os_ok_def Let_def min_def)

lemma fcgi_read_wire:
  assumes "fcgi_os_ok os" "record_ok (t, c)" "mp_verbose g \<le> 3"
  shows "mp_fcgi_read 8 stale os (s\<lparr>fc_in := wire i (t, c) @ rest\<rparr>) g = Inr (t, content_buf stale c, s\<lparr>fc_in := rest\<rparr>, g)"
proof -
  let ?h = "fcgi_header i t (int (length c))"
  have "conn_get os 8 (s\<lparr>fc_in := wire i (t, c) @ rest\<rparr>) = (8, ?h, s\<lparr>fc_in := c @ rest\<rparr>)"
    using conn_get_prefix [OF assms(1), where b = ?h and s = s and rest = "c @ rest"] by (simp add: wire_def fcgi_header_bytes)
  then show ?thesis
    using assms conn_get_prefix [OF assms(1), where b = c and s = s and rest = rest] fcgi_header_bytes [where i = i and t = t and n = "int (length c)"]
    by (cases "c = []") (simp_all add: Let_def mp_fcgi_read_def fcgi_trace_def content_buf_def record_ok_def)
qed

text \<open>C25: Records. On a 64 bit system \<open>mp_fcgi_read\<close> reads back the type and the content of a record that
  \<open>mp_fcgi_write\<close> wrote, followed by the one byte that is not initialised, and leaves the rest of the connection.\<close>

theorem mp_fcgi_record_roundtrip:
  assumes "fcgi_os_ok os" "record_ok (t, c)" "mp_verbose g \<le> 3"
  shows "\<exists>w. mp_fcgi_write os i t c s g = Inr (8 + int (length c), s\<lparr>fc_out := fc_out s @ w\<rparr>) \<and>
    mp_fcgi_read 8 stale os (s'\<lparr>fc_in := w @ rest\<rparr>) g = Inr (t, content_buf stale c, s'\<lparr>fc_in := rest\<rparr>, g)"
proof (intro exI conjI)
  show "mp_fcgi_write os i t c s g = Inr (8 + int (length c), s\<lparr>fc_out := fc_out s @ wire i (t, c)\<rparr>)"
    using assms(1) by (simp add: mp_fcgi_write_def conn_write_def fcgi_os_ok_def wire_def fcgi_header_bytes(1))
  show "mp_fcgi_read 8 stale os (s'\<lparr>fc_in := wire i (t, c) @ rest\<rparr>) g = Inr (t, content_buf stale c, s'\<lparr>fc_in := rest\<rparr>, g)"
    using assms by (rule fcgi_read_wire)
qed

theorem mp_fcgi_record_roundtrip_witness:
  "\<exists>w. mp_fcgi_write fcgi_os_ex 42 FCGI_STDOUT ''hello'' \<lparr>fc_in = [], fc_out = []\<rparr> check_fcgi_ping_globals = Inr (13, \<lparr>fc_in = [], fc_out = w\<rparr>) \<and>
    mp_fcgi_read 8 (CHR 0x7F) fcgi_os_ex \<lparr>fc_in = w, fc_out = []\<rparr> check_fcgi_ping_globals =
      Inr (FCGI_STDOUT, Some (''hello'' @ [CHR 0x7F]), \<lparr>fc_in = [], fc_out = []\<rparr>, check_fcgi_ping_globals)"
proof -
  have "mp_verbose check_fcgi_ping_globals \<le> 3" by (simp add: check_fcgi_ping_globals_def mp_init_def)
  then show ?thesis
    using mp_fcgi_record_roundtrip [OF fcgi_os_ex_ok, where t = FCGI_STDOUT and c = "''hello''" and g = check_fcgi_ping_globals and i = 42 and
        s = "\<lparr>fc_in = [], fc_out = []\<rparr>" and stale = "CHR 0x7F" and s' = "\<lparr>fc_in = [], fc_out = []\<rparr>" and rest = "[]"]
    by (simp add: record_ok_def FCGI_STDOUT_def content_buf_def)
qed

text \<open>The answer of a server as a list of records.\<close>

definition wires :: "(int \<times> string) list \<Rightarrow> string" where
  "wires rs = concat (map (wire 0) rs)"

text \<open>A record without content comes directly after one with content.\<close>

definition empty_after_content :: "string list \<Rightarrow> bool" where
  "empty_after_content cs \<longleftrightarrow> (\<exists>i. Suc i < length cs \<and> cs ! i \<noteq> [] \<and> cs ! Suc i = [])"

lemma empty_after_content_simps [simp]:
  "\<not> empty_after_content []" "\<not> empty_after_content [c]"
  "empty_after_content (c # d # cs) \<longleftrightarrow> c \<noteq> [] \<and> d = [] \<or> empty_after_content (d # cs)"
proof -
  show "empty_after_content (c # d # cs) \<longleftrightarrow> c \<noteq> [] \<and> d = [] \<or> empty_after_content (d # cs)" (is "?l \<longleftrightarrow> ?r")
  proof
    assume ?l
    then obtain i where "Suc i < length (c # d # cs)" "(c # d # cs) ! i \<noteq> []" "(c # d # cs) ! Suc i = []"
      by (auto simp: empty_after_content_def)
    then show ?r by (cases i) (auto simp: empty_after_content_def)
  next
    assume ?r
    then show ?l
    proof
      assume "c \<noteq> [] \<and> d = []"
      then show ?l by (auto simp: empty_after_content_def intro!: exI [of _ 0])
    next
      assume "empty_after_content (d # cs)"
      then obtain i where "Suc i < length (d # cs)" "(d # cs) ! i \<noteq> []" "(d # cs) ! Suc i = []"
        by (auto simp: empty_after_content_def)
      then show ?l by (auto simp: empty_after_content_def intro!: exI [of _ "Suc i"])
    qed
  qed
qed (simp_all add: empty_after_content_def)

lemma ping_loop_records:
  assumes "fcgi_os_ok os" "mp_verbose g \<le> 3" "list_all record_ok (rs @ [(FCGI_GET_VALUES_RESULT, c)])"
    "list_all (\<lambda>r. fst r \<noteq> FCGI_GET_VALUES_RESULT) rs"
  shows "ping_loop 8 stale os (p \<noteq> []) (s\<lparr>fc_in := wires (rs @ [(FCGI_GET_VALUES_RESULT, c)]) @ rest\<rparr>) g =
    (if empty_after_content (p # map snd rs @ [c]) then Inl Crash else Inr g)"
  using assms(3,4)
proof (induction rs arbitrary: p)
  case Nil
  then show ?case
    using fcgi_read_wire [OF assms(1) _ assms(2), where t = FCGI_GET_VALUES_RESULT and c = c and s = s and i = 0 and rest = rest]
    by (simp add: wires_def ping_loop.simps content_buf_def)
next
  case (Cons r rs)
  obtain t b where r: "r = (t, b)" by (cases r)
  have step: "mp_fcgi_read 8 stale os (s\<lparr>fc_in := wires ((r # rs) @ [(FCGI_GET_VALUES_RESULT, c)]) @ rest\<rparr>) g =
      Inr (t, content_buf stale b, s\<lparr>fc_in := wires (rs @ [(FCGI_GET_VALUES_RESULT, c)]) @ rest\<rparr>, g)"
    using fcgi_read_wire [OF assms(1) _ assms(2), where t = t and c = b] Cons.prems(1) by (simp add: wires_def r)
  have n: "content_buf stale b = None \<longleftrightarrow> b = []" by (simp add: content_buf_def)
  show ?case
    unfolding ping_loop.simps [of 8 stale os "p \<noteq> []"] step
    using Cons.prems Cons.IH [of b] by (simp add: r n)
qed

lemma check_fcgi_ping_result_cases:
  assumes "fcgi_os_ok os" "mp_verbose g \<le> 3" "list_all record_ok (rs @ [(FCGI_GET_VALUES_RESULT, c)])"
    "list_all (\<lambda>r. fst r \<noteq> FCGI_GET_VALUES_RESULT) rs" "ping_process_arguments opts g = Inr sname" "0 \<le> os_connect os sname"
  shows "check_fcgi_ping_main 8 stale os (wires (rs @ [(FCGI_GET_VALUES_RESULT, c)])) start stop opts g = Crash \<longleftrightarrow>
      empty_after_content (map snd rs @ [c])" (is "?main = Crash \<longleftrightarrow> ?reuse")
    and "\<not> empty_after_content (map snd rs @ [c]) \<Longrightarrow>
      exit_code (check_fcgi_ping_main 8 stale os (wires (rs @ [(FCGI_GET_VALUES_RESULT, c)])) start stop opts g) = Some STATE_OK"
proof -
  have w: "mp_fcgi_write os 0 FCGI_GET_VALUES [] \<lparr>fc_in = a, fc_out = []\<rparr> g =
      Inr (8, \<lparr>fc_in = a, fc_out = wire 0 (FCGI_GET_VALUES, [])\<rparr>)" for a
    using assms(1) by (simp add: mp_fcgi_write_def conn_write_def fcgi_os_ok_def wire_def fcgi_header_bytes(1))
  have e: "empty_after_content ([] # cs) \<longleftrightarrow> empty_after_content cs" for cs by (cases cs) simp_all
  have "ping_loop 8 stale os False \<lparr>fc_in = wires (rs @ [(FCGI_GET_VALUES_RESULT, c)]), fc_out = wire 0 (FCGI_GET_VALUES, [])\<rparr> g =
      (if ?reuse then Inl Crash else Inr g)"
    using ping_loop_records [OF assms(1-4), where p = "[]" and s = "\<lparr>fc_in = [], fc_out = wire 0 (FCGI_GET_VALUES, [])\<rparr>" and rest = "[]"]
    by (simp add: e)
  then have m: "?main = (if ?reuse then Crash
      else ok (''FCGI-Pong: '' @ fmt_s sname)
        (snd (mp_perfdata_float ''time'' (fp_cast round_float (mp_time_delta stop start)) ''s'' None g)))"
    using assms(5,6) by (simp add: check_fcgi_ping_main_def mp_fcgi_connect_def w Let_def)
  show "?main = Crash \<longleftrightarrow> ?reuse" using m by (simp add: ok_def)
  show "\<not> empty_after_content (map snd rs @ [c]) \<Longrightarrow> exit_code ?main = Some STATE_OK" using m by simp
qed



text \<open>The loop of \<open>check_fcgi_phpfpm\<close> keeps the buffer of the last output record only. A server that ends its output
  with an empty record, as the specification of FastCGI demands, therefore hands a NULL pointer to the JSON parser,
  whatever it sent before.\<close>

lemma phpfpm_loop_records:
  assumes "fcgi_os_ok os" "mp_verbose g \<le> 3" "list_all record_ok (rs @ [(FCGI_END_REQUEST, c)])"
    "list_all (\<lambda>r. fst r \<noteq> FCGI_END_REQUEST) rs"
  shows "phpfpm_loop 8 stale os d (s\<lparr>fc_in := wires (rs @ [(FCGI_END_REQUEST, c)]) @ rest\<rparr>) g =
    Inr (fold (\<lambda>r d. if fst r = FCGI_STDOUT then content_buf stale (snd r) else d) rs d, g)"
  using assms(3,4)
proof (induction rs arbitrary: d)
  case Nil
  then show ?case
    using fcgi_read_wire [OF assms(1) _ assms(2), where t = FCGI_END_REQUEST and c = c and s = s and i = 0 and rest = rest]
    by (simp add: wires_def phpfpm_loop.simps FCGI_END_REQUEST_def FCGI_STDOUT_def)
next
  case (Cons r rs)
  obtain t b where r: "r = (t, b)" by (cases r)
  have step: "mp_fcgi_read 8 stale os (s\<lparr>fc_in := wires ((r # rs) @ [(FCGI_END_REQUEST, c)]) @ rest\<rparr>) g =
      Inr (t, content_buf stale b, s\<lparr>fc_in := wires (rs @ [(FCGI_END_REQUEST, c)]) @ rest\<rparr>, g)"
    using fcgi_read_wire [OF assms(1) _ assms(2), where t = t and c = b] Cons.prems(1) by (simp add: wires_def r)
  show ?case
    unfolding phpfpm_loop.simps [of 8 stale os d] step
    using Cons.prems Cons.IH by (simp add: r Let_def)
qed

theorem phpfpm_empty_output:
  assumes "fcgi_os_ok os" "mp_verbose g \<le> 3"
    "list_all record_ok (rs @ [(FCGI_STDOUT, []), (FCGI_END_REQUEST, c)])" "list_all (\<lambda>r. fst r \<noteq> FCGI_END_REQUEST) rs"
  shows "phpfpm_loop 8 stale os d (s\<lparr>fc_in := wires (rs @ [(FCGI_STDOUT, []), (FCGI_END_REQUEST, c)])\<rparr>) g = Inr (None, g)"
  using phpfpm_loop_records [OF assms(1,2), where rs = "rs @ [(FCGI_STDOUT, [])]" and c = c and rest = "[]"] assms(3,4)
  by (simp add: content_buf_def FCGI_STDOUT_def FCGI_END_REQUEST_def)

interpretation ping_options: plugin_options ping_opt "\<lambda>_. True"
  by unfold_locales (simp_all add: ping_opt_def)

interpretation phpfpm_options: plugin_options phpfpm_opt "\<lambda>_. True"
  by unfold_locales (simp_all add: phpfpm_opt_def)

end
