(* ===== verification/SNMP_Utils.thy ===== *)
theory SNMP_Utils
  imports Plugin "HOL-Library.List_Lexorder" "HOL-Library.Sublist"
begin

text \<open>
  \<^verbatim>\<open>lib/snmp_utils.c\<close>: options, sessions, queries and the walk over a subtree.

  The Net-SNMP library is a parameter, the record \<open>snmp_lib\<close>: sending a request to the agent (which has a state of
  its own), comparing object identifiers, repairing a request, reading an identifier. What the code relies on of it
  is stated as hypotheses of the theorems. The loops of the source are bounded by the answers of the agent only, so
  they take fuel; \<open>None\<close> is running out of it.
\<close>

section \<open>Data\<close>

type_synonym oid = "int list"

definition ASN_INTEGER :: int where "ASN_INTEGER = 0x02"
definition ASN_OCTET_STR :: int where "ASN_OCTET_STR = 0x04"
definition ASN_COUNTER :: int where "ASN_COUNTER = 0x41"
definition ASN_GAUGE :: int where "ASN_GAUGE = 0x42"
definition ASN_TIMETICKS :: int where "ASN_TIMETICKS = 0x43"
definition SNMP_NOSUCHOBJECT :: int where "SNMP_NOSUCHOBJECT = 0x80"
definition SNMP_NOSUCHINSTANCE :: int where "SNMP_NOSUCHINSTANCE = 0x81"
definition SNMP_ENDOFMIBVIEW :: int where "SNMP_ENDOFMIBVIEW = 0x82"

definition STAT_SUCCESS :: int where "STAT_SUCCESS = 0"
definition STAT_ERROR :: int where "STAT_ERROR = 1"
definition STAT_TIMEOUT :: int where "STAT_TIMEOUT = 2"
definition SNMP_ERR_NOERROR :: int where "SNMP_ERR_NOERROR = 0"
definition SNMP_ERR_NOSUCHNAME :: int where "SNMP_ERR_NOSUCHNAME = 2"

definition SNMP_VERSION_1 :: int where "SNMP_VERSION_1 = 0"
definition SNMP_VERSION_2c :: int where "SNMP_VERSION_2c = 1"
definition SNMP_VERSION_3 :: int where "SNMP_VERSION_3 = 3"

lemmas snmp_consts = ASN_INTEGER_def ASN_OCTET_STR_def ASN_COUNTER_def ASN_GAUGE_def ASN_TIMETICKS_def
  SNMP_NOSUCHOBJECT_def SNMP_NOSUCHINSTANCE_def SNMP_ENDOFMIBVIEW_def STAT_SUCCESS_def STAT_ERROR_def STAT_TIMEOUT_def
  SNMP_ERR_NOERROR_def SNMP_ERR_NOSUCHNAME_def SNMP_VERSION_1_def SNMP_VERSION_2c_def SNMP_VERSION_3_def

text \<open>A variable: its name, type and value; the length of the value is that of the \<open>long\<close> or of the text.\<close>

record snmp_var =
  v_name :: oid
  v_type :: int
  v_int :: int
  v_str :: string
  v_len :: nat

record snmp_pdu =
  p_errstat :: int
  p_errindex :: int
  p_vars :: "snmp_var list"

datatype snmp_req = Get "oid list" | GetNext oid | GetBulk nat nat oid

record 's snmp_lib =
  snmp_synch_response :: "'s \<Rightarrow> snmp_req \<Rightarrow> int \<times> snmp_pdu option \<times> 's"
  snmp_oid_compare :: "oid \<Rightarrow> oid \<Rightarrow> int"
  snmp_oidtree_compare :: "oid \<Rightarrow> oid \<Rightarrow> int"
  snmp_fix_pdu :: "snmp_pdu \<Rightarrow> oid list option"
  read_objid :: "string \<Rightarrow> oid option"
  print_variable :: "snmp_var \<Rightarrow> string"
  snprint_objid :: "oid \<Rightarrow> string"
  generate_Ku :: "oid \<Rightarrow> string \<Rightarrow> string option"
  snmp_open_ok :: bool
  snmp_error :: "'s \<Rightarrow> string"
  netsnmp_version :: string

section \<open>Options and session\<close>

record snmp_args =
  mp_snmp_community :: "string option"
  mp_snmp_version :: int
  mp_snmp_seclevel :: int
  mp_snmp_secname :: "string option"
  mp_snmp_context :: string
  mp_snmp_authpass :: "string option"
  mp_snmp_authproto :: "oid option"
  mp_snmp_privpass :: "string option"
  mp_snmp_timeout :: int
  mp_snmp_retries :: int

definition snmp_args0 :: snmp_args where
  "snmp_args0 = \<lparr>mp_snmp_community = None, mp_snmp_version = SNMP_VERSION_2c, mp_snmp_seclevel = 0, mp_snmp_secname = None,
     mp_snmp_context = [], mp_snmp_authpass = None, mp_snmp_authproto = None, mp_snmp_privpass = None, mp_snmp_timeout = 0,
     mp_snmp_retries = 0\<rparr>"

text \<open>The identifiers of the two authentication protocols, constants of Net-SNMP.\<close>

definition usmHMACMD5AuthProtocol :: oid where "usmHMACMD5AuthProtocol = [1, 3, 6, 1, 6, 3, 10, 1, 1, 2]"
definition usmHMACSHA1AuthProtocol :: oid where "usmHMACSHA1AuthProtocol = [1, 3, 6, 1, 6, 3, 10, 1, 1, 3]"

definition getopt_snmp :: "snmp_args opt_handler" where
  "getopt_snmp c optarg a g =
     (if c = CHR ''C'' then Inr (a\<lparr>mp_snmp_community := Some optarg\<rparr>)
      else if c = CHR ''S'' then
        (let v = to_int32 (strtol 10 optarg)
         in if v = 1 then Inr (a\<lparr>mp_snmp_version := SNMP_VERSION_1\<rparr>)
            else if v = 2 then Inr (a\<lparr>mp_snmp_version := SNMP_VERSION_2c\<rparr>)
            else if v = 3 then Inr (a\<lparr>mp_snmp_version := SNMP_VERSION_3\<rparr>)
            else Inl (usage (''Illegal SNMP version '' @ quoted optarg) g))
      else if c = CHR ''L'' then
        (if strncmp_eq ''noAuthNoPriv'' optarg 12 then Inr (a\<lparr>mp_snmp_seclevel := 1\<rparr>)
         else if strncmp_eq ''authNoPriv'' optarg 10 then Inr (a\<lparr>mp_snmp_seclevel := 2\<rparr>)
         else if strncmp_eq ''authPriv'' optarg 8 then Inr (a\<lparr>mp_snmp_seclevel := 3\<rparr>)
         else Inl (usage (''Illegal snmp security level '' @ quoted optarg @ ''.'') g))
      else if c = CHR ''U'' then Inr (a\<lparr>mp_snmp_secname := Some optarg\<rparr>)
      else if c = CHR ''K'' then Inr (a\<lparr>mp_snmp_context := optarg\<rparr>)
      else if c = CHR ''A'' then Inr (a\<lparr>mp_snmp_authpass := Some optarg\<rparr>)
      else if c = CHR ''a'' then
        (if strncmp_eq ''MD5'' optarg 3 then Inr (a\<lparr>mp_snmp_authproto := Some usmHMACMD5AuthProtocol\<rparr>)
         else if strncmp_eq ''SHA1'' optarg 4 then Inr (a\<lparr>mp_snmp_authproto := Some usmHMACSHA1AuthProtocol\<rparr>)
         else Inl (usage (''Illegal snmp auth protocoll '' @ quoted optarg @ ''.'') g))
      else if c = CHR ''X'' then Inr (a\<lparr>mp_snmp_privpass := Some optarg\<rparr>)
      else if c = CHR ''T'' then Inr (a\<lparr>mp_snmp_timeout := to_int32 (strtol 10 optarg)\<rparr>)
      else if c = CHR ''R'' then Inr (a\<lparr>mp_snmp_retries := to_int32 (strtol 10 optarg)\<rparr>)
      else Inr a)"

record snmp_session =
  ss_peername :: string
  ss_version :: int
  ss_community :: "string option"
  ss_secname :: "string option"
  ss_seclevel :: "int option"
  ss_context :: "string option"
  ss_authkey :: "string option"
  ss_retries :: "int option"
  ss_timeout :: "int option"

text \<open>The session: \<open>None\<close> in a field that keeps the default of the library. A missing name or password of version 3 is a
  NULL pointer; a failure of the library ends the process with 1.\<close>

definition mp_snmp_init :: "'s snmp_lib \<Rightarrow> snmp_args \<Rightarrow> string option \<Rightarrow> int \<Rightarrow> mp_globals \<Rightarrow> mp_end + snmp_session" where
  "mp_snmp_init lib a hostname port g =
     (let community = (case mp_snmp_community a of None \<Rightarrow> ''public'' | Some c \<Rightarrow> c);
          session = \<lparr>ss_peername = fmt_s hostname @ '':'' @ fmt_d port, ss_version = mp_snmp_version a, ss_community = None,
            ss_secname = None, ss_seclevel = None, ss_context = None, ss_authkey = None, ss_retries = None, ss_timeout = None\<rparr>
      in case (if mp_snmp_version a = SNMP_VERSION_1 \<or> mp_snmp_version a = SNMP_VERSION_2c
               then Inr (session\<lparr>ss_community := Some community\<rparr>)
               else if mp_snmp_version a = SNMP_VERSION_3 then
                 (case (mp_snmp_secname a, mp_snmp_authpass a, mp_snmp_authproto a) of
                    (Some name, Some pass, proto) \<Rightarrow>
                      (case generate_Ku lib (case proto of None \<Rightarrow> [] | Some p \<Rightarrow> p) pass of
                         None \<Rightarrow> Inl (Exit 1 (stdout g))
                       | Some k \<Rightarrow> Inr (session\<lparr>ss_secname := Some name, ss_seclevel := Some (mp_snmp_seclevel a),
                                              ss_context := Some (mp_snmp_context a), ss_authkey := Some k\<rparr>))
                  | _ \<Rightarrow> Inl Crash)
               else Inr session) of
           Inl e \<Rightarrow> Inl e
         | Inr session \<Rightarrow>
             if \<not> snmp_open_ok lib then Inl (Exit 1 (stdout g))
             else Inr (session\<lparr>ss_retries := (if 0 < mp_snmp_retries a then Some (mp_snmp_retries a) else None),
                              ss_timeout := (if 0 < mp_snmp_timeout a then Some (mp_snmp_timeout a * 1000000) else None)\<rparr>))"

section \<open>Values\<close>

datatype snmp_value = SLong int | SText string

definition fmt_X :: "int \<Rightarrow> string" where
  "fmt_X x = base_str 16 (to_uint32 x)"

definition size_mismatch :: "nat \<Rightarrow> nat \<Rightarrow> mp_globals \<Rightarrow> mp_globals" where
  "size_mismatch have need g =
     (if 1 < mp_verbose g
      then mp_print (''TARGET size mismatch: provided storage to small (have '' @ fmt_d (int have) @ '', need '' @ fmt_d (int need) @
                     '')'' @ nl) g else g)"

definition is_long_type :: "int \<Rightarrow> bool" where
  "is_long_type t \<longleftrightarrow> t = ASN_INTEGER \<or> t = ASN_COUNTER \<or> t = ASN_GAUGE \<or> t = ASN_TIMETICKS"

text \<open>\<open>copy_value\<close>: the value stored through the pointer, \<open>None\<close> for the result 0. A text ends at its first NUL for
  every reader of the target.\<close>

definition copy_value :: "snmp_var \<Rightarrow> int \<Rightarrow> nat \<Rightarrow> mp_globals \<Rightarrow> snmp_value option \<times> mp_globals" where
  "copy_value var t target_len g =
     (if v_type var \<noteq> t
      then (None, if 1 < mp_verbose g
                  then mp_print (''TYPE Mismatch: 0x'' @ fmt_X (v_type var) @ '' ~ 0x'' @ fmt_X t @ nl) g else g)
      else if is_long_type t then
        (if target_len < v_len var then (None, size_mismatch target_len (v_len var) g) else (Some (SLong (v_int var)), g))
      else if t = ASN_OCTET_STR then
        (if 0 < target_len \<and> target_len < v_len var + 1 then (None, size_mismatch target_len (v_len var) g)
         else (Some (SText (takeWhile (\<lambda>c. c \<noteq> CHR 0x00) (v_str var))), g))
      else (None, mp_print (''TYPE Mismatch: unexpected type 0x'' @ fmt_X t @ nl) g))"

section \<open>Queries\<close>

text \<open>The targets of a query: the value stored for each entry of the query, if any.\<close>

type_synonym targets = "nat \<rightharpoonup> snmp_value"

record snmp_query_cmd =
  q_oid :: oid
  q_type :: int
  q_len :: nat

definition no_such :: "int \<Rightarrow> bool" where
  "no_such t \<longleftrightarrow> t = SNMP_NOSUCHOBJECT \<or> t = SNMP_NOSUCHINSTANCE \<or> t = SNMP_ENDOFMIBVIEW"

fun match_cmd :: "'s snmp_lib \<Rightarrow> snmp_var \<Rightarrow> nat \<Rightarrow> snmp_query_cmd list \<Rightarrow> (nat \<times> snmp_query_cmd) option" where
  "match_cmd lib var i [] = None"
| "match_cmd lib var i (q # qs) =
     (if snmp_oid_compare lib (v_name var) (q_oid q) = 0 then Some (i, q) else match_cmd lib var (Suc i) qs)"

definition store_var :: "snmp_var \<Rightarrow> nat \<times> snmp_query_cmd \<Rightarrow> targets \<times> mp_globals \<Rightarrow> targets \<times> mp_globals" where
  "store_var var iq tg =
     (case (iq, tg) of ((i, q), (ts, g)) \<Rightarrow>
        (case copy_value var (q_type q) (q_len q) g of
           (None, g) \<Rightarrow> (ts, g)
         | (Some v, g) \<Rightarrow> (ts(i \<mapsto> v), g)))"

definition query_var :: "'s snmp_lib \<Rightarrow> snmp_query_cmd list \<Rightarrow> snmp_var \<Rightarrow> targets \<times> mp_globals \<Rightarrow> targets \<times> mp_globals" where
  "query_var lib cmds var tg =
     (case tg of (ts, g) \<Rightarrow>
        let g = (if 1 < mp_verbose g then mp_print (print_variable lib var) g else g)
        in if no_such (v_type var) then (ts, g)
           else (case match_cmd lib var 0 cmds of None \<Rightarrow> (ts, g) | Some iq \<Rightarrow> store_var var iq (ts, g)))"

text \<open>
  Sending a request until the agent accepts it: the result is the status and the accepted response. A request without a
  response is an error, also when the library reports a timeout.
\<close>

datatype sent = NoResponse | Refused int | Accepted snmp_pdu

fun snmp_send :: "nat \<Rightarrow> 's snmp_lib \<Rightarrow> oid list \<Rightarrow> 's \<Rightarrow> bool \<Rightarrow> mp_globals \<Rightarrow> (sent \<times> 's \<times> mp_globals) option" where
  "snmp_send 0 lib oids s trace g = None"
| "snmp_send (Suc n) lib oids s trace g =
     (case snmp_synch_response lib s (Get oids) of
        (status, response, s) \<Rightarrow>
          let g = (if 3 < mp_verbose g
                   then mp_print (''snmp_synch_response()'' @ (if trace then '' '' else '': '') @ ''rc='' @ fmt_d status @ nl) g else g)
          in case response of
               None \<Rightarrow> Some (NoResponse, s, g)
             | Some r \<Rightarrow>
                 if status = STAT_SUCCESS \<and> p_errindex r = 0 then Some (Accepted r, s, g)
                 else
                   let g = (if trace \<and> 3 < mp_verbose g then mp_print ('' errindex='' @ fmt_d (p_errindex r) @ nl) g else g)
                   in case snmp_fix_pdu lib r of
                        Some oids' \<Rightarrow> if status = STAT_SUCCESS then snmp_send n lib oids' s trace g else Some (Refused status, s, g)
                      | None \<Rightarrow> Some (Refused status, s, g))"

definition mp_snmp_query ::
    "nat \<Rightarrow> 's snmp_lib \<Rightarrow> snmp_query_cmd list \<Rightarrow> 's \<Rightarrow> targets \<Rightarrow> mp_globals \<Rightarrow> (int \<times> targets \<times> 's \<times> mp_globals) option" where
  "mp_snmp_query fuel lib cmds s ts g =
     (case snmp_send fuel lib (map q_oid cmds) s True g of
        None \<Rightarrow> None
      | Some (NoResponse, s, g) \<Rightarrow> Some (STAT_ERROR, ts, s, g)
      | Some (Refused status, s, g) \<Rightarrow> Some (status, ts, s, g)
      | Some (Accepted r, s, g) \<Rightarrow>
          (if p_errstat r = SNMP_ERR_NOERROR
           then (case fold (query_var lib cmds) (p_vars r) (ts, g) of (ts, g) \<Rightarrow> Some (STAT_SUCCESS, ts, s, g))
           else Some (STAT_SUCCESS, ts, s, g)))"

section \<open>Fetching values\<close>

definition fetch_var :: "'s snmp_lib \<Rightarrow> snmp_query_cmd list \<Rightarrow> snmp_var \<Rightarrow> targets \<times> mp_globals \<Rightarrow> targets \<times> mp_globals" where
  "fetch_var lib cmds var tg =
     (case match_cmd lib var 0 cmds of
        None \<Rightarrow> tg
      | Some iq \<Rightarrow>
          (case tg of (ts, g) \<Rightarrow>
             let g = (if 1 < mp_verbose g then mp_print (print_variable lib var) g else g)
             in if \<not> no_such (v_type var) then store_var var iq (ts, g)
                else (ts, if 2 < mp_verbose g then mp_print (''OID not available: type=0x'' @ fmt_X (v_type var) @ nl) g else g)))"

definition mp_snmp_values_fetch1 ::
    "nat \<Rightarrow> 's snmp_lib \<Rightarrow> int \<Rightarrow> snmp_query_cmd list \<Rightarrow> 's \<Rightarrow> targets \<Rightarrow> mp_globals \<Rightarrow> (int \<times> targets \<times> 's \<times> mp_globals) option" where
  "mp_snmp_values_fetch1 fuel lib version values s ts g =
     (case snmp_send fuel lib (map q_oid values) s False g of
        None \<Rightarrow> None
      | Some (Accepted r, s, g) \<Rightarrow>
          (if p_errstat r = SNMP_ERR_NOERROR
           then (case fold (fetch_var lib values) (p_vars r) (ts, g) of (ts, g) \<Rightarrow> Some (STAT_SUCCESS, ts, s, g))
           else if version = SNMP_VERSION_1 \<and> p_errstat r = SNMP_ERR_NOSUCHNAME
           then Some (STAT_SUCCESS, ts, s, if 3 < mp_verbose g then mp_print (''SNMP-V1: end of tree'' @ nl) g else g)
           else Some (STAT_ERROR, ts, s,
                  if 0 < mp_verbose g then mp_print (''SNMP error: respose->errstat = '' @ fmt_d (p_errstat r)) g else g))
      | Some (_, s, g) \<Rightarrow> Some (STAT_ERROR, ts, s, g))"

record snmp_value_cmd =
  vc_oid :: string
  vc_type :: int
  vc_len :: nat

text \<open>The identifiers are read one by one; the first that is illegal ends the function with the result 0, which is
  \<open>STAT_SUCCESS\<close>.\<close>

fun read_cmds :: "'s snmp_lib \<Rightarrow> (string \<Rightarrow> string) \<Rightarrow> snmp_value_cmd list \<Rightarrow> string + snmp_query_cmd list" where
  "read_cmds lib fmt [] = Inr []"
| "read_cmds lib fmt (c # cs) =
     (case read_objid lib (fmt (vc_oid c)) of
        None \<Rightarrow> Inl (vc_oid c)
      | Some oid \<Rightarrow>
          map_sum (\<lambda>e. e) (\<lambda>qs. \<lparr>q_oid = oid, q_type = vc_type c, q_len = vc_len c\<rparr> # qs) (read_cmds lib fmt cs))"

text \<open>
  The array handed to \<open>mp_snmp_values_fetch1\<close> has room for the values only: the entry with the length 0 that ends it is
  missing, and the loops run on into \<open>junk\<close>, whatever entries the memory behind the array holds. The format of
  \<open>mp_snmp_values_fetch3\<close> prints an identifier with the further arguments of the call, cut to 1023 characters.
\<close>

definition values_fetch ::
    "nat \<Rightarrow> 's snmp_lib \<Rightarrow> snmp_query_cmd list \<Rightarrow> (string \<Rightarrow> string) \<Rightarrow> int \<Rightarrow> snmp_value_cmd list \<Rightarrow> 's \<Rightarrow> targets \<Rightarrow> mp_globals \<Rightarrow>
     (int \<times> targets \<times> 's \<times> mp_globals) option" where
  "values_fetch fuel lib junk fmt version values s ts g =
     (case read_cmds lib fmt values of
        Inl bad \<Rightarrow> Some (0, ts, s, if 3 < mp_verbose g then mp_print (''Invalid OID: '' @ bad @ nl) g else g)
      | Inr cmds \<Rightarrow> mp_snmp_values_fetch1 fuel lib version (cmds @ junk) s ts g)"

definition mp_snmp_values_fetch2 ::
    "nat \<Rightarrow> 's snmp_lib \<Rightarrow> snmp_query_cmd list \<Rightarrow> int \<Rightarrow> snmp_value_cmd list \<Rightarrow> 's \<Rightarrow> targets \<Rightarrow> mp_globals \<Rightarrow>
     (int \<times> targets \<times> 's \<times> mp_globals) option" where
  "mp_snmp_values_fetch2 fuel lib junk version values s ts g = values_fetch fuel lib junk (\<lambda>oid. oid) version values s ts g"

definition mp_snmp_values_fetch3 ::
    "nat \<Rightarrow> 's snmp_lib \<Rightarrow> snmp_query_cmd list \<Rightarrow> (string \<Rightarrow> string) \<Rightarrow> int \<Rightarrow> snmp_value_cmd list \<Rightarrow> 's \<Rightarrow> targets \<Rightarrow> mp_globals \<Rightarrow>
     (int \<times> targets \<times> 's \<times> mp_globals) option" where
  "mp_snmp_values_fetch3 fuel lib junk vprintf version values s ts g =
     values_fetch fuel lib junk (\<lambda>oid. take 1023 (vprintf oid)) version values s ts g"

section \<open>Subtrees\<close>

datatype walk_step = WEnd mp_end | WReturn "snmp_var list" mp_globals | WNext oid "snmp_var list" mp_globals

fun walk_vars :: "'s snmp_lib \<Rightarrow> oid \<Rightarrow> snmp_var list \<Rightarrow> oid \<Rightarrow> snmp_var list \<Rightarrow> mp_globals \<Rightarrow> walk_step" where
  "walk_vars lib sub [] last_oid acc g = WNext last_oid acc g"
| "walk_vars lib sub (var # vars) last_oid acc g =
     (if snmp_oidtree_compare lib (v_name var) last_oid < 0
      then WEnd (critical ''SNMP error: OIDs are not incresing'' g)
      else if v_type var = SNMP_ENDOFMIBVIEW \<or> snmp_oidtree_compare lib sub (v_name var) \<noteq> 0
      then WReturn acc g
      else walk_vars lib sub vars (v_name var) (acc @ [var])
             (if 2 < mp_verbose g then mp_print (print_variable lib var) g else g))"

definition walk_request :: "int \<Rightarrow> oid \<Rightarrow> snmp_req" where
  "walk_request version o1 = (if version = SNMP_VERSION_1 then GetNext o1 else GetBulk 0 16 o1)"

text \<open>The loop: with the highest verbosity the error status of the response is printed before the response is tested.\<close>

fun subtree_loop ::
    "nat \<Rightarrow> 's snmp_lib \<Rightarrow> int \<Rightarrow> oid \<Rightarrow> oid \<Rightarrow> snmp_var list \<Rightarrow> 's \<Rightarrow> mp_globals \<Rightarrow> (mp_end + (int \<times> snmp_var list \<times> 's \<times> mp_globals)) option" where
  "subtree_loop 0 lib version sub last_oid acc s g = None"
| "subtree_loop (Suc n) lib version sub last_oid acc s g =
     (let g = (if 2 < mp_verbose g then mp_print (''Fetching next from OID '' @ take 127 (snprint_objid lib last_oid) @ nl) g else g)
      in case snmp_synch_response lib s (walk_request version last_oid) of
           (rc, None, s) \<Rightarrow> if 3 < mp_verbose g then Some (Inl Crash) else Some (Inr (STAT_ERROR, acc, s, g))
         | (rc, Some r, s) \<Rightarrow>
             let g = (if 3 < mp_verbose g
                      then mp_print (''snmp_synch_response(): rc='' @ fmt_d rc @ '', errstat='' @ fmt_d (p_errstat r) @ nl) g else g)
             in if rc \<noteq> STAT_SUCCESS then Some (Inr (STAT_ERROR, acc, s, g))
                else if p_errstat r = SNMP_ERR_NOERROR then
                  (case walk_vars lib sub (p_vars r) last_oid acc g of
                     WEnd e \<Rightarrow> Some (Inl e)
                   | WReturn acc g \<Rightarrow> Some (Inr (rc, acc, s, g))
                   | WNext last_oid acc g \<Rightarrow> subtree_loop n lib version sub last_oid acc s g)
                else if version = SNMP_VERSION_1 \<and> p_errstat r = SNMP_ERR_NOSUCHNAME then
                  subtree_loop n lib version sub last_oid acc s
                    (if 3 < mp_verbose g then mp_print (''SNMP-V1: end of tree'' @ nl) g else g)
                else Some (Inr (STAT_ERROR, acc, s,
                       if 0 < mp_verbose g then mp_print (''SNMP error: respose->errstat = '' @ fmt_d (p_errstat r)) g else g)))"

definition mp_snmp_subtree_query ::
    "nat \<Rightarrow> 's snmp_lib \<Rightarrow> int \<Rightarrow> oid \<Rightarrow> 's \<Rightarrow> mp_globals \<Rightarrow> (mp_end + (int \<times> snmp_var list \<times> 's \<times> mp_globals)) option" where
  "mp_snmp_subtree_query fuel lib version sub s g = subtree_loop fuel lib version sub sub [] s g"

definition mp_snmp_subtree_query_string ::
    "nat \<Rightarrow> 's snmp_lib \<Rightarrow> int \<Rightarrow> string \<Rightarrow> snmp_var list \<Rightarrow> 's \<Rightarrow> mp_globals \<Rightarrow>
     (mp_end + (int \<times> snmp_var list \<times> 's \<times> mp_globals)) option" where
  "mp_snmp_subtree_query_string fuel lib version sub subtree s g =
     (case read_objid lib sub of
        None \<Rightarrow> Some (Inr (0, subtree, s, if 3 < mp_verbose g then mp_print (''Invalid OID: '' @ sub @ nl) g else g))
      | Some oid \<Rightarrow> mp_snmp_subtree_query fuel lib version oid s g)"

fun nth_below :: "'s snmp_lib \<Rightarrow> oid \<Rightarrow> nat \<Rightarrow> snmp_var list \<Rightarrow> snmp_var option" where
  "nth_below lib pre idx [] = None"
| "nth_below lib pre idx (v # vs) =
     (if snmp_oidtree_compare lib pre (v_name v) = 0
      then (case idx of 0 \<Rightarrow> Some v | Suc k \<Rightarrow> nth_below lib pre k vs)
      else nth_below lib pre idx vs)"

definition mp_snmp_subtree_get_value ::
    "'s snmp_lib \<Rightarrow> snmp_var list \<Rightarrow> oid \<Rightarrow> nat \<Rightarrow> int \<Rightarrow> nat \<Rightarrow> mp_globals \<Rightarrow> snmp_value option \<times> mp_globals" where
  "mp_snmp_subtree_get_value lib subtree pre idx t len g =
     (case nth_below lib pre idx subtree of None \<Rightarrow> (None, g) | Some v \<Rightarrow> copy_value v t len g)"

definition mp_snmp_subtree_get_value_string ::
    "'s snmp_lib \<Rightarrow> snmp_var list \<Rightarrow> string \<Rightarrow> nat \<Rightarrow> int \<Rightarrow> nat \<Rightarrow> mp_globals \<Rightarrow> snmp_value option \<times> mp_globals" where
  "mp_snmp_subtree_get_value_string lib subtree value_oid idx t len g =
     (if subtree = [] then (None, g)
      else case read_objid lib value_oid of
             None \<Rightarrow> (None, if 3 < mp_verbose g then mp_print (''Invalid OID: '' @ value_oid @ nl) g else g)
           | Some oid \<Rightarrow> mp_snmp_subtree_get_value lib subtree oid idx t len g)"

text \<open>The result of reading an identifier is not tested: for an illegal one the prefix is what the array holds
  (\<open>stale\<close>, by entry).\<close>

fun subtree_values ::
    "'s snmp_lib \<Rightarrow> snmp_var list \<Rightarrow> nat \<Rightarrow> (nat \<Rightarrow> oid) \<Rightarrow> nat \<Rightarrow> snmp_value_cmd list \<Rightarrow> targets \<Rightarrow> int \<Rightarrow> mp_globals \<Rightarrow> int \<times> targets \<times> mp_globals" where
  "subtree_values lib subtree idx stale i [] ts count g = (count, ts, g)"
| "subtree_values lib subtree idx stale i (c # cs) ts count g =
     (let oid = (case read_objid lib (vc_oid c) of Some oid \<Rightarrow> oid | None \<Rightarrow> stale i)
      in case mp_snmp_subtree_get_value lib subtree oid idx (vc_type c) (vc_len c) g of
           (None, g) \<Rightarrow> subtree_values lib subtree idx stale (Suc i) cs ts count g
         | (Some v, g) \<Rightarrow> subtree_values lib subtree idx stale (Suc i) cs (ts(i \<mapsto> v)) (count + 1) g)"

definition mp_snmp_subtree_get_values ::
    "'s snmp_lib \<Rightarrow> snmp_var list \<Rightarrow> nat \<Rightarrow> (nat \<Rightarrow> oid) \<Rightarrow> snmp_value_cmd list \<Rightarrow> targets \<Rightarrow> mp_globals \<Rightarrow> int \<times> targets \<times> mp_globals" where
  "mp_snmp_subtree_get_values lib subtree idx stale values ts g =
     (if subtree = [] then (0, ts, g) else subtree_values lib subtree idx stale 0 values ts 0 g)"

section \<open>Texts\<close>

definition ifOperStatusText :: "string list" where
  "ifOperStatusText = [[], ''up'', ''down'', ''testing'', ''unknown'', ''dormant'', ''notPresent'', ''lowerLayerDown'', []]"

definition print_help_snmp :: string where
  "print_help_snmp = print_help_host @ help_lines
     ['' -C, --community=COMMUNITY'',
      ''      SNMP community (defaults to public, used with SNMP v1 and v2c)'',
      '' -S, --snmp=VERSION'',
      ''      SNMP version to use. (default to v1)'',
      ''      1 for SNMP v1'',
      ''      2 for SNMP v2c (use get_bulk for less overhead)'',
      ''      3 for SNMP v3 (requires --secname option)'',
      '' -L, --seclevel=SECLEVEL'',
      ''      Security Level to use. (noAuthNoPriv, authNoPriv , or authPriv)'',
      '' -U, --secname=SECNAME'',
      ''      User name for SNMPv3 context.'',
      '' -K, --context=CONTEXT'',
      ''      SNMPv3 context name (default is empty string)'',
      '' -A, --authpass=PASSWORD'',
      ''      Authentication password. (Clear text ASCII or localized key in hex'',
      ''      with 0x prefix generated by using '' @ [CHR 0x22] @ ''snmpkey'' @ [CHR 0x22] @ '' utility.)'',
      '' -a, --authproto=PROTOCOL'',
      ''      Authentication protocol (MD5 or SHA1)'',
      '' -X, --privpass=PASSWORD'',
      ''      Privacy password. (Clear text ASCII or localized key in hex'',
      ''      with 0x prefix generated by using '' @ [CHR 0x22] @ ''snmpkey'' @ [CHR 0x22] @ '' utility.)'',
      '' -T, --snmptimeout=TIMEOUT'',
      ''      SNMP request timeout.'',
      '' -R, --snmpretries=RETRIES'',
      ''      SNMP request retries.'']"

definition print_revision_snmp :: "'s snmp_lib \<Rightarrow> string" where
  "print_revision_snmp lib = '' libnetsnmp v'' @ netsnmp_version lib @ nl"

section \<open>The walk over a subtree\<close>

text \<open>What is documented of the comparisons: \<open>snmp_oidtree_compare\<close> compares the common length, \<open>snmp_oid_compare\<close> is 0 for
  equal identifiers only.\<close>

definition oid_compare_ok :: "'s snmp_lib \<Rightarrow> bool" where
  "oid_compare_ok lib \<longleftrightarrow>
     (\<forall>a b. snmp_oidtree_compare lib a b =
        (let n = min (length a) (length b)
         in if take n a < take n b then -1 else if take n a = take n b then 0 else 1)) \<and>
     (\<forall>a b. snmp_oid_compare lib a b = 0 \<longleftrightarrow> a = b)"

lemma take_less_mono: "(a :: 'a :: linorder list) < b \<Longrightarrow> \<not> take (min (length b) (length a)) b < take (min (length b) (length a)) a"
proof (induction a arbitrary: b)
  case (Cons x a)
  then show ?case by (cases b) auto
qed simp

lemma take_min_eq_prefix:
  "(a :: 'a :: linorder list) < b \<Longrightarrow>
   take (min (length a) (length b)) a = take (min (length a) (length b)) b \<longleftrightarrow> strict_prefix a b"
proof (induction a arbitrary: b)
  case Nil
  then show ?case by (cases b) auto
next
  case (Cons x a)
  then obtain y b' where "b = y # b'" by (cases b) auto
  with Cons show ?case by auto
qed

lemma between_prefix:
  "(sub :: 'a :: linorder list) < a \<Longrightarrow> a < b \<Longrightarrow> strict_prefix sub b \<Longrightarrow> strict_prefix sub a"
proof (induction sub arbitrary: a b)
  case Nil
  then show ?case by (cases a) auto
next
  case (Cons x sub)
  then obtain b' where b: "b = x # b'" "strict_prefix sub b'" by (cases b) auto
  with Cons.prems obtain a' where a: "a = x # a'" by (cases a) auto
  with b Cons.prems Cons.IH [of a' b'] show ?case by simp
qed

lemma oidtree_facts:
  assumes "oid_compare_ok lib" "a < b"
  shows "\<not> snmp_oidtree_compare lib b a < 0" "snmp_oidtree_compare lib a b = 0 \<longleftrightarrow> strict_prefix a b"
  using assms take_less_mono [OF assms(2)] take_min_eq_prefix [OF assms(2)]
  by (auto simp: oid_compare_ok_def Let_def)

lemma oidtree_refl: "oid_compare_ok lib \<Longrightarrow> snmp_oidtree_compare lib a a = 0"
  by (simp add: oid_compare_ok_def)

text \<open>The data of an agent: its variables in the order of their names, and the answer to a bulk request.\<close>

definition succs :: "snmp_var list \<Rightarrow> oid \<Rightarrow> snmp_var list" where
  "succs mib o1 = filter (\<lambda>v. o1 < v_name v) mib"

definition mib_ok :: "snmp_var list \<Rightarrow> bool" where
  "mib_ok mib \<longleftrightarrow> sorted_wrt (<) (map v_name mib) \<and> (\<forall>v \<in> set mib. v_type v \<noteq> SNMP_ENDOFMIBVIEW)"

definition end_of_mib :: "snmp_var list \<Rightarrow> oid \<Rightarrow> snmp_var" where
  "end_of_mib vs o1 = \<lparr>v_name = (if vs = [] then o1 else v_name (last vs)), v_type = SNMP_ENDOFMIBVIEW, v_int = 0, v_str = [], v_len = 0\<rparr>"

definition bulk_answer :: "snmp_var list \<Rightarrow> oid \<Rightarrow> snmp_pdu" where
  "bulk_answer mib o1 = \<lparr>p_errstat = 0, p_errindex = 0,
     p_vars = take 16 (succs mib o1) @ (if length (succs mib o1) < 16 then [end_of_mib (succs mib o1) o1] else [])\<rparr>"

definition bulk_agent :: "snmp_var list \<Rightarrow> 's snmp_lib \<Rightarrow> bool" where
  "bulk_agent mib lib \<longleftrightarrow> (\<forall>s o1. snmp_synch_response lib s (GetBulk 0 16 o1) = (STAT_SUCCESS, Some (bulk_answer mib o1), s))"

lemma sorted_after:
  "sorted_wrt (\<lambda>a b. key a < (key b :: 'k :: linorder)) xs \<Longrightarrow> i < length xs \<Longrightarrow> filter (\<lambda>v. key (xs ! i) < key v) xs = drop (Suc i) xs"
proof (induction xs arbitrary: i)
  case (Cons x xs)
  show ?case
  proof (cases i)
    case 0
    then show ?thesis using Cons.prems(1) by (auto simp: filter_id_conv)
  next
    case (Suc j)
    then have "\<not> key (xs ! j) < key x" using Cons.prems by (auto dest: less_imp_not_less)
    then show ?thesis using Suc Cons by simp
  qed
qed simp

lemma succs_sorted: "mib_ok mib \<Longrightarrow> sorted_wrt (\<lambda>a b. v_name a < v_name b) (succs mib o1)"
  by (simp add: mib_ok_def succs_def sorted_wrt_map sorted_wrt_filter)

lemma succs_step:
  assumes "mib_ok mib" "16 \<le> length (succs mib o1)"
  shows "succs mib (v_name (last (take 16 (succs mib o1)))) = drop 16 (succs mib o1)"
proof -
  let ?s = "succs mib o1" and ?x = "v_name (last (take 16 (succs mib o1)))"
  have x: "?x = v_name (?s ! 15)" using assms(2) last_conv_nth [of "take 16 ?s"] by (cases ?s) simp_all
  have "o1 < v_name (?s ! 15)" using assms(2) nth_mem [of 15 ?s] by (simp add: succs_def)
  then have "succs mib ?x = filter (\<lambda>v. v_name (?s ! 15) < v_name v) ?s"
    unfolding x by (auto simp: succs_def filter_filter intro: filter_cong)
  also have "\<dots> = drop 16 ?s" using sorted_after [OF succs_sorted [OF assms(1)], of 15 o1] assms(2) by simp
  finally show ?thesis .
qed

lemma strict_prefix_less: "strict_prefix a b \<Longrightarrow> (a :: 'a :: linorder list) < b"
proof (induction a arbitrary: b)
  case Nil
  then show ?case by (cases b) auto
next
  case (Cons x a)
  then show ?case by (cases b) auto
qed

text \<open>One answer: the variables inside the subtree are taken up to the first one outside.\<close>

abbreviation in_subtree :: "oid \<Rightarrow> snmp_var \<Rightarrow> bool" where
  "in_subtree sub v \<equiv> strict_prefix sub (v_name v)"

lemma walk_vars_take:
  assumes "oid_compare_ok lib" "mp_verbose g \<le> 2" "sub \<le> l"
    "sorted_wrt (\<lambda>a b. v_name a < v_name b) vs" "\<forall>v \<in> set vs. l < v_name v \<and> v_type v \<noteq> SNMP_ENDOFMIBVIEW"
  shows "walk_vars lib sub (vs @ tail) l acc g =
    (if list_all (in_subtree sub) vs
     then walk_vars lib sub tail (if vs = [] then l else v_name (last vs)) (acc @ vs) g
     else WReturn (acc @ takeWhile (in_subtree sub) vs) g)"
  using assms(3-5)
proof (induction vs arbitrary: l acc)
  case (Cons v vs)
  have v: "l < v_name v" "v_type v \<noteq> SNMP_ENDOFMIBVIEW" "sub < v_name v"
    using Cons.prems by auto
  note facts = oidtree_facts(1) [OF assms(1) v(1)] oidtree_facts(2) [OF assms(1) v(3)]
  show ?case
  proof (cases "in_subtree sub v")
    case True
    then show ?thesis
      using v facts Cons.IH [of "v_name v" "acc @ [v]"] Cons.prems assms(2) by (simp add: less_imp_le)
  next
    case False
    then show ?thesis using v facts by simp
  qed
qed simp

lemma subtree_loop_walk:
  assumes "oid_compare_ok lib" "mp_verbose g \<le> 2" "mib_ok mib" "bulk_agent mib lib" "version \<noteq> SNMP_VERSION_1" "sub \<le> l"
    "length (succs mib l) < fuel"
  shows "subtree_loop fuel lib version sub l acc s g =
    Some (Inr (STAT_SUCCESS, acc @ takeWhile (in_subtree sub) (succs mib l), s, g))"
  using assms(6,7)
proof (induction fuel arbitrary: l acc)
  case (Suc n)
  let ?s = "succs mib l" and ?t = "take 16 (succs mib l)"
  let ?e = "if length ?s < 16 then [end_of_mib ?s l] else []"
  have r: "snmp_synch_response lib s (walk_request version l) = (STAT_SUCCESS, Some (bulk_answer mib l), s)"
    using assms(4,5) by (simp add: bulk_agent_def walk_request_def)
  have sorted: "sorted_wrt (\<lambda>a b. v_name a < v_name b) ?t"
    using succs_sorted [OF assms(3)] by (simp add: sorted_wrt_take)
  have above: "\<forall>v \<in> set ?t. l < v_name v \<and> v_type v \<noteq> SNMP_ENDOFMIBVIEW"
    using assms(3) by (auto simp: succs_def mib_ok_def dest: in_set_takeD)
  note w = walk_vars_take [OF assms(1,2) Suc.prems(1) sorted above, of ?e acc]
  have step: "subtree_loop (Suc n) lib version sub l acc s g =
      (case walk_vars lib sub (?t @ ?e) l acc g of
         WEnd e \<Rightarrow> Some (Inl e) | WReturn acc g \<Rightarrow> Some (Inr (STAT_SUCCESS, acc, s, g))
       | WNext l acc g \<Rightarrow> subtree_loop n lib version sub l acc s g)"
    using r assms(2) by (simp add: bulk_answer_def SNMP_ERR_NOERROR_def)
  show ?case
  proof (cases "list_all (in_subtree sub) ?t")
    case False
    then have "takeWhile (in_subtree sub) ?t = takeWhile (in_subtree sub) ?s"
      by (metis append_take_drop_id list_all_iff takeWhile_append1)
    then show ?thesis using w False unfolding step by simp
  next
    case all: True
    show ?thesis
    proof (cases "length ?s < 16")
      case True
      then have "walk_vars lib sub ?e (if ?t = [] then l else v_name (last ?t)) (acc @ ?t) g = WReturn (acc @ ?t) g"
        using oidtree_refl [OF assms(1)] by (simp add: end_of_mib_def)
      moreover have tw: "takeWhile (in_subtree sub) ?s = ?s" using all True by (simp add: takeWhile_eq_all_conv list_all_iff)
      ultimately show ?thesis using w all True unfolding step tw by simp
    next
      case False
      let ?l = "v_name (last ?t)"
      have t: "?t \<noteq> []" using False by auto
      then have "sub \<le> ?l" using above Suc.prems(1) last_in_set [OF t] by (meson less_imp_le order_trans)
      moreover have "succs mib ?l = drop 16 ?s" using succs_step [OF assms(3)] False by simp
      moreover have "takeWhile (in_subtree sub) ?s = ?t @ takeWhile (in_subtree sub) (drop 16 ?s)"
        using all takeWhile_append2 [of ?t "in_subtree sub" "drop 16 ?s"] by (simp add: list_all_iff)
      ultimately show ?thesis
        using w all False t Suc.IH [of ?l "acc @ ?t"] Suc.prems(2) unfolding step by simp
    qed
  qed
qed simp

lemma takeWhile_subtree:
  assumes "mib_ok mib"
  shows "takeWhile (in_subtree sub) (succs mib sub) = filter (in_subtree sub) mib"
proof -
  have "sorted_wrt (\<lambda>a b. v_name a < v_name b) vs \<Longrightarrow> \<forall>v \<in> set vs. sub < v_name v \<Longrightarrow>
      takeWhile (in_subtree sub) vs = filter (in_subtree sub) vs" for vs
  proof (induction vs)
    case (Cons v vs)
    then have "\<not> in_subtree sub v \<Longrightarrow> filter (in_subtree sub) vs = []"
      using between_prefix [of sub "v_name v"] by (auto simp: filter_empty_conv)
    then show ?case using Cons by auto
  qed simp
  then have "takeWhile (in_subtree sub) (succs mib sub) = filter (in_subtree sub) (succs mib sub)"
    using succs_sorted [OF assms] by (simp add: succs_def)
  also have "\<dots> = filter (in_subtree sub) mib"
    unfolding succs_def filter_filter by (intro filter_cong) (auto simp: strict_prefix_less)
  finally show ?thesis .
qed

lemma subtree_query_walk:
  assumes "oid_compare_ok lib" "mp_verbose g \<le> 2" "mib_ok mib" "bulk_agent mib lib" "version \<noteq> SNMP_VERSION_1" "length mib < fuel"
  shows "mp_snmp_subtree_query fuel lib version sub s g = Some (Inr (STAT_SUCCESS, filter (in_subtree sub) mib, s, g))"
proof -
  have "length (succs mib sub) < fuel"
    using le_less_trans [OF length_filter_le assms(6)] by (simp add: succs_def)
  then show ?thesis
    using subtree_loop_walk [OF assms(1-5) order_refl, of sub fuel "[]" s] takeWhile_subtree [OF assms(3), of sub]
    by (simp add: mp_snmp_subtree_query_def)
qed

text \<open>C27: The walk over a subtree. Against an agent that serves an ordered set of variables with bulk requests,
  \<open>mp_snmp_subtree_query\<close> returns after finitely many requests with exactly the variables of the agent whose names
  extend the prefix, in their order.\<close>

theorem mp_snmp_subtree_query_walk:
  assumes "oid_compare_ok lib" "mp_verbose g \<le> 2" "mib_ok mib" "bulk_agent mib lib" "version \<noteq> SNMP_VERSION_1" "length mib < fuel"
  shows "mp_snmp_subtree_query fuel lib version sub s g = Some (Inr (STAT_SUCCESS, filter (in_subtree sub) mib, s, g))"
  using assms by (rule subtree_query_walk)

definition snmp_lib_ex :: "snmp_var list \<Rightarrow> unit snmp_lib" where
  "snmp_lib_ex mib = \<lparr>snmp_synch_response = (\<lambda>s req. case req of
       GetBulk a b o1 \<Rightarrow> (STAT_SUCCESS, Some (bulk_answer mib o1), s)
     | GetNext o1 \<Rightarrow> (STAT_SUCCESS, (case succs mib o1 of
           [] \<Rightarrow> Some \<lparr>p_errstat = SNMP_ERR_NOSUCHNAME, p_errindex = 1, p_vars = []\<rparr>
         | v # _ \<Rightarrow> Some \<lparr>p_errstat = 0, p_errindex = 0, p_vars = [v]\<rparr>), s)
     | Get oids \<Rightarrow> (STAT_SUCCESS, Some \<lparr>p_errstat = 0, p_errindex = 0, p_vars = filter (\<lambda>v. v_name v \<in> set oids) mib\<rparr>, s)),
     snmp_oid_compare = (\<lambda>a b. if a = b then 0 else if a < b then -1 else 1),
     snmp_oidtree_compare = (\<lambda>a b. let n = min (length a) (length b)
         in if take n a < take n b then -1 else if take n a = take n b then 0 else 1),
     snmp_fix_pdu = (\<lambda>_. None), read_objid = (\<lambda>_. None), print_variable = (\<lambda>_. []), snprint_objid = (\<lambda>_. []),
     generate_Ku = (\<lambda>_ _. None), snmp_open_ok = True, snmp_error = (\<lambda>_. []), netsnmp_version = ''5.9''\<rparr>"

lemma snmp_lib_ex_ok: "oid_compare_ok (snmp_lib_ex mib)" "bulk_agent mib (snmp_lib_ex mib)"
  by (simp_all add: oid_compare_ok_def bulk_agent_def snmp_lib_ex_def)

definition int_var :: "oid \<Rightarrow> int \<Rightarrow> snmp_var" where
  "int_var name i = \<lparr>v_name = name, v_type = ASN_INTEGER, v_int = i, v_str = [], v_len = 8\<rparr>"

definition mib_ex :: "snmp_var list" where
  "mib_ex = [int_var [1, 3, 6] 5, int_var [1, 4, 1] 6, int_var [1, 4, 2, 1] 7, int_var [1, 5] 8]"

lemma mib_ex_ok: "mib_ok mib_ex"
  by (simp add: mib_ok_def mib_ex_def int_var_def snmp_consts)

theorem mp_snmp_subtree_query_walk_witness:
  "mp_snmp_subtree_query 5 (snmp_lib_ex mib_ex) SNMP_VERSION_2c [1, 4] () (mp_init [] [] [] [] []) =
     Some (Inr (STAT_SUCCESS, [int_var [1, 4, 1] 6, int_var [1, 4, 2, 1] 7], (), mp_init [] [] [] [] []))"
  using mp_snmp_subtree_query_walk [OF snmp_lib_ex_ok(1) _ mib_ex_ok snmp_lib_ex_ok(2), where version = SNMP_VERSION_2c and
      fuel = 5 and sub = "[1, 4]" and s = "()" and g = "mp_init [] [] [] [] []"]
  by (simp add: mib_ex_def int_var_def SNMP_VERSION_1_def SNMP_VERSION_2c_def mp_init_def)

text \<open>Walks without an end. A version 1 agent reports the end of its data by \<open>noSuchName\<close>; the source prints a trace and
  sends the same request again, so that no number of requests is enough. The same holds for an agent that answers
  with the name it was asked for, since only smaller names are refused.\<close>

theorem mp_snmp_subtree_query_endless:
  assumes "mp_verbose g \<le> 2"
  shows "snmp_synch_response lib s (GetNext sub) =
      (STAT_SUCCESS, Some \<lparr>p_errstat = SNMP_ERR_NOSUCHNAME, p_errindex = i, p_vars = vs\<rparr>, s) \<Longrightarrow>
      mp_snmp_subtree_query fuel lib SNMP_VERSION_1 sub s g = None"
    and "oid_compare_ok lib \<Longrightarrow> v_name v = sub \<Longrightarrow> v_type v \<noteq> SNMP_ENDOFMIBVIEW \<Longrightarrow>
      snmp_synch_response lib s (walk_request version sub) = (STAT_SUCCESS, Some \<lparr>p_errstat = 0, p_errindex = 0, p_vars = [v]\<rparr>, s) \<Longrightarrow>
      mp_snmp_subtree_query fuel lib version sub s g = None"
proof -
  assume a: "snmp_synch_response lib s (GetNext sub) =
      (STAT_SUCCESS, Some \<lparr>p_errstat = SNMP_ERR_NOSUCHNAME, p_errindex = i, p_vars = vs\<rparr>, s)"
  have "subtree_loop fuel lib SNMP_VERSION_1 sub sub acc s g = None" for acc
    using a assms by (induction fuel) (simp_all add: walk_request_def SNMP_ERR_NOERROR_def SNMP_ERR_NOSUCHNAME_def)
  then show "mp_snmp_subtree_query fuel lib SNMP_VERSION_1 sub s g = None" by (simp add: mp_snmp_subtree_query_def)
next
  assume a: "oid_compare_ok lib" "v_name v = sub" "v_type v \<noteq> SNMP_ENDOFMIBVIEW"
    "snmp_synch_response lib s (walk_request version sub) = (STAT_SUCCESS, Some \<lparr>p_errstat = 0, p_errindex = 0, p_vars = [v]\<rparr>, s)"
  have "subtree_loop fuel lib version sub sub acc s g = None" for acc
    using a assms oidtree_refl [OF a(1), of sub] by (induction fuel arbitrary: acc) (simp_all add: SNMP_ERR_NOERROR_def)
  then show "mp_snmp_subtree_query fuel lib version sub s g = None" by (simp add: mp_snmp_subtree_query_def)
qed

theorem mp_snmp_subtree_query_endless_witness:
  "mp_snmp_subtree_query 100000 (snmp_lib_ex []) SNMP_VERSION_1 [1, 4] () (mp_init [] [] [] [] []) = None"
proof -
  have "mp_verbose (mp_init [] [] [] [] []) \<le> 2" by (simp add: mp_init_def)
  moreover have "snmp_synch_response (snmp_lib_ex []) () (GetNext [1, 4]) =
      (STAT_SUCCESS, Some \<lparr>p_errstat = SNMP_ERR_NOSUCHNAME, p_errindex = 1, p_vars = []\<rparr>, ())"
    by (simp add: snmp_lib_ex_def succs_def)
  ultimately show ?thesis by (rule mp_snmp_subtree_query_endless(1))
qed

section \<open>The result of a query\<close>

text \<open>The value a variable has for an entry of a query, and the entry's answer among the variables of a response.\<close>

definition value_of :: "snmp_var \<Rightarrow> int \<Rightarrow> nat \<Rightarrow> snmp_value option" where
  "value_of v t len =
     (if v_type v \<noteq> t then None
      else if is_long_type t then (if v_len v \<le> len then Some (SLong (v_int v)) else None)
      else if len = 0 \<or> v_len v < len then Some (SText (takeWhile (\<lambda>c. c \<noteq> CHR 0x00) (v_str v))) else None)"

definition known_type :: "int \<Rightarrow> bool" where
  "known_type t \<longleftrightarrow> is_long_type t \<or> t = ASN_OCTET_STR"

definition answer_for :: "snmp_var list \<Rightarrow> snmp_query_cmd \<Rightarrow> snmp_value option" where
  "answer_for vs q = (case find (\<lambda>v. v_name v = q_oid q) vs of None \<Rightarrow> None | Some v \<Rightarrow> value_of v (q_type q) (q_len q))"

definition answers :: "snmp_var list \<Rightarrow> snmp_query_cmd list \<Rightarrow> targets" where
  "answers vs cmds i = (if i < length cmds then answer_for vs (cmds ! i) else None)"

lemma copy_value_quiet:
  "mp_verbose g \<le> 1 \<Longrightarrow> known_type t \<Longrightarrow> copy_value v t len g = (value_of v t len, g)"
  by (auto simp: copy_value_def value_of_def known_type_def size_mismatch_def is_long_type_def snmp_consts)

lemma no_such_unknown: "no_such (v_type v) \<Longrightarrow> known_type t \<Longrightarrow> value_of v t len = None"
  by (auto simp: no_such_def known_type_def value_of_def is_long_type_def snmp_consts)

lemma match_cmd_index:
  assumes "oid_compare_ok lib" "distinct (map q_oid cmds)"
  shows "match_cmd lib v k cmds =
    (case find (\<lambda>i. q_oid (cmds ! i) = v_name v) [0..<length cmds] of None \<Rightarrow> None | Some i \<Rightarrow> Some (k + i, cmds ! i))"
  using assms(2)
proof (induction cmds arbitrary: k)
  case (Cons q qs)
  have eq: "snmp_oid_compare lib (v_name v) (q_oid q) = 0 \<longleftrightarrow> q_oid q = v_name v"
    using assms(1) by (auto simp: oid_compare_ok_def)
  have "[0..<length (q # qs)] = 0 # map Suc [0..<length qs]" by (simp add: upt_conv_Cons map_Suc_upt del: upt_Suc)
  moreover have "find P (map f xs) = map_option f (find (P \<circ> f) xs)" for P :: "nat \<Rightarrow> bool" and f :: "nat \<Rightarrow> nat" and xs
    by (induction xs) auto
  ultimately show ?case
    using Cons eq by (auto simp: comp_def split: option.split simp del: upt_Suc)
qed simp

lemma find_index_iff:
  assumes "distinct (map q_oid cmds)"
  shows "find (\<lambda>i. q_oid (cmds ! i) = o1) [0..<length cmds] = Some i \<longleftrightarrow> i < length cmds \<and> q_oid (cmds ! i) = o1"
proof -
  have "i < length cmds \<Longrightarrow> j < length cmds \<Longrightarrow> q_oid (cmds ! i) = q_oid (cmds ! j) \<Longrightarrow> i = j" for i j
    using assms by (simp add: distinct_conv_nth) metis
  note inj = this
  show ?thesis
  proof
    assume "i < length cmds \<and> q_oid (cmds ! i) = o1"
    then show "find (\<lambda>i. q_oid (cmds ! i) = o1) [0..<length cmds] = Some i"
      using inj [of _ i] by (auto simp: find_Some_iff intro!: exI [of _ i]) (metis less_irrefl less_trans)
  qed (auto simp: find_Some_iff)
qed

lemma answer_for_snoc:
  assumes "distinct (map v_name (vs @ [v]))"
  shows "answer_for (vs @ [v]) q = (if q_oid q = v_name v then value_of v (q_type q) (q_len q) else answer_for vs q)"
proof (cases "find (\<lambda>w. v_name w = q_oid q) vs")
  case None
  then have "find (\<lambda>w. v_name w = q_oid q) (vs @ [v]) = (if v_name v = q_oid q then Some v else None)"
    by (induction vs) (auto split: if_splits)
  then show ?thesis using None by (simp add: answer_for_def)
next
  case (Some w)
  then have "v_name w = q_oid q" "w \<in> set vs" by (auto simp: find_Some_iff)
  moreover have "v_name v \<notin> v_name ` set vs" using assms by simp
  ultimately have "q_oid q \<noteq> v_name v" by (metis image_eqI)
  moreover have "find (\<lambda>w. v_name w = q_oid q) (vs @ [v]) = Some w"
    using Some by (induction vs) (auto split: if_splits)
  ultimately show ?thesis using Some by (simp add: answer_for_def)
qed

lemma answer_for_fresh:
  assumes "v_name v \<notin> v_name ` set vs" "q_oid q = v_name v"
  shows "answer_for vs q = None"
proof -
  have "find (\<lambda>w. v_name w = q_oid q) vs = None" using assms unfolding find_None_iff by (metis image_eqI)
  then show ?thesis by (simp add: answer_for_def)
qed

lemma answers_snoc:
  assumes "distinct (map v_name (vs @ [v]))" "distinct (map q_oid cmds)" "i < length cmds" "q_oid (cmds ! i) = v_name v"
  shows "answers (vs @ [v]) cmds =
    (case value_of v (q_type (cmds ! i)) (q_len (cmds ! i)) of
       None \<Rightarrow> answers vs cmds | Some x \<Rightarrow> (answers vs cmds)(i \<mapsto> x))" (is "_ = ?r")
proof
  fix j
  show "answers (vs @ [v]) cmds j = ?r j"
  proof (cases "j = i")
    case True
    then show ?thesis using assms answer_for_fresh [of v vs "cmds ! i"]
      by (simp add: answers_def answer_for_snoc [OF assms(1)] split: option.split)
  next
    case False
    then have "\<not> (j < length cmds \<and> q_oid (cmds ! j) = v_name v)"
      using assms(3,4) find_index_iff [OF assms(2), of "v_name v"] by (metis option.inject)
    then show ?thesis using False by (auto simp: answers_def answer_for_snoc [OF assms(1)] split: option.split)
  qed
qed

lemma query_var_answers:
  assumes "oid_compare_ok lib" "distinct (map q_oid cmds)" "list_all (\<lambda>q. known_type (q_type q)) cmds" "mp_verbose g \<le> 1"
    "distinct (map v_name (vs @ [v]))"
  shows "query_var lib cmds v (answers vs cmds, g) = (answers (vs @ [v]) cmds, g)"
proof (cases "find (\<lambda>i. q_oid (cmds ! i) = v_name v) [0..<length cmds]")
  case None
  then have "\<forall>i < length cmds. q_oid (cmds ! i) \<noteq> v_name v" by (auto simp: find_None_iff)
  then have "answers (vs @ [v]) cmds = answers vs cmds" by (auto simp: answers_def answer_for_snoc [OF assms(5)] fun_eq_iff)
  then show ?thesis using None assms(4) match_cmd_index [OF assms(1,2), of v 0] by (simp add: query_var_def)
next
  case (Some i)
  then have i: "i < length cmds" "q_oid (cmds ! i) = v_name v" using find_index_iff [OF assms(2)] by auto
  have kt: "known_type (q_type (cmds ! i))" using assms(3) i(1) by (simp add: list_all_length)
  show ?thesis
    using Some match_cmd_index [OF assms(1,2), of v 0] assms(4) copy_value_quiet [OF assms(4) kt] no_such_unknown [of v, OF _ kt]
      answers_snoc [OF assms(5,2) i]
    by (auto simp: query_var_def store_var_def split: option.split)
qed

lemma query_vars_answers:
  assumes "oid_compare_ok lib" "distinct (map q_oid cmds)" "list_all (\<lambda>q. known_type (q_type q)) cmds" "mp_verbose g \<le> 1"
    "distinct (map v_name vs)"
  shows "fold (query_var lib cmds) vs (Map.empty, g) = (answers vs cmds, g)"
  using assms(5)
proof (induction vs rule: rev_induct)
  case Nil
  then show ?case by (auto simp: answers_def answer_for_def fun_eq_iff)
next
  case (snoc v vs)
  then show ?case using query_var_answers [OF assms(1-4) snoc.prems] by simp
qed

text \<open>What is documented of \<open>snmp_fix_pdu\<close>: the repaired request is the request less the entry in error.\<close>

definition fix_removes :: "'s snmp_lib \<Rightarrow> bool" where
  "fix_removes lib \<longleftrightarrow> (\<forall>s oids st r s' oids'. snmp_synch_response lib s (Get oids) = (st, Some r, s') \<longrightarrow>
     snmp_fix_pdu lib r = Some oids' \<longrightarrow> 0 < p_errindex r \<and> nat (p_errindex r) \<le> length oids \<and>
       oids' = take (nat (p_errindex r) - 1) oids @ drop (nat (p_errindex r)) oids)"

lemma snmp_send_returns:
  assumes "fix_removes lib"
  shows "length oids < fuel \<Longrightarrow> \<exists>y. snmp_send fuel lib oids s tr g = Some y"
proof (induction fuel arbitrary: oids s g)
  case (Suc n)
  obtain st resp s' where r: "snmp_synch_response lib s (Get oids) = (st, resp, s')" by (metis prod_cases3)
  have "\<exists>y. snmp_send n lib oids' s' tr g' = Some y" if "resp = Some p" "snmp_fix_pdu lib p = Some oids'" for p oids' g'
  proof -
    have "length oids' < length oids" using assms r that by (fastforce simp: fix_removes_def)
    then show ?thesis using Suc by simp
  qed
  then show ?case using r by (auto simp: Let_def split: option.split)
qed simp


lemma query_accepted:
  assumes "oid_compare_ok lib" "distinct (map q_oid cmds)" "list_all (\<lambda>q. known_type (q_type q)) cmds" "mp_verbose g \<le> 1"
    "snmp_synch_response lib s (Get (map q_oid cmds)) = (STAT_SUCCESS, Some \<lparr>p_errstat = 0, p_errindex = 0, p_vars = vs\<rparr>, s')"
    "distinct (map v_name vs)"
  shows "mp_snmp_query (Suc n) lib cmds s Map.empty g = Some (STAT_SUCCESS, answers vs cmds, s', g)"
  using assms(4,5) query_vars_answers [OF assms(1-4,6)] by (simp add: mp_snmp_query_def SNMP_ERR_NOERROR_def)

text \<open>What a query stores. When the agent accepts the request, every entry of the query receives the value of the variable
  of the response that has its name, if the types agree and the value fits, and nothing else is stored.\<close>

theorem mp_snmp_query_answers:
  assumes "oid_compare_ok lib" "distinct (map q_oid cmds)" "list_all (\<lambda>q. known_type (q_type q)) cmds" "mp_verbose g \<le> 1"
    "snmp_synch_response lib s (Get (map q_oid cmds)) = (STAT_SUCCESS, Some \<lparr>p_errstat = 0, p_errindex = 0, p_vars = vs\<rparr>, s')"
    "distinct (map v_name vs)"
  shows "mp_snmp_query (Suc n) lib cmds s Map.empty g = Some (STAT_SUCCESS, answers vs cmds, s', g)"
  using assms by (rule query_accepted)

definition refusing_lib :: "nat snmp_lib" where
  "refusing_lib = \<lparr>snmp_synch_response = (\<lambda>s req. case req of
       Get oids \<Rightarrow> (STAT_SUCCESS, Some \<lparr>p_errstat = 2, p_errindex = 1, p_vars = map (\<lambda>n. int_var n 0) oids\<rparr>, Suc s)
     | _ \<Rightarrow> (STAT_TIMEOUT, None, Suc s)),
     snmp_oid_compare = (\<lambda>a b. if a = b then 0 else if a < b then -1 else 1),
     snmp_oidtree_compare = (\<lambda>a b. 0),
     snmp_fix_pdu = (\<lambda>p. if p_vars p = [] then None else Some (tl (map v_name (p_vars p)))), read_objid = (\<lambda>_. None),
     print_variable = (\<lambda>_. []), snprint_objid = (\<lambda>_. []),
     generate_Ku = (\<lambda>_ _. None), snmp_open_ok = True, snmp_error = (\<lambda>_. []), netsnmp_version = ''5.9''\<rparr>"

lemma refusing_lib_fix: "fix_removes refusing_lib"
  by (auto simp: fix_removes_def refusing_lib_def int_var_def comp_def drop_Suc Suc_le_eq split: if_splits)


theorem mp_snmp_query_answers_witness:
  "mp_snmp_query 1 (snmp_lib_ex mib_ex) [\<lparr>q_oid = [1, 5], q_type = ASN_INTEGER, q_len = 8\<rparr>,
      \<lparr>q_oid = [1, 3, 6], q_type = ASN_GAUGE, q_len = 8\<rparr>] () Map.empty (mp_init [] [] [] [] []) =
     Some (STAT_SUCCESS, [0 \<mapsto> SLong 8], (), mp_init [] [] [] [] [])"
proof -
  let ?c = "[\<lparr>q_oid = [1, 5], q_type = ASN_INTEGER, q_len = 8\<rparr>, \<lparr>q_oid = [1, 3, 6], q_type = ASN_GAUGE, q_len = 8\<rparr>]"
  let ?v = "[int_var [1, 3, 6] 5, int_var [1, 5] 8]"
  have a: "answers ?v ?c = [0 \<mapsto> SLong 8]"
    by (auto simp: answers_def answer_for_def value_of_def int_var_def is_long_type_def snmp_consts fun_eq_iff less_Suc_eq nth_Cons')
  have r: "snmp_synch_response (snmp_lib_ex mib_ex) () (Get (map q_oid ?c)) =
      (STAT_SUCCESS, Some \<lparr>p_errstat = 0, p_errindex = 0, p_vars = ?v\<rparr>, ())"
    by (simp add: snmp_lib_ex_def mib_ex_def int_var_def)
  have h: "distinct (map q_oid ?c)" "list_all (\<lambda>q. known_type (q_type q)) ?c" "mp_verbose (mp_init [] [] [] [] []) \<le> 1"
      "distinct (map v_name ?v)"
    by (simp_all add: known_type_def is_long_type_def mp_init_def int_var_def)
  show ?thesis using mp_snmp_query_answers [OF snmp_lib_ex_ok(1) h(1-3) r h(4), of 0] unfolding a by simp
qed

end
