(* ===== verification/Check_SNMP.thy ===== *)
theory Check_SNMP
  imports SNMP_Utils
begin

text \<open>
  The plugins of \<^verbatim>\<open>snmp/\<close> that read single values or one table: \<^verbatim>\<open>check_interface.c\<close>, \<^verbatim>\<open>check_keepalived_vrrp.c\<close>,
  \<^verbatim>\<open>check_qnap_vols.c\<close>, \<^verbatim>\<open>check_qnap_disks.c\<close>, \<^verbatim>\<open>check_arc_raid.c\<close>, and \<^verbatim>\<open>rhcs/check_rhcsnmp.c\<close>.

  The environment of a plugin is the Net-SNMP library, the state of the agent, the number of requests the plugin
  may send before its alarm, and the texts that fresh memory holds. A main function is \<open>None\<close> when that number of
  requests was not enough. An index outside of a table of texts is \<open>Crash\<close>.
\<close>

section \<open>What the plugins share\<close>

record 's snmp_env =
  en_lib :: "'s snmp_lib"
  en_agent :: 's
  en_fuel :: nat

record snmp_host =
  sh_hostname :: "string option"
  sh_port :: int
  sh_snmp :: snmp_args

definition snmp_host0 :: snmp_host where
  "snmp_host0 = \<lparr>sh_hostname = None, sh_port = 161, sh_snmp = snmp_args0\<rparr>"

text \<open>The options of every plugin: those of SNMP, the host and the port.\<close>

definition snmp_host_opt :: "bool \<Rightarrow> resolver \<Rightarrow> ('a snmp_host_scheme) opt_handler" where
  "snmp_host_opt v6 gai c optarg a g =
     (case getopt_snmp c optarg (sh_snmp a) g of
        Inl e \<Rightarrow> Inl e
      | Inr s \<Rightarrow>
          let a = a\<lparr>sh_snmp := s\<rparr>
          in if c = CHR ''H'' then map_sum (\<lambda>e. e) (\<lambda>h. a\<lparr>sh_hostname := Some h\<rparr>) (getopt_host v6 gai optarg g)
             else if c = CHR ''P'' then map_sum (\<lambda>e. e) (\<lambda>p. a\<lparr>sh_port := p\<rparr>) (getopt_port optarg g)
             else Inr a)"

definition snmp_process_arguments ::
    "('a snmp_host_scheme) opt_handler \<Rightarrow> 'a snmp_host_scheme \<Rightarrow> int \<Rightarrow> nat \<Rightarrow> string \<Rightarrow> (char \<times> string) list \<Rightarrow> mp_globals \<Rightarrow>
     mp_end + 'a snmp_host_scheme" where
  "snmp_process_arguments handler a0 state argc help os g =
     (if argc < 3 then Inl (Exit state (stdout g @ help)) else run_opts handler os a0 g)"

definition oct_cmd :: "oid \<Rightarrow> snmp_query_cmd" where
  "oct_cmd n = \<lparr>q_oid = n, q_type = ASN_OCTET_STR, q_len = 0\<rparr>"

definition long_cmd :: "int \<Rightarrow> oid \<Rightarrow> snmp_query_cmd" where
  "long_cmd t n = \<lparr>q_oid = n, q_type = t, q_len = 8\<rparr>"

definition long_at :: "targets \<Rightarrow> nat \<Rightarrow> int \<Rightarrow> int" where
  "long_at ts i d = (case ts i of Some (SLong x) \<Rightarrow> x | _ \<Rightarrow> d)"

definition text_at :: "targets \<Rightarrow> nat \<Rightarrow> string option" where
  "text_at ts i = (case ts i of Some (SText s) \<Rightarrow> Some s | _ \<Rightarrow> None)"

definition entry_of :: "'a list \<Rightarrow> int \<Rightarrow> 'a option" where
  "entry_of xs i = (if 0 \<le> i \<and> i < int (length xs) then Some (xs ! nat i) else None)"

text \<open>A \<open>for\<close> loop over the rows of a table: the body tells whether the loop goes on. The result holds the index at the end.\<close>

fun for_rows :: "(nat \<Rightarrow> 'st \<Rightarrow> bool \<times> 'st) \<Rightarrow> nat \<Rightarrow> nat \<Rightarrow> 'st \<Rightarrow> nat \<times> 'st" where
  "for_rows body i 0 st = (i, st)"
| "for_rows body i (Suc n) st =
     (case body i st of (continue, st) \<Rightarrow> if continue then for_rows body (Suc i) n st else (i, st))"

text \<open>The session and the walk over the table of a plugin; the rest of the plugin receives the state of the agent, the status of the
  walk and the table.\<close>

definition with_table ::
    "'s snmp_env \<Rightarrow> 'a snmp_host_scheme \<Rightarrow> oid \<Rightarrow> mp_globals \<Rightarrow> ('s \<Rightarrow> int \<Rightarrow> snmp_var list \<Rightarrow> mp_globals \<Rightarrow> mp_end) \<Rightarrow> mp_end option" where
  "with_table env a sub g finish =
     (case mp_snmp_init (en_lib env) (sh_snmp a) (sh_hostname a) (sh_port a) g of
        Inl e \<Rightarrow> Some e
      | Inr session \<Rightarrow>
          (case mp_snmp_subtree_query (en_fuel env) (en_lib env) (ss_version session) sub (en_agent env) g of
             None \<Rightarrow> None
           | Some (Inl e) \<Rightarrow> Some e
           | Some (Inr (rc, table, s, g)) \<Rightarrow> Some (finish s rc table g)))"

section \<open>check\_interface\<close>

definition check_interface_globals :: mp_globals where
  "check_interface_globals = mp_init ''check_interface''
     (''-H <HOST> -I <ifIndex>'')
     ''0.1'' ''Marius Rieder <marius.rieder@durchmesser.ch>'' ''2010''"

definition check_interface_print_help :: "'s snmp_lib \<Rightarrow> string \<Rightarrow> string \<Rightarrow> string" where
  "check_interface_print_help lib package version =
     print_revision package version check_interface_globals @
     print_revision_snmp lib @
     print_copyright check_interface_globals @
     help_lines
       [[],
        ''Check description: Check interface status by SNMP IF-MIB.'',
        []] @
     print_usage check_interface_globals @
     print_help_default @
     help_lines
       ['' -I, --interface=[INDEX]'',
        ''      Index of Interface to check.'',
        '' -d, --down'',
        ''      Check for interface being down.'',
        '' -s --should=[STATE]'',
        ''      Check for interface being in STATE.''] @
     print_help_snmp"

record if_args = snmp_host +
  ifIndex :: int
  should :: int

definition if_args0 :: if_args where
  "if_args0 = snmp_host.extend snmp_host0 (if_args.fields 0 1)"

definition should_index :: "string \<Rightarrow> int" where
  "should_index s = (case find (\<lambda>i. ifOperStatusText ! i = s) [1..<9] of None \<Rightarrow> 9 | Some i \<Rightarrow> int i)"

definition interface_opt :: "bool \<Rightarrow> resolver \<Rightarrow> if_args opt_handler" where
  "interface_opt v6 gai c optarg a g =
     (case snmp_host_opt v6 gai c optarg a g of
        Inl e \<Rightarrow> Inl e
      | Inr a \<Rightarrow>
          if c = CHR ''I'' then Inr (a\<lparr>ifIndex := to_int32 (strtol 10 optarg)\<rparr>)
          else if c = CHR ''d'' then Inr (a\<lparr>should := 2\<rparr>)
          else if c = CHR ''s'' then Inr (a\<lparr>should := should_index optarg\<rparr>)
          else Inr a)"

definition interface_process_arguments ::
    "bool \<Rightarrow> resolver \<Rightarrow> nat \<Rightarrow> string \<Rightarrow> (char \<times> string) list \<Rightarrow> mp_globals \<Rightarrow> mp_end + if_args" where
  "interface_process_arguments v6 gai argc help os g =
     (case snmp_process_arguments (interface_opt v6 gai) if_args0 STATE_OK argc help os g of
        Inl e \<Rightarrow> Inl e
      | Inr a \<Rightarrow>
          if 7 < should a
          then Inl (usage ''should is one of up, down, testing, inknown, dormant, notPresent, lowerLayerDown'' g) else Inr a)"

definition if_oid :: "int \<Rightarrow> int \<Rightarrow> oid" where
  "if_oid column index = [1, 3, 6, 1, 2, 1, 2, 2, 1, column, index mod 2 ^ 64]"

definition if_cmds :: "int \<Rightarrow> snmp_query_cmd list" where
  "if_cmds index =
     [oct_cmd (if_oid 2 index), long_cmd ASN_GAUGE (if_oid 5 index), long_cmd ASN_INTEGER (if_oid 8 index),
      long_cmd ASN_COUNTER (if_oid 10 index), long_cmd ASN_COUNTER (if_oid 14 index),
      long_cmd ASN_COUNTER (if_oid 16 index), long_cmd ASN_COUNTER (if_oid 20 index)]"

definition interface_report :: "if_args \<Rightarrow> targets \<Rightarrow> mp_globals \<Rightarrow> mp_end" where
  "interface_report a ts g =
     (case text_at ts 0 of
        None \<Rightarrow> unknown (''Interface with index '' @ fmt_d (ifIndex a) @ '' not found.'') g
      | Some ifDescr \<Rightarrow>
          let p = (\<lambda>label i u g. snd (mp_perfdata_int label (long_at ts i 0) u None g));
              g = p ''ifInOctets'' 3 ''c'' g;
              g = p ''ifInErrors'' 4 ''c'' g;
              g = p ''ifOutOctets'' 5 ''c'' g;
              g = p ''ifOutErrors'' 6 ''c'' g;
              g = p ''ifSpeed'' 1 [] g;
              ifOperStatus = long_at ts 2 0
          in case entry_of ifOperStatusText (to_int32 ifOperStatus) of
               None \<Rightarrow> Crash
             | Some t \<Rightarrow> (if ifOperStatus = should a then ok else critical) (ifDescr @ '' is '' @ t) g)"

text \<open>The status of the query is not looked at.\<close>

definition check_interface_main ::
    "bool \<Rightarrow> resolver \<Rightarrow> 's snmp_env \<Rightarrow> nat \<Rightarrow> string \<Rightarrow> (char \<times> string) list \<Rightarrow> mp_globals \<Rightarrow> mp_end option" where
  "check_interface_main v6 gai env argc help os g =
     (case interface_process_arguments v6 gai argc help os g of
        Inl e \<Rightarrow> Some e
      | Inr a \<Rightarrow>
          (case mp_snmp_init (en_lib env) (sh_snmp a) (sh_hostname a) (sh_port a) g of
             Inl e \<Rightarrow> Some e
           | Inr _ \<Rightarrow>
               (case mp_snmp_query (en_fuel env) (en_lib env) (if_cmds (ifIndex a)) (en_agent env) Map.empty g of
                  None \<Rightarrow> None
                | Some (_, ts, _, g) \<Rightarrow> Some (interface_report a ts g))))"

section \<open>check\_rhcsnmp\<close>

definition check_rhcsnmp_globals :: mp_globals where
  "check_rhcsnmp_globals = mp_init ''check_rhc''
     (''-H <HOST>'')
     ''0.1'' ''Marius Rieder <marius.rieder@durchmesser.ch>'' ''2010''"

definition check_rhcsnmp_print_help :: "'s snmp_lib \<Rightarrow> string \<Rightarrow> string \<Rightarrow> string" where
  "check_rhcsnmp_print_help lib package version =
     print_revision package version check_rhcsnmp_globals @
     print_revision_snmp lib @
     print_copyright check_rhcsnmp_globals @
     help_lines
       [[],
        ''Check description: Check a RedHat Cluster Suite by snmp.'',
        []] @
     print_usage check_rhcsnmp_globals @
     print_help_default @
     print_help_snmp"

definition rhc_oid :: "int \<Rightarrow> oid" where
  "rhc_oid k = [1, 3, 6, 1, 4, 1, 2312, 8, 2, k, 0]"

definition rhc_cmds :: "snmp_query_cmd list" where
  "rhc_cmds =
     [oct_cmd (rhc_oid 1), long_cmd ASN_INTEGER (rhc_oid 2), oct_cmd (rhc_oid 3), long_cmd ASN_INTEGER (rhc_oid 5),
      long_cmd ASN_INTEGER (rhc_oid 4), long_cmd ASN_INTEGER (rhc_oid 7)]"

definition rhcsnmp_report :: "targets \<Rightarrow> mp_globals \<Rightarrow> mp_end" where
  "rhcsnmp_report ts g =
     (let clusterstatus = long_at ts 1 255; clustervotes = long_at ts 3 0; clusterquorum = long_at ts 4 0;
          clusternodes = long_at ts 5 0
      in case text_at ts 0 of
           None \<Rightarrow> unknown ''No Cluster Status found'' g
         | Some clustername \<Rightarrow>
             if clusterstatus = 255 then unknown ''No Cluster Status found'' g
             else
               let g = (if mp_showperfdata g
                        then mp_perfdata_int3 ''votes'' clustervotes [] True clusterquorum True (clusterquorum - 1)
                               True 0 True clusternodes g else g);
                   t = clustername @ '' ['' @ fmt_s (text_at ts 2) @ '']''
               in if clusterstatus < 2 then ok t g
                  else if clusterstatus < 16 then warning t g
                  else critical t g)"

definition rhcsnmp_process_arguments ::
    "bool \<Rightarrow> resolver \<Rightarrow> nat \<Rightarrow> string \<Rightarrow> (char \<times> string) list \<Rightarrow> mp_globals \<Rightarrow> mp_end + snmp_host" where
  "rhcsnmp_process_arguments v6 gai argc help os g =
     snmp_process_arguments (snmp_host_opt v6 gai) snmp_host0 STATE_OK argc help os g"

definition check_rhcsnmp_main ::
    "bool \<Rightarrow> resolver \<Rightarrow> 's snmp_env \<Rightarrow> nat \<Rightarrow> string \<Rightarrow> (char \<times> string) list \<Rightarrow> mp_globals \<Rightarrow> mp_end option" where
  "check_rhcsnmp_main v6 gai env argc help os g =
     (case rhcsnmp_process_arguments v6 gai argc help os g of
        Inl e \<Rightarrow> Some e
      | Inr a \<Rightarrow>
          (case mp_snmp_init (en_lib env) (sh_snmp a) (sh_hostname a) (sh_port a) g of
             Inl e \<Rightarrow> Some e
           | Inr _ \<Rightarrow>
               (case mp_snmp_query (en_fuel env) (en_lib env) rhc_cmds (en_agent env) Map.empty g of
                  None \<Rightarrow> None
                | Some (status, ts, _, g) \<Rightarrow>
                    Some (if status = STAT_ERROR then unknown ''Error in libnetsnmp'' g
                          else if status = STAT_TIMEOUT then critical ''Timeout in libnetsnmp'' g
                          else rhcsnmp_report ts g))))"

section \<open>check\_qnap\_vols\<close>

definition check_qnap_vols_globals :: mp_globals where
  "check_qnap_vols_globals = mp_init ''check_qnap_vols''
     (''--hostname <HOSTNAME>'')
     ''0.1'' ''Marius Rieder <marius.rieder@durchmesser.ch>'' ''2011''"

definition check_qnap_vols_print_help :: "'s snmp_lib \<Rightarrow> string \<Rightarrow> string \<Rightarrow> string" where
  "check_qnap_vols_print_help lib package version =
     print_revision package version check_qnap_vols_globals @
     print_revision_snmp lib @
     print_copyright check_qnap_vols_globals @
     help_lines
       [[],
        ''Check description: Check the volumes of a QNAP NAS by snmp.'',
        []] @
     print_usage check_qnap_vols_globals @
     print_help_default @
     print_help_snmp"

definition qnap_process_arguments ::
    "bool \<Rightarrow> resolver \<Rightarrow> nat \<Rightarrow> string \<Rightarrow> (char \<times> string) list \<Rightarrow> mp_globals \<Rightarrow> mp_end + snmp_host" where
  "qnap_process_arguments v6 gai argc help os g =
     snmp_process_arguments (snmp_host_opt v6 gai) snmp_host0 STATE_OK argc help os g"

definition QNAP_VOL :: oid where "QNAP_VOL = [1, 3, 6, 1, 4, 1, 24681, 1, 2, 17]"

text \<open>The state of the loop: the two text buffers, the message, the status and the globals. A buffer keeps its text when a
  value is not stored.\<close>

record row_st =
  rw_state :: string
  rw_name :: string
  rw_out :: "cbuf option"
  rw_status :: int
  rw_globals :: mp_globals

definition row_text ::
    "'s snmp_lib \<Rightarrow> snmp_var list \<Rightarrow> oid \<Rightarrow> nat \<Rightarrow> nat \<Rightarrow> string \<Rightarrow> mp_globals \<Rightarrow> bool \<times> string \<times> mp_globals" where
  "row_text lib table pre i len buf g =
     (case mp_snmp_subtree_get_value lib table pre i ASN_OCTET_STR len g of
        (Some (SText s), g) \<Rightarrow> (True, s, g)
      | (_, g) \<Rightarrow> (False, buf, g))"

definition vol_row :: "'s snmp_lib \<Rightarrow> snmp_var list \<Rightarrow> nat \<Rightarrow> row_st \<Rightarrow> bool \<times> row_st" where
  "vol_row lib table i st =
     (case row_text lib table (QNAP_VOL @ [1, 6]) i 24 (rw_state st) (rw_globals st) of
        (rc, vol_state, g) \<Rightarrow>
          let st = st\<lparr>rw_state := vol_state, rw_globals := g\<rparr>
          in if \<not> rc then (False, st)
             else if vol_state = ''Ready'' then (True, st)
             else
               (case row_text lib table (QNAP_VOL @ [1, 2]) i 64 (rw_name st) g of
                  (_, vol_name, g) \<Rightarrow>
                    (True, st\<lparr>rw_name := vol_name,
                            rw_out := mp_strcat_space (mp_strcat_space (mp_strcat_comma (rw_out st) (Some vol_name))
                                        (Some ''is'')) (Some vol_state),
                            rw_status := (if rw_status st = STATE_CRITICAL \<or> vol_state = ''In degraded mode''
                                          then STATE_CRITICAL else STATE_WARNING),
                            rw_globals := g\<rparr>)))"

definition buf_text :: "cbuf option \<Rightarrow> string" where
  "buf_text b = fmt_s (map_option cstr b)"

definition vols_report :: "'s snmp_lib \<Rightarrow> string \<Rightarrow> string \<Rightarrow> 's \<Rightarrow> int \<Rightarrow> snmp_var list \<Rightarrow> mp_globals \<Rightarrow> mp_end" where
  "vols_report lib junk1 junk2 s rc table g =
     (if rc \<noteq> STAT_SUCCESS then unknown (''QNAP: Error fetching table: '' @ snmp_error lib s) g
      else
        case for_rows (vol_row lib table) 0 (length table)
               \<lparr>rw_state = junk1, rw_name = junk2, rw_out = None, rw_status = STATE_OK, rw_globals = g\<rparr> of
          (i, st) \<Rightarrow>
            if i = 0 then unknown ''QNAP: No Volumes found.'' (rw_globals st)
            else if rw_status st = STATE_OK then ok (''QNAP: All Volumes are '' @ [CHR 0x22] @ ''Ready'' @ [CHR 0x22]) (rw_globals st)
            else if rw_status st = STATE_WARNING then warning (''QNAP: '' @ buf_text (rw_out st)) (rw_globals st)
            else critical (''QNAP: '' @ buf_text (rw_out st)) (rw_globals st))"

definition check_qnap_vols_main ::
    "bool \<Rightarrow> resolver \<Rightarrow> 's snmp_env \<Rightarrow> string \<Rightarrow> string \<Rightarrow> nat \<Rightarrow> string \<Rightarrow> (char \<times> string) list \<Rightarrow> mp_globals \<Rightarrow> mp_end option" where
  "check_qnap_vols_main v6 gai env junk1 junk2 argc help os g =
     (case qnap_process_arguments v6 gai argc help os g of
        Inl e \<Rightarrow> Some e
      | Inr a \<Rightarrow> with_table env a QNAP_VOL g (vols_report (en_lib env) junk1 junk2))"

section \<open>check\_qnap\_disks\<close>

definition check_qnap_disks_globals :: mp_globals where
  "check_qnap_disks_globals = mp_init ''check_qnap_disks''
     (''--hostname <HOSTNAME>'')
     ''0.1'' ''Marius Rieder <marius.rieder@durchmesser.ch>'' ''2011''"

definition check_qnap_disks_print_help :: "'s snmp_lib \<Rightarrow> string \<Rightarrow> string \<Rightarrow> string" where
  "check_qnap_disks_print_help lib package version =
     print_revision package version check_qnap_disks_globals @
     print_revision_snmp lib @
     print_copyright check_qnap_disks_globals @
     help_lines
       [[],
        ''Check description: Check the disks of a QNAP NAS by snmp.'',
        []] @
     print_usage check_qnap_disks_globals @
     print_help_default @
     print_help_snmp"

definition qnap_disks_process_arguments ::
    "bool \<Rightarrow> resolver \<Rightarrow> nat \<Rightarrow> string \<Rightarrow> (char \<times> string) list \<Rightarrow> mp_globals \<Rightarrow> mp_end + snmp_host" where
  "qnap_disks_process_arguments v6 gai argc help os g =
     snmp_process_arguments (snmp_host_opt v6 gai) snmp_host0 STATE_OK argc help os g"

definition HDD_Ready :: int where "HDD_Ready = 0"
definition HDD_NoDisk :: int where "HDD_NoDisk = -5"
definition HDD_Invalid :: int where "HDD_Invalid = -6"
definition HDD_RWError :: int where "HDD_RWError = -9"
definition HDD_Unknown :: int where "HDD_Unknown = -4"

definition disk_text :: "int \<Rightarrow> string" where
  "disk_text st =
     (if st = HDD_NoDisk then ''missing'' else if st = HDD_Invalid then ''invalid''
      else if st = HDD_RWError then ''r/w-error'' else ''unknown'')"

definition QNAP_HDD :: oid where "QNAP_HDD = [1, 3, 6, 1, 4, 1, 24681, 1, 2, 11]"

definition disk_row :: "'s snmp_lib \<Rightarrow> snmp_var list \<Rightarrow> nat \<Rightarrow> row_st \<Rightarrow> bool \<times> row_st" where
  "disk_row lib table i st =
     (case mp_snmp_subtree_get_value lib table (QNAP_HDD @ [1, 4]) i ASN_INTEGER 8 (rw_globals st) of
        (Some (SLong disk_state), g) \<Rightarrow>
          let st = st\<lparr>rw_globals := g\<rparr>
          in if disk_state = HDD_Ready then (True, st)
             else
               (case row_text lib table (QNAP_HDD @ [1, 2]) i 64 (rw_name st) g of
                  (_, disk_name, g) \<Rightarrow>
                    (True, st\<lparr>rw_name := disk_name,
                            rw_out := mp_strcat_space (mp_strcat_comma (rw_out st) (Some disk_name)) (Some (disk_text disk_state)),
                            rw_status := STATE_CRITICAL, rw_globals := g\<rparr>))
      | (_, g) \<Rightarrow> (False, st\<lparr>rw_globals := g\<rparr>))"

definition disks_report :: "'s snmp_lib \<Rightarrow> string \<Rightarrow> 's \<Rightarrow> int \<Rightarrow> snmp_var list \<Rightarrow> mp_globals \<Rightarrow> mp_end" where
  "disks_report lib junk s rc table g =
     (if rc \<noteq> STAT_SUCCESS then unknown (''QNAP: Error fetching table: '' @ snmp_error lib s) g
      else
        case for_rows (disk_row lib table) 0 (length table)
               \<lparr>rw_state = [], rw_name = junk, rw_out = None, rw_status = STATE_OK, rw_globals = g\<rparr> of
          (i, st) \<Rightarrow>
            if i = 0 then unknown ''QNAP: No Disks found.'' (rw_globals st)
            else if rw_status st = STATE_OK then ok (''QNAP: All Disks '' @ [CHR 0x22] @ ''GOOD'' @ [CHR 0x22]) (rw_globals st)
            else critical (''QNAP: '' @ buf_text (rw_out st)) (rw_globals st))"

definition check_qnap_disks_main ::
    "bool \<Rightarrow> resolver \<Rightarrow> 's snmp_env \<Rightarrow> string \<Rightarrow> nat \<Rightarrow> string \<Rightarrow> (char \<times> string) list \<Rightarrow> mp_globals \<Rightarrow> mp_end option" where
  "check_qnap_disks_main v6 gai env junk argc help os g =
     (case qnap_disks_process_arguments v6 gai argc help os g of
        Inl e \<Rightarrow> Some e
      | Inr a \<Rightarrow> with_table env a QNAP_HDD g (disks_report (en_lib env) junk))"

section \<open>check\_arc\_raid\<close>

definition check_arc_raid_globals :: mp_globals where
  "check_arc_raid_globals = mp_init ''check_arc_raid''
     (''--hostname <HOSTNAME>'')
     ''0.1'' ''Marius Rieder <marius.rieder@durchmesser.ch>'' ''2011''"

definition check_arc_raid_print_help :: "'s snmp_lib \<Rightarrow> string \<Rightarrow> string \<Rightarrow> string" where
  "check_arc_raid_print_help lib package version =
     print_revision package version check_arc_raid_globals @
     print_revision_snmp lib @
     print_copyright check_arc_raid_globals @
     help_lines
       [[],
        ''Check description: Check the raids of a Areca RAID Controller by snmp.'',
        []] @
     print_usage check_arc_raid_globals @
     print_help_default @
     print_help_snmp"

definition arc_process_arguments ::
    "bool \<Rightarrow> resolver \<Rightarrow> nat \<Rightarrow> string \<Rightarrow> (char \<times> string) list \<Rightarrow> mp_globals \<Rightarrow> mp_end + snmp_host" where
  "arc_process_arguments v6 gai argc help os g =
     snmp_process_arguments (snmp_host_opt v6 gai) snmp_host0 STATE_OK argc help os g"

definition ARC_RAID :: oid where "ARC_RAID = [1, 3, 6, 1, 4, 1, 18928, 1, 2, 4, 1]"

definition raid_row :: "'s snmp_lib \<Rightarrow> snmp_var list \<Rightarrow> nat \<Rightarrow> row_st \<Rightarrow> bool \<times> row_st" where
  "raid_row lib table i st =
     (case row_text lib table (ARC_RAID @ [1, 4]) i 24 (rw_state st) (rw_globals st) of
        (rc, raid_state, g) \<Rightarrow>
          let st = st\<lparr>rw_state := raid_state, rw_globals := g\<rparr>
          in if \<not> rc then (False, st)
             else if raid_state = ''Normal'' \<or> raid_state = ''Checking'' then (True, st)
             else
               (case row_text lib table (ARC_RAID @ [1, 2]) i 64 (rw_name st) g of
                  (_, raid_name, g) \<Rightarrow>
                    (True, st\<lparr>rw_name := raid_name,
                            rw_out := mp_strcat_space (mp_strcat_space (mp_strcat_comma (rw_out st) (Some raid_name))
                                        (Some ''is'')) (Some raid_state),
                            rw_status := (if rw_status st = STATE_CRITICAL \<or> raid_state \<noteq> ''Rebuilding''
                                          then STATE_CRITICAL else STATE_WARNING),
                            rw_globals := g\<rparr>)))"

text \<open>A failed walk prints its error, and the plugin goes on with the rows fetched so far.\<close>

definition raid_report :: "'s snmp_lib \<Rightarrow> string \<Rightarrow> string \<Rightarrow> 's \<Rightarrow> int \<Rightarrow> snmp_var list \<Rightarrow> mp_globals \<Rightarrow> mp_end" where
  "raid_report lib junk1 junk2 s rc table g =
     (let g = (if rc \<noteq> STAT_SUCCESS then mp_print (''Error fetching table: '' @ snmp_error lib s) g else g)
      in case for_rows (raid_row lib table) 0 (length table)
               \<lparr>rw_state = junk1, rw_name = junk2, rw_out = None, rw_status = STATE_OK, rw_globals = g\<rparr> of
          (i, st) \<Rightarrow>
            if i = 0 then unknown ''ARC: No raid set found.'' (rw_globals st)
            else if rw_status st = STATE_OK
            then ok (''ARC: All RAIDs in '' @ [CHR 0x22] @ ''Normal'' @ [CHR 0x22] @ '' state.'') (rw_globals st)
            else if rw_status st = STATE_WARNING then warning (''ARC: '' @ buf_text (rw_out st)) (rw_globals st)
            else critical (''ARC: '' @ buf_text (rw_out st)) (rw_globals st))"

definition check_arc_raid_main ::
    "bool \<Rightarrow> resolver \<Rightarrow> 's snmp_env \<Rightarrow> string \<Rightarrow> string \<Rightarrow> nat \<Rightarrow> string \<Rightarrow> (char \<times> string) list \<Rightarrow> mp_globals \<Rightarrow> mp_end option" where
  "check_arc_raid_main v6 gai env junk1 junk2 argc help os g =
     (case arc_process_arguments v6 gai argc help os g of
        Inl e \<Rightarrow> Some e
      | Inr a \<Rightarrow> with_table env a ARC_RAID g (raid_report (en_lib env) junk1 junk2))"

section \<open>check\_keepalived\_vrrp\<close>

definition check_keepalived_vrrp_globals :: mp_globals where
  "check_keepalived_vrrp_globals = mp_init ''check_keepalived_vrrp''
     (''--hostname <HOSTNAME>'')
     ''0.1'' ''Marius Rieder <marius.rieder@durchmesser.ch>'' ''2014''"

definition check_keepalived_vrrp_print_help :: "'s snmp_lib \<Rightarrow> string \<Rightarrow> string \<Rightarrow> string" where
  "check_keepalived_vrrp_print_help lib package version =
     print_revision package version check_keepalived_vrrp_globals @
     print_revision_snmp lib @
     print_copyright check_keepalived_vrrp_globals @
     help_lines
       [[],
        ''Check description: Check the VRRP State of Keepalived by snmp.'',
        []] @
     print_usage check_keepalived_vrrp_globals @
     print_help_default @
     print_help_snmp"

record vrrp_args = snmp_host +
  instance_names :: "string option list"
  instances :: nat

definition vrrp_args0 :: vrrp_args where
  "vrrp_args0 = snmp_host.extend snmp_host0 (vrrp_args.fields [] 0)"

definition vrrp_opt :: "bool \<Rightarrow> resolver \<Rightarrow> vrrp_args opt_handler" where
  "vrrp_opt v6 gai c optarg a g =
     (case snmp_host_opt v6 gai c optarg a g of
        Inl e \<Rightarrow> Inl e
      | Inr a \<Rightarrow>
          if c = CHR ''i''
          then (case mp_array_push (instance_names a) (Some optarg) (instances a) of
                  (names, n) \<Rightarrow> Inr (a\<lparr>instance_names := names, instances := n\<rparr>))
          else Inr a)"

definition vrrp_process_arguments ::
    "bool \<Rightarrow> resolver \<Rightarrow> nat \<Rightarrow> string \<Rightarrow> (char \<times> string) list \<Rightarrow> mp_globals \<Rightarrow> mp_end + vrrp_args" where
  "vrrp_process_arguments v6 gai argc help os g =
     snmp_process_arguments (vrrp_opt v6 gai) vrrp_args0 STATE_OK argc help os g"

definition VRRP_TABLE :: oid where "VRRP_TABLE = [1, 3, 6, 1, 4, 1, 9586, 100, 5, 2, 3, 1]"

definition STATENAME :: "string list" where "STATENAME = [[], ''BACKUP'', ''MASTER'']"

text \<open>The first pattern that matches the name; a pattern that was matched before is NULL. \<open>None\<close> is the empty pattern.\<close>

fun match_instance :: "string \<Rightarrow> nat \<Rightarrow> string option list \<Rightarrow> nat option option" where
  "match_instance name j [] = Some None"
| "match_instance name j (None # ps) = match_instance name (Suc j) ps"
| "match_instance name j (Some p # ps) =
     (case mp_strmatch name p of
        None \<Rightarrow> None
      | Some m \<Rightarrow> if m then Some (Some j) else match_instance name (Suc j) ps)"

definition is_pattern :: "string \<Rightarrow> bool" where
  "is_pattern p \<longleftrightarrow> last p = CHR ''*''"

record vrrp_st =
  vr_name :: string
  vr_instances :: "string option list"
  vr_crash :: bool
  vr_globals :: mp_globals

text \<open>Whether a row is looked at, and the patterns left.\<close>

definition select_instance :: "string \<Rightarrow> string option list \<Rightarrow> (bool \<times> string option list) option" where
  "select_instance name ps =
     (if ps = [] then Some (True, ps)
      else case match_instance name 0 ps of
             None \<Rightarrow> None
           | Some None \<Rightarrow> Some (False, ps)
           | Some (Some j) \<Rightarrow>
               Some (True, if \<not> is_pattern (the (ps ! j)) then ps[j := None] else ps))"

definition vrrp_long :: "'s snmp_lib \<Rightarrow> snmp_var list \<Rightarrow> int \<Rightarrow> int \<Rightarrow> nat \<Rightarrow> mp_globals \<Rightarrow> int option \<times> mp_globals" where
  "vrrp_long lib table column t i g =
     (case mp_snmp_subtree_get_value lib table (VRRP_TABLE @ [column]) i t 8 g of
        (Some (SLong x), g) \<Rightarrow> (Some x, g) | (_, g) \<Rightarrow> (None, g))"

definition vrrp_check :: "'s snmp_lib \<Rightarrow> snmp_var list \<Rightarrow> nat \<Rightarrow> string \<Rightarrow> mp_globals \<Rightarrow> mp_globals option" where
  "vrrp_check lib table i name g =
     (case vrrp_long lib table 3 ASN_GAUGE i g of
        (None, g) \<Rightarrow> Some (set_warning (''Fetching vrrp_if for instance '' @ fmt_d (int i) @ '' failed'') g)
      | (Some vrrp_id, g) \<Rightarrow>
     (case vrrp_long lib table 4 ASN_INTEGER i g of
        (None, g) \<Rightarrow> Some (set_warning (''Fetching vrrp_state for instance '' @ fmt_d (int i) @ '' failed'') g)
      | (Some vrrp_state, g) \<Rightarrow>
     (case vrrp_long lib table 5 ASN_INTEGER i g of
        (None, g) \<Rightarrow> Some (set_warning (''Fetching vrrp_state_initial for instance '' @ fmt_d (int i) @ '' failed'') g)
      | (Some vrrp_state_initial, g) \<Rightarrow>
          let g = (if mp_verbose g \<noteq> 0
                   then mp_print (''vrrpInstanceName '' @ fmt_d (int i) @ '' => '' @ name @ nl @ '' ID => '' @ fmt_d vrrp_id @ nl @
                          '' Status => '' @ fmt_d vrrp_state @ '' (should: '' @ fmt_d vrrp_state_initial @ '')'' @ nl) g else g)
          in if vrrp_state \<noteq> vrrp_state_initial
             then map_option (\<lambda>t. set_warning (name @ ''('' @ fmt_d vrrp_id @ '') is '' @ t) g) (entry_of STATENAME vrrp_state)
             else Some g)))"

definition vrrp_row :: "'s snmp_lib \<Rightarrow> snmp_var list \<Rightarrow> nat \<Rightarrow> vrrp_st \<Rightarrow> bool \<times> vrrp_st" where
  "vrrp_row lib table i st =
     (case row_text lib table (VRRP_TABLE @ [2]) i 24 (vr_name st) (vr_globals st) of
        (rc, name, g) \<Rightarrow>
          let st = st\<lparr>vr_name := name, vr_globals := g\<rparr>
          in if \<not> rc then (False, st)
             else
               (case select_instance name (vr_instances st) of
                  None \<Rightarrow> (False, st\<lparr>vr_crash := True\<rparr>)
                | Some (sel, ps) \<Rightarrow>
                    if \<not> sel then (True, st)
                    else (case vrrp_check lib table i name g of
                            None \<Rightarrow> (False, st\<lparr>vr_crash := True\<rparr>)
                          | Some g \<Rightarrow> (True, st\<lparr>vr_instances := ps, vr_globals := g\<rparr>))))"

text \<open>The last character of an empty pattern is read in front of the text: \<open>None\<close>.\<close>

definition vrrp_missing :: "string option list \<Rightarrow> mp_globals \<Rightarrow> mp_globals option" where
  "vrrp_missing ps g =
     (if Some [] \<in> set ps then None
      else Some (fold (\<lambda>p g. case p of
                   None \<Rightarrow> g
                 | Some t \<Rightarrow> if \<not> is_pattern t then set_critical (t @ '' (not found)'') g else g) ps g))"

text \<open>With patterns, the counter that is tested for 0 is that of the last loop, the number of patterns, and never 0.\<close>

definition vrrp_report :: "vrrp_args \<Rightarrow> 's snmp_lib \<Rightarrow> string \<Rightarrow> 's \<Rightarrow> int \<Rightarrow> snmp_var list \<Rightarrow> mp_globals \<Rightarrow> mp_end" where
  "vrrp_report a lib junk s rc table g =
     (if rc \<noteq> STAT_SUCCESS then unknown (''Keepalived VRRP: Error fetching table: '' @ snmp_error lib s) g
      else
        case for_rows (vrrp_row lib table) 0 (length table)
               \<lparr>vr_name = junk, vr_instances = instance_names a, vr_crash = False, vr_globals = g\<rparr> of
          (i, st) \<Rightarrow>
            if vr_crash st then Crash
            else if 0 < instances a
            then (case vrrp_missing (vr_instances st) (vr_globals st) of
                    None \<Rightarrow> Crash
                  | Some g \<Rightarrow> mp_exit ''Keepalived VRRP'' g)
            else if i = 0 then unknown ''Keepalived VRRP: No Instances found.'' (vr_globals st)
            else mp_exit ''Keepalived VRRP'' (vr_globals st))"

definition check_keepalived_vrrp_main ::
    "bool \<Rightarrow> resolver \<Rightarrow> 's snmp_env \<Rightarrow> string \<Rightarrow> nat \<Rightarrow> string \<Rightarrow> (char \<times> string) list \<Rightarrow> mp_globals \<Rightarrow> mp_end option" where
  "check_keepalived_vrrp_main v6 gai env junk argc help os g =
     (case vrrp_process_arguments v6 gai argc help os g of
        Inl e \<Rightarrow> Some e
      | Inr a \<Rightarrow> with_table env a VRRP_TABLE g (vrrp_report a (en_lib env) junk))"

section \<open>Tables\<close>

text \<open>The value of a row does not depend on what was printed.\<close>

definition row_val :: "'s snmp_lib \<Rightarrow> snmp_var list \<Rightarrow> oid \<Rightarrow> nat \<Rightarrow> int \<Rightarrow> nat \<Rightarrow> snmp_value option" where
  "row_val lib table pre i t len = Option.bind (nth_below lib pre i table) (\<lambda>v. value_of v t len)"

lemma copy_value_val: "known_type t \<Longrightarrow> fst (copy_value v t len g) = value_of v t len"
  by (auto simp: copy_value_def value_of_def known_type_def is_long_type_def snmp_consts)

lemma get_value_val:
  "known_type t \<Longrightarrow> fst (mp_snmp_subtree_get_value lib table pre i t len g) = row_val lib table pre i t len"
  by (simp add: mp_snmp_subtree_get_value_def row_val_def copy_value_val split: option.split)

lemma value_kind:
  "value_of v ASN_OCTET_STR len \<noteq> Some (SLong x)" "value_of v ASN_INTEGER len \<noteq> Some (SText s)"
  by (auto simp: value_of_def is_long_type_def snmp_consts)

lemma row_val_kind:
  "row_val lib table pre i ASN_OCTET_STR len \<noteq> Some (SLong x)" "row_val lib table pre i ASN_INTEGER len \<noteq> Some (SText s)"
  by (auto simp: row_val_def value_kind split: bind_split)

lemma row_text_val:
  obtains g' where "row_text lib table pre i len buf g =
    (case row_val lib table pre i ASN_OCTET_STR len of Some (SText s) \<Rightarrow> (True, s, g') | _ \<Rightarrow> (False, buf, g'))"
  using get_value_val [of ASN_OCTET_STR lib table pre i len g]
  by (cases "mp_snmp_subtree_get_value lib table pre i ASN_OCTET_STR len g")
    (auto simp: row_text_def known_type_def)

text \<open>
  The contract of a body: the loop goes on over the first \<open>k\<close> rows, each raises the status to its level, and the
  row behind them ends the loop.
\<close>

locale table_rows =
  fixes body :: "nat \<Rightarrow> row_st \<Rightarrow> bool \<times> row_st"
    and k :: nat
    and level :: "nat \<Rightarrow> int"
  assumes inside: "i < k \<Longrightarrow> 0 \<le> rw_status st \<Longrightarrow> rw_status st \<le> 2 \<Longrightarrow>
      fst (body i st) \<and> rw_status (snd (body i st)) = max (rw_status st) (level i)"
    and outside: "\<not> fst (body k st) \<and> rw_status (snd (body k st)) = rw_status st"
    and levels: "level i \<in> {STATE_OK, STATE_WARNING, STATE_CRITICAL}"
begin

lemma rows_status:
  "i \<le> k \<Longrightarrow> 0 \<le> rw_status st \<Longrightarrow> rw_status st \<le> 2 \<Longrightarrow> for_rows body i n st = (j, st') \<Longrightarrow>
    j = min k (i + n) \<and> rw_status st' = fold (\<lambda>i. max (level i)) [i..<min k (i + n)] (rw_status st)"
proof (induction n arbitrary: i st)
  case (Suc n)
  show ?case
  proof (cases "i < k")
    case True
    obtain c st1 where b: "body i st = (c, st1)" by (cases "body i st")
    then have "c" "rw_status st1 = max (rw_status st) (level i)" using inside [OF True Suc.prems(2,3)] by auto
    moreover have "[i..<min k (i + Suc n)] = i # [Suc i..<min k (Suc i + n)]" using True by (simp add: upt_conv_Cons)
    ultimately show ?thesis
      using Suc.IH [of "Suc i" st1] Suc.prems b levels [of i] True by (auto simp: max.commute)
  next
    case False
    then have "i = k" using Suc.prems(1) by simp
    then show ?thesis using outside [of st] Suc.prems(4) by (auto split: prod.splits)
  qed
qed simp

end

text \<open>The rows that are read: those in front of the first whose value is not stored.\<close>

definition lead_rows :: "'s snmp_lib \<Rightarrow> snmp_var list \<Rightarrow> oid \<Rightarrow> int \<Rightarrow> nat \<Rightarrow> nat" where
  "lead_rows lib table pre t len = (LEAST i. row_val lib table pre i t len = None)"

lemma nth_below_length: "nth_below lib pre i vs = Some v \<Longrightarrow> i < length vs"
proof (induction vs arbitrary: i)
  case (Cons w vs)
  show ?case
  proof (cases "snmp_oidtree_compare lib pre (v_name w) = 0")
    case True
    then show ?thesis using Cons.prems Cons.IH [of "i - 1"] by (cases i) simp_all
  next
    case False
    then show ?thesis using Cons.prems Cons.IH [of i] by simp
  qed
qed simp

lemma lead_rows_facts:
  "i < lead_rows lib table pre t len \<Longrightarrow> row_val lib table pre i t len \<noteq> None"
  "row_val lib table pre (lead_rows lib table pre t len) t len = None"
  "lead_rows lib table pre t len \<le> length table"
proof -
  have none: "row_val lib table pre (length table) t len = None"
    using nth_below_length [of lib pre "length table" table] by (cases "nth_below lib pre (length table) table") (auto simp: row_val_def)
  show "i < lead_rows lib table pre t len \<Longrightarrow> row_val lib table pre i t len \<noteq> None"
    unfolding lead_rows_def by (rule not_less_Least)
  show "row_val lib table pre (lead_rows lib table pre t len) t len = None"
    unfolding lead_rows_def by (rule LeastI) (rule none)
  show "lead_rows lib table pre t len \<le> length table"
    unfolding lead_rows_def by (rule Least_le) (rule none)
qed

text \<open>The state text of a row, and the level it has for each plugin.\<close>

definition row_txt :: "'s snmp_lib \<Rightarrow> snmp_var list \<Rightarrow> oid \<Rightarrow> nat \<Rightarrow> nat \<Rightarrow> string" where
  "row_txt lib table pre len i = (case row_val lib table pre i ASN_OCTET_STR len of Some (SText s) \<Rightarrow> s | _ \<Rightarrow> [])"

definition row_int :: "'s snmp_lib \<Rightarrow> snmp_var list \<Rightarrow> oid \<Rightarrow> nat \<Rightarrow> int" where
  "row_int lib table pre i = (case row_val lib table pre i ASN_INTEGER 8 of Some (SLong x) \<Rightarrow> x | _ \<Rightarrow> 0)"

lemma row_text_lead:
  assumes "i < lead_rows lib table pre ASN_OCTET_STR len"
  obtains g' where "row_text lib table pre i len buf g = (True, row_txt lib table pre len i, g')"
proof -
  obtain t where "row_val lib table pre i ASN_OCTET_STR len = Some (SText t)"
    using lead_rows_facts(1) [OF assms] row_val_kind(1) [of lib table pre i len] by (metis not_None_eq snmp_value.exhaust)
  then show ?thesis using row_text_val [of lib table pre i len buf g] that by (auto simp: row_txt_def)
qed

lemma row_text_last:
  obtains g' where "row_text lib table pre (lead_rows lib table pre ASN_OCTET_STR len) len buf g = (False, buf, g')"
  using row_text_val [of lib table pre "lead_rows lib table pre ASN_OCTET_STR len" len buf g]
    lead_rows_facts(2) [of lib table pre ASN_OCTET_STR len] by auto

definition vol_level :: "string \<Rightarrow> int" where
  "vol_level s = (if s = ''Ready'' then STATE_OK else if s = ''In degraded mode'' then STATE_CRITICAL else STATE_WARNING)"

definition raid_level :: "string \<Rightarrow> int" where
  "raid_level s = (if s = ''Normal'' \<or> s = ''Checking'' then STATE_OK else if s = ''Rebuilding'' then STATE_WARNING else STATE_CRITICAL)"

definition disk_level :: "int \<Rightarrow> int" where
  "disk_level d = (if d = HDD_Ready then STATE_OK else STATE_CRITICAL)"

interpretation vol_rows: table_rows "vol_row lib table" "lead_rows lib table (QNAP_VOL @ [1, 6]) ASN_OCTET_STR 24"
    "\<lambda>i. vol_level (row_txt lib table (QNAP_VOL @ [1, 6]) 24 i)" for lib :: "'s snmp_lib" and table
proof
  fix i and st :: row_st
  assume i: "i < lead_rows lib table (QNAP_VOL @ [1, 6]) ASN_OCTET_STR 24" and s: "0 \<le> rw_status st" "rw_status st \<le> 2"
  show "fst (vol_row lib table i st) \<and> rw_status (snd (vol_row lib table i st)) =
      max (rw_status st) (vol_level (row_txt lib table (QNAP_VOL @ [1, 6]) 24 i))"
    by (rule row_text_lead [OF i, of "rw_state st" "rw_globals st"]) (use s in \<open>auto simp: vol_row_def vol_level_def Let_def split: prod.split\<close>)
next
  fix st :: row_st
  show "\<not> fst (vol_row lib table (lead_rows lib table (QNAP_VOL @ [1, 6]) ASN_OCTET_STR 24) st) \<and>
      rw_status (snd (vol_row lib table (lead_rows lib table (QNAP_VOL @ [1, 6]) ASN_OCTET_STR 24) st)) = rw_status st"
    by (rule row_text_last [of lib table "QNAP_VOL @ [1, 6]" 24 "rw_state st" "rw_globals st"]) (simp add: vol_row_def)
qed (simp add: vol_level_def)

interpretation raid_rows: table_rows "raid_row lib table" "lead_rows lib table (ARC_RAID @ [1, 4]) ASN_OCTET_STR 24"
    "\<lambda>i. raid_level (row_txt lib table (ARC_RAID @ [1, 4]) 24 i)" for lib :: "'s snmp_lib" and table
proof
  fix i and st :: row_st
  assume i: "i < lead_rows lib table (ARC_RAID @ [1, 4]) ASN_OCTET_STR 24" and s: "0 \<le> rw_status st" "rw_status st \<le> 2"
  show "fst (raid_row lib table i st) \<and> rw_status (snd (raid_row lib table i st)) =
      max (rw_status st) (raid_level (row_txt lib table (ARC_RAID @ [1, 4]) 24 i))"
    by (rule row_text_lead [OF i, of "rw_state st" "rw_globals st"]) (use s in \<open>auto simp: raid_row_def raid_level_def Let_def split: prod.split\<close>)
next
  fix st :: row_st
  show "\<not> fst (raid_row lib table (lead_rows lib table (ARC_RAID @ [1, 4]) ASN_OCTET_STR 24) st) \<and>
      rw_status (snd (raid_row lib table (lead_rows lib table (ARC_RAID @ [1, 4]) ASN_OCTET_STR 24) st)) = rw_status st"
    by (rule row_text_last [of lib table "ARC_RAID @ [1, 4]" 24 "rw_state st" "rw_globals st"]) (simp add: raid_row_def)
qed (simp add: raid_level_def)

interpretation disk_rows: table_rows "disk_row lib table" "lead_rows lib table (QNAP_HDD @ [1, 4]) ASN_INTEGER 8"
    "\<lambda>i. disk_level (row_int lib table (QNAP_HDD @ [1, 4]) i)" for lib :: "'s snmp_lib" and table
proof
  let ?pre = "QNAP_HDD @ [1, 4]"
  fix i and st :: row_st
  assume i: "i < lead_rows lib table ?pre ASN_INTEGER 8" and s: "0 \<le> rw_status st" "rw_status st \<le> 2"
  obtain d where d: "row_val lib table ?pre i ASN_INTEGER 8 = Some (SLong d)"
    using lead_rows_facts(1) [OF i] row_val_kind(2) [of lib table ?pre i 8] by (metis not_None_eq snmp_value.exhaust)
  then obtain g' where "mp_snmp_subtree_get_value lib table ?pre i ASN_INTEGER 8 (rw_globals st) = (Some (SLong d), g')"
    using get_value_val [of ASN_INTEGER lib table ?pre i 8 "rw_globals st"] by (metis known_type_def is_long_type_def prod.collapse)
  then show "fst (disk_row lib table i st) \<and> rw_status (snd (disk_row lib table i st)) =
      max (rw_status st) (disk_level (row_int lib table ?pre i))"
    using s d by (auto simp: disk_row_def row_int_def disk_level_def Let_def split: prod.split)
next
  let ?pre = "QNAP_HDD @ [1, 4]"
  fix st :: row_st
  obtain g' where "mp_snmp_subtree_get_value lib table ?pre (lead_rows lib table ?pre ASN_INTEGER 8) ASN_INTEGER 8 (rw_globals st) = (None, g')"
    using get_value_val [of ASN_INTEGER lib table ?pre "lead_rows lib table ?pre ASN_INTEGER 8" 8 "rw_globals st"]
      lead_rows_facts(2) [of lib table ?pre] by (metis known_type_def is_long_type_def prod.collapse)
  then show "\<not> fst (disk_row lib table (lead_rows lib table ?pre ASN_INTEGER 8) st) \<and>
      rw_status (snd (disk_row lib table (lead_rows lib table ?pre ASN_INTEGER 8) st)) = rw_status st"
    by (simp add: disk_row_def)
qed (simp add: disk_level_def)

text \<open>The columns of a table: the names that extend an identifier, or that it extends.\<close>

definition column :: "oid \<Rightarrow> snmp_var list \<Rightarrow> snmp_var list" where
  "column pre vs = filter (\<lambda>v. prefix pre (v_name v) \<or> prefix (v_name v) pre) vs"

lemma take_min_related: "take (min (length a) (length b)) a = take (min (length a) (length b)) b \<longleftrightarrow> prefix a b \<or> prefix b a"
proof (induction a arbitrary: b)
  case (Cons x a)
  then show ?case by (cases b) auto
qed simp

lemma oidtree_related: "oid_compare_ok lib \<Longrightarrow> snmp_oidtree_compare lib a b = 0 \<longleftrightarrow> prefix a b \<or> prefix b a"
  using take_min_related [of a b] by (auto simp: oid_compare_ok_def Let_def)

lemma nth_below_column:
  assumes "oid_compare_ok lib"
  shows "nth_below lib pre i vs = (if i < length (column pre vs) then Some (column pre vs ! i) else None)"
proof (induction vs arbitrary: i)
  case (Cons v vs)
  then show ?case by (cases i) (simp_all add: column_def oidtree_related [OF assms])
qed (simp add: column_def)

text \<open>The values in front of the first one that is not stored.\<close>

fun lead_some :: "'a option list \<Rightarrow> 'a list" where
  "lead_some [] = []"
| "lead_some (None # xs) = []"
| "lead_some (Some x # xs) = x # lead_some xs"

lemma lead_some_nth:
  "i < length (lead_some xs) \<Longrightarrow> i < length xs \<and> xs ! i = Some (lead_some xs ! i)"
  "length (lead_some xs) < length xs \<Longrightarrow> xs ! length (lead_some xs) = None"
proof (induction xs arbitrary: i rule: lead_some.induct)
  case (3 x xs)
  { case 1
    then show ?case using 3 by (cases i) auto
  next
    case 2
    then show ?case using 3 by auto }
qed auto

definition column_vals :: "oid \<Rightarrow> int \<Rightarrow> nat \<Rightarrow> snmp_var list \<Rightarrow> snmp_value list" where
  "column_vals pre t len vs = lead_some (map (\<lambda>v. value_of v t len) (column pre vs))"

lemma row_val_column:
  assumes "oid_compare_ok lib"
  shows "i < length (column_vals pre t len vs) \<Longrightarrow> row_val lib vs pre i t len = Some (column_vals pre t len vs ! i)"
    and "row_val lib vs pre (length (column_vals pre t len vs)) t len = None"
  using lead_some_nth(1) [of i "map (\<lambda>v. value_of v t len) (column pre vs)"]
    lead_some_nth(2) [of "map (\<lambda>v. value_of v t len) (column pre vs)"]
  by (auto simp: row_val_def nth_below_column [OF assms] column_vals_def)

lemma lead_rows_column: "oid_compare_ok lib \<Longrightarrow> lead_rows lib vs pre t len = length (column_vals pre t len vs)"
  unfolding lead_rows_def using row_val_column [of lib] by (intro Least_equality) (auto simp: not_less [symmetric])

primrec text_of :: "snmp_value \<Rightarrow> string" where
  "text_of (SText s) = s"
| "text_of (SLong x) = []"

primrec long_of :: "snmp_value \<Rightarrow> int" where
  "long_of (SLong x) = x"
| "long_of (SText s) = 0"

definition worst_level :: "int list \<Rightarrow> int" where
  "worst_level ls = (if STATE_CRITICAL \<in> set ls then STATE_CRITICAL else if STATE_WARNING \<in> set ls then STATE_WARNING else STATE_OK)"

lemma fold_max_worst:
  assumes "\<And>i. f i \<in> {STATE_OK, STATE_WARNING, STATE_CRITICAL}"
  shows "fold (\<lambda>i. max (f i)) xs STATE_OK = worst_level (map f xs)"
proof -
  have "fold (\<lambda>i. max (f i)) xs a = max a (worst_level (map f xs))" if "0 \<le> a" for a
    using that
  proof (induction xs arbitrary: a)
    case (Cons x xs)
    then show ?case using assms [of x] by (auto simp: worst_level_def)
  qed (simp add: worst_level_def)
  then show ?thesis by (simp add: worst_level_def)
qed

lemma row_levels:
  assumes "oid_compare_ok lib"
  shows "map (\<lambda>i. f (row_txt lib vs pre len i)) [0..<length (column_vals pre ASN_OCTET_STR len vs)] =
      map (f \<circ> text_of) (column_vals pre ASN_OCTET_STR len vs)"
    and "map (\<lambda>i. h (row_int lib vs pre i)) [0..<length (column_vals pre ASN_INTEGER 8 vs)] =
      map (h \<circ> long_of) (column_vals pre ASN_INTEGER 8 vs)"
proof -
  have "row_txt lib vs pre len i = text_of (column_vals pre ASN_OCTET_STR len vs ! i)"
    if "i < length (column_vals pre ASN_OCTET_STR len vs)" for i
    using row_val_column(1) [OF assms that] by (simp add: row_txt_def split: snmp_value.split)
  then show "map (\<lambda>i. f (row_txt lib vs pre len i)) [0..<length (column_vals pre ASN_OCTET_STR len vs)] =
      map (f \<circ> text_of) (column_vals pre ASN_OCTET_STR len vs)"
    by (intro nth_equalityI) simp_all
  have "row_int lib vs pre i = long_of (column_vals pre ASN_INTEGER 8 vs ! i)"
    if "i < length (column_vals pre ASN_INTEGER 8 vs)" for i
    using row_val_column(1) [OF assms that] by (simp add: row_int_def split: snmp_value.split)
  then show "map (\<lambda>i. h (row_int lib vs pre i)) [0..<length (column_vals pre ASN_INTEGER 8 vs)] =
      map (h \<circ> long_of) (column_vals pre ASN_INTEGER 8 vs)"
    by (intro nth_equalityI) simp_all
qed

context table_rows
begin

lemma rows_worst:
  assumes "for_rows body 0 n st = (j, st')" "k \<le> n" "rw_status st = STATE_OK"
  shows "j = k" "rw_status st' = worst_level (map level [0..<k])"
  using rows_status [OF _ _ _ assms(1)] assms(2,3) fold_max_worst [of level "[0..<k]", OF levels] by (simp_all add: min_absorb1)

end

text \<open>What the rows of a table amount to: the worst level, or nothing found.\<close>

definition table_state :: "int list \<Rightarrow> int" where
  "table_state ls = (if ls = [] then STATE_UNKNOWN else worst_level ls)"

lemma with_table_walk:
  assumes "mp_snmp_init (en_lib env) (sh_snmp a) (sh_hostname a) (sh_port a) g = Inr session" "ss_version session \<noteq> SNMP_VERSION_1"
    "oid_compare_ok (en_lib env)" "mp_verbose g \<le> 2" "mib_ok mib" "bulk_agent mib (en_lib env)" "length mib < en_fuel env"
  shows "with_table env a sub g finish = Some (finish (en_agent env) STAT_SUCCESS (filter (in_subtree sub) mib) g)"
  using assms(1) subtree_query_walk [OF assms(3-6,2,7), of sub "en_agent env"] by (simp add: with_table_def)

lemma vols_report_code:
  assumes "oid_compare_ok lib"
  shows "exit_code (vols_report lib j1 j2 s STAT_SUCCESS table g) =
    Some (table_state (map (vol_level \<circ> text_of) (column_vals (QNAP_VOL @ [1, 6]) ASN_OCTET_STR 24 table)))"
proof -
  let ?st0 = "\<lparr>rw_state = j1, rw_name = j2, rw_out = None, rw_status = STATE_OK, rw_globals = g\<rparr>"
  obtain i st where r: "for_rows (vol_row lib table) 0 (length table) ?st0 = (i, st)"
    by (cases "for_rows (vol_row lib table) 0 (length table) ?st0")
  note w = vol_rows.rows_worst [OF r lead_rows_facts(3)]
  have "i = length (column_vals (QNAP_VOL @ [1, 6]) ASN_OCTET_STR 24 table)"
    "rw_status st = worst_level (map (vol_level \<circ> text_of) (column_vals (QNAP_VOL @ [1, 6]) ASN_OCTET_STR 24 table))"
    using w by (simp_all add: lead_rows_column [OF assms] row_levels(1) [OF assms, of vol_level])
  then show ?thesis using r by (auto simp: vols_report_def table_state_def worst_level_def)
qed

lemma raid_report_code:
  assumes "oid_compare_ok lib"
  shows "exit_code (raid_report lib j1 j2 s STAT_SUCCESS table g) =
    Some (table_state (map (raid_level \<circ> text_of) (column_vals (ARC_RAID @ [1, 4]) ASN_OCTET_STR 24 table)))"
proof -
  let ?st0 = "\<lparr>rw_state = j1, rw_name = j2, rw_out = None, rw_status = STATE_OK, rw_globals = g\<rparr>"
  obtain i st where r: "for_rows (raid_row lib table) 0 (length table) ?st0 = (i, st)"
    by (cases "for_rows (raid_row lib table) 0 (length table) ?st0")
  note w = raid_rows.rows_worst [OF r lead_rows_facts(3)]
  have "i = length (column_vals (ARC_RAID @ [1, 4]) ASN_OCTET_STR 24 table)"
    "rw_status st = worst_level (map (raid_level \<circ> text_of) (column_vals (ARC_RAID @ [1, 4]) ASN_OCTET_STR 24 table))"
    using w by (simp_all add: lead_rows_column [OF assms] row_levels(1) [OF assms, of raid_level])
  then show ?thesis using r by (auto simp: raid_report_def table_state_def worst_level_def)
qed

lemma disks_report_code:
  assumes "oid_compare_ok lib"
  shows "exit_code (disks_report lib j2 s STAT_SUCCESS table g) =
    Some (table_state (map (disk_level \<circ> long_of) (column_vals (QNAP_HDD @ [1, 4]) ASN_INTEGER 8 table)))"
proof -
  let ?st0 = "\<lparr>rw_state = [], rw_name = j2, rw_out = None, rw_status = STATE_OK, rw_globals = g\<rparr>"
  obtain i st where r: "for_rows (disk_row lib table) 0 (length table) ?st0 = (i, st)"
    by (cases "for_rows (disk_row lib table) 0 (length table) ?st0")
  note w = disk_rows.rows_worst [OF r lead_rows_facts(3)]
  have "i = length (column_vals (QNAP_HDD @ [1, 4]) ASN_INTEGER 8 table)"
    "rw_status st = worst_level (map (disk_level \<circ> long_of) (column_vals (QNAP_HDD @ [1, 4]) ASN_INTEGER 8 table))"
    using w by (simp_all add: lead_rows_column [OF assms] row_levels(2) [OF assms, of disk_level])
  then show ?thesis using r by (auto simp: disks_report_def table_state_def worst_level_def disk_level_def)
qed

lemma check_tables_worst_cases:
  assumes "snmp_process_arguments (snmp_host_opt v6 gai) snmp_host0 STATE_OK argc help os g = Inr a"
    "mp_snmp_init (en_lib env) (sh_snmp a) (sh_hostname a) (sh_port a) g = Inr session" "ss_version session \<noteq> SNMP_VERSION_1"
    "oid_compare_ok (en_lib env)" "mp_verbose g \<le> 2" "mib_ok mib" "bulk_agent mib (en_lib env)" "length mib < en_fuel env"
  shows "map_option exit_code (check_qnap_vols_main v6 gai env j1 j2 argc help os g) =
      Some (Some (table_state (map (vol_level \<circ> text_of)
        (column_vals (QNAP_VOL @ [1, 6]) ASN_OCTET_STR 24 (filter (in_subtree QNAP_VOL) mib)))))"
    and "map_option exit_code (check_qnap_disks_main v6 gai env j2 argc help os g) =
      Some (Some (table_state (map (disk_level \<circ> long_of)
        (column_vals (QNAP_HDD @ [1, 4]) ASN_INTEGER 8 (filter (in_subtree QNAP_HDD) mib)))))"
    and "map_option exit_code (check_arc_raid_main v6 gai env j1 j2 argc help os g) =
      Some (Some (table_state (map (raid_level \<circ> text_of)
        (column_vals (ARC_RAID @ [1, 4]) ASN_OCTET_STR 24 (filter (in_subtree ARC_RAID) mib)))))"
  using assms(1) with_table_walk [OF assms(2-8)]
  by (simp_all add: check_qnap_vols_main_def check_qnap_disks_main_def check_arc_raid_main_def qnap_process_arguments_def
      qnap_disks_process_arguments_def arc_process_arguments_def vols_report_code [OF assms(4)] disks_report_code [OF assms(4)]
      raid_report_code [OF assms(4)])

text \<open>C29: The table plugins report the worst row. Against an agent that serves an ordered set of variables, \<open>check_qnap_vols\<close>,
  \<open>check_qnap_disks\<close> and \<open>check_arc_raid\<close> end with UNKNOWN when the state column of their table has no readable value in
  its first row, and otherwise with the worst level among the rows in front of the first unreadable one.\<close>

theorem check_tables_worst:
  assumes "snmp_process_arguments (snmp_host_opt v6 gai) snmp_host0 STATE_OK argc help os g = Inr a"
    "mp_snmp_init (en_lib env) (sh_snmp a) (sh_hostname a) (sh_port a) g = Inr session" "ss_version session \<noteq> SNMP_VERSION_1"
    "oid_compare_ok (en_lib env)" "mp_verbose g \<le> 2" "mib_ok mib" "bulk_agent mib (en_lib env)" "length mib < en_fuel env"
  shows "(map_option exit_code (check_qnap_vols_main v6 gai env j1 j2 argc help os g) =
      Some (Some (table_state (map (vol_level \<circ> text_of)
        (column_vals (QNAP_VOL @ [1, 6]) ASN_OCTET_STR 24 (filter (in_subtree QNAP_VOL) mib)))))) \<and>
    (map_option exit_code (check_qnap_disks_main v6 gai env j2 argc help os g) =
      Some (Some (table_state (map (disk_level \<circ> long_of)
        (column_vals (QNAP_HDD @ [1, 4]) ASN_INTEGER 8 (filter (in_subtree QNAP_HDD) mib)))))) \<and>
    (map_option exit_code (check_arc_raid_main v6 gai env j1 j2 argc help os g) =
      Some (Some (table_state (map (raid_level \<circ> text_of)
        (column_vals (ARC_RAID @ [1, 4]) ASN_OCTET_STR 24 (filter (in_subtree ARC_RAID) mib))))))"
  using check_tables_worst_cases [OF assms] by blast

definition text_var :: "oid \<Rightarrow> string \<Rightarrow> snmp_var" where
  "text_var n s = \<lparr>v_name = n, v_type = ASN_OCTET_STR, v_int = 0, v_str = s, v_len = length s\<rparr>"

definition vols_mib :: "snmp_var list" where
  "vols_mib = [text_var (QNAP_VOL @ [1, 2, 1]) ''DataVol1'', text_var (QNAP_VOL @ [1, 2, 2]) ''DataVol2'',
     text_var (QNAP_VOL @ [1, 6, 1]) ''Ready'', text_var (QNAP_VOL @ [1, 6, 2]) ''In degraded mode'']"

text \<open>A degraded second volume is CRITICAL; a state of 24 characters or more in the first row hides it.\<close>

definition long_state_mib :: "snmp_var list" where
  "long_state_mib = vols_mib[2 := text_var (QNAP_VOL @ [1, 6, 1]) ''Rebuilding (RAID 5, 17 percent)'']"

lemma vols_mibs_ok: "mib_ok vols_mib" "mib_ok long_state_mib"
  by (simp_all add: mib_ok_def vols_mib_def long_state_mib_def text_var_def QNAP_VOL_def snmp_consts)

theorem check_tables_worst_witness:
  "map_option exit_code (check_qnap_vols_main True (\<lambda>f h. True) \<lparr>en_lib = snmp_lib_ex vols_mib, en_agent = (), en_fuel = 5\<rparr> [] [] 3 [] []
      (mp_init [] [] [] [] [])) = Some (Some STATE_CRITICAL) \<and>
   map_option exit_code (check_qnap_vols_main True (\<lambda>f h. True) \<lparr>en_lib = snmp_lib_ex long_state_mib, en_agent = (), en_fuel = 5\<rparr> [] [] 3 [] []
      (mp_init [] [] [] [] [])) = Some (Some STATE_UNKNOWN)"
proof -
  let ?g = "mp_init [] [] [] [] []" and ?env = "\<lambda>m. \<lparr>en_lib = snmp_lib_ex m, en_agent = (), en_fuel = 5\<rparr>"
  have p: "snmp_process_arguments (snmp_host_opt True (\<lambda>f h. True)) snmp_host0 STATE_OK 3 [] [] ?g = Inr snmp_host0"
    by (simp add: snmp_process_arguments_def)
  have h: "map_option exit_code (check_qnap_vols_main True (\<lambda>f h. True) (?env m) [] [] 3 [] [] ?g) =
      Some (Some (table_state (map (vol_level \<circ> text_of) (column_vals (QNAP_VOL @ [1, 6]) ASN_OCTET_STR 24 (filter (in_subtree QNAP_VOL) m)))))"
    if "mib_ok m" "length m < 5" for m
  proof -
    obtain s where "mp_snmp_init (snmp_lib_ex m) (sh_snmp snmp_host0) (sh_hostname snmp_host0) (sh_port snmp_host0) ?g = Inr s"
        "ss_version s \<noteq> SNMP_VERSION_1"
      by (simp add: mp_snmp_init_def snmp_host0_def snmp_args0_def snmp_lib_ex_def SNMP_VERSION_1_def SNMP_VERSION_2c_def)
    then show ?thesis
      using check_tables_worst [OF p, of "?env m" s m] that snmp_lib_ex_ok by (simp add: mp_init_def)
  qed
  have l: "table_state (map (vol_level \<circ> text_of) (column_vals (QNAP_VOL @ [1, 6]) ASN_OCTET_STR 24 (filter (in_subtree QNAP_VOL) vols_mib))) =
      STATE_CRITICAL"
    "table_state (map (vol_level \<circ> text_of) (column_vals (QNAP_VOL @ [1, 6]) ASN_OCTET_STR 24 (filter (in_subtree QNAP_VOL) long_state_mib))) =
      STATE_UNKNOWN"
    by (simp_all add: vols_mib_def long_state_mib_def text_var_def QNAP_VOL_def column_vals_def column_def value_of_def
        is_long_type_def snmp_consts table_state_def worst_level_def vol_level_def)
  show ?thesis
    using h [OF vols_mibs_ok(1)] h [OF vols_mibs_ok(2)] l by (simp add: vols_mib_def long_state_mib_def)
qed

text \<open>The handlers keep the contract of the option loop.\<close>

lemma getopt_snmp_refuses: "getopt_snmp c s a g = Inl e \<Longrightarrow> exit_code e = Some STATE_UNKNOWN"
  by (auto simp: getopt_snmp_def Let_def split: if_splits)

lemma snmp_host_opt_refuses: "snmp_host_opt v6 gai c s a g = Inl e \<Longrightarrow> exit_code e = Some STATE_UNKNOWN"
  by (cases "getopt_host v6 gai s g"; cases "getopt_port s g")
    (auto simp: snmp_host_opt_def Let_def getopt_snmp_refuses refuse_simps split: if_splits sum.splits)

interpretation snmp_options: plugin_options "snmp_host_opt v6 gai" "\<lambda>_. True" for v6 gai
  by unfold_locales (simp_all add: snmp_host_opt_refuses)

lemma should_index_range: "1 \<le> should_index s \<and> should_index s \<le> 9"
  by (auto simp: should_index_def find_Some_iff split: option.split)

lemma snmp_host_opt_should: "snmp_host_opt v6 gai c s a g = Inr a' \<Longrightarrow> should a' = should a"
  by (cases "getopt_host v6 gai s g"; cases "getopt_port s g") (auto simp: snmp_host_opt_def Let_def split: if_splits sum.splits)

interpretation interface_options: plugin_options "interface_opt v6 gai" "\<lambda>a. 1 \<le> should a" for v6 gai
proof
  fix a a' :: if_args and c s g
  assume "1 \<le> should a" "interface_opt v6 gai c s a g = Inr a'"
  then show "1 \<le> should a'"
    using should_index_range [of s]
    by (auto simp: interface_opt_def dest: snmp_host_opt_should split: if_splits sum.splits)
next
  fix a c s g e
  assume "interface_opt v6 gai c s a g = Inl e"
  then show "exit_code e = Some STATE_UNKNOWN"
    by (auto simp: interface_opt_def snmp_host_opt_refuses split: if_splits sum.splits)
qed

interpretation vrrp_options: plugin_options "vrrp_opt v6 gai" "\<lambda>_. True" for v6 gai
  by unfold_locales (auto simp: vrrp_opt_def snmp_host_opt_refuses split: if_splits sum.splits prod.splits)

lemma if_cmds_facts:
  "distinct (map q_oid (if_cmds k))" "list_all (\<lambda>q. known_type (q_type q)) (if_cmds k)"
  by (simp_all add: if_cmds_def oct_cmd_def long_cmd_def if_oid_def known_type_def is_long_type_def)

lemma check_interface_status_cases:
  assumes "interface_process_arguments v6 gai argc help os g = Inr a"
    "mp_snmp_init (en_lib env) (sh_snmp a) (sh_hostname a) (sh_port a) g = Inr session"
    "oid_compare_ok (en_lib env)" "mp_verbose g \<le> 1" "0 < en_fuel env"
    "snmp_synch_response (en_lib env) (en_agent env) (Get (map q_oid (if_cmds (ifIndex a)))) =
       (STAT_SUCCESS, Some \<lparr>p_errstat = 0, p_errindex = 0, p_vars = vs\<rparr>, s')" "distinct (map v_name vs)"
  shows "answer_for vs (oct_cmd (if_oid 2 (ifIndex a))) = Some (SText d) \<Longrightarrow>
      answer_for vs (long_cmd ASN_INTEGER (if_oid 8 (ifIndex a))) = Some (SLong st) \<Longrightarrow> 0 \<le> st \<Longrightarrow> st \<le> 8 \<Longrightarrow>
      \<exists>g'. check_interface_main v6 gai env argc help os g =
        Some ((if st = should a then ok else critical) (d @ '' is '' @ ifOperStatusText ! nat st) g')"
    and "answer_for vs (oct_cmd (if_oid 2 (ifIndex a))) = None \<Longrightarrow>
      check_interface_main v6 gai env argc help os g =
        Some (unknown (''Interface with index '' @ fmt_d (ifIndex a) @ '' not found.'') g)"
proof -
  let ?ts = "answers vs (if_cmds (ifIndex a))"
  obtain n where n: "en_fuel env = Suc n" using assms(5) gr0_conv_Suc by blast
  have main: "check_interface_main v6 gai env argc help os g = Some (interface_report a ?ts g)"
    using assms(1,2) query_accepted [OF assms(3) if_cmds_facts assms(4,6,7), of n] by (simp add: check_interface_main_def n)
  have ts: "?ts 0 = answer_for vs (oct_cmd (if_oid 2 (ifIndex a)))" "?ts 2 = answer_for vs (long_cmd ASN_INTEGER (if_oid 8 (ifIndex a)))"
    by (simp_all add: answers_def if_cmds_def)
  show "\<exists>g'. check_interface_main v6 gai env argc help os g =
        Some ((if st = should a then ok else critical) (d @ '' is '' @ ifOperStatusText ! nat st) g')"
    if "answer_for vs (oct_cmd (if_oid 2 (ifIndex a))) = Some (SText d)"
      "answer_for vs (long_cmd ASN_INTEGER (if_oid 8 (ifIndex a))) = Some (SLong st)" "0 \<le> st" "st \<le> 8"
  proof -
    have "text_at ?ts 0 = Some d" "long_at ?ts 2 0 = st" using that ts by (simp_all add: text_at_def long_at_def)
    moreover have "to_int32 st = st" "entry_of ifOperStatusText st = Some (ifOperStatusText ! nat st)"
      using that by (simp_all add: to_int32_def entry_of_def ifOperStatusText_def)
    ultimately show ?thesis unfolding main by (auto simp: interface_report_def Let_def)
  qed
  show "check_interface_main v6 gai env argc help os g =
        Some (unknown (''Interface with index '' @ fmt_d (ifIndex a) @ '' not found.'') g)"
    if "answer_for vs (oct_cmd (if_oid 2 (ifIndex a))) = None"
    using that ts(1) unfolding main by (simp add: interface_report_def text_at_def)
qed

text \<open>What \<open>check_interface\<close> reports. When the agent answers with the description and the state of the interface, the
  plugin ends with OK if the state is the one asked for and with CRITICAL otherwise, and names the interface and the
  state; when the answer has no description, it ends with UNKNOWN.\<close>

theorem check_interface_status:
  assumes "interface_process_arguments v6 gai argc help os g = Inr a"
    "mp_snmp_init (en_lib env) (sh_snmp a) (sh_hostname a) (sh_port a) g = Inr session"
    "oid_compare_ok (en_lib env)" "mp_verbose g \<le> 1" "0 < en_fuel env"
    "snmp_synch_response (en_lib env) (en_agent env) (Get (map q_oid (if_cmds (ifIndex a)))) =
       (STAT_SUCCESS, Some \<lparr>p_errstat = 0, p_errindex = 0, p_vars = vs\<rparr>, s')" "distinct (map v_name vs)"
  shows "(answer_for vs (oct_cmd (if_oid 2 (ifIndex a))) = Some (SText d) \<longrightarrow>
      answer_for vs (long_cmd ASN_INTEGER (if_oid 8 (ifIndex a))) = Some (SLong st) \<longrightarrow> 0 \<le> st \<longrightarrow> st \<le> 8 \<longrightarrow>
      (\<exists>g'. check_interface_main v6 gai env argc help os g =
        Some ((if st = should a then ok else critical) (d @ '' is '' @ ifOperStatusText ! nat st) g'))) \<and>
    (answer_for vs (oct_cmd (if_oid 2 (ifIndex a))) = None \<longrightarrow>
      check_interface_main v6 gai env argc help os g =
        Some (unknown (''Interface with index '' @ fmt_d (ifIndex a) @ '' not found.'') g))"
  using check_interface_status_cases [OF assms] by blast

definition if_mib :: "snmp_var list" where
  "if_mib = [text_var (if_oid 2 3) ''eth0'', int_var (if_oid 8 3) 2]"

theorem check_interface_status_witness:
  "\<exists>g'. check_interface_main True (\<lambda>f h. True) \<lparr>en_lib = snmp_lib_ex if_mib, en_agent = (), en_fuel = 1\<rparr> 3 [] [(CHR ''I'', ''3'')]
     (mp_init [] [] [] [] []) = Some (critical ''eth0 is down'' g')"
proof -
  let ?env = "\<lparr>en_lib = snmp_lib_ex if_mib, en_agent = (), en_fuel = 1\<rparr>" and ?g = "mp_init [] [] [] [] []"
  let ?a = "if_args0\<lparr>ifIndex := 3\<rparr>"
  have "strtol 10 ''3'' = 3" by code_simp
  then have a: "interface_process_arguments True (\<lambda>f h. True) 3 [] [(CHR ''I'', ''3'')] ?g = Inr ?a"
    by (simp add: interface_process_arguments_def snmp_process_arguments_def interface_opt_def snmp_host_opt_def getopt_snmp_def
        if_args0_def snmp_host.defs if_args.defs snmp_host0_def to_int32_def)
  obtain s where i: "mp_snmp_init (en_lib ?env) (sh_snmp ?a) (sh_hostname ?a) (sh_port ?a) ?g = Inr s"
    by (simp add: mp_snmp_init_def if_args0_def snmp_host.defs snmp_host0_def snmp_args0_def snmp_lib_ex_def SNMP_VERSION_1_def SNMP_VERSION_2c_def)
  have r: "snmp_synch_response (en_lib ?env) (en_agent ?env) (Get (map q_oid (if_cmds (ifIndex ?a)))) =
      (STAT_SUCCESS, Some \<lparr>p_errstat = 0, p_errindex = 0, p_vars = if_mib\<rparr>, ())"
    by (simp add: snmp_lib_ex_def if_mib_def if_cmds_def oct_cmd_def long_cmd_def text_var_def int_var_def)
  have d: "distinct (map v_name if_mib)" by (simp add: if_mib_def text_var_def int_var_def if_oid_def)
  have v: "answer_for if_mib (oct_cmd (if_oid 2 (ifIndex ?a))) = Some (SText ''eth0'')"
    "answer_for if_mib (long_cmd ASN_INTEGER (if_oid 8 (ifIndex ?a))) = Some (SLong 2)"
    by (simp_all add: answer_for_def if_mib_def oct_cmd_def long_cmd_def text_var_def int_var_def if_oid_def value_of_def
        is_long_type_def snmp_consts)
  show ?thesis
    using check_interface_status [OF a i _ _ _ r d, of "''eth0''" 2] v snmp_lib_ex_ok(1)
    by (simp add: mp_init_def if_args0_def snmp_host.defs if_args.defs snmp_host0_def ifOperStatusText_def)
qed

end
