(* ===== verification/Check_UPS.thy ===== *)
theory Check_UPS
  imports Check_SNMP
begin

text \<open>
  \<^verbatim>\<open>snmp/check_snmp_ups.c\<close>: the state of a UPS.

  The values of the query are read with the default \<open>LONG_MIN\<close>, "not available". The texts are printed into a buffer
  of 64 bytes by \<open>mp_snprintf\<close>, which ends the plugin when the text does not fit. \<open>Inl\<close> is that end.
\<close>

section \<open>Program\<close>

definition check_snmp_ups_globals :: mp_globals where
  "check_snmp_ups_globals = mp_init ''check_snmp_ups''
     (''-H <HOST>'')
     ''0.1'' ''Oliver Schonefeld <schonefeld@ids-mannheim.de>'' ''2012''"

definition DEFAULT_CHARGE_WARNING :: string where "DEFAULT_CHARGE_WARNING = ''@25''"
definition DEFAULT_CHARGE_CRITICAL :: string where "DEFAULT_CHARGE_CRITICAL = ''@15''"
definition DEFAULT_RUNTIME_WARNING :: string where "DEFAULT_RUNTIME_WARNING = ''@10''"
definition DEFAULT_RUNTIME_CRITICAL :: string where "DEFAULT_RUNTIME_CRITICAL = ''@5''"

definition check_snmp_ups_print_help :: "'s snmp_lib \<Rightarrow> string \<Rightarrow> string \<Rightarrow> string" where
  "check_snmp_ups_print_help lib package version =
     print_revision package version check_snmp_ups_globals @
     print_revision_snmp lib @
     print_copyright check_snmp_ups_globals @
     help_lines
       [[],
        ''Check description: Check status of a UPS conforming to RFC 1628 by SNMP.'',
        []] @
     print_usage check_snmp_ups_globals @
     print_help_default @
     print_help_warn ''remaining charge'' DEFAULT_CHARGE_WARNING @
     print_help_crit ''remaining charge'' DEFAULT_CHARGE_CRITICAL @
     help_lines
       ['' -W'',
        ''      Return warning if remaining runtime exceeds limit. Defaults to '' @ DEFAULT_RUNTIME_WARNING,
        '' -Z'',
        ''      Return critical if remaining runtime exceeds limit. Defaults to '' @ DEFAULT_RUNTIME_CRITICAL,
        '' -e, --extended-status'',
        ''      Print extended status.''] @
     print_help_snmp"

definition BATTERY_UNKNOWN :: int where "BATTERY_UNKNOWN = 1"
definition BATTERY_NORMAL :: int where "BATTERY_NORMAL = 2"
definition BATTERY_LOW :: int where "BATTERY_LOW = 3"
definition BATTERY_DEPLETED :: int where "BATTERY_DEPLETED = 4"

definition OUTPUT_OTHER :: int where "OUTPUT_OTHER = 1"
definition OUTPUT_NONE :: int where "OUTPUT_NONE = 2"
definition OUTPUT_NORMAL :: int where "OUTPUT_NORMAL = 3"
definition OUTPUT_BYPASS :: int where "OUTPUT_BYPASS = 4"
definition OUTPUT_BATTERY :: int where "OUTPUT_BATTERY = 5"
definition OUTPUT_BOOSTER :: int where "OUTPUT_BOOSTER = 6"
definition OUTPUT_REDUCER :: int where "OUTPUT_REDUCER = 7"

lemmas ups_consts = BATTERY_UNKNOWN_def BATTERY_NORMAL_def BATTERY_LOW_def BATTERY_DEPLETED_def OUTPUT_OTHER_def OUTPUT_NONE_def
  OUTPUT_NORMAL_def OUTPUT_BYPASS_def OUTPUT_BATTERY_def OUTPUT_BOOSTER_def OUTPUT_REDUCER_def

definition battery_status_strings :: "string list" where
  "battery_status_strings = [''unknown'', ''normal'', ''LOW'', ''DEPLETED'']"

definition output_source_strings :: "string list" where
  "output_source_strings = [''other'', ''none'', ''normal'', ''BYPASS'', ''BATTERY'', ''BOOSTER'', ''REDUCER'']"

definition battery_status_to_string :: "int \<Rightarrow> string" where
  "battery_status_to_string status =
     (if BATTERY_UNKNOWN \<le> status \<and> status \<le> BATTERY_DEPLETED then battery_status_strings ! nat (status - 1) else ''N/A'')"

definition output_source_to_string :: "int \<Rightarrow> string" where
  "output_source_to_string source =
     (if OUTPUT_OTHER \<le> source \<and> source \<le> OUTPUT_REDUCER then output_source_strings ! nat (source - 1) else ''N/A'')"

section \<open>Arguments\<close>

record ups_args = snmp_host +
  extended_status :: bool
  threshold_charge :: "thresholds option"
  threshold_runtime :: "thresholds option"

definition ups_args0 :: ups_args where
  "ups_args0 = snmp_host.extend (snmp_host0\<lparr>sh_snmp := snmp_args0\<lparr>mp_snmp_version := SNMP_VERSION_1\<rparr>\<rparr>)
     (ups_args.fields False
        (fst (mp_threshold_set_critical (fst (mp_threshold_set_warning None DEFAULT_CHARGE_WARNING NOEXT)) DEFAULT_CHARGE_CRITICAL NOEXT))
        (fst (mp_threshold_set_critical (fst (mp_threshold_set_warning None DEFAULT_RUNTIME_WARNING NOEXT)) DEFAULT_RUNTIME_CRITICAL NOEXT)))"

definition ups_opt :: "bool \<Rightarrow> resolver \<Rightarrow> ups_args opt_handler" where
  "ups_opt v6 gai c optarg a g =
     (case snmp_host_opt v6 gai c optarg a g of
        Inl e \<Rightarrow> Inl e
      | Inr a \<Rightarrow>
          if c = CHR ''e'' then Inr (a\<lparr>extended_status := True\<rparr>)
          else if c = CHR ''w'' \<or> c = CHR ''c''
          then map_sum (\<lambda>e. e) (\<lambda>t. a\<lparr>threshold_charge := t\<rparr>) (getopt_wc_at c optarg (threshold_charge a) g)
          else if c = CHR ''W''
          then map_sum (\<lambda>e. e) (\<lambda>t. a\<lparr>threshold_runtime := t\<rparr>) (getopt_wc_at (CHR ''w'') optarg (threshold_runtime a) g)
          else if c = CHR ''Z''
          then map_sum (\<lambda>e. e) (\<lambda>t. a\<lparr>threshold_runtime := t\<rparr>) (getopt_wc_at (CHR ''c'') optarg (threshold_runtime a) g)
          else Inr a)"

text \<open>The conversion of a \<open>double\<close> to \<open>long\<close>, with the value x86-64 gives for a number that is out of range.\<close>

fun fp_long :: "fp \<Rightarrow> int" where
  "fp_long (Num s q) = (let x = (if s then - \<lfloor>q\<rfloor> else \<lfloor>q\<rfloor>) in if LONG_MIN \<le> x \<and> x \<le> LONG_MAX then x else LONG_MIN)"
| "fp_long _ = LONG_MIN"

text \<open>The sanity checks; the ends of the ranges are compared as they are, also when a range has no end. Thresholds without
  a range would be a NULL pointer.\<close>

definition ups_sane :: "ups_args \<Rightarrow> mp_globals \<Rightarrow> mp_end option" where
  "ups_sane a g =
     (case (Option.bind (threshold_charge a) th_warning, Option.bind (threshold_charge a) th_critical,
            Option.bind (threshold_runtime a) th_warning, Option.bind (threshold_runtime a) th_critical) of
        (Some cw, Some cc, Some rw, Some rc) \<Rightarrow>
          (let z = Num False 0; h = Num False 100
           in if fp_lt (range_end cw) z \<or> fp_lt h (range_end cw)
              then Some (usage ''Warning charge threshold must be between 0 and 100.'' g)
              else if fp_lt (range_end cc) z \<or> fp_lt h (range_end cc)
              then Some (usage ''Critical charge threshold must be between 0 and 100.'' g)
              else if fp_lt (range_end cw) (range_end cc)
              then Some (usage (''Warning charge threshold ('' @ fmt_d (fp_long (range_end cw)) @
                     '') must be larger than critical charge threshold ('' @ fmt_d (fp_long (range_end cc)) @ '').'') g)
              else if fp_lt (range_end rw) z then Some (usage ''Warning runtime threshold must be larher or equal to 0.'' g)
              else if fp_lt (range_end rc) z then Some (usage ''Critical runtime threshold must be larher or equal to 0.'' g)
              else if fp_lt (range_end rw) (range_end rc)
              then Some (usage (''Warning runtime threshold ('' @ fmt_d (fp_long (range_end rw)) @
                     '') must be larger than runtime charge threshold ('' @ fmt_d (fp_long (range_end rc)) @ '').'') g)
              else None)
      | _ \<Rightarrow> Some Crash)"

definition ups_process_arguments ::
    "bool \<Rightarrow> resolver \<Rightarrow> nat \<Rightarrow> string \<Rightarrow> (char \<times> string) list \<Rightarrow> mp_globals \<Rightarrow> mp_end + ups_args \<times> mp_globals" where
  "ups_process_arguments v6 gai argc help os g =
     (case snmp_process_arguments (ups_opt v6 gai) ups_args0 STATE_UNKNOWN argc help os g of
        Inl e \<Rightarrow> Inl e
      | Inr a \<Rightarrow>
          let g = (if 0 < mp_verbose g
                   then mp_print (print_thresholds ''charge'' (threshold_charge a) @ print_thresholds ''runtime'' (threshold_runtime a)) g
                   else g)
          in case ups_sane a g of Some e \<Rightarrow> Inl e | None \<Rightarrow> Inr (a, g))"

section \<open>Values\<close>

definition ups_oid :: "int \<Rightarrow> int \<Rightarrow> oid" where
  "ups_oid grp k = [1, 3, 6, 1, 2, 1, 33, 1, grp, k, 0]"

definition ups_cmds :: "snmp_query_cmd list" where
  "ups_cmds =
     [oct_cmd (ups_oid 1 5), long_cmd ASN_INTEGER (ups_oid 2 1), long_cmd ASN_INTEGER (ups_oid 2 2),
      long_cmd ASN_INTEGER (ups_oid 2 3), long_cmd ASN_INTEGER (ups_oid 2 4), long_cmd ASN_INTEGER (ups_oid 2 5),
      long_cmd ASN_INTEGER (ups_oid 2 6), long_cmd ASN_INTEGER (ups_oid 2 7), long_cmd ASN_COUNTER (ups_oid 3 1),
      long_cmd ASN_INTEGER (ups_oid 3 2), long_cmd ASN_INTEGER (ups_oid 4 1), long_cmd ASN_INTEGER (ups_oid 4 2),
      long_cmd ASN_INTEGER (ups_oid 4 3), long_cmd ASN_GAUGE (ups_oid 6 1)]"

record ups_vals =
  ups_ident :: "string option"
  ups_battery_status :: int
  ups_seconds_on_battery :: int
  ups_remaining_runtime :: int
  ups_remaining_charge :: int
  ups_battery_voltage :: int
  ups_battery_current :: int
  ups_battery_temperature :: int
  ups_input_line_bads :: int
  ups_input_lines :: int
  ups_output_source :: int
  ups_output_frequency :: int
  ups_output_lines :: int
  ups_alarms_present :: int

definition ups_read :: "targets \<Rightarrow> ups_vals" where
  "ups_read ts =
     (let v = (\<lambda>i. long_at ts i LONG_MIN)
      in \<lparr>ups_ident = text_at ts 0, ups_battery_status = v 1, ups_seconds_on_battery = v 2, ups_remaining_runtime = v 3,
          ups_remaining_charge = v 4, ups_battery_voltage = v 5, ups_battery_current = v 6, ups_battery_temperature = v 7,
          ups_input_line_bads = v 8, ups_input_lines = v 9, ups_output_source = v 10, ups_output_frequency = v 11,
          ups_output_lines = v 12, ups_alarms_present = v 13\<rparr>)"

definition ups_trace :: "ups_vals \<Rightarrow> mp_globals \<Rightarrow> mp_globals" where
  "ups_trace v g =
     (if 1 < mp_verbose g
      then mp_print (''battery status: '' @ fmt_d (ups_battery_status v) @ nl @ ''output source: '' @ fmt_d (ups_output_source v) @ nl @
             ''alarms present: '' @ fmt_d (ups_alarms_present v) @ nl @ ''input lines: '' @ fmt_d (ups_input_lines v) @ nl @
             ''output lines: '' @ fmt_d (ups_output_lines v) @ nl @ ''input line bads: '' @ fmt_d (ups_input_line_bads v) @ nl) g
      else g)"

section \<open>State and text\<close>

record ups_st =
  us_state :: int
  us_output :: "cbuf option"

definition ups_cat :: "string \<Rightarrow> ups_st \<Rightarrow> ups_st" where
  "ups_cat s st = st\<lparr>us_output := mp_strcat (us_output st) (Some s)\<rparr>"

text \<open>Print into the buffer, then append.\<close>

definition ups_put ::
    "(cbuf option \<Rightarrow> string option \<Rightarrow> cbuf option) \<Rightarrow> string \<Rightarrow> mp_globals \<Rightarrow> ups_st \<Rightarrow> mp_end + ups_st" where
  "ups_put cat s g st = map_sum (\<lambda>e. e) (\<lambda>buf. st\<lparr>us_output := cat (us_output st) (Some buf)\<rparr>) (mp_snprintf 64 (Some s) g)"

definition plural :: "int \<Rightarrow> string" where
  "plural n = (if n \<noteq> 1 then ''s'' else [])"

definition ups_head :: "ups_vals \<Rightarrow> mp_globals \<Rightarrow> ups_st \<Rightarrow> mp_end + ups_st" where
  "ups_head v g st =
     (case ups_ident v of
        None \<Rightarrow> Inr st
      | Some s \<Rightarrow> if s = [] then Inr st else ups_put mp_strcat (''['' @ s @ ''] '') g st)"

definition ups_on_battery :: "ups_vals \<Rightarrow> mp_globals \<Rightarrow> ups_st \<Rightarrow> mp_end + ups_st" where
  "ups_on_battery v g st =
     (if 0 < ups_seconds_on_battery v \<or> ups_output_source v = OUTPUT_BATTERY
      then let st = st\<lparr>us_state := STATE_WARNING\<rparr>
           in if 0 < ups_seconds_on_battery v
              then ups_put mp_strcat (''ON BATTERY (since '' @ fmt_d (to_int32 (ups_seconds_on_battery v)) @ '' sec'' @
                     plural (ups_seconds_on_battery v) @ ''), '') g st
              else Inr (ups_cat ''ON BATTERY, '' st)
      else Inr st)"

definition ups_alarms :: "ups_vals \<Rightarrow> ups_st \<Rightarrow> ups_st" where
  "ups_alarms v st =
     (if ups_alarms_present v \<noteq> LONG_MIN \<and> 0 < ups_alarms_present v
      then let st = (if us_state st \<noteq> STATE_CRITICAL then st\<lparr>us_state := STATE_WARNING\<rparr> else st)
           in if ups_alarms_present v = 1 then ups_cat ''UPS REPORTS AN ALARM, '' st
              else ups_cat ''UPS REPORTS MULTIPLE ALARMS, '' st
      else st)"

definition ups_threshold :: "string \<Rightarrow> int \<Rightarrow> thresholds option \<Rightarrow> ups_st \<Rightarrow> ups_st" where
  "ups_threshold label x t st =
     (if LONG_MIN < x
      then let s = get_status (dbl_of_int x) t
           in if s = STATE_CRITICAL then ups_cat (label @ '' CRITICAL, '') (st\<lparr>us_state := STATE_CRITICAL\<rparr>)
              else if s = STATE_WARNING
              then ups_cat (label @ '' WARNING, '') (if us_state st = STATE_OK then st\<lparr>us_state := STATE_WARNING\<rparr> else st)
              else st
      else st)"

definition ups_battery :: "ups_vals \<Rightarrow> ups_st \<Rightarrow> ups_st" where
  "ups_battery v st =
     (if ups_battery_status v = BATTERY_NORMAL then st
      else if ups_battery_status v = BATTERY_LOW \<or> ups_battery_status v = BATTERY_DEPLETED then st\<lparr>us_state := STATE_CRITICAL\<rparr>
      else if us_state st = STATE_OK then st\<lparr>us_state := STATE_UNKNOWN\<rparr> else st)"

definition ups_source :: "ups_vals \<Rightarrow> ups_st \<Rightarrow> ups_st" where
  "ups_source v st =
     (if ups_output_source v = OUTPUT_NORMAL then st
      else if ups_output_source v \<in> {OUTPUT_OTHER, OUTPUT_BYPASS, OUTPUT_BOOSTER, OUTPUT_REDUCER, OUTPUT_BATTERY}
      then (if us_state st \<noteq> STATE_CRITICAL then st\<lparr>us_state := STATE_WARNING\<rparr> else st)
      else if ups_output_source v = OUTPUT_NONE then st\<lparr>us_state := STATE_CRITICAL\<rparr>
      else if us_state st = STATE_OK then st\<lparr>us_state := STATE_UNKNOWN\<rparr> else st)"

text \<open>The status line: the texts that are printed into the buffer one after the other.\<close>

definition tenth :: "int \<Rightarrow> fp" where
  "tenth x = fp_mul round_float (flt_of_int x) (round_float False (1 / 10))"

definition ups_remaining :: "ups_vals \<Rightarrow> string list" where
  "ups_remaining v =
     (let r = ups_remaining_runtime v; c = fmt_d (to_int32 (ups_remaining_charge v)) @ ''%'';
          t = ''remaining: '' @ fmt_d r @ '' min'' @ plural r
      in if LONG_MIN < r \<and> LONG_MIN < ups_remaining_charge v then [t @ '' ['' @ c @ '']'']
         else if LONG_MIN < r then [t]
         else if LONG_MIN < ups_remaining_charge v then [''remaining: '' @ c]
         else [])"

definition ups_extended :: "ups_vals \<Rightarrow> string list" where
  "ups_extended v =
     (let p = (\<lambda>x s. if LONG_MIN < x then [s] else [])
      in p (ups_battery_voltage v) (''voltage: '' @ fmt_f 0 (tenth (ups_battery_voltage v)) @ '' V'') @
         p (ups_battery_current v) (''current: '' @ fmt_f 1 (tenth (ups_battery_current v)) @ '' A'') @
         p (ups_battery_temperature v) (''temperature: '' @ fmt_d (ups_battery_temperature v) @ '' C'') @
         p (ups_output_frequency v) (''output frequency: '' @ fmt_f 1 (tenth (ups_output_frequency v)) @ '' Hz'') @
         p (ups_input_line_bads v) (''input line bads: '' @ fmt_d (ups_input_line_bads v)))"

fun ups_puts :: "string list \<Rightarrow> mp_globals \<Rightarrow> ups_st \<Rightarrow> mp_end + ups_st" where
  "ups_puts [] g st = Inr st"
| "ups_puts (s # ss) g st = (case ups_put mp_strcat_comma s g st of Inl e \<Rightarrow> Inl e | Inr st \<Rightarrow> ups_puts ss g st)"

definition ups_status_line :: "bool \<Rightarrow> ups_vals \<Rightarrow> mp_globals \<Rightarrow> ups_st \<Rightarrow> mp_end + ups_st" where
  "ups_status_line extended v g st =
     (case ups_put mp_strcat (''battery: '' @ battery_status_to_string (to_int32 (ups_battery_status v))) g st of
        Inl e \<Rightarrow> Inl e
      | Inr st \<Rightarrow>
          ups_puts (ups_remaining v @ [''source: '' @ output_source_to_string (to_int32 (ups_output_source v))] @
                    (if extended then ups_extended v else [])) g st)"

text \<open>The performance data; the entry of the remaining runtime holds the remaining charge.\<close>

definition ups_perf :: "ups_args \<Rightarrow> ups_vals \<Rightarrow> mp_globals \<Rightarrow> mp_globals" where
  "ups_perf a v g =
     (if mp_showperfdata g
      then let i = (\<lambda>x label y u t g. if LONG_MIN < x then snd (mp_perfdata_int label y u t g) else g);
               f = (\<lambda>x label u g. if LONG_MIN < x then snd (mp_perfdata_float label (tenth x) u None g) else g);
               g = i (ups_remaining_charge v) ''remaining_charge'' (ups_remaining_charge v) ''%'' (threshold_charge a) g;
               g = i (ups_remaining_runtime v) ''remaining_runtime'' (ups_remaining_charge v) ''minutes'' (threshold_runtime a) g;
               g = f (ups_battery_voltage v) ''battery_voltage'' ''V'' g;
               g = f (ups_battery_current v) ''battery_current'' ''A'' g;
               g = i (ups_battery_temperature v) ''battery_temperature'' (ups_battery_temperature v) ''C'' None g;
               g = f (ups_output_frequency v) ''output_frequency'' ''Hz'' g
           in i (ups_input_line_bads v) ''input_line_bads'' (ups_input_line_bads v) [] None g
      else g)"

definition ups_checks :: "ups_args \<Rightarrow> ups_vals \<Rightarrow> ups_st \<Rightarrow> ups_st" where
  "ups_checks a v st =
     ups_source v (ups_battery v (ups_threshold ''CHARGE'' (ups_remaining_charge v) (threshold_charge a)
       (ups_threshold ''RUNTIME'' (ups_remaining_runtime v) (threshold_runtime a) (ups_alarms v st))))"

definition ups_exit :: "ups_args \<Rightarrow> ups_vals \<Rightarrow> ups_st \<Rightarrow> mp_globals \<Rightarrow> mp_end" where
  "ups_exit a v st g =
     (let g = ups_perf a v g; t = ''UPS: '' @ buf_text (us_output st)
      in if us_state st = STATE_OK then ok t g
         else if us_state st = STATE_WARNING then warning t g
         else if us_state st = STATE_CRITICAL then critical t g
         else unknown t g)"

definition ups_report :: "ups_args \<Rightarrow> ups_vals \<Rightarrow> mp_globals \<Rightarrow> mp_end" where
  "ups_report a v g =
     (let g = ups_trace v g
      in case ups_head v g \<lparr>us_state = STATE_OK, us_output = None\<rparr> of
           Inl e \<Rightarrow> e
         | Inr st \<Rightarrow>
             (case ups_on_battery v g st of
                Inl e \<Rightarrow> e
              | Inr st \<Rightarrow>
                  (case ups_status_line (extended_status a) v g (ups_checks a v st) of
                     Inl e \<Rightarrow> e
                   | Inr st \<Rightarrow> ups_exit a v st g)))"

definition check_snmp_ups_main ::
    "bool \<Rightarrow> resolver \<Rightarrow> 's snmp_env \<Rightarrow> nat \<Rightarrow> string \<Rightarrow> (char \<times> string) list \<Rightarrow> mp_globals \<Rightarrow> mp_end option" where
  "check_snmp_ups_main v6 gai env argc help os g =
     (case ups_process_arguments v6 gai argc help os g of
        Inl e \<Rightarrow> Some e
      | Inr (a, g) \<Rightarrow>
          (case mp_snmp_init (en_lib env) (sh_snmp a) (sh_hostname a) (sh_port a) g of
             Inl e \<Rightarrow> Some e
           | Inr _ \<Rightarrow>
               (case mp_snmp_query (en_fuel env) (en_lib env) ups_cmds (en_agent env) Map.empty g of
                  None \<Rightarrow> None
                | Some (_, ts, _, g) \<Rightarrow> Some (ups_report a (ups_read ts) g))))"

section \<open>The state\<close>

text \<open>The specification: the severity of the values.\<close>

definition ups_critical :: "ups_args \<Rightarrow> ups_vals \<Rightarrow> bool" where
  "ups_critical a v \<longleftrightarrow>
     LONG_MIN < ups_remaining_runtime v \<and> get_status (dbl_of_int (ups_remaining_runtime v)) (threshold_runtime a) = STATE_CRITICAL \<or>
     LONG_MIN < ups_remaining_charge v \<and> get_status (dbl_of_int (ups_remaining_charge v)) (threshold_charge a) = STATE_CRITICAL \<or>
     ups_battery_status v \<in> {BATTERY_LOW, BATTERY_DEPLETED} \<or> ups_output_source v = OUTPUT_NONE"

definition ups_warning :: "ups_args \<Rightarrow> ups_vals \<Rightarrow> bool" where
  "ups_warning a v \<longleftrightarrow>
     0 < ups_seconds_on_battery v \<or> 0 < ups_alarms_present v \<or>
     LONG_MIN < ups_remaining_runtime v \<and> get_status (dbl_of_int (ups_remaining_runtime v)) (threshold_runtime a) = STATE_WARNING \<or>
     LONG_MIN < ups_remaining_charge v \<and> get_status (dbl_of_int (ups_remaining_charge v)) (threshold_charge a) = STATE_WARNING \<or>
     ups_output_source v \<in> {OUTPUT_OTHER, OUTPUT_BYPASS, OUTPUT_BATTERY, OUTPUT_BOOSTER, OUTPUT_REDUCER}"

definition ups_unknown :: "ups_vals \<Rightarrow> bool" where
  "ups_unknown v \<longleftrightarrow> ups_battery_status v \<noteq> BATTERY_NORMAL \<or> ups_output_source v \<noteq> OUTPUT_NORMAL"

definition ups_level :: "ups_args \<Rightarrow> ups_vals \<Rightarrow> int" where
  "ups_level a v =
     (if ups_critical a v then STATE_CRITICAL else if ups_warning a v then STATE_WARNING
      else if ups_unknown v then STATE_UNKNOWN else STATE_OK)"

lemma ups_step_states [simp]:
  "us_state (ups_cat s st) = us_state st"
  "us_state (ups_alarms v st) =
    (if ups_alarms_present v \<noteq> LONG_MIN \<and> 0 < ups_alarms_present v \<and> us_state st \<noteq> STATE_CRITICAL then STATE_WARNING else us_state st)"
  "us_state (ups_threshold l x t st) =
    (if LONG_MIN < x \<and> get_status (dbl_of_int x) t = STATE_CRITICAL then STATE_CRITICAL
     else if LONG_MIN < x \<and> get_status (dbl_of_int x) t = STATE_WARNING \<and> us_state st = STATE_OK then STATE_WARNING else us_state st)"
  "us_state (ups_battery v st) =
    (if ups_battery_status v = BATTERY_NORMAL then us_state st
     else if ups_battery_status v \<in> {BATTERY_LOW, BATTERY_DEPLETED} then STATE_CRITICAL
     else if us_state st = STATE_OK then STATE_UNKNOWN else us_state st)"
  "us_state (ups_source v st) =
    (if ups_output_source v = OUTPUT_NORMAL then us_state st
     else if ups_output_source v \<in> {OUTPUT_OTHER, OUTPUT_BYPASS, OUTPUT_BATTERY, OUTPUT_BOOSTER, OUTPUT_REDUCER}
     then (if us_state st = STATE_CRITICAL then STATE_CRITICAL else STATE_WARNING)
     else if ups_output_source v = OUTPUT_NONE then STATE_CRITICAL
     else if us_state st = STATE_OK then STATE_UNKNOWN else us_state st)"
  by (simp_all add: ups_cat_def ups_alarms_def ups_threshold_def ups_battery_def ups_source_def Let_def)

lemma ups_put_state: "ups_put cat s g st = Inr st' \<Longrightarrow> us_state st' = us_state st"
  by (auto simp: ups_put_def mp_snprintf_def split: if_splits)

lemma ups_puts_state: "ups_puts ss g st = Inr st' \<Longrightarrow> us_state st' = us_state st"
  by (induction ss g st rule: ups_puts.induct) (auto dest: ups_put_state split: sum.splits)

lemma ups_combine:
  fixes r c s al w w' bn bc sn sw sb s0 :: bool
  assumes "bn \<Longrightarrow> \<not> bc" "sn \<Longrightarrow> \<not> sw" "sn \<Longrightarrow> \<not> s0" "sw \<Longrightarrow> \<not> s0" "sb \<Longrightarrow> sw"
  defines "m \<equiv> (if r \<or> c then STATE_CRITICAL else if s \<or> sb \<or> al \<or> w \<or> w' then STATE_WARNING else STATE_OK)"
  defines "b \<equiv> (if bn then m else if bc then STATE_CRITICAL else if m = STATE_OK then STATE_UNKNOWN else m)"
  shows "(if sn then b else if sw then (if b = STATE_CRITICAL then STATE_CRITICAL else STATE_WARNING)
      else if s0 then STATE_CRITICAL else if b = STATE_OK then STATE_UNKNOWN else b) =
    (if r \<or> c \<or> bc \<or> s0 then STATE_CRITICAL else if s \<or> al \<or> w \<or> w' \<or> sw then STATE_WARNING
     else if \<not> bn \<or> \<not> sn then STATE_UNKNOWN else STATE_OK)"
  using assms(1-5) by (cases r; cases c; cases bc; cases bn; cases s0; cases sn; cases sw; cases sb) (simp_all add: m_def b_def)

lemma ups_checks_state:
  assumes "ups_on_battery v g st = Inr st'" "us_state st = STATE_OK"
  shows "us_state (ups_checks a v st') = ups_level a v"
proof -
  have b: "us_state st' = (if 0 < ups_seconds_on_battery v \<or> ups_output_source v = OUTPUT_BATTERY then STATE_WARNING else STATE_OK)"
    using assms by (auto simp: ups_on_battery_def Let_def dest!: ups_put_state split: if_splits)
  define r where "r = (LONG_MIN < ups_remaining_runtime v \<and> get_status (dbl_of_int (ups_remaining_runtime v)) (threshold_runtime a) = STATE_CRITICAL)"
  define r' where "r' = (LONG_MIN < ups_remaining_runtime v \<and> get_status (dbl_of_int (ups_remaining_runtime v)) (threshold_runtime a) = STATE_WARNING)"
  define c where "c = (LONG_MIN < ups_remaining_charge v \<and> get_status (dbl_of_int (ups_remaining_charge v)) (threshold_charge a) = STATE_CRITICAL)"
  define c' where "c' = (LONG_MIN < ups_remaining_charge v \<and> get_status (dbl_of_int (ups_remaining_charge v)) (threshold_charge a) = STATE_WARNING)"
  have l: "LONG_MIN < 0" by (simp add: LONG_MIN_def)
  define m where "m = us_state (ups_threshold ''CHARGE'' (ups_remaining_charge v) (threshold_charge a)
       (ups_threshold ''RUNTIME'' (ups_remaining_runtime v) (threshold_runtime a) (ups_alarms v st')))"
  have m: "m = (if r \<or> c then STATE_CRITICAL
      else if 0 < ups_seconds_on_battery v \<or> ups_output_source v = OUTPUT_BATTERY \<or> 0 < ups_alarms_present v \<or> r' \<or> c' then STATE_WARNING
      else STATE_OK)"
    unfolding m_def ups_step_states b r_def r'_def c_def c'_def using l by auto
  have excl: "ups_battery_status v = BATTERY_NORMAL \<Longrightarrow> ups_battery_status v \<notin> {BATTERY_LOW, BATTERY_DEPLETED}"
    "ups_output_source v = OUTPUT_NORMAL \<Longrightarrow>
      ups_output_source v \<notin> {OUTPUT_OTHER, OUTPUT_BYPASS, OUTPUT_BATTERY, OUTPUT_BOOSTER, OUTPUT_REDUCER}"
    "ups_output_source v = OUTPUT_NORMAL \<Longrightarrow> ups_output_source v \<noteq> OUTPUT_NONE"
    "ups_output_source v \<in> {OUTPUT_OTHER, OUTPUT_BYPASS, OUTPUT_BATTERY, OUTPUT_BOOSTER, OUTPUT_REDUCER} \<Longrightarrow> ups_output_source v \<noteq> OUTPUT_NONE"
    "ups_output_source v = OUTPUT_BATTERY \<Longrightarrow>
      ups_output_source v \<in> {OUTPUT_OTHER, OUTPUT_BYPASS, OUTPUT_BATTERY, OUTPUT_BOOSTER, OUTPUT_REDUCER}"
    by (auto simp: ups_consts)
  show ?thesis
    unfolding ups_checks_def ups_step_states(4,5) m_def [symmetric] ups_level_def ups_critical_def ups_warning_def ups_unknown_def
      r_def [symmetric] r'_def [symmetric] c_def [symmetric] c'_def [symmetric]
    unfolding m by (rule ups_combine) (use excl in blast)+
qed

text \<open>Numbers of the width of \<open>long\<close> print at most 20 characters.\<close>

lemma dec_str_length: "n < 10 ^ Suc k \<Longrightarrow> length (dec_str n) \<le> Suc k"
proof (induction k arbitrary: n)
  case 0
  then show ?case by (subst base_str.simps) simp
next
  case (Suc k)
  show ?case
  proof (cases "n < 10")
    case True
    then show ?thesis by (subst base_str.simps) simp
  next
    case False
    then have "n div 10 < 10 ^ Suc k" using Suc.prems by simp
    then show ?thesis using Suc.IH [of "n div 10"] False by (subst base_str.simps) simp
  qed
qed

definition is_long :: "int \<Rightarrow> bool" where
  "is_long x \<longleftrightarrow> LONG_MIN \<le> x \<and> x \<le> LONG_MAX"

lemma fmt_d_length: "is_long x \<Longrightarrow> length (fmt_d x) \<le> 20"
  using dec_str_length [of x 18] dec_str_length [of "- x" 18] by (auto simp: is_long_def fmt_d_def LONG_MIN_def LONG_MAX_def)

lemma fmt_int_length: "length (fmt_d (to_int32 x)) \<le> 20"
proof -
  have "is_long (to_int32 x)" by (auto simp: is_long_def to_int32_def LONG_MIN_def LONG_MAX_def)
  then show ?thesis by (rule fmt_d_length)
qed

lemma ups_put_fits: "length s < 64 \<Longrightarrow> \<exists>st'. ups_put cat s g st = Inr st'"
  by (simp add: ups_put_def mp_snprintf_def)

lemma ups_puts_fit: "list_all (\<lambda>s. length s < 64) ss \<Longrightarrow> \<exists>st'. ups_puts ss g st = Inr st'"
proof (induction ss arbitrary: st)
  case (Cons s ss)
  then show ?case using ups_put_fits [of s mp_strcat_comma g st] by auto
qed simp

lemma plural_length: "length (plural n) \<le> 1"
  by (simp add: plural_def)

lemma status_strings_length: "length (battery_status_to_string x) \<le> 8" "length (output_source_to_string x) \<le> 8"
proof -
  have "x \<in> {1..4} \<Longrightarrow> x = 1 \<or> x = 2 \<or> x = 3 \<or> x = 4" "x \<in> {1..7} \<Longrightarrow> x = 1 \<or> x = 2 \<or> x = 3 \<or> x = 4 \<or> x = 5 \<or> x = 6 \<or> x = 7"
    by auto
  then show "length (battery_status_to_string x) \<le> 8" "length (output_source_to_string x) \<le> 8"
    by (auto simp: battery_status_to_string_def output_source_to_string_def battery_status_strings_def output_source_strings_def
        ups_consts nth_Cons')
qed

lemma ups_remaining_fit:
  assumes "is_long (ups_remaining_runtime v)"
  shows "list_all (\<lambda>s. length s < 64) (ups_remaining v)"
proof -
  let ?r = "ups_remaining_runtime v" and ?c = "ups_remaining_charge v"
  have "length (fmt_d ?r) + length (plural ?r) + length (fmt_d (to_int32 ?c)) \<le> 41"
    using fmt_d_length [OF assms] plural_length [of ?r] fmt_int_length [of ?c] by linarith
  then show ?thesis by (simp add: ups_remaining_def Let_def)
qed

lemma ups_line_fits:
  assumes "is_long (ups_remaining_runtime v)"
  shows "\<exists>st'. ups_status_line False v g st = Inr st'"
proof -
  obtain st1 where "ups_put mp_strcat (''battery: '' @ battery_status_to_string (to_int32 (ups_battery_status v))) g st = Inr st1"
    using ups_put_fits [of "''battery: '' @ battery_status_to_string (to_int32 (ups_battery_status v))" mp_strcat g st]
      status_strings_length(1) [of "to_int32 (ups_battery_status v)"] by auto
  moreover have "list_all (\<lambda>s. length s < 64) (ups_remaining v @ [''source: '' @ output_source_to_string (to_int32 (ups_output_source v))])"
    using ups_remaining_fit [OF assms] status_strings_length(2) [of "to_int32 (ups_output_source v)"] by simp
  ultimately show ?thesis using ups_puts_fit by (simp add: ups_status_line_def)
qed

lemma ups_line_state: "ups_status_line e v g st = Inr st' \<Longrightarrow> us_state st' = us_state st"
  by (auto simp: ups_status_line_def simp del: append_Cons dest!: ups_put_state ups_puts_state split: sum.splits)

lemma ups_exit_code: "us_state st = ups_level a v \<Longrightarrow> exit_code (ups_exit a v st g) = Some (ups_level a v)"
  by (simp add: ups_exit_def Let_def ups_level_def)

lemma ups_report_level_cases:
  shows "\<not> extended_status a \<Longrightarrow> is_long (ups_remaining_runtime v) \<Longrightarrow> length (fmt_s (ups_ident v)) \<le> 60 \<Longrightarrow>
      exit_code (ups_report a v g) = Some (ups_level a v)"
    and "60 < length (fmt_s (ups_ident v)) \<Longrightarrow> ups_report a v g = critical ''snprintf failed!'' (ups_trace v g)"
proof -
  assume a: "\<not> extended_status a" "is_long (ups_remaining_runtime v)" "length (fmt_s (ups_ident v)) \<le> 60"
  let ?g = "ups_trace v g"
  obtain st1 where h: "ups_head v ?g \<lparr>us_state = STATE_OK, us_output = None\<rparr> = Inr st1"
  proof (cases "ups_ident v")
    case (Some s)
    then show ?thesis
      using that a(3) ups_put_fits [of "''['' @ s @ ''] ''" mp_strcat ?g "\<lparr>us_state = STATE_OK, us_output = None\<rparr>"]
      by (cases "s = []") (auto simp: ups_head_def fmt_s_def)
  qed (simp add: ups_head_def that)
  then have s1: "us_state st1 = STATE_OK"
    by (auto simp: ups_head_def dest: ups_put_state split: option.splits if_splits)
  obtain st2 where b: "ups_on_battery v ?g st1 = Inr st2"
    using ups_put_fits [of "''ON BATTERY (since '' @ fmt_d (to_int32 (ups_seconds_on_battery v)) @ '' sec'' @ plural (ups_seconds_on_battery v) @ ''), ''" mp_strcat ?g]
      fmt_int_length [of "ups_seconds_on_battery v"] plural_length [of "ups_seconds_on_battery v"]
    by (fastforce simp: ups_on_battery_def Let_def)
  obtain st3 where "ups_status_line False v ?g (ups_checks a v st2) = Inr st3" using ups_line_fits [OF a(2)] by blast
  then show "exit_code (ups_report a v g) = Some (ups_level a v)"
    using a(1) h b ups_line_state ups_checks_state [OF b s1, of a] ups_exit_code [of st3 a v ?g] by (simp add: ups_report_def)
next
  assume "60 < length (fmt_s (ups_ident v))"
  then obtain s where "ups_ident v = Some s" "60 < length s" by (cases "ups_ident v") (auto simp: fmt_s_def)
  then show "ups_report a v g = critical ''snprintf failed!'' (ups_trace v g)"
    by (auto simp: ups_report_def ups_head_def ups_put_def mp_snprintf_def Let_def)
qed

text \<open>C30: The state of the UPS. With values of the width of the type and a name of at most 60 characters, the result of
  \<open>check_snmp_ups\<close> is the severity of the values, whatever the order of the checks in the code: CRITICAL before WARNING before
  UNKNOWN. A longer name does not fit into the buffer, and the plugin ends with CRITICAL for every state of the UPS.\<close>

theorem ups_report_level:
  shows "(\<not> extended_status a \<longrightarrow> is_long (ups_remaining_runtime v) \<longrightarrow> length (fmt_s (ups_ident v)) \<le> 60 \<longrightarrow>
      exit_code (ups_report a v g) = Some (ups_level a v)) \<and>
    (60 < length (fmt_s (ups_ident v)) \<longrightarrow> ups_report a v g = critical ''snprintf failed!'' (ups_trace v g))"
  using ups_report_level_cases by blast

definition ups_ex :: ups_vals where
  "ups_ex = (ups_read Map.empty)\<lparr>ups_ident := Some ''ups1'', ups_battery_status := 2, ups_output_source := 4\<rparr>"

theorem ups_report_level_witness:
  "exit_code (ups_report ups_args0 ups_ex check_snmp_ups_globals) = Some STATE_WARNING \<and>
   ups_report ups_args0 (ups_ex\<lparr>ups_ident := Some (replicate 61 (CHR ''x''))\<rparr>) check_snmp_ups_globals =
     critical ''snprintf failed!'' check_snmp_ups_globals"
proof -
  have "ups_level ups_args0 ups_ex = STATE_WARNING"
    by (simp add: ups_level_def ups_critical_def ups_warning_def ups_ex_def ups_read_def long_at_def ups_consts)
  moreover have "\<not> extended_status ups_args0" by (simp add: ups_args0_def snmp_host.defs ups_args.defs snmp_host0_def)
  moreover have "is_long (ups_remaining_runtime ups_ex)" "length (fmt_s (ups_ident ups_ex)) \<le> 60"
    by (simp_all add: ups_ex_def ups_read_def long_at_def is_long_def LONG_MIN_def LONG_MAX_def fmt_s_def)
  ultimately have "exit_code (ups_report ups_args0 ups_ex check_snmp_ups_globals) = Some STATE_WARNING"
    using ups_report_level [of ups_args0 ups_ex check_snmp_ups_globals] by simp
  moreover have "ups_report ups_args0 (ups_ex\<lparr>ups_ident := Some (replicate 61 (CHR ''x''))\<rparr>) check_snmp_ups_globals =
     critical ''snprintf failed!'' check_snmp_ups_globals"
    using ups_report_level [of ups_args0 "ups_ex\<lparr>ups_ident := Some (replicate 61 (CHR ''x''))\<rparr>" check_snmp_ups_globals]
    by (simp add: fmt_s_def ups_trace_def check_snmp_ups_globals_def mp_init_def)
  ultimately show ?thesis ..
qed

interpretation ups_options: plugin_options "ups_opt v6 gai" "\<lambda>a. thresholds_both (threshold_charge a) \<and> thresholds_both (threshold_runtime a)"
  for v6 gai
proof
  fix a a' :: ups_args and c s g
  assume p: "thresholds_both (threshold_charge a) \<and> thresholds_both (threshold_runtime a)" "ups_opt v6 gai c s a g = Inr a'"
  obtain a1 where a1: "snmp_host_opt v6 gai c s a g = Inr a1" using p(2) by (auto simp: ups_opt_def split: sum.splits)
  then have "threshold_charge a1 = threshold_charge a" "threshold_runtime a1 = threshold_runtime a"
    by (cases "getopt_host v6 gai s g"; cases "getopt_port s g"; auto simp: snmp_host_opt_def Let_def split: if_splits sum.splits)+
  then show "thresholds_both (threshold_charge a') \<and> thresholds_both (threshold_runtime a')"
    using p a1 thresholds_both_keep(3)
    by (cases "getopt_wc_at c s (threshold_charge a1) g"; cases "getopt_wc_at (CHR ''w'') s (threshold_runtime a1) g";
        cases "getopt_wc_at (CHR ''c'') s (threshold_runtime a1) g") (auto simp: ups_opt_def split: if_splits)
next
  fix a :: ups_args and c s g e
  assume p: "ups_opt v6 gai c s a g = Inl e"
  show "exit_code e = Some STATE_UNKNOWN"
  proof (cases "snmp_host_opt v6 gai c s a g")
    case (Inl e')
    then show ?thesis using p by (auto simp: ups_opt_def snmp_host_opt_refuses)
  next
    case (Inr a1)
    then show ?thesis
      using p by (cases "getopt_wc_at c s (threshold_charge a1) g"; cases "getopt_wc_at (CHR ''w'') s (threshold_runtime a1) g";
          cases "getopt_wc_at (CHR ''c'') s (threshold_runtime a1) g") (auto simp: ups_opt_def refuse_simps split: if_splits)
  qed
qed


lemma ups_args0_both: "thresholds_both (threshold_charge ups_args0) \<and> thresholds_both (threshold_runtime ups_args0)"
  by (auto simp: ups_args0_def snmp_host.defs ups_args.defs thresholds_both_def set_threshold_defs split: prod.splits)

lemma ups_sane_both:
  assumes "thresholds_both (threshold_charge a)" "thresholds_both (threshold_runtime a)"
  obtains cw cc rw rc where "threshold_charge a = Some \<lparr>th_warning = Some cw, th_critical = Some cc\<rparr>"
    "threshold_runtime a = Some \<lparr>th_warning = Some rw, th_critical = Some rc\<rparr>"
proof -
  obtain x y where xy: "threshold_charge a = Some x" "th_warning x \<noteq> None" "th_critical x \<noteq> None"
      "threshold_runtime a = Some y" "th_warning y \<noteq> None" "th_critical y \<noteq> None"
    using assms by (auto simp: thresholds_both_def)
  then show thesis using that by (cases x; cases y) auto
qed

lemma ups_arguments_wf_cases:
  shows "ups_process_arguments v6 gai argc help os g = Inr (a, g') \<Longrightarrow>
      \<exists>cw cc rw rc. threshold_charge a = Some \<lparr>th_warning = Some cw, th_critical = Some cc\<rparr> \<and>
        threshold_runtime a = Some \<lparr>th_warning = Some rw, th_critical = Some rc\<rparr> \<and>
        list_all (\<lambda>e. \<not> fp_lt e (Num False 0) \<and> \<not> fp_lt (Num False 100) e) [range_end cw, range_end cc] \<and>
        list_all (\<lambda>e. \<not> fp_lt e (Num False 0)) [range_end rw, range_end rc] \<and>
        \<not> fp_lt (range_end cw) (range_end cc) \<and> \<not> fp_lt (range_end rw) (range_end rc)"
    and "ups_process_arguments v6 gai argc help os g = Inl e \<Longrightarrow> exit_code e = Some STATE_UNKNOWN"
proof -
  have both: "thresholds_both (threshold_charge a) \<and> thresholds_both (threshold_runtime a)"
    if "snmp_process_arguments (ups_opt v6 gai) ups_args0 STATE_UNKNOWN argc help os g = Inr a" for a
    using that ups_options.run_keeps [OF ups_args0_both] by (auto simp: snmp_process_arguments_def split: if_splits)
  show "\<exists>cw cc rw rc. threshold_charge a = Some \<lparr>th_warning = Some cw, th_critical = Some cc\<rparr> \<and>
        threshold_runtime a = Some \<lparr>th_warning = Some rw, th_critical = Some rc\<rparr> \<and>
        list_all (\<lambda>e. \<not> fp_lt e (Num False 0) \<and> \<not> fp_lt (Num False 100) e) [range_end cw, range_end cc] \<and>
        list_all (\<lambda>e. \<not> fp_lt e (Num False 0)) [range_end rw, range_end rc] \<and>
        \<not> fp_lt (range_end cw) (range_end cc) \<and> \<not> fp_lt (range_end rw) (range_end rc)"
    if p: "ups_process_arguments v6 gai argc help os g = Inr (a, g')"
  proof -
    have "snmp_process_arguments (ups_opt v6 gai) ups_args0 STATE_UNKNOWN argc help os g = Inr a" and s: "\<exists>g. ups_sane a g = None"
      using p by (auto simp: ups_process_arguments_def Let_def split: sum.splits option.splits)
    then obtain cw cc rw rc where r: "threshold_charge a = Some \<lparr>th_warning = Some cw, th_critical = Some cc\<rparr>"
        "threshold_runtime a = Some \<lparr>th_warning = Some rw, th_critical = Some rc\<rparr>"
      using both ups_sane_both by metis
    then show ?thesis using s by (auto simp: ups_sane_def Let_def split: if_splits simp del: fp_lt.simps)
  qed
  show "exit_code e = Some STATE_UNKNOWN" if p: "ups_process_arguments v6 gai argc help os g = Inl e"
  proof (cases "snmp_process_arguments (ups_opt v6 gai) ups_args0 STATE_UNKNOWN argc help os g")
    case (Inl e')
    then show ?thesis
      using p ups_options.run_refuses by (auto simp: ups_process_arguments_def snmp_process_arguments_def split: if_splits)
  next
    case (Inr a)
    then obtain cw cc rw rc where "threshold_charge a = Some \<lparr>th_warning = Some cw, th_critical = Some cc\<rparr>"
        "threshold_runtime a = Some \<lparr>th_warning = Some rw, th_critical = Some rc\<rparr>"
      using both ups_sane_both by metis
    then show ?thesis
      using p Inr by (auto simp: ups_process_arguments_def ups_sane_def Let_def split: if_splits option.splits simp del: fp_lt.simps)
  qed
qed

text \<open>C31: The arguments of \<open>check_snmp_ups\<close> are well formed. Whatever options are given, the plugin never uses a missing range:
  either it ends with a usage message, or all four ranges are there, the ends of the charge ranges lie between 0 and 100,
  those of the runtime ranges are not negative, and the WARNING ends are not below the CRITICAL ones.\<close>

theorem ups_arguments_wf:
  shows "(ups_process_arguments v6 gai argc help os g = Inr (a, g') \<longrightarrow>
      (\<exists>cw cc rw rc. threshold_charge a = Some \<lparr>th_warning = Some cw, th_critical = Some cc\<rparr> \<and>
        threshold_runtime a = Some \<lparr>th_warning = Some rw, th_critical = Some rc\<rparr> \<and>
        list_all (\<lambda>e. \<not> fp_lt e (Num False 0) \<and> \<not> fp_lt (Num False 100) e) [range_end cw, range_end cc] \<and>
        list_all (\<lambda>e. \<not> fp_lt e (Num False 0)) [range_end rw, range_end rc] \<and>
        \<not> fp_lt (range_end cw) (range_end cc) \<and> \<not> fp_lt (range_end rw) (range_end rc))) \<and>
    (ups_process_arguments v6 gai argc help os g = Inl e \<longrightarrow> exit_code e = Some STATE_UNKNOWN)"
  using ups_arguments_wf_cases by blast

lemma parse_inside:
  assumes "bound_ok m (Bound k [])"
  shows "parse_range_string (CHR ''@'' # fmt_d k) m = ((spec_range m (Upto (Bound k [])))\<lparr>alert_on := INSIDE\<rparr>, OK)"
  using parse_threshold_text [of m True "Upto (Bound k [])"] assms by simp

definition inside_upto :: "int \<Rightarrow> range" where
  "inside_upto k = range_default\<lparr>range_start := dnum 0, range_end := dnum k, alert_on := INSIDE\<rparr>"

lemma parse_inside_upto:
  "0 \<le> k \<Longrightarrow> k < 2 ^ 53 \<Longrightarrow> parse_range_string (CHR ''@'' # fmt_d k) NOEXT = (inside_upto k, OK)"
  using parse_inside [of NOEXT k] by (simp add: num_end_def unit_factor_def BISI_def TIME_def NOEXT_def inside_upto_def)

lemma ups_args0_thresholds:
  "threshold_charge ups_args0 = Some \<lparr>th_warning = Some (inside_upto 25), th_critical = Some (inside_upto 15)\<rparr>"
  "threshold_runtime ups_args0 = Some \<lparr>th_warning = Some (inside_upto 10), th_critical = Some (inside_upto 5)\<rparr>"
proof -
  have f: "fmt_d 25 = ''25''" "fmt_d 15 = ''15''" "fmt_d 10 = ''10''" "fmt_d 5 = ''5''" by code_simp+
  show "threshold_charge ups_args0 = Some \<lparr>th_warning = Some (inside_upto 25), th_critical = Some (inside_upto 15)\<rparr>"
    using parse_inside_upto [of 25] parse_inside_upto [of 15]
    by (simp add: f ups_args0_def snmp_host.defs ups_args.defs DEFAULT_CHARGE_WARNING_def DEFAULT_CHARGE_CRITICAL_def set_threshold_defs)
  show "threshold_runtime ups_args0 = Some \<lparr>th_warning = Some (inside_upto 10), th_critical = Some (inside_upto 5)\<rparr>"
    using parse_inside_upto [of 10] parse_inside_upto [of 5]
    by (simp add: f ups_args0_def snmp_host.defs ups_args.defs DEFAULT_RUNTIME_WARNING_def DEFAULT_RUNTIME_CRITICAL_def set_threshold_defs)
qed

theorem ups_arguments_wf_witness:
  "(\<exists>cw cc rw rc. threshold_charge ups_args0 = Some \<lparr>th_warning = Some cw, th_critical = Some cc\<rparr> \<and>
     threshold_runtime ups_args0 = Some \<lparr>th_warning = Some rw, th_critical = Some rc\<rparr> \<and>
     \<not> fp_lt (range_end cw) (range_end cc) \<and> \<not> fp_lt (range_end rw) (range_end rc))"
proof -
  have "ups_sane ups_args0 g = None" for g
    by (simp add: ups_sane_def ups_args0_thresholds inside_upto_def dnum_def Let_def)
  then have "ups_process_arguments True (\<lambda>f h. True) 3 [] [] check_snmp_ups_globals = Inr (ups_args0, check_snmp_ups_globals)"
    by (simp add: ups_process_arguments_def snmp_process_arguments_def check_snmp_ups_globals_def mp_init_def)
  then show ?thesis
    using ups_arguments_wf [of True "\<lambda>f h. True" 3 "[]" "[]" check_snmp_ups_globals ups_args0 check_snmp_ups_globals] by blast
qed

end
