(* ===== verification/Check_PDU.thy ===== *)
theory Check_PDU
  imports Check_SNMP
begin

text \<open>
  \<^verbatim>\<open>snmp/check_apc_pdu.c\<close>: the outlets of a power strip, and \<^verbatim>\<open>snmp/check_akcp.c\<close>: the sensors of an AKCP box.

  Variables the code does not initialise have the values of a parameter \<open>junk\<close> until a query stores into them.
\<close>

section \<open>check\_apc\_pdu\<close>

definition check_apc_pdu_globals :: mp_globals where
  "check_apc_pdu_globals = mp_init ''check_apc_pdu''
     (''-H <HOST> [--on <PORTS>] [--off <PORTS>]'')
     ''0.1'' ''Marius Rieder <marius.rieder@durchmesser.ch>'' ''2010''"

definition check_apc_pdu_print_help :: "'s snmp_lib \<Rightarrow> string \<Rightarrow> string \<Rightarrow> string" where
  "check_apc_pdu_print_help lib package version =
     print_revision package version check_apc_pdu_globals @
     print_revision_snmp lib @
     print_copyright check_apc_pdu_globals @
     help_lines
       [[],
        ''Check description: Check tyhe outlet status of a APC PDU.'',
        []] @
     print_usage check_apc_pdu_globals @
     help_lines
       [[],
        ''If no On/Off-Ports are defines all ports are asumed as should be On.'',
        [],
        ''On/Off-Ports can be named or nubered. ex: --on '' @ [CHR 0x27] @ ''1,Outlet 3,4'' @ [CHR 0x27]] @
     print_help_default @
     help_lines
       ['' -o, --on=PORT[,PORTS]'',
        ''      Ports which should be On.'',
        '' -O, --off=PORT[,PORTS]'',
        ''      Ports which should be Off.''] @
     print_help_snmp"

record pdu_args = snmp_host +
  stateOn :: "string option"
  stateOff :: "string option"

definition pdu_args0 :: pdu_args where
  "pdu_args0 = snmp_host.extend snmp_host0 (pdu_args.fields None None)"

definition pdu_opt :: "bool \<Rightarrow> resolver \<Rightarrow> pdu_args opt_handler" where
  "pdu_opt v6 gai c optarg a g =
     (case snmp_host_opt v6 gai c optarg a g of
        Inl e \<Rightarrow> Inl e
      | Inr a \<Rightarrow>
          Inr (if c = CHR ''o'' then a\<lparr>stateOn := Some optarg\<rparr>
               else if c = CHR ''O'' then a\<lparr>stateOff := Some optarg\<rparr> else a))"

definition pdu_process_arguments ::
    "bool \<Rightarrow> resolver \<Rightarrow> nat \<Rightarrow> string \<Rightarrow> (char \<times> string) list \<Rightarrow> mp_globals \<Rightarrow> mp_end + pdu_args" where
  "pdu_process_arguments v6 gai argc help os g =
     snmp_process_arguments (pdu_opt v6 gai) pdu_args0 STATE_OK argc help os g"

definition pdu_cmds :: "snmp_query_cmd list" where
  "pdu_cmds =
     [long_cmd ASN_INTEGER [1, 3, 6, 1, 4, 1, 318, 1, 1, 12, 4, 1, 1, 0],
      long_cmd ASN_INTEGER [1, 3, 6, 1, 4, 1, 318, 1, 1, 12, 4, 1, 2, 0], oct_cmd [1, 3, 6, 1, 2, 1, 1, 5, 0]]"

definition PDU_OUTLET :: oid where "PDU_OUTLET = [1, 3, 6, 1, 4, 1, 318, 1, 1, 12, 3, 5, 1]"

definition pdu_psu :: "int \<Rightarrow> int \<Rightarrow> row_st \<Rightarrow> row_st" where
  "pdu_psu pdu_psu1 pdu_psu2 st =
     (if pdu_psu1 \<noteq> 1 then st\<lparr>rw_status := STATE_CRITICAL, rw_out := Some (mp_strdup ''Power Supply 1 Failed!'')\<rparr>
      else if pdu_psu2 \<noteq> 1 then st\<lparr>rw_status := STATE_CRITICAL, rw_out := Some (mp_strdup ''Power Supply 2 Failed!'')\<rparr>
      else st)"

text \<open>An outlet in the wrong state is named in the message.\<close>

definition pdu_wrong :: "'s snmp_lib \<Rightarrow> snmp_var list \<Rightarrow> nat \<Rightarrow> string \<Rightarrow> row_st \<Rightarrow> row_st" where
  "pdu_wrong lib table i msg st =
     (case row_text lib table (PDU_OUTLET @ [1, 2]) i 64 (rw_name st) (rw_globals st) of
        (_, outlet_name, g) \<Rightarrow>
          st\<lparr>rw_name := outlet_name,
             rw_out := mp_strcat_space (mp_strcat_space (rw_out st) (Some outlet_name)) (Some msg),
             rw_status := STATE_CRITICAL, rw_globals := g\<rparr>)"

definition outlet_state :: "'s snmp_lib \<Rightarrow> snmp_var list \<Rightarrow> nat \<Rightarrow> mp_globals \<Rightarrow> int option \<times> mp_globals" where
  "outlet_state lib table i g =
     (case mp_snmp_subtree_get_value lib table (PDU_OUTLET @ [1, 4]) i ASN_INTEGER 8 g of
        (Some (SLong x), g) \<Rightarrow> (Some x, g) | (_, g) \<Rightarrow> (None, g))"

definition outlet_row :: "'s snmp_lib \<Rightarrow> snmp_var list \<Rightarrow> nat \<Rightarrow> row_st \<Rightarrow> bool \<times> row_st" where
  "outlet_row lib table i st =
     (case outlet_state lib table i (rw_globals st) of
        (None, g) \<Rightarrow> (False, st\<lparr>rw_globals := g\<rparr>)
      | (Some x, g) \<Rightarrow>
          let st = st\<lparr>rw_globals := g\<rparr>
          in (True, if x \<noteq> 1 then pdu_wrong lib table i '' is off!'' st else st))"

definition pdu_not_found :: "string \<Rightarrow> row_st \<Rightarrow> row_st" where
  "pdu_not_found c st =
     st\<lparr>rw_out := mp_strcat_space (mp_strcat_space (rw_out st) (Some c)) (Some '' not found!''),
        rw_status := (if rw_status st = STATE_OK then STATE_UNKNOWN else rw_status st)\<rparr>"

text \<open>The search for a name ends at the first row that has it, or whose name is not stored. The flag is the last result of
  the search; for an empty table it is that of the walk, 0.\<close>

definition name_row :: "'s snmp_lib \<Rightarrow> snmp_var list \<Rightarrow> string \<Rightarrow> nat \<Rightarrow> bool \<times> row_st \<Rightarrow> bool \<times> bool \<times> row_st" where
  "name_row lib table c i fst_st =
     (case row_text lib table (PDU_OUTLET @ [1, 2]) i 64 (rw_name (snd fst_st)) (rw_globals (snd fst_st)) of
        (rc, outlet_name, g) \<Rightarrow>
          (rc \<and> c \<noteq> outlet_name, rc, (snd fst_st)\<lparr>rw_name := outlet_name, rw_globals := g\<rparr>))"

text \<open>One port of a list, by name or number: the number 0 is no number, and an index below 0 is a huge \<open>size_t\<close>.\<close>

definition pdu_port :: "'s snmp_lib \<Rightarrow> snmp_var list \<Rightarrow> int \<Rightarrow> string \<Rightarrow> string \<Rightarrow> row_st \<Rightarrow> row_st" where
  "pdu_port lib table want msg c st =
     (let n = to_int32 (strtol 10 c);
          (idx, st) = (if n = 0
             then (case for_rows (name_row lib table c) 0 (length table) (False, st) of
                     (i, rc, st) \<Rightarrow> (if rc then Some i else None, st))
             else (Some (nat ((n - 1) mod 2 ^ 64)), st))
      in case idx of
           None \<Rightarrow> pdu_not_found c st
         | Some i \<Rightarrow>
             (case outlet_state lib table i (rw_globals st) of
                (None, g) \<Rightarrow> pdu_not_found c (st\<lparr>rw_globals := g\<rparr>)
              | (Some x, g) \<Rightarrow>
                  let st = st\<lparr>rw_globals := g\<rparr>
                  in if x \<noteq> want then pdu_wrong lib table i msg st else st))"

definition pdu_ports :: "'s snmp_lib \<Rightarrow> snmp_var list \<Rightarrow> int \<Rightarrow> string \<Rightarrow> string option \<Rightarrow> row_st \<Rightarrow> row_st" where
  "pdu_ports lib table want msg ports st =
     (case ports of None \<Rightarrow> st | Some s \<Rightarrow> fold (pdu_port lib table want msg) (strtoks '','' s) st)"

definition pdu_outlets :: "pdu_args \<Rightarrow> 's snmp_lib \<Rightarrow> snmp_var list \<Rightarrow> row_st \<Rightarrow> row_st" where
  "pdu_outlets a lib table st =
     (if stateOn a = None \<and> stateOff a = None then snd (for_rows (outlet_row lib table) 0 (length table) st)
      else pdu_ports lib table 2 '' is on!'' (stateOff a) (pdu_ports lib table 1 '' is off!'' (stateOn a) st))"

definition pdu_exit :: "string option \<Rightarrow> row_st \<Rightarrow> mp_end" where
  "pdu_exit pdu_name st =
     (let g = rw_globals st; t = ''APC PDU '' @ fmt_s pdu_name; tt = t @ '' ['' @ buf_text (rw_out st) @ '']''
      in if rw_status st = STATE_OK then ok t g
         else if rw_status st = STATE_WARNING then warning tt g
         else if rw_status st = STATE_UNKNOWN then unknown tt g
         else critical tt g)"

definition pdu_report :: "pdu_args \<Rightarrow> 's snmp_lib \<Rightarrow> string \<Rightarrow> targets \<Rightarrow> snmp_var list \<Rightarrow> mp_globals \<Rightarrow> mp_end" where
  "pdu_report a lib junk ts table g =
     pdu_exit (text_at ts 2)
       (pdu_outlets a lib table
         (pdu_psu (long_at ts 0 (-1)) (long_at ts 1 (-1))
           \<lparr>rw_state = [], rw_name = junk, rw_out = None, rw_status = STATE_OK, rw_globals = g\<rparr>))"

definition check_apc_pdu_main ::
    "bool \<Rightarrow> resolver \<Rightarrow> 's snmp_env \<Rightarrow> string \<Rightarrow> nat \<Rightarrow> string \<Rightarrow> (char \<times> string) list \<Rightarrow> mp_globals \<Rightarrow> mp_end option" where
  "check_apc_pdu_main v6 gai env junk argc help os g =
     (case pdu_process_arguments v6 gai argc help os g of
        Inl e \<Rightarrow> Some e
      | Inr a \<Rightarrow>
          (case mp_snmp_init (en_lib env) (sh_snmp a) (sh_hostname a) (sh_port a) g of
             Inl e \<Rightarrow> Some e
           | Inr session \<Rightarrow>
               (case mp_snmp_query (en_fuel env) (en_lib env) pdu_cmds (en_agent env) Map.empty g of
                  None \<Rightarrow> None
                | Some (rc, ts, s, g) \<Rightarrow>
                    if rc \<noteq> STAT_SUCCESS then Some (unknown (''APC PDU: Error fetching values: '' @ snmp_error (en_lib env) s) g)
                    else
                      (case mp_snmp_subtree_query (en_fuel env) (en_lib env) (ss_version session) PDU_OUTLET s g of
                         None \<Rightarrow> None
                       | Some (Inl e) \<Rightarrow> Some e
                       | Some (Inr (rc, table, s, g)) \<Rightarrow>
                           Some (if rc \<noteq> STAT_SUCCESS then unknown (''APC PDU: Error fetching table: '' @ snmp_error (en_lib env) s) g
                                 else pdu_report a (en_lib env) junk ts table g)))))"

section \<open>check\_akcp\<close>

definition check_akcp_globals :: mp_globals where
  "check_akcp_globals = mp_init ''check_akcp''
     (''-H <HOST>'')
     ''0.1'' ''Marius Rieder <marius.rieder@durchmesser.ch>'' ''2011''"

definition check_akcp_print_help :: "'s snmp_lib \<Rightarrow> string \<Rightarrow> string \<Rightarrow> string" where
  "check_akcp_print_help lib package version =
     print_revision package version check_akcp_globals @
     print_revision_snmp lib @
     print_copyright check_akcp_globals @
     help_lines
       [[],
        ''Check description: Check akcp sensor by snmp.'',
        []] @
     print_usage check_akcp_globals @
     print_help_default @
     help_lines
       ['' -s, --sensor=[INDEX]'',
        ''      Index of the sensor to check.'',
        '' -n, --name'',
        ''      Print names of sensors.'',
        ''     --temp'',
        ''      Check Temperature sensors.'',
        ''     --hum'',
        ''      Check Humidity sensors.''] @
     print_help_snmp"

definition MP_LONGOPT_TEMP :: char where "MP_LONGOPT_TEMP = CHR 0x90"
definition MP_LONGOPT_HUM :: char where "MP_LONGOPT_HUM = CHR 0x91"

record akcp_args = snmp_host +
  sensor_name :: bool
  sensor_temp :: int
  sensor_hum :: int
  sensor :: "int option list"
  sensors :: nat

definition akcp_args0 :: akcp_args where
  "akcp_args0 = snmp_host.extend (snmp_host0\<lparr>sh_snmp := snmp_args0\<lparr>mp_snmp_version := SNMP_VERSION_1\<rparr>\<rparr>)
     (akcp_args.fields False (-1) (-1) [] 0)"

definition akcp_opt :: "bool \<Rightarrow> resolver \<Rightarrow> akcp_args opt_handler" where
  "akcp_opt v6 gai c optarg a g =
     (case snmp_host_opt v6 gai c optarg a g of
        Inl e \<Rightarrow> Inl e
      | Inr a \<Rightarrow>
          Inr (if c = CHR ''s''
               then (case mp_array_push_int (sensor a) (Some optarg) (sensors a) of (arr, n) \<Rightarrow> a\<lparr>sensor := arr, sensors := n\<rparr>)
               else if c = CHR ''n'' then a\<lparr>sensor_name := True\<rparr>
               else if c = MP_LONGOPT_TEMP then a\<lparr>sensor_temp := 1\<rparr>
               else if c = MP_LONGOPT_HUM then a\<lparr>sensor_hum := 1\<rparr>
               else a))"

definition akcp_process_arguments ::
    "bool \<Rightarrow> resolver \<Rightarrow> nat \<Rightarrow> string \<Rightarrow> (char \<times> string) list \<Rightarrow> mp_globals \<Rightarrow> mp_end + akcp_args" where
  "akcp_process_arguments v6 gai argc help os g =
     map_sum (\<lambda>e. e)
       (\<lambda>a. if 0 < sensor_temp a \<or> 0 < sensor_hum a
            then a\<lparr>sensor_temp := sensor_temp a + 1, sensor_hum := sensor_hum a + 1\<rparr> else a)
       (snmp_process_arguments (akcp_opt v6 gai) akcp_args0 STATE_OK argc help os g)"

definition degreeeUnit :: "string list" where "degreeeUnit = [''F'', ''C'']"

text \<open>The two blocks of the loop: the temperature (16) and the humidity (17) of a sensor port. The last entry of the
  query, the unit, is one of the temperature only.\<close>

datatype quantity = Temp | Hum

primrec q_column :: "quantity \<Rightarrow> int" where
  "q_column Temp = 16"
| "q_column Hum = 17"

primrec q_label :: "quantity \<Rightarrow> string" where
  "q_label Temp = ''Temperature ''"
| "q_label Hum = ''Humidity ''"

primrec q_perf :: "quantity \<Rightarrow> string" where
  "q_perf Temp = ''temp_''"
| "q_perf Hum = ''hum_''"

primrec q_trace :: "quantity \<Rightarrow> string" where
  "q_trace Temp = ''Query Temp Sensor ''"
| "q_trace Hum = ''Query Hum Sensor ''"

definition akcp_oid :: "quantity \<Rightarrow> int \<Rightarrow> int \<Rightarrow> oid" where
  "akcp_oid q idx k = [1, 3, 6, 1, 4, 1, 3854, 1, 2, 2, 1, q_column q, 1, k, idx mod 2 ^ 64]"

definition akcp_cmds :: "quantity \<Rightarrow> int \<Rightarrow> snmp_query_cmd list" where
  "akcp_cmds q idx =
     oct_cmd (akcp_oid q idx 1) #
     map (\<lambda>k. long_cmd ASN_INTEGER (akcp_oid q idx k)) ([3, 4, 5, 7, 8, 9, 10] @ (if q = Temp then [12] else []))"

record akcp_st =
  ak_state :: int
  ak_output :: "cbuf option"
  ak_found :: int
  ak_globals :: mp_globals

definition raise_state :: "int \<Rightarrow> akcp_st \<Rightarrow> akcp_st" where
  "raise_state s st = (if ak_state st = STATE_OK then st\<lparr>ak_state := s\<rparr> else st)"

definition ak_add :: "string \<Rightarrow> akcp_st \<Rightarrow> akcp_st" where
  "ak_add s st = st\<lparr>ak_output := mp_strcat_comma (ak_output st) (Some s)\<rparr>"

definition akcp_range :: "int \<Rightarrow> int \<Rightarrow> range" where
  "akcp_range low high = \<lparr>range_start = dbl_of_int low, start_infinity = False, start_percent = False,
     range_end = dbl_of_int high, end_infinity = False, end_percent = False, alert_on = OUTSIDE\<rparr>"

text \<open>A sensor that is online: \<open>None\<close> where the unit is outside of the table of units.\<close>

definition akcp_online :: "quantity \<Rightarrow> string \<Rightarrow> int \<Rightarrow> (nat \<Rightarrow> int) \<Rightarrow> akcp_st \<Rightarrow> akcp_st option" where
  "akcp_online q name sensor_state val st =
     (case (if q = Temp then entry_of degreeeUnit (val 8) else Some ''%'') of
        None \<Rightarrow> None
      | Some u \<Rightarrow>
          let t = q_label q @ name @ '': '' @ fmt_d (val 1) @ u;
              st = (if sensor_state = 2 then ak_add t st
                    else if sensor_state = 3 \<or> sensor_state = 5 then ak_add (''Warning '' @ t) (raise_state STATE_WARNING st)
                    else ak_add (''Critical '' @ t) (st\<lparr>ak_state := STATE_CRITICAL\<rparr>))
          in Some (if mp_showperfdata (ak_globals st)
                   then st\<lparr>ak_globals := snd (mp_perfdata_int (q_perf q @ name) (val 1) u
                          (Some \<lparr>th_warning = Some (akcp_range (val 6) (val 4)), th_critical = Some (akcp_range (val 7) (val 5))\<rparr>)
                          (ak_globals st))\<rparr>
                   else st))"

datatype 's akcp_step = AkEnd mp_end | AkOut | AkBreak 's akcp_st | AkNext 's bool "string option" akcp_st

text \<open>One block; \<open>AkOut\<close> is running out of requests, \<open>AkBreak\<close> leaves the loop over the ports. Both blocks test
  \<open>sensor_temp\<close> before they report a missing sensor.\<close>

definition akcp_block :: "'s snmp_env \<Rightarrow> akcp_args \<Rightarrow> quantity \<Rightarrow> (nat \<Rightarrow> int) \<Rightarrow> nat \<Rightarrow> int \<Rightarrow> 's \<Rightarrow> akcp_st \<Rightarrow> 's akcp_step" where
  "akcp_block env a q junk i idx s st =
     (let g = ak_globals st;
          g = (if mp_verbose g \<noteq> 0 then mp_print (q_trace q @ fmt_d idx @ nl) g else g)
      in case mp_snmp_query (en_fuel env) (en_lib env) (akcp_cmds q idx) s Map.empty g of
           None \<Rightarrow> AkOut
         | Some (rc, ts, s, g) \<Rightarrow>
             let st = st\<lparr>ak_globals := g\<rparr>; online = long_at ts 3 0; val = (\<lambda>k. long_at ts k (junk k));
                 name = (if sensor_name a then text_at ts 0 else Some (fmt_d (int i + 1)));
                 missing = (\<lambda>what. if 0 < sensors a \<and> 0 < sensor_temp a
                    then ak_add (q_label q @ fmt_s name @ '': '' @ what) (raise_state STATE_UNKNOWN st) else st)
             in if rc \<noteq> STAT_SUCCESS \<or> sensors a = 0 \<and> online = 0 then AkBreak s st
                else if online = 1
                then (case akcp_online q (fmt_s name) (long_at ts 2 0) val st of
                        None \<Rightarrow> AkEnd Crash
                      | Some st \<Rightarrow> AkNext s True name st)
                else if online = 2
                then AkNext s False name
                       (if 0 < sensors a \<and> 0 < sensor_temp a then missing ''offline''
                        else if mp_verbose g \<noteq> 0 then st\<lparr>ak_globals := mp_print ('' skip offline'' @ nl) g\<rparr> else st)
                else AkNext s False name (missing ''not available''))"

text \<open>One port. The name behind the two blocks is that of the humidity block, NULL when it was not entered.\<close>

definition akcp_port :: "'s snmp_env \<Rightarrow> akcp_args \<Rightarrow> (quantity \<Rightarrow> nat \<Rightarrow> int) \<Rightarrow> nat \<Rightarrow> int \<Rightarrow> 's \<Rightarrow> akcp_st \<Rightarrow> 's akcp_step" where
  "akcp_port env a junk i idx s st =
     (case (if sensor_temp a \<noteq> 0 then akcp_block env a Temp (junk Temp) i idx s st else AkNext s False None st) of
        AkNext s f1 _ st \<Rightarrow>
          (case (if sensor_hum a \<noteq> 0 then akcp_block env a Hum (junk Hum) i idx s st else AkNext s False None st) of
             AkNext s f2 name st \<Rightarrow>
               let st = (if 0 < sensors a \<and> \<not> f1 \<and> \<not> f2
                         then ak_add (''Humidity '' @ fmt_s name @ '': not available'') (raise_state STATE_UNKNOWN st) else st)
               in AkNext s (f1 \<or> f2) name (st\<lparr>ak_found := ak_found st + of_bool f1 + of_bool f2\<rparr>)
           | e \<Rightarrow> e)
      | e \<Rightarrow> e)"

text \<open>The loop over the ports: the given sensors, or the first ten. An entry of the array that was not written is \<open>None\<close>.\<close>

fun akcp_loop :: "'s snmp_env \<Rightarrow> akcp_args \<Rightarrow> (nat \<Rightarrow> quantity \<Rightarrow> nat \<Rightarrow> int) \<Rightarrow> (nat \<times> int option) list \<Rightarrow> 's \<Rightarrow> akcp_st \<Rightarrow> 's akcp_step" where
  "akcp_loop env a junk [] s st = AkBreak s st"
| "akcp_loop env a junk ((i, None) # ps) s st = AkEnd Crash"
| "akcp_loop env a junk ((i, Some idx) # ps) s st =
     (case akcp_port env a (junk i) i idx s st of
        AkNext s _ _ st \<Rightarrow> akcp_loop env a junk ps s st
      | e \<Rightarrow> e)"

definition akcp_ports :: "akcp_args \<Rightarrow> (nat \<times> int option) list" where
  "akcp_ports a =
     (if sensors a = 0 then map (\<lambda>i. (i, Some (int i))) [0..<10]
      else map (\<lambda>i. (i, map_option (\<lambda>n. n - 1) (sensor a ! i))) [0..<sensors a])"

definition akcp_exit :: "akcp_st \<Rightarrow> mp_end" where
  "akcp_exit st =
     (let g = ak_globals st; t = ''AKCP - '' @ buf_text (ak_output st)
      in if ak_found st = 0 then unknown ''No Sensors found.'' g
         else if ak_state st = STATE_OK then ok t g
         else if ak_state st = STATE_WARNING then warning t g
         else if ak_state st = STATE_CRITICAL then critical t g
         else unknown t g)"

definition check_akcp_main ::
    "bool \<Rightarrow> resolver \<Rightarrow> 's snmp_env \<Rightarrow> (nat \<Rightarrow> quantity \<Rightarrow> nat \<Rightarrow> int) \<Rightarrow> nat \<Rightarrow> string \<Rightarrow> (char \<times> string) list \<Rightarrow> mp_globals \<Rightarrow> mp_end option" where
  "check_akcp_main v6 gai env junk argc help os g =
     (case akcp_process_arguments v6 gai argc help os g of
        Inl e \<Rightarrow> Some e
      | Inr a \<Rightarrow>
          (case mp_snmp_init (en_lib env) (sh_snmp a) (sh_hostname a) (sh_port a) g of
             Inl e \<Rightarrow> Some e
           | Inr _ \<Rightarrow>
               (case akcp_loop env a junk (akcp_ports a) (en_agent env)
                       \<lparr>ak_state = STATE_OK, ak_output = None, ak_found = 0, ak_globals = g\<rparr> of
                  AkEnd e \<Rightarrow> Some e
                | AkOut \<Rightarrow> None
                | AkBreak _ st \<Rightarrow> Some (akcp_exit st)
                | AkNext _ _ _ st \<Rightarrow> Some (akcp_exit st))))"

section \<open>The outlets\<close>

definition outlet_level :: "int \<Rightarrow> int" where
  "outlet_level x = (if x = 1 then STATE_OK else STATE_CRITICAL)"

lemma outlet_state_val:
  obtains g' where "outlet_state lib table i g =
    (case row_val lib table (PDU_OUTLET @ [1, 4]) i ASN_INTEGER 8 of Some (SLong x) \<Rightarrow> (Some x, g') | _ \<Rightarrow> (None, g'))"
  using get_value_val [of ASN_INTEGER lib table "PDU_OUTLET @ [1, 4]" i 8 g]
  by (cases "mp_snmp_subtree_get_value lib table (PDU_OUTLET @ [1, 4]) i ASN_INTEGER 8 g")
    (auto simp: outlet_state_def known_type_def is_long_type_def)

interpretation outlet_rows: table_rows "outlet_row lib table" "lead_rows lib table (PDU_OUTLET @ [1, 4]) ASN_INTEGER 8"
    "\<lambda>i. outlet_level (row_int lib table (PDU_OUTLET @ [1, 4]) i)" for lib :: "'s snmp_lib" and table
proof
  let ?pre = "PDU_OUTLET @ [1, 4]"
  fix i and st :: row_st
  assume i: "i < lead_rows lib table ?pre ASN_INTEGER 8" and s: "0 \<le> rw_status st" "rw_status st \<le> 2"
  obtain x where x: "row_val lib table ?pre i ASN_INTEGER 8 = Some (SLong x)"
    using lead_rows_facts(1) [OF i] row_val_kind(2) [of lib table ?pre i 8] by (metis not_None_eq snmp_value.exhaust)
  then obtain g' where "outlet_state lib table i (rw_globals st) = (Some x, g')"
    using outlet_state_val [of lib table i "rw_globals st"] by auto
  then show "fst (outlet_row lib table i st) \<and> rw_status (snd (outlet_row lib table i st)) =
      max (rw_status st) (outlet_level (row_int lib table ?pre i))"
    using s x by (auto simp: outlet_row_def row_int_def outlet_level_def pdu_wrong_def Let_def split: prod.split)
next
  let ?pre = "PDU_OUTLET @ [1, 4]"
  fix st :: row_st
  obtain g' where "outlet_state lib table (lead_rows lib table ?pre ASN_INTEGER 8) (rw_globals st) = (None, g')"
    using outlet_state_val [of lib table "lead_rows lib table ?pre ASN_INTEGER 8" "rw_globals st"]
      lead_rows_facts(2) [of lib table ?pre ASN_INTEGER 8] by auto
  then show "\<not> fst (outlet_row lib table (lead_rows lib table ?pre ASN_INTEGER 8) st) \<and>
      rw_status (snd (outlet_row lib table (lead_rows lib table ?pre ASN_INTEGER 8) st)) = rw_status st"
    by (simp add: outlet_row_def)
qed (simp add: outlet_level_def)

text \<open>The power strip without a list of ports. The plugin ends with CRITICAL when a power supply or one of the outlets that
  the table lists is not on, and with OK otherwise, also when the table has no outlet.\<close>

theorem pdu_report_all_on:
  assumes "oid_compare_ok lib" "stateOn a = None" "stateOff a = None"
  shows "exit_code (pdu_report a lib junk ts table g) =
    Some (if long_at ts 0 (-1) = 1 \<and> long_at ts 1 (-1) = 1 \<and>
             list_all (\<lambda>v. long_of v = 1) (column_vals (PDU_OUTLET @ [1, 4]) ASN_INTEGER 8 table)
          then STATE_OK else STATE_CRITICAL)"
proof -
  let ?vs = "column_vals (PDU_OUTLET @ [1, 4]) ASN_INTEGER 8 table"
  let ?st = "pdu_psu (long_at ts 0 (-1)) (long_at ts 1 (-1)) \<lparr>rw_state = [], rw_name = junk, rw_out = None, rw_status = STATE_OK, rw_globals = g\<rparr>"
  obtain i st where r: "for_rows (outlet_row lib table) 0 (length table) ?st = (i, st)" by (cases "for_rows (outlet_row lib table) 0 (length table) ?st")
  have "rw_status st = fold (\<lambda>i. max (outlet_level (row_int lib table (PDU_OUTLET @ [1, 4]) i))) [0..<length ?vs] (rw_status ?st)"
    using outlet_rows.rows_status [OF _ _ _ r] lead_rows_facts(3) [of lib table "PDU_OUTLET @ [1, 4]" ASN_INTEGER 8]
    by (auto simp: lead_rows_column [OF assms(1)] min_absorb1 pdu_psu_def)
  also have "\<dots> = fold max (map (outlet_level \<circ> long_of) ?vs) (rw_status ?st)"
    unfolding row_levels(2) [OF assms(1), of outlet_level, symmetric] by (simp add: fold_map comp_def)
  also have "\<dots> = (if list_all (\<lambda>v. long_of v = 1) ?vs then rw_status ?st else STATE_CRITICAL)"
  proof -
    have "a \<in> {STATE_OK, STATE_CRITICAL} \<Longrightarrow>
        fold max (map (outlet_level \<circ> long_of) vs) a = (if list_all (\<lambda>v. long_of v = 1) vs then a else STATE_CRITICAL)" for vs a
      by (induction vs arbitrary: a) (auto simp: outlet_level_def)
    then show ?thesis by (auto simp: pdu_psu_def)
  qed
  finally show ?thesis using assms(2,3) r by (auto simp: pdu_report_def pdu_outlets_def pdu_exit_def pdu_psu_def)
qed

definition pdu_mib :: "snmp_var list" where
  "pdu_mib = [int_var (PDU_OUTLET @ [1, 4, 1]) 1, int_var (PDU_OUTLET @ [1, 4, 2]) 2]"

theorem pdu_report_all_on_witness:
  "exit_code (pdu_report pdu_args0 (snmp_lib_ex pdu_mib) [] [0 \<mapsto> SLong 1, 1 \<mapsto> SLong 1] pdu_mib check_apc_pdu_globals) = Some STATE_CRITICAL"
  using pdu_report_all_on [OF snmp_lib_ex_ok(1), where a = pdu_args0 and mib1 = pdu_mib and junk = "[]" and ts = "[0 \<mapsto> SLong 1, 1 \<mapsto> SLong 1]"
      and table = pdu_mib and g = check_apc_pdu_globals]
  by (simp add: pdu_args0_def snmp_host.defs pdu_args.defs snmp_host0_def pdu_mib_def int_var_def PDU_OUTLET_def column_vals_def column_def
      value_of_def is_long_type_def long_at_def)

section \<open>A sensor without humidity\<close>

lemma akcp_cmds_facts:
  "distinct (map q_oid (akcp_cmds q idx))" "list_all (\<lambda>c. known_type (q_type c)) (akcp_cmds q idx)"
  by (cases q; simp add: akcp_cmds_def oct_cmd_def long_cmd_def akcp_oid_def known_type_def is_long_type_def)+

lemma perfdata_verbose [simp]: "mp_verbose (snd (mp_perfdata_int l v u t g)) = mp_verbose g"
  by (simp add: mp_perfdata_int_def mp_perfdata_int2_def perf_append_def Let_def)

lemma akcp_online_verbose: "akcp_online q name s val st = Some st' \<Longrightarrow> mp_verbose (ak_globals st') = mp_verbose (ak_globals st) \<and> ak_found st' = ak_found st"
  by (auto simp: akcp_online_def Let_def ak_add_def raise_state_def split: option.splits if_splits)

lemma akcp_block_temp:
  assumes "oid_compare_ok (en_lib env)" "mp_verbose (ak_globals st) = 0" "en_fuel env = Suc n"
    "snmp_synch_response (en_lib env) s (Get (map q_oid (akcp_cmds Temp idx))) = (STAT_SUCCESS, Some \<lparr>p_errstat = 0, p_errindex = 0, p_vars = vs\<rparr>, s')"
    "distinct (map v_name vs)" "answer_for vs (long_cmd ASN_INTEGER (akcp_oid Temp idx 5)) = Some (SLong 1)"
    "answer_for vs (long_cmd ASN_INTEGER (akcp_oid Temp idx 12)) = Some (SLong u)" "u \<in> {0, 1}"
  obtains name st' where "akcp_block env a Temp junk i idx s st = AkNext s' True name st'" "mp_verbose (ak_globals st') = 0" "ak_found st' = ak_found st"
proof -
  let ?ts = "answers vs (akcp_cmds Temp idx)"
  have q: "mp_snmp_query (en_fuel env) (en_lib env) (akcp_cmds Temp idx) s Map.empty (ak_globals st) = Some (STAT_SUCCESS, ?ts, s', ak_globals st)"
    using query_accepted [OF assms(1) akcp_cmds_facts _ assms(4,5), of "ak_globals st" n] assms(2,3) by simp
  have ts: "long_at ?ts 3 0 = 1" "long_at ?ts 8 (junk 8) = u" using assms(6,7) by (simp_all add: long_at_def answers_def akcp_cmds_def)
  define name where "name = (if sensor_name a then text_at ?ts 0 else Some (fmt_d (int i + 1)))"
  obtain st' where o: "akcp_online Temp (fmt_s name) (long_at ?ts 2 0) (\<lambda>k. long_at ?ts k (junk k)) st = Some st'"
    using assms(8) ts(2) by (auto simp: akcp_online_def entry_of_def degreeeUnit_def Let_def)
  have "akcp_block env a Temp junk i idx s st = AkNext s' True name st'"
    using q assms(2) ts(1) o by (simp add: akcp_block_def Let_def name_def)
  then show thesis using that akcp_online_verbose [OF o] assms(2) by simp
qed

lemma akcp_block_no_hum:
  assumes "oid_compare_ok (en_lib env)" "mp_verbose (ak_globals st) = 0" "en_fuel env = Suc n" "sensors a = 0"
    "snmp_synch_response (en_lib env) s (Get (map q_oid (akcp_cmds Hum idx))) = (STAT_SUCCESS, Some \<lparr>p_errstat = 0, p_errindex = 0, p_vars = vs\<rparr>, s')"
    "distinct (map v_name vs)" "answer_for vs (long_cmd ASN_INTEGER (akcp_oid Hum idx 5)) = None"
  shows "akcp_block env a Hum junk i idx s st = AkBreak s' st"
proof -
  have "mp_snmp_query (en_fuel env) (en_lib env) (akcp_cmds Hum idx) s Map.empty (ak_globals st) =
      Some (STAT_SUCCESS, answers vs (akcp_cmds Hum idx), s', ak_globals st)"
    using query_accepted [OF assms(1) akcp_cmds_facts _ assms(5,6), of "ak_globals st" n] assms(2,3) by simp
  moreover have "long_at (answers vs (akcp_cmds Hum idx)) 3 0 = 0" using assms(7) by (simp add: long_at_def answers_def akcp_cmds_def)
  ultimately show ?thesis using assms(2,4) by (simp add: akcp_block_def Let_def)
qed

text \<open>C32: A box whose first port has a temperature and no humidity. In the default mode \<open>check_akcp\<close> reads the temperature of the
  online sensor, leaves the loop at the humidity query before it has counted the sensor, and ends with UNKNOWN and the
  text that there are no sensors, even when the temperature is critical.\<close>

theorem check_akcp_temp_only:
  assumes "akcp_process_arguments v6 gai argc help os g = Inr a"
    "mp_snmp_init (en_lib env) (sh_snmp a) (sh_hostname a) (sh_port a) g = Inr session"
    "sensors a = 0" "sensor_temp a \<noteq> 0" "sensor_hum a \<noteq> 0" "oid_compare_ok (en_lib env)" "mp_verbose g = 0" "0 < en_fuel env"
    "snmp_synch_response (en_lib env) (en_agent env) (Get (map q_oid (akcp_cmds Temp 0))) =
       (STAT_SUCCESS, Some \<lparr>p_errstat = 0, p_errindex = 0, p_vars = vs\<rparr>, s1)"
    "distinct (map v_name vs)" "answer_for vs (long_cmd ASN_INTEGER (akcp_oid Temp 0 5)) = Some (SLong 1)"
    "answer_for vs (long_cmd ASN_INTEGER (akcp_oid Temp 0 12)) = Some (SLong u)" "u \<in> {0, 1}"
    "snmp_synch_response (en_lib env) s1 (Get (map q_oid (akcp_cmds Hum 0))) =
       (STAT_SUCCESS, Some \<lparr>p_errstat = 0, p_errindex = 0, p_vars = vs'\<rparr>, s2)"
    "distinct (map v_name vs')" "answer_for vs' (long_cmd ASN_INTEGER (akcp_oid Hum 0 5)) = None"
  shows "\<exists>g'. check_akcp_main v6 gai env junk argc help os g = Some (unknown ''No Sensors found.'' g')"
proof -
  let ?st = "\<lparr>ak_state = STATE_OK, ak_output = None, ak_found = 0, ak_globals = g\<rparr>"
  obtain n where n: "en_fuel env = Suc n" using assms(8) gr0_conv_Suc by blast
  obtain name st' where t: "akcp_block env a Temp (junk 0 Temp) 0 0 (en_agent env) ?st = AkNext s1 True name st'"
      "mp_verbose (ak_globals st') = 0" "ak_found st' = 0"
    by (rule akcp_block_temp [of env ?st n "en_agent env" 0 vs s1 u a "junk 0 Temp" 0]) (use assms n in simp_all)
  have "akcp_block env a Hum (junk 0 Hum) 0 0 s1 st' = AkBreak s2 st'"
    using akcp_block_no_hum [OF assms(6) t(2) n assms(3,14-16)] by simp
  moreover have "akcp_ports a = (0, Some 0) # map (\<lambda>i. (i, Some (int i))) [1..<10]"
    using assms(3) upt_conv_Cons [of 0 10] by (simp add: akcp_ports_def del: upt_Suc)
  ultimately have "akcp_loop env a junk (akcp_ports a) (en_agent env) ?st = AkBreak s2 st'"
    using t(1) assms(4,5) by (simp add: akcp_port_def)
  then show ?thesis using assms(1,2) t(3) by (auto simp: check_akcp_main_def akcp_exit_def)
qed

definition akcp_mib :: "snmp_var list" where
  "akcp_mib = [int_var (akcp_oid Temp 0 3) 95, int_var (akcp_oid Temp 0 4) 4, int_var (akcp_oid Temp 0 5) 1, int_var (akcp_oid Temp 0 12) 1]"

theorem check_akcp_temp_only_witness:
  "\<exists>g'. check_akcp_main True (\<lambda>f h. True) \<lparr>en_lib = snmp_lib_ex akcp_mib, en_agent = (), en_fuel = 1\<rparr> (\<lambda>_ _ _. 0) 3 [] [] check_akcp_globals =
     Some (unknown ''No Sensors found.'' g')"
proof -
  let ?env = "\<lparr>en_lib = snmp_lib_ex akcp_mib, en_agent = (), en_fuel = 1\<rparr>"
  note arg_defs = akcp_args0_def snmp_host.defs akcp_args.defs snmp_host0_def
  have a: "akcp_process_arguments True (\<lambda>f h. True) 3 [] [] check_akcp_globals = Inr akcp_args0"
    by (simp add: akcp_process_arguments_def snmp_process_arguments_def arg_defs)
  obtain s where i: "mp_snmp_init (en_lib ?env) (sh_snmp akcp_args0) (sh_hostname akcp_args0) (sh_port akcp_args0) check_akcp_globals = Inr s"
    by (simp add: mp_snmp_init_def arg_defs snmp_args0_def snmp_lib_ex_def)
  have r: "snmp_synch_response (en_lib ?env) (en_agent ?env) (Get (map q_oid (akcp_cmds Temp 0))) =
      (STAT_SUCCESS, Some \<lparr>p_errstat = 0, p_errindex = 0, p_vars = akcp_mib\<rparr>, ())"
    "snmp_synch_response (en_lib ?env) () (Get (map q_oid (akcp_cmds Hum 0))) =
      (STAT_SUCCESS, Some \<lparr>p_errstat = 0, p_errindex = 0, p_vars = []\<rparr>, ())"
    by (simp_all add: snmp_lib_ex_def akcp_mib_def akcp_cmds_def oct_cmd_def long_cmd_def int_var_def akcp_oid_def)
  have v: "answer_for akcp_mib (long_cmd ASN_INTEGER (akcp_oid Temp 0 5)) = Some (SLong 1)"
    "answer_for akcp_mib (long_cmd ASN_INTEGER (akcp_oid Temp 0 12)) = Some (SLong 1)"
    by (simp_all add: answer_for_def akcp_mib_def long_cmd_def int_var_def akcp_oid_def value_of_def is_long_type_def snmp_consts)
  show ?thesis
    by (rule check_akcp_temp_only [OF a i _ _ _ _ _ _ r(1) _ v _ r(2)])
      (simp_all add: arg_defs snmp_lib_ex_ok check_akcp_globals_def mp_init_def akcp_mib_def int_var_def akcp_oid_def answer_for_def)
qed

interpretation pdu_options: plugin_options "pdu_opt v6 gai" "\<lambda>_. True" for v6 gai
  by unfold_locales (auto simp: pdu_opt_def snmp_host_opt_refuses split: sum.splits)

interpretation akcp_options: plugin_options "akcp_opt v6 gai" "\<lambda>_. True" for v6 gai
  by unfold_locales (auto simp: akcp_opt_def snmp_host_opt_refuses split: sum.splits)

end
