(* ===== verification/Check_GSM.thy ===== *)
theory Check_GSM
  imports Plugin SMS_Utils
begin

text \<open>
  \<^verbatim>\<open>base/check_gsm_signal.c\<close>: the signal quality of a GSM modem.

  A session with the modem is a list: for every AT command the pieces its answer is read in. The array \<open>answer\<close>
  of the source is a list of texts; a command that brings no answer leaves it as it is. \<open>Crash\<close> is a read
  through a NULL pointer or outside a buffer.
\<close>

section \<open>Program\<close>

definition check_gsm_signal_globals :: mp_globals where
  "check_gsm_signal_globals = mp_init ''check_gsm_signal''
     (''--serial <DEV>'')
     ''0.1'' ''Marius Rieder <marius.rieder@durchmesser.ch>'' ''2012''"

definition check_gsm_signal_print_help :: "string \<Rightarrow> string \<Rightarrow> string" where
  "check_gsm_signal_print_help package version =
     print_revision package version check_gsm_signal_globals @
     print_copyright check_gsm_signal_globals @
     help_lines
       [[],
        ''Check description: Check GSM Modem signal quality by AT.'',
        []] @
     print_usage check_gsm_signal_globals @
     print_help_default @
     print_help_serial @
     help_lines
       ['' -P, --pin=PIN'',
        ''      PIN to unlock the SIM.''] @
     print_help_warn ''Signal Quality'' ''-90dBm'' @
     print_help_crit ''Signal Quality'' ''-100dBm''"

section \<open>Arguments\<close>

record gsm_args =
  ga_serial :: serial_vars
  mp_sms_pin :: "string option"
  ga_thresholds :: "thresholds option"

definition gsm_args0 :: gsm_args where
  "gsm_args0 = \<lparr>ga_serial = serial_init, mp_sms_pin = None,
     ga_thresholds = fst (mp_threshold_set_critical (fst (mp_threshold_set_warning None ''-90:'' 0)) ''-100:'' 0)\<rparr>"

definition gsm_opt :: "gsm_args opt_handler" where
  "gsm_opt c optarg a g =
     (case getopt_serial c optarg (ga_serial a) g of
        Inl e \<Rightarrow> Inl e
      | Inr v \<Rightarrow>
          (case getopt_wc_at c optarg (ga_thresholds a) g of
             Inl e \<Rightarrow> Inl e
           | Inr t \<Rightarrow>
               let a = a\<lparr>ga_serial := v, ga_thresholds := t\<rparr>
               in Inr (if c = CHR ''P'' then a\<lparr>mp_sms_pin := Some optarg\<rparr> else a)))"

definition gsm_process_arguments :: "(char \<times> string) list \<Rightarrow> mp_globals \<Rightarrow> mp_end + gsm_args" where
  "gsm_process_arguments os g = run_opts gsm_opt os gsm_args0 g"

section \<open>The modem\<close>

record modem =
  md_write :: "string \<Rightarrow> nat"
  md_junk :: string
  md_replies :: "string list list"
  md_answer :: "string list"

text \<open>One command; the value returned and the modem afterwards.\<close>

definition at_cmd :: "string \<Rightarrow> string option \<Rightarrow> bool \<Rightarrow> modem \<Rightarrow> mp_globals \<Rightarrow> mp_end + int \<times> modem" where
  "at_cmd cmd opt want m g =
     (let chunks = (case md_replies m of [] \<Rightarrow> [] | r # _ \<Rightarrow> r)
      in case mobile_at_command (md_write m) (md_junk m) cmd opt want chunks g of
           Inl e \<Rightarrow> Inl e
         | Inr AtOverrun \<Rightarrow> Inl Crash
         | Inr (AtReturn r ans) \<Rightarrow>
             Inr (r, m\<lparr>md_replies := tl (md_replies m), md_answer := (if ans = [] then md_answer m else ans)\<rparr>))"

text \<open>The number of answers of the last command, as \<open>answers\<close> counts them.\<close>

definition at_ask :: "string \<Rightarrow> string option \<Rightarrow> modem \<Rightarrow> mp_globals \<Rightarrow> mp_end + int \<times> nat \<times> modem" where
  "at_ask cmd opt m g =
     (case at_cmd cmd opt True (m\<lparr>md_answer := []\<rparr>) g of
        Inl e \<Rightarrow> Inl e
      | Inr (r, m') \<Rightarrow>
          Inr (r, length (md_answer m'),
               m'\<lparr>md_answer := (if md_answer m' = [] then md_answer m else md_answer m')\<rparr>))"

definition at_free :: "modem \<Rightarrow> modem" where
  "at_free m = m\<lparr>md_answer := []\<rparr>"

fun gsm_ready :: "nat \<Rightarrow> modem \<Rightarrow> mp_globals \<Rightarrow> mp_end + modem" where
  "gsm_ready 0 m g = Inl (critical ''Modem not ready.'' g)"
| "gsm_ready (Suc n) m g =
     (case at_cmd [] None False m g of
        Inl e \<Rightarrow> Inl e
      | Inr (r, m) \<Rightarrow> if r = 0 then Inr m else gsm_ready n m g)"

section \<open>PIN, operator and signal\<close>

definition gsm_unlock :: "string \<Rightarrow> modem \<Rightarrow> mp_globals \<Rightarrow> mp_end + modem" where
  "gsm_unlock pin m g =
     (case at_ask ''+CPIN'' (Some (''='' @ [CHR 0x22] @ pin @ [CHR 0x22])) (at_free m) g of
        Inl e \<Rightarrow> Inl e
      | Inr (_, _, m) \<Rightarrow>
          (case at_ask ''+CPIN'' (Some ''?'') m g of
             Inl e \<Rightarrow> Inl e
           | Inr (_, _, m) \<Rightarrow>
               (case md_answer m of
                  [] \<Rightarrow> Inl Crash
                | a # _ \<Rightarrow> if a \<noteq> ''READY'' then Inl (critical ''SIM unlock failed. Wrong PIN.'' g) else Inr m)))"

text \<open>The message \<open>SIM ask for\<close> uses the answer after \<open>mp_array_free\<close> set its pointer to NULL.\<close>

definition gsm_pin :: "string option \<Rightarrow> modem \<Rightarrow> mp_globals \<Rightarrow> mp_end + modem" where
  "gsm_pin pin m g =
     (case at_ask ''+CPIN'' (Some ''?'') m g of
        Inl e \<Rightarrow> Inl e
      | Inr (r, n, m) \<Rightarrow>
          if r \<noteq> 0 then Inl (critical ''Checking pin failed.'' g)
          else if n = 1 \<and> md_answer m ! 0 = ''SIM PIN''
          then (case pin of
                  None \<Rightarrow> Inl (critical ''SIM ask for PIN.'' g)
                | Some p \<Rightarrow> map_sum (\<lambda>e. e) at_free (gsm_unlock p m g))
          else if n = 1 \<and> md_answer m ! 0 \<noteq> ''READY'' then Inl Crash
          else Inr (at_free m))"

definition gsm_network :: "char \<Rightarrow> string" where
  "gsm_network c =
     (if c = CHR ''0'' \<or> c = CHR ''1'' then ''GSM'' else if c = CHR ''2'' then ''UMTS''
      else if c = CHR ''3'' then ''EDGE'' else if c = CHR ''4'' then ''HSDPA''
      else if c = CHR ''5'' then ''HSUPA'' else if c = CHR ''6'' then ''HSPA''
      else if c = CHR ''7'' then ''LTE'' else ''5G or newer'')"

definition next_field :: "string option \<Rightarrow> string option \<times> string option" where
  "next_field p = (case p of None \<Rightarrow> (None, None) | Some s \<Rightarrow> (case strsep '','' s of (t, r) \<Rightarrow> (Some t, r)))"

text \<open>Mode, format, operator and access technology of a +COPS answer; \<open>None\<close> where a field is missing and its
  NULL pointer is read.\<close>

definition cops_fields :: "string \<Rightarrow> (int \<times> string \<times> string) option" where
  "cops_fields s =
     (let (_, p) = next_field (Some s); (fmt, p) = next_field p; (opr, p) = next_field p
      in case (fmt, opr, p) of
           (Some f, Some op, Some r) \<Rightarrow> Some (to_int32 (strtol 10 f), op, gsm_network (case r of [] \<Rightarrow> CHR 0x00 | c # _ \<Rightarrow> c))
         | _ \<Rightarrow> None)"

text \<open>The long name of an operator number; an answer without a comma leaves a NULL pointer to copy.\<close>

definition copn_name :: "string \<Rightarrow> string list \<Rightarrow> string option" where
  "copn_name opr answers =
     (case filter (\<lambda>a. strncmp_eq a opr (length opr)) answers of
        [] \<Rightarrow> Some opr
      | a # _ \<Rightarrow> snd (strsep '','' a))"

definition unquote :: "string \<Rightarrow> string" where
  "unquote s = (case s of c # r \<Rightarrow> if c = CHR 0x22 then butlast r else s | [] \<Rightarrow> [])"

definition gsm_operator :: "modem \<Rightarrow> mp_globals \<Rightarrow> mp_end + (string \<times> string) option \<times> modem" where
  "gsm_operator m g =
     (case at_ask ''+COPS'' (Some ''?'') m g of
        Inl e \<Rightarrow> Inl e
      | Inr (r, n, m) \<Rightarrow>
          if r \<noteq> 0 then Inr (None, at_free m)
          else (case md_answer m of
                  [] \<Rightarrow> Inl Crash
                | a # _ \<Rightarrow>
                    if length a = 1 then Inl (critical ''Offline'' g)
                    else (case cops_fields a of
                            None \<Rightarrow> Inl Crash
                          | Some (fmt, opr, net) \<Rightarrow>
                              (case (if fmt = 2
                                     then (case at_ask ''+COPN'' None (at_free m) g of
                                             Inl e \<Rightarrow> Inl e
                                           | Inr (_, k, m) \<Rightarrow>
                                               (case copn_name opr (take k (md_answer m)) of
                                                  None \<Rightarrow> Inl Crash | Some o' \<Rightarrow> Inr (o', m)))
                                     else Inr (opr, m)) of
                                 Inl e \<Rightarrow> Inl e
                               | Inr (opr, m) \<Rightarrow> Inr (Some (unquote opr, net), at_free m)))))"

definition gsm_signal :: "thresholds option \<Rightarrow> modem \<Rightarrow> mp_globals \<Rightarrow> mp_end + int \<times> thresholds option \<times> mp_globals" where
  "gsm_signal t m g =
     (case at_ask ''+CSQ'' None m g of
        Inl e \<Rightarrow> Inl e
      | Inr (r, n, m) \<Rightarrow>
          if r \<noteq> 0 then Inl (unknown (''Can'' @ [CHR 0x27] @ ''t read Signal quality'') g)
          else (case md_answer m of
                  [] \<Rightarrow> Inl Crash
                | a # _ \<Rightarrow>
                    let sq = to_int32 (strtol 10 a)
                    in if sq < 0 \<or> 31 < sq
                       then Inl (unknown (''Illegal signal quality reading '' @ [CHR 0x27] @ a @ ''0'') g)
                       else let sq = sq * 2 - 113
                            in Inr (sq, mp_perfdata_int ''signal'' sq ''dBm'' t g)))"

section \<open>Main\<close>

definition gsm_text :: "(string \<times> string) option \<Rightarrow> int \<Rightarrow> string" where
  "gsm_text opr sq =
     (case opr of
        Some (op, net) \<Rightarrow> op @ '' ['' @ net @ ''] '' @ fmt_d sq @ ''dBm''
      | None \<Rightarrow> ''Signal Quality '' @ fmt_d sq @ ''dBm'')"

definition gsm_report :: "(string \<times> string) option \<Rightarrow> int \<Rightarrow> thresholds option \<Rightarrow> mp_globals \<Rightarrow> mp_end" where
  "gsm_report opr sq t g =
     (let st = get_status (dbl_of_int sq) t
      in if st = STATE_OK then ok (gsm_text opr sq) g
         else if st = STATE_WARNING then warning (gsm_text opr sq) g
         else if st = STATE_CRITICAL then critical (gsm_text opr sq) g
         else ok (gsm_text opr sq) g)"

definition gsm_session :: "gsm_args \<Rightarrow> modem \<Rightarrow> mp_globals \<Rightarrow> mp_end" where
  "gsm_session a m g =
     (case gsm_ready 5 m g of
        Inl e \<Rightarrow> e
      | Inr m \<Rightarrow>
          (case gsm_pin (mp_sms_pin a) m g of
             Inl e \<Rightarrow> e
           | Inr m \<Rightarrow>
               (case gsm_operator m g of
                  Inl e \<Rightarrow> e
                | Inr (opr, m) \<Rightarrow>
                    (case gsm_signal (ga_thresholds a) m g of
                       Inl e \<Rightarrow> e
                     | Inr (sq, t, g) \<Rightarrow> gsm_report opr sq t g))))"

definition check_gsm_signal_main ::
    "(string \<Rightarrow> int) \<Rightarrow> (int \<Rightarrow> termios) \<Rightarrow> modem \<Rightarrow> (char \<times> string) list \<Rightarrow> mp_globals \<Rightarrow> mp_end" where
  "check_gsm_signal_main open_dev tcgetattr m os g =
     (case gsm_process_arguments os g of
        Inl e \<Rightarrow> e
      | Inr a \<Rightarrow>
          (case mp_serial_device (ga_serial a) of
             None \<Rightarrow> critical (''Can'' @ [CHR 0x27] @ ''t open Serial Port '' @ quoted ''(null)'') g
           | Some dev \<Rightarrow>
               (case mp_serial_open open_dev tcgetattr dev (mp_serial_speed (ga_serial a)) (ga_serial a) g of
                  Inl e \<Rightarrow> e
                | Inr _ \<Rightarrow> gsm_session a m g)))"

section \<open>The report\<close>

lemma strtol_fmt_d_then:
  assumes "0 \<le> q" "q \<le> LONG_MAX" "s = [] \<or> 10 \<le> digit_val (hd s)"
  shows "strtol 10 (fmt_d q @ s) = q"
proof -
  obtain d r where d: "base_str 10 q = dig d # r" "0 \<le> d" "d < 10"
    using hd_base_str [of q 10] assms(1) by auto
  have "strtol_sign (fmt_d q @ s) = (False, fmt_d q @ s)"
    using d isspace_dig [of d] dig_neq [of d] assms(1) by (simp add: strtol_sign_def fmt_d_def)
  moreover have "takeWhile (\<lambda>c. digit_val c < 10) (fmt_d q @ s) = fmt_d q"
  proof -
    have "\<forall>c \<in> set (base_str 10 q). digit_val c < 10"
      using takeWhile_base_str [of q 10] assms(1) by (simp add: takeWhile_eq_all_conv)
    moreover have "takeWhile (\<lambda>c. digit_val c < 10) s = []"
      using assms(3) by (cases s) auto
    ultimately show ?thesis using assms(1) by (subst takeWhile_append2) (auto simp: fmt_d_def)
  qed
  moreover have "digits_val 10 (fmt_d q) = q"
    using assms(1) digits_val_base_str [of q 10] by (simp add: fmt_d_def)
  ultimately show ?thesis
    using assms(1,2) by (simp add: strtol_def strtol_exact_def LONG_MIN_def)
qed

lemma gsm_default_thresholds:
  "ga_thresholds gsm_args0 =
    Some \<lparr>th_warning = Some (spec_range BISI (Above (Bound (-90) []))), th_critical = Some (spec_range BISI (Above (Bound (-100) [])))\<rparr>"
proof -
  have "fmt_d (-90) @ [] @ '':'' = ''-90:''" "fmt_d (-100) @ [] @ '':'' = ''-100:''" by code_simp+
  then show ?thesis
    using parse_above [of BISI "-90" "[]"] parse_above [of BISI "-100" "[]"]
    by (simp add: gsm_args0_def set_threshold_defs num_end_def unit_factor_def BISI_def parse_multiplier_string_def
        del: spec_range.simps)
qed

lemma gsm_default_status:
  assumes "0 \<le> q" "q \<le> 31"
  shows "get_status (dbl_of_int (q * 2 - 113)) (ga_thresholds gsm_args0) =
    (if q < 7 then STATE_CRITICAL else if q < 12 then STATE_WARNING else STATE_OK)"
proof -
  have v: "dbl_of_int (q * 2 - 113) = Num (q * 2 - 113 < 0) \<bar>of_int (q * 2 - 113)\<bar>"
    using assms by (intro round_double_int) simp
  have "fp_val (q * 2 - 113 < 0) \<bar>of_int (q * 2 - 113)\<bar> = of_int (q * 2 - 113)"
    by simp
  then show ?thesis
    using assms unfolding v gsm_default_thresholds
    by (auto simp: get_status_def check_above unit_factor_def BISI_def parse_multiplier_string_def simp del: spec_range.simps fp_val.simps)
qed

definition cops_text :: "string \<Rightarrow> int \<Rightarrow> string \<Rightarrow> string \<Rightarrow> string" where
  "cops_text mode fmt opr act = mode @ '','' @ fmt_d fmt @ '','' @ opr @ '','' @ act"

lemma cops_fields_text:
  assumes "CHR '','' \<notin> set mode" "0 \<le> fmt" "fmt < 10" "CHR '','' \<notin> set opr"
  shows "cops_fields (cops_text mode fmt opr act) =
    Some (fmt, opr, gsm_network (case act of [] \<Rightarrow> CHR 0x00 | c # _ \<Rightarrow> c))"
proof -
  have f: "CHR '','' \<notin> set (fmt_d fmt)" using set_fmt_d [of fmt] by auto
  have "strsep '','' (s @ CHR '','' # r) = (s, Some r)" if "CHR '','' \<notin> set s" for s r
    using that by (intro strsep_hit) simp_all
  note sep = this [OF assms(1)] this [OF f] this [OF assms(4)]
  have "strtol 10 (fmt_d fmt) = fmt" "to_int32 fmt = fmt"
    using strtol_fmt_d [of fmt] to_int32_id [of fmt] assms(2,3) by (simp_all add: LONG_MIN_def LONG_MAX_def INT_MIN_def INT_MAX_def)
  then show ?thesis by (simp add: cops_fields_def cops_text_def next_field_def sep)
qed

text \<open>C22: The report of \<open>check_gsm_signal\<close> with its default thresholds. When the modem is ready and unlocked and
  names its operator, a signal quality \<open>q\<close> from 0 to 31 is reported as \<open>2 q - 113\<close> dBm with CRITICAL below -100 dBm,
  WARNING below -90 dBm and OK from there on.\<close>

theorem check_gsm_signal_report:
  assumes "gsm_ready 5 m g = Inr m1"
    "at_ask ''+CPIN'' (Some ''?'') m1 g = Inr (0, 1, m2)" "md_answer m2 = [''READY'']"
    "at_ask ''+COPS'' (Some ''?'') (at_free m2) g = Inr (0, n, m3)" "md_answer m3 = cops_text mode fmt opr act # as"
    "CHR '','' \<notin> set mode" "0 \<le> fmt" "fmt < 10" "fmt \<noteq> 2" "CHR '','' \<notin> set opr"
    "at_ask ''+CSQ'' None (at_free m3) g = Inr (0, k, m4)" "md_answer m4 = (fmt_d q @ '','' @ ber) # bs" "0 \<le> q" "q \<le> 31"
  shows "gsm_session gsm_args0 m g =
    (if q < 7 then critical else if q < 12 then warning else ok)
      (unquote opr @ '' ['' @ gsm_network (case act of [] \<Rightarrow> CHR 0x00 | c # _ \<Rightarrow> c) @ ''] '' @ fmt_d (q * 2 - 113) @ ''dBm'')
      (snd (mp_perfdata_int ''signal'' (q * 2 - 113) ''dBm'' (ga_thresholds gsm_args0) g))"
proof -
  have pin: "gsm_pin None m1 g = Inr (at_free m2)"
    using assms(2,3) by (simp add: gsm_pin_def)
  have len: "length (cops_text mode fmt opr act) \<noteq> 1"
    by (simp add: cops_text_def)
  have opr: "gsm_operator (at_free m2) g =
      Inr (Some (unquote opr, gsm_network (case act of [] \<Rightarrow> CHR 0x00 | c # _ \<Rightarrow> c)), at_free m3)"
    unfolding gsm_operator_def assms(4) using assms(5) len assms(9) cops_fields_text [OF assms(6-8,10), of act] by simp
  have s: "to_int32 (strtol 10 (fmt_d q @ '','' @ ber)) = q"
    using strtol_fmt_d_then [of q "'','' @ ber"] to_int32_id [of q] assms(13,14)
    by (simp add: LONG_MAX_def INT_MIN_def INT_MAX_def digit_val_def ctype_defs ccode_def)
  have sig: "gsm_signal t (at_free m3) g = Inr (q * 2 - 113, mp_perfdata_int ''signal'' (q * 2 - 113) ''dBm'' t g)" for t
    unfolding gsm_signal_def assms(11) using assms(12-14) s by (simp add: Let_def)
  have np: "no_percent (ga_thresholds gsm_args0)"
    by (simp add: gsm_default_thresholds no_percent_def del: spec_range.simps)
  obtain t' g' where p: "mp_perfdata_int ''signal'' (q * 2 - 113) ''dBm'' (ga_thresholds gsm_args0) g = (t', g')" "t' = ga_thresholds gsm_args0"
    using perfdata_thresholds(2) [OF np, of "''signal''" "q * 2 - 113" "''dBm''" g] by (metis prod.collapse)
  have n: "mp_sms_pin gsm_args0 = None" by (simp add: gsm_args0_def)
  show ?thesis
    unfolding gsm_session_def assms(1) sum.case n pin opr prod.case sig p(1) gsm_report_def p(2) gsm_default_status [OF assms(13,14)]
    by (simp add: Let_def gsm_text_def)
qed

definition reply_lines :: "string list \<Rightarrow> string list" where
  "reply_lines ls = [concat (map (\<lambda>l. [cr, newline] @ l @ [cr, newline]) ls) @ [nul]]"

definition junk0 :: string where "junk0 = replicate 64 (CHR ''x'')"

definition modem0 :: modem where
  "modem0 = \<lparr>md_write = length, md_junk = junk0,
     md_replies = [reply_lines [''OK''], reply_lines [''+CPIN: READY'', ''OK''],
       reply_lines [''+COPS: 0,0,Op,2'', ''OK''], reply_lines [''+CSQ: 9,99'', ''OK'']], md_answer = []\<rparr>"

lemma modem0_answers:
  "mobile_at_command length junk0 [] None False (reply_lines [''OK'']) check_gsm_signal_globals = Inr (AtReturn 0 [])"
  "mobile_at_command length junk0 ''+CPIN'' (Some ''?'') True (reply_lines [''+CPIN: READY'', ''OK''])
     check_gsm_signal_globals = Inr (AtReturn 0 [''READY''])"
  "mobile_at_command length junk0 ''+COPS'' (Some ''?'') True (reply_lines [''+COPS: 0,0,Op,2'', ''OK''])
     check_gsm_signal_globals = Inr (AtReturn 0 [''0,0,Op,2''])"
  "mobile_at_command length junk0 ''+CSQ'' None True (reply_lines [''+CSQ: 9,99'', ''OK''])
     check_gsm_signal_globals = Inr (AtReturn 0 [''9,99''])"
  by code_simp+

theorem check_gsm_signal_report_witness:
  "exit_code (gsm_session gsm_args0 modem0 check_gsm_signal_globals) = Some STATE_WARNING"
proof -
  note ask = at_ask_def at_cmd_def at_free_def modem0_def modem0_answers
  define m1 where "m1 = modem0\<lparr>md_replies := tl (md_replies modem0)\<rparr>"
  define m2 where "m2 = m1\<lparr>md_replies := tl (md_replies m1), md_answer := [''READY'']\<rparr>"
  define m3 where "m3 = m2\<lparr>md_replies := tl (md_replies m2), md_answer := [''0,0,Op,2'']\<rparr>"
  define m4 where "m4 = m3\<lparr>md_replies := tl (md_replies m3), md_answer := [''9,99'']\<rparr>"
  have 1: "gsm_ready 5 modem0 check_gsm_signal_globals = Inr m1"
    by (simp add: ask m1_def numeral_eq_Suc)
  have 2: "at_ask ''+CPIN'' (Some ''?'') m1 check_gsm_signal_globals = Inr (0, 1, m2)"
    by (simp add: ask m1_def m2_def)
  have 3: "at_ask ''+COPS'' (Some ''?'') (at_free m2) check_gsm_signal_globals = Inr (0, 1, m3)"
    by (simp add: ask m1_def m2_def m3_def)
  have 4: "at_ask ''+CSQ'' None (at_free m3) check_gsm_signal_globals = Inr (0, 1, m4)"
    by (simp add: ask m1_def m2_def m3_def m4_def)
  have t: "cops_text ''0'' 0 ''Op'' ''2'' = ''0,0,Op,2''" "fmt_d 9 = ''9''" by code_simp+
  show ?thesis
    by (subst check_gsm_signal_report [OF 1 2 _ 3 _ _ _ _ _ _ 4,
          where mode = "''0''" and fmt = 0 and opr = "''Op''" and act = "''2''" and as = "[]" and q = 9 and ber = "''99''" and bs = "[]"])
      (simp_all add: t m2_def m3_def m4_def)
qed

text \<open>A SIM that asks for anything but the PIN crashes the plugin, and so does an operator answer of three
  fields.\<close>

theorem gsm_pin_other:
  assumes "at_ask ''+CPIN'' (Some ''?'') m g = Inr (0, 1, m')" "md_answer m' = [a]" "a \<noteq> ''SIM PIN''" "a \<noteq> ''READY''"
  shows "gsm_pin pin m g = Inl Crash"
  using assms by (simp add: gsm_pin_def)

theorem cops_three_fields:
  assumes "CHR '','' \<notin> set mode" "CHR '','' \<notin> set fmt" "CHR '','' \<notin> set opr"
  shows "cops_fields (mode @ '','' @ fmt @ '','' @ opr) = None"
proof -
  have "strsep '','' (s @ CHR '','' # r) = (s, Some r)" if "CHR '','' \<notin> set s" for s r
    using that by (intro strsep_hit) simp_all
  note sep = this [OF assms(1)] this [OF assms(2)]
  have "strsep '','' opr = (opr, None)" using assms(3) by (intro strsep_none) simp
  then show ?thesis by (simp add: cops_fields_def next_field_def sep)
qed

interpretation gsm_options: plugin_options gsm_opt "\<lambda>a. thresholds_both (ga_thresholds a)"
proof
  fix a a' :: gsm_args and c s g
  assume "thresholds_both (ga_thresholds a)" "gsm_opt c s a g = Inr a'"
  then show "thresholds_both (ga_thresholds a')"
    using thresholds_both_keep(3) by (auto simp: gsm_opt_def Let_def split: if_splits sum.splits)
next
  fix a c s g e
  assume "gsm_opt c s a g = Inl e"
  then show "exit_code e = Some STATE_UNKNOWN"
    by (auto simp: gsm_opt_def Let_def getopt_serial_def refuse_simps split: if_splits sum.splits option.splits)
qed

end
