(* ===== verification/Check_Simple.thy ===== *)
theory Check_Simple
  imports Plugin
begin

text \<open>
  The small plugins: \<^verbatim>\<open>dummy/check_dummy.c\<close>, \<^verbatim>\<open>dummy/check_timeout.c\<close>, \<^verbatim>\<open>base/check_nrped.c\<close> and
  \<^verbatim>\<open>base/check_multipath.c\<close>.

  System calls are parameters. An alarm and a sleep are compared by their lengths: the handler runs when the
  alarm is set and is not later than the end of the sleep.
\<close>

section \<open>check\_dummy\<close>

definition check_dummy_globals :: mp_globals where
  "check_dummy_globals = mp_init ''check_dummy''
     (''<state> [message]'')
     ''0.1'' ''Marius Rieder <marius.rieder@durchmesser.ch>'' ''2010''"

definition check_dummy_print_help :: "string \<Rightarrow> string \<Rightarrow> string" where
  "check_dummy_print_help package version =
     print_revision package version check_dummy_globals @
     print_copyright check_dummy_globals @
     help_lines
       [[],
        ''Check description: This plugin test nothing.'',
        []] @
     print_usage check_dummy_globals @
     print_help_default"

text \<open>The options of the plugin are the default ones, which \<open>mp_getopt\<close> handles; the loop runs without a
  handler of its own.\<close>

definition no_opt :: "unit opt_handler" where
  "no_opt c optarg u g = Inr u"

definition dummy_process_arguments :: "(char \<times> string) list \<Rightarrow> mp_globals \<Rightarrow> mp_end + unit" where
  "dummy_process_arguments os g = run_opts no_opt os () g"

text \<open>The state is looked up in \<open>argv[0]\<close>.\<close>

definition dummy_state :: "nat \<Rightarrow> string list \<Rightarrow> int \<times> nat" where
  "dummy_state optind argv =
     (let (r, optind) =
            (if optind < length argv \<and> is_integer (Some (argv ! 0))
             then (to_int32 (strtol 10 (argv ! 0)), Suc optind) else (1, optind))
      in (if r < 0 \<or> 4 < r then 2 else r, optind))"

text \<open>The message: the arguments with spaces between them. Without arguments the last space to be replaced is
  the byte in front of the buffer.\<close>

definition dummy_message :: "string list \<Rightarrow> cbuf option" where
  "dummy_message args =
     (if args = [] then None
      else Some \<lparr>cstr = butlast (concat (map (\<lambda>a. a @ '' '') args)), cap = 1 + sum_list (map (\<lambda>a. length a + 1) args)\<rparr>)"

definition check_dummy_main :: "(char \<times> string) list \<Rightarrow> nat \<Rightarrow> string list \<Rightarrow> mp_globals \<Rightarrow> mp_end" where
  "check_dummy_main os optind argv g =
     (case dummy_process_arguments os g of
        Inl e \<Rightarrow> e
      | Inr _ \<Rightarrow>
          let (r, optind) = dummy_state optind argv
          in case dummy_message (drop optind argv) of
               None \<Rightarrow> Crash
             | Some b \<Rightarrow>
                 let msg = cstr b;
                     g = (if 0 < mp_verbose g
                          then mp_print (help_lines [''State:   '' @ fmt_d r, ''Message: '' @ msg]) g else g)
                 in if r = STATE_OK then exit_fmt0 ok msg g
                    else if r = STATE_WARNING then exit_fmt0 warning msg g
                    else if r = STATE_CRITICAL then exit_fmt0 critical msg g
                    else if r = STATE_UNKNOWN then exit_fmt0 unknown msg g
                    else if r = STATE_DEPENDENT then exit_fmt0 unknown msg g
                    else critical ''You should never reach this point.'' g)"

section \<open>check\_timeout\<close>

definition check_timeout_globals :: mp_globals where
  "check_timeout_globals = mp_init ''check_timeout''
     (''[-t <timeout>]'')
     ''0.1'' ''Marius Rieder <marius.rieder@durchmesser.ch>'' ''2010''"

definition check_timeout_print_help :: "string \<Rightarrow> string \<Rightarrow> string" where
  "check_timeout_print_help package version =
     print_revision package version check_timeout_globals @
     print_copyright check_timeout_globals @
     help_lines
       [[],
        ''Check description: This plugin simulate a plugin timeout.'',
        []] @
     print_usage check_timeout_globals @
     print_help_default"

definition timeout_process_arguments :: "(char \<times> string) list \<Rightarrow> mp_globals \<Rightarrow> mp_end + unit" where
  "timeout_process_arguments os g = run_opts no_opt os () g"

text \<open>\<open>alarm\<close> and \<open>sleep\<close> take unsigned seconds, and \<open>alarm(0)\<close> sets no alarm.\<close>

definition alarm_first :: "int \<Rightarrow> int \<Rightarrow> bool" where
  "alarm_first alarm_s sleep_s \<longleftrightarrow> to_uint32 alarm_s \<noteq> 0 \<and> to_uint32 alarm_s \<le> to_uint32 sleep_s"

definition check_timeout_main :: "(char \<times> string) list \<Rightarrow> mp_globals \<Rightarrow> mp_end" where
  "check_timeout_main os g =
     (case timeout_process_arguments os g of
        Inl e \<Rightarrow> e
      | Inr _ \<Rightarrow>
          let t = mp_timeout g;
              g = (if mp_verbose g \<noteq> 0
                   then mp_print (help_lines [''Timeout: '' @ fmt_d t, ''Sleep:   '' @ fmt_d (to_int32 (t * 2))]) g else g)
          in if alarm_first t (to_int32 (t * 2))
             then (case timeout_alarm_handler SIGALRM g of Inl e \<Rightarrow> e | Inr _ \<Rightarrow> Crash)
             else ok ''check_timeout ended.'' g)"

section \<open>check\_nrped\<close>

definition check_nrped_globals :: mp_globals where
  "check_nrped_globals = mp_init ''check_nrped''
     (''[--touch <FILE>]'')
     ''0.1'' ''Marius Rieder <marius.rieder@durchmesser.ch>'' ''2012''"

definition check_nrped_print_help :: "string \<Rightarrow> string \<Rightarrow> string" where
  "check_nrped_print_help package version =
     print_revision package version check_nrped_globals @
     print_copyright check_nrped_globals @
     help_lines
       [[],
        ''Check description: Check if run inside of nrped.'',
        []] @
     print_usage check_nrped_globals @
     print_help_default @
     help_lines
       ['' -T, --touch=filename'',
        ''      Touch file while run.'']"

definition nrped_opt :: "string option opt_handler" where
  "nrped_opt c optarg filename g = Inr (if c = CHR ''T'' then Some optarg else filename)"

definition nrped_process_arguments :: "(char \<times> string) list \<Rightarrow> mp_globals \<Rightarrow> mp_end + string option" where
  "nrped_process_arguments os g = run_opts nrped_opt os None g"

text \<open>The results of \<open>open\<close>, \<open>close\<close> and \<open>utime\<close> on the file.\<close>

record touch_calls =
  open_fd :: "string \<Rightarrow> int"
  close_ret :: "int \<Rightarrow> int"
  utime_ret :: "string \<Rightarrow> int"

definition check_nrped_main :: "(string \<rightharpoonup> string) \<Rightarrow> touch_calls \<Rightarrow> (char \<times> string) list \<Rightarrow> mp_globals \<Rightarrow> mp_end" where
  "check_nrped_main getenv sys os g =
     (case nrped_process_arguments os g of
        Inl e \<Rightarrow> e
      | Inr filename \<Rightarrow>
          (case getenv ''NRPE_PROGRAMVERSION'' of
             None \<Rightarrow> critical ''Executed outside of nrped.'' g
           | Some version \<Rightarrow>
               (case filename of
                  None \<Rightarrow> ok (''NRPE v'' @ version) g
                | Some f \<Rightarrow>
                    let msg = (\<lambda>call. ''NRPE v'' @ version @ '' - '' @ call @ '' '' @ quoted f @ '' failed'')
                    in if open_fd sys f = -1 then warning (msg ''open'') g
                       else if close_ret sys (open_fd sys f) = -1 then warning (msg ''close'') g
                       else if utime_ret sys f = -1 then warning (msg ''utime'') g
                       else ok (''NRPE v'' @ version) g)))"

section \<open>check\_multipath\<close>

definition check_multipath_globals :: mp_globals where
  "check_multipath_globals = mp_init ''check_multipath''
     ([])
     ''0.1'' ''Marius Rieder <marius.rieder@durchmesser.ch>'' ''2012''"

definition check_multipath_print_help :: "string \<Rightarrow> string \<Rightarrow> string" where
  "check_multipath_print_help package version =
     print_revision package version check_multipath_globals @
     print_copyright check_multipath_globals @
     help_lines
       [[],
        ''Check description: Check multipath status.'',
        []] @
     print_usage check_multipath_globals @
     print_help_default"

definition mpath_opt :: "bool opt_handler" where
  "mpath_opt c optarg nonroot g = Inr (if c = CHR ''n'' then True else nonroot)"

definition mpath_process_arguments :: "(char \<times> string) list \<Rightarrow> mp_globals \<Rightarrow> mp_end + bool" where
  "mpath_process_arguments os g = run_opts mpath_opt os False g"

text \<open>The process: the effective user, whether \<open>setuid(0)\<close> succeeds, what \<open>mp_subprocess\<close> returns for a
  command, whether \<open>fdopen\<close> works, the output and the answers of \<open>waitpid\<close>.\<close>

record mpath_env =
  mp_euid :: int
  setuid_ok :: bool
  spawn :: "string \<Rightarrow> sp_check"
  fdopen_ok :: bool
  sp_output :: string
  sp_waits :: "wait_result list"

fun mpath_lines :: "string list \<Rightarrow> int \<Rightarrow> int \<Rightarrow> mp_globals \<Rightarrow> int \<times> int \<times> mp_globals" where
  "mpath_lines [] n failed g = (n, failed, g)"
| "mpath_lines (l # ls) n failed g =
     mpath_lines ls (n + 1) (if strstr l ''failed'' then failed + 1 else failed)
       (if 1 < mp_verbose g then mp_print (''>> '' @ l) g else g)"

definition mpath_report :: "mpath_env \<Rightarrow> mp_globals \<Rightarrow> mp_end" where
  "mpath_report env g =
     (let (n, failed, g) = mpath_lines (fgets_all 128 (sp_output env)) 0 0 g
      in case mp_subprocess_close (sp_waits env) of
           None \<Rightarrow> (case timeout_alarm_handler SIGALRM g of Inl e \<Rightarrow> e | Inr _ \<Rightarrow> Crash)
         | Some r \<Rightarrow>
             if r \<noteq> 0 then critical (''Executing multipath failed! ('' @ fmt_d r @ '')'') g
             else if n = 0 then warning ''No paths defined'' g
             else if failed > 0 then critical (fmt_d failed @ '' paths failed'') g
             else ok ''Multipath'' g)"

text \<open>\<open>mp_subprocess\<close> returns NULL unless the process is started; \<open>main\<close> reads through the pointer.\<close>

definition check_multipath_main :: "mpath_env \<Rightarrow> (char \<times> string) list \<Rightarrow> mp_globals \<Rightarrow> mp_end" where
  "check_multipath_main env os g =
     (case mpath_process_arguments os g of
        Inl e \<Rightarrow> e
      | Inr nonroot \<Rightarrow>
          (case (if nonroot then Inr g else mp_noneroot_die (mp_euid env) g) of
             Inl e \<Rightarrow> e
           | Inr g \<Rightarrow>
               if \<not> nonroot \<and> \<not> setuid_ok env then unknown ''setuid failed'' g
               else (case spawn env (if nonroot then ''/usr/bin/sudo'' else ''/sbin/multipath'') of
                       Started pid \<Rightarrow>
                         if \<not> fdopen_ok env then unknown (''Can'' @ [CHR 0x27] @ ''t exec multipath'') g
                         else mpath_report env g
                     | _ \<Rightarrow> Crash)))"

section \<open>Properties\<close>

lemma dummy_message_text: "args \<noteq> [] \<Longrightarrow> map_option cstr (dummy_message args) = Some (join_with '' '' args)"
proof -
  have "butlast (concat (map (\<lambda>a. a @ '' '') args)) = join_with '' '' args" if "args \<noteq> []" for args :: "string list"
    using that
  proof (induction "'' ''" args rule: join_with.induct)
    case (3 x y zs)
    have "concat (map (\<lambda>a. a @ '' '') (y # zs)) \<noteq> []" by simp
    with 3 show ?case by (simp add: butlast_append)
  qed simp_all
  then show "args \<noteq> [] \<Longrightarrow> map_option cstr (dummy_message args) = Some (join_with '' '' args)"
    by (simp add: dummy_message_def)
qed

text \<open>\<open>check_dummy\<close> does not read its state argument. Called under a name that is not a number, with any
  arguments, it ends with WARNING and prints all of them, the state included, as the message.\<close>

theorem check_dummy_warning:
  assumes "argv = prog # args" "args \<noteq> []" "\<not> is_integer (Some prog)" "CHR ''%'' \<notin> set (join_with '' '' args)" "mp_verbose g \<le> 0"
  shows "check_dummy_main os 1 argv g = warning (join_with '' '' args) g"
proof -
  have o: "run_opts no_opt os () g = Inr ()" by (induction os) (auto simp: no_opt_def)
  obtain b where b: "dummy_message args = Some b" "cstr b = join_with '' '' args"
    using dummy_message_text [OF assms(2)] by auto
  show ?thesis
    using assms o b warning_report.fmt0_plain [OF assms(4)]
    by (simp add: check_dummy_main_def dummy_process_arguments_def dummy_state_def)
qed

theorem check_dummy_warning_witness:
  "check_dummy_main [] 1 [''check_dummy'', ''0'', ''all'', ''good''] check_dummy_globals = warning ''0 all good'' check_dummy_globals"
  by (subst check_dummy_warning [where prog = "''check_dummy''" and args = "[''0'', ''all'', ''good'']"])
    (simp_all add: is_integer_def strspn_def check_dummy_globals_def mp_init_def)

text \<open>Without a message it writes in front of its buffer.\<close>

theorem check_dummy_no_message:
  "\<not> is_integer (Some prog) \<Longrightarrow> check_dummy_main [] 1 [prog] g = Crash"
  by (simp add: check_dummy_main_def dummy_process_arguments_def dummy_state_def dummy_message_def)

text \<open>\<open>check_timeout\<close> always times out: for every positive timeout below two to the power 30 the alarm interrupts the
  sleep and the plugin ends with CRITICAL, whatever its options.\<close>

theorem check_timeout_critical:
  assumes "0 < mp_timeout g" "mp_timeout g < 2 ^ 30"
  shows "exit_code (check_timeout_main os g) = Some STATE_CRITICAL"
proof -
  have o: "run_opts no_opt os () g = Inr ()" by (induction os) (auto simp: no_opt_def)
  have "to_int32 (mp_timeout g * 2) = mp_timeout g * 2" "to_uint32 (mp_timeout g) = mp_timeout g"
    "to_uint32 (mp_timeout g * 2) = mp_timeout g * 2"
    using assms by (simp_all add: to_int32_def to_uint32_def)
  with assms(1) show ?thesis
    by (simp add: check_timeout_main_def timeout_process_arguments_def o alarm_first_def timeout_alarm_handler_def Let_def)
qed

theorem check_timeout_critical_witness: "exit_code (check_timeout_main [] check_timeout_globals) = Some STATE_CRITICAL"
  by (rule check_timeout_critical) (simp_all add: check_timeout_globals_def mp_init_def)

lemma mpath_lines_count:
  "\<exists>g'. mpath_lines ls n f g = (n + int (length ls), f + int (length (filter (\<lambda>l. strstr l ''failed'') ls)), g')"
proof (induction ls arbitrary: n f g)
  case (Cons l ls)
  from Cons.IH [of "n + 1" "if strstr l ''failed'' then f + 1 else f" "if 1 < mp_verbose g then mp_print (''>> '' @ l) g else g"]
  show ?case by auto
qed simp

text \<open>The report of \<open>check_multipath\<close>. When the command was run and left the status 0, the plugin ends
  with WARNING for no output, CRITICAL when a line contains the word failed, and OK otherwise; any other status
  is CRITICAL.\<close>

theorem check_multipath_report:
  assumes "mpath_process_arguments os g = Inr nonroot" "nonroot \<or> mp_euid env = 0 \<and> setuid_ok env"
    "spawn env (if nonroot then ''/usr/bin/sudo'' else ''/sbin/multipath'') = Started pid" "fdopen_ok env"
    "mp_subprocess_close (sp_waits env) = Some r"
  shows "exit_code (check_multipath_main env os g) =
    Some (if r \<noteq> 0 then STATE_CRITICAL else if sp_output env = [] then STATE_WARNING
          else if \<exists>l \<in> set (fgets_all 128 (sp_output env)). sublist ''failed'' l then STATE_CRITICAL else STATE_OK)"
proof -
  obtain g' where l: "mpath_lines (fgets_all 128 (sp_output env)) 0 0 g =
      (int (length (fgets_all 128 (sp_output env))),
       int (length (filter (\<lambda>l. strstr l ''failed'') (fgets_all 128 (sp_output env)))), g')"
    using mpath_lines_count [of "fgets_all 128 (sp_output env)" 0 0 g] by auto
  have e: "fgets_all 128 (sp_output env) = [] \<longleftrightarrow> sp_output env = []"
    by (subst fgets_all.simps) simp
  have "check_multipath_main env os g = mpath_report env g"
    using assms(1-4) by (cases nonroot) (simp_all add: check_multipath_main_def mp_noneroot_die_def)
  then show ?thesis
    by (auto simp: mpath_report_def l assms(5) e strstr_sublist filter_empty_conv)
qed

theorem check_multipath_report_witness:
  "exit_code (check_multipath_main \<lparr>mp_euid = 0, setuid_ok = True, spawn = (\<lambda>_. Started 7), fdopen_ok = True,
      sp_output = ''a failed'', sp_waits = [WaitStatus 0]\<rparr> [] check_multipath_globals) = Some STATE_CRITICAL"
proof -
  have "fgets_all 128 ''a failed'' = [''a failed'']" by code_simp
  then show ?thesis
    by (subst check_multipath_report [where nonroot = False and r = 0 and pid = 7])
      (simp_all add: mpath_process_arguments_def flip: strstr_sublist)
qed

text \<open>A missing multipath command is not reported: the NULL pointer is dereferenced.\<close>

theorem check_multipath_missing:
  assumes "mp_euid env = 0" "setuid_ok env" "spawn env ''/sbin/multipath'' = NoAccess"
  shows "check_multipath_main env [] g = Crash"
  using assms by (simp add: check_multipath_main_def mpath_process_arguments_def mp_noneroot_die_def)

interpretation no_options: plugin_options no_opt "\<lambda>_. True"
  by unfold_locales (simp_all add: no_opt_def)

interpretation nrped_options: plugin_options nrped_opt "\<lambda>_. True"
  by unfold_locales (simp_all add: nrped_opt_def)

interpretation mpath_options: plugin_options mpath_opt "\<lambda>_. True"
  by unfold_locales (simp_all add: mpath_opt_def)

end
