(* ===== verification/Check_Redis.thy ===== *)
theory Check_Redis
  imports Plugin
begin

text \<open>
  \<^verbatim>\<open>lib/redis_utils.c\<close>, \<^verbatim>\<open>redis/check_redis.c\<close> and \<^verbatim>\<open>redis/check_redis_slave.c\<close>: the state of a Redis server and of a
  replica.

  The hiredis library is a parameter: the result of connecting, the reply to each command, the text of its last error
  and its version. \<open>Crash\<close> is the use of a NULL pointer or of an element behind the end of an array.
\<close>

section \<open>Replies and commands\<close>

datatype redis_reply = RString string | RArray "redis_reply list" | RInteger int | RNil | RStatus string | RError string

text \<open>The connection: NULL, or a context with the error of connecting.\<close>

record redis_env =
  re_connect :: "string option option"
  re_reply :: "string \<Rightarrow> redis_reply option"
  re_errstr :: string
  re_start :: "int \<times> int"
  re_stop :: "int \<times> int"

fun reply_str :: "redis_reply \<Rightarrow> string option" where
  "reply_str (RString s) = Some s"
| "reply_str (RStatus s) = Some s"
| "reply_str (RError s) = Some s"
| "reply_str _ = None"

fun mp_redis_print_reply :: "redis_reply \<Rightarrow> nat \<Rightarrow> string" where
  "mp_redis_print_reply (RString s) ident = ''< '' @ replicate ident (CHR '' '') @ quoted s @ nl"
| "mp_redis_print_reply (RArray rs) ident =
     ''< '' @ replicate ident (CHR '' '') @ ''ARRAY'' @ nl @ concat (map (\<lambda>r. mp_redis_print_reply r (ident + 1)) rs)"
| "mp_redis_print_reply (RInteger i) ident = ''< '' @ replicate ident (CHR '' '') @ fmt_d i @ nl"
| "mp_redis_print_reply RNil ident = ''< '' @ replicate ident (CHR '' '') @ ''NIL'' @ nl"
| "mp_redis_print_reply (RStatus s) ident = ''< '' @ replicate ident (CHR '' '') @ ''STATUS: '' @ s @ nl"
| "mp_redis_print_reply (RError s) ident = ''< '' @ replicate ident (CHR '' '') @ ''Error: '' @ s @ nl"

definition mp_redisCommand :: "redis_env \<Rightarrow> string \<Rightarrow> mp_globals \<Rightarrow> mp_end + redis_reply \<times> mp_globals" where
  "mp_redisCommand env cmd g =
     (let g = (if 3 \<le> mp_verbose g then mp_print (''> '' @ cmd @ nl) g else g)
      in if re_connect env = None then Inl Crash
         else case re_reply env cmd of
           None \<Rightarrow> Inl (critical (''Error: '' @ re_errstr env) g)
         | Some (RError s) \<Rightarrow> Inl (critical (''Error: '' @ s) g)
         | Some r \<Rightarrow> Inr (r, if 3 \<le> mp_verbose g then mp_print (mp_redis_print_reply r 0) g else g))"

definition print_revision_redis :: "int \<times> int \<times> int \<Rightarrow> string" where
  "print_revision_redis v =
     (case v of (major, minor, patch) \<Rightarrow> '' hiredis v'' @ fmt_d major @ ''.'' @ fmt_d minor @ ''.'' @ fmt_d patch @ nl)"

text \<open>Connecting, the PING and the lines of the INFO reply: its text is cut at every CR and every LF; a reply without a text
  has no lines.\<close>

definition redis_lines :: "redis_reply \<Rightarrow> string list" where
  "redis_lines r = (case reply_str r of None \<Rightarrow> [] | Some s \<Rightarrow> strtoks [CHR 0x0D, newline] s)"

definition redis_info :: "redis_env \<Rightarrow> mp_globals \<Rightarrow> mp_end + string list \<times> mp_globals" where
  "redis_info env g =
     (case re_connect env of
        Some (Some err) \<Rightarrow> Inl (critical (''Error: '' @ err) g)
      | _ \<Rightarrow>
          (case mp_redisCommand env ''PING'' g of
             Inl e \<Rightarrow> Inl e
           | Inr (_, g) \<Rightarrow>
               map_sum (\<lambda>e. e) (\<lambda>(r, g). (redis_lines r, g)) (mp_redisCommand env ''INFO'' g)))"

section \<open>check\_redis\<close>

definition check_redis_globals :: mp_globals where
  "check_redis_globals = mp_init ''check_redis''
     (''[--host <HOSTNAME>] [--port <PORT>]'')
     ''0.1'' ''Marius Rieder <marius.rieder@durchmesser.ch>'' ''2013''"

definition check_redis_print_help :: "int \<times> int \<times> int \<Rightarrow> string \<Rightarrow> string \<Rightarrow> string" where
  "check_redis_print_help hiredis package version =
     print_revision package version check_redis_globals @
     print_revision_redis hiredis @
     print_copyright check_redis_globals @
     help_lines
       [[],
        ''Check description: Check redis status.'',
        []] @
     print_usage check_redis_globals @
     print_help_default @
     print_help_host @
     print_help_port ''6379'' @
     help_lines
       ['' -s, --socket=<SOCKET>'',
        ''      Unix socket to connect to.''] @
     print_help_warn_time ''3s'' @
     print_help_crit_time ''4s'' @
     help_lines
       ['' -W, --warning-memory=BYTES'',
        ''      Return warning if used memory exceeds value.'',
        '' -C, --warning-memory=BYTES'',
        ''      Return critical if used memory exceeds value.'']"

record redis_args =
  rd_hostname :: string
  rd_port :: int
  rd_socket :: "string option"
  rd_time :: "thresholds option"
  rd_memory :: "thresholds option"

definition redis_args0 :: redis_args where
  "redis_args0 = \<lparr>rd_hostname = ''localhost'', rd_port = 6379, rd_socket = None,
     rd_time = fst (mp_threshold_set_critical_time (fst (mp_threshold_set_warning_time None ''3s'')) ''4s''), rd_memory = None\<rparr>"

text \<open>The options both plugins have.\<close>

definition redis_host_opt :: "bool \<Rightarrow> resolver \<Rightarrow> redis_args opt_handler" where
  "redis_host_opt v6 gai c optarg a g =
     (case getopt_wc_time c optarg (rd_time a) g of
        Inl e \<Rightarrow> Inl e
      | Inr t \<Rightarrow>
          let a = a\<lparr>rd_time := t\<rparr>
          in if c = CHR ''H'' then map_sum (\<lambda>e. e) (\<lambda>h. a\<lparr>rd_hostname := h\<rparr>) (getopt_host v6 gai optarg g)
             else if c = CHR ''P'' then map_sum (\<lambda>e. e) (\<lambda>p. a\<lparr>rd_port := p\<rparr>) (getopt_port optarg g)
             else if c = CHR ''s'' then Inr (a\<lparr>rd_socket := Some optarg\<rparr>)
             else Inr a)"

definition redis_opt :: "bool \<Rightarrow> resolver \<Rightarrow> redis_args opt_handler" where
  "redis_opt v6 gai c optarg a g =
     (case redis_host_opt v6 gai c optarg a g of
        Inl e \<Rightarrow> Inl e
      | Inr a \<Rightarrow>
          if c = CHR ''W''
          then (case mp_threshold_set_warning (rd_memory a) optarg BISI of
                  (t, rc) \<Rightarrow> if rc = ERROR then Inl (usage (''Illegal -W threshold '' @ quoted optarg @ ''.'') g)
                            else Inr (a\<lparr>rd_memory := t\<rparr>))
          else if c = CHR ''C''
          then (case mp_threshold_set_critical (rd_memory a) optarg BISI of
                  (t, rc) \<Rightarrow> if rc = ERROR then Inl (usage (''Illegal -C threshold '' @ quoted optarg @ ''.'') g)
                            else Inr (a\<lparr>rd_memory := t\<rparr>))
          else Inr a)"

definition redis_process_arguments :: "bool \<Rightarrow> resolver \<Rightarrow> (char \<times> string) list \<Rightarrow> mp_globals \<Rightarrow> mp_end + redis_args" where
  "redis_process_arguments v6 gai os g = run_opts (redis_opt v6 gai) os redis_args0 g"

record redis_st =
  redis_version :: "string option"
  used_memory :: int
  rs_globals :: mp_globals

definition redis_line :: "string \<Rightarrow> redis_st \<Rightarrow> redis_st" where
  "redis_line line st =
     (if strncmp_eq line ''redis_version:'' 14 then st\<lparr>redis_version := Some (drop 14 line)\<rparr>
      else if strncmp_eq line ''used_memory:'' 12 then st\<lparr>used_memory := strtol 10 (drop 12 line)\<rparr>
      else if strncmp_eq line ''total_connections_received:'' 27
      then st\<lparr>rs_globals := snd (mp_perfdata_int ''connections'' (strtol 10 (drop 27 line)) ''c'' None (rs_globals st))\<rparr>
      else if strncmp_eq line ''total_commands_processed:'' 25
      then st\<lparr>rs_globals := snd (mp_perfdata_int ''commands'' (strtol 10 (drop 25 line)) ''c'' None (rs_globals st))\<rparr>
      else st)"

text \<open>The loop over the pairs of the CONFIG reply. A pair with another name is skipped.\<close>

fun config_maxmemory :: "redis_reply list \<Rightarrow> int option" where
  "config_maxmemory [] = Some (-1)"
| "config_maxmemory [r] = (case reply_str r of None \<Rightarrow> None | Some s \<Rightarrow> if s \<noteq> ''maxmemory'' then Some (-1) else None)"
| "config_maxmemory (r # v # rs) =
     (case reply_str r of
        None \<Rightarrow> None
      | Some s \<Rightarrow> if s \<noteq> ''maxmemory'' then config_maxmemory rs else map_option (strtol 10) (reply_str v))"

definition reply_elements :: "redis_reply \<Rightarrow> redis_reply list" where
  "reply_elements r = (case r of RArray rs \<Rightarrow> rs | _ \<Rightarrow> [])"

text \<open>The report. The call for the performance data resolves percentages of the memory thresholds.\<close>

definition redis_report :: "redis_args \<Rightarrow> fp \<Rightarrow> int \<Rightarrow> redis_st \<Rightarrow> mp_end" where
  "redis_report a time_delta max_memory st =
     (let g = rs_globals st;
          (mem, tim, g) = (if mp_showperfdata g
             then (case mp_perfdata_int2 ''bytes'' (used_memory st) [] (rd_memory a) True 0 (max_memory \<noteq> -1) max_memory g of
                     (mem, g) \<Rightarrow>
                       (case mp_perfdata_float ''time'' (fp_cast round_float time_delta) ''s'' (rd_time a) g of
                          (tim, g) \<Rightarrow> (mem, tim, g)))
             else (rd_memory a, rd_time a, g));
          m = get_status (dbl_of_int (used_memory st)) mem;
          usage_text = ''Redis Memory Usage: '' @ cstr (mp_human_size (flt_of_int (used_memory st)));
          v = ''Redis '' @ fmt_s (redis_version st);
          s = get_status time_delta tim
      in if m = STATE_WARNING then warning usage_text g
         else if m = STATE_CRITICAL then critical usage_text g
         else if s = STATE_OK then ok v g
         else if s = STATE_WARNING then warning (v @ '' is slow.'') g
         else if s = STATE_CRITICAL then critical (v @ '' is real slow.'') g
         else critical ''You should never reach this point.'' g)"

definition check_redis_main :: "bool \<Rightarrow> resolver \<Rightarrow> redis_env \<Rightarrow> (char \<times> string) list \<Rightarrow> mp_globals \<Rightarrow> mp_end" where
  "check_redis_main v6 gai env os g =
     (case redis_process_arguments v6 gai os g of
        Inl e \<Rightarrow> e
      | Inr a \<Rightarrow>
          (case redis_info env g of
             Inl e \<Rightarrow> e
           | Inr (ls, g) \<Rightarrow>
               let st = fold redis_line ls \<lparr>redis_version = None, used_memory = -1, rs_globals = g\<rparr>
               in case mp_redisCommand env ''CONFIG GET maxmemory'' (rs_globals st) of
                    Inl e \<Rightarrow> e
                  | Inr (r, g) \<Rightarrow>
                      (case config_maxmemory (reply_elements r) of
                         None \<Rightarrow> Crash
                       | Some m \<Rightarrow>
                           redis_report a (mp_time_delta (re_stop env) (re_start env)) m (st\<lparr>rs_globals := g\<rparr>))))"

section \<open>check\_redis\_slave\<close>

definition check_redis_slave_globals :: mp_globals where
  "check_redis_slave_globals = mp_init ''check_redis_slave''
     (''[--host <HOSTNAME>] [--port <PORT>]'')
     ''0.1'' ''Marius Rieder <marius.rieder@durchmesser.ch>'' ''2013''"

definition check_redis_slave_print_help :: "int \<times> int \<times> int \<Rightarrow> string \<Rightarrow> string \<Rightarrow> string" where
  "check_redis_slave_print_help hiredis package version =
     print_revision package version check_redis_slave_globals @
     print_revision_redis hiredis @
     print_copyright check_redis_slave_globals @
     help_lines
       [[],
        ''Check description: Check redis slave status.'',
        []] @
     print_usage check_redis_slave_globals @
     print_help_default @
     print_help_host @
     print_help_port ''6379'' @
     print_help_warn_time ''300s'' @
     print_help_crit_time ''3600s'' @
     help_lines
       ['' -s, --socket=<SOCKET>'',
        ''      Unix socket to connect to.'']"

definition slave_args0 :: redis_args where
  "slave_args0 = \<lparr>rd_hostname = ''localhost'', rd_port = 6379, rd_socket = None,
     rd_time = fst (mp_threshold_set_critical_time (fst (mp_threshold_set_warning_time None ''300s'')) ''3600s''), rd_memory = None\<rparr>"

definition slave_process_arguments :: "bool \<Rightarrow> resolver \<Rightarrow> (char \<times> string) list \<Rightarrow> mp_globals \<Rightarrow> mp_end + redis_args" where
  "slave_process_arguments v6 gai os g = run_opts (redis_host_opt v6 gai) os slave_args0 g"

record slave_st =
  redis_role :: "string option"
  redis_link_status :: "string option"
  redis_delay :: int

definition slave_line :: "string \<Rightarrow> slave_st \<Rightarrow> slave_st" where
  "slave_line line st =
     (if strncmp_eq line ''role:'' 5 then st\<lparr>redis_role := Some (drop 5 line)\<rparr>
      else if strncmp_eq line ''master_link_status:'' 19 then st\<lparr>redis_link_status := Some (drop 19 line)\<rparr>
      else if strncmp_eq line ''master_last_io_seconds_ago:'' 27 then st\<lparr>redis_delay := to_int32 (strtol 10 (drop 27 line))\<rparr>
      else if strncmp_eq line ''master_link_down_since_seconds:'' 31 then st\<lparr>redis_delay := to_int32 (strtol 10 (drop 31 line))\<rparr>
      else st)"

definition slave_report :: "redis_args \<Rightarrow> slave_st \<Rightarrow> mp_globals \<Rightarrow> mp_end" where
  "slave_report a st g =
     (case mp_perfdata_int2 ''delay'' (redis_delay st) ''s'' (rd_time a) True 0 False 0 g of
        (tim, g) \<Rightarrow>
          (case redis_role st of
             None \<Rightarrow> Crash
           | Some role \<Rightarrow>
               if role \<noteq> ''slave'' then critical (''Redis is not a Slave (but '' @ role @ '')'') g
               else (case redis_link_status st of
                       None \<Rightarrow> Crash
                     | Some link \<Rightarrow>
                         if link \<noteq> ''up'' then critical (''Redis master link is '' @ link) g
                         else
                           let s = get_status (dbl_of_int (redis_delay st)) tim;
                               t = ''Redis Slave is '' @ fmt_d (redis_delay st) @ ''s behind.''
                           in if s = STATE_OK then ok ''Redis Slave'' g
                              else if s = STATE_WARNING then warning t g
                              else if s = STATE_CRITICAL then critical t g
                              else critical ''You should never reach this point.'' g)))"

definition check_redis_slave_main :: "bool \<Rightarrow> resolver \<Rightarrow> redis_env \<Rightarrow> (char \<times> string) list \<Rightarrow> mp_globals \<Rightarrow> mp_end" where
  "check_redis_slave_main v6 gai env os g =
     (case slave_process_arguments v6 gai os g of
        Inl e \<Rightarrow> e
      | Inr a \<Rightarrow>
          (case redis_info env g of
             Inl e \<Rightarrow> e
           | Inr (ls, g) \<Rightarrow> slave_report a (fold slave_line ls \<lparr>redis_role = None, redis_link_status = None, redis_delay = -1\<rparr>) g))"

section \<open>The INFO text\<close>

text \<open>A text of lines, each ended by CR LF.\<close>

definition info_text :: "string list \<Rightarrow> string" where
  "info_text ls = concat (map (\<lambda>l. l @ [CHR 0x0D, newline]) ls)"

definition info_ok :: "string list \<Rightarrow> bool" where
  "info_ok ls \<longleftrightarrow> list_all (\<lambda>l. CHR 0x0D \<notin> set l \<and> newline \<notin> set l) ls"

lemma strtoks_line:
  assumes "CHR 0x0D \<notin> set l" "newline \<notin> set l"
  shows "strtoks [CHR 0x0D, newline] (l @ [CHR 0x0D, newline] @ r) = l # [] # strtoks [CHR 0x0D, newline] r"
proof -
  have "strsep [CHR 0x0D, newline] (l @ CHR 0x0D # newline # r) = (l, Some (newline # r))"
    using assms by (intro strsep_hit) auto
  moreover have "strsep [CHR 0x0D, newline] (newline # r) = ([], Some r)" by (simp add: strsep_def)
  ultimately show ?thesis
    by (simp add: strtoks.simps [of _ "l @ CHR 0x0D # newline # r"] strtoks.simps [of _ "newline # r"])
qed

lemma fold_info:
  assumes "info_ok ls" "\<And>st. f [] st = st"
  shows "fold f (strtoks [CHR 0x0D, newline] (info_text ls)) st = fold f ls st"
  using assms(1)
proof (induction ls arbitrary: st)
  case Nil
  then show ?case using assms(2) by (subst strtoks.simps) (simp add: info_text_def strsep_def)
next
  case (Cons l ls)
  then show ?case using strtoks_line [of l "info_text ls"] assms(2) by (simp add: info_ok_def info_text_def)
qed

text \<open>Lines of the form \<open>key:value\<close>.\<close>

definition info_lines :: "(string \<times> string) list \<Rightarrow> string list" where
  "info_lines kvs = map (\<lambda>(k, v). k @ '':'' @ v) kvs"

definition keys_ok :: "(string \<times> string) list \<Rightarrow> bool" where
  "keys_ok kvs \<longleftrightarrow> list_all (\<lambda>(k, v). CHR '':'' \<notin> set k) kvs"

lemma line_key:
  assumes "CHR '':'' \<notin> set k" "CHR '':'' \<notin> set key" "n = Suc (length key)"
  shows "strncmp_eq (k @ '':'' @ v) (key @ '':'') n \<longleftrightarrow> k = key"
  using assms(1,2) unfolding assms(3)
proof (induction k arbitrary: key)
  case Nil
  then show ?case by (cases key) (auto simp: strncmp_eq_def)
next
  case (Cons c k)
  then show ?case by (cases key) (auto simp: strncmp_eq_def)
qed

lemma slave_line_key:
  assumes "CHR '':'' \<notin> set k"
  shows "slave_line (k @ '':'' @ v) st =
    (if k = ''role'' then st\<lparr>redis_role := Some v\<rparr>
     else if k = ''master_link_status'' then st\<lparr>redis_link_status := Some v\<rparr>
     else if k = ''master_last_io_seconds_ago'' \<or> k = ''master_link_down_since_seconds'' then st\<lparr>redis_delay := to_int32 (strtol 10 v)\<rparr>
     else st)"
proof -
  have h: "strncmp_eq (k @ '':'' @ v) ''role:'' 5 \<longleftrightarrow> k = ''role''"
    "strncmp_eq (k @ '':'' @ v) ''master_link_status:'' 19 \<longleftrightarrow> k = ''master_link_status''"
    "strncmp_eq (k @ '':'' @ v) ''master_last_io_seconds_ago:'' 27 \<longleftrightarrow> k = ''master_last_io_seconds_ago''"
    "strncmp_eq (k @ '':'' @ v) ''master_link_down_since_seconds:'' 31 \<longleftrightarrow> k = ''master_link_down_since_seconds''"
    using line_key [OF assms, of "''role''" 5 v] line_key [OF assms, of "''master_link_status''" 19 v]
      line_key [OF assms, of "''master_last_io_seconds_ago''" 27 v] line_key [OF assms, of "''master_link_down_since_seconds''" 31 v]
    by simp_all
  show ?thesis unfolding slave_line_def h by simp
qed

text \<open>What the lines say: the last value of a key.\<close>

definition info_value :: "(string \<times> string) list \<Rightarrow> string \<Rightarrow> string option" where
  "info_value kvs k = map_of (rev kvs) k"

definition info_delay :: "(string \<times> string) list \<Rightarrow> int" where
  "info_delay kvs =
     (case find (\<lambda>(k, v). k = ''master_last_io_seconds_ago'' \<or> k = ''master_link_down_since_seconds'') (rev kvs) of
        None \<Rightarrow> -1 | Some (k, v) \<Rightarrow> to_int32 (strtol 10 v))"

lemma slave_lines:
  assumes "keys_ok kvs"
  shows "fold slave_line (info_lines kvs) \<lparr>redis_role = None, redis_link_status = None, redis_delay = -1\<rparr> =
    \<lparr>redis_role = info_value kvs ''role'', redis_link_status = info_value kvs ''master_link_status'', redis_delay = info_delay kvs\<rparr>"
  using assms
proof (induction kvs rule: rev_induct)
  case Nil
  then show ?case by (simp add: info_lines_def info_value_def info_delay_def)
next
  case (snoc kv kvs)
  obtain k v where kv: "kv = (k, v)" by (cases kv)
  then show ?case
    using snoc slave_line_key [of k v] by (simp add: info_lines_def keys_ok_def info_value_def info_delay_def)
qed


definition slave_env :: "redis_env" where
  "slave_env = \<lparr>re_connect = Some None,
     re_reply = [''PING'' \<mapsto> RStatus ''PONG'',
       ''INFO'' \<mapsto> RString (info_text (info_lines [(''role'', ''slave''), (''master_link_status'', ''down'')]))],
     re_errstr = [], re_start = (0, 0), re_stop = (0, 0)\<rparr>"

lemma slave_args0_percent: "no_percent (rd_time slave_args0)"
proof -
  have "fmt_d 300 @ ''s'' = ''300s''" "fmt_d 3600 @ ''s'' = ''3600s''" by code_simp+
  then show ?thesis
    using parse_upto [of TIME 300 "''s''"] parse_upto [of TIME 3600 "''s''"]
    by (simp add: slave_args0_def no_percent_def set_threshold_defs num_end_def unit_factor_def BISI_def TIME_def isdigit_def ccode_def
        parse_time_multiplier_string_def del: spec_range.simps)
qed


lemma redis_host_opt_both:
  assumes "thresholds_both (rd_time a)" "redis_host_opt v6 gai c s a g = Inr a'"
  shows "thresholds_both (rd_time a')"
proof -
  obtain t where t: "getopt_wc_time c s (rd_time a) g = Inr t" using assms(2) by (auto simp: redis_host_opt_def split: sum.splits)
  have "rd_time a' = t"
    using assms(2) t by (cases "getopt_host v6 gai s g"; cases "getopt_port s g") (auto simp: redis_host_opt_def Let_def split: if_splits)
  then show ?thesis using thresholds_both_keep(2) [OF assms(1) t] by simp
qed

lemma redis_host_opt_refuses: "redis_host_opt v6 gai c s a g = Inl e \<Longrightarrow> exit_code e = Some STATE_UNKNOWN"
  by (cases "getopt_host v6 gai s g"; cases "getopt_port s g")
    (auto simp: redis_host_opt_def Let_def refuse_simps split: if_splits sum.splits)

interpretation slave_options: plugin_options "redis_host_opt v6 gai" "\<lambda>a. thresholds_both (rd_time a)" for v6 gai
  by unfold_locales (auto dest: redis_host_opt_both redis_host_opt_refuses)

interpretation redis_options: plugin_options "redis_opt v6 gai" "\<lambda>a. thresholds_both (rd_time a)" for v6 gai
proof
  fix a a' :: redis_args and c s g
  assume p: "thresholds_both (rd_time a)" "redis_opt v6 gai c s a g = Inr a'"
  then obtain a1 where a1: "redis_host_opt v6 gai c s a g = Inr a1" by (auto simp: redis_opt_def split: sum.splits)
  then have "rd_time a' = rd_time a1" using p(2) by (auto simp: redis_opt_def split: prod.splits if_splits)
  then show "thresholds_both (rd_time a')" using redis_host_opt_both [OF p(1) a1] by simp
next
  fix a c s g e
  assume "redis_opt v6 gai c s a g = Inl e"
  then show "exit_code e = Some STATE_UNKNOWN"
    by (auto simp: redis_opt_def redis_host_opt_refuses split: sum.splits prod.splits if_splits)
qed

end
