(* ===== verification/Check_SELinux.thy ===== *)
theory Check_SELinux
  imports Plugin
begin

text \<open>
  \<^verbatim>\<open>selinux/check_enforce.c\<close> and \<^verbatim>\<open>selinux/check_sebool.c\<close>: the mode, the policy and the booleans of SELinux.

  The answers of libselinux are the fields of an environment.
\<close>

section \<open>check\_enforce\<close>

record selinux_env =
  se_enabled :: int
  se_enforced :: int
  se_policy_root :: string
  se_active :: "string \<Rightarrow> int"

definition check_enforce_globals :: mp_globals where
  "check_enforce_globals = mp_init ''check_enforce''
     (''[--enforcing|--permissive|--disabled]'')
     ''0.1'' ''Marius Rieder <marius.rieder@durchmesser.ch>'' ''2011''"

definition check_enforce_print_help :: "string \<Rightarrow> string \<Rightarrow> string" where
  "check_enforce_print_help package version =
     print_revision package version check_enforce_globals @
     print_copyright check_enforce_globals @
     help_lines
       [[],
        ''Check description: Check the selinux state and policy.'',
        []] @
     print_usage check_enforce_globals @
     print_help_default @
     help_lines
       ['' -e, --enforcing'',
        ''      SELinux should be enforcing.'',
        '' -p, --permissive'',
        ''      SELinux should be permissive.'',
        '' -d, --disabled'',
        ''      SELinux should be disabled.'',
        '' -P, --policy=POLICY'',
        ''      SELinux should run with POLICY loaded.'']"

record enforce_args =
  state_disabled :: int
  state_permissive :: int
  state_enforcing :: int
  se_policy :: "string option"

definition enforce_args0 :: enforce_args where
  "enforce_args0 = \<lparr>state_disabled = -1, state_permissive = -1, state_enforcing = -1, se_policy = None\<rparr>"

definition enforce_states :: "int \<Rightarrow> int \<Rightarrow> int \<Rightarrow> enforce_args \<Rightarrow> mp_globals \<Rightarrow> mp_end + enforce_args" where
  "enforce_states enforcing permissive disabled a g =
     (if state_enforcing a \<noteq> -1 then Inl (usage ''Only one state argument allowed.'' g)
      else Inr (a\<lparr>state_enforcing := enforcing, state_permissive := permissive, state_disabled := disabled\<rparr>))"

definition enforce_opt :: "enforce_args opt_handler" where
  "enforce_opt c optarg a g =
     (if c = CHR ''e'' then enforce_states STATE_OK STATE_WARNING STATE_CRITICAL a g
      else if c = CHR ''p'' then enforce_states STATE_WARNING STATE_OK STATE_CRITICAL a g
      else if c = CHR ''d'' then enforce_states STATE_CRITICAL STATE_WARNING STATE_OK a g
      else if c = CHR ''P'' then Inr (a\<lparr>se_policy := Some optarg\<rparr>)
      else Inr a)"

definition enforce_process_arguments :: "(char \<times> string) list \<Rightarrow> mp_globals \<Rightarrow> mp_end + enforce_args" where
  "enforce_process_arguments os g =
     map_sum (\<lambda>e. e)
       (\<lambda>a. if state_enforcing a = -1
            then a\<lparr>state_enforcing := STATE_OK, state_permissive := STATE_WARNING, state_disabled := STATE_CRITICAL\<rparr> else a)
       (run_opts enforce_opt os enforce_args0 g)"

text \<open>\<open>basename\<close> of the C library: the last component of a path without its trailing slashes.\<close>

definition basename :: "string \<Rightarrow> string" where
  "basename s =
     (if s = [] then ''.''
      else let r = dropWhile (\<lambda>c. c = CHR ''/'') (rev s)
           in if r = [] then ''/'' else rev (takeWhile (\<lambda>c. c \<noteq> CHR ''/'') r))"

definition enforce_exit :: "int \<Rightarrow> string \<Rightarrow> string \<Rightarrow> mp_globals \<Rightarrow> mp_end" where
  "enforce_exit st state_name pol_name g =
     (let t = ''SELinux: '' @ state_name @ '' ('' @ pol_name @ '')''
      in if st = STATE_OK then ok t g
         else if st = STATE_WARNING then warning t g
         else if st = STATE_CRITICAL then critical t g
         else critical ''You should never reack this point.'' g)"

definition check_enforce_main :: "selinux_env \<Rightarrow> (char \<times> string) list \<Rightarrow> mp_globals \<Rightarrow> mp_end" where
  "check_enforce_main env os g =
     (case enforce_process_arguments os g of
        Inl e \<Rightarrow> e
      | Inr a \<Rightarrow>
          if se_enabled env < 0 then critical ''is_selinux_enabled failed!'' g
          else if se_enabled env \<noteq> 0 then
            (if se_enforced env < 0 then critical ''security_getenforce failed!'' g
             else
               let (name, st) = (if se_enforced env \<noteq> 0 then (''Enforcing'', state_enforcing a) else (''Permissive'', state_permissive a));
                   pol = basename (se_policy_root env)
               in if (case se_policy a of None \<Rightarrow> False | Some p \<Rightarrow> pol \<noteq> p) then critical (''Wrong SELinux policy '' @ pol) g
                  else enforce_exit st name pol g)
          else enforce_exit (state_disabled a) ''Disabled'' ''no policy'' g)"

section \<open>check\_sebool\<close>

definition check_sebool_globals :: mp_globals where
  "check_sebool_globals = mp_init ''check_sebool''
     (''[--on BOOL] [--off BOOL] [--on|off ...]'')
     ''0.1'' ''Marius Rieder <marius.rieder@durchmesser.ch>'' ''2011''"

definition check_sebool_print_help :: "string \<Rightarrow> string \<Rightarrow> string" where
  "check_sebool_print_help package version =
     print_revision package version check_sebool_globals @
     print_copyright check_sebool_globals @
     help_lines
       [[],
        ''Check description: Check the state of selinux booleans.'',
        []] @
     print_usage check_sebool_globals @
     print_help_default @
     help_lines
       [''     --on'',
        ''      SELinux boolean which should be ON.'',
        ''     --off'',
        ''      SELinux boolean which should be OFF.'']"

definition LONGOPT_ON :: char where "LONGOPT_ON = CHR 0x90"
definition LONGOPT_OFF :: char where "LONGOPT_OFF = CHR 0x91"

record sebool_args =
  bool_on :: "string option list"
  bools_on :: nat
  bool_off :: "string option list"
  bools_off :: nat

definition sebool_args0 :: sebool_args where
  "sebool_args0 = \<lparr>bool_on = [], bools_on = 0, bool_off = [], bools_off = 0\<rparr>"

definition sebool_opt :: "sebool_args opt_handler" where
  "sebool_opt c optarg a g =
     Inr (if c = LONGOPT_ON
          then (case mp_array_push (bool_on a) (Some optarg) (bools_on a) of (arr, n) \<Rightarrow> a\<lparr>bool_on := arr, bools_on := n\<rparr>)
          else if c = LONGOPT_OFF
          then (case mp_array_push (bool_off a) (Some optarg) (bools_off a) of (arr, n) \<Rightarrow> a\<lparr>bool_off := arr, bools_off := n\<rparr>)
          else a)"

definition sebool_process_arguments :: "(char \<times> string) list \<Rightarrow> mp_globals \<Rightarrow> mp_end + sebool_args" where
  "sebool_process_arguments os g =
     (case run_opts sebool_opt os sebool_args0 g of
        Inl e \<Rightarrow> Inl e
      | Inr a \<Rightarrow>
          if bools_on a + bools_off a = 0
          then Inl (usage ''Please specify al least one --on or --off bool to check.'' g) else Inr a)"

record sebool_st =
  sb_state :: int
  sb_ok :: "cbuf option"
  sb_crit :: "cbuf option"
  sb_globals :: mp_globals

text \<open>One boolean: \<open>want\<close> is the value it should have, \<open>label\<close> the array of the trace. The text has to fit 128 bytes.\<close>

definition sebool_step :: "selinux_env \<Rightarrow> string \<Rightarrow> int \<Rightarrow> nat \<Rightarrow> string option \<Rightarrow> sebool_st \<Rightarrow> mp_end + sebool_st" where
  "sebool_step env label want i name st =
     (case name of
        None \<Rightarrow> Inl Crash
      | Some b \<Rightarrow>
          let g = sb_globals st;
              g = (if mp_verbose g \<noteq> 0 then mp_print (label @ ''['' @ fmt_d (int i) @ ''] => '' @ b @ nl) g else g);
              active = se_active env b;
              text = b @ (if active = 1 then '': ON'' else if active = 0 then '': OFF'' else '': Unknown'')
          in map_sum (\<lambda>e. e)
               (\<lambda>buf. if active = want then st\<lparr>sb_ok := mp_strcat_comma (sb_ok st) (Some buf), sb_globals := g\<rparr>
                      else st\<lparr>sb_crit := mp_strcat_comma (sb_crit st) (Some buf), sb_state := STATE_CRITICAL, sb_globals := g\<rparr>)
               (mp_snprintf 128 (Some text) g))"

fun sebool_loop :: "selinux_env \<Rightarrow> string \<Rightarrow> int \<Rightarrow> nat \<Rightarrow> string option list \<Rightarrow> sebool_st \<Rightarrow> mp_end + sebool_st" where
  "sebool_loop env label want i [] st = Inr st"
| "sebool_loop env label want i (b # bs) st =
     (case sebool_step env label want i b st of Inl e \<Rightarrow> Inl e | Inr st \<Rightarrow> sebool_loop env label want (Suc i) bs st)"

definition sebool_exit :: "sebool_st \<Rightarrow> mp_end" where
  "sebool_exit st =
     (let crit = mp_strcat_comma (sb_crit st) (map_option cstr (sb_ok st));
          t = ''SEBool: '' @ fmt_s (map_option cstr crit)
      in if sb_state st = STATE_OK then ok t (sb_globals st) else critical t (sb_globals st))"

definition check_sebool_main :: "selinux_env \<Rightarrow> (char \<times> string) list \<Rightarrow> mp_globals \<Rightarrow> mp_end" where
  "check_sebool_main env os g =
     (case sebool_process_arguments os g of
        Inl e \<Rightarrow> e
      | Inr a \<Rightarrow>
          if se_enabled env \<le> 0 then critical ''SELinux is disabled!'' g
          else
            (case sebool_loop env ''bool_on'' 1 0 (bool_on a) \<lparr>sb_state = STATE_OK, sb_ok = None, sb_crit = None, sb_globals = g\<rparr> of
               Inl e \<Rightarrow> e
             | Inr st \<Rightarrow>
                 (case sebool_loop env ''bool_off'' 0 0 (bool_off a) st of
                    Inl e \<Rightarrow> e
                  | Inr st \<Rightarrow> sebool_exit st)))"

section \<open>The mode\<close>

text \<open>The modes in the order of their severity for each wish.\<close>

lemma enforce_arguments_levels:
  "enforce_process_arguments os g = Inr a \<Longrightarrow>
    (state_enforcing a, state_permissive a, state_disabled a) \<in>
      {(STATE_OK, STATE_WARNING, STATE_CRITICAL), (STATE_WARNING, STATE_OK, STATE_CRITICAL), (STATE_CRITICAL, STATE_WARNING, STATE_OK)}"
proof -
  have "run_opts enforce_opt os a g = Inr a' \<Longrightarrow>
      state_enforcing a = -1 \<or> (state_enforcing a, state_permissive a, state_disabled a) \<in>
        {(STATE_OK, STATE_WARNING, STATE_CRITICAL), (STATE_WARNING, STATE_OK, STATE_CRITICAL), (STATE_CRITICAL, STATE_WARNING, STATE_OK)} \<Longrightarrow>
      state_enforcing a' = -1 \<or> (state_enforcing a', state_permissive a', state_disabled a') \<in>
        {(STATE_OK, STATE_WARNING, STATE_CRITICAL), (STATE_WARNING, STATE_OK, STATE_CRITICAL), (STATE_CRITICAL, STATE_WARNING, STATE_OK)}"
    for a a'
  proof (induction os arbitrary: a)
    case (Cons o1 os)
    obtain c s where o1: "o1 = (c, s)" by (cases o1)
    obtain a1 where a1: "enforce_opt c s a g = Inr a1" "run_opts enforce_opt os a1 g = Inr a'"
      using Cons.prems(1) by (auto simp: o1 split: sum.splits)
    show ?case by (rule Cons.IH [OF a1(2)]) (use a1(1) Cons.prems(2) in \<open>auto simp: enforce_opt_def enforce_states_def split: if_splits\<close>)
  qed simp
  note run = this
  show "enforce_process_arguments os g = Inr a \<Longrightarrow> ?thesis"
    using run [of enforce_args0] by (cases "run_opts enforce_opt os enforce_args0 g") (auto simp: enforce_process_arguments_def enforce_args0_def)
qed

interpretation enforce_options: plugin_options enforce_opt "\<lambda>_. True"
  by unfold_locales (auto simp: enforce_opt_def enforce_states_def split: if_splits)

interpretation sebool_options: plugin_options sebool_opt "\<lambda>a. array_full (bool_on a) (bools_on a) \<and> array_full (bool_off a) (bools_off a)"
  by unfold_locales (auto simp: sebool_opt_def mp_array_push_full split: prod.splits if_splits)

lemma sebool_arguments_full:
  "sebool_process_arguments os g = Inr a \<Longrightarrow> array_full (bool_on a) (bools_on a) \<and> array_full (bool_off a) (bools_off a)"
  using sebool_options.run_keeps [of sebool_args0 os g]
  by (auto simp: sebool_process_arguments_def sebool_args0_def array_full_def split: sum.splits if_splits)

section \<open>The booleans\<close>

text \<open>What a loop leaves: the status, and the texts of the right and of the wrong booleans.\<close>

definition bool_text :: "selinux_env \<Rightarrow> string \<Rightarrow> string" where
  "bool_text env b = b @ (if se_active env b = 1 then '': ON'' else if se_active env b = 0 then '': OFF'' else '': Unknown'')"

lemma sebool_loop_texts:
  assumes "list_all (\<lambda>b. length b < 119) bs"
  shows "\<exists>g. sebool_loop env label want i (map Some bs) st =
    Inr \<lparr>sb_state = (if list_all (\<lambda>b. se_active env b = want) bs then sb_state st else STATE_CRITICAL),
         sb_ok = add_texts (sb_ok st) (map (bool_text env) (filter (\<lambda>b. se_active env b = want) bs)),
         sb_crit = add_texts (sb_crit st) (map (bool_text env) (filter (\<lambda>b. se_active env b \<noteq> want) bs)), sb_globals = g\<rparr>"
  using assms
proof (induction bs arbitrary: i st)
  case Nil
  then show ?case by (cases st) (simp add: add_texts_def)
next
  case (Cons b bs)
  have fits: "length (bool_text env b) < 128" using Cons.prems by (simp add: bool_text_def)
  obtain st1 where s: "sebool_step env label want i (Some b) st = Inr st1"
      "sb_state st1 = (if se_active env b = want then sb_state st else STATE_CRITICAL)"
      "sb_ok st1 = (if se_active env b = want then mp_strcat_comma (sb_ok st) (Some (bool_text env b)) else sb_ok st)"
      "sb_crit st1 = (if se_active env b = want then sb_crit st else mp_strcat_comma (sb_crit st) (Some (bool_text env b)))"
    using fits by (auto simp: sebool_step_def mp_snprintf_def bool_text_def Let_def)
  then show ?case using Cons.IH [of "Suc i" st1] Cons.prems by (auto simp: add_texts_def)
qed

lemma sebool_exit_text:
  assumes "cs @ rs \<noteq> []"
  shows "sebool_exit \<lparr>sb_state = st, sb_ok = add_texts None rs, sb_crit = add_texts None cs, sb_globals = g\<rparr> =
    (if st = STATE_OK then ok else critical) (''SEBool: '' @ join_with '', '' (cs @ rs)) g"
proof -
  have "buf_str (mp_strcat_comma (add_texts None cs) (buf_str (add_texts None rs))) = Some (join_with '', '' (cs @ rs))"
  proof (cases "rs = []")
    case True
    then show ?thesis using assms comma.cat_NULL add_texts_None [of rs] add_texts_None [of cs] by simp
  next
    case False
    then show ?thesis
      using comma.cat_str [of "add_texts None cs" "join_with '', '' rs"] join_with_append [of rs cs "'', ''"]
        add_texts_None [of rs] add_texts_None [of cs] by (cases "cs = []") (simp_all add: str_append_def)
  qed
  then obtain b where "mp_strcat_comma (add_texts None cs) (map_option cstr (add_texts None rs)) = Some b" "cstr b = join_with '', '' (cs @ rs)"
    by (auto simp: buf_str_def)
  then show ?thesis by (simp add: sebool_exit_def fmt_s_def)
qed

text \<open>C40: What \<open>check_sebool\<close> reports. With SELinux enabled and names of less than 119 characters the plugin is OK exactly when
  every boolean of \<open>--on\<close> is on and every boolean of \<open>--off\<close> is off; the text lists the wrong ones first.\<close>

theorem check_sebool_result:
  assumes "sebool_process_arguments os g = Inr a" "0 < se_enabled env" "bool_on a = map Some on" "bool_off a = map Some off"
    "list_all (\<lambda>b. length b < 119) (on @ off)"
  shows "\<exists>g'. check_sebool_main env os g =
    (if list_all (\<lambda>b. se_active env b = 1) on \<and> list_all (\<lambda>b. se_active env b = 0) off then ok else critical)
      (''SEBool: '' @ join_with '', '' (map (bool_text env)
         (filter (\<lambda>b. se_active env b \<noteq> 1) on @ filter (\<lambda>b. se_active env b \<noteq> 0) off @
          filter (\<lambda>b. se_active env b = 1) on @ filter (\<lambda>b. se_active env b = 0) off))) g'"
proof -
  let ?cs = "map (bool_text env) (filter (\<lambda>b. se_active env b \<noteq> 1) on @ filter (\<lambda>b. se_active env b \<noteq> 0) off)"
  let ?rs = "map (bool_text env) (filter (\<lambda>b. se_active env b = 1) on @ filter (\<lambda>b. se_active env b = 0) off)"
  let ?good = "list_all (\<lambda>b. se_active env b = 1) on \<and> list_all (\<lambda>b. se_active env b = 0) off"
  let ?st = "\<lparr>sb_state = STATE_OK, sb_ok = None, sb_crit = None, sb_globals = g\<rparr>"
  have "on @ off \<noteq> []"
    using assms(1,3,4) sebool_arguments_full [OF assms(1)] by (auto simp: sebool_process_arguments_def array_full_def split: sum.splits if_splits)
  then have ne: "?cs @ ?rs \<noteq> []" by (cases on; cases off) auto
  obtain st1 where l1: "sebool_loop env ''bool_on'' 1 0 (map Some on) ?st = Inr st1"
      "sb_state st1 = (if list_all (\<lambda>b. se_active env b = 1) on then STATE_OK else STATE_CRITICAL)"
      "sb_ok st1 = add_texts None (map (bool_text env) (filter (\<lambda>b. se_active env b = 1) on))"
      "sb_crit st1 = add_texts None (map (bool_text env) (filter (\<lambda>b. se_active env b \<noteq> 1) on))"
    using sebool_loop_texts [of on env "''bool_on''" 1 0 ?st] assms(5) by auto
  obtain g2 where "sebool_loop env ''bool_off'' 0 0 (map Some off) st1 =
      Inr \<lparr>sb_state = (if ?good then STATE_OK else STATE_CRITICAL), sb_ok = add_texts None ?rs, sb_crit = add_texts None ?cs, sb_globals = g2\<rparr>"
    using sebool_loop_texts [of off env "''bool_off''" 0 0 st1] assms(5) l1(2-4) by (auto simp: add_texts_def)
  then have "check_sebool_main env os g = sebool_exit
      \<lparr>sb_state = (if ?good then STATE_OK else STATE_CRITICAL), sb_ok = add_texts None ?rs, sb_crit = add_texts None ?cs, sb_globals = g2\<rparr>"
    using assms(1-4) l1(1) by (simp add: check_sebool_main_def)
  also have "\<dots> = (if ?good then ok else critical) (''SEBool: '' @ join_with '', '' (?cs @ ?rs)) g2"
    using sebool_exit_text [OF ne, of "if ?good then STATE_OK else STATE_CRITICAL" g2] by simp
  finally show ?thesis by (intro exI [of _ g2]) simp
qed

definition sebool_env :: selinux_env where
  "sebool_env = \<lparr>se_enabled = 1, se_enforced = 1, se_policy_root = [], se_active = (\<lambda>b. if b = ''a'' then 1 else 0)\<rparr>"

theorem check_sebool_result_witness:
  "\<exists>g'. check_sebool_main sebool_env [(LONGOPT_ON, ''a,b'')] check_sebool_globals = critical ''SEBool: b: OFF, a: ON'' g'"
proof -
  let ?a = "\<lparr>bool_on = map Some [''a'', ''b''], bools_on = 2, bool_off = map Some [], bools_off = 0\<rparr>"
  have "strtoks '','' ''a,b'' = [''a'', ''b'']" by code_simp
  then have "sebool_process_arguments [(LONGOPT_ON, ''a,b'')] check_sebool_globals = Inr ?a"
    by (simp add: sebool_process_arguments_def sebool_opt_def sebool_args0_def mp_array_push_def arr_put_def)
  then show ?thesis
    using check_sebool_result [where env = sebool_env and on = "[''a'', ''b'']" and off = "[]" and a = ?a and g = check_sebool_globals
        and os = "[(LONGOPT_ON, ''a,b'')]"] by (simp add: sebool_env_def bool_text_def)
qed

end
