(* ===== verification/Check_MySQL.thy ===== *)
theory Check_MySQL
  imports Plugin
begin

text \<open>
  \<^verbatim>\<open>lib/mysql_utils.c\<close>, \<^verbatim>\<open>mysql/check_mysql.c\<close> and \<^verbatim>\<open>mysql/check_mysql_rows.c\<close>: the status of a MySQL server and the
  number of rows of a table.

  The client library is a parameter: whether its initialisation and the connection succeed, the result of a query as
  rows of columns, where \<open>None\<close> is NULL, and the text of its last error. \<open>Crash\<close> is the use of a NULL pointer or of an
  entry of an array that was never written.
\<close>

section \<open>Connection and options\<close>

record mysql_args =
  mp_mysql_host :: "string option"
  mp_mysql_user :: "string option"
  mp_mysql_pass :: "string option"
  mp_mysql_db :: "string option"
  mp_mysql_port :: int
  mp_mysql_socket :: "string option"

definition mysql_args0 :: mysql_args where
  "mysql_args0 = \<lparr>mp_mysql_host = None, mp_mysql_user = None, mp_mysql_pass = None, mp_mysql_db = None, mp_mysql_port = 0,
     mp_mysql_socket = None\<rparr>"

type_synonym mysql_row = "string option list"

record mysql_env =
  my_init_ok :: bool
  my_connect :: "mysql_args \<Rightarrow> bool"
  my_query :: "string \<Rightarrow> mysql_row list option option"
  my_error :: string
  my_server_info :: string
  my_start :: "int \<times> int"
  my_stop :: "int \<times> int"

text \<open>A query: \<open>None\<close> where it fails, \<open>Some None\<close> where \<open>mysql_store_result\<close> is NULL. \<open>mp_mysql_deinit\<close> only closes.\<close>

definition mp_mysql_init :: "mysql_env \<Rightarrow> 'a mysql_args_scheme \<Rightarrow> mp_globals \<Rightarrow> mp_end option" where
  "mp_mysql_init env a g =
     (if \<not> my_init_ok env then Some (unknown ''MySQL library initialisation failed.'' g)
      else if \<not> my_connect env (mysql_args.truncate a) then Some (unknown (''MySQL connection failed: '' @ my_error env) g)
      else None)"

definition getopt_mysql :: "bool \<Rightarrow> resolver \<Rightarrow> ('a mysql_args_scheme) opt_handler" where
  "getopt_mysql v6 gai c optarg a g =
     (if c = CHR ''H'' then map_sum (\<lambda>e. e) (\<lambda>h. a\<lparr>mp_mysql_host := Some h\<rparr>) (getopt_host v6 gai optarg g)
      else if c = CHR ''u'' then Inr (a\<lparr>mp_mysql_user := Some optarg\<rparr>)
      else if c = CHR ''p'' then Inr (a\<lparr>mp_mysql_pass := Some optarg\<rparr>)
      else if c = CHR ''D'' then Inr (a\<lparr>mp_mysql_db := Some optarg\<rparr>)
      else if c = CHR ''P'' then map_sum (\<lambda>e. e) (\<lambda>p. a\<lparr>mp_mysql_port := p\<rparr>) (getopt_port optarg g)
      else if c = CHR ''S'' then Inr (a\<lparr>mp_mysql_socket := Some optarg\<rparr>)
      else Inr a)"

definition print_help_mysql :: string where
  "print_help_mysql = print_help_host @ help_lines
     ['' -u, --user=USER'',
      ''      The MySQL user name to use when connecting to the server.'',
      '' -p, --password=PASSWORD'',
      ''      The password to use when connecting to the server.'',
      '' -D, --database=DATABASE'',
      ''      The database to use.'',
      '' -P, --port=PORT'',
      ''      The TCP/IP port number to use for the connection.'',
      '' -S, --socket'',
      ''      For connections to localhost, the Unix socket file to use.'']"

definition print_revision_mysql :: "string \<Rightarrow> string" where
  "print_revision_mysql client = '' mysql v'' @ client @ nl"

section \<open>check\_mysql\<close>

definition check_mysql_globals :: mp_globals where
  "check_mysql_globals = mp_init ''check_mysql''
     (''-H <HOST>'')
     ''0.1'' ''Marius Rieder <marius.rieder@durchmesser.ch>'' ''2011''"

definition check_mysql_print_help :: "string \<Rightarrow> string \<Rightarrow> string \<Rightarrow> string" where
  "check_mysql_print_help client package version =
     print_revision package version check_mysql_globals @
     print_revision_mysql client @
     print_copyright check_mysql_globals @
     help_lines
       [[],
        ''Check description: Check MySQL connectivity and status.'',
        []] @
     print_usage check_mysql_globals @
     print_help_default @
     print_help_mysql @
     help_lines
       [''     --variable=VARIABLE[:UNIT]'',
        ''      Variable, and unit, to report to perfdata.'']"

definition LONGOPT_VARIABLE :: char where "LONGOPT_VARIABLE = CHR 0x90"

definition default_unit :: "string list" where
  "default_unit = [''c'', ''c'', ''c'', ''c'', ''c'', ''c'', ''c'', ''c'', [], ''c'', [], [], ''c'']"

definition default_variable :: "string list" where
  "default_variable = [''Bytes_received'', ''Bytes_sent'', ''Com_delete'', ''Com_insert'', ''Com_select'', ''Com_update'', ''Com_replace'',
     ''Queries'', ''Threads_cached'', ''Threads_created'', ''Threads_connected'', ''Threads_running'', ''Connections'']"

record mysql_vars = mysql_args +
  variable :: "string option list"
  unit_names :: "string option list"
  variables :: nat

definition mysql_vars0 :: mysql_vars where
  "mysql_vars0 = mysql_args.extend mysql_args0 (mysql_vars.fields [] [] 0)"

text \<open>The option for a variable: both arrays share one counter, which is set back by one between the two calls; the text behind the
  colon is tested, but the name is pushed as the unit.\<close>

definition mysql_opt :: "bool \<Rightarrow> resolver \<Rightarrow> mysql_vars opt_handler" where
  "mysql_opt v6 gai c optarg a g =
     (case getopt_mysql v6 gai c optarg a g of
        Inl e \<Rightarrow> Inl e
      | Inr a \<Rightarrow>
          Inr (if c = LONGOPT_VARIABLE
               then (case strsep '':'' optarg of
                       (name, u) \<Rightarrow>
                         (case mp_array_push (variable a) (Some name) (variables a) of
                            (vars, n) \<Rightarrow>
                              (case mp_array_push (unit_names a) (Some (if u \<noteq> None then name else [])) (n - 1) of
                                 (units, n) \<Rightarrow> a\<lparr>variable := vars, unit_names := units, variables := n\<rparr>)))
               else a))"

definition mysql_process_arguments :: "bool \<Rightarrow> resolver \<Rightarrow> (char \<times> string) list \<Rightarrow> mp_globals \<Rightarrow> mp_end + mysql_vars" where
  "mysql_process_arguments v6 gai os g =
     map_sum (\<lambda>e. e)
       (\<lambda>a. if variables a = 0
            then a\<lparr>variable := map Some default_variable, unit_names := map Some default_unit, variables := 13\<rparr> else a)
       (run_opts (mysql_opt v6 gai) os mysql_vars0 g)"

text \<open>A row of the status against the variables; \<open>None\<close> is a crash.\<close>

fun status_row :: "(string option \<times> string option) list \<Rightarrow> string option \<Rightarrow> string option \<Rightarrow> mp_globals \<Rightarrow> mp_globals option" where
  "status_row [] key v g = Some g"
| "status_row ((name, u) # vs) key v g =
     (case (name, key) of
        (Some n, Some k) \<Rightarrow>
          if n = k
          then (case (v, u) of
                  (Some x, Some y) \<Rightarrow> status_row vs key v (snd (mp_perfdata_int k (strtol 10 x) y None g))
                | _ \<Rightarrow> None)
          else status_row vs key v g
      | _ \<Rightarrow> None)"

fun status_rows :: "(string option \<times> string option) list \<Rightarrow> mysql_row list \<Rightarrow> mp_globals \<Rightarrow> mp_globals option" where
  "status_rows vs [] g = Some g"
| "status_rows vs (row # rows) g =
     (case row of
        key # v # _ \<Rightarrow> (case status_row vs key v g of None \<Rightarrow> None | Some g \<Rightarrow> status_rows vs rows g)
      | _ \<Rightarrow> None)"

definition var_units :: "mysql_vars \<Rightarrow> (string option \<times> string option) list" where
  "var_units a =
     map (\<lambda>i. (if i < length (variable a) then variable a ! i else None, if i < length (unit_names a) then unit_names a ! i else None))
       [0..<variables a]"

definition mysql_status :: "mysql_env \<Rightarrow> mysql_vars \<Rightarrow> mp_globals \<Rightarrow> mp_end + mp_globals" where
  "mysql_status env a g =
     (if \<not> mp_showperfdata g then Inr g
      else case my_query env ''SHOW /*!50002 GLOBAL */ STATUS;'' of
             None \<Rightarrow> Inl (critical (''Query '' @ quoted ''SHOW GLOBAL STATUS'' @ '' failed: '' @ my_error env) g)
           | Some None \<Rightarrow> Inl Crash
           | Some (Some rows) \<Rightarrow> (case status_rows (var_units a) rows g of None \<Rightarrow> Inl Crash | Some g \<Rightarrow> Inr g))"

definition check_mysql_main :: "bool \<Rightarrow> resolver \<Rightarrow> mysql_env \<Rightarrow> (char \<times> string) list \<Rightarrow> mp_globals \<Rightarrow> mp_end" where
  "check_mysql_main v6 gai env os g =
     (case mysql_process_arguments v6 gai os g of
        Inl e \<Rightarrow> e
      | Inr a \<Rightarrow>
          (case mp_mysql_init env a g of
             Some e \<Rightarrow> e
           | None \<Rightarrow>
               (case mysql_status env a g of
                  Inl e \<Rightarrow> e
                | Inr g \<Rightarrow>
                    ok (''MySQL v'' @ my_server_info env)
                      (snd (mp_perfdata_float ''time'' (fp_cast round_float (mp_time_delta (my_stop env) (my_start env))) ''s'' None g)))))"

section \<open>check\_mysql\_rows\<close>

definition check_mysql_rows_globals :: mp_globals where
  "check_mysql_rows_globals = mp_init ''check_mysql_rows''
     (''--database <DB> --table <TABLE>'')
     ''0.1'' ''Marius Rieder <marius.rieder@durchmesser.ch>'' ''2011''"

definition check_mysql_rows_print_help :: "string \<Rightarrow> string \<Rightarrow> string \<Rightarrow> string" where
  "check_mysql_rows_print_help client package version =
     print_revision package version check_mysql_rows_globals @
     print_revision_mysql client @
     print_copyright check_mysql_rows_globals @
     help_lines
       [[],
        ''Check description: Check mysql table row count.'',
        []] @
     print_usage check_mysql_rows_globals @
     print_help_default @
     print_help_mysql @
     help_lines
       ['' -T, --table=TABLE'',
        ''      Table to count rows of.''] @
     print_help_warn ''rows'' ''none'' @
     print_help_crit ''rows'' ''none''"

record rows_args = mysql_args +
  table_name :: "string option"
  row_thresholds :: "thresholds option"

definition rows_args0 :: rows_args where
  "rows_args0 = mysql_args.extend mysql_args0 (rows_args.fields None None)"

definition rows_opt :: "bool \<Rightarrow> resolver \<Rightarrow> rows_args opt_handler" where
  "rows_opt v6 gai c optarg a g =
     (case getopt_mysql v6 gai c optarg a g of
        Inl e \<Rightarrow> Inl e
      | Inr a \<Rightarrow>
          (case getopt_wc c optarg (row_thresholds a) g of
             Inl e \<Rightarrow> Inl e
           | Inr t \<Rightarrow>
               let a = a\<lparr>row_thresholds := t\<rparr>
               in Inr (if c = CHR ''T'' then a\<lparr>table_name := Some optarg\<rparr> else a)))"

definition rows_process_arguments :: "bool \<Rightarrow> resolver \<Rightarrow> (char \<times> string) list \<Rightarrow> mp_globals \<Rightarrow> mp_end + rows_args" where
  "rows_process_arguments v6 gai os g =
     (case run_opts (rows_opt v6 gai) os rows_args0 g of
        Inl e \<Rightarrow> Inl e
      | Inr a \<Rightarrow>
          if mp_mysql_db a = None then Inl (usage ''Database is mandatory.'' g)
          else if table_name a = None then Inl (usage ''Table is mandatory.'' g)
          else Inr a)"

text \<open>The query in its buffer; \<open>cap\<close> is what was allocated for it.\<close>

definition rows_query :: "string \<Rightarrow> cbuf" where
  "rows_query t = \<lparr>cstr = ''SELECT COUNT(*) from '' @ t @ '';'', cap = 23 + length t\<rparr>"

definition rows_report :: "mysql_env \<Rightarrow> rows_args \<Rightarrow> int \<Rightarrow> mp_globals \<Rightarrow> mp_end" where
  "rows_report env a rows g =
     (case mp_perfdata_int ''rows'' rows ''c'' (row_thresholds a) g of
        (t, g) \<Rightarrow>
          let g = snd (mp_perfdata_float ''time'' (fp_cast round_float (mp_time_delta (my_stop env) (my_start env))) ''s'' None g);
              s = get_status (dbl_of_int rows) t;
              m = ''Rowcount for '' @ fmt_s (mp_mysql_db a) @ ''.'' @ fmt_s (table_name a) @ '' '' @ fmt_d rows
          in if s = STATE_OK then ok m g
             else if s = STATE_WARNING then warning m g
             else if s = STATE_CRITICAL then critical m g
             else critical ''You should never reach this point.'' g)"

definition check_mysql_rows_main :: "bool \<Rightarrow> resolver \<Rightarrow> mysql_env \<Rightarrow> (char \<times> string) list \<Rightarrow> mp_globals \<Rightarrow> mp_end" where
  "check_mysql_rows_main v6 gai env os g =
     (case rows_process_arguments v6 gai os g of
        Inl e \<Rightarrow> e
      | Inr a \<Rightarrow>
          (case mp_mysql_init env a g of
             Some e \<Rightarrow> e
           | None \<Rightarrow>
               let q = cstr (rows_query (the (table_name a)))
               in case my_query env q of
                    None \<Rightarrow> critical (''Query '' @ quoted q @ '' failed: '' @ my_error env) g
                  | Some (Some ((Some x # _) # _)) \<Rightarrow> rows_report env a (to_int32 (strtol 10 x)) g
                  | _ \<Rightarrow> Crash))"

section \<open>Lemmas\<close>

lemma rows_query_fits: "cbuf_ok (rows_query t)"
  by (simp add: rows_query_def cbuf_ok_def)

lemma getopt_mysql_refuses: "getopt_mysql v6 gai c s a g = Inl e \<Longrightarrow> exit_code e = Some STATE_UNKNOWN"
  by (cases "getopt_host v6 gai s g"; cases "getopt_port s g") (auto simp: getopt_mysql_def refuse_simps split: if_splits)

lemma getopt_mysql_rows: "getopt_mysql v6 gai c s a g = Inr a' \<Longrightarrow> row_thresholds a' = row_thresholds a"
  by (cases "getopt_host v6 gai s g"; cases "getopt_port s g") (auto simp: getopt_mysql_def split: if_splits)

interpretation mysql_options: plugin_options "mysql_opt v6 gai" "\<lambda>_. True" for v6 gai
  by unfold_locales (auto simp: mysql_opt_def getopt_mysql_refuses split: sum.splits)

interpretation rows_options: plugin_options "rows_opt v6 gai" "\<lambda>a. thresholds_set (row_thresholds a)" for v6 gai
proof
  fix a a' :: rows_args and c s g
  assume p: "thresholds_set (row_thresholds a)" "rows_opt v6 gai c s a g = Inr a'"
  then obtain a1 t where o: "getopt_mysql v6 gai c s a g = Inr a1" "getopt_wc c s (row_thresholds a1) g = Inr t"
    by (auto simp: rows_opt_def split: sum.splits)
  then have "row_thresholds a' = t" using p(2) by (auto simp: rows_opt_def Let_def split: if_splits)
  then show "thresholds_set (row_thresholds a')" using thresholds_keep(1) [OF _ o(2)] getopt_mysql_rows [OF o(1)] p(1) by simp
next
  fix a c s g e
  assume "rows_opt v6 gai c s a g = Inl e"
  then show "exit_code e = Some STATE_UNKNOWN"
    by (auto simp: rows_opt_def Let_def getopt_mysql_refuses refuse_simps split: sum.splits)
qed

text \<open>The report on the rows: the state of the count, which is cut to 32 bits, under the thresholds given by the options.\<close>

theorem check_mysql_rows_status:
  assumes "rows_process_arguments v6 gai os g = Inr a" "no_percent (row_thresholds a)" "my_init_ok env"
    "my_connect env (mysql_args.truncate a)" "table_name a = Some t" "my_query env (cstr (rows_query t)) = Some (Some [[Some (fmt_d n)]])"
    "LONG_MIN \<le> n" "n \<le> LONG_MAX"
  shows "exit_code (check_mysql_rows_main v6 gai env os g) = Some (get_status (dbl_of_int (to_int32 n)) (row_thresholds a))"
proof -
  have m: "check_mysql_rows_main v6 gai env os g = rows_report env a (to_int32 n) g"
    using assms(1,3-6) strtol_fmt_d [OF assms(7,8)] by (simp add: check_mysql_rows_main_def mp_mysql_init_def)
  obtain g' where p: "mp_perfdata_int ''rows'' (to_int32 n) ''c'' (row_thresholds a) g = (row_thresholds a, g')"
    using perfdata_thresholds(2) [OF assms(2), of "''rows''" "to_int32 n" "''c''" g] by (metis prod.collapse)
  show ?thesis
    using get_status_cases [of "dbl_of_int (to_int32 n)" "row_thresholds a"] unfolding m by (auto simp: rows_report_def p Let_def)
qed

text \<open>The unit of a variable: \<open>--variable=Uptime:s\<close> has the name of the variable as its unit. A list of names leaves entries of the
  array of units unwritten, and a status row for one of them uses such an entry.\<close>

theorem mysql_variable_unit:
  "CHR '':'' \<notin> set name \<Longrightarrow> CHR '','' \<notin> set name \<Longrightarrow>
     \<exists>a. mysql_process_arguments v6 gai [(LONGOPT_VARIABLE, name @ '':'' @ u)] g = Inr a \<and> var_units a = [(Some name, Some name)]"
  "CHR '':'' \<notin> set n1 \<Longrightarrow> CHR '','' \<notin> set n1 \<Longrightarrow> CHR '':'' \<notin> set n2 \<Longrightarrow> CHR '','' \<notin> set n2 \<Longrightarrow>
     \<exists>a. mysql_process_arguments v6 gai [(LONGOPT_VARIABLE, n1 @ '','' @ n2)] g = Inr a \<and> var_units a = [(Some n1, None), (Some n2, Some [])]"
proof -
  have mysql: "getopt_mysql v6 gai LONGOPT_VARIABLE s a g = Inr a" for s and a :: mysql_vars
    by (simp add: getopt_mysql_def LONGOPT_VARIABLE_def)
  have one: "CHR '','' \<notin> set s \<Longrightarrow> strtoks '','' s = [s]" for s
    by (subst strtoks.simps) (simp add: strsep_none)
  show "\<exists>a. mysql_process_arguments v6 gai [(LONGOPT_VARIABLE, name @ '':'' @ u)] g = Inr a \<and> var_units a = [(Some name, Some name)]"
    if "CHR '':'' \<notin> set name" "CHR '','' \<notin> set name"
    using that strsep_hit [of "'':''" name "CHR '':''" u] one [of name]
    by (simp add: mysql_process_arguments_def mysql_opt_def mysql mp_array_push_def arr_put_def var_units_def mysql_vars0_def
        mysql_args.defs mysql_vars.defs mysql_args0_def)
  show "\<exists>a. mysql_process_arguments v6 gai [(LONGOPT_VARIABLE, n1 @ '','' @ n2)] g = Inr a \<and> var_units a = [(Some n1, None), (Some n2, Some [])]"
    if a: "CHR '':'' \<notin> set n1" "CHR '','' \<notin> set n1" "CHR '':'' \<notin> set n2" "CHR '','' \<notin> set n2"
  proof -
    have "strsep '':'' (n1 @ CHR '','' # n2) = (n1 @ CHR '','' # n2, None)" using a by (intro strsep_none) auto
    moreover have "strtoks '','' (n1 @ CHR '','' # n2) = [n1, n2]"
      using strsep_hit [of "'',''" n1 "CHR '',''" n2] one [of n2] a by (subst strtoks.simps) simp
    moreover have "strtoks '','' [] = [[]]" using one [of "[]"] by simp
    ultimately show ?thesis
      by (simp add: mysql_process_arguments_def mysql_opt_def mysql mp_array_push_def arr_put_def var_units_def mysql_vars0_def
          mysql_args.defs mysql_vars.defs mysql_args0_def upt_conv_Cons numeral_2_eq_2)
  qed
qed

end
