(* ===== verification/Check_RPC.thy ===== *)
theory Check_RPC
  imports Plugin
begin

text \<open>
  \<^verbatim>\<open>lib/rpc_utils.c\<close>, \<^verbatim>\<open>rpc/check_rpc_ping.c\<close> and \<^verbatim>\<open>rpc/check_nfs.c\<close>: calls of the null procedure of an RPC
  program and the export list of an NFS server.

  The RPC runtime is a parameter: the data base of programs, whether a client can be created, the status of a call and,
  for the export list, the bytes of the result, which are decoded here by the rules of XDR. The behaviour of the network
  may differ from call to call, so the calls have the number of their round in the loop over the versions and transports.
  \<open>Crash\<close> is the use of a NULL pointer or of an array entry that was never written.
\<close>

section \<open>XDR\<close>

text \<open>The primitives for a stream of bytes: a boolean is a word of four bytes, a string its length, its bytes and the
  padding to a multiple of four. A C string ends at the first NUL.\<close>

definition be32 :: "string \<Rightarrow> int" where
  "be32 s = fold (\<lambda>c n. 256 * n + ccode c) s 0"

definition xdr_u_int :: "string \<Rightarrow> (int \<times> string) option" where
  "xdr_u_int s = (if length s < 4 then None else Some (be32 (take 4 s), drop 4 s))"

definition xdr_bool :: "string \<Rightarrow> (bool \<times> string) option" where
  "xdr_bool s = map_option (\<lambda>(n, s). (n \<noteq> 0, s)) (xdr_u_int s)"

definition rndup4 :: "nat \<Rightarrow> nat" where
  "rndup4 n = (n + 3) div 4 * 4"

definition xdr_string :: "nat \<Rightarrow> string \<Rightarrow> (string \<times> string) option" where
  "xdr_string maxsize s =
     (case xdr_u_int s of
        None \<Rightarrow> None
      | Some (n, s) \<Rightarrow>
          if int maxsize < n \<or> length s < rndup4 (nat n) then None
          else Some (c_string (take (nat n) s), drop (rndup4 (nat n)) s))"

definition MNTPATHLEN :: nat where "MNTPATHLEN = 1024"
definition MNTNAMLEN :: nat where "MNTNAMLEN = 255"

lemma xdr_shorter:
  "xdr_bool s = Some (b, s') \<Longrightarrow> length s' < length s"
  "xdr_string n s = Some (t, s') \<Longrightarrow> length s' < length s"
  by (auto simp: xdr_bool_def xdr_string_def xdr_u_int_def split: if_splits option.splits)

text \<open>The linked lists of \<open>exports\<close> and \<open>groups\<close> are lists; a node is the directory and its groups.\<close>

type_synonym exportnode = "string \<times> string list"

function xdr_groups :: "string \<Rightarrow> string list \<Rightarrow> (string list \<times> string) option" where
  "xdr_groups s gs =
     (case xdr_bool s of
        None \<Rightarrow> None
      | Some (again, s) \<Rightarrow>
          if \<not> again then Some (gs, s)
          else (case xdr_string MNTNAMLEN s of
                  None \<Rightarrow> None
                | Some (name, s) \<Rightarrow> xdr_groups s (gs @ [name])))"
  by pat_completeness auto
termination
  by (relation "measure (\<lambda>(s, gs). length s)") (auto dest!: xdr_shorter)

declare xdr_groups.simps [simp del]

lemma xdr_groups_shorter: "xdr_groups s gs = Some (gs', s') \<Longrightarrow> length s' < length s"
proof (induction "length s" arbitrary: s gs rule: less_induct)
  case less
  obtain again s1 where b: "xdr_bool s = Some (again, s1)"
    using less.prems by (auto simp: xdr_groups.simps [of s gs] split: option.splits)
  show ?case
  proof (cases again)
    case True
    then obtain n s2 where "xdr_string MNTNAMLEN s1 = Some (n, s2)" "xdr_groups s2 (gs @ [n]) = Some (gs', s')"
      using less.prems b by (auto simp: xdr_groups.simps [of s gs] split: option.splits)
    then show ?thesis using less.hyps [of s2 "gs @ [n]"] xdr_shorter(1) [OF b] xdr_shorter(2) by fastforce
  qed (use less.prems b xdr_shorter(1) [OF b] in \<open>auto simp: xdr_groups.simps [of s gs]\<close>)
qed

function xdr_nodes :: "string \<Rightarrow> exportnode list \<Rightarrow> (exportnode list \<times> string) option" where
  "xdr_nodes s es =
     (case xdr_bool s of
        None \<Rightarrow> None
      | Some (again, s) \<Rightarrow>
          if \<not> again then Some (es, s)
          else (case xdr_string MNTPATHLEN s of
                  None \<Rightarrow> None
                | Some (dir, s) \<Rightarrow>
                    (case xdr_groups s [] of
                       None \<Rightarrow> None
                     | Some (gs, s) \<Rightarrow> xdr_nodes s (es @ [(dir, gs)]))))"
  by pat_completeness auto
termination
  by (relation "measure (\<lambda>(s, gs). length s)") (auto dest!: xdr_shorter xdr_groups_shorter)

declare xdr_nodes.simps [simp del]

datatype xdr_op = XDR_ENCODE | XDR_DECODE | XDR_FREE

text \<open>The result is \<open>None\<close> for FALSE, else the list and the rest of the stream.\<close>

definition mp_xdr_exports :: "xdr_op \<Rightarrow> string \<Rightarrow> mp_globals \<Rightarrow> mp_end + (exportnode list \<times> string) option" where
  "mp_xdr_exports op s g =
     (case op of
        XDR_FREE \<Rightarrow> Inr (Some ([], s))
      | XDR_ENCODE \<Rightarrow> Inl (critical ''mp_xdr_exports XDR_ENCODE not supported.'' g)
      | XDR_DECODE \<Rightarrow> Inr (xdr_nodes s []))"

section \<open>Calls\<close>

record rpcent =
  r_name :: string
  r_number :: int

record rpc_env =
  rp_byname :: "string \<Rightarrow> rpcent option"
  rp_bynumber :: "int \<Rightarrow> rpcent option"
  rp_create :: "nat \<Rightarrow> string \<Rightarrow> int \<Rightarrow> int \<Rightarrow> string \<Rightarrow> bool"
  rp_null :: "nat \<Rightarrow> string \<Rightarrow> int \<Rightarrow> int \<Rightarrow> string \<Rightarrow> int"
  rp_export :: "nat \<Rightarrow> string \<Rightarrow> int \<Rightarrow> string \<Rightarrow> int + string"
  rp_sperrno :: "int \<Rightarrow> string"
  rp_start :: "nat \<Rightarrow> int \<times> int"
  rp_stop :: "nat \<Rightarrow> int \<times> int"

definition RPC_SUCCESS :: int where "RPC_SUCCESS = 0"
definition RPC_CANTDECODERES :: int where "RPC_CANTDECODERES = 2"

definition rpc_timeout_alarm_handler :: "int \<Rightarrow> mp_globals \<Rightarrow> mp_end + mp_globals" where
  "rpc_timeout_alarm_handler signo g =
     (if signo = SIGALRM
      then Inl (critical (''RPC timed out after '' @ fmt_d (to_int32 (mp_timeout g)) @ '' seconds'' @ nl) g)
      else Inr g)"

definition atoi :: "string \<Rightarrow> int" where
  "atoi s = to_int32 (strtol 10 s)"

definition first_alpha :: "string \<Rightarrow> bool" where
  "first_alpha s \<longleftrightarrow> s \<noteq> [] \<and> isalpha (hd s)"

definition rpc_getrpcent :: "rpc_env \<Rightarrow> string \<Rightarrow> rpcent option" where
  "rpc_getrpcent env prog = (if first_alpha prog then rp_byname env prog else rp_bynumber env (atoi prog))"

text \<open>The number as an \<open>unsigned long\<close>.\<close>

definition rpc_getprognum :: "rpc_env \<Rightarrow> string \<Rightarrow> int" where
  "rpc_getprognum env prog =
     (if first_alpha prog then (case rp_byname env prog of None \<Rightarrow> 0 | Some rpc \<Rightarrow> r_number rpc) else atoi prog mod 2 ^ 64)"

definition rpc_ping :: "rpc_env \<Rightarrow> nat \<Rightarrow> string \<Rightarrow> rpcent \<Rightarrow> int \<Rightarrow> string \<Rightarrow> int" where
  "rpc_ping env k hostname programm version proto =
     (if \<not> rp_create env k hostname (r_number programm) version proto then -1
      else rp_null env k hostname (r_number programm) version proto)"

section \<open>The options\<close>

record rpc_args =
  rpc_hostname :: "string option"
  rpc_export :: "string option"
  program_name :: "string option"
  rpcversion :: "string option list"
  rpcversions :: nat
  rpctransport :: "string option list"
  rpctransports :: nat
  rpc_threshold :: "thresholds option"

definition rpc_args0 :: rpc_args where
  "rpc_args0 = \<lparr>rpc_hostname = None, rpc_export = None, program_name = None, rpcversion = [], rpcversions = 0, rpctransport = [],
     rpctransports = 0,
     rpc_threshold = fst (mp_threshold_set_critical_time (fst (mp_threshold_set_warning_time None ''0.5s'')) ''1s'')\<rparr>"

definition push_version :: "string \<Rightarrow> rpc_args \<Rightarrow> rpc_args" where
  "push_version s a = (case mp_array_push (rpcversion a) (Some s) (rpcversions a) of (arr, n) \<Rightarrow> a\<lparr>rpcversion := arr, rpcversions := n\<rparr>)"

definition push_transport :: "string \<Rightarrow> rpc_args \<Rightarrow> rpc_args" where
  "push_transport s a =
     (case mp_array_push (rpctransport a) (Some s) (rpctransports a) of (arr, n) \<Rightarrow> a\<lparr>rpctransport := arr, rpctransports := n\<rparr>)"

text \<open>The options of both plugins; \<open>extra\<close> handles the letter only one of them has.\<close>

definition rpc_opt :: "bool \<Rightarrow> resolver \<Rightarrow> (char \<Rightarrow> string \<Rightarrow> rpc_args \<Rightarrow> rpc_args) \<Rightarrow> rpc_args opt_handler" where
  "rpc_opt v6 gai extra c optarg a g =
     (case getopt_wc_time c optarg (rpc_threshold a) g of
        Inl e \<Rightarrow> Inl e
      | Inr t \<Rightarrow>
          let a = a\<lparr>rpc_threshold := t\<rparr>
          in if c = CHR ''H'' then map_sum (\<lambda>e. e) (\<lambda>h. a\<lparr>rpc_hostname := Some h\<rparr>) (getopt_host v6 gai optarg g)
             else if c = CHR ''r'' then Inr (push_version optarg a)
             else if c = CHR ''T'' then Inr (push_transport optarg a)
             else Inr (extra c optarg a))"

definition rpc_defaults :: "rpc_args \<Rightarrow> rpc_args" where
  "rpc_defaults a =
     (let a = (if rpcversion a = [] then push_version ''3'' a else a)
      in if rpctransport a = [] then push_transport ''tcp'' (push_transport ''udp'' a) else a)"

text \<open>The rounds of the two loops, numbered.\<close>

definition rpc_rounds :: "rpc_args \<Rightarrow> (nat \<times> string option \<times> string option) list" where
  "rpc_rounds a = enumerate 0 (List.product (rpcversion a) (rpctransport a))"

section \<open>check\_rpc\_ping\<close>

definition check_rpc_ping_globals :: mp_globals where
  "check_rpc_ping_globals = mp_init ''check_rpc_ping''
     (''--host <HOST> --rpcprogramm <PROGRAMM>'')
     ''0.1'' ''Marius Rieder <marius.rieder@durchmesser.ch>'' ''2011''"

definition check_rpc_ping_print_help :: "string \<Rightarrow> string \<Rightarrow> string" where
  "check_rpc_ping_print_help package version =
     print_revision package version check_rpc_ping_globals @
     print_copyright check_rpc_ping_globals @
     help_lines
       [[],
        ''Check description: Check if named RPC programm is responding.'',
        []] @
     print_usage check_rpc_ping_globals @
     print_help_default @
     print_help_host @
     help_lines
       ['' -P, --rpcprogramm=program'',
        ''      RPC program to ping.'',
        '' -T, --transport=transport[,transport]'',
        ''      Transports to ping.'',
        '' -r, --rpcversion=version[,version]'',
        ''      Versions to ping.''] @
     print_help_warn_time ''0.5s'' @
     print_help_crit_time ''1s''"

definition ping_extra :: "char \<Rightarrow> string \<Rightarrow> rpc_args \<Rightarrow> rpc_args" where
  "ping_extra c optarg a = (if c = CHR ''P'' then a\<lparr>program_name := Some optarg\<rparr> else a)"

definition rpc_ping_process_arguments :: "bool \<Rightarrow> resolver \<Rightarrow> (char \<times> string) list \<Rightarrow> mp_globals \<Rightarrow> mp_end + rpc_args" where
  "rpc_ping_process_arguments v6 gai os g =
     (case run_opts (rpc_opt v6 gai ping_extra) os rpc_args0 g of
        Inl e \<Rightarrow> Inl e
      | Inr a \<Rightarrow>
          if rpc_hostname a = None \<or> program_name a = None then Inl (usage ''Hostname and Programm are mandatory.'' g)
          else Inr (rpc_defaults a))"

record ping_st =
  ping_ok :: "cbuf option"
  ping_warn :: "cbuf option"
  ping_failed :: "cbuf option"
  pi_threshold :: "thresholds option"
  pi_globals :: mp_globals

definition ping_round :: "rpc_env \<Rightarrow> string \<Rightarrow> rpcent \<Rightarrow> nat \<times> string option \<times> string option \<Rightarrow> ping_st \<Rightarrow> mp_end + ping_st" where
  "ping_round env host program r st =
     (case r of
        (k, Some version, Some transport) \<Rightarrow>
          (case mp_snprintf 128 (Some (transport @ '':'' @ r_name program @ ''v'' @ version)) (pi_globals st) of
             Inl e \<Rightarrow> Inl e
           | Inr buf \<Rightarrow>
               let ret = rpc_ping env k host program (atoi version) transport;
                   time_delta = mp_time_delta (rp_stop env k) (rp_start env k)
               in case mp_perfdata_float buf (fp_cast round_float time_delta) ''s'' (pi_threshold st) (pi_globals st) of
                    (t, g) \<Rightarrow>
                      let tstate = get_status time_delta t; st = st\<lparr>pi_threshold := t, pi_globals := g\<rparr>
                      in Inr (if ret \<noteq> RPC_SUCCESS \<or> tstate = STATE_CRITICAL
                              then st\<lparr>ping_failed := mp_strcat_comma (ping_failed st) (Some buf)\<rparr>
                              else if tstate = STATE_WARNING then st\<lparr>ping_warn := mp_strcat_comma (ping_warn st) (Some buf)\<rparr>
                              else st\<lparr>ping_ok := mp_strcat_comma (ping_ok st) (Some buf)\<rparr>))
      | _ \<Rightarrow> Inl Crash)"

definition cat_labelled :: "string \<Rightarrow> cbuf option \<Rightarrow> cbuf option \<Rightarrow> cbuf option" where
  "cat_labelled label names out =
     (if names = None then out else mp_strcat_space (mp_strcat_space out (Some label)) (buf_str names))"

definition ping_exit :: "ping_st \<Rightarrow> mp_end" where
  "ping_exit st =
     (let buf = cat_labelled ''ok:'' (ping_ok st) (cat_labelled ''warn:'' (ping_warn st) (Some (mp_strdup '' '')));
          text = fmt_s (buf_str buf); g = pi_globals st
      in if ping_failed st \<noteq> None then critical (''RPC Ping failed: '' @ fmt_s (buf_str (ping_failed st)) @ text) g
         else if ping_warn st \<noteq> None then warning (''RPC Ping'' @ text) g
         else ok (''RPC Ping: '' @ fmt_s (buf_str (ping_ok st))) g)"

definition check_rpc_ping_main :: "bool \<Rightarrow> resolver \<Rightarrow> rpc_env \<Rightarrow> (char \<times> string) list \<Rightarrow> mp_globals \<Rightarrow> mp_end" where
  "check_rpc_ping_main v6 gai env os g =
     (case rpc_ping_process_arguments v6 gai os g of
        Inl e \<Rightarrow> e
      | Inr a \<Rightarrow>
          (case rpc_getrpcent env (the (program_name a)) of
             None \<Rightarrow> unknown (''Program: '' @ fmt_s (program_name a) @ '' not known.'') g
           | Some program \<Rightarrow>
               (case sum_fold (ping_round env (the (rpc_hostname a)) program) (rpc_rounds a)
                       \<lparr>ping_ok = None, ping_warn = None, ping_failed = None, pi_threshold = rpc_threshold a, pi_globals = g\<rparr> of
                  Inl e \<Rightarrow> e
                | Inr st \<Rightarrow> ping_exit st)))"

section \<open>check\_nfs\<close>

definition check_nfs_globals :: mp_globals where
  "check_nfs_globals = mp_init ''check_nfs''
     (''-H hostname [--help] [--timeout TIMEOUT]'')
     ''0.1'' ''Marius Rieder <marius.rieder@durchmesser.ch>'' ''2011''"

definition check_nfs_print_help :: "string \<Rightarrow> string \<Rightarrow> string" where
  "check_nfs_print_help package version =
     print_revision package version check_nfs_globals @
     print_copyright check_nfs_globals @
     help_lines
       [[],
        ''Check description: Check if the Host is exporting at least one or the named path.'',
        []] @
     print_usage check_nfs_globals @
     print_help_default @
     print_help_host @
     help_lines
       ['' -T, --transport=transport[,transport]'',
        ''      Transports to check.'',
        '' -r, --rpcversion=version[,version]'',
        ''      Versions to check.'',
        '' -e, --export=path'',
        ''      Check whether the server exports path.''] @
     print_help_warn_time ''0.5s'' @
     print_help_crit_time ''1s''"

definition nfs_extra :: "char \<Rightarrow> string \<Rightarrow> rpc_args \<Rightarrow> rpc_args" where
  "nfs_extra c optarg a = (if c = CHR ''e'' then a\<lparr>rpc_export := Some optarg\<rparr> else a)"

definition nfs_process_arguments :: "bool \<Rightarrow> resolver \<Rightarrow> (char \<times> string) list \<Rightarrow> mp_globals \<Rightarrow> mp_end + rpc_args" where
  "nfs_process_arguments v6 gai os g =
     (case run_opts (rpc_opt v6 gai nfs_extra) os rpc_args0 g of
        Inl e \<Rightarrow> Inl e
      | Inr a \<Rightarrow> if rpc_hostname a = None then Inl (usage ''Hostname is mandatory.'' g) else Inr (rpc_defaults a))"

record nfs_st =
  noconnection :: "cbuf option"
  callfailed :: "cbuf option"
  noexport :: "cbuf option"
  nfs_warn :: "cbuf option"
  nfs_crit :: "cbuf option"
  exportok :: "cbuf option"
  nf_threshold :: "thresholds option"
  nf_globals :: mp_globals

definition pad40 :: "string \<Rightarrow> string" where
  "pad40 s = s @ replicate (40 - length s) (CHR '' '')"

definition export_trace :: "exportnode \<Rightarrow> string" where
  "export_trace e =
     pad40 (fst e) @ '' '' @ (if snd e = [] then ''(everyone)'' else join_with '','' (snd e)) @ nl"

text \<open>The call of the export procedure: the runtime decodes the result with \<open>mp_xdr_exports\<close>.\<close>

definition call_exports :: "rpc_env \<Rightarrow> nat \<Rightarrow> string \<Rightarrow> rpcent \<Rightarrow> string \<Rightarrow> mp_globals \<Rightarrow> int \<times> exportnode list" where
  "call_exports env k host program proto g =
     (case rp_export env k host (r_number program) proto of
        Inl status \<Rightarrow> (status, [])
      | Inr bytes \<Rightarrow>
          (case mp_xdr_exports XDR_DECODE bytes g of
             Inr (Some (es, _)) \<Rightarrow> (RPC_SUCCESS, es)
           | _ \<Rightarrow> (RPC_CANTDECODERES, [])))"

text \<open>The client is created for version 3 of the program, whatever the version of the round is.\<close>

definition check_export :: "rpc_env \<Rightarrow> nat \<Rightarrow> rpc_args \<Rightarrow> rpcent \<Rightarrow> int \<Rightarrow> string \<Rightarrow> nfs_st \<Rightarrow> mp_end + nfs_st" where
  "check_export env k a program version proto st =
     (let name = proto @ '':'' @ r_name program @ ''v'' @ fmt_d version; g = nf_globals st;
          trace = (\<lambda>s g. if 1 \<le> mp_verbose g then mp_print s g else g); host = the (rpc_hostname a)
      in case mp_snprintf 128 (Some name) g of
           Inl e \<Rightarrow> Inl e
         | Inr buf \<Rightarrow>
             let g = trace (''Connect to '' @ name) g
             in if \<not> rp_create env k host (r_number program) 3 proto
                then Inr (st\<lparr>noconnection := mp_strcat_comma (noconnection st) (Some buf),
                             nf_globals := trace (''   failed!'' @ nl) g\<rparr>)
                else
                  let g = trace (''   ok'' @ nl) g
                  in case call_exports env k host program proto g of
                       (ret, exportlist) \<Rightarrow>
                         if ret \<noteq> RPC_SUCCESS
                         then Inr (st\<lparr>callfailed := mp_strcat_comma (callfailed st) (Some buf),
                                nf_globals := trace (''Get export tailed. '' @ fmt_d ret @ '': '' @ rp_sperrno env ret @ nl) g\<rparr>)
                         else
                           let g = trace (concat (map export_trace exportlist)) g;
                               found = (case rpc_export a of Some e \<Rightarrow> list_ex (\<lambda>n. fst n = e) exportlist | None \<Rightarrow> exportlist \<noteq> [])
                           in Inr (if found then st\<lparr>exportok := mp_strcat_comma (exportok st) (Some buf), nf_globals := g\<rparr>
                                   else st\<lparr>noexport := mp_strcat_comma (noexport st) (Some buf), nf_globals := g\<rparr>))"

definition nfs_ping :: "rpc_env \<Rightarrow> nat \<Rightarrow> rpc_args \<Rightarrow> rpcent \<Rightarrow> string \<Rightarrow> string \<Rightarrow> nfs_st \<Rightarrow> mp_end + nfs_st" where
  "nfs_ping env k a nfs version transport st =
     (let ret = rpc_ping env k (the (rpc_hostname a)) nfs (atoi version) transport;
          time_delta = mp_time_delta (rp_stop env k) (rp_start env k);
          tstate = get_status time_delta (nf_threshold st)
      in case mp_snprintf 128 (Some (transport @ '':v'' @ version)) (nf_globals st) of
           Inl e \<Rightarrow> Inl e
         | Inr buf \<Rightarrow>
             (case mp_perfdata_float buf (fp_cast round_float time_delta) ''s'' (nf_threshold st) (nf_globals st) of
                (t, g) \<Rightarrow>
                  let st = st\<lparr>nf_threshold := t, nf_globals := g\<rparr>
                  in Inr (if ret \<noteq> RPC_SUCCESS \<or> tstate = STATE_CRITICAL
                          then st\<lparr>nfs_crit := mp_strcat_comma (nfs_crit st) (Some buf)\<rparr>
                          else if tstate = STATE_WARNING then st\<lparr>nfs_warn := mp_strcat_comma (nfs_warn st) (Some buf)\<rparr>
                          else st)))"

definition nfs_round :: "rpc_env \<Rightarrow> rpc_args \<Rightarrow> rpcent option \<Rightarrow> rpcent option \<Rightarrow> nat \<times> string option \<times> string option \<Rightarrow>
    nfs_st \<Rightarrow> mp_end + nfs_st" where
  "nfs_round env a program nfs r st =
     (case (r, program, nfs) of
        ((k, Some version, Some transport), Some p, Some n) \<Rightarrow>
          (case check_export env k a p (atoi version) transport st of
             Inl e \<Rightarrow> Inl e
           | Inr st \<Rightarrow> nfs_ping env k a n version transport st)
      | _ \<Rightarrow> Inl Crash)"

text \<open>The report: the collected text is used as a format.\<close>

definition nfs_exit :: "rpc_args \<Rightarrow> nfs_st \<Rightarrow> mp_end" where
  "nfs_exit a st =
     (let g = nf_globals st; oks = fmt_s (buf_str (exportok st))
      in if noconnection st \<noteq> None \<or> callfailed st \<noteq> None \<or> noexport st \<noteq> None \<or> nfs_crit st \<noteq> None
         then
           let out = (case noconnection st of
                        None \<Rightarrow> None
                      | Some b \<Rightarrow> mp_strcat_space (Some (mp_strdup (''Can'' @ [CHR 0x27] @ ''t connect to:''))) (Some (cstr b)));
               out = cat_labelled ''Call failed by:'' (callfailed st) out;
               out = cat_labelled ''No export found by:'' (noexport st) out;
               out = cat_labelled ''NFS Critical:'' (nfs_crit st) out;
               out = cat_labelled ''NFS Warning:'' (nfs_warn st) out
           in exit_fmt0 critical (fmt_s (buf_str out)) g
         else if nfs_warn st \<noteq> None then warning (''NFS Warning: '' @ fmt_s (buf_str (nfs_warn st))) g
         else (case rpc_export a of
                 Some e \<Rightarrow> ok (e @ '' exported by '' @ oks) g
               | None \<Rightarrow> ok (''mountd export by '' @ oks) g))"

definition mount_program :: "rpc_env \<Rightarrow> rpcent option" where
  "mount_program env = first_some (rpc_getrpcent env) [''showmount'', ''mount'', ''mountd'']"

definition nfs_st0 :: "rpc_args \<Rightarrow> mp_globals \<Rightarrow> nfs_st" where
  "nfs_st0 a g = \<lparr>noconnection = None, callfailed = None, noexport = None, nfs_warn = None, nfs_crit = None, exportok = None,
     nf_threshold = rpc_threshold a, nf_globals = g\<rparr>"

text \<open>The entries of the programs are released after the loop, which reads through a NULL pointer when one of them is missing.\<close>

definition check_nfs_main :: "bool \<Rightarrow> resolver \<Rightarrow> rpc_env \<Rightarrow> (char \<times> string) list \<Rightarrow> mp_globals \<Rightarrow> mp_end" where
  "check_nfs_main v6 gai env os g =
     (case nfs_process_arguments v6 gai os g of
        Inl e \<Rightarrow> e
      | Inr a \<Rightarrow>
          let program = mount_program env; nfs = rpc_getrpcent env ''nfs''
          in case sum_fold (nfs_round env a program nfs) (rpc_rounds a) (nfs_st0 a g) of
               Inl e \<Rightarrow> e
             | Inr st \<Rightarrow> if program = None \<or> nfs = None then Crash else nfs_exit a st)"

section \<open>The export list\<close>

text \<open>The encoding of an export list by the rules of XDR.\<close>

definition enc32 :: "int \<Rightarrow> string" where
  "enc32 n = [byte (n div 2 ^ 24), byte (n div 2 ^ 16), byte (n div 2 ^ 8), byte n]"

definition enc_string :: "string \<Rightarrow> string" where
  "enc_string s = enc32 (int (length s)) @ s @ replicate (rndup4 (length s) - length s) (CHR 0x00)"

definition enc_groups :: "string list \<Rightarrow> string" where
  "enc_groups gs = concat (map (\<lambda>n. enc32 1 @ enc_string n) gs) @ enc32 0"

definition enc_exports :: "exportnode list \<Rightarrow> string" where
  "enc_exports es = concat (map (\<lambda>(d, gs). enc32 1 @ enc_string d @ enc_groups gs) es) @ enc32 0"

definition text_ok :: "nat \<Rightarrow> string \<Rightarrow> bool" where
  "text_ok n s \<longleftrightarrow> length s \<le> n \<and> CHR 0x00 \<notin> set s"

definition export_ok :: "exportnode \<Rightarrow> bool" where
  "export_ok e \<longleftrightarrow> text_ok MNTPATHLEN (fst e) \<and> list_all (text_ok MNTNAMLEN) (snd e)"

lemma be32_enc32:
  assumes "0 \<le> n" "n < 2 ^ 32"
  shows "be32 (enc32 n) = n"
proof -
  have d: "n div 65536 = n div 256 div 256" "n div 16777216 = n div 256 div 256 div 256"
    by (simp_all add: zdiv_zmult2_eq [symmetric])
  have "n div 16777216 < 256" "0 \<le> n div 16777216" using assms by (simp_all add: div_less_iff_less_mult)
  then have "n div 256 div 256 div 256 mod 256 = n div 256 div 256 div 256" by (simp add: d(2))
  then show ?thesis by (simp add: be32_def enc32_def d)
qed

lemma xdr_enc_u_int: "0 \<le> n \<Longrightarrow> n < 2 ^ 32 \<Longrightarrow> xdr_u_int (enc32 n @ rest) = Some (n, rest)"
  using be32_enc32 [of n] by (simp add: xdr_u_int_def enc32_def)

lemma xdr_enc_bool [simp]: "xdr_bool (enc32 0 @ rest) = Some (False, rest)" "xdr_bool (enc32 1 @ rest) = Some (True, rest)"
  by (simp_all add: xdr_bool_def xdr_enc_u_int)

lemma rndup4_le: "n \<le> rndup4 n"
  unfolding rndup4_def by presburger

lemma xdr_enc_string [simp]:
  assumes "text_ok n s" "n < 2 ^ 31"
  shows "xdr_string n (enc_string s @ rest) = Some (s, rest)"
proof -
  have "xdr_u_int (enc32 (int (length s)) @ t) = Some (int (length s), t)" for t
    using assms by (intro xdr_enc_u_int) (simp_all add: text_ok_def)
  moreover have "takeWhile (\<lambda>c. c \<noteq> CHR 0x00) s = s" using assms(1) by (auto simp: text_ok_def takeWhile_eq_all_conv)
  ultimately show ?thesis
    using assms(1) rndup4_le [of "length s"] by (simp add: xdr_string_def enc_string_def c_string_def text_ok_def)
qed

lemma xdr_enc_groups:
  "list_all (text_ok MNTNAMLEN) ns \<Longrightarrow> xdr_groups (enc_groups ns @ rest) gs = Some (gs @ ns, rest)"
proof (induction ns arbitrary: gs)
  case Nil
  then show ?case by (simp add: enc_groups_def xdr_groups.simps [of "enc32 0 @ rest"])
next
  case (Cons n ns)
  have "enc_groups (n # ns) @ rest = enc32 1 @ enc_string n @ enc_groups ns @ rest" by (simp add: enc_groups_def)
  then show ?case using Cons by (simp add: xdr_groups.simps [of "enc32 1 @ _"] MNTNAMLEN_def)
qed

lemma xdr_enc_nodes:
  "list_all export_ok ns \<Longrightarrow> xdr_nodes (enc_exports ns @ rest) es = Some (es @ ns, rest)"
proof (induction ns arbitrary: es)
  case Nil
  then show ?case by (simp add: enc_exports_def xdr_nodes.simps [of "enc32 0 @ rest"])
next
  case (Cons n ns)
  obtain d gs where n: "n = (d, gs)" by (cases n)
  have "enc_exports (n # ns) @ rest = enc32 1 @ enc_string d @ enc_groups gs @ enc_exports ns @ rest"
    by (simp add: enc_exports_def n)
  then show ?case
    using Cons xdr_enc_groups [of gs _ "[]"] by (simp add: xdr_nodes.simps [of "enc32 1 @ _"] n export_ok_def MNTPATHLEN_def)
qed

text \<open>C34: The decoder of the export list. From the XDR encoding of an export list, with directories of at most 1024 and groups of
  at most 255 bytes, \<open>mp_xdr_exports\<close> rebuilds the list with the groups of every directory, in order, and leaves
  what follows it.\<close>

theorem mp_xdr_exports_roundtrip:
  assumes "list_all export_ok es"
  shows "mp_xdr_exports XDR_DECODE (enc_exports es @ rest) g = Inr (Some (es, rest))"
  using xdr_enc_nodes [OF assms, of rest "[]"] by (simp add: mp_xdr_exports_def)

theorem mp_xdr_exports_roundtrip_witness:
  "mp_xdr_exports XDR_DECODE (enc_exports [(''/home'', [''a'', ''b'']), (''/srv'', [])] @ ''x'') check_nfs_globals =
     Inr (Some ([(''/home'', [''a'', ''b'']), (''/srv'', [])], ''x''))"
  by (rule mp_xdr_exports_roundtrip) (simp add: export_ok_def text_ok_def MNTPATHLEN_def MNTNAMLEN_def)

section \<open>The result of check\_rpc\_ping\<close>

definition rpc_delta :: "rpc_env \<Rightarrow> nat \<Rightarrow> fp" where
  "rpc_delta env k = mp_time_delta (rp_stop env k) (rp_start env k)"

text \<open>The level of a round, and the labels of the rounds with a level.\<close>

fun ping_level :: "rpc_env \<Rightarrow> string \<Rightarrow> rpcent \<Rightarrow> thresholds option \<Rightarrow> nat \<times> string \<times> string \<Rightarrow> int" where
  "ping_level env host program t (k, version, transport) =
     (if rpc_ping env k host program (atoi version) transport \<noteq> RPC_SUCCESS then STATE_CRITICAL else get_status (rpc_delta env k) t)"

fun ping_label :: "rpcent \<Rightarrow> nat \<times> string \<times> string \<Rightarrow> string" where
  "ping_label program (k, version, transport) = transport @ '':'' @ r_name program @ ''v'' @ version"

definition ping_labels :: "rpc_env \<Rightarrow> string \<Rightarrow> rpcent \<Rightarrow> thresholds option \<Rightarrow> (nat \<times> string \<times> string) list \<Rightarrow> int \<Rightarrow> string list" where
  "ping_labels env host program t rs lvl = map (ping_label program) (filter (\<lambda>r. ping_level env host program t r = lvl) rs)"

definition set_rounds :: "(nat \<times> string \<times> string) list \<Rightarrow> (nat \<times> string option \<times> string option) list" where
  "set_rounds rs = map (\<lambda>(k, v, t). (k, Some v, Some t)) rs"

lemma product_map: "List.product (map f xs) (map g ys) = map (\<lambda>(x, y). (f x, g y)) (List.product xs ys)"
  by (induction xs) simp_all

lemma rpc_rounds_set:
  assumes "rpcversion a = map Some vs" "rpctransport a = map Some ts"
  shows "rpc_rounds a = set_rounds (enumerate 0 (List.product vs ts))"
  using assms by (simp add: rpc_rounds_def set_rounds_def product_map enumerate_map_upt enumerate_eq_zip zip_map2 split_beta)

lemma ping_round_level:
  assumes "no_percent (pi_threshold st)" "length (ping_label program r) < 128" "lvl = ping_level env host program (pi_threshold st) r"
  shows "\<exists>g. ping_round env host program (case r of (k, v, t) \<Rightarrow> (k, Some v, Some t)) st =
    Inr \<lparr>ping_ok = (if lvl = STATE_OK then add_texts (ping_ok st) [ping_label program r] else ping_ok st),
         ping_warn = (if lvl = STATE_WARNING then add_texts (ping_warn st) [ping_label program r] else ping_warn st),
         ping_failed = (if lvl = STATE_CRITICAL then add_texts (ping_failed st) [ping_label program r] else ping_failed st),
         pi_threshold = pi_threshold st, pi_globals = g\<rparr>"
proof -
  obtain k v t where r: "r = (k, v, t)" by (cases r)
  have "mp_snprintf 128 (Some (ping_label program r)) (pi_globals st) = Inr (ping_label program r)"
    using assms(2) by (simp add: mp_snprintf_def)
  moreover have "\<exists>g. mp_perfdata_float (ping_label program r) (fp_cast round_float (rpc_delta env k)) ''s'' (pi_threshold st) (pi_globals st) = (pi_threshold st, g)"
    using perfdata_thresholds(4) [OF assms(1)] by (metis prod.collapse)
  ultimately show ?thesis
    using get_status_cases [of "rpc_delta env k" "pi_threshold st"] assms(3)
    by (cases st) (auto simp: r ping_round_def rpc_delta_def add_texts_def Let_def)
qed

lemma ping_rounds_levels:
  assumes "no_percent (pi_threshold st)" "list_all (\<lambda>r. length (ping_label program r) < 128) rs"
  shows "\<exists>g. sum_fold (ping_round env host program) (set_rounds rs) st =
    Inr \<lparr>ping_ok = add_texts (ping_ok st) (ping_labels env host program (pi_threshold st) rs STATE_OK),
         ping_warn = add_texts (ping_warn st) (ping_labels env host program (pi_threshold st) rs STATE_WARNING),
         ping_failed = add_texts (ping_failed st) (ping_labels env host program (pi_threshold st) rs STATE_CRITICAL),
         pi_threshold = pi_threshold st, pi_globals = g\<rparr>"
  using assms
proof (induction rs arbitrary: st)
  case Nil
  then show ?case by (cases st) (simp add: set_rounds_def ping_labels_def add_texts_def)
next
  case (Cons r rs)
  let ?lvl = "ping_level env host program (pi_threshold st) r"
  obtain g where "ping_round env host program (case r of (k, v, t) \<Rightarrow> (k, Some v, Some t)) st =
    Inr \<lparr>ping_ok = (if ?lvl = STATE_OK then add_texts (ping_ok st) [ping_label program r] else ping_ok st),
         ping_warn = (if ?lvl = STATE_WARNING then add_texts (ping_warn st) [ping_label program r] else ping_warn st),
         ping_failed = (if ?lvl = STATE_CRITICAL then add_texts (ping_failed st) [ping_label program r] else ping_failed st),
         pi_threshold = pi_threshold st, pi_globals = g\<rparr>" (is "_ = Inr ?st")
    using ping_round_level [of st program r, OF _ _ refl] Cons.prems by auto
  then show ?case
    using Cons.IH [of ?st] Cons.prems by (auto simp: set_rounds_def ping_labels_def add_texts_def)
qed

definition labelled :: "string \<Rightarrow> string list \<Rightarrow> string" where
  "labelled label names = (if names = [] then [] else '' '' @ label @ '' '' @ join_with '', '' names)"

lemma cat_labelled_str:
  "buf_str t = Some s \<Longrightarrow> buf_str (cat_labelled label (add_texts None ns) t) = Some (s @ labelled label ns)"
proof (cases "ns = []")
  case True
  then show "buf_str t = Some s \<Longrightarrow> ?thesis" by (simp add: cat_labelled_def labelled_def add_texts_def)
next
  case False
  then have "add_texts None ns \<noteq> None" "buf_str (add_texts None ns) = Some (join_with '', '' ns)"
    using add_texts_None [of ns] by (auto simp: buf_str_def)
  then show "buf_str t = Some s \<Longrightarrow> ?thesis"
    using False by (simp only: cat_labelled_def if_False space.cat_str) (simp add: str_append_def labelled_def)
qed

lemma add_texts_NULL: "add_texts None ns = None \<longleftrightarrow> ns = []"
  using add_texts_None [of ns] by (auto simp: buf_str_def split: if_splits)

lemma ping_level_cases: "ping_level env host program t r \<in> {STATE_OK, STATE_WARNING, STATE_CRITICAL}"
  using get_status_cases by (cases r) auto

lemma arr_puts_set: "arr \<noteq> [] \<or> xs \<noteq> [] \<Longrightarrow> fst (arr_puts arr n xs) \<noteq> []"
  by (induction arr n xs rule: arr_puts.induct) (auto simp: arr_put_def)

lemma push_set: "rpcversion (push_version s a) \<noteq> []" "rpctransport (push_transport s a) \<noteq> []"
    "rpcversion (push_transport s a) = rpcversion a" "rpctransport (push_version s a) = rpctransport a"
  using arr_puts_set [OF disjI2 [OF strtoks_not_Nil]]
  by (simp_all add: push_version_def push_transport_def mp_array_push_def split_beta)

lemma rpc_defaults_set: "rpcversion (rpc_defaults a) \<noteq> []" "rpctransport (rpc_defaults a) \<noteq> []"
  by (simp_all add: rpc_defaults_def Let_def push_set)

text \<open>C36: What \<open>check_rpc_ping\<close> reports. Every version is called over every transport; the plugin is CRITICAL when a call failed or
  took longer than the critical threshold, else WARNING when one was slow, else OK; the text lists the rounds of each kind in the order
  of the calls.\<close>

theorem check_rpc_ping_result:
  assumes "rpc_ping_process_arguments v6 gai os g = Inr a" "rpcversion a = map Some vs" "rpctransport a = map Some ts"
    "rpc_getrpcent env (the (program_name a)) = Some program" "no_percent (rpc_threshold a)"
    "rs = enumerate 0 (List.product vs ts)" "list_all (\<lambda>r. length (ping_label program r) < 128) rs"
    "names = ping_labels env (the (rpc_hostname a)) program (rpc_threshold a) rs"
  shows "\<exists>g'. check_rpc_ping_main v6 gai env os g =
    (if names STATE_CRITICAL \<noteq> []
     then critical (''RPC Ping failed: '' @ join_with '', '' (names STATE_CRITICAL) @ '' '' @
            labelled ''warn:'' (names STATE_WARNING) @ labelled ''ok:'' (names STATE_OK)) g'
     else if names STATE_WARNING \<noteq> []
     then warning (''RPC Ping '' @ labelled ''warn:'' (names STATE_WARNING) @ labelled ''ok:'' (names STATE_OK)) g'
     else ok (''RPC Ping: '' @ join_with '', '' (names STATE_OK)) g')"
proof -
  have "rs \<noteq> []" using rpc_defaults_set assms(1-3,6)
    by (cases vs; cases ts) (auto simp: rpc_ping_process_arguments_def split: sum.splits if_splits)
  then have n: "names STATE_CRITICAL = [] \<Longrightarrow> names STATE_WARNING = [] \<Longrightarrow> names STATE_OK \<noteq> []"
    using ping_level_cases [of env "the (rpc_hostname a)" program "rpc_threshold a" "hd rs"] hd_in_set [of rs]
    by (auto simp: assms(8) ping_labels_def filter_empty_conv)
  let ?st = "\<lparr>ping_ok = None, ping_warn = None, ping_failed = None, pi_threshold = rpc_threshold a, pi_globals = g\<rparr>"
  obtain g' where l: "sum_fold (ping_round env (the (rpc_hostname a)) program) (rpc_rounds a) ?st =
    Inr \<lparr>ping_ok = add_texts None (names STATE_OK), ping_warn = add_texts None (names STATE_WARNING),
         ping_failed = add_texts None (names STATE_CRITICAL), pi_threshold = rpc_threshold a, pi_globals = g'\<rparr>" (is "_ = Inr ?st'")
    using ping_rounds_levels [of ?st program rs env "the (rpc_hostname a)"] assms(5-8) rpc_rounds_set [OF assms(2,3)] by auto
  have "buf_str (cat_labelled ''ok:'' (add_texts None (names STATE_OK)) (cat_labelled ''warn:'' (add_texts None (names STATE_WARNING)) (Some (mp_strdup '' '')))) =
      Some ('' '' @ labelled ''warn:'' (names STATE_WARNING) @ labelled ''ok:'' (names STATE_OK))"
    using cat_labelled_str [OF cat_labelled_str [of "Some (mp_strdup '' '')" "'' ''"]] by (simp add: mp_strdup_def buf_str_def)
  then have "ping_exit ?st' = (if names STATE_CRITICAL \<noteq> []
     then critical (''RPC Ping failed: '' @ join_with '', '' (names STATE_CRITICAL) @ '' '' @
            labelled ''warn:'' (names STATE_WARNING) @ labelled ''ok:'' (names STATE_OK)) g'
     else if names STATE_WARNING \<noteq> []
     then warning (''RPC Ping '' @ labelled ''warn:'' (names STATE_WARNING) @ labelled ''ok:'' (names STATE_OK)) g'
     else ok (''RPC Ping: '' @ join_with '', '' (names STATE_OK)) g')"
    using n by (simp add: ping_exit_def add_texts_None add_texts_NULL fmt_s_def Let_def)
  then show ?thesis using assms(1,4) l by (intro exI [of _ g']) (simp add: check_rpc_ping_main_def)
qed

definition rpc_ex :: rpc_env where
  "rpc_ex = \<lparr>rp_byname = (\<lambda>n. Some \<lparr>r_name = n, r_number = 100003\<rparr>), rp_bynumber = (\<lambda>_. None), rp_create = (\<lambda>_ _ _ _ _. True),
     rp_null = (\<lambda>k _ _ _ proto. if proto = ''udp'' then 5 else 0),
     rp_export = (\<lambda>_ _ _ _. Inr (enc_exports [(''/home'', [''a'']), (''/srv'', [])])), rp_sperrno = (\<lambda>_. []),
     rp_start = (\<lambda>_. (0, 0)), rp_stop = (\<lambda>_. (0, 0))\<rparr>"

definition rpc_ex_opts :: "(char \<times> string) list" where
  "rpc_ex_opts = [(CHR ''H'', ''h''), (CHR ''P'', ''nfs''), (CHR ''w'', ''3s''), (CHR ''c'', ''4s'')]"

definition rpc_ex_threshold :: "thresholds option" where
  "rpc_ex_threshold =
     Some \<lparr>th_warning = Some (spec_range TIME (Upto (Bound 3 ''s''))), th_critical = Some (spec_range TIME (Upto (Bound 4 ''s'')))\<rparr>"

definition rpc_ex_args :: rpc_args where
  "rpc_ex_args = \<lparr>rpc_hostname = Some ''h'', rpc_export = None, program_name = Some ''nfs'', rpcversion = map Some [''3''], rpcversions = 1,
     rpctransport = map Some [''udp'', ''tcp''], rpctransports = 2, rpc_threshold = rpc_ex_threshold\<rparr>"

lemma rpc_ex_threshold_facts: "no_percent rpc_ex_threshold" "get_status (Num False 0) rpc_ex_threshold = STATE_OK"
  by (simp_all add: rpc_ex_threshold_def no_percent_def get_status_def check_upto unit_factor_def BISI_def TIME_def
      parse_time_multiplier_string_def del: spec_range.simps)

lemma rpc_ex_wc:
  "getopt_wc_time (CHR ''w'') ''3s'' t g = Inr (Some ((th_new t)\<lparr>th_warning := Some (spec_range TIME (Upto (Bound 3 ''s'')))\<rparr>))"
  "getopt_wc_time (CHR ''c'') ''4s'' t g = Inr (Some ((th_new t)\<lparr>th_critical := Some (spec_range TIME (Upto (Bound 4 ''s'')))\<rparr>))"
proof -
  have "fmt_d 3 @ ''s'' = ''3s''" "fmt_d 4 @ ''s'' = ''4s''" by code_simp+
  then show "getopt_wc_time (CHR ''w'') ''3s'' t g = Inr (Some ((th_new t)\<lparr>th_warning := Some (spec_range TIME (Upto (Bound 3 ''s'')))\<rparr>))"
    "getopt_wc_time (CHR ''c'') ''4s'' t g = Inr (Some ((th_new t)\<lparr>th_critical := Some (spec_range TIME (Upto (Bound 4 ''s'')))\<rparr>))"
    using parse_upto [of TIME 3 "''s''"] parse_upto [of TIME 4 "''s''"]
    by (simp_all add: getopt_wc_time_def set_threshold_defs num_end_def unit_factor_def BISI_def TIME_def isdigit_def ccode_def
        parse_time_multiplier_string_def OK_def ERROR_def del: spec_range.simps)
qed

lemma rpc_ex_run:
  "run_opts (rpc_opt True (\<lambda>f h. True) ping_extra) rpc_ex_opts rpc_args0 g =
     Inr (rpc_args0\<lparr>rpc_hostname := Some ''h'', program_name := Some ''nfs'', rpc_threshold := rpc_ex_threshold\<rparr>)"
proof -
  have "getopt_host True (\<lambda>f h. True) ''h'' g = Inr ''h''" for g by (simp add: getopt_host_def is_hostaddr_def)
  moreover have "getopt_wc_time (CHR ''H'') ''h'' t g = Inr t" "getopt_wc_time (CHR ''P'') ''nfs'' t g = Inr t" for t g
    by (simp_all add: getopt_wc_time_def)
  ultimately show ?thesis
    by (simp add: rpc_ex_opts_def rpc_opt_def rpc_ex_wc ping_extra_def rpc_ex_threshold_def th_new_def rpc_args0_def split: option.split)
qed

lemma rpc_ex_arguments:
  "rpc_ping_process_arguments True (\<lambda>f h. True) rpc_ex_opts check_rpc_ping_globals = Inr rpc_ex_args"
proof -
  have "strtoks '','' ''3'' = [''3'']" "strtoks '','' ''udp'' = [''udp'']" "strtoks '','' ''tcp'' = [''tcp'']" by code_simp+
  then show ?thesis
    by (simp add: rpc_ping_process_arguments_def rpc_ex_run)
      (simp add: rpc_defaults_def push_version_def push_transport_def mp_array_push_def rpc_ex_args_def rpc_args0_def)
qed

lemma rpc_ex_delta: "rpc_delta rpc_ex k = Num False 0"
  by (simp add: rpc_delta_def rpc_ex_def mp_time_delta_def) code_simp

theorem check_rpc_ping_result_witness:
  "\<exists>g'. check_rpc_ping_main True (\<lambda>f h. True) rpc_ex rpc_ex_opts check_rpc_ping_globals =
     critical ''RPC Ping failed: udp:nfsv3  ok: tcp:nfsv3'' g'"
proof -
  let ?p = "\<lparr>r_name = ''nfs'', r_number = 100003\<rparr>" and ?rs = "[(0, ''3'', ''udp''), (1, ''3'', ''tcp'')]"
  have p: "rpc_getrpcent rpc_ex (the (program_name rpc_ex_args)) = Some ?p"
    by (simp add: rpc_getrpcent_def rpc_ex_def rpc_ex_args_def first_alpha_def isalpha_def islower_def isupper_def ccode_def)
  have rs: "enumerate 0 (List.product [''3''] [''udp'', ''tcp'']) = ?rs" by (simp add: numeral_2_eq_2)
  have l: "ping_level rpc_ex ''h'' ?p rpc_ex_threshold (0, ''3'', ''udp'') = STATE_CRITICAL"
      "ping_level rpc_ex ''h'' ?p rpc_ex_threshold (1, ''3'', ''tcp'') = STATE_OK"
    using rpc_ex_threshold_facts(2) by (simp_all add: rpc_ex_delta) (simp_all add: rpc_ping_def rpc_ex_def RPC_SUCCESS_def)
  show ?thesis
    using check_rpc_ping_result [OF rpc_ex_arguments, where vs = "[''3'']" and ts = "[''udp'', ''tcp'']" and env = rpc_ex and program = ?p
        and rs = ?rs and names = "ping_labels rpc_ex ''h'' ?p rpc_ex_threshold ?rs"] rpc_ex_threshold_facts(1) p rs l
    by (simp add: rpc_ex_args_def ping_labels_def labelled_def del: ping_level.simps)
qed

section \<open>The result of check\_nfs\<close>

text \<open>What a round finds about the exports, and its labels.\<close>

datatype export_state = NoConnection | CallFailed | NoExport | Exported

fun export_class :: "rpc_env \<Rightarrow> rpc_args \<Rightarrow> rpcent \<Rightarrow> nat \<times> string \<times> string \<Rightarrow> export_state" where
  "export_class env a p (k, version, transport) =
     (if \<not> rp_create env k (the (rpc_hostname a)) (r_number p) 3 transport then NoConnection
      else case call_exports env k (the (rpc_hostname a)) p transport check_nfs_globals of
             (ret, es) \<Rightarrow>
               if ret \<noteq> RPC_SUCCESS then CallFailed
               else if (case rpc_export a of Some e \<Rightarrow> e \<in> fst ` set es | None \<Rightarrow> es \<noteq> []) then Exported else NoExport)"

fun mount_label :: "rpcent \<Rightarrow> nat \<times> string \<times> string \<Rightarrow> string" where
  "mount_label p (k, version, transport) = transport @ '':'' @ r_name p @ ''v'' @ fmt_d (atoi version)"

fun nfs_label :: "nat \<times> string \<times> string \<Rightarrow> string" where
  "nfs_label (k, version, transport) = transport @ '':v'' @ version"

definition mounts :: "rpc_env \<Rightarrow> rpc_args \<Rightarrow> rpcent \<Rightarrow> (nat \<times> string \<times> string) list \<Rightarrow> export_state \<Rightarrow> string list" where
  "mounts env a p rs c = map (mount_label p) (filter (\<lambda>r. export_class env a p r = c) rs)"

definition pings :: "rpc_env \<Rightarrow> rpc_args \<Rightarrow> rpcent \<Rightarrow> (nat \<times> string \<times> string) list \<Rightarrow> int \<Rightarrow> string list" where
  "pings env a n rs l = map nfs_label (filter (\<lambda>r. ping_level env (the (rpc_hostname a)) n (rpc_threshold a) r = l) rs)"

lemma call_exports_globals: "call_exports env k host p proto g = call_exports env k host p proto g'"
  by (simp add: call_exports_def mp_xdr_exports_def split: sum.split)

lemma mounts_Cons: "mounts env a p (r # rs) c = mounts env a p [r] c @ mounts env a p rs c"
  by (simp add: mounts_def)

lemma pings_Cons: "pings env a n (r # rs) l = pings env a n [r] l @ pings env a n rs l"
  by (simp add: pings_def)

lemma add_texts_append: "add_texts t (xs @ ys) = add_texts (add_texts t xs) ys"
  by (simp add: add_texts_def)

text \<open>The state after rounds that fit their buffers.\<close>

definition nfs_after :: "rpc_env \<Rightarrow> rpc_args \<Rightarrow> rpcent \<Rightarrow> rpcent \<Rightarrow> (nat \<times> string \<times> string) list \<Rightarrow> nfs_st \<Rightarrow> nfs_st" where
  "nfs_after env a p n rs st = st\<lparr>
     noconnection := add_texts (noconnection st) (mounts env a p rs NoConnection),
     callfailed := add_texts (callfailed st) (mounts env a p rs CallFailed),
     noexport := add_texts (noexport st) (mounts env a p rs NoExport),
     nfs_warn := add_texts (nfs_warn st) (pings env a n rs STATE_WARNING),
     nfs_crit := add_texts (nfs_crit st) (pings env a n rs STATE_CRITICAL),
     exportok := add_texts (exportok st) (mounts env a p rs Exported)\<rparr>"

lemma check_export_class:
  assumes "length (mount_label p (k, v, t)) < 128"
  shows "\<exists>g. check_export env k a p (atoi v) t st = Inr (st\<lparr>
     noconnection := add_texts (noconnection st) (mounts env a p [(k, v, t)] NoConnection),
     callfailed := add_texts (callfailed st) (mounts env a p [(k, v, t)] CallFailed),
     noexport := add_texts (noexport st) (mounts env a p [(k, v, t)] NoExport),
     exportok := add_texts (exportok st) (mounts env a p [(k, v, t)] Exported), nf_globals := g\<rparr>)"
proof -
  have s: "mp_snprintf 128 (Some (mount_label p (k, v, t))) (nf_globals st) = Inr (mount_label p (k, v, t))"
    using assms by (simp add: mp_snprintf_def)
  have ex: "list_ex (\<lambda>n. fst n = e) es \<longleftrightarrow> e \<in> fst ` set es" for e and es :: "exportnode list"
    by (auto simp: list_ex_iff)
  obtain ret es where c: "call_exports env k (the (rpc_hostname a)) p t g = (ret, es)" for g
    using call_exports_globals by (metis surj_pair)
  show ?thesis
    using s by (cases st) (auto simp: check_export_def mounts_def add_texts_def c ex Let_def split: option.splits)
qed

lemma nfs_ping_level:
  assumes "no_percent (rpc_threshold a)" "nf_threshold st = rpc_threshold a" "length (nfs_label (k, v, t)) < 128"
  shows "\<exists>g. nfs_ping env k a n v t st = Inr (st\<lparr>
     nfs_warn := add_texts (nfs_warn st) (pings env a n [(k, v, t)] STATE_WARNING),
     nfs_crit := add_texts (nfs_crit st) (pings env a n [(k, v, t)] STATE_CRITICAL), nf_globals := g\<rparr>)"
proof -
  have "mp_snprintf 128 (Some (nfs_label (k, v, t))) (nf_globals st) = Inr (nfs_label (k, v, t))"
    using assms(3) by (simp add: mp_snprintf_def)
  moreover obtain g where "mp_perfdata_float (nfs_label (k, v, t)) (fp_cast round_float (rpc_delta env k)) ''s'' (nf_threshold st) (nf_globals st) =
      (nf_threshold st, g)"
    using perfdata_thresholds(4) [OF assms(1)] assms(2) by (metis prod.collapse)
  ultimately show ?thesis
    using get_status_cases [of "rpc_delta env k" "rpc_threshold a"] assms(2)
    by (cases st) (auto simp: nfs_ping_def pings_def rpc_delta_def add_texts_def Let_def)
qed

lemma nfs_rounds_after:
  assumes "no_percent (rpc_threshold a)" "nf_threshold st = rpc_threshold a"
    "list_all (\<lambda>r. length (mount_label p r) < 128 \<and> length (nfs_label r) < 128) rs"
  shows "\<exists>g. sum_fold (nfs_round env a (Some p) (Some n)) (set_rounds rs) st = Inr ((nfs_after env a p n rs st)\<lparr>nf_globals := g\<rparr>)"
  using assms
proof (induction rs arbitrary: st)
  case Nil
  then show ?case by (cases st) (simp add: set_rounds_def nfs_after_def mounts_def pings_def add_texts_def)
next
  case (Cons r rs)
  obtain k v t where r: "r = (k, v, t)" by (cases r)
  have l: "length (mount_label p (k, v, t)) < 128" "length (nfs_label (k, v, t)) < 128"
    using Cons.prems(3) by (simp_all add: r)
  obtain g1 where 1: "check_export env k a p (atoi v) t st = Inr (st\<lparr>
     noconnection := add_texts (noconnection st) (mounts env a p [r] NoConnection),
     callfailed := add_texts (callfailed st) (mounts env a p [r] CallFailed),
     noexport := add_texts (noexport st) (mounts env a p [r] NoExport),
     exportok := add_texts (exportok st) (mounts env a p [r] Exported), nf_globals := g1\<rparr>)" (is "_ = Inr ?st1")
    using check_export_class [OF l(1), of env a st] unfolding r by blast
  obtain g2 where 2: "nfs_ping env k a n v t ?st1 = Inr (?st1\<lparr>
     nfs_warn := add_texts (nfs_warn ?st1) (pings env a n [r] STATE_WARNING),
     nfs_crit := add_texts (nfs_crit ?st1) (pings env a n [r] STATE_CRITICAL), nf_globals := g2\<rparr>)" (is "_ = Inr ?st2")
    using nfs_ping_level [OF Cons.prems(1) _ l(2), of ?st1 env n] Cons.prems(2) unfolding r by simp blast
  obtain g3 where "sum_fold (nfs_round env a (Some p) (Some n)) (set_rounds rs) ?st2 = Inr ((nfs_after env a p n rs ?st2)\<lparr>nf_globals := g3\<rparr>)"
    using Cons.IH [of ?st2] Cons.prems by auto
  moreover have "nfs_after env a p n rs ?st2 = (nfs_after env a p n (r # rs) st)\<lparr>nf_globals := g2\<rparr>"
    by (simp add: nfs_after_def mounts_Cons [of env a p r rs] pings_Cons [of env a n r rs] add_texts_append)
  moreover have "nfs_round env a (Some p) (Some n) (k, Some v, Some t) st = Inr ?st2" using 1 2 by (simp add: nfs_round_def)
  then have "sum_fold (nfs_round env a (Some p) (Some n)) (set_rounds (r # rs)) st = sum_fold (nfs_round env a (Some p) (Some n)) (set_rounds rs) ?st2"
    unfolding r set_rounds_def by (simp only: list.map prod.case sum_fold.simps sum.case)
  ultimately show ?case by auto
qed

text \<open>The report uses the collected text as a format, which is harmless for a text without a percent sign.\<close>

definition no_format :: "cbuf option \<Rightarrow> bool" where
  "no_format b \<longleftrightarrow> CHR ''%'' \<notin> set (fmt_s (buf_str b))"

lemma no_format_texts: "list_all (\<lambda>s. CHR ''%'' \<notin> set s) ss \<Longrightarrow> no_format (add_texts None ss)"
proof -
  assume a: "list_all (\<lambda>s. CHR ''%'' \<notin> set s) ss"
  then have "CHR ''%'' \<notin> set (join_with '', '' ss)" by (induction "'', ''" ss rule: join_with.induct) auto
  then show ?thesis by (simp add: no_format_def add_texts_None fmt_s_def)
qed

lemma no_format_cat:
  assumes "no_format t" "no_format ns" "CHR ''%'' \<notin> set label"
  shows "no_format (cat_labelled label ns t)"
proof (cases ns)
  case (Some b)
  obtain u where "buf_str (mp_strcat_space t (Some label)) = Some u" "CHR ''%'' \<notin> set u"
    using assms(1,3) space.cat_str [of t label] by (cases "buf_str t") (auto simp: no_format_def fmt_s_def str_append_def)
  moreover have "buf_str ns = Some (cstr b)" by (simp add: Some buf_str_def)
  ultimately have "buf_str (cat_labelled label ns t) = Some (u @ '' '' @ cstr b)"
    using Some space.cat_str [of "mp_strcat_space t (Some label)" "cstr b"] by (simp add: cat_labelled_def str_append_def)
  then show ?thesis
    using assms(2) \<open>CHR ''%'' \<notin> set u\<close> \<open>buf_str ns = Some (cstr b)\<close> by (simp add: no_format_def fmt_s_def)
qed (use assms in \<open>simp add: cat_labelled_def\<close>)

lemma nfs_exit_lists:
  assumes "list_all (\<lambda>s. CHR ''%'' \<notin> set s) (nc @ cf @ ne @ w @ c)"
    "st = \<lparr>noconnection = add_texts None nc, callfailed = add_texts None cf, noexport = add_texts None ne, nfs_warn = add_texts None w,
       nfs_crit = add_texts None c, exportok = add_texts None good, nf_threshold = t, nf_globals = g\<rparr>"
  shows "nc \<noteq> [] \<or> cf \<noteq> [] \<or> ne \<noteq> [] \<or> c \<noteq> [] \<Longrightarrow> exit_code (nfs_exit a st) = Some STATE_CRITICAL"
    "nc = [] \<Longrightarrow> cf = [] \<Longrightarrow> ne = [] \<Longrightarrow> c = [] \<Longrightarrow> w \<noteq> [] \<Longrightarrow> nfs_exit a st = warning (''NFS Warning: '' @ join_with '', '' w) g"
    "nc = [] \<Longrightarrow> cf = [] \<Longrightarrow> ne = [] \<Longrightarrow> c = [] \<Longrightarrow> w = [] \<Longrightarrow> good \<noteq> [] \<Longrightarrow> nfs_exit a st =
       ok ((case rpc_export a of Some e \<Rightarrow> e @ '' exported by '' | None \<Rightarrow> ''mountd export by '') @ join_with '', '' good) g"
proof -
  have start: "(case add_texts None nc of None \<Rightarrow> None
      | Some b \<Rightarrow> mp_strcat_space (Some (mp_strdup (''Can'' @ [CHR 0x27] @ ''t connect to:''))) (Some (cstr b))) =
      cat_labelled (''Can'' @ [CHR 0x27] @ ''t connect to:'') (add_texts None nc) None"
    by (auto simp: cat_labelled_def mp_strcat_space_def buf_str_def split: option.split)
  have "no_format None" by (simp add: no_format_def fmt_s_def buf_str_def)
  then have "no_format (cat_labelled ''NFS Warning:'' (add_texts None w) (cat_labelled ''NFS Critical:'' (add_texts None c)
      (cat_labelled ''No export found by:'' (add_texts None ne) (cat_labelled ''Call failed by:'' (add_texts None cf)
      (cat_labelled (''Can'' @ [CHR 0x27] @ ''t connect to:'') (add_texts None nc) None)))))"
    using assms(1) by (intro no_format_cat no_format_texts) simp_all
  note f = critical_report.fmt0_plain [OF this [unfolded no_format_def]]
  show "nc \<noteq> [] \<or> cf \<noteq> [] \<or> ne \<noteq> [] \<or> c \<noteq> [] \<Longrightarrow> exit_code (nfs_exit a st) = Some STATE_CRITICAL"
    unfolding nfs_exit_def Let_def assms(2) using f start by (simp add: add_texts_NULL)
qed (simp_all add: nfs_exit_def assms(2) add_texts_NULL add_texts_None fmt_s_def split: option.split)

text \<open>C35: What \<open>check_nfs\<close> reports. The plugin is CRITICAL exactly when in some round the mount daemon cannot be reached, the call fails or
  its list does not decode, the wanted directory (any, without the option) is not exported, or the null call of the NFS server fails
  or takes too long; else it is WARNING and names the slow rounds; else it is OK and names the rounds that found the export.\<close>

theorem check_nfs_result:
  assumes "nfs_process_arguments v6 gai os g = Inr a" "rpcversion a = map Some vs" "rpctransport a = map Some ts"
    "mount_program env = Some p" "rpc_getrpcent env ''nfs'' = Some n" "no_percent (rpc_threshold a)"
    "rs = enumerate 0 (List.product vs ts)"
    "list_all (\<lambda>r. length (mount_label p r) < 128 \<and> length (nfs_label r) < 128) rs"
    "list_all (\<lambda>r. CHR ''%'' \<notin> set (mount_label p r) \<and> CHR ''%'' \<notin> set (nfs_label r)) rs"
    "bad \<longleftrightarrow> (\<exists>r \<in> set rs. export_class env a p r \<noteq> Exported \<or> ping_level env (the (rpc_hostname a)) n (rpc_threshold a) r = STATE_CRITICAL)"
  shows "(bad \<longrightarrow> exit_code (check_nfs_main v6 gai env os g) = Some STATE_CRITICAL) \<and>
    (\<not> bad \<and> pings env a n rs STATE_WARNING \<noteq> [] \<longrightarrow>
      (\<exists>g'. check_nfs_main v6 gai env os g = warning (''NFS Warning: '' @ join_with '', '' (pings env a n rs STATE_WARNING)) g')) \<and>
    (\<not> bad \<and> pings env a n rs STATE_WARNING = [] \<longrightarrow>
      (\<exists>g'. check_nfs_main v6 gai env os g =
         ok ((case rpc_export a of Some e \<Rightarrow> e @ '' exported by '' | None \<Rightarrow> ''mountd export by '') @ join_with '', '' (map (mount_label p) rs)) g'))"
proof -
  let ?st = "(nfs_after env a p n rs (nfs_st0 a g))"
  obtain g' where "sum_fold (nfs_round env a (Some p) (Some n)) (rpc_rounds a) (nfs_st0 a g) = Inr (?st\<lparr>nf_globals := g'\<rparr>)"
    using nfs_rounds_after [of a "nfs_st0 a g" p rs env n] assms(6-8) rpc_rounds_set [OF assms(2,3)] by (auto simp: nfs_st0_def)
  then have main: "check_nfs_main v6 gai env os g = nfs_exit a (?st\<lparr>nf_globals := g'\<rparr>)"
    using assms(1,4,5) by (simp add: check_nfs_main_def)
  have st: "?st\<lparr>nf_globals := g'\<rparr> = \<lparr>noconnection = add_texts None (mounts env a p rs NoConnection),
      callfailed = add_texts None (mounts env a p rs CallFailed), noexport = add_texts None (mounts env a p rs NoExport),
      nfs_warn = add_texts None (pings env a n rs STATE_WARNING), nfs_crit = add_texts None (pings env a n rs STATE_CRITICAL),
      exportok = add_texts None (mounts env a p rs Exported), nf_threshold = rpc_threshold a, nf_globals = g'\<rparr>"
    by (simp add: nfs_after_def nfs_st0_def)
  have pct: "list_all (\<lambda>s. CHR ''%'' \<notin> set s) (mounts env a p rs NoConnection @ mounts env a p rs CallFailed @ mounts env a p rs NoExport @
      pings env a n rs STATE_WARNING @ pings env a n rs STATE_CRITICAL)"
    using assms(9) by (auto simp: list_all_iff mounts_def pings_def simp del: mount_label.simps nfs_label.simps)
  have bad: "bad \<longleftrightarrow> mounts env a p rs NoConnection \<noteq> [] \<or> mounts env a p rs CallFailed \<noteq> [] \<or> mounts env a p rs NoExport \<noteq> [] \<or>
      pings env a n rs STATE_CRITICAL \<noteq> []"
  proof -
    have "export_class env a p r \<noteq> Exported \<longleftrightarrow> export_class env a p r = NoConnection \<or> export_class env a p r = CallFailed \<or>
        export_class env a p r = NoExport" for r
      by (cases "export_class env a p r") simp_all
    then show ?thesis unfolding assms(10) mounts_def pings_def map_is_Nil_conv filter_empty_conv by blast
  qed
  have ne: "rs \<noteq> []" using rpc_defaults_set assms(1-3,7)
    by (cases vs; cases ts) (auto simp: nfs_process_arguments_def split: sum.splits if_splits)
  have all: "mounts env a p rs Exported = map (mount_label p) rs" if "\<not> bad"
    using that by (simp add: assms(10) mounts_def del: export_class.simps)
  show ?thesis
    unfolding main using nfs_exit_lists [OF pct st, of a] bad all ne by auto
qed

definition nfs_ex_opts :: "(char \<times> string) list" where
  "nfs_ex_opts = [(CHR ''H'', ''h''), (CHR ''e'', ''/srv''), (CHR ''T'', ''tcp''), (CHR ''w'', ''3s''), (CHR ''c'', ''4s'')]"

definition nfs_ex_args :: rpc_args where
  "nfs_ex_args = \<lparr>rpc_hostname = Some ''h'', rpc_export = Some ''/srv'', program_name = None, rpcversion = map Some [''3''], rpcversions = 1,
     rpctransport = map Some [''tcp''], rpctransports = 1, rpc_threshold = rpc_ex_threshold\<rparr>"

lemma nfs_ex_arguments: "nfs_process_arguments True (\<lambda>f h. True) nfs_ex_opts check_nfs_globals = Inr nfs_ex_args"
proof -
  have t: "strtoks '','' ''3'' = [''3'']" "strtoks '','' ''tcp'' = [''tcp'']" by code_simp+
  have "getopt_host True (\<lambda>f h. True) ''h'' g = Inr ''h''" for g by (simp add: getopt_host_def is_hostaddr_def)
  moreover have "getopt_wc_time (CHR ''H'') s t g = Inr t" "getopt_wc_time (CHR ''e'') s t g = Inr t" "getopt_wc_time (CHR ''T'') s t g = Inr t" for s t g
    by (simp_all add: getopt_wc_time_def)
  ultimately have "run_opts (rpc_opt True (\<lambda>f h. True) nfs_extra) nfs_ex_opts rpc_args0 check_nfs_globals =
      Inr (push_transport ''tcp'' (rpc_args0\<lparr>rpc_hostname := Some ''h'', rpc_export := Some ''/srv'', rpc_threshold := rpc_ex_threshold\<rparr>))"
    using t(2) by (simp add: nfs_ex_opts_def rpc_opt_def rpc_ex_wc nfs_extra_def rpc_ex_threshold_def th_new_def rpc_args0_def push_transport_def
        mp_array_push_def split: option.split)
  then show ?thesis
    using t by (simp add: nfs_process_arguments_def)
      (simp add: rpc_defaults_def push_version_def push_transport_def mp_array_push_def nfs_ex_args_def rpc_args0_def)
qed

theorem check_nfs_result_witness:
  "\<exists>g'. check_nfs_main True (\<lambda>f h. True) rpc_ex nfs_ex_opts check_nfs_globals = ok ''/srv exported by tcp:showmountv3'' g'"
proof -
  let ?p = "\<lparr>r_name = ''showmount'', r_number = 100003\<rparr>" and ?n = "\<lparr>r_name = ''nfs'', r_number = 100003\<rparr>" and ?r = "(0, ''3'', ''tcp'')"
  have p: "mount_program rpc_ex = Some ?p" "rpc_getrpcent rpc_ex ''nfs'' = Some ?n"
    by (simp_all add: mount_program_def rpc_getrpcent_def rpc_ex_def first_alpha_def isalpha_def islower_def isupper_def ccode_def)
  have v: "fmt_d (atoi ''3'') = ''3''" by code_simp
  have "xdr_nodes (enc_exports [(''/home'', [''a'']), (''/srv'', [])]) [] = Some ([(''/home'', [''a'']), (''/srv'', [])], [])"
    using xdr_enc_nodes [of "[(''/home'', [''a'']), (''/srv'', [])]" "[]" "[]"] by (simp add: export_ok_def text_ok_def MNTPATHLEN_def MNTNAMLEN_def)
  then have e: "export_class rpc_ex nfs_ex_args ?p ?r = Exported"
    by (simp add: rpc_ex_def nfs_ex_args_def call_exports_def mp_xdr_exports_def)
  have l: "ping_level rpc_ex ''h'' ?n rpc_ex_threshold ?r = STATE_OK"
    using rpc_ex_threshold_facts(2) by (simp add: rpc_ex_delta) (simp add: rpc_ping_def rpc_ex_def RPC_SUCCESS_def)
  show ?thesis
    using check_nfs_result [OF nfs_ex_arguments, where vs = "[''3'']" and ts = "[''tcp'']" and env = rpc_ex and p = ?p and n = ?n
        and rs = "[?r]" and bad = False] rpc_ex_threshold_facts(1) p e l v
    by (simp add: nfs_ex_args_def pings_def del: ping_level.simps export_class.simps)
qed

section \<open>The options\<close>

definition rpc_args_ok :: "rpc_args \<Rightarrow> bool" where
  "rpc_args_ok a \<longleftrightarrow> array_full (rpcversion a) (rpcversions a) \<and> array_full (rpctransport a) (rpctransports a) \<and> thresholds_both (rpc_threshold a)"

lemma rpc_opt_contract:
  assumes "\<And>c s a. rpc_args_ok a \<Longrightarrow> rpc_args_ok (extra c s a)"
  shows "plugin_options (rpc_opt v6 gai extra) rpc_args_ok"
proof
  fix a a' :: rpc_args and c s g
  assume p: "rpc_args_ok a" "rpc_opt v6 gai extra c s a g = Inr a'"
  then obtain t where t: "getopt_wc_time c s (rpc_threshold a) g = Inr t" by (auto simp: rpc_opt_def split: sum.splits)
  then have "thresholds_both t" using p(1) thresholds_both_keep(2) by (auto simp: rpc_args_ok_def)
  then have a: "rpc_args_ok (a\<lparr>rpc_threshold := t\<rparr>)" using p(1) by (simp add: rpc_args_ok_def)
  then show "rpc_args_ok a'"
    using p(2) t assms [OF a] mp_array_push_full
    by (cases "getopt_host v6 gai s g")
      (auto simp: rpc_opt_def rpc_args_ok_def push_version_def push_transport_def Let_def split: if_splits prod.splits)
next
  fix a c s g e
  assume "rpc_opt v6 gai extra c s a g = Inl e"
  then show "exit_code e = Some STATE_UNKNOWN"
    by (cases "getopt_host v6 gai s g") (auto simp: rpc_opt_def Let_def refuse_simps split: sum.splits if_splits)
qed

interpretation ping_options: plugin_options "rpc_opt v6 gai ping_extra" rpc_args_ok for v6 gai
  by (rule rpc_opt_contract) (simp add: ping_extra_def rpc_args_ok_def)

interpretation nfs_options: plugin_options "rpc_opt v6 gai nfs_extra" rpc_args_ok for v6 gai
  by (rule rpc_opt_contract) (simp add: nfs_extra_def rpc_args_ok_def)

end
