(* ===== verification/Check_Oping.thy ===== *)
theory Check_Oping
  imports Plugin
begin

text \<open>
  \<^verbatim>\<open>oping/check_oping.c\<close>: round trip times and packet loss by ICMP echo requests.

  The library liboping is a parameter: the results of its calls, and for every round the information of each host of its
  iterator. The pauses between the packets have no effect on the result. The format of the report holds an unknown conversion,
  a percent sign followed by a comma, which the C library prints as it is.
\<close>

section \<open>The library\<close>

datatype oping_option = PING_OPT_AF int | PING_OPT_DATA string | PING_OPT_DEVICE string

text \<open>The information of a host: \<open>None\<close> where the call fails.\<close>

record ping_iter =
  it_dropped :: "int option"
  it_latency :: "fp option"
  it_sequence :: "int option"
  it_data_len :: int
  it_address :: "string option"
  it_recv_ttl :: "int option"

record oping_env =
  oe_construct :: bool
  oe_setopt :: "oping_option \<Rightarrow> int"
  oe_host_add :: "string \<Rightarrow> int"
  oe_send :: "nat \<Rightarrow> int"
  oe_iter :: "nat \<Rightarrow> ping_iter list"
  oe_error :: string

section \<open>The options\<close>

definition check_oping_globals :: mp_globals where
  "check_oping_globals = mp_init ''check_oping''
     (''-H host'')
     ''0.1'' ''Marius Rieder <marius.rieder@durchmesser.ch>'' ''2012''"

definition check_oping_print_help :: "string \<Rightarrow> string \<Rightarrow> bool \<Rightarrow> string" where
  "check_oping_print_help package version use_ipv6 =
     print_revision package version check_oping_globals @
     print_copyright check_oping_globals @
     help_lines
       [[],
        ''Check description: Check if a Host can be reached by ICMP Echo Requeste.'',
        []] @
     print_usage check_oping_globals @
     print_help_default @
     print_help_host @
     print_help_46 use_ipv6 @
     help_lines
       ['' -p, --packets=[NUM]'',
        ''      Number of packets to send. (Default to 5)'',
        '' -q, --quick'',
        ''      Return as soon as OK is reached.'',
        '' -i, --interval=[SEC]'',
        ''      Number of secounds to wait between packets. (Default to 1)'',
        '' -I, --interfact=[DEV]'',
        ''      Set the outgoing network device to use.'',
        '' -T, --ttl=[NUM]'',
        ''      Set TTL of packets to given value.'',
        '' -w, --warning=<rta>,<pl>%'',
        ''      Return warning if check exceeds TRA or Packet loss limit.'',
        ''            (Default to 90ms and 10%)'',
        '' -c, --critical=<rta>,<pl>%'',
        ''      Return critical if check exceeds TRA or Packet loss limit'',
        ''            (Default to 100ms and 20%)'']"

record oping_args =
  op_hostname :: "string option"
  op_interface :: "string option"
  op_interval :: fp
  op_ttl :: int
  op_ipv :: int
  rta_thresholds :: "thresholds option"
  lost_thresholds :: "thresholds option"
  op_packets :: int
  op_quick :: bool

definition oping_args0 :: oping_args where
  "oping_args0 = \<lparr>op_hostname = None, op_interface = None, op_interval = Num False 0, op_ttl = 0, op_ipv = AF_UNSPEC,
     rta_thresholds = fst (mp_threshold_set_critical (fst (mp_threshold_set_warning None ''~:90'' NOEXT)) ''~:100'' NOEXT),
     lost_thresholds = fst (mp_threshold_set_critical (fst (mp_threshold_set_warning None ''80'' NOEXT)) ''90'' NOEXT),
     op_packets = 5, op_quick = False\<rparr>"

text \<open>One of the two thresholds of \<open>-w\<close> and \<open>-c\<close>.\<close>

definition oping_threshold :: "char \<Rightarrow> string \<Rightarrow> string \<Rightarrow> thresholds option \<Rightarrow> mp_globals \<Rightarrow> mp_end + thresholds option" where
  "oping_threshold c what s t g =
     (case (if c = CHR ''w'' then mp_threshold_set_warning t s NOEXT else mp_threshold_set_critical t s NOEXT) of
        (t, rc) \<Rightarrow>
          if rc = ERROR then Inl (usage (''Illegal -'' @ [c] @ '' '' @ what @ '' threshold '' @ quoted s @ ''.'') g) else Inr t)"

definition oping_wc :: "char \<Rightarrow> string \<Rightarrow> oping_args \<Rightarrow> mp_globals \<Rightarrow> mp_end + oping_args" where
  "oping_wc c optarg a g =
     (case strsep '','' optarg of
        (_, None) \<Rightarrow> Inl (usage ''Waring/Critical threshold is <rta>,<pl>%.'' g)
      | (rta, Some pl) \<Rightarrow>
          (case oping_threshold c ''tra'' rta (rta_thresholds a) g of
             Inl e \<Rightarrow> Inl e
           | Inr t \<Rightarrow>
               (case oping_threshold c ''pl'' pl (lost_thresholds a) g of
                  Inl e \<Rightarrow> Inl e
                | Inr u \<Rightarrow> Inr (a\<lparr>rta_thresholds := t, lost_thresholds := u\<rparr>))))"

definition oping_opt :: "bool \<Rightarrow> bool \<Rightarrow> resolver \<Rightarrow> oping_args opt_handler" where
  "oping_opt use_ipv6 v6 gai c optarg a g =
     (let a = a\<lparr>op_ipv := getopt_46 use_ipv6 c (op_ipv a)\<rparr>; n = to_int32 (strtol 10 optarg)
      in if c = CHR ''H'' then map_sum (\<lambda>e. e) (\<lambda>h. a\<lparr>op_hostname := Some h\<rparr>) (getopt_host v6 gai optarg g)
         else if c = CHR ''p''
         then (if \<not> is_integer (Some optarg) then Inl (usage (''Illegal packets value '' @ quoted optarg @ ''.'') g)
               else Inr (a\<lparr>op_packets := n\<rparr>))
         else if c = CHR ''q'' then Inr (a\<lparr>op_quick := True\<rparr>)
         else if c = CHR ''I'' then Inr (a\<lparr>op_interface := Some optarg\<rparr>)
         else if c = CHR ''i''
         then (let x = fst (strtod optarg)
               in if fp_le x (Num False 0) then Inl (usage (''Illegal interval value '' @ quoted optarg @ ''.'') g)
                  else Inr (a\<lparr>op_interval := x\<rparr>))
         else if c = CHR ''T''
         then (if \<not> is_integer (Some optarg) \<or> n < 1 \<or> 255 < n then Inl (usage (''Illegal ttl value '' @ quoted optarg @ ''.'') g)
               else Inr (a\<lparr>op_ttl := n\<rparr>))
         else if c = CHR ''w'' \<or> c = CHR ''c'' then oping_wc c optarg a g
         else Inr a)"

definition oping_process_arguments ::
    "bool \<Rightarrow> bool \<Rightarrow> resolver \<Rightarrow> nat \<Rightarrow> string \<Rightarrow> (char \<times> string) list \<Rightarrow> mp_globals \<Rightarrow> mp_end + oping_args" where
  "oping_process_arguments use_ipv6 v6 gai argc help os g =
     (if argc < 2 then Inl (Exit STATE_OK (stdout g @ help))
      else case run_opts (oping_opt use_ipv6 v6 gai) os oping_args0 g of
             Inl e \<Rightarrow> Inl e
           | Inr a \<Rightarrow> if op_hostname a = None then Inl (usage ''Hostname is mandatory.'' g) else Inr a)"

section \<open>The packets\<close>

record oping_st =
  op_dropped :: int
  op_num :: int
  op_recv_ttl :: int
  op_rta :: fp
  op_globals :: mp_globals

definition iter_step :: "string \<Rightarrow> ping_iter \<Rightarrow> oping_st \<Rightarrow> mp_end + oping_st" where
  "iter_step host it st =
     (let g = op_globals st; failed = (\<lambda>what. Inl (unknown (''liboping ping_iterator_get_info '' @ what @ '' failed!'') g))
      in case it_dropped it of
           None \<Rightarrow> failed ''dropped''
         | Some dropped \<Rightarrow>
             (case it_latency it of
                None \<Rightarrow> failed ''latency''
              | Some rt \<Rightarrow>
                  (case it_sequence it of
                     None \<Rightarrow> failed ''sequence''
                   | Some num \<Rightarrow>
                       (case it_address it of
                          None \<Rightarrow> failed ''address''
                        | Some haddr \<Rightarrow>
                            (case it_recv_ttl it of
                               None \<Rightarrow> failed ''ttl''
                             | Some ttl \<Rightarrow>
                                 Inr \<lparr>op_dropped = dropped, op_num = num, op_recv_ttl = ttl,
                                   op_rta = fp_add round_double (op_rta st) rt,
                                   op_globals =
                                     (if 0 < mp_verbose g \<and> 0 < ttl
                                      then mp_print (fmt_d (it_data_len it) @ '' bytes from '' @ host @ '' ('' @ haddr @
                                             ''): icmp_seq='' @ fmt_d num @ '' ttl='' @ fmt_d ttl @ '' time='' @ fmt_f 2 rt @ '' ms'' @ nl) g
                                      else g)\<rparr>)))))"

fun iter_loop :: "string \<Rightarrow> ping_iter list \<Rightarrow> oping_st \<Rightarrow> mp_end + oping_st" where
  "iter_loop host [] st = Inr st"
| "iter_loop host (it # its) st = (case iter_step host it st of Inl e \<Rightarrow> Inl e | Inr st \<Rightarrow> iter_loop host its st)"

definition oping_rta :: "fp \<Rightarrow> int \<Rightarrow> fp" where
  "oping_rta rta num = fp_cast round_float (fp_div round_double rta (dbl_of_int num))"

text \<open>The loss in percent: the product is an unsigned number of 32 bits.\<close>

definition oping_loss :: "int \<Rightarrow> int \<Rightarrow> int" where
  "oping_loss dropped num = to_uint32 (dropped * 100) div num"

definition quick_done :: "oping_args \<Rightarrow> oping_st \<Rightarrow> bool" where
  "quick_done a st \<longleftrightarrow>
     op_quick a \<and> 0 < op_num st \<and> get_status (oping_rta (op_rta st) (op_num st)) (rta_thresholds a) = STATE_OK \<and>
     get_status (dbl_of_int (oping_loss (op_dropped st) (op_num st))) (lost_thresholds a) = STATE_OK"

text \<open>The loop: \<open>k\<close> is the number of the round, the last argument the packets left.\<close>

fun oping_loop :: "oping_env \<Rightarrow> oping_args \<Rightarrow> nat \<Rightarrow> nat \<Rightarrow> oping_st \<Rightarrow> mp_end + oping_st" where
  "oping_loop env a k 0 st = Inr st"
| "oping_loop env a k (Suc packets) st =
     (if oe_send env k < 0 then Inl (critical (''Send Error: '' @ oe_error env) (op_globals st))
      else case iter_loop (the (op_hostname a)) (oe_iter env k) st of
             Inl e \<Rightarrow> Inl e
           | Inr st \<Rightarrow> if quick_done a st then Inr st else oping_loop env a (Suc k) packets st)"

text \<open>The setup. The option for the TTL is never set: the test reads a local variable that is still 0, which hides the one of the option.\<close>

definition oping_setup :: "oping_env \<Rightarrow> oping_args \<Rightarrow> mp_globals \<Rightarrow> mp_end option" where
  "oping_setup env a g =
     (let err = Some (unknown (''liboping setup Error: '' @ oe_error env) g)
      in if \<not> oe_construct env then Some (unknown (''Can'' @ [CHR 0x27] @ ''t initialize liboping'') g)
         else if oe_setopt env (PING_OPT_AF (op_ipv a)) \<noteq> 0 then err
         else if oe_setopt env (PING_OPT_DATA ''monitoringplug/check_oping based on liboping.           '') \<noteq> 0 then err
         else if (case op_interface a of None \<Rightarrow> False | Some i \<Rightarrow> oe_setopt env (PING_OPT_DEVICE i) \<noteq> 0) then err
         else if oe_host_add env (the (op_hostname a)) \<noteq> 0 then err
         else None)"

definition oping_report :: "oping_args \<Rightarrow> oping_st \<Rightarrow> mp_end" where
  "oping_report a st =
     (let g = op_globals st; rta = oping_rta (op_rta st) (op_num st); pl = oping_loss (op_dropped st) (op_num st)
      in if op_num st = 0 then critical ''PING_INFO_SEQUENCE is 0'' g
         else case mp_perfdata_float ''rta'' rta ''s'' (rta_thresholds a) g of
                (t, g) \<Rightarrow>
                  (case mp_perfdata_int ''pl'' pl ''%'' (lost_thresholds a) g of
                     (u, g) \<Rightarrow>
                       let result1 = get_status rta t; result2 = get_status (dbl_of_int pl) u;
                           result1 = (if result2 < result1 then result1 else result2);
                           m = ''Packet loss = '' @ fmt_d (to_int32 pl) @ ''%, RTA = '' @ fmt_f 2 rta @ '' ms''
                       in if result1 = STATE_OK then ok m g
                          else if result1 = STATE_WARNING then warning m g
                          else if result1 = STATE_CRITICAL then critical m g
                          else critical ''You should never reach this point.'' g))"

definition check_oping_main ::
    "bool \<Rightarrow> bool \<Rightarrow> resolver \<Rightarrow> oping_env \<Rightarrow> nat \<Rightarrow> string \<Rightarrow> (char \<times> string) list \<Rightarrow> mp_globals \<Rightarrow> mp_end" where
  "check_oping_main use_ipv6 v6 gai env argc help os g =
     (case oping_process_arguments use_ipv6 v6 gai argc help os g of
        Inl e \<Rightarrow> e
      | Inr a \<Rightarrow>
          (case oping_setup env a g of
             Some e \<Rightarrow> e
           | None \<Rightarrow>
               (case oping_loop env a 0 (nat (op_packets a))
                       \<lparr>op_dropped = 0, op_num = 0, op_recv_ttl = 0, op_rta = Num False 0, op_globals = g\<rparr> of
                  Inl e \<Rightarrow> e
                | Inr st \<Rightarrow> oping_report a st)))"

section \<open>The result\<close>

text \<open>An answer: the packets dropped so far, the latency and the sequence number. What the plugin has seen after some answers, and the level of it.\<close>

type_synonym ping_answer = "int \<times> fp \<times> int"

definition answer_iter :: "ping_answer \<Rightarrow> ping_iter \<Rightarrow> bool" where
  "answer_iter r it \<longleftrightarrow> (case r of (d, l, n) \<Rightarrow> it_dropped it = Some d \<and> it_latency it = Some l \<and> it_sequence it = Some n \<and> 0 < n) \<and>
     it_address it \<noteq> None \<and> it_recv_ttl it \<noteq> None"

definition sum_latency :: "ping_answer list \<Rightarrow> fp" where
  "sum_latency rs = fold (\<lambda>(d, l, n) x. fp_add round_double x l) rs (Num False 0)"

definition answers_level :: "oping_args \<Rightarrow> ping_answer list \<Rightarrow> int" where
  "answers_level a rs =
     (case last rs of
        (d, l, n) \<Rightarrow> max (get_status (oping_rta (sum_latency rs) n) (rta_thresholds a)) (get_status (dbl_of_int (oping_loss d n)) (lost_thresholds a)))"

definition seen :: "ping_answer list \<Rightarrow> oping_st \<Rightarrow> bool" where
  "seen rs st \<longleftrightarrow> op_rta st = sum_latency rs \<and>
     (if rs = [] then op_dropped st = 0 \<and> op_num st = 0 else op_dropped st = fst (last rs) \<and> op_num st = snd (snd (last rs)) \<and> 0 < op_num st)"

lemma iter_step_seen:
  assumes "answer_iter r it" "seen rs st"
  shows "\<exists>st'. iter_step host it st = Inr st' \<and> seen (rs @ [r]) st'"
proof -
  obtain d l n where r: "r = (d, l, n)" by (cases r)
  show ?thesis using assms by (auto simp: r answer_iter_def iter_step_def seen_def sum_latency_def Let_def)
qed

lemma quick_done_level:
  assumes "seen rs st" "rs \<noteq> []"
  shows "quick_done a st \<longleftrightarrow> op_quick a \<and> answers_level a rs = STATE_OK"
proof -
  obtain d l n where r: "last rs = (d, l, n)" by (cases "last rs")
  let ?x = "get_status (oping_rta (sum_latency rs) n) (rta_thresholds a)" and ?y = "get_status (dbl_of_int (oping_loss d n)) (lost_thresholds a)"
  have "max ?x ?y = STATE_OK \<longleftrightarrow> ?x = STATE_OK \<and> ?y = STATE_OK"
    using get_status_cases [of "oping_rta (sum_latency rs) n" "rta_thresholds a"] get_status_cases [of "dbl_of_int (oping_loss d n)" "lost_thresholds a"]
    by auto
  then show ?thesis using assms r by (auto simp: quick_done_def seen_def answers_level_def)
qed

text \<open>Where the loop stops: at the first round with a good result with \<open>--quick\<close>, else after all of them.\<close>

definition stops_at :: "oping_args \<Rightarrow> ping_answer list \<Rightarrow> nat \<Rightarrow> bool" where
  "stops_at a rs j \<longleftrightarrow> j \<le> length rs \<and> (\<forall>i. 0 < i \<and> i < j \<longrightarrow> \<not> (op_quick a \<and> answers_level a (take i rs) = STATE_OK)) \<and>
     (j = length rs \<or> 0 < j \<and> op_quick a \<and> answers_level a (take j rs) = STATE_OK)"

lemma oping_loop_stops:
  assumes "\<forall>i < length rs. 0 \<le> oe_send env i \<and> (\<exists>it. oe_iter env i = [it] \<and> answer_iter (rs ! i) it)"
    "k + m = length rs" "seen (take k rs) st" "\<forall>i. 0 < i \<and> i \<le> k \<longrightarrow> \<not> (op_quick a \<and> answers_level a (take i rs) = STATE_OK)"
  shows "\<exists>j st'. oping_loop env a k m st = Inr st' \<and> seen (take j rs) st' \<and> stops_at a rs j \<and> k \<le> j \<and> (0 < m \<longrightarrow> k < j)"
  using assms(2-4)
proof (induction m arbitrary: k st)
  case 0
  then show ?case by (intro exI [of _ k] exI [of _ st]) (auto simp: stops_at_def)
next
  case (Suc m)
  then obtain it where it: "0 \<le> oe_send env k" "oe_iter env k = [it]" "answer_iter (rs ! k) it"
    using assms(1) by (metis add_Suc_right less_add_Suc1)
  obtain st1 where st1: "iter_step (the (op_hostname a)) it st = Inr st1" "seen (take (Suc k) rs) st1"
    using iter_step_seen [OF it(3) Suc.prems(2)] Suc.prems(1) take_Suc_conv_app_nth [of k rs] by auto
  have q: "quick_done a st1 \<longleftrightarrow> op_quick a \<and> answers_level a (take (Suc k) rs) = STATE_OK"
    using Suc.prems(1) by (intro quick_done_level [OF st1(2)]) auto
  show ?case
  proof (cases "quick_done a st1")
    case True
    then have "stops_at a rs (Suc k)" using q Suc.prems by (auto simp: stops_at_def less_Suc_eq_le)
    then show ?thesis using True it st1 by (intro exI [of _ "Suc k"] exI [of _ st1]) simp
  next
    case False
    then have "\<forall>i. 0 < i \<and> i \<le> Suc k \<longrightarrow> \<not> (op_quick a \<and> answers_level a (take i rs) = STATE_OK)"
      using q Suc.prems(3) by (auto simp: le_Suc_eq)
    then obtain j st' where "oping_loop env a (Suc k) m st1 = Inr st'" "seen (take j rs) st'" "stops_at a rs j" "Suc k \<le> j"
      using Suc.IH [of "Suc k" st1] Suc.prems(1) st1(2) by auto
    then show ?thesis using False it st1 by (intro exI [of _ j] exI [of _ st']) simp
  qed
qed

lemma oping_report_level:
  assumes "seen rs st" "rs \<noteq> []" "no_percent (rta_thresholds a)" "no_percent (lost_thresholds a)"
  shows "exit_code (oping_report a st) = Some (answers_level a rs)"
proof -
  obtain d l n where r: "last rs = (d, l, n)" by (cases "last rs")
  let ?x = "get_status (oping_rta (sum_latency rs) n) (rta_thresholds a)" and ?y = "get_status (dbl_of_int (oping_loss d n)) (lost_thresholds a)"
  have "(if ?y < ?x then ?x else ?y) = max ?x ?y" "max ?x ?y \<in> {STATE_OK, STATE_WARNING, STATE_CRITICAL}"
    using get_status_cases [of "oping_rta (sum_latency rs) n" "rta_thresholds a"] get_status_cases [of "dbl_of_int (oping_loss d n)" "lost_thresholds a"]
    by auto
  then show ?thesis
    using assms(1,2) r perfdata_thresholds(2) [OF assms(4)] perfdata_thresholds(4) [OF assms(3)]
    by (auto simp: oping_report_def seen_def answers_level_def Let_def split_beta)
qed


definition oping_ex_opts :: "(char \<times> string) list" where
  "oping_ex_opts = [(CHR ''H'', ''h''), (CHR ''p'', ''2''), (CHR ''q'', []), (CHR ''w'', ''90,80''), (CHR ''c'', ''100,90'')]"

definition oping_ex_args :: oping_args where
  "oping_ex_args = \<lparr>op_hostname = Some ''h'', op_interface = None, op_interval = Num False 0, op_ttl = 0, op_ipv = AF_UNSPEC,
     rta_thresholds = Some \<lparr>th_warning = Some (spec_range NOEXT (Upto (Bound 90 []))), th_critical = Some (spec_range NOEXT (Upto (Bound 100 [])))\<rparr>,
     lost_thresholds = Some \<lparr>th_warning = Some (spec_range NOEXT (Upto (Bound 80 []))), th_critical = Some (spec_range NOEXT (Upto (Bound 90 [])))\<rparr>,
     op_packets = 2, op_quick = True\<rparr>"

definition oping_ex :: oping_env where
  "oping_ex = \<lparr>oe_construct = True, oe_setopt = (\<lambda>_. 0), oe_host_add = (\<lambda>_. 0), oe_send = (\<lambda>_. 1),
     oe_iter = (\<lambda>k. [\<lparr>it_dropped = Some 0, it_latency = Some (Num False (if k = 0 then 50 else 500)), it_sequence = Some (int k + 1), it_data_len = 56,
       it_address = Some ''::1'', it_recv_ttl = Some 64\<rparr>]), oe_error = []\<rparr>"

lemma noext_upto: "parse_range_string (fmt_d n) NOEXT = (spec_range NOEXT (Upto (Bound n [])), OK)" if "bound_ok NOEXT (Bound n [])"
  using parse_upto [OF that] by simp

lemma oping_ex_arguments: "oping_process_arguments True True (\<lambda>f h. True) 9 [] oping_ex_opts check_oping_globals = Inr oping_ex_args"
proof -
  have f: "fmt_d 80 = ''80''" "fmt_d 90 = ''90''" "fmt_d 100 = ''100''" by code_simp+
  have b: "bound_ok NOEXT (Bound 80 [])" "bound_ok NOEXT (Bound 90 [])" "bound_ok NOEXT (Bound 100 [])"
    by (simp_all add: num_end_def unit_factor_def NOEXT_def BISI_def TIME_def)
  have w: "oping_threshold (CHR ''w'') x ''80'' t g = Inr (Some ((th_new t)\<lparr>th_warning := Some (spec_range NOEXT (Upto (Bound 80 [])))\<rparr>))"
    "oping_threshold (CHR ''w'') x ''90'' t g = Inr (Some ((th_new t)\<lparr>th_warning := Some (spec_range NOEXT (Upto (Bound 90 [])))\<rparr>))"
    "oping_threshold (CHR ''c'') x ''90'' t g = Inr (Some ((th_new t)\<lparr>th_critical := Some (spec_range NOEXT (Upto (Bound 90 [])))\<rparr>))"
    "oping_threshold (CHR ''c'') x ''100'' t g = Inr (Some ((th_new t)\<lparr>th_critical := Some (spec_range NOEXT (Upto (Bound 100 [])))\<rparr>))" for x t g
    using noext_upto [OF b(1)] noext_upto [OF b(2)] noext_upto [OF b(3)] f
    by (simp_all add: oping_threshold_def set_threshold_defs OK_def ERROR_def del: spec_range.simps)
  have s: "strsep '','' ''90,80'' = (''90'', Some ''80'')" "strsep '','' ''100,90'' = (''100'', Some ''90'')" "is_integer (Some ''2'')"
    "to_int32 (strtol 10 ''2'') = 2" by code_simp+
  have "getopt_host True (\<lambda>f h. True) ''h'' g = Inr ''h''" for g by (simp add: getopt_host_def is_hostaddr_def)
  then have "run_opts (oping_opt True True (\<lambda>f h. True)) oping_ex_opts oping_args0 check_oping_globals = Inr oping_ex_args"
    using w s by (simp add: oping_ex_opts_def oping_opt_def oping_wc_def getopt_46_def oping_ex_args_def oping_args0_def th_new_def Let_def
        del: spec_range.simps split: option.split)
  then show ?thesis by (simp add: oping_process_arguments_def) (simp add: oping_ex_args_def)
qed


section \<open>The options\<close>

text \<open>The documented form of the loss threshold is a percentage. It is resolved against a missing maximum by the performance data, so
  the limit becomes 0 and every loss is critical.\<close>

theorem oping_loss_percent:
  assumes "th_critical t = Some r" "end_percent r" "alert_on r = OUTSIDE" "\<not> end_infinity r" "range_end r = Num False x" "0 < pl" "pl < 2 ^ 32"
  shows "get_status (dbl_of_int pl) (fst (mp_perfdata_int ''pl'' pl ''%'' (Some t) g)) = STATE_CRITICAL"
proof -
  have z: "flt_of_int 0 = Num False 0" by (simp add: fp_of_rat_def round_fp_def)
  have d: "dbl_of_int pl = Num False (of_int pl)" using round_double_int [of pl] assms(6,7) by simp
  have "range_end (resolve_range (Num False 0) r) = Num False 0" "alert_on (resolve_range (Num False 0) r) = OUTSIDE"
    "\<not> end_infinity (resolve_range (Num False 0) r)"
    using assms by (simp_all add: resolve_range_def Let_def round_fp_def)
  then have "check_range (dbl_of_int pl) (resolve_range (Num False 0) r)"
    using assms(6) by (simp add: check_range_def d)
  then show ?thesis
    using z assms(1) by (simp add: mp_perfdata_int_def mp_perfdata_int2_def mp_perfdata_percent_resolv_def get_status_def Let_def)
qed

interpretation oping_options: plugin_options "oping_opt use_ipv6 v6 gai" "\<lambda>a. thresholds_both (rta_thresholds a) \<and> thresholds_both (lost_thresholds a)"
  for use_ipv6 v6 gai
proof
  fix a a' :: oping_args and c s g
  assume p: "thresholds_both (rta_thresholds a) \<and> thresholds_both (lost_thresholds a)" "oping_opt use_ipv6 v6 gai c s a g = Inr a'"
  have "oping_threshold c x y t g = Inr u \<Longrightarrow> thresholds_both t \<Longrightarrow> thresholds_both u" for x y t u
    by (auto simp: oping_threshold_def thresholds_both_def set_threshold_defs split: if_splits prod.splits option.splits)
  then have "oping_wc c s b g = Inr a' \<Longrightarrow> rta_thresholds b = rta_thresholds a \<Longrightarrow> lost_thresholds b = lost_thresholds a \<Longrightarrow>
      thresholds_both (rta_thresholds a') \<and> thresholds_both (lost_thresholds a')" for b
    using p(1) by (auto simp: oping_wc_def split: prod.splits option.splits sum.splits)
  then show "thresholds_both (rta_thresholds a') \<and> thresholds_both (lost_thresholds a')"
    using p by (cases "getopt_host v6 gai s g") (auto simp: oping_opt_def Let_def split: if_splits)
next
  fix a c s g e
  assume "oping_opt use_ipv6 v6 gai c s a g = Inl e"
  moreover have "oping_wc c s b g = Inl e \<Longrightarrow> exit_code e = Some STATE_UNKNOWN" for b
    by (auto simp: oping_wc_def oping_threshold_def split: prod.splits option.splits sum.splits if_splits)
  ultimately show "exit_code e = Some STATE_UNKNOWN"
    by (cases "getopt_host v6 gai s g") (auto simp: oping_opt_def Let_def refuse_simps split: if_splits)
qed

end
