(* ===== verification/Check_PgSQL.thy ===== *)
theory Check_PgSQL
  imports Plugin
begin

text \<open>
  \<^verbatim>\<open>lib/pgsql_utils.c\<close>, \<^verbatim>\<open>pgsql/check_pgsql.c\<close> and \<^verbatim>\<open>pgsql/check_pgsql_slave.c\<close>: the status of a PostgreSQL server and the
  delay of a replica.

  The client library is a parameter: the state of the connection, the tuples of a query, the text \<open>PQprint\<close> shows for them, the text of
  the last error and the versions. \<open>Crash\<close> is the use of a NULL pointer or of a byte behind the end of a text.
\<close>

section \<open>Connection and options\<close>

record pgsql_args =
  mp_pgsql_host :: "string option"
  mp_pgsql_user :: "string option"
  mp_pgsql_pass :: "string option"
  mp_pgsql_db :: "string option"
  mp_pgsql_port :: "string option"

definition pgsql_args0 :: pgsql_args where
  "pgsql_args0 = \<lparr>mp_pgsql_host = None, mp_pgsql_user = None, mp_pgsql_pass = None, mp_pgsql_db = None, mp_pgsql_port = None\<rparr>"

text \<open>A query: \<open>None\<close> unless its status is \<open>PGRES_TUPLES_OK\<close>.\<close>

record pgsql_env =
  pg_connect :: "pgsql_args \<Rightarrow> bool"
  pg_exec :: "string \<Rightarrow> string list list option"
  pg_print :: "string list list \<Rightarrow> string"
  pg_error :: string
  pg_server_version :: int
  pg_start :: "int \<times> int"
  pg_stop :: "int \<times> int"

definition mp_pgsql_init :: "pgsql_env \<Rightarrow> 'a pgsql_args_scheme \<Rightarrow> mp_globals \<Rightarrow> mp_end option" where
  "mp_pgsql_init env a g =
     (if \<not> pg_connect env (pgsql_args.truncate a) then Some (unknown (''Connection to database failed: '' @ pg_error env) g) else None)"

definition mp_pgsql_exec :: "pgsql_env \<Rightarrow> string \<Rightarrow> mp_globals \<Rightarrow> string list list option \<times> mp_globals" where
  "mp_pgsql_exec env query g =
     (case pg_exec env query of
        None \<Rightarrow> (None, g)
      | Some rows \<Rightarrow> (Some rows, if 3 < mp_verbose g then mp_print (''Query: '' @ query @ nl @ pg_print env rows) g else g))"

definition PQgetvalue :: "string list list \<Rightarrow> nat \<Rightarrow> nat \<Rightarrow> string option" where
  "PQgetvalue rows i j = (if i < length rows \<and> j < length (rows ! i) then Some (rows ! i ! j) else None)"

definition getopt_pgsql :: "bool \<Rightarrow> resolver \<Rightarrow> ('a pgsql_args_scheme) opt_handler" where
  "getopt_pgsql v6 gai c optarg a g =
     (if c = CHR ''H'' then map_sum (\<lambda>e. e) (\<lambda>h. a\<lparr>mp_pgsql_host := Some h\<rparr>) (getopt_host v6 gai optarg g)
      else if c = CHR ''u'' then Inr (a\<lparr>mp_pgsql_user := Some optarg\<rparr>)
      else if c = CHR ''p'' then Inr (a\<lparr>mp_pgsql_pass := Some optarg\<rparr>)
      else if c = CHR ''D'' then Inr (a\<lparr>mp_pgsql_db := Some optarg\<rparr>)
      else if c = CHR ''P'' then Inr (a\<lparr>mp_pgsql_port := Some optarg\<rparr>)
      else Inr a)"

definition print_help_pgsql :: string where
  "print_help_pgsql = print_help_host @ help_lines
     ['' -u, --user=USER'',
      ''      The PostgreSQL user name to use when connecting to the server.'',
      '' -p, --password=PASSWORD'',
      ''      The password to use when connecting to the server.'',
      '' -D, --database=DATABASE'',
      ''      The database to use.'',
      '' -P, --port=PORT'',
      ''      The TCP/IP port number or UNIX Socket-Dir to use for the connection.'']"

text \<open>The number of a version, which is not negative, as a text.\<close>

definition mp_pgsql_version :: "int \<Rightarrow> string" where
  "mp_pgsql_version version =
     (let revision = version mod 100; version = version div 100; minor = version mod 100; major = version div 100
      in fmt_d major @ ''.'' @ fmt_d minor @ ''.'' @ fmt_d revision)"

text \<open>\<open>None\<close> is a build without \<open>PQlibVersion\<close>.\<close>

definition print_revision_pgsql :: "int option \<Rightarrow> string" where
  "print_revision_pgsql pqlibversion =
     (case pqlibversion of None \<Rightarrow> [] | Some v \<Rightarrow> '' libqp v'' @ mp_pgsql_version v @ nl)"

section \<open>check\_pgsql\<close>

definition check_pgsql_globals :: mp_globals where
  "check_pgsql_globals = mp_init ''check_pgsql''
     (''[-H <HOST>] [-u <USER>] [-P <PASSWORD>] [-D <DATABASE>]'')
     ''0.1'' ''Marius Rieder <marius.rieder@durchmesser.ch>'' ''2013''"

definition check_pgsql_print_help :: "int option \<Rightarrow> string \<Rightarrow> string \<Rightarrow> string" where
  "check_pgsql_print_help libversion package version =
     print_revision package version check_pgsql_globals @
     print_revision_pgsql libversion @
     print_copyright check_pgsql_globals @
     help_lines
       [[],
        ''Check description: Check PostgreSQL connectivity and status.'',
        []] @
     print_usage check_pgsql_globals @
     print_help_default @
     print_help_pgsql"

definition PG_LONGOPT_VARIABLE :: char where "PG_LONGOPT_VARIABLE = CHR 0x90"

record pgsql_vars = pgsql_args +
  pg_variable :: "string option list"
  pg_unit :: "string option list"
  pg_variables :: nat

definition pgsql_vars0 :: pgsql_vars where
  "pgsql_vars0 = pgsql_args.extend pgsql_args0 (pgsql_vars.fields [] [] 0)"

text \<open>The option for a variable fills two arrays that nothing reads.\<close>

definition pgsql_opt :: "bool \<Rightarrow> resolver \<Rightarrow> pgsql_vars opt_handler" where
  "pgsql_opt v6 gai c optarg a g =
     (case getopt_pgsql v6 gai c optarg a g of
        Inl e \<Rightarrow> Inl e
      | Inr a \<Rightarrow>
          Inr (if c = PG_LONGOPT_VARIABLE
               then (case strsep '':'' optarg of
                       (name, u) \<Rightarrow>
                         (case mp_array_push (pg_variable a) (Some name) (pg_variables a) of
                            (vars, n) \<Rightarrow>
                              (case mp_array_push (pg_unit a) (Some (if u \<noteq> None then name else [])) (n - 1) of
                                 (units, n) \<Rightarrow> a\<lparr>pg_variable := vars, pg_unit := units, pg_variables := n\<rparr>)))
               else a))"

definition pgsql_process_arguments :: "bool \<Rightarrow> resolver \<Rightarrow> (char \<times> string) list \<Rightarrow> mp_globals \<Rightarrow> mp_end + pgsql_vars" where
  "pgsql_process_arguments v6 gai os g = run_opts (pgsql_opt v6 gai) os pgsql_vars0 g"

definition pgsql_status :: "pgsql_env \<Rightarrow> mp_globals \<Rightarrow> mp_end + mp_globals" where
  "pgsql_status env g =
     (if \<not> mp_showperfdata g then Inr g
      else case mp_pgsql_exec env ''SELECT COUNT(*) AS conn FROM pg_stat_activity;'' g of
             (None, g) \<Rightarrow>
               Inl (critical (''Query '' @ quoted ''SELECT COUNT(*) AS con FROM pg_stat_activity;'' @ '' failed: '' @ pg_error env) g)
           | (Some rows, g) \<Rightarrow>
               (case PQgetvalue rows 0 0 of
                  None \<Rightarrow> Inl Crash
                | Some v \<Rightarrow> Inr (snd (mp_perfdata_int ''conn'' (strtol 10 v) ''c'' None g))))"

definition check_pgsql_main :: "bool \<Rightarrow> resolver \<Rightarrow> pgsql_env \<Rightarrow> (char \<times> string) list \<Rightarrow> mp_globals \<Rightarrow> mp_end" where
  "check_pgsql_main v6 gai env os g =
     (case pgsql_process_arguments v6 gai os g of
        Inl e \<Rightarrow> e
      | Inr a \<Rightarrow>
          (case mp_pgsql_init env a g of
             Some e \<Rightarrow> e
           | None \<Rightarrow>
               (case pgsql_status env g of
                  Inl e \<Rightarrow> e
                | Inr g \<Rightarrow>
                    ok (''PostgreSQL v'' @ mp_pgsql_version (pg_server_version env))
                      (snd (mp_perfdata_float ''time'' (fp_cast round_float (mp_time_delta (pg_stop env) (pg_start env))) ''s'' None g)))))"

section \<open>check\_pgsql\_slave\<close>

definition check_pgsql_slave_globals :: mp_globals where
  "check_pgsql_slave_globals = mp_init ''check_pgsql_slave''
     (''[-H <HOST>] [-u <USER>] [-P <PASSWORD>] [-D <DATABASE>]'')
     ''0.1'' ''Marius Rieder <marius.rieder@durchmesser.ch>'' ''2013''"

definition check_pgsql_slave_print_help :: "int option \<Rightarrow> string \<Rightarrow> string \<Rightarrow> string" where
  "check_pgsql_slave_print_help libversion package version =
     print_revision package version check_pgsql_slave_globals @
     print_revision_pgsql libversion @
     print_copyright check_pgsql_slave_globals @
     help_lines
       [[],
        ''Check description: Check PostgreSQL r/o slave status and delay.'',
        []] @
     print_usage check_pgsql_slave_globals @
     print_help_default @
     print_help_pgsql @
     print_help_warn_time ''300 sec'' @
     print_help_crit_time ''3600 sec''"

record pgslave_args = pgsql_args +
  delay_thresholds :: "thresholds option"

definition pgslave_args0 :: pgslave_args where
  "pgslave_args0 = pgsql_args.extend pgsql_args0
     (pgslave_args.fields (fst (mp_threshold_set_critical_time (fst (mp_threshold_set_warning_time None ''300s'')) ''3600s'')))"

definition pgslave_opt :: "bool \<Rightarrow> resolver \<Rightarrow> pgslave_args opt_handler" where
  "pgslave_opt v6 gai c optarg a g =
     (case getopt_wc_time c optarg (delay_thresholds a) g of
        Inl e \<Rightarrow> Inl e
      | Inr t \<Rightarrow> getopt_pgsql v6 gai c optarg (a\<lparr>delay_thresholds := t\<rparr>) g)"

definition pgslave_process_arguments :: "bool \<Rightarrow> resolver \<Rightarrow> (char \<times> string) list \<Rightarrow> mp_globals \<Rightarrow> mp_end + pgslave_args" where
  "pgslave_process_arguments v6 gai os g = run_opts (pgslave_opt v6 gai) os pgslave_args0 g"

definition slave_query :: string where
  "slave_query = ''SELECT pg_is_in_recovery() AS recovery, NOW() - pg_last_xact_replay_timestamp() AS replication_delay;''"

text \<open>The delay from the text of an interval, in single precision; \<open>None\<close> is a pointer moved behind the end of the text. The pointer skips the
  byte where the hours end and then three bytes for the minutes.\<close>

definition slave_delay :: "string \<Rightarrow> fp option" where
  "slave_delay val =
     (case strtol_end 10 val of
        [] \<Rightarrow> None
      | _ # val2 \<Rightarrow>
          if length val2 < 3 then None
          else
            let delay = flt_of_int (strtol 10 val * 3600);
                delay = fp_add round_float delay (flt_of_int (strtol 10 val2 * 60))
            in Some (fp_add round_float delay (fst (strtof (drop 3 val2)))))"

definition pgslave_report :: "pgslave_args \<Rightarrow> string \<Rightarrow> fp \<Rightarrow> mp_globals \<Rightarrow> mp_end" where
  "pgslave_report a val delay g =
     (case mp_perfdata_float ''delay'' delay ''s'' (delay_thresholds a) g of
        (t, g) \<Rightarrow>
          let s = get_status delay t; m = ''PostgreSQL Slave Delay: '' @ val
          in if s = STATE_OK then ok m g
             else if s = STATE_WARNING then warning m g
             else if s = STATE_CRITICAL then critical m g
             else critical ''You should never reach this point.'' g)"

definition check_pgsql_slave_main :: "bool \<Rightarrow> resolver \<Rightarrow> pgsql_env \<Rightarrow> (char \<times> string) list \<Rightarrow> mp_globals \<Rightarrow> mp_end" where
  "check_pgsql_slave_main v6 gai env os g =
     (case pgslave_process_arguments v6 gai os g of
        Inl e \<Rightarrow> e
      | Inr a \<Rightarrow>
          (case mp_pgsql_init env a g of
             Some e \<Rightarrow> e
           | None \<Rightarrow>
               (case mp_pgsql_exec env slave_query g of
                  (None, g) \<Rightarrow> critical (''Query '' @ quoted slave_query @ '' failed: '' @ pg_error env) g
                | (Some rows, g) \<Rightarrow>
                    (case PQgetvalue rows 0 0 of
                       None \<Rightarrow> Crash
                     | Some v \<Rightarrow>
                         if starts_with v (CHR ''f'') then critical ''PostgreSQL is not in recover mode.'' g
                         else (case PQgetvalue rows 0 1 of
                                 None \<Rightarrow> Crash
                               | Some val \<Rightarrow> (case slave_delay val of None \<Rightarrow> Crash | Some d \<Rightarrow> pgslave_report a val d g))))))"

section \<open>The delay\<close>

text \<open>The text of an interval below 100 hours.\<close>

definition two :: "int \<Rightarrow> string" where
  "two n = [dig (n div 10), dig (n mod 10)]"

definition interval_text :: "int \<Rightarrow> int \<Rightarrow> int \<Rightarrow> string" where
  "interval_text h m s = two h @ '':'' @ two m @ '':'' @ two s"

lemma two_digits:
  assumes "0 \<le> n" "n < 100"
  shows "takeWhile (\<lambda>c. digit_val c < 10) (two n @ CHR '':'' # r) = two n" "digits_val 10 (two n) = n" "strtol_sign (two n @ r) = (False, two n @ r)"
proof -
  have d: "0 \<le> n div 10" "n div 10 < 10" "0 \<le> n mod 10" "n mod 10 < 10" using assms by simp_all
  have v: "digit_val (dig (n div 10)) = n div 10" "digit_val (dig (n mod 10)) = n mod 10"
    using d by (simp_all add: digit_val_dig)
  show "takeWhile (\<lambda>c. digit_val c < 10) (two n @ CHR '':'' # r) = two n"
    using d v by (simp add: two_def) (simp add: digit_val_def ctype_defs ccode_def)
  show "digits_val 10 (two n) = n" using v by (simp add: two_def digits_val_def)
  show "strtol_sign (two n @ r) = (False, two n @ r)"
    using d isspace_dig [of "n div 10"] dig_neq [of "n div 10"] by (simp add: two_def strtol_sign_def)
qed

lemma strtol_two:
  assumes "0 \<le> n" "n < 100"
  shows "strtol 10 (two n @ CHR '':'' # r) = n" "strtol_end 10 (two n @ CHR '':'' # r) = CHR '':'' # r"
proof -
  have "strtol_exact 10 (two n @ CHR '':'' # r) = n"
    using two_digits [OF assms] strip_0x_base10 by (simp add: strtol_exact_def)
  then show "strtol 10 (two n @ CHR '':'' # r) = n" using assms by (simp add: strtol_def LONG_MAX_def LONG_MIN_def)
  show "strtol_end 10 (two n @ CHR '':'' # r) = CHR '':'' # r"
    using two_digits [OF assms] strip_0x_base10 by (simp add: strtol_end_def) (simp add: two_def)
qed

lemma round_float_nat: "0 \<le> n \<Longrightarrow> n < 2 ^ 24 \<Longrightarrow> round_float False (of_int n) = Num False (of_int n)"
  using round_fp_of_int [of n 24 128 "-149" False] by (cases "n = 0") (simp_all add: round_fp_def)

lemma flt_nat: "0 \<le> n \<Longrightarrow> n < 2 ^ 24 \<Longrightarrow> flt_of_int n = Num False (of_int n)"
  using round_float_nat by (simp add: fp_of_rat_def)

lemma strtof_two:
  assumes "0 \<le> n" "n < 100"
  shows "strtof (two n) = (Num False (of_int n), [])"
proof -
  have d: "isdigit (dig (n div 10))" "isdigit (dig (n mod 10))" using assms by (simp_all add: isdigit_dig)
  have "tolower_code (dig (n mod 10)) \<noteq> 120" using d(2) by (auto simp: isdigit_def tolower_code_def isupper_def)
  moreover have "read_mantissa 10 isdigit (two n) = (of_int n, [], True)"
    using d two_digits(2) [OF assms] by (simp add: read_mantissa_def two_def)
  ultimately have "strto_fp round_float (two n) = (round_float False (of_int n), [])"
    using d two_digits(3) [OF assms, of "[]"]
    by (intro strto_fp_plain [where c = "dig (n div 10)" and r = "[dig (n mod 10)]"]) (simp_all add: two_def)
  then show ?thesis using round_float_nat [of n] assms by (simp add: strtof_def)
qed

lemma slave_delay_text:
  assumes "0 \<le> h" "h < 100" "0 \<le> m" "m < 60" "0 \<le> s" "s < 60"
  shows "slave_delay (interval_text h m s) = Some (Num False (of_int (3600 * h + 60 * m + s)))"
proof -
  have add: "fp_add round_float (Num False (of_int x)) (Num False (of_int y)) = Num False (of_int (x + y))"
    if "0 \<le> x" "0 \<le> y" "x + y < 2 ^ 24" for x y
  proof (cases "x + y = 0")
    case True
    then show ?thesis using that by (simp add: add_nonneg_eq_0_iff)
  next
    case False
    have "rat_of_int x + rat_of_int y = rat_of_int (x + y)" by simp
    moreover have "(rat_of_int (x + y) < 0) = False" "(rat_of_int (x + y) = 0) = False" "\<bar>rat_of_int (x + y)\<bar> = rat_of_int (x + y)"
      using that(1,2) False by (simp_all add: not_less del: of_int_add)
    moreover have "round_float False (rat_of_int (x + y)) = Num False (rat_of_int (x + y))" using that by (intro round_float_nat) simp_all
    ultimately show ?thesis by (simp only: fp_add.simps fp_val.simps Let_def if_False)
  qed
  have "slave_delay (interval_text h m s) = Some (fp_add round_float (fp_add round_float (flt_of_int (h * 3600)) (flt_of_int (m * 60))) (Num False (of_int s)))"
    using strtol_two [OF assms(1,2)] strtol_two(1) [of m] strtof_two [of s] assms
    by (simp add: slave_delay_def interval_text_def) (simp add: two_def)
  also have "\<dots> = Some (Num False (of_int (h * 3600 + m * 60 + s)))"
  proof -
    have b: "0 \<le> h * 3600" "h * 3600 < 2 ^ 24" "0 \<le> m * 60" "m * 60 < 2 ^ 24" "h * 3600 + m * 60 < 2 ^ 24" "0 \<le> h * 3600 + m * 60"
        "h * 3600 + m * 60 + s < 2 ^ 24"
      using assms by simp_all
    show ?thesis by (simp only: flt_nat [OF b(1,2)] flt_nat [OF b(3,4)] add [OF b(1,3,5)] add [OF b(6) assms(5) b(7)])
  qed
  finally show ?thesis by (simp add: algebra_simps)
qed


text \<open>An interval of a day or more: the days count as hours and the hours as seconds.\<close>

theorem slave_delay_days: "slave_delay ''1 day 02:03:04'' = Some (Num False 3602)"
  by code_simp

definition pgsql_ex :: pgsql_env where
  "pgsql_ex = \<lparr>pg_connect = (\<lambda>_. True), pg_exec = (\<lambda>_. Some [[''t'', interval_text 0 10 5]]), pg_print = (\<lambda>_. []), pg_error = [],
     pg_server_version = 90306, pg_start = (0, 0), pg_stop = (0, 0)\<rparr>"

lemma pgslave_args0_thresholds:
  "delay_thresholds pgslave_args0 =
    Some \<lparr>th_warning = Some (spec_range TIME (Upto (Bound 300 ''s''))), th_critical = Some (spec_range TIME (Upto (Bound 3600 ''s'')))\<rparr>"
proof -
  have "fmt_d 300 @ ''s'' = ''300s''" "fmt_d 3600 @ ''s'' = ''3600s''" by code_simp+
  then show ?thesis
    using parse_upto [of TIME 300 "''s''"] parse_upto [of TIME 3600 "''s''"]
    by (simp add: pgslave_args0_def pgsql_args.defs pgslave_args.defs set_threshold_defs num_end_def unit_factor_def BISI_def TIME_def isdigit_def ccode_def
        parse_time_multiplier_string_def del: spec_range.simps)
qed


text \<open>The text of a version has its three parts.\<close>

theorem mp_pgsql_version_parts:
  "0 \<le> revision \<Longrightarrow> revision < 100 \<Longrightarrow> 0 \<le> minor \<Longrightarrow> minor < 100 \<Longrightarrow>
   mp_pgsql_version (10000 * major + 100 * minor + revision) = fmt_d major @ ''.'' @ fmt_d minor @ ''.'' @ fmt_d revision"
proof -
  assume a: "0 \<le> revision" "revision < 100" "0 \<le> minor" "minor < 100"
  have "10000 * major + 100 * minor + revision = 100 * (100 * major + minor) + revision" by simp
  then have "(10000 * major + 100 * minor + revision) mod 100 = revision" "(10000 * major + 100 * minor + revision) div 100 = 100 * major + minor"
    using a(1,2) by (simp_all only: mod_mult_self4 div_mult_self4) simp_all
  then show ?thesis using a(3,4) by (simp add: mp_pgsql_version_def Let_def)
qed

section \<open>The options\<close>

lemma getopt_pgsql_refuses: "getopt_pgsql v6 gai c s a g = Inl e \<Longrightarrow> exit_code e = Some STATE_UNKNOWN"
  by (cases "getopt_host v6 gai s g") (auto simp: getopt_pgsql_def refuse_simps split: if_splits)

lemma getopt_pgsql_delay: "getopt_pgsql v6 gai c s a g = Inr a' \<Longrightarrow> delay_thresholds a' = delay_thresholds a"
  by (cases "getopt_host v6 gai s g") (auto simp: getopt_pgsql_def split: if_splits)

interpretation pgsql_options: plugin_options "pgsql_opt v6 gai" "\<lambda>_. True" for v6 gai
  by unfold_locales (auto simp: pgsql_opt_def getopt_pgsql_refuses split: sum.splits)

interpretation pgslave_options: plugin_options "pgslave_opt v6 gai" "\<lambda>a. thresholds_both (delay_thresholds a)" for v6 gai
proof
  fix a a' :: pgslave_args and c s g
  assume p: "thresholds_both (delay_thresholds a)" "pgslave_opt v6 gai c s a g = Inr a'"
  then obtain t where t: "getopt_wc_time c s (delay_thresholds a) g = Inr t" "getopt_pgsql v6 gai c s (a\<lparr>delay_thresholds := t\<rparr>) g = Inr a'"
    by (auto simp: pgslave_opt_def split: sum.splits)
  then show "thresholds_both (delay_thresholds a')" using getopt_pgsql_delay [OF t(2)] thresholds_both_keep(2) [OF p(1) t(1)] by simp
next
  fix a c s g e
  assume "pgslave_opt v6 gai c s a g = Inl e"
  then show "exit_code e = Some STATE_UNKNOWN" by (auto simp: pgslave_opt_def getopt_pgsql_refuses refuse_simps split: sum.splits)
qed

end
