(* ===== verification/Curl_Utils.thy ===== *)
theory Curl_Utils
  imports Plugin
begin

text \<open>
  \<^verbatim>\<open>lib/curl_utils.c\<close>: the setup of a request, the callbacks that collect the answer and the headers and that
  deliver the data to send, and the options of the plugins that talk HTTP.

  libcurl is a parameter (\<open>curl_env\<close>). The options set on a handle are a list, the last one of a kind counts. A request asks the
  callback for data in pieces of the sizes \<open>cu_reads\<close>, and \<open>cu_perform\<close> gives the transfer for the options and the data
  that was sent: the header lines and the pieces of the body, which go through the callbacks that the options name. Without a
  callback for the body libcurl prints it. \<open>Crash\<close> is an access outside of an allocation or through a NULL pointer.
\<close>

section \<open>Data\<close>

text \<open>A quotation mark of a request.\<close>

definition dq :: string where "dq = [CHR 0x22]"

text \<open>\<open>struct mp_curl_data\<close>: the bytes of the allocation, the offset of the next byte to send and the number of bytes. A member that the
  source leaves uninitialised is not read.\<close>

record mp_curl_data =
  cd_data :: "string option"
  cd_start :: nat
  cd_size :: nat

definition curl_data0 :: mp_curl_data where
  "curl_data0 = \<lparr>cd_data = None, cd_start = 0, cd_size = 0\<rparr>"

text \<open>The data as a text, up to the first NUL.\<close>

definition curl_text :: "mp_curl_data \<Rightarrow> string option" where
  "curl_text d = map_option c_string (cd_data d)"

definition mp_curl_recv_blackhole :: "string \<Rightarrow> nat" where
  "mp_curl_recv_blackhole contents = length contents"

definition mp_curl_recv_data :: "string \<Rightarrow> mp_curl_data \<Rightarrow> nat \<times> mp_curl_data" where
  "mp_curl_recv_data contents d =
     (length contents,
      d\<lparr>cd_data := Some (take (cd_size d) (case cd_data d of None \<Rightarrow> [] | Some b \<Rightarrow> b) @ contents @ [CHR 0x00]),
        cd_size := cd_size d + length contents\<rparr>)"

text \<open>The rest of the data is a difference of two unsigned numbers of 64 bits.\<close>

definition mp_curl_send_data :: "nat \<Rightarrow> mp_curl_data \<Rightarrow> (string \<times> mp_curl_data) option" where
  "mp_curl_send_data n d =
     (let rest = (if cd_start d \<le> cd_size d then cd_size d - cd_start d else 2 ^ 64 + cd_size d - cd_start d);
          read_size = min n rest
      in case cd_data d of
           None \<Rightarrow> if read_size = 0 then Some ([], d) else None
         | Some b \<Rightarrow>
             if length b < cd_start d + read_size then None
             else Some (take read_size (drop (cd_start d) b), d\<lparr>cd_start := cd_start d + read_size\<rparr>))"

section \<open>Headers\<close>

text \<open>An entry of the array of headers: the name and the value found so far. The line that libcurl hands over is not terminated
  by a NUL: a comparison that reaches its end and a value without an end of line read on behind it.\<close>

type_synonym curl_header = "string \<times> string option"

definition header_slot :: "string \<Rightarrow> curl_header \<Rightarrow> mp_globals \<Rightarrow> mp_end + curl_header" where
  "header_slot contents h g =
     (case h of
        (key, Some v) \<Rightarrow> Inr h
      | (key, None) \<Rightarrow>
          if length contents \<le> length key \<and> take (length contents) key = contents then Inl Crash
          else if \<not> strncmp_eq key contents (length key) then Inr h
          else if contents ! length key \<noteq> CHR '':'' then Inr h
          else if length contents < length key + 2 then Inl (critical ''Out of memory!'' g)
          else
            let v = drop (length key + 2) contents; stop = (\<lambda>c. c \<noteq> CHR 0x0A \<and> c \<noteq> CHR 0x0D \<and> c \<noteq> CHR 0x00)
            in if list_all stop v then Inl Crash else Inr (key, Some (takeWhile stop v)))"

fun mp_curl_recv_header :: "string \<Rightarrow> curl_header list \<Rightarrow> mp_globals \<Rightarrow> mp_end + curl_header list" where
  "mp_curl_recv_header contents [] g = Inr []"
| "mp_curl_recv_header contents (h # hs) g =
     (case header_slot contents h g of
        Inl e \<Rightarrow> Inl e
      | Inr h \<Rightarrow> map_sum (\<lambda>e. e) (\<lambda>hs. h # hs) (mp_curl_recv_header contents hs g))"

section \<open>Requests\<close>

datatype write_callback = WriteBlackhole | WriteData
datatype header_callback = HeaderBlackhole | HeaderRecv

datatype curl_option =
    CURLOPT_USERAGENT string
  | CURLOPT_VERBOSE
  | CURLOPT_HTTPAUTH_ANY
  | CURLOPT_USERPWD string
  | CURLOPT_SSL_VERIFYPEER bool
  | CURLOPT_SSL_VERIFYHOST bool
  | CURLOPT_URL string
  | CURLOPT_PROTOCOLS_TFTP
  | CURLOPT_LOCALPORT int
  | CURLOPT_POST
  | CURLOPT_UPLOAD
  | CURLOPT_CUSTOMREQUEST string
  | CURLOPT_HTTPHEADER "string list"
  | CURLOPT_READFUNCTION
  | CURLOPT_WRITEFUNCTION write_callback
  | CURLOPT_HEADERFUNCTION header_callback

definition CURLE_OK :: int where "CURLE_OK = 0"
definition CURLE_UNSUPPORTED_PROTOCOL :: int where "CURLE_UNSUPPORTED_PROTOCOL = 1"

record curl_transfer =
  tr_ret :: int
  tr_headers :: "string list"
  tr_chunks :: "string list"
  tr_code :: int
  tr_time :: fp
  tr_size :: fp

record curl_env =
  cu_global_init :: int
  cu_easy_init :: bool
  cu_setopt :: "curl_option \<Rightarrow> int"
  cu_reads :: "curl_option list \<Rightarrow> nat list"
  cu_perform :: "curl_option list \<Rightarrow> string \<Rightarrow> curl_transfer"
  cu_strerror :: "int \<Rightarrow> string"
  cu_version :: string

text \<open>The callbacks that are set.\<close>

fun write_function :: "curl_option list \<Rightarrow> write_callback option" where
  "write_function [] = None"
| "write_function (opt # opts) =
     (case write_function opts of
        Some cb \<Rightarrow> Some cb
      | None \<Rightarrow> (case opt of CURLOPT_WRITEFUNCTION cb \<Rightarrow> Some cb | _ \<Rightarrow> None))"

fun header_function :: "curl_option list \<Rightarrow> header_callback option" where
  "header_function [] = None"
| "header_function (opt # opts) =
     (case header_function opts of
        Some cb \<Rightarrow> Some cb
      | None \<Rightarrow> (case opt of CURLOPT_HEADERFUNCTION cb \<Rightarrow> Some cb | _ \<Rightarrow> None))"

text \<open>What the callbacks work on.\<close>

record curl_io =
  io_query :: mp_curl_data
  io_answer :: mp_curl_data
  io_headers :: "curl_header list"

definition curl_io0 :: curl_io where
  "curl_io0 = \<lparr>io_query = curl_data0, io_answer = curl_data0, io_headers = []\<rparr>"

fun send_all :: "nat list \<Rightarrow> mp_curl_data \<Rightarrow> (string \<times> mp_curl_data) option" where
  "send_all [] d = Some ([], d)"
| "send_all (n # ns) d =
     (case mp_curl_send_data n d of
        None \<Rightarrow> None
      | Some (s, d) \<Rightarrow> (case send_all ns d of None \<Rightarrow> None | Some (t, d) \<Rightarrow> Some (s @ t, d)))"

definition recv_all :: "string list \<Rightarrow> mp_curl_data \<Rightarrow> mp_curl_data" where
  "recv_all cs d = fold (\<lambda>c d. snd (mp_curl_recv_data c d)) cs d"

definition recv_headers :: "string list \<Rightarrow> curl_header list \<Rightarrow> mp_globals \<Rightarrow> mp_end + curl_header list" where
  "recv_headers ls hs g = sum_fold (\<lambda>l hs. mp_curl_recv_header l hs g) ls hs"

text \<open>The work of \<open>curl_easy_perform\<close> on the data of the plugin: it asks for the data to send when there is a callback for it, and
  delivers the headers and then the body.\<close>

definition curl_easy_perform :: "curl_env \<Rightarrow> curl_option list \<Rightarrow> curl_io \<Rightarrow> mp_globals \<Rightarrow> mp_end + (curl_transfer \<times> curl_io \<times> mp_globals)" where
  "curl_easy_perform env opts io g =
     (case (if CURLOPT_READFUNCTION \<in> set opts then send_all (cu_reads env opts) (io_query io) else Some ([], io_query io)) of
        None \<Rightarrow> Inl Crash
      | Some (sent, q) \<Rightarrow>
          let tr = cu_perform env opts sent
          in case (if header_function opts = Some HeaderRecv then recv_headers (tr_headers tr) (io_headers io) g else Inr (io_headers io)) of
               Inl e \<Rightarrow> Inl e
             | Inr hs \<Rightarrow>
                 Inr (tr,
                   io\<lparr>io_query := q, io_headers := hs,
                     io_answer := (if write_function opts = Some WriteData then recv_all (tr_chunks tr) (io_answer io) else io_answer io)\<rparr>,
                   if write_function opts = None then mp_print (concat (tr_chunks tr)) g else g))"

text \<open>The message of libcurl is the format of the report.\<close>

definition mp_curl_perform :: "curl_env \<Rightarrow> curl_option list \<Rightarrow> curl_io \<Rightarrow> mp_globals \<Rightarrow> mp_end + (curl_transfer \<times> curl_io \<times> mp_globals)" where
  "mp_curl_perform env opts io g =
     (case curl_easy_perform env opts io g of
        Inl e \<Rightarrow> Inl e
      | Inr (tr, io, g) \<Rightarrow>
          if tr_ret tr \<noteq> CURLE_OK then Inl (exit_fmt0 critical (cu_strerror env (tr_ret tr)) g) else Inr (tr, io, g))"

section \<open>Options and setup\<close>

record curl_args =
  mp_curl_user :: "string option"
  mp_curl_pass :: "string option"
  mp_curl_subpath :: string
  mp_curl_ssl :: bool
  mp_curl_insecure :: bool

definition curl_args0 :: curl_args where
  "curl_args0 = \<lparr>mp_curl_user = None, mp_curl_pass = None, mp_curl_subpath = [], mp_curl_ssl = False, mp_curl_insecure = False\<rparr>"

definition MP_LONGOPT_PRIV0 :: char where "MP_LONGOPT_PRIV0 = CHR 0x90"
definition MP_LONGOPT_PRIV1 :: char where "MP_LONGOPT_PRIV1 = CHR 0x91"
definition MP_LONGOPT_PRIV2 :: char where "MP_LONGOPT_PRIV2 = CHR 0x92"
definition MP_LONGOPT_PRIV3 :: char where "MP_LONGOPT_PRIV3 = CHR 0x93"
definition MP_LONGOPT_PRIV4 :: char where "MP_LONGOPT_PRIV4 = CHR 0x94"

abbreviation MP_LONGOPT_CURL_SUBPATH :: char where "MP_LONGOPT_CURL_SUBPATH \<equiv> MP_LONGOPT_PRIV0"

definition getopt_curl :: "char \<Rightarrow> string \<Rightarrow> 'a curl_args_scheme \<Rightarrow> 'a curl_args_scheme" where
  "getopt_curl c optarg a =
     (if c = CHR ''u'' then a\<lparr>mp_curl_user := Some optarg\<rparr>
      else if c = CHR ''p'' then a\<lparr>mp_curl_pass := Some optarg\<rparr>
      else if c = MP_LONGOPT_CURL_SUBPATH then a\<lparr>mp_curl_subpath := optarg\<rparr>
      else a)"

text \<open>The flags of \<open>CURL_LONGOPTS\<close> are set by \<open>getopt_long\<close>, which hands over the letter 0; the text is then the name of the flag.\<close>

definition FLAG :: char where "FLAG = CHR 0x00"

definition curl_flag :: "char \<Rightarrow> string \<Rightarrow> 'a curl_args_scheme \<Rightarrow> 'a curl_args_scheme" where
  "curl_flag c name a =
     (if c \<noteq> FLAG then a
      else if name = ''ssl'' \<or> name = ''https'' then a\<lparr>mp_curl_ssl := True\<rparr>
      else if name = ''insecure'' then a\<lparr>mp_curl_insecure := True\<rparr>
      else a)"

text \<open>The setup of a handle: the options that are set. Only the results for the user agent and the verbosity are looked at.\<close>

definition curl_auth :: "string option \<Rightarrow> string option \<Rightarrow> curl_option list" where
  "curl_auth user pass =
     (if user \<noteq> None \<or> pass \<noteq> None then [CURLOPT_HTTPAUTH_ANY, CURLOPT_USERPWD (fmt_s user @ '':'' @ fmt_s pass)] else [])"

definition mp_curl_init :: "curl_env \<Rightarrow> 'a curl_args_scheme \<Rightarrow> mp_globals \<Rightarrow> mp_end + curl_option list" where
  "mp_curl_init env a g =
     (if cu_global_init env \<noteq> CURLE_OK then Inl (critical ''libcurl initialisation failed!'' g)
      else if \<not> cu_easy_init env then Inl (critical ''libcurl handler initialisation failed!'' g)
      else case mp_snprintf 64 (Some (''monitoringplug-'' @ progname g @ ''/'' @ progvers g)) g of
             Inl e \<Rightarrow> Inl e
           | Inr buf \<Rightarrow>
               if cu_setopt env (CURLOPT_USERAGENT buf) \<noteq> CURLE_OK then Inl (critical ''libcurt setting User-Agent failed'' g)
               else if 2 < mp_verbose g \<and> cu_setopt env CURLOPT_VERBOSE \<noteq> CURLE_OK then Inl (critical ''libcurt setting verbose failed'' g)
               else
                 Inr ([CURLOPT_USERAGENT buf] @ (if 2 < mp_verbose g then [CURLOPT_VERBOSE] else []) @
                   curl_auth (mp_curl_user a) (mp_curl_pass a) @
                   (if mp_curl_insecure a then [CURLOPT_SSL_VERIFYPEER False, CURLOPT_SSL_VERIFYHOST False] else [])))"

definition mp_curl_url :: "'a curl_args_scheme \<Rightarrow> string \<Rightarrow> string \<Rightarrow> int \<Rightarrow> string \<Rightarrow> cbuf" where
  "mp_curl_url a scheme hostname port path =
     mp_asprintf (scheme @ (if mp_curl_ssl a then ''s'' else []) @ ''://'' @ hostname @ '':'' @ fmt_d port @ mp_curl_subpath a @ path)"

definition print_help_curl_subpath :: string where
  "print_help_curl_subpath = help_lines [''     --subpath=SUBPATH'', ''      Prepand subpath to url.'']"

definition print_help_curl_basic_auth :: string where
  "print_help_curl_basic_auth = help_lines
     ['' -u, --user=USER'', ''      HTTP Basic Auth user.'', '' -p, --password=PASSWORD'', ''      HTTP Basic Auth password.'']"

definition print_help_curl_https :: string where
  "print_help_curl_https = help_lines
     [''     --https'', ''      Use HTTPS.'', ''     --insecure'', ''      Do not validate SSL Certificates.'']"

definition print_revision_curl :: "curl_env \<Rightarrow> string" where
  "print_revision_curl env = '' '' @ cu_version env @ nl"

section \<open>The callbacks\<close>

text \<open>Data that holds a text: its bytes and the NUL behind them.\<close>

definition holds :: "string \<Rightarrow> mp_curl_data \<Rightarrow> bool" where
  "holds s d \<longleftrightarrow> cd_size d = length s \<and> (cd_data d = Some (s @ [CHR 0x00]) \<or> cd_data d = None \<and> s = [])"

lemma recv_holds: "holds s d \<Longrightarrow> holds (s @ c) (snd (mp_curl_recv_data c d))"
  by (auto simp: holds_def mp_curl_recv_data_def)

lemma recv_all_Cons [simp]: "recv_all (c # cs) d = recv_all cs (snd (mp_curl_recv_data c d))"
  by (simp add: recv_all_def)

lemma recv_all_holds: "holds s d \<Longrightarrow> holds (s @ concat cs) (recv_all cs d)"
proof (induction cs arbitrary: s d)
  case Nil
  then show ?case by (simp add: recv_all_def)
next
  case (Cons c cs)
  then show ?case using recv_holds [of s d c] Cons.IH [of "s @ c"] by simp
qed

lemma recv_all_data: "cs \<noteq> [] \<Longrightarrow> cd_data (recv_all cs d) \<noteq> None"
proof (induction cs arbitrary: d)
  case (Cons c cs)
  then show ?case by (cases "cs = []") (simp_all add: recv_all_def mp_curl_recv_data_def)
qed simp

text \<open>The answer of a transfer: the pieces of the body joined, however it was cut; a body without a NUL is the text the plugin reads.\<close>

lemma recv_all_text:
  assumes "cs \<noteq> []" "CHR 0x00 \<notin> set (concat cs)"
  shows "curl_text (recv_all cs curl_data0) = Some (concat cs)"
proof -
  have "holds (concat cs) (recv_all cs curl_data0)"
    using recv_all_holds [of "[]" curl_data0 cs] by (simp add: holds_def curl_data0_def)
  then have "cd_data (recv_all cs curl_data0) = Some (concat cs @ [CHR 0x00])"
    using recv_all_data [OF assms(1)] by (auto simp: holds_def)
  then show ?thesis using c_string_nul [OF assms(2)] by (simp add: curl_text_def)
qed

text \<open>The data to send: each call delivers the next bytes, and none once everything is sent.\<close>

lemma mp_curl_send_data_next:
  assumes "cd_data d = Some b" "cd_start d \<le> cd_size d" "cd_size d \<le> length b"
  shows "mp_curl_send_data n d =
    Some (take n (drop (cd_start d) (take (cd_size d) b)), d\<lparr>cd_start := min (cd_start d + n) (cd_size d)\<rparr>)"
proof -
  have "take (min n (cd_size d - cd_start d)) (drop (cd_start d) b) = take n (drop (cd_start d) (take (cd_size d) b))"
    by (simp add: drop_take min.commute)
  then show ?thesis using assms by (auto simp: mp_curl_send_data_def Let_def min_def)
qed

lemma send_all_data:
  assumes "cd_data d = Some b" "cd_start d \<le> cd_size d" "cd_size d \<le> length b"
  shows "send_all ns d =
    Some (take (sum_list ns) (drop (cd_start d) (take (cd_size d) b)), d\<lparr>cd_start := min (cd_start d + sum_list ns) (cd_size d)\<rparr>)"
  using assms
proof (induction ns arbitrary: d)
  case Nil
  then show ?case by (simp add: min_def)
next
  case (Cons n ns)
  have "drop (min (cd_start d + n) (cd_size d)) (take (cd_size d) b) = drop n (drop (cd_start d) (take (cd_size d) b))"
    using Cons.prems by (simp add: min_def add.commute)
  then show ?case
    using mp_curl_send_data_next [OF Cons.prems, of n] Cons.IH [of "d\<lparr>cd_start := min (cd_start d + n) (cd_size d)\<rparr>"] Cons.prems
    by (simp add: take_add min_def)
qed

text \<open>What one side sends with \<open>mp_curl_send_data\<close> the other receives with \<open>mp_curl_recv_data\<close>. However many bytes each call asks for, as
  long as it asks for all of them together, and however the bytes are cut into pieces on the way, the receiver holds exactly the bytes of the sender
  with a NUL behind them, and the sender has nothing left.\<close>

theorem mp_curl_data_roundtrip:
  assumes "cd_data d = Some b" "cd_start d = 0" "cd_size d \<le> length b" "cd_size d \<le> sum_list ns"
    "send_all ns d = Some (sent, d')" "concat cs = sent" "cs \<noteq> []" "d'' = recv_all cs curl_data0"
  shows "cd_data d'' = Some (take (cd_size d) b @ [CHR 0x00]) \<and> cd_size d'' = cd_size d \<and> cd_start d' = cd_size d'"
proof -
  have s: "sent = take (cd_size d) b" "d' = d\<lparr>cd_start := cd_size d\<rparr>"
    using send_all_data [OF assms(1) _ assms(3), of ns] assms(2,4,5) by (simp_all add: min_def)
  have "holds sent d''"
    using recv_all_holds [of "[]" curl_data0 cs] assms(6,8) by (simp add: holds_def curl_data0_def)
  then have "cd_data d'' = Some (sent @ [CHR 0x00])" "cd_size d'' = length sent"
    using recv_all_data [OF assms(7)] assms(8) by (auto simp: holds_def)
  then show ?thesis using s assms(3) by simp
qed

theorem mp_curl_data_roundtrip_witness:
  "cd_data (recv_all [''he'', ''llo''] curl_data0) = Some (''hello'' @ [CHR 0x00])"
proof -
  have "send_all [3, 0, 9] \<lparr>cd_data = Some (''hello'' @ [CHR 0x00]), cd_start = 0, cd_size = 5\<rparr> =
      Some (''hello'', \<lparr>cd_data = Some (''hello'' @ [CHR 0x00]), cd_start = 5, cd_size = 5\<rparr>)"
    by (simp add: mp_curl_send_data_def)
  then show ?thesis
    using mp_curl_data_roundtrip [of "\<lparr>cd_data = Some (''hello'' @ [CHR 0x00]), cd_start = 0, cd_size = 5\<rparr>" "''hello'' @ [CHR 0x00]" "[3, 0, 9]"
        "''hello''" _ "[''he'', ''llo'']" "recv_all [''he'', ''llo''] curl_data0"]
    by simp
qed

text \<open>A request that is answered: the data that is sent, and what the callbacks keep of the answer.\<close>

lemma write_function_append [simp]:
  "write_function (xs @ ys) = (case write_function ys of Some cb \<Rightarrow> Some cb | None \<Rightarrow> write_function xs)"
  by (induction xs) (auto split: option.split)

lemma header_function_append [simp]:
  "header_function (xs @ ys) = (case header_function ys of Some cb \<Rightarrow> Some cb | None \<Rightarrow> header_function xs)"
  by (induction xs) (auto split: option.split)

lemma mp_curl_init_opts:
  assumes "mp_curl_init env a g = Inr opts"
  shows "write_function opts = None" "header_function opts = None" "CURLOPT_READFUNCTION \<notin> set opts"
  using assms by (auto simp: mp_curl_init_def curl_auth_def split: if_splits sum.splits)

lemma mp_curl_perform_post:
  assumes "write_function opts = Some WriteData" "header_function opts = None" "CURLOPT_READFUNCTION \<in> set opts"
    "cd_data (io_query io) = Some b" "cd_start (io_query io) = 0" "cd_size (io_query io) \<le> length b"
    "cd_size (io_query io) \<le> sum_list (cu_reads env opts)"
    "tr = cu_perform env opts (take (cd_size (io_query io)) b)" "tr_ret tr = CURLE_OK"
  shows "\<exists>q. mp_curl_perform env opts io g = Inr (tr, io\<lparr>io_query := q, io_answer := recv_all (tr_chunks tr) (io_answer io)\<rparr>, g)"
proof -
  let ?q = "(io_query io)\<lparr>cd_start := cd_size (io_query io)\<rparr>"
  have "send_all (cu_reads env opts) (io_query io) = Some (take (cd_size (io_query io)) b, ?q)"
    using send_all_data [OF assms(4) _ assms(6), of "cu_reads env opts"] assms(5,7) by (simp add: min_def)
  then have "mp_curl_perform env opts io g = Inr (tr, io\<lparr>io_query := ?q, io_answer := recv_all (tr_chunks tr) (io_answer io)\<rparr>, g)"
    using assms(1-3,8,9) by (simp add: mp_curl_perform_def curl_easy_perform_def Let_def)
  then show ?thesis by blast
qed

lemma mp_curl_perform_get:
  assumes "write_function opts = Some WriteData" "header_function opts = None" "CURLOPT_READFUNCTION \<notin> set opts"
    "tr = cu_perform env opts []" "tr_ret tr = CURLE_OK"
  shows "mp_curl_perform env opts io g = Inr (tr, io\<lparr>io_answer := recv_all (tr_chunks tr) (io_answer io)\<rparr>, g)"
  using assms by (simp add: mp_curl_perform_def curl_easy_perform_def Let_def)

text \<open>A header line of the form \<open>Name: value\<close> is stored for its name, unless a value is stored already; a line of another
  name, also one that only differs in case, is passed over.\<close>

lemma header_slot_hit:
  assumes "list_all (\<lambda>c. c \<noteq> CHR 0x0A \<and> c \<noteq> CHR 0x0D \<and> c \<noteq> CHR 0x00) v"
  shows "header_slot (key @ '': '' @ v @ [CHR 0x0D, CHR 0x0A]) (key, None) g = Inr (key, Some v)"
proof -
  have "strncmp_eq key (key @ '': '' @ v @ [CHR 0x0D, CHR 0x0A]) (length key)"
    by (simp add: strncmp_eq_def)
  moreover have "takeWhile (\<lambda>c. c \<noteq> CHR 0x0A \<and> c \<noteq> CHR 0x0D \<and> c \<noteq> CHR 0x00) (v @ [CHR 0x0D, CHR 0x0A]) = v"
    using assms by (induction v) auto
  ultimately show ?thesis by (simp add: header_slot_def nth_append)
qed

lemma header_slot_other:
  assumes "\<not> prefix key line" "\<not> prefix line key"
  shows "header_slot line (key, None) g = Inr (key, None)"
proof -
  have "\<not> strncmp_eq key line (length key)"
    using assms(1) take_is_prefix [of "length key" line] by (auto simp: strncmp_eq_def)
  moreover have "take (length line) key \<noteq> line" using assms(2) by (metis take_is_prefix)
  ultimately show ?thesis by (auto simp: header_slot_def)
qed

lemma header_slot_set [simp]: "header_slot line (key, Some v) g = Inr (key, Some v)"
  by (simp add: header_slot_def)

lemma recv_headers_set: "recv_headers ls [(key, Some v)] g = Inr [(key, Some v)]"
  by (induction ls) (simp_all add: recv_headers_def)

lemma recv_headers_found:
  assumes "\<forall>l \<in> set pre. \<not> prefix key l \<and> \<not> prefix l key" "list_all (\<lambda>c. c \<noteq> CHR 0x0A \<and> c \<noteq> CHR 0x0D \<and> c \<noteq> CHR 0x00) v"
  shows "recv_headers (pre @ (key @ '': '' @ v @ [CHR 0x0D, CHR 0x0A]) # post) [(key, None)] g = Inr [(key, Some v)]"
  using assms(1)
proof (induction pre)
  case Nil
  then show ?case using header_slot_hit [OF assms(2), of key g] recv_headers_set [of post key v g] by (simp add: recv_headers_def)
next
  case (Cons l pre)
  then show ?case using header_slot_other [of key l g] by (simp add: recv_headers_def)
qed

lemma mp_curl_perform_headers:
  assumes "write_function opts = Some WriteData" "header_function opts = Some HeaderRecv" "CURLOPT_READFUNCTION \<notin> set opts"
    "tr = cu_perform env opts []" "tr_ret tr = CURLE_OK" "recv_headers (tr_headers tr) (io_headers io) g = Inr hs"
  shows "mp_curl_perform env opts io g = Inr (tr, io\<lparr>io_headers := hs, io_answer := recv_all (tr_chunks tr) (io_answer io)\<rparr>, g)"
  using assms by (simp add: mp_curl_perform_def curl_easy_perform_def Let_def)

text \<open>A server that answers to what it expects, for the examples.\<close>

definition curl_ex :: "string \<Rightarrow> string list \<Rightarrow> string list \<Rightarrow> curl_env" where
  "curl_ex sent hs cs = \<lparr>cu_global_init = 0, cu_easy_init = True, cu_setopt = (\<lambda>_. 0), cu_reads = (\<lambda>_. [100, 100]),
     cu_perform = (\<lambda>_ s. \<lparr>tr_ret = (if s = sent then 0 else 7), tr_headers = hs, tr_chunks = cs, tr_code = 200, tr_time = Num False 0, tr_size = Num False 0\<rparr>),
     cu_strerror = (\<lambda>_. ''Could not connect to server''), cu_version = ''libcurl/7''\<rparr>"

end
