(* ===== verification/Check_HTTP.thy ===== *)
theory Check_HTTP
  imports Curl_Utils JSON_Utils
begin

text \<open>
  \<^verbatim>\<open>curl/check_apache_status.c\<close> and \<^verbatim>\<open>curl/check_buildbot_slave.c\<close>: the scoreboard of an Apache server and the slaves of a Buildbot
  master. libcurl and json-c are parameters, and so is the text of the help.
\<close>

section \<open>check\_apache\_status\<close>

definition check_apache_status_globals :: mp_globals where
  "check_apache_status_globals = mp_init ''check_apache_status''
     (''--url <URL>'')
     ''0.1'' ''Marius Rieder <marius.rieder@durchmesser.ch>'' ''2012''"

definition check_apache_status_print_help :: "curl_env \<Rightarrow> string \<Rightarrow> string \<Rightarrow> string" where
  "check_apache_status_print_help env package version =
     print_revision package version check_apache_status_globals @
     print_revision_curl env @
     print_copyright check_apache_status_globals @
     help_lines
       [[],
        ''Check description: Check Apache HTTPD mod_status output.'',
        []] @
     print_usage check_apache_status_globals @
     print_help_default @
     print_help_host @
     print_help_port ''80'' @
     help_lines
       ['' -u, --url=URL'',
        ''      URL of mod_status.''] @
     print_help_warn ''open slots'' ''none'' @
     print_help_crit ''open slots'' ''none''"

record apache_args =
  ap_url :: "string option"
  ap_hostname :: "string option"
  ap_port :: int
  open_thresholds :: "thresholds option"

definition apache_args0 :: apache_args where
  "apache_args0 = \<lparr>ap_url = None, ap_hostname = None, ap_port = 80, open_thresholds = None\<rparr>"

definition apache_opt :: "bool \<Rightarrow> resolver \<Rightarrow> apache_args opt_handler" where
  "apache_opt v6 gai c optarg a g =
     (case getopt_wc c optarg (open_thresholds a) g of
        Inl e \<Rightarrow> Inl e
      | Inr t \<Rightarrow>
          let a = a\<lparr>open_thresholds := t\<rparr>
          in if c = CHR ''u'' then map_sum (\<lambda>e. e) (\<lambda>u. a\<lparr>ap_url := Some u\<rparr>) (getopt_url v6 gai optarg g)
             else if c = CHR ''H'' then map_sum (\<lambda>e. e) (\<lambda>h. a\<lparr>ap_hostname := Some h\<rparr>) (getopt_host v6 gai optarg g)
             else if c = CHR ''P'' then map_sum (\<lambda>e. e) (\<lambda>p. a\<lparr>ap_port := p\<rparr>) (getopt_port optarg g)
             else Inr a)"

text \<open>The scheme is tested before the code looks whether there is an address at all: without one a NULL pointer is compared, so the code that
  builds the address from the host name is never reached.\<close>

definition apache_process_arguments :: "bool \<Rightarrow> resolver \<Rightarrow> nat \<Rightarrow> string \<Rightarrow> (char \<times> string) list \<Rightarrow> mp_globals \<Rightarrow> mp_end + apache_args" where
  "apache_process_arguments v6 gai argc help os g =
     (if argc < 2 then Inl (Exit STATE_OK (stdout g @ help))
      else case run_opts (apache_opt v6 gai) os apache_args0 g of
             Inl e \<Rightarrow> Inl e
           | Inr a \<Rightarrow>
               (case ap_url a of
                  None \<Rightarrow> Inl Crash
                | Some url \<Rightarrow>
                    if \<not> is_url_scheme url ''http'' \<and> \<not> is_url_scheme url ''https'' then Inl (usage ''Only http and https url allowed.'' g)
                    else if ap_hostname a \<noteq> None then Inl (usage ''Only Url or Hostname allowed.'' g)
                    else if drop (length url - 5) url \<noteq> ''?auto'' then Inr (a\<lparr>ap_url := Some (url @ ''?auto'')\<rparr>)
                    else Inr a))"

record scoreboard =
  sb_wait :: int
  sb_start :: int
  sb_recv :: int
  sb_send :: int
  sb_keep :: int
  sb_dns :: int
  sb_close :: int
  sb_log :: int
  sb_grace :: int
  sb_idle :: int
  sb_open :: int

definition scoreboard0 :: scoreboard where
  "scoreboard0 = \<lparr>sb_wait = 0, sb_start = 0, sb_recv = 0, sb_send = 0, sb_keep = 0, sb_dns = 0, sb_close = 0, sb_log = 0, sb_grace = 0, sb_idle = 0, sb_open = 0\<rparr>"

definition sb_char :: "char \<Rightarrow> scoreboard \<Rightarrow> scoreboard" where
  "sb_char c sb =
     (if c = CHR ''.'' then sb\<lparr>sb_open := sb_open sb + 1\<rparr>
      else if c = CHR ''_'' then sb\<lparr>sb_wait := sb_wait sb + 1\<rparr>
      else if c = CHR ''S'' then sb\<lparr>sb_start := sb_start sb + 1\<rparr>
      else if c = CHR ''R'' then sb\<lparr>sb_recv := sb_recv sb + 1\<rparr>
      else if c = CHR ''W'' then sb\<lparr>sb_send := sb_send sb + 1\<rparr>
      else if c = CHR ''K'' then sb\<lparr>sb_keep := sb_keep sb + 1\<rparr>
      else if c = CHR ''D'' then sb\<lparr>sb_dns := sb_dns sb + 1\<rparr>
      else if c = CHR ''C'' then sb\<lparr>sb_close := sb_close sb + 1\<rparr>
      else if c = CHR ''L'' then sb\<lparr>sb_log := sb_log sb + 1\<rparr>
      else if c = CHR ''G'' then sb\<lparr>sb_grace := sb_grace sb + 1\<rparr>
      else if c = CHR ''I'' then sb\<lparr>sb_idle := sb_idle sb + 1\<rparr>
      else sb)"

text \<open>The lines of the answer. \<open>None\<close> is the use of a NULL pointer: at the end of a text that does not end with a newline, and for a
  scoreboard without a value.\<close>

function apache_lines :: "string \<Rightarrow> scoreboard \<Rightarrow> mp_globals \<Rightarrow> (scoreboard \<times> mp_globals) option" where
  "apache_lines buf sb g =
     (if buf = [] then Some (sb, g)
      else case strsep [newline] buf of
             (line, rest) \<Rightarrow>
               (case strsep '': '' line of
                  (key, val) \<Rightarrow>
                    let g = (if 1 < mp_verbose g then mp_print (key @ '' => '' @ fmt_s val @ nl) g else g)
                    in if key = ''Scoreboard'' \<and> val = None then None
                       else
                         let sb = (if key = ''Scoreboard'' then fold sb_char (the val) sb else sb)
                         in case rest of None \<Rightarrow> None | Some r \<Rightarrow> apache_lines r sb g))"
  by pat_completeness auto
termination
  by (relation "measure (\<lambda>(buf, sb, g). length buf)") (auto dest: strsep_Some_length [OF sym])

declare apache_lines.simps [simp del]

definition apache_perf :: "scoreboard \<Rightarrow> mp_globals \<Rightarrow> mp_globals" where
  "apache_perf sb g = fold (\<lambda>(label, n) g. snd (mp_perfdata_int label n ''c'' None g))
     [(''start'', sb_start sb),
      (''read'', sb_recv sb),
      (''write'', sb_send sb),
      (''keep'', sb_keep sb),
      (''dns'', sb_dns sb),
      (''close'', sb_close sb),
      (''log'', sb_log sb),
      (''grace'', sb_grace sb),
      (''idle'', sb_idle sb),
      (''open'', sb_open sb)] g"

definition apache_report :: "apache_args \<Rightarrow> string option \<Rightarrow> scoreboard \<Rightarrow> mp_globals \<Rightarrow> mp_end" where
  "apache_report a server sb g =
     (case mp_perfdata_int ''open'' (sb_open sb) ''c'' (open_thresholds a) g of
        (t, g) \<Rightarrow>
          let g = apache_perf sb g; s = get_status (dbl_of_int (sb_open sb)) t
          in if t \<noteq> None \<and> s = STATE_WARNING then warning (''Apache HTTPD low on open slots - '' @ fmt_s server) g
             else if t \<noteq> None \<and> s = STATE_CRITICAL then critical (''Apache HTTPD not enough open slots - '' @ fmt_s server) g
             else ok (''Apache HTTPD status - '' @ fmt_s server) g)"

definition apache_request :: "string \<Rightarrow> curl_option list \<Rightarrow> curl_option list" where
  "apache_request url opts = opts @ [CURLOPT_URL url, CURLOPT_WRITEFUNCTION WriteData, CURLOPT_HEADERFUNCTION HeaderRecv]"

definition check_apache_status_main ::
    "bool \<Rightarrow> resolver \<Rightarrow> curl_env \<Rightarrow> nat \<Rightarrow> string \<Rightarrow> (char \<times> string) list \<Rightarrow> mp_globals \<Rightarrow> mp_end" where
  "check_apache_status_main v6 gai env argc help os g =
     (case apache_process_arguments v6 gai argc help os g of
        Inl e \<Rightarrow> e
      | Inr a \<Rightarrow>
          let url = the (ap_url a);
              g = (if 0 < mp_verbose g
                   then mp_print (''CURL Version: '' @ cu_version env @ nl @ ''Url: '' @ url @ nl @
                          print_thresholds ''open_thresholds'' (open_thresholds a)) g
                   else g)
          in case mp_curl_init env curl_args0 g of
               Inl e \<Rightarrow> e
             | Inr opts \<Rightarrow>
                 (case mp_curl_perform env (apache_request url opts) (curl_io0\<lparr>io_headers := [(''Server'', None)]\<rparr>) g of
                    Inl e \<Rightarrow> e
                  | Inr (tr, io, g) \<Rightarrow>
                      let server = snd (hd (io_headers io)); data = curl_text (io_answer io);
                          g = (if 1 < mp_verbose g
                               then mp_print (''Code: '' @ fmt_d (tr_code tr) @ nl @ ''Server: '' @ fmt_s server @ nl @
                                      (if 2 < mp_verbose g then ''Answer: '' @ quoted (fmt_s data) @ nl else [])) g
                               else g)
                      in case data of
                           None \<Rightarrow> Crash
                         | Some buf \<Rightarrow>
                             (case apache_lines buf scoreboard0 g of None \<Rightarrow> Crash | Some (sb, g) \<Rightarrow> apache_report a server sb g)))"

section \<open>check\_buildbot\_slave\<close>

definition check_buildbot_slave_globals :: mp_globals where
  "check_buildbot_slave_globals = mp_init ''check_buildbot_slave''
     (''--hostname <BUILDBOTHOST> [--slave <SLAVENAME>]'')
     ''0.1'' ''Marius Rieder <marius.rieder@durchmesser.ch>'' ''2010''"

definition check_buildbot_slave_print_help :: "curl_env \<Rightarrow> string \<Rightarrow> string \<Rightarrow> string" where
  "check_buildbot_slave_print_help env package version =
     print_revision package version check_buildbot_slave_globals @
     print_revision_curl env @
     print_copyright check_buildbot_slave_globals @
     help_lines
       [[],
        ''Check description: Check BuildBot slave state by json.'',
        []] @
     print_usage check_buildbot_slave_globals @
     print_help_default @
     print_help_host @
     print_help_port ''8010'' @
     print_help_curl_subpath @
     print_help_curl_basic_auth @
     print_help_curl_https @
     help_lines
       ['' -S, --slave=SLAVE'',
        ''      Check state of defines SLAVE(s).'']"

record buildbot_args = curl_args +
  bb_hostname :: "string option"
  bb_port :: int
  bb_slave :: "string option list"
  bb_slaves :: nat

definition buildbot_args0 :: buildbot_args where
  "buildbot_args0 = curl_args.extend curl_args0 (buildbot_args.fields None 8010 [] 0)"

definition buildbot_opt :: "bool \<Rightarrow> resolver \<Rightarrow> buildbot_args opt_handler" where
  "buildbot_opt v6 gai c optarg a g =
     (let a = getopt_curl c optarg (curl_flag c optarg a)
      in if c = CHR ''S''
         then (case mp_array_push (bb_slave a) (Some optarg) (bb_slaves a) of (arr, n) \<Rightarrow> Inr (a\<lparr>bb_slave := arr, bb_slaves := n\<rparr>))
         else if c = CHR ''H'' then map_sum (\<lambda>e. e) (\<lambda>h. a\<lparr>bb_hostname := Some h\<rparr>) (getopt_host v6 gai optarg g)
         else if c = CHR ''P'' then map_sum (\<lambda>e. e) (\<lambda>p. a\<lparr>bb_port := p\<rparr>) (getopt_port optarg g)
         else Inr a)"

definition buildbot_process_arguments :: "bool \<Rightarrow> resolver \<Rightarrow> nat \<Rightarrow> string \<Rightarrow> (char \<times> string) list \<Rightarrow> mp_globals \<Rightarrow> mp_end + buildbot_args" where
  "buildbot_process_arguments v6 gai argc help os g =
     (if argc < 2 then Inl (Exit STATE_OK (stdout g @ help))
      else case run_opts (buildbot_opt v6 gai) os buildbot_args0 g of
             Inl e \<Rightarrow> Inl e
           | Inr a \<Rightarrow> if bb_hostname a = None then Inl (usage ''Hostname is mandatory.'' g) else Inr a)"

definition buildbot_url :: "buildbot_args \<Rightarrow> cbuf option" where
  "buildbot_url a =
     (let url = Some (mp_curl_url a ''http'' (the (bb_hostname a)) (bb_port a) ''/json/slaves'')
      in case take (bb_slaves a) (bb_slave a) of
           [] \<Rightarrow> url
         | s # ss \<Rightarrow>
             fold (\<lambda>s url. mp_strcat (mp_strcat url (Some ''&select='')) s) ss (mp_strcat (mp_strcat url (Some ''?select='')) s))"

text \<open>The trailing space of a host name is removed from its end; a name that is nothing but space makes the loop read in front of the text.\<close>

definition trim_host :: "string option \<Rightarrow> string option option" where
  "trim_host host =
     (case host of
        None \<Rightarrow> Some None
      | Some s \<Rightarrow> if list_all isspace s then None else Some (Some (rev (dropWhile isspace (rev s)))))"

record bb_st =
  bb_connected :: "cbuf option"
  bb_failed :: "cbuf option"

definition slave_state :: "'j json_lib \<Rightarrow> string \<Rightarrow> 'j option \<Rightarrow> bb_st \<Rightarrow> mp_end + bb_st" where
  "slave_state lib name slaveobj st =
     (let connected = (case mp_json_object_object_get lib slaveobj ''connected'' of (found, v) \<Rightarrow> found \<and> json_object_get_boolean lib v);
          host = (case mp_json_object_object_get lib slaveobj ''host'' of
                    (found, v) \<Rightarrow> if found then trim_host (json_object_get_string lib v) else Some (Some ''unknown''));
          version = (case mp_json_object_object_get lib slaveobj ''version'' of
                       (found, v) \<Rightarrow> if found then json_object_get_string lib v else Some ''unknown'')
      in case host of
           None \<Rightarrow> Inl Crash
         | Some host \<Rightarrow>
             Inr (if connected
                  then st\<lparr>bb_connected := mp_strcat_comma (bb_connected st) (Some (name @ '' - '' @ fmt_s host @ '' (v'' @ fmt_s version @ '')''))\<rparr>
                  else st\<lparr>bb_failed := mp_strcat_comma (bb_failed st) (Some name)\<rparr>))"

definition named_slave :: "'j json_lib \<Rightarrow> 'j option \<Rightarrow> string option \<Rightarrow> bb_st \<Rightarrow> mp_end + bb_st" where
  "named_slave lib obj slave st =
     (case slave of
        None \<Rightarrow> Inl Crash
      | Some name \<Rightarrow>
          (case mp_json_object_object_get lib obj name of
             (False, _) \<Rightarrow> Inr (st\<lparr>bb_failed := mp_strcat_comma (bb_failed st) (Some (name @ '' not found''))\<rparr>)
           | (True, slaveobj) \<Rightarrow>
               (case mp_json_object_object_get lib slaveobj ''error'' of
                  (True, e) \<Rightarrow>
                    Inr (st\<lparr>bb_failed := mp_strcat_comma (bb_failed st) (Some (name @ '' - '' @ fmt_s (json_object_get_string lib e)))\<rparr>)
                | (False, _) \<Rightarrow> slave_state lib name slaveobj st)))"

definition buildbot_slaves :: "'j json_lib \<Rightarrow> buildbot_args \<Rightarrow> 'j option \<Rightarrow> mp_end + bb_st" where
  "buildbot_slaves lib a obj =
     (let st = \<lparr>bb_connected = None, bb_failed = None\<rparr>
      in if bb_slaves a \<noteq> 0 then sum_fold (named_slave lib obj) (take (bb_slaves a) (bb_slave a)) st
         else if obj = None then Inl Crash
         else sum_fold (\<lambda>(key, val). slave_state lib key val) (json_members lib obj) st)"

text \<open>The lists of names are the formats of the reports.\<close>

definition buildbot_exit :: "bb_st \<Rightarrow> mp_globals \<Rightarrow> mp_end" where
  "buildbot_exit st g =
     (case (bb_failed st, bb_connected st) of
        (Some f, Some c) \<Rightarrow> critical (cstr f @ '', (OK: '' @ cstr c @ '')'') g
      | (Some f, None) \<Rightarrow> exit_fmt0 critical (cstr f) g
      | (None, Some c) \<Rightarrow> exit_fmt0 ok (cstr c) g
      | (None, None) \<Rightarrow> warning ''No Slaves found'' g)"

text \<open>The user and the password of the plugin itself are never set, so that block of the setup adds nothing.\<close>

definition check_buildbot_slave_main ::
    "bool \<Rightarrow> resolver \<Rightarrow> curl_env \<Rightarrow> 'j json_lib \<Rightarrow> nat \<Rightarrow> string \<Rightarrow> (char \<times> string) list \<Rightarrow> mp_globals \<Rightarrow> mp_end" where
  "check_buildbot_slave_main v6 gai env lib argc help os g =
     (case buildbot_process_arguments v6 gai argc help os g of
        Inl e \<Rightarrow> e
      | Inr a \<Rightarrow>
          let url = cstr (the (buildbot_url a));
              g = (if 0 < mp_verbose g then mp_print (''CURL Version: '' @ cu_version env @ nl @ ''Url: '' @ url @ nl) g else g)
          in case mp_curl_init env a g of
               Inl e \<Rightarrow> e
             | Inr opts \<Rightarrow>
                 (case mp_curl_perform env (opts @ [CURLOPT_URL url, CURLOPT_WRITEFUNCTION WriteData] @ curl_auth None None) curl_io0 g of
                    Inl e \<Rightarrow> e
                  | Inr (tr, io, g) \<Rightarrow>
                      if tr_code tr \<noteq> 200 then critical (''Buildbot - HTTP Status '' @ fmt_d (tr_code tr) @ ''.'') g
                      else
                        let data = curl_text (io_answer io);
                            g = (if 1 < mp_verbose g then mp_print (''Answer: '' @ quoted (fmt_s data) @ nl) g else g)
                        in case mp_json_tokener_parse lib data g of
                             Inl e \<Rightarrow> e
                           | Inr obj \<Rightarrow> (case buildbot_slaves lib a obj of Inl e \<Rightarrow> e | Inr st \<Rightarrow> buildbot_exit st g)))"

section \<open>The scoreboard\<close>

text \<open>The scoreboard of a line, nothing for every other line.\<close>

definition score_value :: "string \<Rightarrow> string" where
  "score_value l = (case strsep '': '' l of (key, val) \<Rightarrow> if key = ''Scoreboard'' then the val else [])"

lemma sb_open_fold: "sb_open (fold sb_char s sb) = sb_open sb + int (count_list s (CHR ''.''))"
  by (induction s arbitrary: sb) (auto simp: sb_char_def)

lemma sb_open_lines:
  "sb_open (fold (\<lambda>l. fold sb_char (score_value l)) ls sb) = sb_open sb + int (sum_list (map (\<lambda>l. count_list (score_value l) (CHR ''.'')) ls))"
  by (induction ls arbitrary: sb) (simp_all add: sb_open_fold)

lemma apache_lines_text:
  assumes "list_all (\<lambda>l. newline \<notin> set l \<and> l \<noteq> ''Scoreboard'') ls" "mp_verbose g \<le> 1"
  shows "apache_lines (concat (map (\<lambda>l. l @ [newline]) ls)) sb g = Some (fold (\<lambda>l. fold sb_char (score_value l)) ls sb, g)"
  using assms(1)
proof (induction ls arbitrary: sb)
  case Nil
  then show ?case by (simp add: apache_lines.simps)
next
  case (Cons l ls)
  let ?r = "concat (map (\<lambda>l. l @ [newline]) ls)"
  have s: "strsep [newline] (l @ newline # ?r) = (l, Some ?r)" using Cons.prems by (intro strsep_hit) auto
  have "\<not> (fst (strsep '': '' l) = ''Scoreboard'' \<and> snd (strsep '': '' l) = None)"
    using Cons.prems by (cases rule: strsep_cases [of "'': ''" l]) auto
  then have "apache_lines (l @ newline # ?r) sb g = apache_lines ?r (fold sb_char (score_value l) sb) g"
    using s assms(2) by (subst apache_lines.simps) (auto simp: score_value_def split_beta Let_def)
  then show ?case using Cons by simp
qed

lemma mp_verbose_perfdata [simp]: "mp_verbose (snd (mp_perfdata_int l v u t g)) = mp_verbose g"
  by (simp add: mp_perfdata_int_def mp_perfdata_int2_def perf_append_def Let_def)

text \<open>What \<open>check_apache_status\<close> reports. When the answer is a text of complete lines, the plugin counts the points of the scoreboard lines, in packets of
  any size, and ends with the state of this number of open slots, or with OK when there are no thresholds; the text names the value of the first
  Server header. The HTTP status of the answer does not matter.\<close>

theorem check_apache_status_slots:
  assumes "apache_process_arguments v6 gai argc help os g = Inr a" "ap_url a = Some url" "mp_verbose g = 0" "mp_curl_init env curl_args0 g = Inr opts"
    "tr = cu_perform env (apache_request url opts) []" "tr_ret tr = CURLE_OK"
    "tr_headers tr = pre @ (''Server: '' @ server @ [CHR 0x0D, CHR 0x0A]) # post"
    "\<forall>l \<in> set pre. \<not> prefix ''Server'' l \<and> \<not> prefix l ''Server''"
    "list_all (\<lambda>c. c \<noteq> CHR 0x0A \<and> c \<noteq> CHR 0x0D \<and> c \<noteq> CHR 0x00) server"
    "tr_chunks tr \<noteq> []" "concat (tr_chunks tr) = concat (map (\<lambda>l. l @ [newline]) ls)"
    "list_all (\<lambda>l. newline \<notin> set l \<and> CHR 0x00 \<notin> set l \<and> l \<noteq> ''Scoreboard'') ls" "no_percent (open_thresholds a)"
    "n = int (sum_list (map (\<lambda>l. count_list (score_value l) (CHR ''.'')) ls))" "lvl = get_status (dbl_of_int n) (open_thresholds a)"
  shows "\<exists>g'. check_apache_status_main v6 gai env argc help os g =
    (if lvl = STATE_OK then ok (''Apache HTTPD status - '' @ server) g'
     else if lvl = STATE_WARNING then warning (''Apache HTTPD low on open slots - '' @ server) g'
     else critical (''Apache HTTPD not enough open slots - '' @ server) g')"
proof -
  have h: "recv_headers (tr_headers tr) [(''Server'', None)] g = Inr [(''Server'', Some server)]"
    using recv_headers_found [OF assms(8,9), of post g] assms(7) by simp
  let ?io = "curl_io0\<lparr>io_headers := [(''Server'', None)]\<rparr>"
  have x: "mp_curl_perform env (apache_request url opts) ?io g =
      Inr (tr, ?io\<lparr>io_headers := [(''Server'', Some server)], io_answer := recv_all (tr_chunks tr) curl_data0\<rparr>, g)"
    using mp_curl_perform_headers [of "apache_request url opts" tr env ?io g] mp_curl_init_opts [OF assms(4)] assms(5,6) h
    by (simp add: apache_request_def curl_io0_def)
  have t: "curl_text (recv_all (tr_chunks tr) curl_data0) = Some (concat (map (\<lambda>l. l @ [newline]) ls))"
    using recv_all_text [OF assms(10)] assms(11,12) by (auto simp: list_all_iff newline_def)
  define sb where "sb = fold (\<lambda>l. fold sb_char (score_value l)) ls scoreboard0"
  have n: "sb_open sb = n" using sb_open_lines [of ls scoreboard0] assms(14) by (simp add: sb_def scoreboard0_def)
  have "apache_lines (concat (map (\<lambda>l. l @ [newline]) ls)) scoreboard0 g = Some (sb, g)"
    unfolding sb_def using assms(3,12) by (intro apache_lines_text) (auto simp: list_all_iff)
  then have m: "check_apache_status_main v6 gai env argc help os g = apache_report a (Some server) sb g"
    using assms(1-4) x t by (simp add: check_apache_status_main_def Let_def)
  obtain g1 where "mp_perfdata_int ''open'' (sb_open sb) ''c'' (open_thresholds a) g = (open_thresholds a, g1)"
    using perfdata_thresholds(2) [OF assms(13)] by (metis prod.collapse)
  then show ?thesis
    using m n assms(15) get_status_cases [of "dbl_of_int n" "open_thresholds a"]
    by (cases "open_thresholds a") (auto simp: apache_report_def Let_def fmt_s_def get_status_def)
qed

section \<open>The slaves\<close>

text \<open>The description of a slave: whether it is connected, its host name with space behind it, and its version.\<close>

definition slave_fields :: "'j json_lib \<Rightarrow> 'j option \<Rightarrow> bool \<times> string \<times> string \<Rightarrow> bool" where
  "slave_fields lib v f \<longleftrightarrow>
     (case f of (up, host, version) \<Rightarrow>
       (\<exists>c h w sp. json_member lib v ''connected'' = (True, Some c) \<and> json_object_get_boolean lib (Some c) = up \<and>
          json_member lib v ''host'' = (True, Some h) \<and> json_object_get_string lib (Some h) = Some (host @ sp) \<and> list_all isspace sp \<and>
          host \<noteq> [] \<and> \<not> isspace (last host) \<and>
          json_member lib v ''version'' = (True, Some w) \<and> json_object_get_string lib (Some w) = Some version))"

definition slave_text :: "string \<times> bool \<times> string \<times> string \<Rightarrow> string" where
  "slave_text s = (case s of (name, up, host, version) \<Rightarrow> name @ '' - '' @ host @ '' (v'' @ version @ '')'')"

lemma trim_host_space: "host \<noteq> [] \<Longrightarrow> \<not> isspace (last host) \<Longrightarrow> list_all isspace sp \<Longrightarrow> trim_host (Some (host @ sp)) = Some (Some host)"
proof -
  assume h: "host \<noteq> []" "\<not> isspace (last host)" "list_all isspace sp"
  have "dropWhile isspace (rev sp @ rev host) = rev host"
    using h by (subst dropWhile_append2) (auto simp: list_all_iff dropWhile_eq_self_iff hd_rev)
  moreover have "\<not> list_all isspace (host @ sp)" using h(1,2) by (auto simp: list_all_iff dest: last_in_set)
  ultimately show ?thesis by (simp add: trim_host_def)
qed

lemma slave_state_fields:
  assumes "slave_fields lib v (up, host, version)"
  shows "slave_state lib name v st =
    Inr (if up then st\<lparr>bb_connected := mp_strcat_comma (bb_connected st) (Some (slave_text (name, up, host, version)))\<rparr>
         else st\<lparr>bb_failed := mp_strcat_comma (bb_failed st) (Some name)\<rparr>)"
  using assms by (auto simp: slave_fields_def slave_state_def Let_def json_get_some trim_host_space slave_text_def fmt_s_def)

lemma slaves_fold:
  assumes "list_all2 (\<lambda>(key, val) (name, f). key = name \<and> slave_fields lib val f) ms ss"
  shows "sum_fold (\<lambda>(key, val). slave_state lib key val) ms st =
    Inr \<lparr>bb_connected = add_texts (bb_connected st) (map slave_text (filter (\<lambda>s. fst (snd s)) ss)),
      bb_failed = add_texts (bb_failed st) (map fst (filter (\<lambda>s. \<not> fst (snd s)) ss))\<rparr>"
  using assms
proof (induction ms ss arbitrary: st rule: list_all2_induct)
  case Nil
  then show ?case by (simp add: add_texts_def)
next
  case (Cons m ms s ss)
  obtain name up host version where s: "s = (name, up, host, version)" by (cases s) auto
  obtain val where m: "m = (name, val)" "slave_fields lib val (up, host, version)" using Cons.hyps(1) s by (cases m) auto
  show ?case
    using Cons.IH by (cases up) (simp_all add: m(1) slave_state_fields [OF m(2)] s add_texts_def)
qed

definition buildbot_request :: "buildbot_args \<Rightarrow> curl_option list \<Rightarrow> curl_option list" where
  "buildbot_request a opts = opts @ [CURLOPT_URL (cstr (the (buildbot_url a))), CURLOPT_WRITEFUNCTION WriteData]"

lemma buildbot_exit_texts:
  assumes "buf_str (bb_connected st) = (if ups = [] then None else Some (join_with '', '' ups))"
    "buf_str (bb_failed st) = (if downs = [] then None else Some (join_with '', '' downs))"
    "CHR ''%'' \<notin> set (join_with '', '' ups)" "CHR ''%'' \<notin> set (join_with '', '' downs)"
  shows "buildbot_exit st g =
    (if downs \<noteq> [] \<and> ups \<noteq> [] then critical (join_with '', '' downs @ '', (OK: '' @ join_with '', '' ups @ '')'') g
     else if downs \<noteq> [] then critical (join_with '', '' downs) g
     else if ups \<noteq> [] then ok (join_with '', '' ups) g
     else warning ''No Slaves found'' g)"
  using assms critical_report.fmt0_plain [OF assms(4), of g] ok_report.fmt0_plain [OF assms(3), of g]
  by (cases "bb_connected st"; cases "bb_failed st") (auto simp: buildbot_exit_def split: if_splits)

text \<open>What \<open>check_buildbot_slave\<close> reports without \<open>--slave\<close>. The plugin is OK exactly when the master knows a slave and every slave is connected, and
  lists them with their hosts and versions; the slaves that are not connected make it CRITICAL and come first.\<close>

theorem check_buildbot_slave_result:
  assumes "buildbot_process_arguments v6 gai argc help os g = Inr a" "bb_slaves a = 0" "mp_verbose g = 0" "mp_curl_init env a g = Inr opts"
    "tr = cu_perform env (buildbot_request a opts) []" "tr_ret tr = CURLE_OK" "tr_code tr = 200"
    "tr_chunks tr \<noteq> []" "concat (tr_chunks tr) = body" "CHR 0x00 \<notin> set body"
    "json_tokener_parse lib (Some body) = JsonObject (Some obj)"
    "list_all2 (\<lambda>(key, val) (name, f). key = name \<and> slave_fields lib val f) (json_members lib (Some obj)) ss"
    "ups = map slave_text (filter (\<lambda>s. fst (snd s)) ss)" "downs = map fst (filter (\<lambda>s. \<not> fst (snd s)) ss)"
    "CHR ''%'' \<notin> set (join_with '', '' ups)" "CHR ''%'' \<notin> set (join_with '', '' downs)"
  shows "check_buildbot_slave_main v6 gai env lib argc help os g =
    (if downs \<noteq> [] \<and> ups \<noteq> [] then critical (join_with '', '' downs @ '', (OK: '' @ join_with '', '' ups @ '')'') g
     else if downs \<noteq> [] then critical (join_with '', '' downs) g
     else if ups \<noteq> [] then ok (join_with '', '' ups) g
     else warning ''No Slaves found'' g)"
proof -
  have x: "mp_curl_perform env (buildbot_request a opts) curl_io0 g = Inr (tr, curl_io0\<lparr>io_answer := recv_all (tr_chunks tr) curl_data0\<rparr>, g)"
    using mp_curl_perform_get [of "buildbot_request a opts" tr env curl_io0 g] mp_curl_init_opts [OF assms(4)] assms(5,6)
    by (simp add: buildbot_request_def curl_io0_def)
  have t: "curl_text (recv_all (tr_chunks tr) curl_data0) = Some body" using recv_all_text [OF assms(8)] assms(9,10) by simp
  let ?st = "\<lparr>bb_connected = add_texts None ups, bb_failed = add_texts None downs\<rparr>"
  have "buildbot_slaves lib a (Some obj) = Inr ?st"
    using slaves_fold [OF assms(12), of "\<lparr>bb_connected = None, bb_failed = None\<rparr>"] assms(2,13,14) by (simp add: buildbot_slaves_def Let_def)
  then have "check_buildbot_slave_main v6 gai env lib argc help os g = buildbot_exit ?st g"
    using assms(1,3,4,7,11) x t
    by (simp add: check_buildbot_slave_main_def buildbot_request_def mp_json_tokener_parse_def Let_def curl_auth_def)
  then show ?thesis
    using buildbot_exit_texts [of ?st ups downs g] add_texts_None [of ups] add_texts_None [of downs] assms(15,16) by simp
qed

section \<open>Examples\<close>

text \<open>A server with two open slots and a limit of five: the answer comes in three pieces.\<close>

definition apache_ex :: curl_env where
  "apache_ex = curl_ex [] [''HTTP/1.1 200 OK'' @ [CHR 0x0D, CHR 0x0A], ''Server: Apache'' @ [CHR 0x0D, CHR 0x0A]]
     [''BusyWorkers: 1'' @ [newline] @ ''Score'', ''board: W_.'', ''.'' @ [newline]]"

definition apache_ex_args :: apache_args where
  "apache_ex_args = apache_args0\<lparr>ap_url := Some ''http://www/server-status?auto'',
     open_thresholds := Some \<lparr>th_warning = None, th_critical = Some (spec_range BISI (Above (Bound 5 [])))\<rparr>\<rparr>"

lemma apache_ex_arguments:
  "apache_process_arguments True (\<lambda>f h. True) 3 [] [(CHR ''u'', ''http://www/server-status''), (CHR ''c'', ''5:'')] check_apache_status_globals =
    Inr apache_ex_args"
proof -
  have "fmt_d 5 @ [] @ '':'' = ''5:''" by code_simp
  then have "getopt_wc (CHR ''c'') ''5:'' None check_apache_status_globals =
      Inr (Some \<lparr>th_warning = None, th_critical = Some (spec_range BISI (Above (Bound 5 [])))\<rparr>)"
    using parse_above [of BISI 5 "[]"]
    by (simp add: getopt_wc_def set_threshold_defs num_end_def unit_factor_def BISI_def TIME_def parse_multiplier_string_def del: spec_range.simps)
  moreover have "getopt_url True (\<lambda>f h. True) ''http://www/server-status'' check_apache_status_globals = Inr ''http://www/server-status''"
      "is_url_scheme ''http://www/server-status'' ''http''" by code_simp+
  ultimately show ?thesis
    by (simp add: apache_process_arguments_def apache_opt_def Let_def apache_ex_args_def apache_args0_def getopt_wc_def [of "CHR ''u''"] del: spec_range.simps)
qed

theorem check_apache_status_slots_witness:
  "\<exists>g'. check_apache_status_main True (\<lambda>f h. True) apache_ex 3 [] [(CHR ''u'', ''http://www/server-status''), (CHR ''c'', ''5:'')]
     check_apache_status_globals = critical ''Apache HTTPD not enough open slots - Apache'' g'"
proof -
  have v: "mp_verbose check_apache_status_globals = 0" by (simp add: check_apache_status_globals_def mp_init_def)
  have i: "mp_curl_init apache_ex curl_args0 check_apache_status_globals = Inr [CURLOPT_USERAGENT ''monitoringplug-check_apache_status/0.1'']"
    by (simp add: mp_curl_init_def apache_ex_def curl_ex_def CURLE_OK_def check_apache_status_globals_def mp_init_def mp_snprintf_def curl_auth_def curl_args0_def)
  have t: "open_thresholds apache_ex_args = Some \<lparr>th_warning = None, th_critical = Some (spec_range BISI (Above (Bound 5 [])))\<rparr>"
      "ap_url apache_ex_args = Some ''http://www/server-status?auto''"
    by (simp_all add: apache_ex_args_def del: spec_range.simps)
  have l: "get_status (dbl_of_int 2) (open_thresholds apache_ex_args) = STATE_CRITICAL" "no_percent (open_thresholds apache_ex_args)"
    using round_double_int [of 2]
    by (simp_all add: t get_status_def no_percent_def check_above unit_factor_def BISI_def TIME_def parse_multiplier_string_def del: spec_range.simps)
  have s: "score_value ''BusyWorkers: 1'' = []" "score_value ''Scoreboard: W_..'' = '' W_..''" by code_simp+
  show ?thesis
    using check_apache_status_slots [OF apache_ex_arguments t(2) v i refl, of "[''HTTP/1.1 200 OK'' @ [CHR 0x0D, CHR 0x0A]]" "''Apache''" "[]"
        "[''BusyWorkers: 1'', ''Scoreboard: W_..'']" 2 STATE_CRITICAL] l s
    by (simp add: apache_ex_def curl_ex_def CURLE_OK_def newline_def)
qed

text \<open>With a host name instead of an address, and with an answer whose last line is not complete, the plugin uses a NULL pointer.\<close>

theorem check_apache_status_hostname:
  "check_apache_status_main True (\<lambda>f h. True) env 3 [] [(CHR ''H'', ''www'')] check_apache_status_globals = Crash"
proof -
  have "getopt_host True (\<lambda>f h. True) ''www'' check_apache_status_globals = Inr ''www''" by code_simp
  then show ?thesis
    by (simp add: check_apache_status_main_def apache_process_arguments_def apache_opt_def Let_def apache_args0_def getopt_wc_def)
qed

theorem apache_lines_incomplete: "newline \<notin> set l \<Longrightarrow> l \<noteq> [] \<Longrightarrow> apache_lines l sb g = None"
  using strsep_none [of "[newline]" l] by (subst apache_lines.simps) (auto simp: Let_def split: prod.splits)

definition slave_doc :: json_value where
  "slave_doc = JObj [(''win'', JObj [(''connected'', JInt 0), (''host'', JText ''a''), (''version'', JText ''0.8'')]),
     (''linux'', JObj [(''connected'', JInt 1), (''host'', JText (''bot'' @ [newline])), (''version'', JText ''0.9'')])]"

theorem check_buildbot_slave_result_witness:
  "check_buildbot_slave_main True (\<lambda>f h. True) (curl_ex [] [] [''{}'']) (json_ex slave_doc) 3 [] [(CHR ''H'', ''ci'')] check_buildbot_slave_globals =
    critical ''win, (OK: linux - bot (v0.9))'' check_buildbot_slave_globals"
proof -
  let ?lib = "json_ex slave_doc" and ?a = "buildbot_args0\<lparr>bb_hostname := Some ''ci''\<rparr>"
  have "getopt_host True (\<lambda>f h. True) ''ci'' check_buildbot_slave_globals = Inr ''ci''" by code_simp
  then have a: "buildbot_process_arguments True (\<lambda>f h. True) 3 [] [(CHR ''H'', ''ci'')] check_buildbot_slave_globals = Inr ?a"
    by (simp add: buildbot_process_arguments_def buildbot_opt_def getopt_curl_def curl_flag_def FLAG_def MP_LONGOPT_PRIV0_def Let_def)
  have v: "bb_slaves ?a = 0" "mp_verbose check_buildbot_slave_globals = 0"
    by (simp_all add: buildbot_args0_def curl_args.defs buildbot_args.defs check_buildbot_slave_globals_def mp_init_def)
  have i: "mp_curl_init (curl_ex [] [] [''{}'']) ?a check_buildbot_slave_globals = Inr [CURLOPT_USERAGENT ''monitoringplug-check_buildbot_slave/0.1'']"
    by (simp add: mp_curl_init_def curl_ex_def CURLE_OK_def check_buildbot_slave_globals_def mp_init_def mp_snprintf_def curl_auth_def
        buildbot_args0_def curl_args0_def curl_args.defs buildbot_args.defs)
  let ?ss = "[(''win'', False, ''a'', ''0.8''), (''linux'', True, ''bot'', ''0.9'')]"
  have j: "json_tokener_parse ?lib (Some ''{}'') = JsonObject (Some slave_doc)" by (simp add: json_ex_def)
  have "isspace newline" by (simp add: isspace_def newline_def ccode_def)
  then have f: "list_all2 (\<lambda>(key, val) (name, f). key = name \<and> slave_fields ?lib val f) (json_members ?lib (Some slave_doc)) ?ss"
    by (simp add: json_ex_def slave_doc_def slave_fields_def isspace_def ccode_def)
  show ?thesis
    using check_buildbot_slave_result [OF a v i refl, of "''{}''" ?lib slave_doc ?ss, OF _ _ _ _ _ j f refl refl]
    by (simp add: curl_ex_def CURLE_OK_def slave_text_def)
qed

text \<open>A host name of nothing but space makes the plugin read in front of the text.\<close>

theorem trim_host_blank: "list_all isspace s \<Longrightarrow> trim_host (Some s) = None"
  by (simp add: trim_host_def)

section \<open>The options\<close>

interpretation apache_options: plugin_options "apache_opt v6 gai" "\<lambda>a. thresholds_set (open_thresholds a)" for v6 gai
proof
  fix a a' :: apache_args and c s g
  assume p: "thresholds_set (open_thresholds a)" "apache_opt v6 gai c s a g = Inr a'"
  then obtain t where t: "getopt_wc c s (open_thresholds a) g = Inr t" "open_thresholds a' = t"
    by (auto simp: apache_opt_def Let_def map_sum_def split: sum.splits if_splits)
  then show "thresholds_set (open_thresholds a')" using thresholds_keep(1) [OF p(1) t(1)] by simp
next
  fix a c s g e
  assume "apache_opt v6 gai c s a g = Inl e"
  then show "exit_code e = Some STATE_UNKNOWN"
    by (auto simp: apache_opt_def Let_def refuse_simps map_sum_def split: sum.splits if_splits)
qed

interpretation buildbot_options: plugin_options "buildbot_opt v6 gai" "\<lambda>a. array_full (bb_slave a) (bb_slaves a)" for v6 gai
proof
  fix a a' :: buildbot_args and c s g
  assume p: "array_full (bb_slave a) (bb_slaves a)" "buildbot_opt v6 gai c s a g = Inr a'"
  define b where "b = getopt_curl c s (curl_flag c s a)"
  have "array_full (bb_slave b) (bb_slaves b)" using p(1) by (simp add: b_def getopt_curl_def curl_flag_def)
  then show "array_full (bb_slave a') (bb_slaves a')"
    using p(2) by (auto simp: buildbot_opt_def Let_def b_def [symmetric] map_sum_def mp_array_push_full split: sum.splits if_splits prod.splits)
next
  fix a c s g e
  assume "buildbot_opt v6 gai c s a g = Inl e"
  then show "exit_code e = Some STATE_UNKNOWN"
    by (auto simp: buildbot_opt_def Let_def refuse_simps map_sum_def split: sum.splits if_splits prod.splits)
qed

end
