(* ===== verification/Check_WebDAV.thy ===== *)
theory Check_WebDAV
  imports Curl_Utils
begin

text \<open>
  \<^verbatim>\<open>curl/check_webdav.c\<close> and \<^verbatim>\<open>lib/expat_utils.c\<close>: the methods, the content type and the listing of a WebDAV share.

  libcurl is a parameter. So is the XML parser expat: for the bytes of an answer it gives the events it reports to the handlers, and the text and the line of
  an error behind them. A build without expat (\<open>None\<close>) does not look at the listing. \<open>Crash\<close> is the use of a NULL pointer.
\<close>

definition print_revision_expat :: "string \<Rightarrow> string" where
  "print_revision_expat version = '' '' @ version @ nl"

section \<open>Arguments\<close>

definition check_webdav_globals :: mp_globals where
  "check_webdav_globals = mp_init ''check_webdav''
     (''--url <URL>'')
     ''0.1'' ''Marius Rieder <marius.rieder@durchmesser.ch>'' ''2011''"

definition check_webdav_print_help :: "curl_env \<Rightarrow> string option \<Rightarrow> string \<Rightarrow> string \<Rightarrow> string" where
  "check_webdav_print_help env expat package version =
     print_revision package version check_webdav_globals @
     print_revision_curl env @
     (case expat of None \<Rightarrow> [] | Some v \<Rightarrow> print_revision_expat v) @
     print_copyright check_webdav_globals @
     help_lines
       [[],
        ''Check description: Check WebDAV share.'',
        []] @
     print_usage check_webdav_globals @
     print_help_default @
     help_lines
       ['' -u, --url=URL'',
        ''      Url to test.'',
        '' -C, --content-type=TYPE'',
        ''      Content-Type URL should report.'',
        '' -a, --allow=METHOD[,METHOD]'',
        ''      Method or methods which should be allowed.'',
        ''     --ls'',
        ''      List the directory and check the response.''] @
     print_help_warn_time ''5 sec'' @
     print_help_crit_time ''9 sec''"

record webdav_args =
  wd_url :: "string option"
  allowShould :: "string option list"
  allowShoulds :: nat
  contentTypeShould :: "string option"
  wd_thresholds :: "thresholds option"
  do_list :: bool

definition webdav_args0 :: webdav_args where
  "webdav_args0 = \<lparr>wd_url = None, allowShould = [], allowShoulds = 0, contentTypeShould = None,
     wd_thresholds = fst (mp_threshold_set_critical_time (fst (mp_threshold_set_warning_time None ''5s'')) ''9s''), do_list = False\<rparr>"

definition webdav_opt :: "bool \<Rightarrow> resolver \<Rightarrow> webdav_args opt_handler" where
  "webdav_opt v6 gai c optarg a g =
     (case getopt_wc_time c optarg (wd_thresholds a) g of
        Inl e \<Rightarrow> Inl e
      | Inr t \<Rightarrow>
          let a = a\<lparr>wd_thresholds := t, do_list := (do_list a \<or> c = FLAG \<and> optarg = ''ls'')\<rparr>
          in if c = CHR ''u'' then map_sum (\<lambda>e. e) (\<lambda>u. a\<lparr>wd_url := Some u\<rparr>) (getopt_url v6 gai optarg g)
             else if c = CHR ''C'' then Inr (a\<lparr>contentTypeShould := Some optarg\<rparr>)
             else if c = CHR ''a''
             then (case mp_array_push (allowShould a) (Some optarg) (allowShoulds a) of (arr, n) \<Rightarrow> Inr (a\<lparr>allowShould := arr, allowShoulds := n\<rparr>))
             else Inr a)"

definition webdav_process_arguments :: "bool \<Rightarrow> resolver \<Rightarrow> nat \<Rightarrow> string \<Rightarrow> (char \<times> string) list \<Rightarrow> mp_globals \<Rightarrow> mp_end + webdav_args" where
  "webdav_process_arguments v6 gai argc help os g =
     (if argc < 2 then Inl (Exit STATE_OK (stdout g @ help))
      else case run_opts (webdav_opt v6 gai) os webdav_args0 g of
             Inl e \<Rightarrow> Inl e
           | Inr a \<Rightarrow>
               (case wd_url a of
                  None \<Rightarrow> Inl (usage ''url is mandatory.'' g)
                | Some url \<Rightarrow>
                    if \<not> is_url_scheme url ''http'' \<and> \<not> is_url_scheme url ''https'' then Inl (usage ''Only http(s) urls are allowed.'' g) else Inr a))"

section \<open>The listing\<close>

record webdav_list =
  wl_path :: "string option"
  wl_type :: "string option"
  wl_status :: "string option"

text \<open>The list has the newest entry first.\<close>

record webdav_parser =
  wp_name :: "string option"
  wp_list :: "webdav_list list"

definition on_head :: "(webdav_list \<Rightarrow> webdav_list) \<Rightarrow> webdav_parser \<Rightarrow> webdav_parser option" where
  "on_head f p = (case wp_list p of [] \<Rightarrow> None | e # es \<Rightarrow> Some (p\<lparr>wp_list := f e # es\<rparr>))"

definition webdav_startElement :: "string \<Rightarrow> webdav_parser \<Rightarrow> webdav_parser option" where
  "webdav_startElement name p =
     (case (if wp_name p = Some ''DAV:resourcetype'' then on_head (\<lambda>e. e\<lparr>wl_type := Some name\<rparr>) p else Some p) of
        None \<Rightarrow> None
      | Some p \<Rightarrow>
          let p = p\<lparr>wp_name := None\<rparr>
          in Some (if name = ''DAV:response'' then p\<lparr>wp_list := \<lparr>wl_path = None, wl_type = None, wl_status = None\<rparr> # wp_list p\<rparr>
                   else if name = ''DAV:href'' \<or> name = ''DAV:status'' \<or> name = ''DAV:resourcetype'' then p\<lparr>wp_name := Some name\<rparr>
                   else p))"

definition webdav_stopElement :: "webdav_parser \<Rightarrow> webdav_parser" where
  "webdav_stopElement p = p\<lparr>wp_name := None\<rparr>"

definition webdav_charData :: "string \<Rightarrow> webdav_parser \<Rightarrow> webdav_parser option" where
  "webdav_charData s p =
     (if wp_name p = Some ''DAV:href'' then on_head (\<lambda>e. e\<lparr>wl_path := Some s\<rparr>) p
      else if wp_name p = Some ''DAV:status'' then on_head (\<lambda>e. e\<lparr>wl_status := Some s\<rparr>) p
      else Some p)"

datatype dav_event = DavStart string | DavStop | DavChars string

fun dav_handle :: "dav_event \<Rightarrow> webdav_parser \<Rightarrow> webdav_parser option" where
  "dav_handle (DavStart name) p = webdav_startElement name p"
| "dav_handle DavStop p = Some (webdav_stopElement p)"
| "dav_handle (DavChars s) p = webdav_charData s p"

fun dav_events :: "dav_event list \<Rightarrow> webdav_parser \<Rightarrow> webdav_parser option" where
  "dav_events [] p = Some p"
| "dav_events (e # es) p = (case dav_handle e p of None \<Rightarrow> None | Some p \<Rightarrow> dav_events es p)"

type_synonym dav_xml = "string \<Rightarrow> dav_event list \<times> (string \<times> int) option"

text \<open>The parsing of an answer into an empty list.\<close>

definition webdav_parse :: "dav_xml \<Rightarrow> mp_curl_data \<Rightarrow> mp_globals \<Rightarrow> mp_end + webdav_list list" where
  "webdav_parse xml answer g =
     (case xml (take (cd_size answer) (case cd_data answer of None \<Rightarrow> [] | Some b \<Rightarrow> b)) of
        (es, err) \<Rightarrow>
          (case dav_events es \<lparr>wp_name = None, wp_list = []\<rparr> of
             None \<Rightarrow> Inl Crash
           | Some p \<Rightarrow>
               (case err of
                  Some (msg, line) \<Rightarrow> Inl (unknown (msg @ '' at line '' @ fmt_d line @ nl) g)
                | None \<Rightarrow> Inr (wp_list p))))"

definition webdav_trace :: "string \<Rightarrow> string \<Rightarrow> webdav_list list \<Rightarrow> mp_globals \<Rightarrow> mp_globals" where
  "webdav_trace url depth es g =
     (if 3 < mp_verbose g
      then mp_print (''PROPFIND '' @ url @ '' (Depth:'' @ depth @ '')'' @ nl @
             concat (map (\<lambda>e. '' * '' @ fmt_s (wl_path e) @ '' ('' @ fmt_s (wl_type e) @ '') ['' @ fmt_s (wl_status e) @ '']'' @ nl) es)) g
      else g)"

section \<open>The requests\<close>

definition propfind_query :: string where
  "propfind_query =
     ''<?xml version='' @ dq @ ''1.0'' @ dq @ '' encoding='' @ dq @ ''utf-8'' @ dq @ ''?>'' @ replicate 22 (CHR '' '') @
     ''<D:propfind xmlns:D='' @ dq @ ''DAV:'' @ dq @ ''><D:prop><D:resourcetype/>'' @ replicate 22 (CHR '' '') @ ''</D:prop></D:propfind>''"

definition options_request :: "string \<Rightarrow> curl_option list \<Rightarrow> curl_option list" where
  "options_request url opts = opts @ [CURLOPT_CUSTOMREQUEST ''OPTIONS'', CURLOPT_URL url, CURLOPT_HEADERFUNCTION HeaderRecv]"

definition propfind_request :: "string \<Rightarrow> curl_option list" where
  "propfind_request depth = [CURLOPT_HTTPHEADER [''Depth: '' @ depth], CURLOPT_CUSTOMREQUEST ''PROPFIND'', CURLOPT_UPLOAD, CURLOPT_READFUNCTION,
     CURLOPT_WRITEFUNCTION WriteData]"

text \<open>A request for the listing, with the query from its start and an empty answer; the time is added to the total.\<close>

definition propfind :: "curl_env \<Rightarrow> webdav_args \<Rightarrow> curl_option list \<Rightarrow> curl_io \<Rightarrow> fp \<Rightarrow> mp_globals \<Rightarrow> mp_end + (curl_io \<times> fp \<times> mp_globals)" where
  "propfind env a opts io time_total g =
     (case mp_curl_perform env opts
             (io\<lparr>io_query := \<lparr>cd_data = Some (propfind_query @ [CHR 0x00]), cd_start = 0, cd_size = length propfind_query\<rparr>, io_answer := curl_data0\<rparr>) g of
        Inl e \<Rightarrow> Inl e
      | Inr (tr, io, g) \<Rightarrow>
          let time_total = fp_add round_double time_total (tr_time tr)
          in if tr_code tr \<noteq> 207
             then Inl (critical (''WebDav - HTTP Response Code '' @ fmt_d (tr_code tr))
                         (snd (mp_perfdata_float ''time'' (fp_cast round_float time_total) ''s'' (wd_thresholds a) g)))
             else Inr (io, time_total, g))"

definition webdav_ls :: "curl_env \<Rightarrow> dav_xml option \<Rightarrow> webdav_args \<Rightarrow> string \<Rightarrow> curl_option list \<Rightarrow> curl_io \<Rightarrow> fp \<Rightarrow> mp_globals \<Rightarrow> mp_end + (fp \<times> mp_globals)" where
  "webdav_ls env expat a url opts io time_total g =
     (let opts = opts @ [CURLOPT_HEADERFUNCTION HeaderBlackhole] @ propfind_request ''0''
      in case propfind env a opts io time_total g of
           Inl e \<Rightarrow> Inl e
         | Inr (io, time_total, g) \<Rightarrow>
             (case expat of
                None \<Rightarrow> Inr (time_total, g)
              | Some xml \<Rightarrow>
                  (case webdav_parse xml (io_answer io) g of
                     Inl e \<Rightarrow> Inl e
                   | Inr [] \<Rightarrow> Inl (critical ''WebDAV - Parsing PROPFIND response failed!'' g)
                   | Inr (_ # _ # _) \<Rightarrow> Inl (critical ''WebDAV - Too many answers for PROPFIND Depth:0!'' g)
                   | Inr [e] \<Rightarrow>
                       (case wl_status e of
                          None \<Rightarrow> Inl Crash
                        | Some status \<Rightarrow>
                            if \<not> strstr status ''200'' then Inl (critical (''WebDAV - PROPFIND status is '' @ status) g)
                            else if wl_type e \<noteq> Some ''DAV:collection'' then Inr (time_total, g)
                            else
                              (case propfind env a (opts @ propfind_request ''1'') io time_total (webdav_trace url ''0'' [e] g) of
                                 Inl e \<Rightarrow> Inl e
                               | Inr (io, time_total, g) \<Rightarrow>
                                   (case webdav_parse xml (io_answer io) g of
                                      Inl e \<Rightarrow> Inl e
                                    | Inr es \<Rightarrow> Inr (time_total, webdav_trace url ''1'' es g)))))))"

section \<open>The report\<close>

text \<open>The first place where a text occurs.\<close>

fun strstr_pos :: "string \<Rightarrow> string \<Rightarrow> nat option" where
  "strstr_pos [] t = (if t = [] then Some 0 else None)"
| "strstr_pos (c # s) t = (if prefix t (c # s) then Some 0 else map_option Suc (strstr_pos s t))"

definition allowed :: "string \<Rightarrow> string \<Rightarrow> bool" where
  "allowed allow m =
     (case strstr_pos allow m of
        None \<Rightarrow> False
      | Some i \<Rightarrow>
          (i = 0 \<or> allow ! (i - 1) = CHR '','') \<and> (i + length m = length allow \<or> allow ! (i + length m) = CHR '',''))"

record webdav_st =
  wd_status :: int
  wd_output :: "cbuf option"

definition allow_step :: "string option \<Rightarrow> string option \<Rightarrow> webdav_st \<Rightarrow> mp_end + webdav_st" where
  "allow_step allow should st =
     (case (allow, should) of
        (Some al, Some m) \<Rightarrow>
          Inr (if allowed al m then st
               else \<lparr>wd_status = STATE_CRITICAL,
                 wd_output = (if wd_output st = None then mp_strcat_space (mp_strcat_space None (Some ''Missing Allow:'')) (Some m)
                              else mp_strcat_comma (wd_output st) (Some m))\<rparr>)
      | _ \<Rightarrow> Inl Crash)"

definition type_step :: "string option \<Rightarrow> string option \<Rightarrow> webdav_st \<Rightarrow> mp_end + webdav_st" where
  "type_step should ctype st =
     (case should of
        None \<Rightarrow> Inr st
      | Some sh \<Rightarrow>
          (case ctype of
             None \<Rightarrow> Inl Crash
           | Some ct \<Rightarrow>
               Inr (if ct = sh then st
                    else \<lparr>wd_status = STATE_CRITICAL,
                      wd_output = mp_strcat_space (mp_strcat_space (wd_output st) (Some ''Wrong Content-Type:'')) (Some ct)\<rparr>)))"

definition time_step :: "int \<Rightarrow> webdav_st \<Rightarrow> webdav_st" where
  "time_step s st =
     (if s = STATE_WARNING
      then \<lparr>wd_status = (if wd_status st = STATE_OK then STATE_WARNING else wd_status st), wd_output = mp_strcat_space (wd_output st) (Some ''Slow answer'')\<rparr>
      else if s = STATE_CRITICAL
      then \<lparr>wd_status = STATE_CRITICAL, wd_output = mp_strcat_space (wd_output st) (Some ''Answer too slow'')\<rparr>
      else st)"

definition webdav_exit :: "string option \<Rightarrow> webdav_st \<Rightarrow> mp_globals \<Rightarrow> mp_end" where
  "webdav_exit dav st g =
     (let m = ''WebDAV '' @ fmt_s dav; n = m @ '' - '' @ fmt_s (buf_str (wd_output st))
      in if wd_status st = STATE_OK then ok m g
         else if wd_status st = STATE_WARNING then warning n g
         else if wd_status st = STATE_CRITICAL then critical n g
         else unknown n g)"

definition webdav_report :: "webdav_args \<Rightarrow> string option \<Rightarrow> string option \<Rightarrow> string option \<Rightarrow> fp \<Rightarrow> mp_globals \<Rightarrow> mp_end" where
  "webdav_report a dav allow ctype time_total g =
     (case mp_perfdata_float ''time'' (fp_cast round_float time_total) ''s'' (wd_thresholds a) g of
        (t, g) \<Rightarrow>
          (case sum_fold (allow_step allow) (take (allowShoulds a) (allowShould a)) \<lparr>wd_status = STATE_OK, wd_output = None\<rparr> of
             Inl e \<Rightarrow> e
           | Inr st \<Rightarrow>
               (case type_step (contentTypeShould a) ctype st of
                  Inl e \<Rightarrow> e
                | Inr st \<Rightarrow> webdav_exit dav (time_step (get_status time_total t) st) g)))"

definition dav_headers :: "curl_header list" where
  "dav_headers = [(''DAV'', None), (''Allow'', None), (''Content-Type'', None)]"

definition check_webdav_main ::
    "bool \<Rightarrow> resolver \<Rightarrow> curl_env \<Rightarrow> dav_xml option \<Rightarrow> nat \<Rightarrow> string \<Rightarrow> (char \<times> string) list \<Rightarrow> mp_globals \<Rightarrow> mp_end" where
  "check_webdav_main v6 gai env expat argc help os g =
     (case webdav_process_arguments v6 gai argc help os g of
        Inl e \<Rightarrow> e
      | Inr a \<Rightarrow>
          (case mp_curl_init env curl_args0 g of
             Inl e \<Rightarrow> e
           | Inr opts \<Rightarrow>
               let url = the (wd_url a); opts = options_request url opts
               in case mp_curl_perform env opts (curl_io0\<lparr>io_headers := dav_headers\<rparr>) g of
                    Inl e \<Rightarrow> e
                  | Inr (tr, io, g) \<Rightarrow>
                      if tr_code tr \<noteq> 200 then critical (''WebDav - HTTP Response Code '' @ fmt_d (tr_code tr)) g
                      else case (if do_list a then webdav_ls env expat a url opts io (tr_time tr) g else Inr (tr_time tr, g)) of
                             Inl e \<Rightarrow> e
                           | Inr (time_total, g) \<Rightarrow>
                               let hs = io_headers io
                               in webdav_report a (snd (hs ! 0)) (snd (hs ! 1)) (snd (hs ! 2)) time_total g))"

section \<open>The listing of a collection\<close>

text \<open>The events of an answer: a response for every entry, with white space between the elements.\<close>

definition entry_events :: "string \<Rightarrow> string \<times> string option \<times> string \<Rightarrow> dav_event list" where
  "entry_events w e =
     (case e of (path, ty, status) \<Rightarrow>
        [DavStart ''DAV:response'', DavChars w, DavStart ''DAV:href'', DavChars path, DavStop, DavChars w, DavStart ''DAV:propstat'', DavChars w,
         DavStart ''DAV:prop'', DavChars w, DavStart ''DAV:resourcetype''] @
        (case ty of None \<Rightarrow> [] | Some t \<Rightarrow> [DavChars w, DavStart t, DavStop, DavChars w]) @
        [DavStop, DavChars w, DavStop, DavChars w, DavStart ''DAV:status'', DavChars status, DavStop, DavChars w, DavStop, DavChars w, DavStop, DavChars w])"

definition listing_events :: "string \<Rightarrow> (string \<times> string option \<times> string) list \<Rightarrow> dav_event list" where
  "listing_events w es = [DavStart ''DAV:multistatus'', DavChars w] @ concat (map (entry_events w) es) @ [DavStop]"

definition dav_entry :: "string \<times> string option \<times> string \<Rightarrow> webdav_list" where
  "dav_entry e = (case e of (path, ty, status) \<Rightarrow> \<lparr>wl_path = Some path, wl_type = ty, wl_status = Some status\<rparr>)"

lemmas dav_handlers = webdav_startElement_def webdav_stopElement_def webdav_charData_def on_head_def

lemma dav_events_append: "dav_events (es @ fs) p = (case dav_events es p of None \<Rightarrow> None | Some p \<Rightarrow> dav_events fs p)"
  by (induction es p rule: dav_events.induct) (auto split: option.split)

lemma dav_events_entry:
  assumes "ty \<noteq> Some ''DAV:response''"
  shows "dav_events (entry_events w (path, ty, status)) \<lparr>wp_name = None, wp_list = es\<rparr> =
    Some \<lparr>wp_name = None, wp_list = dav_entry (path, ty, status) # es\<rparr>"
  using assms by (cases ty) (auto simp: entry_events_def dav_entry_def dav_handlers Let_def)

lemma dav_events_entries:
  assumes "list_all (\<lambda>(path, ty, status). ty \<noteq> Some ''DAV:response'') es"
  shows "dav_events (concat (map (entry_events w) es)) \<lparr>wp_name = None, wp_list = fs\<rparr> =
    Some \<lparr>wp_name = None, wp_list = rev (map dav_entry es) @ fs\<rparr>"
  using assms
proof (induction es arbitrary: fs)
  case (Cons e es)
  then show ?case by (cases e) (simp add: dav_events_append dav_events_entry)
qed simp

text \<open>The handlers rebuild a listing from the events of its answer, whatever white space is between the elements: every entry has its path, the name
  of its resource type, if there is one, and its status, and the last entry comes first.\<close>

theorem webdav_parse_roundtrip:
  assumes "xml (take (cd_size answer) (case cd_data answer of None \<Rightarrow> [] | Some b \<Rightarrow> b)) = (listing_events w es, None)"
    "list_all (\<lambda>(path, ty, status). ty \<noteq> Some ''DAV:response'') es"
  shows "webdav_parse xml answer g = Inr (rev (map dav_entry es))"
proof -
  have "dav_events (listing_events w es) \<lparr>wp_name = None, wp_list = []\<rparr> = Some \<lparr>wp_name = None, wp_list = rev (map dav_entry es)\<rparr>"
    using dav_events_entries [OF assms(2), of w "[]"] by (simp add: listing_events_def dav_events_append dav_handlers Let_def)
  then show ?thesis using assms(1) by (simp add: webdav_parse_def)
qed

theorem webdav_parse_roundtrip_witness:
  "webdav_parse (\<lambda>_. (listing_events [newline] [(''/a/'', Some ''DAV:collection'', ''HTTP/1.1 200 OK''), (''/a/b'', None, ''HTTP/1.1 200 OK'')], None))
     curl_data0 check_webdav_globals =
   Inr [dav_entry (''/a/b'', None, ''HTTP/1.1 200 OK''), dav_entry (''/a/'', Some ''DAV:collection'', ''HTTP/1.1 200 OK'')]"
  using webdav_parse_roundtrip [of _ curl_data0 "[newline]" "[(''/a/'', Some ''DAV:collection'', ''HTTP/1.1 200 OK''), (''/a/b'', None, ''HTTP/1.1 200 OK'')]"
      check_webdav_globals, OF refl] by simp

section \<open>The allowed methods\<close>

lemma strstr_pos_skip:
  assumes "\<not> sublist m x" "CHR '','' \<notin> set m"
  shows "strstr_pos (x @ CHR '','' # r) m = map_option (\<lambda>j. length x + 1 + j) (strstr_pos r m)"
  using assms(1)
proof (induction x)
  case Nil
  then show ?case using assms(2) by (cases m) (auto simp: option.map_comp comp_def)
next
  case (Cons c x)
  have "\<not> prefix m (c # x @ CHR '','' # r)"
  proof
    assume "prefix m (c # x @ CHR '','' # r)"
    then have "prefix m ((c # x) @ CHR '','' # r)" by simp
    then have "prefix m (c # x) \<or> (\<exists>zs. m = (c # x) @ zs \<and> prefix zs (CHR '','' # r))" unfolding prefix_append by blast
    then show False
    proof (elim disjE exE conjE)
      assume "prefix m (c # x)"
      then show False using Cons.prems prefix_imp_sublist by blast
    next
      fix zs assume z: "m = (c # x) @ zs" "prefix zs (CHR '','' # r)"
      then show False using assms(2) Cons.prems by (cases zs) auto
    qed
  qed
  moreover have "\<not> sublist m x" using Cons.prems by (simp add: sublist_Cons_right)
  ultimately show ?case using Cons.IH by (simp add: option.map_comp comp_def)
qed

lemma strstr_pos_none: "\<not> sublist m x \<Longrightarrow> strstr_pos x m = None"
  by (induction x) (auto simp: sublist_Cons_right)

lemma strstr_pos_prefix: "strstr_pos (m @ r) m = Some 0"
  by (cases "m @ r") (auto intro: prefixI [OF sym])

lemma strstr_pos_bound: "strstr_pos s m = Some i \<Longrightarrow> i + length m \<le> length s"
proof (induction s arbitrary: i)
  case (Cons c s)
  then show ?case by (auto split: if_splits dest: prefix_length_le)
qed (simp split: if_splits)

lemma allowed_skip:
  assumes "\<not> sublist m x" "CHR '','' \<notin> set m"
  shows "allowed (x @ CHR '','' # r) m = allowed r m"
proof (cases "strstr_pos r m")
  case None
  then show ?thesis using strstr_pos_skip [OF assms, of r] by (simp add: allowed_def)
next
  case (Some j)
  have e: "strstr_pos (x @ CHR '','' # r) m = Some (length x + 1 + j)" using strstr_pos_skip [OF assms, of r] Some by simp
  have "(x @ CHR '','' # r) ! (length x + 1 + j - 1) = (if j = 0 then CHR '','' else r ! (j - 1))"
    by (cases j) (simp_all add: nth_append)
  moreover have "(x @ CHR '','' # r) ! (length x + 1 + j + length m) = r ! (j + length m)" by (simp add: nth_append)
  ultimately show ?thesis using Some e by (auto simp: allowed_def)
qed

text \<open>The test of the methods. For an Allow header that separates the methods by commas, the plugin finds exactly the methods of the list, as long as
  the name of the method is not part of the name of another one.\<close>

theorem allowed_methods:
  assumes "ms \<noteq> []" "CHR '','' \<notin> set m" "\<forall>x \<in> set ms. CHR '','' \<notin> set x \<and> (sublist m x \<longrightarrow> x = m)"
  shows "allowed (join_with '','' ms) m \<longleftrightarrow> m \<in> set ms"
  using assms(1,3)
proof (induction ms rule: list_nonempty_induct)
  case (single x)
  have "allowed m m" using strstr_pos_prefix [of m "[]"] by (simp add: allowed_def)
  moreover have "\<not> allowed x m" if "x \<noteq> m" using single that strstr_pos_none [of m x] by (auto simp: allowed_def)
  ultimately show ?case by auto
next
  case (cons x ms)
  have j: "join_with '','' (x # ms) = x @ CHR '','' # join_with '','' ms" using cons.hyps by (simp add: join_with_Cons)
  show ?case
  proof (cases "x = m")
    case True
    have "allowed (m @ CHR '','' # r) m" for r using strstr_pos_prefix [of m "CHR '','' # r"] by (simp add: allowed_def)
    then show ?thesis using True unfolding j by simp
  next
    case False
    then show ?thesis using cons allowed_skip [of m x "join_with '','' ms"] assms(2) by (simp add: j)
  qed
qed

theorem allowed_methods_witness: "allowed ''OPTIONS,GET,PROPFIND'' ''GET'' \<and> \<not> allowed ''OPTIONS,GET,PROPFIND'' ''PUT''"
proof -
  have "sublist ''GET'' ''OPTIONS'' = False" "sublist ''GET'' ''PROPFIND'' = False" "sublist ''PUT'' ''OPTIONS'' = False" "sublist ''PUT'' ''GET'' = False"
      "sublist ''PUT'' ''PROPFIND'' = False"
    by code_simp+
  then show ?thesis
    using allowed_methods [of "[''OPTIONS'', ''GET'', ''PROPFIND'']" "''GET''"] allowed_methods [of "[''OPTIONS'', ''GET'', ''PROPFIND'']" "''PUT''"] by simp
qed

text \<open>Only the first place is looked at: LOCK behind UNLOCK is not found. A space behind the comma, as most servers write it, hides every method but the first.\<close>

theorem allowed_missed: "allowed ''UNLOCK,LOCK'' ''LOCK'' = False" "allowed ''OPTIONS, GET'' ''GET'' = False"
  by code_simp+

section \<open>The result\<close>

lemma allow_fold_Some:
  assumes "buf_str (wd_output st) = Some u"
  shows "\<exists>st'. sum_fold (allow_step (Some al)) (map Some ss) st = Inr st' \<and>
    wd_status st' = (if filter (\<lambda>m. \<not> allowed al m) ss = [] then wd_status st else STATE_CRITICAL) \<and>
    buf_str (wd_output st') = Some (join_with '', '' (u # filter (\<lambda>m. \<not> allowed al m) ss))"
  using assms
proof (induction ss arbitrary: st u)
  case (Cons m ss)
  show ?case
  proof (cases "allowed al m")
    case True
    then show ?thesis using Cons by (simp add: allow_step_def)
  next
    case False
    let ?st = "\<lparr>wd_status = STATE_CRITICAL, wd_output = mp_strcat_comma (wd_output st) (Some m)\<rparr>"
    have "buf_str (wd_output ?st) = Some (u @ '', '' @ m)" using Cons.prems by (simp add: comma.cat_str str_append_def)
    from Cons.IH [OF this] obtain st' where st: "sum_fold (allow_step (Some al)) (map Some ss) ?st = Inr st'" "wd_status st' = STATE_CRITICAL"
        "buf_str (wd_output st') = Some (join_with '', '' ((u @ '', '' @ m) # filter (\<lambda>m. \<not> allowed al m) ss))"
      by auto
    have "wd_output st \<noteq> None" using Cons.prems by (cases "wd_output st") auto
    then have "sum_fold (allow_step (Some al)) (map Some (m # ss)) st = Inr st'" using st(1) False by (auto simp: allow_step_def)
    then show ?thesis using st(2,3) False by (cases "filter (\<lambda>m. \<not> allowed al m) ss") (auto simp: join_with_Cons)
  qed
qed simp

lemma allow_fold:
  assumes "missing = filter (\<lambda>m. \<not> allowed al m) ss"
  shows "\<exists>st'. sum_fold (allow_step (Some al)) (map Some ss) \<lparr>wd_status = STATE_OK, wd_output = None\<rparr> = Inr st' \<and>
    wd_status st' = (if missing = [] then STATE_OK else STATE_CRITICAL) \<and>
    buf_str (wd_output st') = (if missing = [] then None else Some (''Missing Allow: '' @ join_with '', '' missing))"
  using assms
proof (induction ss)
  case (Cons m ss)
  show ?case
  proof (cases "allowed al m")
    case True
    then show ?thesis using Cons by (simp add: allow_step_def)
  next
    case False
    let ?st = "\<lparr>wd_status = STATE_CRITICAL, wd_output = mp_strcat_space (mp_strcat_space None (Some ''Missing Allow:'')) (Some m)\<rparr>"
    have "buf_str (wd_output ?st) = Some (''Missing Allow: '' @ m)" by (simp add: space.cat_str str_append_def)
    from allow_fold_Some [OF this, of al ss] obtain st' where st: "sum_fold (allow_step (Some al)) (map Some ss) ?st = Inr st'"
        "wd_status st' = STATE_CRITICAL" "buf_str (wd_output st') = Some (join_with '', '' ((''Missing Allow: '' @ m) # filter (\<lambda>m. \<not> allowed al m) ss))"
      by auto
    have "sum_fold (allow_step (Some al)) (map Some (m # ss)) \<lparr>wd_status = STATE_OK, wd_output = None\<rparr> = Inr st'"
      using st(1) False by (simp add: allow_step_def)
    moreover have "missing = m # filter (\<lambda>m. \<not> allowed al m) ss" using Cons.prems False by simp
    ultimately show ?thesis using st(2,3) by (cases "filter (\<lambda>m. \<not> allowed al m) ss") (auto simp: join_with_Cons)
  qed
qed simp

text \<open>The complaints of a report, in their order.\<close>

definition webdav_parts :: "string list \<Rightarrow> bool \<Rightarrow> string \<Rightarrow> int \<Rightarrow> string list" where
  "webdav_parts missing type_ok ct s =
     (if missing = [] then [] else [''Missing Allow: '' @ join_with '', '' missing]) @ (if type_ok then [] else [''Wrong Content-Type: '' @ ct]) @
     (if s = STATE_WARNING then [''Slow answer''] else if s = STATE_CRITICAL then [''Answer too slow''] else [])"

lemma perfdata_stdout [simp]: "stdout (snd (mp_perfdata_float l f u t g)) = stdout g"
  by (simp add: mp_perfdata_float_def mp_perfdata_float2_def perf_append_def Let_def)

lemma webdav_report_parts:
  assumes "take (allowShoulds a) (allowShould a) = map Some ss" "missing = filter (\<lambda>m. \<not> allowed al m) ss" "no_percent (wd_thresholds a)"
    "s = get_status time_total (wd_thresholds a)" "ok_type = (\<forall>sh. contentTypeShould a = Some sh \<longrightarrow> ct = sh)"
  shows "\<exists>g'. stdout g' = stdout g \<and> webdav_report a (Some dav) (Some al) (Some ct) time_total g =
    (if missing \<noteq> [] \<or> \<not> ok_type \<or> s = STATE_CRITICAL then critical (''WebDAV '' @ dav @ '' - '' @ join_with '' '' (webdav_parts missing ok_type ct s)) g'
     else if s = STATE_WARNING then warning (''WebDAV '' @ dav @ '' - '' @ join_with '' '' (webdav_parts missing ok_type ct s)) g'
     else ok (''WebDAV '' @ dav) g')"
proof -
  obtain st where st: "sum_fold (allow_step (Some al)) (map Some ss) \<lparr>wd_status = STATE_OK, wd_output = None\<rparr> = Inr st"
      "wd_status st = (if missing = [] then STATE_OK else STATE_CRITICAL)"
      "buf_str (wd_output st) = (if missing = [] then None else Some (''Missing Allow: '' @ join_with '', '' missing))"
    using allow_fold [OF assms(2)] by auto
  obtain st2 where st2: "type_step (contentTypeShould a) (Some ct) st = Inr st2"
      "wd_status st2 = (if missing = [] \<and> ok_type then STATE_OK else STATE_CRITICAL)"
      "buf_str (wd_output st2) = (if missing = [] \<and> ok_type then None else Some (join_with '' '' (webdav_parts missing ok_type ct STATE_OK)))"
    using st(2,3) assms(5) by (cases "contentTypeShould a") (auto simp: type_step_def webdav_parts_def space.cat_str str_append_def)
  define st3 where "st3 = time_step s st2"
  have s: "s \<in> {STATE_OK, STATE_WARNING, STATE_CRITICAL}" using get_status_cases assms(4) by simp
  have st3: "wd_status st3 = (if missing \<noteq> [] \<or> \<not> ok_type then STATE_CRITICAL else s)"
      "buf_str (wd_output st3) = (if missing = [] \<and> ok_type \<and> s = STATE_OK then None else Some (join_with '' '' (webdav_parts missing ok_type ct s)))"
    using st2(2,3) s by (auto simp: st3_def time_step_def webdav_parts_def space.cat_str str_append_def)
  obtain g1 where g1: "mp_perfdata_float ''time'' (fp_cast round_float time_total) ''s'' (wd_thresholds a) g = (wd_thresholds a, g1)" "stdout g1 = stdout g"
    using perfdata_thresholds(4) [OF assms(3)] perfdata_stdout by (metis prod.collapse)
  have "webdav_report a (Some dav) (Some al) (Some ct) time_total g = webdav_exit (Some dav) st3 g1"
    using g1(1) st(1) st2(1) assms(1,4) by (simp add: webdav_report_def st3_def)
  then show ?thesis using g1(2) st3 s by (auto simp: webdav_exit_def Let_def fmt_s_def)
qed

text \<open>What \<open>check_webdav\<close> reports without \<open>--ls\<close>. When the server answers the OPTIONS request, the plugin is CRITICAL exactly when a method is missing, the
  content type is not the expected one or the time is critical, WARNING when only the time is slow, and names every complaint. The body of the answer is
  printed in front of the report, because no callback is set for it.\<close>

theorem check_webdav_result:
  assumes "webdav_process_arguments v6 gai argc help os g = Inr a" "wd_url a = Some url" "\<not> do_list a" "mp_curl_init env curl_args0 g = Inr opts"
    "tr = cu_perform env (options_request url opts) []" "tr_ret tr = CURLE_OK" "tr_code tr = 200"
    "recv_headers (tr_headers tr) dav_headers g = Inr [(''DAV'', Some dav), (''Allow'', Some al), (''Content-Type'', Some ct)]"
    "take (allowShoulds a) (allowShould a) = map Some ss" "missing = filter (\<lambda>m. \<not> allowed al m) ss" "no_percent (wd_thresholds a)"
    "s = get_status (tr_time tr) (wd_thresholds a)" "ok_type = (\<forall>sh. contentTypeShould a = Some sh \<longrightarrow> ct = sh)"
  shows "\<exists>g'. stdout g' = stdout g @ concat (tr_chunks tr) \<and> check_webdav_main v6 gai env expat argc help os g =
    (if missing \<noteq> [] \<or> \<not> ok_type \<or> s = STATE_CRITICAL then critical (''WebDAV '' @ dav @ '' - '' @ join_with '' '' (webdav_parts missing ok_type ct s)) g'
     else if s = STATE_WARNING then warning (''WebDAV '' @ dav @ '' - '' @ join_with '' '' (webdav_parts missing ok_type ct s)) g'
     else ok (''WebDAV '' @ dav) g')"
proof -
  let ?o = "options_request url opts" and ?g = "mp_print (concat (tr_chunks tr)) g"
  have "write_function ?o = None" "header_function ?o = Some HeaderRecv" "CURLOPT_READFUNCTION \<notin> set ?o"
    using mp_curl_init_opts [OF assms(4)] by (auto simp: options_request_def)
  then have "mp_curl_perform env ?o (curl_io0\<lparr>io_headers := dav_headers\<rparr>) g =
      Inr (tr, curl_io0\<lparr>io_headers := [(''DAV'', Some dav), (''Allow'', Some al), (''Content-Type'', Some ct)]\<rparr>, ?g)"
    using assms(5,6,8) by (simp add: mp_curl_perform_def curl_easy_perform_def Let_def curl_io0_def)
  then have "check_webdav_main v6 gai env expat argc help os g = webdav_report a (Some dav) (Some al) (Some ct) (tr_time tr) ?g"
    using assms(1-4,7) by (simp add: check_webdav_main_def Let_def numeral_2_eq_2)
  then show ?thesis using webdav_report_parts [OF assms(9-13), of ?g dav] by (simp add: mp_print_def)
qed

text \<open>A share that does not allow PUT; the body of its answer is printed first.\<close>

definition dav_ex :: curl_env where
  "dav_ex = curl_ex [] [''HTTP/1.1 200 OK'' @ [CHR 0x0D, CHR 0x0A], ''DAV: 1,2'' @ [CHR 0x0D, CHR 0x0A], ''Allow: OPTIONS,GET'' @ [CHR 0x0D, CHR 0x0A],
     ''Content-Type: text/html'' @ [CHR 0x0D, CHR 0x0A]] [''<html>'']"

definition dav_ex_opts :: "(char \<times> string) list" where
  "dav_ex_opts = [(CHR ''u'', ''http://dav/''), (CHR ''a'', ''GET,PUT'')]"

definition dav_ex_args :: webdav_args where
  "dav_ex_args = webdav_args0\<lparr>wd_url := Some ''http://dav/'', allowShould := [Some ''GET'', Some ''PUT''], allowShoulds := 2\<rparr>"

lemma dav_ex_arguments: "webdav_process_arguments True (\<lambda>f h. True) 3 [] dav_ex_opts check_webdav_globals = Inr dav_ex_args"
proof -
  have "getopt_url True (\<lambda>f h. True) ''http://dav/'' check_webdav_globals = Inr ''http://dav/''" "is_url_scheme ''http://dav/'' ''http''"
      "mp_array_push [] (Some ''GET,PUT'') 0 = ([Some ''GET'', Some ''PUT''], 2)" by code_simp+
  then show ?thesis
    by (simp add: webdav_process_arguments_def dav_ex_opts_def webdav_opt_def Let_def dav_ex_args_def webdav_args0_def FLAG_def getopt_wc_time_def)
qed

lemma webdav_args0_thresholds:
  "wd_thresholds webdav_args0 =
    Some \<lparr>th_warning = Some (spec_range TIME (Upto (Bound 5 ''s''))), th_critical = Some (spec_range TIME (Upto (Bound 9 ''s'')))\<rparr>"
proof -
  have "fmt_d 5 @ ''s'' = ''5s''" "fmt_d 9 @ ''s'' = ''9s''" by code_simp+
  then show ?thesis
    using parse_upto [of TIME 5 "''s''"] parse_upto [of TIME 9 "''s''"]
    by (simp add: webdav_args0_def set_threshold_defs num_end_def unit_factor_def BISI_def TIME_def isdigit_def ccode_def
        parse_time_multiplier_string_def del: spec_range.simps)
qed

theorem check_webdav_result_witness:
  "\<exists>g'. stdout g' = ''<html>'' \<and> check_webdav_main True (\<lambda>f h. True) dav_ex None 3 [] dav_ex_opts check_webdav_globals =
    critical ''WebDAV 1,2 - Missing Allow: PUT'' g'"
proof -
  have i: "mp_curl_init dav_ex curl_args0 check_webdav_globals = Inr [CURLOPT_USERAGENT ''monitoringplug-check_webdav/0.1'']"
    by (simp add: mp_curl_init_def dav_ex_def curl_ex_def CURLE_OK_def check_webdav_globals_def mp_init_def mp_snprintf_def curl_auth_def curl_args0_def)
  have h: "recv_headers (tr_headers (cu_perform dav_ex (options_request ''http://dav/'' [CURLOPT_USERAGENT ''monitoringplug-check_webdav/0.1'']) []))
      dav_headers check_webdav_globals = Inr [(''DAV'', Some ''1,2''), (''Allow'', Some ''OPTIONS,GET''), (''Content-Type'', Some ''text/html'')]"
    by (simp add: dav_ex_def curl_ex_def recv_headers_def dav_headers_def header_slot_def strncmp_eq_def)
  have m: "[''PUT''] = filter (\<lambda>m. \<not> allowed ''OPTIONS,GET'' m) [''GET'', ''PUT'']" by code_simp
  have t: "get_status (Num False 0) (wd_thresholds dav_ex_args) = STATE_OK" "no_percent (wd_thresholds dav_ex_args)"
    by (simp_all add: dav_ex_args_def webdav_args0_thresholds get_status_def no_percent_def check_upto unit_factor_def BISI_def TIME_def
        parse_time_multiplier_string_def del: spec_range.simps)
  have a: "wd_url dav_ex_args = Some ''http://dav/''" "\<not> do_list dav_ex_args" "take (allowShoulds dav_ex_args) (allowShould dav_ex_args) = map Some [''GET'', ''PUT'']"
      "contentTypeShould dav_ex_args = None"
    by (simp_all add: dav_ex_args_def webdav_args0_def)
  show ?thesis
    using check_webdav_result [OF dav_ex_arguments a(1,2) i refl _ _ h a(3) m t(2), of STATE_OK True None] t(1) a(4)
    by (simp add: dav_ex_def curl_ex_def CURLE_OK_def webdav_parts_def check_webdav_globals_def mp_init_def)
qed

interpretation webdav_options: plugin_options "webdav_opt v6 gai"
    "\<lambda>a. thresholds_both (wd_thresholds a) \<and> array_full (allowShould a) (allowShoulds a)" for v6 gai
proof
  fix a a' :: webdav_args and c s g
  assume p: "thresholds_both (wd_thresholds a) \<and> array_full (allowShould a) (allowShoulds a)" "webdav_opt v6 gai c s a g = Inr a'"
  then obtain t where t: "getopt_wc_time c s (wd_thresholds a) g = Inr t" "wd_thresholds a' = t" "array_full (allowShould a') (allowShoulds a')"
    by (auto simp: webdav_opt_def Let_def map_sum_def mp_array_push_full split: sum.splits if_splits prod.splits)
  then show "thresholds_both (wd_thresholds a') \<and> array_full (allowShould a') (allowShoulds a')" using thresholds_both_keep(2) [OF _ t(1)] p(1) by simp
next
  fix a c s g e
  assume "webdav_opt v6 gai c s a g = Inl e"
  then show "exit_code e = Some STATE_UNKNOWN"
    by (auto simp: webdav_opt_def Let_def refuse_simps map_sum_def split: sum.splits if_splits prod.splits)
qed

end
