(* ===== verification/Check_Curl.thy ===== *)
theory Check_Curl
  imports Curl_Utils JSON_Utils
begin

text \<open>
  \<^verbatim>\<open>curl/check_tftp.c\<close>, \<^verbatim>\<open>curl/check_aspsms_credits.c\<close> and \<^verbatim>\<open>curl/check_rabbitmq.c\<close>: a file from a TFTP server, the credits
  of an ASPSMS account and the queues of a RabbitMQ server. libcurl and json-c are parameters, and so is the text of the help.
\<close>

section \<open>check\_tftp\<close>

definition check_tftp_globals :: mp_globals where
  "check_tftp_globals = mp_init ''check_tftp''
     (''-H host -F file [-t timeout] [-w warn] [-c crit]'')
     ''0.1'' ''Marius Rieder <marius.rieder@durchmesser.ch>'' ''2010''"

definition check_tftp_print_help :: "curl_env \<Rightarrow> string \<Rightarrow> string \<Rightarrow> string" where
  "check_tftp_print_help env package version =
     print_revision package version check_tftp_globals @
     print_revision_curl env @
     print_copyright check_tftp_globals @
     help_lines
       [[],
        ''Check description: Check if a file can be downloaded from tftp.'',
        []] @
     print_usage check_tftp_globals @
     print_help_default @
     print_help_host @
     print_help_port ''UNDEF'' @
     help_lines
       ['' -F, --file=FILENAME'',
        ''      The name of the file to download.''] @
     print_help_warn_time ''5 sec'' @
     print_help_crit_time ''9 sec''"

record tftp_args =
  tf_hostname :: "string option"
  tf_filename :: "string option"
  fetch_thresholds :: "thresholds option"
  tf_port :: int

definition tftp_args0 :: tftp_args where
  "tftp_args0 = \<lparr>tf_hostname = None, tf_filename = None,
     fetch_thresholds = fst (mp_threshold_set_critical_time (fst (mp_threshold_set_warning_time None ''5s'')) ''9s''), tf_port = 0\<rparr>"

definition tftp_opt :: "bool \<Rightarrow> resolver \<Rightarrow> tftp_args opt_handler" where
  "tftp_opt v6 gai c optarg a g =
     (case getopt_wc_time c optarg (fetch_thresholds a) g of
        Inl e \<Rightarrow> Inl e
      | Inr t \<Rightarrow>
          let a = a\<lparr>fetch_thresholds := t\<rparr>
          in if c = CHR ''H'' then map_sum (\<lambda>e. e) (\<lambda>h. a\<lparr>tf_hostname := Some h\<rparr>) (getopt_host v6 gai optarg g)
             else if c = CHR ''P'' then map_sum (\<lambda>e. e) (\<lambda>p. a\<lparr>tf_port := p\<rparr>) (getopt_port optarg g)
             else if c = CHR ''F'' then Inr (a\<lparr>tf_filename := Some optarg\<rparr>)
             else Inr a)"

definition tftp_process_arguments :: "bool \<Rightarrow> resolver \<Rightarrow> nat \<Rightarrow> string \<Rightarrow> (char \<times> string) list \<Rightarrow> mp_globals \<Rightarrow> mp_end + tftp_args" where
  "tftp_process_arguments v6 gai argc help os g =
     (if argc < 4 then Inl (Exit STATE_OK (stdout g @ help))
      else case run_opts (tftp_opt v6 gai) os tftp_args0 g of
             Inl e \<Rightarrow> Inl e
           | Inr a \<Rightarrow>
               if tf_filename a = None \<or> tf_hostname a = None then Inl (usage ''Filename and hostname are mandatory.'' g) else Inr a)"

text \<open>The address, cut by \<open>snprintf\<close> where the buffer ends.\<close>

definition tftp_url :: "string \<Rightarrow> string \<Rightarrow> cbuf" where
  "tftp_url hostname filename =
     (let urllen = length hostname + length filename + 9
      in \<lparr>cstr = take (urllen - 1) (''tftp://'' @ hostname @ ''/'' @ filename), cap = urllen\<rparr>)"

definition tftp_report :: "tftp_args \<Rightarrow> fp \<Rightarrow> fp \<Rightarrow> mp_globals \<Rightarrow> mp_end" where
  "tftp_report a bytes time g =
     (case mp_perfdata_float ''time'' (fp_cast round_float time) ''s'' (fetch_thresholds a) g of
        (t, g) \<Rightarrow>
          let s = get_status time t; m = ''Received '' @ fmt_f 0 bytes @ ''byte in '' @ fmt_f 6 time @ ''s.''
          in if s = STATE_OK then ok m g
             else if s = STATE_WARNING then warning m g
             else if s = STATE_CRITICAL then critical m g
             else critical ''You should never reach this point.'' g)"

definition check_tftp_main :: "bool \<Rightarrow> resolver \<Rightarrow> curl_env \<Rightarrow> nat \<Rightarrow> string \<Rightarrow> (char \<times> string) list \<Rightarrow> mp_globals \<Rightarrow> mp_end" where
  "check_tftp_main v6 gai env argc help os g =
     (case tftp_process_arguments v6 gai argc help os g of
        Inl e \<Rightarrow> e
      | Inr a \<Rightarrow>
          let url = cstr (tftp_url (the (tf_hostname a)) (the (tf_filename a)));
              g = (if 0 < mp_verbose g
                   then mp_print (''CURL Version: '' @ cu_version env @ nl @ ''Try fetch '' @ url @ nl @
                          print_thresholds ''fetch_thresholds'' (fetch_thresholds a)) g
                   else g)
          in case mp_curl_init env curl_args0 g of
               Inl e \<Rightarrow> e
             | Inr opts \<Rightarrow>
                 if cu_setopt env CURLOPT_PROTOCOLS_TFTP = CURLE_UNSUPPORTED_PROTOCOL
                 then unknown (''libcurl don'' @ [CHR 0x27] @ ''t support tftp.'') g
                 else case mp_curl_perform env
                             (opts @ [CURLOPT_PROTOCOLS_TFTP, CURLOPT_URL url, CURLOPT_WRITEFUNCTION WriteBlackhole] @
                              (if tf_port a \<noteq> 0 then [CURLOPT_LOCALPORT (tf_port a)] else []))
                             curl_io0 g of
                        Inl e \<Rightarrow> e
                      | Inr (tr, io, g) \<Rightarrow> tftp_report a (tr_size tr) (tr_time tr) g)"

section \<open>check\_aspsms\_credits\<close>

definition check_aspsms_credits_globals :: mp_globals where
  "check_aspsms_credits_globals = mp_init ''check_aspsms_credits''
     (''--userkey <userkey> --password <password>'')
     ''0.1'' ''Marius Rieder <marius.rieder@durchmesser.ch>'' ''2010''"

definition check_aspsms_credits_print_help :: "curl_env \<Rightarrow> string \<Rightarrow> string \<Rightarrow> string" where
  "check_aspsms_credits_print_help env package version =
     print_revision package version check_aspsms_credits_globals @
     print_revision_curl env @
     print_copyright check_aspsms_credits_globals @
     help_lines
       [[],
        ''Check description: Check ASPSMS credits by XML.'',
        [],
        [CHR 0x09] @ ''WARNING: Password is sent unencryptet.'',
        []] @
     print_usage check_aspsms_credits_globals @
     print_help_default @
     help_lines
       ['' -U, --userkey=USERKEY'',
        ''      The userkey of the ASPSMS account.'',
        '' -P, --password=PASSWORD'',
        ''      The password of the ASPSMS account.''] @
     print_help_warn ''credits'' ''100:'' @
     print_help_crit ''credits'' ''50:''"

definition xml_url :: string where "xml_url = ''http://xml1.aspsms.com:5061/xmlsvr.asp''"

record asp_args =
  asp_userkey :: "string option"
  asp_password :: "string option"
  credit_thresholds :: "thresholds option"

definition asp_args0 :: asp_args where
  "asp_args0 = \<lparr>asp_userkey = None, asp_password = None,
     credit_thresholds = fst (mp_threshold_set_critical_time (fst (mp_threshold_set_warning_time None ''100:'')) ''50:'')\<rparr>"

definition asp_opt :: "asp_args opt_handler" where
  "asp_opt c optarg a g =
     (case getopt_wc_time_at c optarg (credit_thresholds a) g of
        Inl e \<Rightarrow> Inl e
      | Inr t \<Rightarrow>
          let a = a\<lparr>credit_thresholds := t\<rparr>
          in Inr (if c = CHR ''U'' then a\<lparr>asp_userkey := Some optarg\<rparr>
                  else if c = CHR ''P'' then a\<lparr>asp_password := Some optarg\<rparr>
                  else a))"

definition asp_process_arguments :: "nat \<Rightarrow> string \<Rightarrow> (char \<times> string) list \<Rightarrow> mp_globals \<Rightarrow> mp_end + asp_args" where
  "asp_process_arguments argc help os g =
     (if argc < 4 then Inl (Exit STATE_OK (stdout g @ help))
      else case run_opts asp_opt os asp_args0 g of
             Inl e \<Rightarrow> Inl e
           | Inr a \<Rightarrow>
               if asp_userkey a = None \<or> asp_password a = None then Inl (usage ''Userkey and password are mandatory.'' g) else Inr a)"

text \<open>The query, in a buffer of its own size.\<close>

definition asp_query :: "string \<Rightarrow> string \<Rightarrow> cbuf" where
  "asp_query userkey password =
     \<lparr>cstr = ''<?xml version='' @ dq @ ''1.0'' @ dq @ '' encoding='' @ dq @ ''ISO-8859-1'' @ dq @ ''?>'' @ nl @ ''<aspsms>'' @
        nl @ ''<Userkey>'' @ userkey @ ''</Userkey>'' @ nl @ ''<Password>'' @ password @ ''</Password>'' @ nl @
        ''<Action>ShowCredits</Action>'' @ nl @ ''</aspsms>'',
      cap = length userkey + length password + 134\<rparr>"

text \<open>The elements of the answer that have one of the names: the text behind a name is its value, and a name at the end of the text is the use of a NULL pointer.\<close>

record asp_st =
  errorCode :: int
  errorDescription :: "string option"
  credits :: fp

definition asp_set :: "string \<Rightarrow> string \<Rightarrow> asp_st \<Rightarrow> asp_st" where
  "asp_set c v st =
     (if c = ''ErrorCode'' then st\<lparr>errorCode := to_int32 (strtol 10 v)\<rparr>
      else if c = ''ErrorDescription'' then st\<lparr>errorDescription := Some v\<rparr>
      else st\<lparr>credits := fp_cast round_float (fst (strtod v))\<rparr>)"

fun asp_tokens :: "string list \<Rightarrow> string list \<Rightarrow> asp_st \<Rightarrow> asp_st option" where
  "asp_tokens keys [] st = Some st"
| "asp_tokens keys (c # ts) st =
     (if c \<in> set keys then (case ts of [] \<Rightarrow> None | v # ts \<Rightarrow> asp_tokens keys ts (asp_set c v st)) else asp_tokens keys ts st)"

definition asp_parse :: "string list \<Rightarrow> string option \<Rightarrow> asp_st option" where
  "asp_parse keys data =
     asp_tokens keys (case data of None \<Rightarrow> [] | Some xml \<Rightarrow> strtoks ''<>'' xml) \<lparr>errorCode = 0, errorDescription = None, credits = Num False 0\<rparr>"

definition credit_keys :: "string list" where
  "credit_keys = [''ErrorCode'', ''ErrorDescription'', ''Credits'']"

text \<open>The conversion to \<open>int\<close> drops the fraction; a value that does not fit gives the smallest number, as the hardware does.\<close>

fun int_of_fp :: "fp \<Rightarrow> int" where
  "int_of_fp (Num s q) =
     (let z = (if s then - \<lfloor>q\<rfloor> else \<lfloor>q\<rfloor>) in if INT_MIN \<le> z \<and> z \<le> INT_MAX then z else INT_MIN)"
| "int_of_fp _ = INT_MIN"

definition asp_report :: "asp_args \<Rightarrow> asp_st \<Rightarrow> mp_globals \<Rightarrow> mp_end" where
  "asp_report a st g =
     (let g = (if 0 < mp_verbose g
               then mp_print (''errorCode '' @ fmt_d (errorCode st) @ nl @
                      (case errorDescription st of None \<Rightarrow> [] | Some d \<Rightarrow> ''errorDescription '' @ d @ nl) @
                      ''credits '' @ fmt_f 6 (credits st) @ nl) g
               else g)
      in if errorCode st \<noteq> 1
         then (case errorDescription st of None \<Rightarrow> Crash | Some d \<Rightarrow> exit_fmt0 unknown d g)
         else
           let s = get_status (dbl_of_int (int_of_fp (credits st))) (credit_thresholds a);
               m = ''ASP SMS '' @ fmt_f 2 (credits st) @ '' credits left for '' @ the (asp_userkey a) @ ''.''
           in if s = STATE_OK then ok m g
              else if s = STATE_WARNING then warning m g
              else if s = STATE_CRITICAL then critical m g
              else critical ''You should never reach this point.'' g)"

definition check_aspsms_credits_main :: "curl_env \<Rightarrow> nat \<Rightarrow> string \<Rightarrow> (char \<times> string) list \<Rightarrow> mp_globals \<Rightarrow> mp_end" where
  "check_aspsms_credits_main env argc help os g =
     (case asp_process_arguments argc help os g of
        Inl e \<Rightarrow> e
      | Inr a \<Rightarrow>
          let q = cstr (asp_query (the (asp_userkey a)) (the (asp_password a)));
              query = \<lparr>cd_data = Some (q @ [CHR 0x00]), cd_start = 0, cd_size = length q\<rparr>;
              g = (if 0 < mp_verbose g
                   then mp_print (''CURL Version: '' @ cu_version env @ nl @ ''smsXML Url '' @ xml_url @ nl @
                          print_thresholds ''credit_thresholds'' (credit_thresholds a) @ ''XML: '' @ quoted q @ nl) g
                   else g)
          in case mp_curl_init env curl_args0 g of
               Inl e \<Rightarrow> e
             | Inr opts \<Rightarrow>
                 (case mp_snprintf 24 (Some (''Content-Length: '' @ fmt_d (to_int32 (int (length q))))) g of
                    Inl e \<Rightarrow> e
                  | Inr c \<Rightarrow>
                      (case mp_curl_perform env
                              (opts @ [CURLOPT_URL xml_url, CURLOPT_POST, CURLOPT_READFUNCTION, CURLOPT_WRITEFUNCTION WriteData,
                                 CURLOPT_HTTPHEADER [''Content-Type: text/html'', c]])
                              (curl_io0\<lparr>io_query := query\<rparr>) g of
                         Inl e \<Rightarrow> e
                       | Inr (tr, io, g) \<Rightarrow>
                           let g = snd (mp_perfdata_float ''time'' (fp_cast round_float (tr_time tr)) ''s'' None g);
                               data = curl_text (io_answer io);
                               g = (if 1 < mp_verbose g then mp_print (''Answer: '' @ quoted (fmt_s data) @ nl) g else g)
                           in if tr_code tr \<noteq> 200 then critical (''API HTTP-Response '' @ fmt_d (tr_code tr) @ ''.'') g
                              else case asp_parse credit_keys data of None \<Rightarrow> Crash | Some st \<Rightarrow> asp_report a st g)))"

section \<open>check\_rabbitmq\<close>

definition check_rabbitmq_globals :: mp_globals where
  "check_rabbitmq_globals = mp_init ''check_rabbitmq''
     (''--hostname <RABBITMQHOST>'')
     ''0.1'' ''Marius Rieder <marius.rieder@durchmesser.ch>'' ''2014''"

definition check_rabbitmq_print_help :: "curl_env \<Rightarrow> string \<Rightarrow> string \<Rightarrow> string" where
  "check_rabbitmq_print_help env package version =
     print_revision package version check_rabbitmq_globals @
     print_revision_curl env @
     print_copyright check_rabbitmq_globals @
     help_lines
       [[],
        ''Check description: Check a rabbitmq overview status.'',
        []] @
     print_usage check_rabbitmq_globals @
     print_help_default @
     print_help_host @
     print_help_port ''15672'' @
     print_help_curl_subpath @
     print_help_curl_basic_auth @
     print_help_curl_https @
     print_help_warn ''message count'' ''INF'' @
     print_help_crit ''message count'' ''INF'' @
     help_lines
       [''     --warning-ready=LIMIT'',
        ''      Return warning if ready message count exceeds limit. Defaults to INF'',
        ''     --critical-ready=LIMIT'',
        ''      Return critical if ready message count exceeds limit. Defaults to INF'',
        ''     --warning-unacknowledged=LIMIT'',
        ''      Return warning if unacknowledged message count exceeds limit. Defaults to INF'',
        ''     --critical-unacknowledged=LIMIT'',
        ''      Return critical if unacknowledged message count exceeds limit. Defaults to INF'']"

record rabbit_args = curl_args +
  rb_hostname :: "string option"
  rb_port :: int
  messages_thresholds :: "thresholds option"
  messages_ready_thresholds :: "thresholds option"
  messages_unacknowledged_thresholds :: "thresholds option"

definition rabbit_args0 :: rabbit_args where
  "rabbit_args0 = curl_args.extend curl_args0 (rabbit_args.fields None 15672 None None None)"

definition long_threshold :: "string \<Rightarrow> string \<Rightarrow> thresholds option \<times> int \<Rightarrow> mp_globals \<Rightarrow> mp_end + thresholds option" where
  "long_threshold name optarg r g =
     (case r of (t, rc) \<Rightarrow> if rc = ERROR then Inl (usage (''Illegal --'' @ name @ '' threshold '' @ quoted optarg @ ''.'') g) else Inr t)"

definition rabbit_opt :: "bool \<Rightarrow> resolver \<Rightarrow> rabbit_args opt_handler" where
  "rabbit_opt v6 gai c optarg a g =
     (let a = getopt_curl c optarg (curl_flag c optarg a);
          ready = (\<lambda>t. a\<lparr>messages_ready_thresholds := t\<rparr>); unack = (\<lambda>t. a\<lparr>messages_unacknowledged_thresholds := t\<rparr>)
      in case getopt_wc c optarg (messages_thresholds a) g of
           Inl e \<Rightarrow> Inl e
         | Inr t \<Rightarrow>
             if c = CHR ''H'' then map_sum (\<lambda>e. e) (\<lambda>h. a\<lparr>messages_thresholds := t, rb_hostname := Some h\<rparr>) (getopt_host v6 gai optarg g)
             else if c = CHR ''P'' then map_sum (\<lambda>e. e) (\<lambda>p. a\<lparr>messages_thresholds := t, rb_port := p\<rparr>) (getopt_port optarg g)
             else if c = MP_LONGOPT_PRIV1
             then map_sum (\<lambda>e. e) ready (long_threshold ''warning-ready'' optarg (mp_threshold_set_warning (messages_ready_thresholds a) optarg BISI) g)
             else if c = MP_LONGOPT_PRIV2
             then map_sum (\<lambda>e. e) ready (long_threshold ''critical-ready'' optarg (mp_threshold_set_critical (messages_ready_thresholds a) optarg BISI) g)
             else if c = MP_LONGOPT_PRIV3
             then map_sum (\<lambda>e. e) unack
                    (long_threshold ''warning-unacknowledged'' optarg (mp_threshold_set_warning (messages_unacknowledged_thresholds a) optarg BISI) g)
             else if c = MP_LONGOPT_PRIV4
             then map_sum (\<lambda>e. e) unack
                    (long_threshold ''critical-unacknowledged'' optarg (mp_threshold_set_critical (messages_unacknowledged_thresholds a) optarg BISI) g)
             else Inr (a\<lparr>messages_thresholds := t\<rparr>))"

definition rabbit_process_arguments :: "bool \<Rightarrow> resolver \<Rightarrow> nat \<Rightarrow> string \<Rightarrow> (char \<times> string) list \<Rightarrow> mp_globals \<Rightarrow> mp_end + rabbit_args" where
  "rabbit_process_arguments v6 gai argc help os g =
     (if argc < 2 then Inl (Exit STATE_OK (stdout g @ help))
      else case run_opts (rabbit_opt v6 gai) os rabbit_args0 g of
             Inl e \<Rightarrow> Inl e
           | Inr a \<Rightarrow> if rb_hostname a = None then Inl (usage ''Hostname is mandatory.'' g) else Inr a)"

text \<open>A counter that is missing stays -1.\<close>

definition rabbit_count :: "'j json_lib \<Rightarrow> 'j option \<Rightarrow> string \<Rightarrow> int" where
  "rabbit_count lib totals key =
     (case mp_json_object_object_get lib totals key of (found, v) \<Rightarrow> if found then json_object_get_int lib v else -1)"

definition rabbit_set :: "int \<Rightarrow> string \<Rightarrow> thresholds option \<Rightarrow> mp_globals \<Rightarrow> mp_globals" where
  "rabbit_set n what t g =
     (let s = get_status (dbl_of_int n) t; m = fmt_d n @ '' messages'' @ what
      in if s = STATE_WARNING then set_warning m g else if s = STATE_CRITICAL then set_critical m g else g)"

text \<open>The report. The name with the version of the server is the format of the message.\<close>

definition rabbit_report :: "'j json_lib \<Rightarrow> rabbit_args \<Rightarrow> 'j option \<Rightarrow> mp_globals \<Rightarrow> mp_end" where
  "rabbit_report lib a obj g =
     (let name = (case mp_json_object_object_get lib obj ''rabbitmq_version'' of
                    (found, v) \<Rightarrow> if found then ''RabbitMQ '' @ fmt_s (json_object_get_string lib v) @ '':'' else ''RabbitMQ'');
          totals = snd (mp_json_object_object_get lib obj ''queue_totals'')
      in if totals = None then critical ''Could not find queue_totals JSON object'' g
         else
           let messages = rabbit_count lib totals ''messages'';
               messages_ready = rabbit_count lib totals ''messages_ready'';
               messages_unacknowledged = rabbit_count lib totals ''messages_unacknowledged''
           in case mp_perfdata_int ''messages'' messages [] (messages_thresholds a) g of
                (t, g) \<Rightarrow>
                  (case mp_perfdata_int ''messages_ready'' messages_ready [] (messages_ready_thresholds a) g of
                     (t1, g) \<Rightarrow>
                       (case mp_perfdata_int ''messages_unacknowledged'' messages_unacknowledged [] (messages_unacknowledged_thresholds a) g of
                          (t2, g) \<Rightarrow>
                            let publish = snd (mp_json_object_object_get lib (snd (mp_json_object_object_get lib obj ''message_stats'')) ''publish'');
                                g = (if mp_showperfdata g then snd (mp_perfdata_int ''publish'' (json_object_get_int lib publish) ''c'' None g) else g);
                                g = rabbit_set messages [] t g;
                                g = rabbit_set messages_ready '' ready'' t1 g;
                                g = rabbit_set messages_unacknowledged '' unacknowledged'' t2 g
                            in exit_fmt0 mp_exit name g)))"

definition check_rabbitmq_main ::
    "bool \<Rightarrow> resolver \<Rightarrow> curl_env \<Rightarrow> 'j json_lib \<Rightarrow> nat \<Rightarrow> string \<Rightarrow> (char \<times> string) list \<Rightarrow> mp_globals \<Rightarrow> mp_end" where
  "check_rabbitmq_main v6 gai env lib argc help os g =
     (case rabbit_process_arguments v6 gai argc help os g of
        Inl e \<Rightarrow> e
      | Inr a \<Rightarrow>
          let url = cstr (mp_curl_url a ''http'' (the (rb_hostname a)) (rb_port a) ''/api/overview'');
              g = (if 0 < mp_verbose g then mp_print (''CURL Version: '' @ cu_version env @ nl @ ''Url: '' @ url @ nl) g else g)
          in case mp_curl_init env a g of
               Inl e \<Rightarrow> e
             | Inr opts \<Rightarrow>
                 (case mp_curl_perform env (opts @ [CURLOPT_URL url, CURLOPT_WRITEFUNCTION WriteData]) curl_io0 g of
                    Inl e \<Rightarrow> e
                  | Inr (tr, io, g) \<Rightarrow>
                      if tr_code tr \<noteq> 200 then critical (''RabbitMQ - HTTP Status '' @ fmt_d (tr_code tr) @ ''.'') g
                      else
                        let data = curl_text (io_answer io);
                            g = (if 2 < mp_verbose g then mp_print (''Answer: '' @ quoted (fmt_s data) @ nl) g else g)
                        in case mp_json_tokener_parse lib data g of
                             Inl e \<Rightarrow> e
                           | Inr obj \<Rightarrow>
                               rabbit_report lib a obj
                                 (if 1 < mp_verbose g then mp_print (''JSON:'' @ nl @ mp_json_object_to_json_string lib obj @ nl) g else g)))"

section \<open>The buffers\<close>

text \<open>Both buffers hold exactly their text: the address of the file is not cut, and the query ends with the last byte of its buffer.\<close>

theorem curl_buffers_fit:
  "cstr (tftp_url hostname filename) = ''tftp://'' @ hostname @ ''/'' @ filename \<and> cbuf_ok (tftp_url hostname filename) \<and>
   length (cstr (asp_query userkey password)) + 1 = cap (asp_query userkey password)"
  by (simp add: tftp_url_def asp_query_def cbuf_ok_def Let_def dq_def nl_def)

section \<open>The credits\<close>

lemma length_dec_str_le: "0 \<le> n \<Longrightarrow> n < 10 ^ Suc k \<Longrightarrow> length (dec_str n) \<le> Suc k"
proof (induction k arbitrary: n)
  case 0
  then show ?case by (simp add: base_str.simps)
next
  case (Suc k)
  have "length (dec_str (n div 10)) \<le> Suc k" if "10 \<le> n"
    using Suc.prems by (intro Suc.IH) (simp_all add: pos_imp_zdiv_nonneg_iff div_less_iff_less_mult)
  then show ?case using Suc.prems by (subst base_str.simps) auto
qed

text \<open>The answer of the service.\<close>

definition credit_xml :: "int \<Rightarrow> string \<Rightarrow> int \<Rightarrow> string" where
  "credit_xml code d n =
     ''<aspsms><ErrorCode>'' @ fmt_d code @ ''</ErrorCode><ErrorDescription>'' @ d @ ''</ErrorDescription><Credits>'' @ fmt_d n @
     ''</Credits></aspsms>''"

definition plain_text :: "string \<Rightarrow> bool" where
  "plain_text d \<longleftrightarrow> set d \<inter> set ''<>%'' = {} \<and> CHR 0x00 \<notin> set d"

lemma fmt_d_plain: "plain_text (fmt_d n)"
proof -
  have d: "48 \<le> ccode c \<and> ccode c \<le> 57" if "c \<in> set (dec_str \<bar>n\<bar>)" for c
    using isdigit_dec_str [OF _ that] by (simp add: isdigit_def)
  have "set (dec_str \<bar>n\<bar>) \<inter> set ''<>%'' = {} \<and> CHR 0x00 \<notin> set (dec_str \<bar>n\<bar>)"
    by (auto dest!: d simp: ccode_def)
  then show ?thesis by (auto simp: plain_text_def fmt_d_def)
qed

lemma credit_tokens:
  assumes "plain_text d"
  shows "strtoks ''<>'' (credit_xml code d n) =
    [[], ''aspsms'', [], ''ErrorCode'', fmt_d code, ''/ErrorCode'', [], ''ErrorDescription'', d, ''/ErrorDescription'', [],
     ''Credits'', fmt_d n, ''/Credits'', [], ''/aspsms'', []]"
proof -
  have h: "strtoks ''<>'' (t @ c # r) = t # strtoks ''<>'' r" if "set ''<>'' \<inter> set t = {}" "c \<in> set ''<>''" for t c r
    using that by (intro strtoks_hit)
  have d: "set ''<>'' \<inter> set d = {}" "\<And>n. set ''<>'' \<inter> set (fmt_d n) = {}"
    using assms fmt_d_plain by (auto simp: plain_text_def)
  show ?thesis
    unfolding credit_xml_def
    using h [of "[]"] h [of "''aspsms''"] h [of "''ErrorCode''"] h [of "''/ErrorCode''"] h [of "''ErrorDescription''"]
      h [of "''/ErrorDescription''"] h [of "''Credits''"] h [of "''/Credits''"] h [of "''/aspsms''"]
      h [OF d(1)] h [OF d(2)] strtoks_none [of "''<>''" "[]"]
    by simp
qed

lemma strtod_credits:
  assumes "\<bar>n\<bar> < 2 ^ 24"
  shows "fp_cast round_float (fst (strtod (fmt_d n))) = Num (n < 0) (of_int \<bar>n\<bar>)"
proof -
  have "strtod (fmt_d n) = (Num (n < 0) (of_int \<bar>n\<bar>), [])"
    using strtod_fmt_d [of "[]" n] round_double_dnum [of n] assms by (simp add: num_end_def dnum_def)
  moreover have "round_float (n < 0) (of_int \<bar>n\<bar>) = Num (n < 0) (of_int \<bar>n\<bar>)"
    using round_fp_of_int [of "\<bar>n\<bar>" 24 128 "-149" "n < 0"] assms by (cases "n = 0") (simp_all add: round_fp_def)
  ultimately show ?thesis by simp
qed

lemma asp_parse_credits:
  assumes "plain_text d" "INT_MIN \<le> code" "code \<le> INT_MAX" "\<bar>n\<bar> < 2 ^ 24"
  shows "asp_parse credit_keys (Some (credit_xml code d n)) =
    Some \<lparr>errorCode = code, errorDescription = Some d, credits = Num (n < 0) (of_int \<bar>n\<bar>)\<rparr>"
proof -
  have "strtol 10 (fmt_d code) = code"
    using assms(2,3) by (intro strtol_fmt_d) (simp_all add: INT_MIN_def INT_MAX_def LONG_MIN_def LONG_MAX_def)
  then show ?thesis
    using strtod_credits [OF assms(4)] to_int32_id [OF assms(2,3)]
    by (simp add: asp_parse_def credit_keys_def credit_tokens [OF assms(1)] asp_set_def)
qed

text \<open>The request that asks for the credits.\<close>

definition asp_request :: "curl_option list \<Rightarrow> string \<Rightarrow> curl_option list" where
  "asp_request opts q =
     opts @ [CURLOPT_URL xml_url, CURLOPT_POST, CURLOPT_READFUNCTION, CURLOPT_WRITEFUNCTION WriteData,
       CURLOPT_HTTPHEADER [''Content-Type: text/html'', ''Content-Length: '' @ fmt_d (int (length q))]]"

lemma asp_report_level:
  assumes "\<bar>n\<bar> < 2 ^ 24" "plain_text d" "asp_userkey a = Some u" "mp_verbose g = 0" "lvl = get_status (dbl_of_int n) (credit_thresholds a)"
  shows "asp_report a \<lparr>errorCode = code, errorDescription = Some d, credits = Num (n < 0) (of_int \<bar>n\<bar>)\<rparr> g =
    (if code \<noteq> 1 then unknown d g
     else (if lvl = STATE_OK then ok else if lvl = STATE_WARNING then warning else critical)
            (''ASP SMS '' @ fmt_d n @ ''.00 credits left for '' @ u @ ''.'') g)"
proof -
  have "int_of_fp (Num (n < 0) (of_int \<bar>n\<bar>)) = n" using assms(1) by (simp add: INT_MIN_def INT_MAX_def abs_if split: if_splits)
  moreover have "fmt_f 2 (Num (n < 0) (of_int \<bar>n\<bar>)) = fmt_d n @ ''.00''"
    using fmt_f_int [of 2 n] by (simp add: numeral_2_eq_2)
  moreover have "CHR ''%'' \<notin> set d" using assms(2) by (auto simp: plain_text_def)
  ultimately show ?thesis
    using get_status_cases [of "dbl_of_int n" "credit_thresholds a"] assms(3-5) unknown_report.fmt0_plain [of d g]
    by (auto simp: asp_report_def Let_def simp del: int_of_fp.simps fmt_f.simps)
qed

text \<open>What \<open>check_aspsms_credits\<close> reports. The service gets exactly the query for the account, whatever number of bytes libcurl asks for at a
  time, and the plugin reads its answer however it is cut into pieces: an error code other than 1 is UNKNOWN with the description, and otherwise the
  state is that of the credits and the text names them.\<close>

theorem check_aspsms_credits_result:
  assumes "asp_process_arguments argc help os g = Inr a" "asp_userkey a = Some u" "asp_password a = Some p" "mp_verbose g = 0"
    "mp_curl_init env curl_args0 g = Inr opts" "q = cstr (asp_query u p)" "length q < 10 ^ 7"
    "length q \<le> sum_list (cu_reads env (asp_request opts q))" "tr = cu_perform env (asp_request opts q) q"
    "tr_ret tr = CURLE_OK" "tr_code tr = 200" "tr_chunks tr \<noteq> []" "concat (tr_chunks tr) = credit_xml code d n"
    "plain_text d" "INT_MIN \<le> code" "code \<le> INT_MAX" "\<bar>n\<bar> < 2 ^ 24" "lvl = get_status (dbl_of_int n) (credit_thresholds a)"
  shows "\<exists>g'. check_aspsms_credits_main env argc help os g =
    (if code \<noteq> 1 then unknown d g'
     else (if lvl = STATE_OK then ok else if lvl = STATE_WARNING then warning else critical)
            (''ASP SMS '' @ fmt_d n @ ''.00 credits left for '' @ u @ ''.'') g')"
proof -
  let ?io = "curl_io0\<lparr>io_query := \<lparr>cd_data = Some (q @ [CHR 0x00]), cd_start = 0, cd_size = length q\<rparr>\<rparr>"
  have "length (fmt_d (int (length q))) \<le> 7"
    using length_dec_str_le [of "int (length q)" 6] assms(7) by (simp add: fmt_d_def)
  moreover have "to_int32 (int (length q)) = int (length q)"
    using assms(7) by (intro to_int32_id) (simp_all add: INT_MIN_def INT_MAX_def)
  ultimately have c: "mp_snprintf 24 (Some (''Content-Length: '' @ fmt_d (to_int32 (int (length q))))) g =
      Inr (''Content-Length: '' @ fmt_d (int (length q)))"
    by (simp add: mp_snprintf_def)
  obtain q' where x: "mp_curl_perform env (asp_request opts q) ?io g =
      Inr (tr, ?io\<lparr>io_query := q', io_answer := recv_all (tr_chunks tr) curl_data0\<rparr>, g)"
    using mp_curl_perform_post [of "asp_request opts q" ?io "q @ [CHR 0x00]" env tr g] mp_curl_init_opts [OF assms(5)] assms(8-10)
    by (auto simp: asp_request_def curl_io0_def)
  define g' where "g' = snd (mp_perfdata_float ''time'' (fp_cast round_float (tr_time tr)) ''s'' None g)"
  have v: "mp_verbose g' = 0" using assms(4) by (simp add: g'_def mp_perfdata_float_def mp_perfdata_float2_def perf_append_def Let_def)
  have t: "curl_text (recv_all (tr_chunks tr) curl_data0) = Some (credit_xml code d n)"
    using recv_all_text [OF assms(12)] assms(13,14) fmt_d_plain by (auto simp: credit_xml_def plain_text_def)
  have "check_aspsms_credits_main env argc help os g =
      asp_report a \<lparr>errorCode = code, errorDescription = Some d, credits = Num (n < 0) (of_int \<bar>n\<bar>)\<rparr> g'"
    using x c assms(1-6,11) t v asp_parse_credits [OF assms(14-17)]
    by (simp add: check_aspsms_credits_main_def asp_request_def Let_def g'_def)
  then show ?thesis using asp_report_level [OF assms(17,14,2) v assms(18)] by auto
qed

lemma asp_args0_thresholds:
  "credit_thresholds asp_args0 =
    Some \<lparr>th_warning = Some (spec_range TIME (Above (Bound 100 []))), th_critical = Some (spec_range TIME (Above (Bound 50 [])))\<rparr>"
proof -
  have "fmt_d 100 @ [] @ '':'' = ''100:''" "fmt_d 50 @ [] @ '':'' = ''50:''" by code_simp+
  then show ?thesis
    using parse_above [of TIME 100 "[]"] parse_above [of TIME 50 "[]"]
    by (simp add: asp_args0_def set_threshold_defs num_end_def unit_factor_def BISI_def TIME_def parse_time_multiplier_string_def del: spec_range.simps)
qed

text \<open>An account with 42 credits, in two pieces.\<close>

theorem check_aspsms_credits_result_witness:
  "\<exists>g'. check_aspsms_credits_main (curl_ex (cstr (asp_query ''key'' ''pw'')) [] [take 20 (credit_xml 1 ''Ok'' 42), drop 20 (credit_xml 1 ''Ok'' 42)])
     5 [] [(CHR ''U'', ''key''), (CHR ''P'', ''pw'')] check_aspsms_credits_globals = critical ''ASP SMS 42.00 credits left for key.'' g'"
proof -
  let ?env = "curl_ex (cstr (asp_query ''key'' ''pw'')) [] [take 20 (credit_xml 1 ''Ok'' 42), drop 20 (credit_xml 1 ''Ok'' 42)]"
  let ?a = "asp_args0\<lparr>asp_userkey := Some ''key'', asp_password := Some ''pw''\<rparr>"
  have a: "asp_process_arguments 5 [] [(CHR ''U'', ''key''), (CHR ''P'', ''pw'')] check_aspsms_credits_globals = Inr ?a"
    by (simp add: asp_process_arguments_def asp_opt_def getopt_wc_time_at_def)
  have v: "mp_verbose check_aspsms_credits_globals = 0" by (simp add: check_aspsms_credits_globals_def mp_init_def)
  have i: "mp_curl_init ?env curl_args0 check_aspsms_credits_globals = Inr [CURLOPT_USERAGENT ''monitoringplug-check_aspsms_credits/0.1'']"
    by (simp add: mp_curl_init_def curl_ex_def CURLE_OK_def check_aspsms_credits_globals_def mp_init_def mp_snprintf_def curl_auth_def curl_args0_def)
  have l: "length (cstr (asp_query ''key'' ''pw'')) = 138"
    using curl_buffers_fit [of "[]" "[]" "''key''" "''pw''"] by (simp add: asp_query_def)
  have t: "get_status (dbl_of_int 42) (credit_thresholds ?a) = STATE_CRITICAL"
    using round_double_int [of 42]
    by (simp add: asp_args0_thresholds get_status_def check_above unit_factor_def BISI_def TIME_def parse_time_multiplier_string_def del: spec_range.simps)
  have f: "fmt_d 42 = ''42''" by code_simp
  show ?thesis
    using check_aspsms_credits_result [OF a, of "''key''" "''pw''" ?env _ _ _ 1 "''Ok''" 42 STATE_CRITICAL, OF _ _ v i refl] l t f
    by (simp add: curl_ex_def CURLE_OK_def plain_text_def INT_MIN_def INT_MAX_def)
qed

interpretation asp_options: plugin_options asp_opt "\<lambda>a. thresholds_both (credit_thresholds a)"
proof
  fix a a' :: asp_args and c s g
  assume "thresholds_both (credit_thresholds a)" "asp_opt c s a g = Inr a'"
  then show "thresholds_both (credit_thresholds a')"
    by (auto simp: asp_opt_def Let_def thresholds_both_def getopt_wc_defs set_threshold_defs split: if_splits sum.splits prod.splits option.splits)
next
  fix a c s g e
  assume "asp_opt c s a g = Inl e"
  then show "exit_code e = Some STATE_UNKNOWN" by (auto simp: asp_opt_def Let_def refuse_simps split: sum.splits)
qed

interpretation tftp_options: plugin_options "tftp_opt v6 gai" "\<lambda>a. thresholds_both (fetch_thresholds a)" for v6 gai
proof
  fix a a' :: tftp_args and c s g
  assume p: "thresholds_both (fetch_thresholds a)" "tftp_opt v6 gai c s a g = Inr a'"
  then obtain t where t: "getopt_wc_time c s (fetch_thresholds a) g = Inr t" "fetch_thresholds a' = t"
    by (cases "getopt_host v6 gai s g"; cases "getopt_port s g") (auto simp: tftp_opt_def Let_def split: sum.splits if_splits)
  then show "thresholds_both (fetch_thresholds a')" using thresholds_both_keep(2) [OF p(1) t(1)] by simp
next
  fix a c s g e
  assume "tftp_opt v6 gai c s a g = Inl e"
  then show "exit_code e = Some STATE_UNKNOWN"
    by (cases "getopt_host v6 gai s g"; cases "getopt_port s g") (auto simp: tftp_opt_def Let_def refuse_simps split: sum.splits if_splits)
qed

section \<open>The queues\<close>

lemma rabbit_set_state: "mp_state (rabbit_set n what t g) = (let s = get_status (dbl_of_int n) t in if s = STATE_OK then mp_state g else max s (mp_state g))"
  using get_status_cases [of "dbl_of_int n" t] by (auto simp: rabbit_set_def Let_def)

definition rabbit_request :: "rabbit_args \<Rightarrow> curl_option list \<Rightarrow> curl_option list" where
  "rabbit_request a opts =
     opts @ [CURLOPT_URL (cstr (mp_curl_url a ''http'' (the (rb_hostname a)) (rb_port a) ''/api/overview'')), CURLOPT_WRITEFUNCTION WriteData]"

lemma rabbit_report_code:
  assumes "json_member lib (Some obj) ''rabbitmq_version'' = (True, Some v)" "json_object_get_string lib (Some v) = Some ver" "CHR ''%'' \<notin> set ver"
    "json_member lib (Some obj) ''queue_totals'' = (True, Some tot)" "mp_state g = -1"
    "no_percent (messages_thresholds a)" "no_percent (messages_ready_thresholds a)" "no_percent (messages_unacknowledged_thresholds a)"
  shows "exit_code (rabbit_report lib a (Some obj) g) = Some (Max
    {get_status (dbl_of_int (rabbit_count lib (Some tot) ''messages'')) (messages_thresholds a),
     get_status (dbl_of_int (rabbit_count lib (Some tot) ''messages_ready'')) (messages_ready_thresholds a),
     get_status (dbl_of_int (rabbit_count lib (Some tot) ''messages_unacknowledged'')) (messages_unacknowledged_thresholds a)})"
proof -
  let ?m = "rabbit_count lib (Some tot) ''messages''" and ?r = "rabbit_count lib (Some tot) ''messages_ready''"
    and ?u = "rabbit_count lib (Some tot) ''messages_unacknowledged''"
  have j: "mp_json_object_object_get lib (Some obj) ''rabbitmq_version'' = (True, Some v)"
      "mp_json_object_object_get lib (Some obj) ''queue_totals'' = (True, Some tot)"
    using assms(1,4) by (simp_all add: json_get_some)
  obtain g1 where g1: "mp_perfdata_int ''messages'' ?m [] (messages_thresholds a) g = (messages_thresholds a, g1)" "mp_state g1 = -1"
    using perfdata_thresholds(2) [OF assms(6)] perfdata_frame(3) assms(5) by (metis prod.collapse)
  obtain g2 where g2: "mp_perfdata_int ''messages_ready'' ?r [] (messages_ready_thresholds a) g1 = (messages_ready_thresholds a, g2)" "mp_state g2 = -1"
    using perfdata_thresholds(2) [OF assms(7)] perfdata_frame(3) g1(2) by (metis prod.collapse)
  obtain g3 where g3: "mp_perfdata_int ''messages_unacknowledged'' ?u [] (messages_unacknowledged_thresholds a) g2 =
      (messages_unacknowledged_thresholds a, g3)" "mp_state g3 = -1"
    using perfdata_thresholds(2) [OF assms(8)] perfdata_frame(3) g2(2) by (metis prod.collapse)
  have p: "printf0 (''RabbitMQ '' @ ver @ '':'') = Some (''RabbitMQ '' @ ver @ '':'')" using assms(3) by (intro printf0_plain) auto
  obtain g4 where g4: "rabbit_report lib a (Some obj) g = mp_exit (''RabbitMQ '' @ ver @ '':'')
      (rabbit_set ?u '' unacknowledged'' (messages_unacknowledged_thresholds a)
        (rabbit_set ?r '' ready'' (messages_ready_thresholds a) (rabbit_set ?m [] (messages_thresholds a) g4)))" "mp_state g4 = -1"
    using g3 that [of g3] that [of "snd (mp_perfdata_int ''publish'' (json_object_get_int lib (snd (mp_json_object_object_get lib
        (snd (mp_json_object_object_get lib (Some obj) ''message_stats'')) ''publish''))) ''c'' None g3)"] p
    by (cases "mp_showperfdata g3") (simp_all add: rabbit_report_def Let_def j g1(1) g2(1) fmt_s_def assms(2) exit_fmt0_def)
  show ?thesis
    using get_status_cases [of "dbl_of_int ?m" "messages_thresholds a"] get_status_cases [of "dbl_of_int ?r" "messages_ready_thresholds a"]
      get_status_cases [of "dbl_of_int ?u" "messages_unacknowledged_thresholds a"]
    unfolding g4(1) mp_exit_code rabbit_set_state Let_def g4(2) by (elim insertE emptyE) simp_all
qed

text \<open>What \<open>check_rabbitmq\<close> reports. When the server answers with its overview, the plugin ends with the worst of the states of the three
  counters of the queues, each against its own thresholds; a counter that is missing counts as -1.\<close>

theorem check_rabbitmq_worst:
  assumes "rabbit_process_arguments v6 gai argc help os g = Inr a" "mp_verbose g = 0" "mp_state g = -1" "mp_curl_init env a g = Inr opts"
    "tr = cu_perform env (rabbit_request a opts) []" "tr_ret tr = CURLE_OK" "tr_code tr = 200"
    "tr_chunks tr \<noteq> []" "concat (tr_chunks tr) = body" "CHR 0x00 \<notin> set body"
    "json_tokener_parse lib (Some body) = JsonObject (Some obj)" "json_member lib (Some obj) ''rabbitmq_version'' = (True, Some v)"
    "json_object_get_string lib (Some v) = Some ver" "CHR ''%'' \<notin> set ver" "json_member lib (Some obj) ''queue_totals'' = (True, Some tot)"
    "no_percent (messages_thresholds a)" "no_percent (messages_ready_thresholds a)" "no_percent (messages_unacknowledged_thresholds a)"
  shows "exit_code (check_rabbitmq_main v6 gai env lib argc help os g) = Some (Max
    {get_status (dbl_of_int (rabbit_count lib (Some tot) ''messages'')) (messages_thresholds a),
     get_status (dbl_of_int (rabbit_count lib (Some tot) ''messages_ready'')) (messages_ready_thresholds a),
     get_status (dbl_of_int (rabbit_count lib (Some tot) ''messages_unacknowledged'')) (messages_unacknowledged_thresholds a)})"
proof -
  have x: "mp_curl_perform env (rabbit_request a opts) curl_io0 g = Inr (tr, curl_io0\<lparr>io_answer := recv_all (tr_chunks tr) curl_data0\<rparr>, g)"
    using mp_curl_perform_get [of "rabbit_request a opts" tr env curl_io0 g] mp_curl_init_opts [OF assms(4)] assms(5,6)
    by (simp add: rabbit_request_def curl_io0_def)
  have t: "curl_text (recv_all (tr_chunks tr) curl_data0) = Some body" using recv_all_text [OF assms(8)] assms(9,10) by simp
  have "check_rabbitmq_main v6 gai env lib argc help os g = rabbit_report lib a (Some obj) g"
    using assms(1,2,4,7,11) x t by (simp add: check_rabbitmq_main_def rabbit_request_def mp_json_tokener_parse_def Let_def)
  then show ?thesis using rabbit_report_code [OF assms(12-15,3,16-18)] by simp
qed

text \<open>A server with 3 messages, of which one is ready and two are unacknowledged, and a limit of one for the last.\<close>

definition rabbit_doc :: json_value where
  "rabbit_doc = JObj [(''rabbitmq_version'', JText ''3.8''), (''queue_totals'',
     JObj [(''messages'', JInt 3), (''messages_ready'', JInt 1), (''messages_unacknowledged'', JInt 2)])]"

definition rabbit_ex_opts :: "(char \<times> string) list" where
  "rabbit_ex_opts = [(CHR ''H'', ''mq''), (MP_LONGOPT_PRIV3, ''1'')]"

definition rabbit_ex_args :: rabbit_args where
  "rabbit_ex_args = rabbit_args0\<lparr>rb_hostname := Some ''mq'', messages_unacknowledged_thresholds :=
     Some \<lparr>th_warning = Some (spec_range BISI (Upto (Bound 1 []))), th_critical = None\<rparr>\<rparr>"

lemma rabbit_ex_arguments: "rabbit_process_arguments True (\<lambda>f h. True) 3 [] rabbit_ex_opts check_rabbitmq_globals = Inr rabbit_ex_args"
proof -
  have "fmt_d 1 @ [] = ''1''" by code_simp
  then have "mp_threshold_set_warning None ''1'' BISI = (Some \<lparr>th_warning = Some (spec_range BISI (Upto (Bound 1 []))), th_critical = None\<rparr>, OK)"
    using parse_upto [of BISI 1 "[]"]
    by (simp add: set_threshold_defs num_end_def unit_factor_def BISI_def TIME_def parse_multiplier_string_def del: spec_range.simps)
  moreover have "getopt_host True (\<lambda>f h. True) ''mq'' check_rabbitmq_globals = Inr ''mq''" by code_simp
  ultimately show ?thesis
    by (simp add: rabbit_process_arguments_def rabbit_ex_opts_def rabbit_opt_def getopt_curl_def curl_flag_def FLAG_def getopt_wc_def Let_def
        long_threshold_def rabbit_ex_args_def rabbit_args0_def curl_args0_def curl_args.defs rabbit_args.defs
        MP_LONGOPT_PRIV0_def MP_LONGOPT_PRIV1_def MP_LONGOPT_PRIV2_def MP_LONGOPT_PRIV3_def MP_LONGOPT_PRIV4_def)
qed

theorem check_rabbitmq_worst_witness:
  "exit_code (check_rabbitmq_main True (\<lambda>f h. True) (curl_ex [] [] [''{}'']) (json_ex rabbit_doc) 3 [] rabbit_ex_opts check_rabbitmq_globals) =
    Some STATE_WARNING"
proof -
  let ?lib = "json_ex rabbit_doc"
  have g: "mp_verbose check_rabbitmq_globals = 0" "mp_state check_rabbitmq_globals = -1" by (simp_all add: check_rabbitmq_globals_def mp_init_def)
  have i: "mp_curl_init (curl_ex [] [] [''{}'']) rabbit_ex_args check_rabbitmq_globals = Inr [CURLOPT_USERAGENT ''monitoringplug-check_rabbitmq/0.1'']"
    by (simp add: mp_curl_init_def curl_ex_def CURLE_OK_def check_rabbitmq_globals_def mp_init_def mp_snprintf_def curl_auth_def
        rabbit_ex_args_def rabbit_args0_def curl_args0_def curl_args.defs rabbit_args.defs)
  define tot where "tot = JObj [(''messages'', JInt 3), (''messages_ready'', JInt 1), (''messages_unacknowledged'', JInt 2)]"
  have j: "json_tokener_parse ?lib (Some ''{}'') = JsonObject (Some rabbit_doc)"
      "json_member ?lib (Some rabbit_doc) ''rabbitmq_version'' = (True, Some (JText ''3.8''))"
      "json_object_get_string ?lib (Some (JText ''3.8'')) = Some ''3.8''"
      "json_member ?lib (Some rabbit_doc) ''queue_totals'' = (True, Some tot)"
    by (simp_all add: json_ex_def rabbit_doc_def tot_def)
  have n: "rabbit_count ?lib (Some tot) ''messages'' = 3" "rabbit_count ?lib (Some tot) ''messages_ready'' = 1"
      "rabbit_count ?lib (Some tot) ''messages_unacknowledged'' = 2"
    by (simp_all add: rabbit_count_def mp_json_object_object_get_def json_ex_def tot_def verbose_api_def)
  have t: "messages_thresholds rabbit_ex_args = None" "messages_ready_thresholds rabbit_ex_args = None"
      "messages_unacknowledged_thresholds rabbit_ex_args = Some \<lparr>th_warning = Some (spec_range BISI (Upto (Bound 1 []))), th_critical = None\<rparr>"
    by (simp_all add: rabbit_ex_args_def rabbit_args0_def curl_args.defs rabbit_args.defs)
  have s: "get_status (dbl_of_int 2) (messages_unacknowledged_thresholds rabbit_ex_args) = STATE_WARNING" "\<And>x. get_status x None = STATE_OK"
    using round_double_int [of 2]
    by (simp_all add: t(3) get_status_def check_upto unit_factor_def BISI_def TIME_def parse_multiplier_string_def del: spec_range.simps)
  show ?thesis
    using check_rabbitmq_worst [OF rabbit_ex_arguments g i refl, of "''{}''" ?lib rabbit_doc "JText ''3.8''" "''3.8''" tot] j n s t
    by (simp add: no_percent_def curl_ex_def CURLE_OK_def del: spec_range.simps)
qed

lemma long_threshold_refuses: "long_threshold name s r g = Inl e \<Longrightarrow> exit_code e = Some STATE_UNKNOWN"
  by (auto simp: long_threshold_def split: prod.splits if_splits)

interpretation rabbit_options: plugin_options "rabbit_opt v6 gai"
    "\<lambda>a. thresholds_set (messages_thresholds a) \<and> thresholds_set (messages_ready_thresholds a) \<and> thresholds_set (messages_unacknowledged_thresholds a)"
  for v6 gai
proof
  fix a a' :: rabbit_args and c s g
  assume p: "thresholds_set (messages_thresholds a) \<and> thresholds_set (messages_ready_thresholds a) \<and> thresholds_set (messages_unacknowledged_thresholds a)"
    "rabbit_opt v6 gai c s a g = Inr a'"
  define b where "b = getopt_curl c s (curl_flag c s a)"
  have b: "messages_thresholds b = messages_thresholds a" "messages_ready_thresholds b = messages_ready_thresholds a"
      "messages_unacknowledged_thresholds b = messages_unacknowledged_thresholds a"
    by (simp_all add: b_def getopt_curl_def curl_flag_def)
  obtain t where t: "getopt_wc c s (messages_thresholds a) g = Inr t"
    using p(2) by (auto simp: rabbit_opt_def Let_def b(1) b_def [symmetric] split: sum.splits)
  have "thresholds_set u" if "long_threshold name s (mp_threshold_set_warning x s m) g = Inr u" for name x m u
    using that thresholds_keep(3) by (auto simp: long_threshold_def split: prod.splits if_splits)
  moreover have "thresholds_set u" if "long_threshold name s (mp_threshold_set_critical x s m) g = Inr u" for name x m u
    using that thresholds_keep(4) by (auto simp: long_threshold_def split: prod.splits if_splits)
  ultimately show "thresholds_set (messages_thresholds a') \<and> thresholds_set (messages_ready_thresholds a') \<and>
      thresholds_set (messages_unacknowledged_thresholds a')"
    using p thresholds_keep(1) [OF _ t] b t
    by (auto simp: rabbit_opt_def Let_def b_def [symmetric] map_sum_def split: sum.splits if_splits)
next
  fix a c s g e
  assume "rabbit_opt v6 gai c s a g = Inl e"
  then show "exit_code e = Some STATE_UNKNOWN"
    by (auto simp: rabbit_opt_def Let_def refuse_simps long_threshold_refuses map_sum_def split: sum.splits if_splits)
qed

end
