(* ===== verification/Notify.thy ===== *)
theory Notify
  imports MP_Template Check_GSM Check_Curl
begin

text \<open>
  \<^verbatim>\<open>notify/notify_stdout.c\<close>, \<^verbatim>\<open>notify/notify_mail.c\<close>, \<^verbatim>\<open>notify/notify_sms.c\<close> and \<^verbatim>\<open>notify/notify_aspsms.c\<close>: a notification on the standard output, by
  mail, by a modem and by the ASPSMS service.

  The scanner and the parser of the templates are generated. They are a parameter: for a text, the calls of the functions of \<^verbatim>\<open>lib/mp_template.c\<close> that the
  actions make, and the message, symbol and line of a syntax error behind them. Files are a map, and so is what a process gets on its input: the answers
  of \<open>waitpid\<close> depend on it. libcurl and the modem are those of the other plugins.
\<close>

section \<open>The text of a notification\<close>

type_synonym tmpl_parser = "string \<Rightarrow> tact list \<times> (string \<times> string \<times> int) option"

definition run_template :: "tmpl_parser \<Rightarrow> string \<Rightarrow> mp_globals \<Rightarrow> mp_end + string" where
  "run_template parser text g =
     (case parser text of
        (as, err) \<Rightarrow>
          (case run_acts as tmpl_init of
             None \<Rightarrow> Inl Crash
           | Some t \<Rightarrow> (case err of None \<Rightarrow> Inr (tpl_output t) | Some (s, yytext, yylineno) \<Rightarrow> Inl (mp_template_error s yytext yylineno g))))"

definition mp_template :: "tmpl_parser \<Rightarrow> string \<Rightarrow> mp_globals \<Rightarrow> mp_end + string" where
  "mp_template parser contents g = run_template parser contents g"

definition mp_template_str :: "tmpl_parser \<Rightarrow> string \<Rightarrow> mp_globals \<Rightarrow> mp_end + string" where
  "mp_template_str parser text g = run_template parser text g"

definition notify_text :: "tmpl_parser \<Rightarrow> files \<Rightarrow> notify_vars \<Rightarrow> mp_globals \<Rightarrow> mp_end + string" where
  "notify_text parser fs n g =
     (case mp_notify_file n of
        Some f \<Rightarrow>
          (case fs f of
             None \<Rightarrow> Inl (critical (''Can'' @ [CHR 0x27] @ ''t open '' @ quoted f) g)
           | Some contents \<Rightarrow> mp_template parser contents g)
      | None \<Rightarrow> mp_template_str parser (the (mp_notify_msg n)) g)"

definition notify0 :: notify_vars where
  "notify0 = \<lparr>mp_notify_file = None, mp_notify_msg = None\<rparr>"

definition no_message :: "notify_vars \<Rightarrow> bool" where
  "no_message n \<longleftrightarrow> mp_notify_file n = None \<and> mp_notify_msg n = None"

section \<open>notify\_stdout\<close>

definition notify_stdout_globals :: mp_globals where
  "notify_stdout_globals = mp_init ''notify_stdout''
     (''--file <TEMPLATE> | --message <MESSAGE>'')
     ''0.1'' ''Marius Rieder <marius.rieder@durchmesser.ch>'' ''2012''"

definition notify_stdout_print_help :: "string \<Rightarrow> string \<Rightarrow> string" where
  "notify_stdout_print_help package version =
     print_revision package version notify_stdout_globals @
     print_copyright notify_stdout_globals @
     help_lines
       [[],
        ''Notify description: Print a notification to stdout for debuging.'',
        []] @
     print_usage notify_stdout_globals @
     print_help_notify"

definition stdout_process_arguments :: "(char \<times> string) list \<Rightarrow> mp_globals \<Rightarrow> mp_end + notify_vars" where
  "stdout_process_arguments os g =
     (case run_opts getopt_notify os notify0 g of
        Inl e \<Rightarrow> Inl e
      | Inr n \<Rightarrow> if no_message n then Inl (usage ''--file or --message is mandatory.'' g) else Inr n)"

definition notify_stdout_main :: "tmpl_parser \<Rightarrow> files \<Rightarrow> (char \<times> string) list \<Rightarrow> mp_globals \<Rightarrow> mp_end" where
  "notify_stdout_main parser fs os g =
     (case stdout_process_arguments os g of
        Inl e \<Rightarrow> e
      | Inr n \<Rightarrow> (case notify_text parser fs n g of Inl e \<Rightarrow> e | Inr out \<Rightarrow> Exit 0 (stdout g @ out)))"

section \<open>notify\_mail\<close>

definition notify_mail_globals :: mp_globals where
  "notify_mail_globals = mp_init ''notify_mail''
     (''--to <DEST> --file <TEMPLATE> | --message <MESSAGE>'')
     ''0.1'' ''Marius Rieder <marius.rieder@durchmesser.ch>'' ''2012''"

definition notify_mail_print_help :: "string \<Rightarrow> string \<Rightarrow> string" where
  "notify_mail_print_help package version =
     print_revision package version notify_mail_globals @
     print_copyright notify_mail_globals @
     help_lines
       [[],
        ''Notify description: Send a notification by mail.'',
        []] @
     print_usage notify_mail_globals @
     print_help_notify @
     help_lines
       ['' -T, --to=DESTINATION'',
        ''      Address to send Mail to.'',
        '' -f, --from=DESTINATION'',
        ''      Address to send Mail from.'',
        ''     --bcc'',
        ''      Send notification as BCC messages..'']"

record mail_args =
  ma_notify :: notify_vars
  ma_email :: "string option list"
  ma_emails :: nat
  ma_from :: "string option"
  ma_bcc :: bool
  bin_sendmail :: string

definition mail_args0 :: "string \<Rightarrow> mail_args" where
  "mail_args0 sendmail = \<lparr>ma_notify = notify0, ma_email = [], ma_emails = 0, ma_from = None, ma_bcc = False, bin_sendmail = sendmail\<rparr>"

text \<open>The long option \<open>bcc\<close> sets its flag and takes an argument, which is dropped.\<close>

definition mail_opt :: "mail_args opt_handler" where
  "mail_opt c optarg a g =
     (case getopt_notify c optarg (ma_notify a) g of
        Inl e \<Rightarrow> Inl e
      | Inr n \<Rightarrow>
          let a = a\<lparr>ma_notify := n, ma_bcc := (ma_bcc a \<or> c = FLAG \<and> optarg = ''bcc'')\<rparr>
          in Inr (if c = CHR ''T''
                  then (case mp_array_push (ma_email a) (Some optarg) (ma_emails a) of (arr, n) \<Rightarrow> a\<lparr>ma_email := arr, ma_emails := n\<rparr>)
                  else if c = CHR ''f'' then a\<lparr>ma_from := Some optarg\<rparr>
                  else if c = CHR ''s'' then a\<lparr>bin_sendmail := optarg\<rparr>
                  else a))"

definition mail_process_arguments :: "string \<Rightarrow> (char \<times> string) list \<Rightarrow> mp_globals \<Rightarrow> mp_end + mail_args" where
  "mail_process_arguments sendmail os g =
     (case run_opts mail_opt os (mail_args0 sendmail) g of
        Inl e \<Rightarrow> Inl e
      | Inr a \<Rightarrow>
          if ma_emails a = 0 then Inl (usage ''--to is mandatory.'' g)
          else if no_message (ma_notify a) then Inl (usage ''--file or --message is mandatory.'' g)
          else Inr a)"

text \<open>The process: what \<open>mp_subprocess\<close> returns, whether the text can be written, and the answers of \<open>waitpid\<close> for what it was given.\<close>

record mail_env =
  me_spawn :: "string list \<Rightarrow> sp_check"
  me_write_ok :: bool
  me_waits :: "string \<Rightarrow> wait_result list"

definition mail_header :: "string \<Rightarrow> string \<Rightarrow> mail_args \<Rightarrow> string" where
  "mail_header package version a =
     (case ma_from a of Some f \<Rightarrow> if ma_bcc a then ''To: '' @ f @ nl else [] | None \<Rightarrow> []) @
     concat (map (\<lambda>e. (if ma_bcc a then ''Bcc: '' else ''To: '') @ fmt_s e @ nl) (take (ma_emails a) (ma_email a))) @
     ''X-Mailer: '' @ package @ '' ('' @ version @ '')'' @ nl"

definition notify_mail_main ::
    "string \<Rightarrow> string \<Rightarrow> string \<Rightarrow> tmpl_parser \<Rightarrow> files \<Rightarrow> mail_env \<Rightarrow> (char \<times> string) list \<Rightarrow> mp_globals \<Rightarrow> mp_end" where
  "notify_mail_main sendmail package version parser fs env os g =
     (case mail_process_arguments sendmail os g of
        Inl e \<Rightarrow> e
      | Inr a \<Rightarrow>
          (case notify_text parser fs (ma_notify a) g of
             Inl e \<Rightarrow> e
           | Inr out \<Rightarrow>
               (case me_spawn env [bin_sendmail a, ''-t''] of
                  Started pid \<Rightarrow>
                    let mail = mail_header package version a @ (if me_write_ok env then out else []) @ ''.'' @ nl;
                        g = (if me_write_ok env then g else mp_print (''Send mail failed.'' @ nl) g)
                    in (case mp_subprocess_close (me_waits env mail) of
                          None \<Rightarrow> (case timeout_alarm_handler SIGALRM g of Inl e \<Rightarrow> e | Inr _ \<Rightarrow> Crash)
                        | Some r \<Rightarrow> Exit 0 (stdout g @ (if r \<noteq> 0 then ''Send mail failed.'' else ''Mail sent.'') @ nl))
                | _ \<Rightarrow> Crash)))"

section \<open>notify\_sms\<close>

definition notify_sms_globals :: mp_globals where
  "notify_sms_globals = mp_init ''notify_sms''
     (''--number <NUMBER> --message <MSG>'')
     ''0.1'' ''Marius Rieder <marius.rieder@durchmesser.ch>'' ''2012''"

definition notify_sms_print_help :: "string \<Rightarrow> string \<Rightarrow> string" where
  "notify_sms_print_help package version =
     print_revision package version notify_sms_globals @
     print_copyright notify_sms_globals @
     help_lines
       [[],
        ''Notify description: Send a notification by SMS with a Modem.'',
        []] @
     print_usage notify_sms_globals @
     print_help_notify @
     print_help_serial @
     help_lines
       ['' -n, --number=DESTINATION'',
        ''      Number to send SMS to.'',
        '' -P, --pin=PIN'',
        ''      PIN to unlock the SIM.'']"

record sms_args =
  sa_notify :: notify_vars
  sa_serial :: serial_vars
  sa_pin :: "string option"
  sa_number :: "string option"

definition sms_args0 :: sms_args where
  "sms_args0 = \<lparr>sa_notify = notify0, sa_serial = serial_init, sa_pin = None, sa_number = None\<rparr>"

definition sms_opt :: "sms_args opt_handler" where
  "sms_opt c optarg a g =
     (case getopt_notify c optarg (sa_notify a) g of
        Inl e \<Rightarrow> Inl e
      | Inr n \<Rightarrow>
          (case getopt_serial c optarg (sa_serial a) g of
             Inl e \<Rightarrow> Inl e
           | Inr v \<Rightarrow>
               let a = a\<lparr>sa_notify := n, sa_serial := v\<rparr>
               in Inr (if c = CHR ''P'' then a\<lparr>sa_pin := Some optarg\<rparr> else if c = CHR ''n'' then a\<lparr>sa_number := Some optarg\<rparr> else a)))"

definition sms_process_arguments :: "(char \<times> string) list \<Rightarrow> mp_globals \<Rightarrow> mp_end + sms_args" where
  "sms_process_arguments os g =
     (case run_opts sms_opt os sms_args0 g of
        Inl e \<Rightarrow> Inl e
      | Inr a \<Rightarrow>
          if sa_number a = None then Inl (usage ''Destination number is mandatory.'' g)
          else if no_message (sa_notify a) then Inl (usage ''--file or --message is mandatory.'' g)
          else Inr a)"

text \<open>The PIN: neither the result of the command nor the number of its answers is looked at, and the message \<open>SIM ask for\<close> uses the
  answer after \<open>mp_array_free\<close> set its pointer to NULL.\<close>

definition sms_pin :: "string option \<Rightarrow> modem \<Rightarrow> mp_globals \<Rightarrow> mp_end + modem" where
  "sms_pin pin m g =
     (case at_ask ''+CPIN'' (Some ''?'') m g of
        Inl e \<Rightarrow> Inl e
      | Inr (_, _, m) \<Rightarrow>
          (case md_answer m of
             [] \<Rightarrow> Inl Crash
           | a # _ \<Rightarrow>
               if a = ''SIM PIN''
               then (case pin of
                       None \<Rightarrow> Inl (critical ''SIM ask for PIN.'' g)
                     | Some p \<Rightarrow> map_sum (\<lambda>e. e) at_free (gsm_unlock p m g))
               else if a \<noteq> ''READY'' then Inl Crash
               else Inr (at_free m)))"

text \<open>A command with an input, without answers.\<close>

definition at_input :: "string \<Rightarrow> string \<Rightarrow> string \<Rightarrow> modem \<Rightarrow> mp_globals \<Rightarrow> mp_end + int" where
  "at_input cmd opt inp m g =
     (let chunks = (case md_replies m of [] \<Rightarrow> [] | r # _ \<Rightarrow> r)
      in case mobile_at_command_input (md_write m) (md_junk m) cmd (Some opt) (Some inp) False chunks g of
           Inl e \<Rightarrow> Inl e
         | Inr AtOverrun \<Rightarrow> Inl Crash
         | Inr (AtReturn r _) \<Rightarrow> Inr r)"

definition sms_session :: "(string \<Rightarrow> int list option) \<Rightarrow> tmpl_parser \<Rightarrow> files \<Rightarrow> sms_args \<Rightarrow> modem \<Rightarrow> mp_globals \<Rightarrow> mp_end" where
  "sms_session mbstowcs parser fs a m g =
     (case gsm_ready 5 m g of
        Inl e \<Rightarrow> e
      | Inr m \<Rightarrow>
          (case sms_pin (sa_pin a) m g of
             Inl e \<Rightarrow> e
           | Inr m \<Rightarrow>
               (case at_cmd ''+CMGF'' (Some ''=0'') False m g of
                  Inl e \<Rightarrow> e
                | Inr (r, m) \<Rightarrow>
                    if r \<noteq> 0 then critical ''Can not setup SMS Mode.'' g
                    else case notify_text parser fs (sa_notify a) g of
                           Inl e \<Rightarrow> e
                         | Inr msg \<Rightarrow>
                             (case sms_encode_pdu mbstowcs None (the (sa_number a)) msg of
                                None \<Rightarrow> Crash
                              | Some pdu \<Rightarrow>
                                  let g = (if 0 < mp_verbose g then mp_print (''PDU: '' @ cstr pdu @ nl) g else g)
                                  in case at_input ''+CMGS'' (''='' @ pad_dec 2 (int (length (cstr pdu) div 2))) (cstr pdu) m g of
                                       Inl e \<Rightarrow> e
                                     | Inr r \<Rightarrow> if r = 0 then ok ''SMS Sent.'' g else critical ''Sending failed!'' g))))"

definition notify_sms_main ::
    "(string \<Rightarrow> int) \<Rightarrow> (int \<Rightarrow> termios) \<Rightarrow> (string \<Rightarrow> int list option) \<Rightarrow> tmpl_parser \<Rightarrow> files \<Rightarrow> modem \<Rightarrow> (char \<times> string) list \<Rightarrow> mp_globals \<Rightarrow> mp_end" where
  "notify_sms_main open_dev tcgetattr mbstowcs parser fs m os g =
     (case sms_process_arguments os g of
        Inl e \<Rightarrow> e
      | Inr a \<Rightarrow>
          (case mp_serial_device (sa_serial a) of
             None \<Rightarrow> critical (''Can'' @ [CHR 0x27] @ ''t open Serial Port '' @ quoted ''(null)'') g
           | Some dev \<Rightarrow>
               (case mp_serial_open open_dev tcgetattr dev (mp_serial_speed (sa_serial a)) (sa_serial a) g of
                  Inl e \<Rightarrow> e
                | Inr _ \<Rightarrow> sms_session mbstowcs parser fs a m g)))"

section \<open>notify\_aspsms\<close>

definition notify_aspsms_globals :: mp_globals where
  "notify_aspsms_globals = mp_init ''notify_mail''
     (''--to <DEST> --file <TEMPLATE> | --message <MESSAGE>'')
     ''0.1'' ''Marius Rieder <marius.rieder@durchmesser.ch>'' ''2012''"

definition notify_aspsms_print_help :: "string \<Rightarrow> string \<Rightarrow> string" where
  "notify_aspsms_print_help package version =
     print_revision package version notify_aspsms_globals @
     print_copyright notify_aspsms_globals @
     help_lines
       [[],
        ''Notify description: Send a notification by mail.'',
        []] @
     print_usage notify_aspsms_globals @
     print_help_notify @
     help_lines
       ['' -T, --to=DESTINATION'',
        ''      Number to send SMS to.'',
        '' -f, --from=DESTINATION'',
        ''      Number to send SMS from.'']"

record aspsms_args =
  aa_notify :: notify_vars
  aa_userkey :: "string option"
  aa_password :: "string option"
  aa_number :: "string option list"
  aa_numbers :: nat
  aa_from :: "string option"

definition aspsms_args0 :: aspsms_args where
  "aspsms_args0 = \<lparr>aa_notify = notify0, aa_userkey = None, aa_password = None, aa_number = [], aa_numbers = 0, aa_from = None\<rparr>"

definition aspsms_opt :: "aspsms_args opt_handler" where
  "aspsms_opt c optarg a g =
     (case getopt_notify c optarg (aa_notify a) g of
        Inl e \<Rightarrow> Inl e
      | Inr n \<Rightarrow>
          let a = a\<lparr>aa_notify := n\<rparr>
          in Inr (if c = CHR ''U'' then a\<lparr>aa_userkey := Some optarg\<rparr>
                  else if c = CHR ''P'' then a\<lparr>aa_password := Some optarg\<rparr>
                  else if c = CHR ''T''
                  then (case mp_array_push (aa_number a) (Some optarg) (aa_numbers a) of (arr, n) \<Rightarrow> a\<lparr>aa_number := arr, aa_numbers := n\<rparr>)
                  else if c = CHR ''f'' then a\<lparr>aa_from := Some optarg\<rparr>
                  else a))"

definition aspsms_process_arguments :: "(char \<times> string) list \<Rightarrow> mp_globals \<Rightarrow> mp_end + aspsms_args" where
  "aspsms_process_arguments os g =
     (case run_opts aspsms_opt os aspsms_args0 g of
        Inl e \<Rightarrow> Inl e
      | Inr a \<Rightarrow>
          if aa_userkey a = None \<or> aa_password a = None then Inl (usage ''Userkey and password are mandatory.'' g)
          else if aa_numbers a = 0 then Inl (usage ''--to is mandatory.'' g)
          else if no_message (aa_notify a) then Inl (usage ''--file or --message is mandatory.'' g)
          else Inr a)"

text \<open>The pieces of the query, which are put behind each other with the callback for an answer. The lengths of the constant pieces are numbers of the source.\<close>

definition aspsms_pieces :: "aspsms_args \<Rightarrow> string \<Rightarrow> string list" where
  "aspsms_pieces a out =
     [take 53 (''<?xml version='' @ dq @ ''1.0'' @ dq @ '' encoding='' @ dq @ ''ISO-8859-1'' @ dq @ ''?>'' @ nl @ ''<aspsms>'' @ nl),
      ''<Userkey>'' @ fmt_s (aa_userkey a) @ ''</Userkey>'' @ nl @ ''<Password>'' @ fmt_s (aa_password a) @ ''</Password>'' @ nl] @
     (case aa_from a of None \<Rightarrow> [] | Some f \<Rightarrow> [''<Originator>'' @ f @ ''</Originator>'' @ nl]) @
     [take 12 (''<Recipient>'' @ nl)] @
     map (\<lambda>n. ''<PhoneNumber>'' @ fmt_s n @ ''</PhoneNumber>'' @ nl) (take (aa_numbers a) (aa_number a)) @
     [take 13 (''</Recipient>'' @ nl),
      ''<MessageData>'' @ out @ ''</MessageData>'' @ nl @ ''<Action>SendTextSMS</Action>'' @ nl @ ''</aspsms>'' @ nl]"

definition aspsms_keys :: "string list" where
  "aspsms_keys = [''ErrorCode'', ''ErrorDescription'']"

definition aspsms_result :: "asp_st \<Rightarrow> mp_globals \<Rightarrow> mp_end" where
  "aspsms_result st g =
     (if errorCode st \<noteq> 1 then Exit 1 (stdout g @ ''SMS sending failed: '' @ fmt_s (errorDescription st) @ nl)
      else Exit 0 (stdout g @ ''SMS sent.'' @ nl))"

definition notify_aspsms_main :: "curl_env \<Rightarrow> tmpl_parser \<Rightarrow> files \<Rightarrow> (char \<times> string) list \<Rightarrow> mp_globals \<Rightarrow> mp_end" where
  "notify_aspsms_main env parser fs os g =
     (case aspsms_process_arguments os g of
        Inl e \<Rightarrow> e
      | Inr a \<Rightarrow>
          (case notify_text parser fs (aa_notify a) g of
             Inl e \<Rightarrow> e
           | Inr out \<Rightarrow>
               let query = recv_all (aspsms_pieces a out) curl_data0;
                   g = (if 3 < mp_verbose g then mp_print (fmt_s (curl_text query)) g else g)
               in case mp_curl_init env curl_args0 g of
                    Inl e \<Rightarrow> e
                  | Inr opts \<Rightarrow>
                      (case mp_snprintf 24 (Some (''Content-Length: '' @ fmt_d (to_int32 (int (cd_size query))))) g of
                         Inl e \<Rightarrow> e
                       | Inr c \<Rightarrow>
                           (case mp_curl_perform env
                                   (opts @ [CURLOPT_URL xml_url, CURLOPT_POST, CURLOPT_READFUNCTION, CURLOPT_WRITEFUNCTION WriteData,
                                      CURLOPT_HTTPHEADER [''Content-Type: text/html'', c]])
                                   (curl_io0\<lparr>io_query := query\<rparr>) g of
                              Inl e \<Rightarrow> e
                            | Inr (tr, io, g) \<Rightarrow>
                                let data = curl_text (io_answer io);
                                    g = (if 1 < mp_verbose g then mp_print (''Answer: '' @ quoted (fmt_s data) @ nl) g else g)
                                in if tr_code tr \<noteq> 200 then Exit 1 (stdout g @ ''XML-API request failed.'' @ nl)
                                   else case asp_parse aspsms_keys data of None \<Rightarrow> Crash | Some st \<Rightarrow> aspsms_result st g))))"

section \<open>Templates\<close>

text \<open>A template whose parser finds its blocks is printed as they mean.\<close>

lemma run_template_sems:
  assumes "parser text = (actss bs, None)"
  shows "run_template parser text g = Inr (sems bs)"
proof -
  have "good tmpl_init" by (simp add: good_def tmpl_inv_def tmpl_init_def memblock_def)
  then have "emits (actss bs) (sems bs) False tmpl_init"
    using template_runs(2) [of bs] by (auto simp: runs_like_def tmpl_init_def dest!: spec [of _ tmpl_init])
  then show ?thesis using assms by (auto simp: emits_def run_template_def tmpl_init_def)
qed

lemma notify_text_msg:
  assumes "mp_notify_file n = None" "mp_notify_msg n = Some msg" "parser msg = (actss bs, None)"
  shows "notify_text parser fs n g = Inr (sems bs)"
  using assms run_template_sems [of parser msg bs g] by (simp add: notify_text_def mp_template_str_def)

lemma notify_text_file:
  assumes "mp_notify_file n = Some f" "fs f = Some contents" "parser contents = (actss bs, None)"
  shows "notify_text parser fs n g = Inr (sems bs)"
  using assms run_template_sems [of parser contents bs g] by (simp add: notify_text_def mp_template_def)

section \<open>Mail\<close>

text \<open>The mail of \<open>notify_mail\<close>. For a message given on the command line sendmail gets a line for every recipient, a Bcc line with \<open>--bcc\<close>, the line of the mailer, the
  text the template means and a final point; the plugin always exits with 0, and only its output tells whether sendmail did.\<close>

theorem notify_mail_sent:
  assumes "mail_process_arguments sendmail os g = Inr a" "mp_notify_file (ma_notify a) = None" "mp_notify_msg (ma_notify a) = Some msg"
    "parser msg = (actss bs, None)" "me_spawn env [bin_sendmail a, ''-t''] = Started pid" "me_write_ok env"
    "ma_email a = map Some tos" "ma_emails a = length tos" "ma_from a = Some from"
    "mail = (if ma_bcc a then ''To: '' @ from @ nl else []) @ concat (map (\<lambda>t. (if ma_bcc a then ''Bcc: '' else ''To: '') @ t @ nl) tos) @
       ''X-Mailer: '' @ package @ '' ('' @ version @ '')'' @ nl @ sems bs @ ''.'' @ nl"
    "mp_subprocess_close (me_waits env mail) = Some r"
  shows "notify_mail_main sendmail package version parser fs env os g =
    Exit 0 (stdout g @ (if r = 0 then ''Mail sent.'' else ''Send mail failed.'') @ nl)"
proof -
  have h: "mail_header package version a @ sems bs @ ''.'' @ nl = mail"
    using assms(7-10) by (simp add: mail_header_def comp_def fmt_s_def)
  show ?thesis
    using assms(1,5,6,11) notify_text_msg [of "ma_notify a" msg parser bs fs g] assms(2-4) h by (simp add: notify_mail_main_def Let_def)
qed

definition mail_ex_opts :: "(char \<times> string) list" where
  "mail_ex_opts = [(CHR ''T'', ''a@x,b@x''), (CHR ''f'', ''c@x''), (FLAG, ''bcc''), (CHR ''m'', ''hello'')]"

definition mail_ex_env :: mail_env where
  "mail_ex_env = \<lparr>me_spawn = (\<lambda>_. Started 7), me_write_ok = True,
     me_waits = (\<lambda>mail. [WaitError EINTR, WaitStatus (if mail = ''To: c@x'' @ nl @ ''Bcc: a@x'' @ nl @ ''Bcc: b@x'' @ nl @ ''X-Mailer: mp (1)'' @ nl @ ''hi'' @ ''.'' @ nl
       then 0 else 256)])\<rparr>"

theorem notify_mail_sent_witness:
  "notify_mail_main ''/usr/sbin/sendmail'' ''mp'' ''1'' (\<lambda>_. (actss [BIf 1 [BText (Some ''hi'')] None], None)) Map.empty mail_ex_env mail_ex_opts notify_mail_globals =
    Exit 0 (''Mail sent.'' @ nl)"
proof -
  let ?a = "\<lparr>ma_notify = \<lparr>mp_notify_file = None, mp_notify_msg = Some ''hello''\<rparr>, ma_email = [Some ''a@x'', Some ''b@x''], ma_emails = 2, ma_from = Some ''c@x'',
    ma_bcc = True, bin_sendmail = ''/usr/sbin/sendmail''\<rparr>"
  have "mp_array_push [] (Some ''a@x,b@x'') 0 = ([Some ''a@x'', Some ''b@x''], 2)" by code_simp
  then have a: "mail_process_arguments ''/usr/sbin/sendmail'' mail_ex_opts notify_mail_globals = Inr ?a"
    by (simp add: mail_process_arguments_def mail_ex_opts_def mail_opt_def mail_args0_def notify0_def no_message_def getopt_notify_def FLAG_def Let_def)
  have "stdout notify_mail_globals = []" by (simp add: notify_mail_globals_def mp_init_def)
  moreover have "mp_subprocess_close (me_waits mail_ex_env (''To: c@x'' @ nl @ ''Bcc: a@x'' @ nl @ ''Bcc: b@x'' @ nl @ ''X-Mailer: mp (1)'' @ nl @ ''hi'' @ ''.'' @ nl)) = Some 0"
    by (simp add: mail_ex_env_def)
  ultimately show ?thesis
    using notify_mail_sent [OF a, of "''hello''" "\<lambda>_. (actss [BIf 1 [BText (Some ''hi'')] None], None)" "[BIf 1 [BText (Some ''hi'')] None]" mail_ex_env 7
        "[''a@x'', ''b@x'']" "''c@x''" "''To: c@x'' @ nl @ ''Bcc: a@x'' @ nl @ ''Bcc: b@x'' @ nl @ ''X-Mailer: mp (1)'' @ nl @ ''hi'' @ ''.'' @ nl" "''mp''" "''1''" 0]
    by (simp add: mail_ex_env_def)
qed

text \<open>Without sendmail the plugin uses the NULL pointer that \<open>mp_subprocess\<close> returns.\<close>

theorem notify_mail_missing:
  assumes "mail_process_arguments sendmail os g = Inr a" "notify_text parser fs (ma_notify a) g = Inr out" "me_spawn env [bin_sendmail a, ''-t''] = NoAccess"
  shows "notify_mail_main sendmail package version parser fs env os g = Crash"
  using assms by (simp add: notify_mail_main_def)

section \<open>The service\<close>

definition send_xml :: "int \<Rightarrow> string \<Rightarrow> string" where
  "send_xml code d = ''<aspsms><ErrorCode>'' @ fmt_d code @ ''</ErrorCode><ErrorDescription>'' @ d @ ''</ErrorDescription></aspsms>''"

lemma asp_parse_send:
  assumes "plain_text d" "INT_MIN \<le> code" "code \<le> INT_MAX"
  shows "asp_parse aspsms_keys (Some (send_xml code d)) = Some \<lparr>errorCode = code, errorDescription = Some d, credits = Num False 0\<rparr>"
proof -
  have h: "strtoks ''<>'' (t @ c # r) = t # strtoks ''<>'' r" if "set ''<>'' \<inter> set t = {}" "c \<in> set ''<>''" for t c r
    using that by (intro strtoks_hit)
  have d: "set ''<>'' \<inter> set d = {}" "\<And>n. set ''<>'' \<inter> set (fmt_d n) = {}"
    using assms fmt_d_plain by (auto simp: plain_text_def)
  have "strtoks ''<>'' (send_xml code d) =
      [[], ''aspsms'', [], ''ErrorCode'', fmt_d code, ''/ErrorCode'', [], ''ErrorDescription'', d, ''/ErrorDescription'', [], ''/aspsms'', []]"
    unfolding send_xml_def
    using h [of "[]"] h [of "''aspsms''"] h [of "''ErrorCode''"] h [of "''/ErrorCode''"] h [of "''ErrorDescription''"]
      h [of "''/ErrorDescription''"] h [of "''/aspsms''"] h [OF d(1)] h [OF d(2)] strtoks_none [of "''<>''" "[]"]
    by simp
  moreover have "strtol 10 (fmt_d code) = code"
    using assms(2,3) by (intro strtol_fmt_d) (simp_all add: INT_MIN_def INT_MAX_def LONG_MIN_def LONG_MAX_def)
  ultimately show ?thesis using to_int32_id [OF assms(2,3)] by (simp add: asp_parse_def aspsms_keys_def asp_set_def)
qed

text \<open>The query as a text.\<close>

definition aspsms_xml :: "aspsms_args \<Rightarrow> string list \<Rightarrow> string \<Rightarrow> string" where
  "aspsms_xml a numbers out =
     ''<?xml version='' @ dq @ ''1.0'' @ dq @ '' encoding='' @ dq @ ''ISO-8859-1'' @ dq @ ''?>'' @ nl @ ''<aspsms>'' @ nl @
     ''<Userkey>'' @ the (aa_userkey a) @ ''</Userkey>'' @ nl @ ''<Password>'' @ the (aa_password a) @ ''</Password>'' @ nl @
     (case aa_from a of None \<Rightarrow> [] | Some f \<Rightarrow> ''<Originator>'' @ f @ ''</Originator>'' @ nl) @
     ''<Recipient>'' @ nl @ concat (map (\<lambda>n. ''<PhoneNumber>'' @ n @ ''</PhoneNumber>'' @ nl) numbers) @ ''</Recipient>'' @ nl @
     ''<MessageData>'' @ out @ ''</MessageData>'' @ nl @ ''<Action>SendTextSMS</Action>'' @ nl @ ''</aspsms>'' @ nl"

lemma concat_aspsms_pieces:
  assumes "aa_userkey a = Some u" "aa_password a = Some p" "aa_number a = map Some numbers" "aa_numbers a = length numbers"
  shows "concat (aspsms_pieces a out) = aspsms_xml a numbers out"
  using assms by (simp add: aspsms_pieces_def aspsms_xml_def dq_def nl_def fmt_s_def comp_def split: option.split)

text \<open>What \<open>notify_aspsms\<close> sends. The service gets the XML text with the account, the originator, every number and the text the template means, whatever number of bytes
  libcurl asks for at a time; the plugin exits with 0 exactly when the service answers with the code 1, and names its description otherwise.\<close>

theorem notify_aspsms_sent:
  assumes "aspsms_process_arguments os g = Inr a" "aa_userkey a = Some u" "aa_password a = Some p" "aa_number a = map Some numbers"
    "aa_numbers a = length numbers" "mp_notify_file (aa_notify a) = None" "mp_notify_msg (aa_notify a) = Some msg" "parser msg = (actss bs, None)"
    "mp_verbose g = 0" "mp_curl_init env curl_args0 g = Inr opts" "q = aspsms_xml a numbers (sems bs)" "length q < 10 ^ 7"
    "length q \<le> sum_list (cu_reads env (asp_request opts q))" "tr = cu_perform env (asp_request opts q) q" "tr_ret tr = CURLE_OK" "tr_code tr = 200"
    "tr_chunks tr \<noteq> []" "concat (tr_chunks tr) = send_xml code d" "plain_text d" "INT_MIN \<le> code" "code \<le> INT_MAX"
  shows "notify_aspsms_main env parser fs os g =
    (if code = 1 then Exit 0 (stdout g @ ''SMS sent.'' @ nl) else Exit 1 (stdout g @ ''SMS sending failed: '' @ d @ nl))"
proof -
  let ?q = "recv_all (aspsms_pieces a (sems bs)) curl_data0"
  have "holds q ?q" using recv_all_holds [of "[]" curl_data0 "aspsms_pieces a (sems bs)"] concat_aspsms_pieces [OF assms(2-5)] assms(11)
    by (simp add: holds_def curl_data0_def)
  moreover have "cd_data ?q \<noteq> None" by (intro recv_all_data) (simp add: aspsms_pieces_def)
  moreover have "cd_start (recv_all cs d) = cd_start d" for cs d by (induction cs arbitrary: d) (simp_all add: recv_all_def mp_curl_recv_data_def)
  ultimately have qd: "cd_data ?q = Some (q @ [CHR 0x00])" "cd_size ?q = length q" "cd_start ?q = 0"
    by (auto simp: holds_def curl_data0_def)
  have "length (fmt_d (int (length q))) \<le> 7"
    using length_dec_str_le [of "int (length q)" 6] assms(12) by (simp add: fmt_d_def)
  moreover have "to_int32 (int (length q)) = int (length q)"
    using assms(12) by (intro to_int32_id) (simp_all add: INT_MIN_def INT_MAX_def)
  ultimately have c: "mp_snprintf 24 (Some (''Content-Length: '' @ fmt_d (to_int32 (int (length q))))) g =
      Inr (''Content-Length: '' @ fmt_d (int (length q)))"
    by (simp add: mp_snprintf_def)
  obtain q' where x: "mp_curl_perform env (asp_request opts q) (curl_io0\<lparr>io_query := ?q\<rparr>) g =
      Inr (tr, curl_io0\<lparr>io_query := q', io_answer := recv_all (tr_chunks tr) curl_data0\<rparr>, g)"
    using mp_curl_perform_post [of "asp_request opts q" "curl_io0\<lparr>io_query := ?q\<rparr>" "q @ [CHR 0x00]" env tr g] mp_curl_init_opts [OF assms(10)]
      assms(13-15) qd by (auto simp: asp_request_def curl_io0_def)
  have t: "curl_text (recv_all (tr_chunks tr) curl_data0) = Some (send_xml code d)"
    using recv_all_text [OF assms(17)] assms(18,19) fmt_d_plain by (auto simp: send_xml_def plain_text_def)
  show ?thesis
    using assms(1,9,10,16) notify_text_msg [of "aa_notify a" msg parser bs fs g] assms(6-8) x [unfolded asp_request_def] c t asp_parse_send [OF assms(19-21)] qd(2)
    by (simp add: notify_aspsms_main_def aspsms_result_def Let_def fmt_s_def)
qed

definition aspsms_ex_opts :: "(char \<times> string) list" where
  "aspsms_ex_opts = [(CHR ''U'', ''key''), (CHR ''P'', ''pw''), (CHR ''T'', ''+411''), (CHR ''m'', ''hello'')]"

definition aspsms_ex_args :: aspsms_args where
  "aspsms_ex_args = \<lparr>aa_notify = \<lparr>mp_notify_file = None, mp_notify_msg = Some ''hello''\<rparr>, aa_userkey = Some ''key'', aa_password = Some ''pw'',
     aa_number = [Some ''+411''], aa_numbers = 1, aa_from = None\<rparr>"

definition aspsms_ex :: curl_env where
  "aspsms_ex = (curl_ex (aspsms_xml aspsms_ex_args [''+411''] ''hello'') [] [send_xml 1 ''Ok''])\<lparr>cu_reads := (\<lambda>_. [200, 200])\<rparr>"

theorem notify_aspsms_sent_witness:
  "notify_aspsms_main aspsms_ex (\<lambda>s. (actss [BText (Some s)], None)) Map.empty aspsms_ex_opts notify_aspsms_globals = Exit 0 (''SMS sent.'' @ nl)"
proof -
  have "mp_array_push [] (Some ''+411'') 0 = ([Some ''+411''], 1)" by code_simp
  then have a: "aspsms_process_arguments aspsms_ex_opts notify_aspsms_globals = Inr aspsms_ex_args"
    by (simp add: aspsms_process_arguments_def aspsms_ex_opts_def aspsms_opt_def aspsms_args0_def aspsms_ex_args_def notify0_def no_message_def getopt_notify_def Let_def)
  have f: "aa_userkey aspsms_ex_args = Some ''key''" "aa_password aspsms_ex_args = Some ''pw''" "aa_number aspsms_ex_args = map Some [''+411'']"
      "aa_numbers aspsms_ex_args = length [''+411'']" "mp_notify_file (aa_notify aspsms_ex_args) = None" "mp_notify_msg (aa_notify aspsms_ex_args) = Some ''hello''"
    by (simp_all add: aspsms_ex_args_def)
  have g: "mp_verbose notify_aspsms_globals = 0" "stdout notify_aspsms_globals = []" by (simp_all add: notify_aspsms_globals_def mp_init_def)
  have i: "mp_curl_init aspsms_ex curl_args0 notify_aspsms_globals = Inr [CURLOPT_USERAGENT ''monitoringplug-notify_mail/0.1'']"
    by (simp add: mp_curl_init_def aspsms_ex_def curl_ex_def CURLE_OK_def notify_aspsms_globals_def mp_init_def mp_snprintf_def curl_auth_def curl_args0_def)
  have l: "length (aspsms_xml aspsms_ex_args [''+411''] ''hello'') < 400" by (simp add: aspsms_xml_def aspsms_ex_args_def dq_def nl_def)
  show ?thesis
    using notify_aspsms_sent [OF a f, of "\<lambda>s. (actss [BText (Some s)], None)" "[BText (Some ''hello'')]" aspsms_ex _ _ _ 1 "''Ok''" Map.empty, OF _ g(1) i refl] l g(2)
    by (simp add: aspsms_ex_def curl_ex_def CURLE_OK_def plain_text_def INT_MIN_def INT_MAX_def)
qed

section \<open>The modem\<close>

text \<open>A short message is sent when the modem is ready, needs no PIN, and accepts the mode and the PDU of the number and the text the template means.\<close>

theorem sms_session_sent:
  assumes "gsm_ready 5 m g = Inr m1" "at_ask ''+CPIN'' (Some ''?'') m1 g = Inr (r, n, m2)" "md_answer m2 = ''READY'' # as"
    "at_cmd ''+CMGF'' (Some ''=0'') False (at_free m2) g = Inr (0, m3)" "notify_text parser fs (sa_notify a) g = Inr msg"
    "sms_encode_pdu mbstowcs None (the (sa_number a)) msg = Some pdu" "mp_verbose g = 0"
    "at_input ''+CMGS'' (''='' @ pad_dec 2 (int (length (cstr pdu) div 2))) (cstr pdu) m3 g = Inr r'"
  shows "sms_session mbstowcs parser fs a m g = (if r' = 0 then ok ''SMS Sent.'' g else critical ''Sending failed!'' g)"
  using assms by (simp add: sms_session_def sms_pin_def Let_def)

section \<open>The options\<close>

lemma getopt_notify_refuses: "getopt_notify c s n g = Inl e \<Longrightarrow> exit_code e = Some STATE_UNKNOWN"
  by (auto simp: getopt_notify_def split: if_splits)

definition exclusive :: "notify_vars \<Rightarrow> bool" where
  "exclusive n \<longleftrightarrow> mp_notify_file n = None \<or> mp_notify_msg n = None"

lemma getopt_notify_exclusive: "exclusive n \<Longrightarrow> getopt_notify c s n g = Inr n' \<Longrightarrow> exclusive n'"
  by (auto simp: exclusive_def getopt_notify_def split: if_splits)

interpretation stdout_options: plugin_options getopt_notify exclusive
  by unfold_locales (auto intro: getopt_notify_exclusive getopt_notify_refuses)

interpretation mail_options: plugin_options mail_opt "\<lambda>a. exclusive (ma_notify a) \<and> array_full (ma_email a) (ma_emails a)"
proof
  fix a a' :: mail_args and c s g
  assume "exclusive (ma_notify a) \<and> array_full (ma_email a) (ma_emails a)" "mail_opt c s a g = Inr a'"
  then show "exclusive (ma_notify a') \<and> array_full (ma_email a') (ma_emails a')"
    by (auto simp: mail_opt_def Let_def mp_array_push_full split: sum.splits if_splits prod.splits intro: getopt_notify_exclusive)
qed (auto simp: mail_opt_def Let_def getopt_notify_refuses split: sum.splits)

interpretation sms_options: plugin_options sms_opt "\<lambda>a. exclusive (sa_notify a)"
proof
  fix a a' :: sms_args and c s g
  assume "exclusive (sa_notify a)" "sms_opt c s a g = Inr a'"
  then show "exclusive (sa_notify a')"
    by (auto simp: sms_opt_def Let_def split: sum.splits if_splits intro: getopt_notify_exclusive)
qed (auto simp: sms_opt_def Let_def getopt_notify_refuses getopt_serial_def split: sum.splits if_splits option.splits)

interpretation aspsms_options: plugin_options aspsms_opt "\<lambda>a. exclusive (aa_notify a) \<and> array_full (aa_number a) (aa_numbers a)"
proof
  fix a a' :: aspsms_args and c s g
  assume "exclusive (aa_notify a) \<and> array_full (aa_number a) (aa_numbers a)" "aspsms_opt c s a g = Inr a'"
  then show "exclusive (aa_notify a') \<and> array_full (aa_number a') (aa_numbers a')"
    by (auto simp: aspsms_opt_def Let_def mp_array_push_full split: sum.splits if_splits prod.splits intro: getopt_notify_exclusive)
qed (auto simp: aspsms_opt_def Let_def getopt_notify_refuses split: sum.splits)

end
