(* ===== verification/Spec2Isabelle.thy ===== *)
theory Spec2Isabelle
  imports MP_Perfdata MP_Template SMS_Utils Check_DHCP Check_File Check_Sockets Check_Bonding Check_Mem
    Check_Memcached Check_Clustat FCGI_Utils Check_UPS Check_PDU Check_GSM Check_Simple Check_Redis
    Check_SELinux Check_MySQL Check_RPC Check_Oping Check_PgSQL
    Check_HTTP Check_WebDAV Notify
begin

text \<open>
  A verification development for the Monitoring Plugin collection.
\<close>

end
